(* ===== verification/Prelude.thy ===== *)
theory Prelude
  imports Main "HOL-Library.Word"
begin

text \<open>
  Shared vocabulary of the development: the fixed-width integers of the C code, the result
  codes of \<^verbatim>\<open>src/src/types.h\<close>, the two ways the C code passes an object by pointer
  (which may be NULL), the search, update and delete loops that every component writes over
  its fixed-size arrays, and the C string operations.

  Conventions used by every component theory:
  \<^item> a struct is a record, an enum a datatype; a counted array \<open>a[0..count)\<close> is the list
    of its live elements, so the count is its length;
  \<^item> \<open>int\<close> of the C code is \<open>int\<close>, \<open>uint8_t\<close> to \<open>uint64_t\<close> are words and wrap around,
    \<open>size_t\<close> is \<open>nat\<close> with \<open>mod 2 ^ 64\<close> written out where an addition can wrap;
  \<^item> a \<open>float\<close> is its IEEE 754 bit pattern (theory \<open>Float32\<close>);
  \<^item> a pointer that may be NULL is an option;
  \<^item> every function that reads the clock takes the reading as an argument;
  \<^item> logging has no effect on the state and is left out, callbacks are returned as events.
\<close>

unbundle bit_operations_syntax

section \<open>Collections of facts\<close>

named_theorems wtc_simps \<open>rewrite rules shared by the component proofs\<close>
named_theorems inv_intros \<open>invariant preservation, one rule per operation\<close>

section \<open>Machine integers\<close>

type_synonym u8 = "8 word"
type_synonym u16 = "16 word"
type_synonym u32 = "32 word"
type_synonym u64 = "64 word"

lemma word_eq_by_bits:
  fixes a b :: "'a::len word"
  assumes "\<And>n. n < LENGTH('a) \<Longrightarrow> bit a n = bit b n"
  shows "a = b"
  using assms by (auto intro: bit_word_eqI)

lemma word_diff_zero_time: "(t::u64) - t = 0"
  by simp

text \<open>Elapsed time in the unsigned arithmetic of the clock: exact whenever time runs forward.\<close>

lemma unat_elapsed:
  fixes now start :: u64
  assumes "start \<le> now"
  shows "unat (now - start) = unat now - unat start"
  using assms by (simp add: unat_sub)

section \<open>Result codes\<close>

datatype wtc_result =
    WTC_OK
  | WTC_ERROR
  | WTC_ERROR_INVALID_PARAM
  | WTC_ERROR_NO_MEMORY
  | WTC_ERROR_NOT_FOUND
  | WTC_ERROR_TIMEOUT
  | WTC_ERROR_BUSY
  | WTC_ERROR_NOT_INITIALIZED
  | WTC_ERROR_ALREADY_EXISTS
  | WTC_ERROR_CONNECTION_FAILED
  | WTC_ERROR_IO
  | WTC_ERROR_PROTOCOL
  | WTC_ERROR_PERMISSION
  | WTC_ERROR_FULL
  | WTC_ERROR_EMPTY
  | WTC_ERROR_INTERNAL
  | WTC_ERROR_NOT_CONNECTED

section \<open>Calls through a handle that may be NULL\<close>

text \<open>
  A public function receives its object by pointer and returns an error when the pointer is
  NULL. \<open>on_handle e f h\<close> is such a call: \<open>e\<close> for the NULL handle, the body \<open>f\<close> on the
  object otherwise. \<open>with_handle\<close> is the same for a function that does not change the object.
\<close>

definition on_handle :: "'r \<Rightarrow> ('s \<Rightarrow> 'r \<times> 's) \<Rightarrow> 's option \<Rightarrow> 'r \<times> 's option" where
  "on_handle e f h = (case h of None \<Rightarrow> (e, None) | Some s \<Rightarrow> (let (r, s') = f s in (r, Some s')))"

definition with_handle :: "'r \<Rightarrow> ('s \<Rightarrow> 'r) \<Rightarrow> 's option \<Rightarrow> 'r" where
  "with_handle e f h = (case h of None \<Rightarrow> e | Some s \<Rightarrow> f s)"

lemma on_handle_simps [simp]:
  "on_handle e f None = (e, None)"
  "on_handle e f (Some s) = (fst (f s), Some (snd (f s)))"
  by (simp_all add: on_handle_def split_beta)

lemma with_handle_simps [simp]:
  "with_handle e f None = e"
  "with_handle e f (Some s) = f s"
  by (simp_all add: with_handle_def)

section \<open>Loops over counted arrays\<close>

text \<open>
  The three loops the C code writes over an array \<open>a[0..count)\<close>:
  return the first match; change the first match in place and return; delete the first match
  by shifting the rest down. \<open>None\<close> is the fall-through after the loop (no match).
  The first is the library's \<^const>\<open>List.find\<close>.
\<close>

primrec update_first :: "('a \<Rightarrow> bool) \<Rightarrow> ('a \<Rightarrow> 'a) \<Rightarrow> 'a list \<Rightarrow> 'a list option" where
  "update_first p f [] = None"
| "update_first p f (x # xs) = (if p x then Some (f x # xs) else map_option ((#) x) (update_first p f xs))"

primrec remove_first :: "('a \<Rightarrow> bool) \<Rightarrow> 'a list \<Rightarrow> 'a list option" where
  "remove_first p [] = None"
| "remove_first p (x # xs) = (if p x then Some xs else map_option ((#) x) (remove_first p xs))"

primrec find_pos :: "('a \<Rightarrow> bool) \<Rightarrow> 'a list \<Rightarrow> nat option" where
  "find_pos p [] = None"
| "find_pos p (x # xs) = (if p x then Some 0 else map_option Suc (find_pos p xs))"

lemma find_None_update: "List.find p xs = None \<longleftrightarrow> update_first p f xs = None"
  by (induction xs) auto

lemma find_None_remove: "List.find p xs = None \<longleftrightarrow> remove_first p xs = None"
  by (induction xs) auto

lemma find_None_pos: "List.find p xs = None \<longleftrightarrow> find_pos p xs = None"
  by (induction xs) auto

lemma find_pos_SomeD: "find_pos p xs = Some k \<Longrightarrow> k < length xs \<and> p (xs ! k)"
  by (induction xs arbitrary: k) (auto split: if_splits)

lemma update_first_length: "update_first p f xs = Some ys \<Longrightarrow> length ys = length xs"
  by (induction xs arbitrary: ys) (auto split: if_splits)

lemma remove_first_length: "remove_first p xs = Some ys \<Longrightarrow> length xs = Suc (length ys)"
  by (induction xs arbitrary: ys) (auto split: if_splits)

lemma update_first_map:
  assumes "update_first p f xs = Some ys" and "\<And>x. x \<in> set xs \<Longrightarrow> p x \<Longrightarrow> g (f x) = g x"
  shows "map g ys = map g xs"
  using assms by (induction xs arbitrary: ys) (auto split: if_splits)

lemma update_first_set:
  "update_first p f xs = Some ys \<Longrightarrow> y \<in> set ys \<Longrightarrow> y \<in> set xs \<or> (\<exists>x \<in> set xs. p x \<and> y = f x)"
  by (induction xs arbitrary: ys) (auto split: if_splits)

lemma remove_first_set: "remove_first p xs = Some ys \<Longrightarrow> set ys \<subseteq> set xs"
  by (induction xs arbitrary: ys) (auto split: if_splits)

lemma remove_first_split:
  "remove_first p xs = Some ys \<Longrightarrow>
     \<exists>as x bs. xs = as @ x # bs \<and> ys = as @ bs \<and> p x \<and> (\<forall>a \<in> set as. \<not> p a)"
proof (induction xs arbitrary: ys)
  case Nil
  then show ?case by simp
next
  case (Cons z zs)
  show ?case
  proof (cases "p z")
    case True
    with Cons.prems have "z # zs = [] @ z # zs \<and> ys = [] @ zs \<and> p z \<and> (\<forall>a \<in> set []. \<not> p a)"
      by simp
    then show ?thesis by blast
  next
    case False
    with Cons.prems obtain ws where "remove_first p zs = Some ws" and ys: "ys = z # ws"
      by auto
    with Cons.IH obtain as x bs where "zs = as @ x # bs" "ws = as @ bs" "p x" "\<forall>a \<in> set as. \<not> p a"
      by blast
    with False ys have "z # zs = (z # as) @ x # bs \<and> ys = (z # as) @ bs \<and> p x \<and>
        (\<forall>a \<in> set (z # as). \<not> p a)"
      by simp
    then show ?thesis by blast
  qed
qed

lemma update_first_split:
  "update_first p f xs = Some ys \<Longrightarrow>
     \<exists>as x bs. xs = as @ x # bs \<and> ys = as @ f x # bs \<and> p x \<and> (\<forall>a \<in> set as. \<not> p a)"
proof (induction xs arbitrary: ys)
  case Nil
  then show ?case by simp
next
  case (Cons z zs)
  show ?case
  proof (cases "p z")
    case True
    with Cons.prems have "z # zs = [] @ z # zs \<and> ys = [] @ f z # zs \<and> p z \<and> (\<forall>a \<in> set []. \<not> p a)"
      by simp
    then show ?thesis by blast
  next
    case False
    with Cons.prems obtain ws where "update_first p f zs = Some ws" and ys: "ys = z # ws"
      by auto
    with Cons.IH obtain as x bs where "zs = as @ x # bs" "ws = as @ f x # bs" "p x" "\<forall>a \<in> set as. \<not> p a"
      by blast
    with False ys have "z # zs = (z # as) @ x # bs \<and> ys = (z # as) @ f x # bs \<and> p x \<and>
        (\<forall>a \<in> set (z # as). \<not> p a)"
      by simp
    then show ?thesis by blast
  qed
qed

lemma find_update_same:
  assumes "update_first p f xs = Some ys" and "\<And>x. p x \<Longrightarrow> p (f x)"
  shows "List.find p ys = map_option f (List.find p xs)"
  using assms by (induction xs arbitrary: ys) (auto split: if_splits)

lemma find_update_other:
  assumes "update_first p f xs = Some ys"
    and "\<And>x. p x \<Longrightarrow> q (f x) = q x" and "\<And>x. p x \<Longrightarrow> \<not> q x"
  shows "List.find q ys = List.find q xs"
  using assms by (induction xs arbitrary: ys) (auto split: if_splits)

lemma find_remove_other:
  assumes "remove_first p xs = Some ys" and "\<And>x. p x \<Longrightarrow> \<not> q x"
  shows "List.find q ys = List.find q xs"
  using assms by (induction xs arbitrary: ys) (auto split: if_splits)

lemma find_append_new: "List.find p xs = None \<Longrightarrow> List.find p (xs @ [y]) = (if p y then Some y else None)"
  by (induction xs) (auto split: if_splits)

lemma find_append_old: "\<not> p y \<Longrightarrow> List.find p (xs @ [y]) = List.find p xs"
  by (induction xs) auto

lemma find_SomeD: "List.find p xs = Some x \<Longrightarrow> p x \<and> x \<in> set xs"
  by (induction xs) (auto split: if_splits)

lemma find_None_iff_all: "List.find p xs = None \<longleftrightarrow> (\<forall>x \<in> set xs. \<not> p x)"
  by (induction xs) auto

lemma find_distinct_key:
  assumes "distinct (map key xs)" and "x \<in> set xs"
  shows "List.find (\<lambda>y. key y = key x) xs = Some x"
  using assms by (induction xs) (auto simp: rev_image_eqI)

lemma distinct_remove_first:
  assumes "remove_first p xs = Some ys" and "distinct (map key xs)"
  shows "distinct (map key ys)"
  using remove_first_split [OF assms(1)] assms(2) by auto

lemma find_removed_key:
  assumes "remove_first (\<lambda>y. key y = k) xs = Some ys" and "distinct (map key xs)"
  shows "List.find (\<lambda>y. key y = k) ys = None"
proof -
  obtain as x bs where s: "xs = as @ x # bs" "ys = as @ bs" "key x = k" "\<forall>a \<in> set as. key a \<noteq> k"
    using remove_first_split [OF assms(1)] by blast
  have "key x \<notin> key ` set bs" using assms(2) s(1) by simp
  then have "\<forall>b \<in> set bs. key b \<noteq> k" using s(3) by (metis image_eqI)
  with s show ?thesis by (auto simp: find_None_iff_all)
qed

text \<open>\<open>for (i = 0; i < n; i++)\<close> with the events of the iterations.\<close>

primrec for_each :: "(nat \<Rightarrow> 's \<Rightarrow> 'e list \<times> 's) \<Rightarrow> nat list \<Rightarrow> 's \<Rightarrow> 'e list \<times> 's" where
  "for_each f [] s = ([], s)"
| "for_each f (i # is) s = (let (evs, s') = f i s; (evs', s'') = for_each f is s' in (evs @ evs', s''))"

lemma for_each_append: "snd (for_each f (is @ js) s) = snd (for_each f js (snd (for_each f is s)))"
  by (induction "is" arbitrary: s) (simp_all add: split_beta Let_def)

lemma for_each_upto: "snd (for_each f [0..<Suc n] s) = snd (f n (snd (for_each f [0..<n] s)))"
  by (simp add: for_each_append split_beta)

lemma for_each_inv:
  "P s \<Longrightarrow> (\<And>i t. i \<in> set is \<Longrightarrow> P t \<Longrightarrow> P (snd (f i t))) \<Longrightarrow> P (snd (for_each f is s))"
  by (induction "is" arbitrary: s) (simp_all add: split_beta Let_def)

lemma for_each_cong:
  assumes "P s" and "\<And>i t. i \<in> set is \<Longrightarrow> P t \<Longrightarrow> f i t = g i t" and "\<And>i t. i \<in> set is \<Longrightarrow> P t \<Longrightarrow> P (snd (g i t))"
  shows "for_each f is s = for_each g is s"
  using assms by (induction "is" arbitrary: s) (simp_all add: split_beta Let_def)

text \<open>A loop whose iteration \<open>i\<close> changes only entry \<open>i\<close> of an array: the entry after the loop is what its
  iteration made of the entry before the loop, in some state reached on the way.\<close>

lemma for_each_entry:
  assumes "\<And>i t. get (snd (f i t)) = (get t)[i := h i (get t ! i) t]" and "n \<le> length (get s)"
  shows "length (get (snd (for_each f [0..<n] s))) = length (get s)" (is ?len)
    and "k < n \<Longrightarrow> \<exists>t. get (snd (for_each f [0..<n] s)) ! k = h k (get s ! k) t" (is "_ \<Longrightarrow> ?entry")
    and "n \<le> k \<Longrightarrow> get (snd (for_each f [0..<n] s)) ! k = get s ! k" (is "_ \<Longrightarrow> ?rest")
proof -
  have "length (get (snd (for_each f [0..<n] s))) = length (get s) \<and>
    (\<forall>k. (k < n \<longrightarrow> (\<exists>t. get (snd (for_each f [0..<n] s)) ! k = h k (get s ! k) t)) \<and>
      (n \<le> k \<longrightarrow> get (snd (for_each f [0..<n] s)) ! k = get s ! k))"
    using assms(2)
  proof (induction n)
    case (Suc n)
    then show ?case by (auto simp: for_each_upto assms(1) nth_list_update less_Suc_eq simp del: upt_Suc)
  qed simp
  then show ?len "k < n \<Longrightarrow> ?entry" "n \<le> k \<Longrightarrow> ?rest" by auto
qed

text \<open>The same for an iteration that is only known to relate the new entry to the old one.\<close>

lemma for_each_related:
  assumes "\<And>i t. \<exists>e'. get (snd (f i t)) = (get t)[i := e'] \<and> (i < length (get t) \<longrightarrow> R i (get t ! i) e')" and "n \<le> length (get s)"
  shows "length (get (snd (for_each f [0..<n] s))) = length (get s)" (is ?len)
    and "k < n \<Longrightarrow> R k (get s ! k) (get (snd (for_each f [0..<n] s)) ! k)" (is "_ \<Longrightarrow> ?entry")
    and "n \<le> k \<Longrightarrow> get (snd (for_each f [0..<n] s)) ! k = get s ! k" (is "_ \<Longrightarrow> ?rest")
proof -
  have "length (get (snd (for_each f [0..<n] s))) = length (get s) \<and>
    (\<forall>k. (k < n \<longrightarrow> R k (get s ! k) (get (snd (for_each f [0..<n] s)) ! k)) \<and>
      (n \<le> k \<longrightarrow> get (snd (for_each f [0..<n] s)) ! k = get s ! k))"
    using assms(2)
  proof (induction n)
    case (Suc n)
    let ?t = "snd (for_each f [0..<n] s)"
    obtain e' where e: "get (snd (f n ?t)) = (get ?t)[n := e']" "n < length (get ?t) \<longrightarrow> R n (get ?t ! n) e'"
      using assms(1) by blast
    with Suc show ?case by (auto simp: for_each_upto nth_list_update less_Suc_eq simp del: upt_Suc)
  qed simp
  then show ?len "k < n \<Longrightarrow> ?entry" "n \<le> k \<Longrightarrow> ?rest" by auto
qed

section \<open>Lists as memory\<close>

definition memcpy_at :: "'a list \<Rightarrow> nat \<Rightarrow> 'a list \<Rightarrow> 'a list" where
  "memcpy_at mem pos src = take pos mem @ src @ drop (pos + length src) mem"

definition mem_read :: "'a list \<Rightarrow> nat \<Rightarrow> nat \<Rightarrow> 'a list" where
  "mem_read mem pos len = take len (drop pos mem)"

lemma length_memcpy_at [simp]:
  "pos + length src \<le> length mem \<Longrightarrow> length (memcpy_at mem pos src) = length mem"
  by (simp add: memcpy_at_def)

lemma length_mem_read [simp]: "pos + len \<le> length mem \<Longrightarrow> length (mem_read mem pos len) = len"
  by (simp add: mem_read_def)

lemma mem_read_written [simp]:
  "pos + length src \<le> length mem \<Longrightarrow> len = length src \<Longrightarrow> mem_read (memcpy_at mem pos src) pos len = src"
  by (simp add: mem_read_def memcpy_at_def)

lemma mem_read_below:
  assumes "p + len \<le> pos" and "pos + length src \<le> length mem"
  shows "mem_read (memcpy_at mem pos src) p len = mem_read mem p len"
proof -
  have "len \<le> pos - p" and "p \<le> length (take pos mem)"
    using assms by auto
  then show ?thesis
    using assms by (simp add: mem_read_def memcpy_at_def drop_take)
qed

lemma mem_read_split: "mem_read mem p (m + n) = mem_read mem p m @ mem_read mem (p + m) n"
  by (simp add: mem_read_def take_add add.commute)

section \<open>C strings\<close>

text \<open>
  A C string is the list of its characters before the terminator. Copying it into a zeroed
  array of \<open>n + 1\<close> characters with \<open>strncpy(dst, src, n)\<close> or \<open>snprintf(dst, n + 1, "%s", src)\<close>
  keeps the first \<open>n\<close> characters. \<open>strcmp(a, b) == 0\<close> is equality.
\<close>

definition cstr_copy :: "nat \<Rightarrow> string \<Rightarrow> string" where
  "cstr_copy n s = take n s"

lemma length_cstr_copy: "length (cstr_copy n s) \<le> n"
  by (simp add: cstr_copy_def)

lemma cstr_copy_id: "length s \<le> n \<Longrightarrow> cstr_copy n s = s"
  by (simp add: cstr_copy_def)

lemma cstr_copy_idem [simp]: "cstr_copy n (cstr_copy n s) = cstr_copy n s"
  by (simp add: cstr_copy_def)

text \<open>Decimal output of \<open>%u\<close> and \<open>%d\<close>.\<close>

definition digit_char :: "nat \<Rightarrow> char" where
  "digit_char d = char_of (48 + d)"

fun fmt_u :: "nat \<Rightarrow> string" where
  "fmt_u n = (if n < 10 then [digit_char n] else fmt_u (n div 10) @ [digit_char (n mod 10)])"

declare fmt_u.simps [simp del]

definition fmt_d :: "int \<Rightarrow> string" where
  "fmt_d i = (if i < 0 then ''-'' @ fmt_u (nat (- i)) else fmt_u (nat i))"

lemma fmt_u_nonempty: "fmt_u n \<noteq> []"
  by (subst fmt_u.simps) simp

section \<open>Bytes of words\<close>

text \<open>\<open>htons\<close>/\<open>htonl\<close> followed by a \<open>memcpy\<close>: the bytes of a word, most significant first.\<close>

definition be16 :: "u16 \<Rightarrow> u8 list" where
  "be16 w = [ucast (drop_bit 8 w), ucast w]"

definition be32 :: "u32 \<Rightarrow> u8 list" where
  "be32 w = [ucast (drop_bit 24 w), ucast (drop_bit 16 w), ucast (drop_bit 8 w), ucast w]"

definition of_be16 :: "u8 \<Rightarrow> u8 \<Rightarrow> u16" where
  "of_be16 b0 b1 = push_bit 8 (ucast b0) OR ucast b1"

definition of_be32 :: "u8 \<Rightarrow> u8 \<Rightarrow> u8 \<Rightarrow> u8 \<Rightarrow> u32" where
  "of_be32 b0 b1 b2 b3 =
     push_bit 24 (ucast b0) OR push_bit 16 (ucast b1) OR push_bit 8 (ucast b2) OR ucast b3"

lemma length_be [simp]: "length (be16 w) = 2" "length (be32 v) = 4"
  by (simp_all add: be16_def be32_def)

lemma of_be16_be16: "of_be16 (ucast (drop_bit 8 w)) (ucast w) = w"
  by (rule word_eq_by_bits)
    (auto simp: of_be16_def bit_simps not_less)

lemma of_be32_be32:
  "of_be32 (ucast (drop_bit 24 w)) (ucast (drop_bit 16 w)) (ucast (drop_bit 8 w)) (ucast w) = w"
proof (rule word_eq_by_bits)
  fix n assume "n < LENGTH(32)"
  then consider "n < 8" | "8 \<le> n" "n < 16" | "16 \<le> n" "n < 24" | "24 \<le> n" "n < 32"
    by fastforce
  then show "bit (of_be32 (ucast (drop_bit 24 w)) (ucast (drop_bit 16 w)) (ucast (drop_bit 8 w)) (ucast w)) n
      = bit w n"
    by cases (auto simp: of_be32_def bit_simps)
qed

lemma not_bit_beyond: "LENGTH('a) \<le> n \<Longrightarrow> \<not> bit (b::'a::len word) n"
  using bit_imp_le_length [of b n] by auto

lemma be16_of_be16: "be16 (of_be16 b0 b1) = [b0, b1]"
proof -
  have "ucast (drop_bit 8 (of_be16 b0 b1)) = b0"
    by (rule word_eq_by_bits) (simp add: of_be16_def bit_simps not_bit_beyond)
  moreover have "ucast (of_be16 b0 b1) = b1"
    by (rule word_eq_by_bits) (simp add: of_be16_def bit_simps)
  ultimately show ?thesis by (simp add: be16_def)
qed

text \<open>A word stored on the little-endian machine: its bytes, least significant first.\<close>

definition le16 :: "u16 \<Rightarrow> u8 list" where
  "le16 w = [ucast w, ucast (drop_bit 8 w)]"

definition le32 :: "u32 \<Rightarrow> u8 list" where
  "le32 w = [ucast w, ucast (drop_bit 8 w), ucast (drop_bit 16 w), ucast (drop_bit 24 w)]"

definition le64 :: "u64 \<Rightarrow> u8 list" where
  "le64 w = le32 (ucast w) @ le32 (ucast (drop_bit 32 w))"

lemma length_le [simp]: "length (le16 w) = 2" "length (le32 v) = 4" "length (le64 x) = 8"
  by (simp_all add: le16_def le32_def le64_def)

section \<open>Programs of calls\<close>

text \<open>
  A client of a component makes a sequence of calls and sees their replies. \<open>guarded_simulation\<close> is the
  contract of a refinement: every admissible call on a well-formed state replies as the abstract
  operation does on the abstract state, for a fixed parameter of the state such as a capacity. All
  programs of admissible calls then see the same replies. \<open>call_simulation\<close> is the case in which every
  call is admissible.
\<close>

primrec run_calls :: "('c \<Rightarrow> 's \<Rightarrow> 'r \<times> 's) \<Rightarrow> 'c list \<Rightarrow> 's \<Rightarrow> 'r list \<times> 's" where
  "run_calls ex [] s = ([], s)"
| "run_calls ex (c # cs) s = (let (r, s') = ex c s; (rs, t) = run_calls ex cs s' in (r # rs, t))"

locale guarded_simulation =
  fixes conc :: "'c \<Rightarrow> 's \<Rightarrow> 'r \<times> 's" and spec :: "'p \<Rightarrow> 'c \<Rightarrow> 'a \<Rightarrow> 'r \<times> 'a"
    and abs :: "'s \<Rightarrow> 'a" and par :: "'s \<Rightarrow> 'p" and wf :: "'s \<Rightarrow> bool" and admits :: "'p \<Rightarrow> 'c \<Rightarrow> bool"
  assumes wf_call: "wf s \<Longrightarrow> admits (par s) c \<Longrightarrow> wf (snd (conc c s))"
    and par_call: "wf s \<Longrightarrow> admits (par s) c \<Longrightarrow> par (snd (conc c s)) = par s"
    and sim_call: "wf s \<Longrightarrow> admits (par s) c \<Longrightarrow> spec (par s) c (abs s) = (fst (conc c s), abs (snd (conc c s)))"
begin

lemma admitted_wf: "wf s \<Longrightarrow> \<forall>c \<in> set cs. admits (par s) c \<Longrightarrow> wf (snd (run_calls conc cs s))"
proof (induction cs arbitrary: s)
  case (Cons c cs)
  then show ?case using wf_call [of s c] par_call [of s c] by (simp add: split_beta)
qed simp

lemma admitted_sim:
  "wf s \<Longrightarrow> \<forall>c \<in> set cs. admits (par s) c \<Longrightarrow>
    run_calls (spec (par s)) cs (abs s) = (fst (run_calls conc cs s), abs (snd (run_calls conc cs s)))"
proof (induction cs arbitrary: s)
  case (Cons c cs)
  then show ?case
    using Cons.IH [of "snd (conc c s)"] wf_call [of s c] par_call [of s c] sim_call [of s c] by (simp add: split_beta)
qed simp

end

locale call_simulation =
  fixes conc :: "'c \<Rightarrow> 's \<Rightarrow> 'r \<times> 's" and spec :: "'p \<Rightarrow> 'c \<Rightarrow> 'a \<Rightarrow> 'r \<times> 'a"
    and abs :: "'s \<Rightarrow> 'a" and par :: "'s \<Rightarrow> 'p" and wf :: "'s \<Rightarrow> bool"
  assumes wf_step: "wf s \<Longrightarrow> wf (snd (conc c s))"
    and par_step: "wf s \<Longrightarrow> par (snd (conc c s)) = par s"
    and sim_step: "wf s \<Longrightarrow> spec (par s) c (abs s) = (fst (conc c s), abs (snd (conc c s)))"

sublocale call_simulation \<subseteq> any: guarded_simulation conc spec abs par wf "\<lambda>_ _. True"
  by unfold_locales (simp_all add: wf_step par_step sim_step)

context call_simulation
begin

lemma run_wf: "wf s \<Longrightarrow> wf (snd (run_calls conc cs s))"
  by (simp add: any.admitted_wf)

lemma run_sim:
  "wf s \<Longrightarrow> run_calls (spec (par s)) cs (abs s) = (fst (run_calls conc cs s), abs (snd (run_calls conc cs s)))"
  by (simp add: any.admitted_sim)

end

end
