(* ===== verification/Float32.thy ===== *)
theory Float32
  imports Prelude
begin

text \<open>
  IEEE 754 binary32, the \<open>float\<close> of the C code, on bit patterns. A float is the 32-bit word
  that \<open>memcpy\<close> or a union sees, so code that moves floats through byte buffers needs no
  conversion. Every finite float is an integer multiple of \<open>2 ^ -149\<close>; \<open>f_units\<close> is that
  integer, and an infinity gets \<open>2 ^ 277\<close> units, more than every finite value, so the
  comparisons of C are integer comparisons guarded by the NaN test. Arithmetic is the exact
  result rounded to nearest, ties to even, one rounding per operation (no fused
  multiply-add). A NaN result is the canonical quiet NaN: payload and sign of NaNs are not
  modelled.
\<close>

type_synonym f32 = "32 word"

section \<open>Fields and values\<close>

definition f_neg :: "f32 \<Rightarrow> bool" where
  "f_neg w \<longleftrightarrow> 2 ^ 31 \<le> unat w"

definition f_mag :: "f32 \<Rightarrow> nat" where
  "f_mag w = unat w mod 2 ^ 31"

definition f_inf_mag :: nat where
  "f_inf_mag = 255 * 2 ^ 23"

definition is_nan :: "f32 \<Rightarrow> bool" where
  "is_nan w \<longleftrightarrow> f_inf_mag < f_mag w"

definition is_inf :: "f32 \<Rightarrow> bool" where
  "is_inf w \<longleftrightarrow> f_mag w = f_inf_mag"

definition mag_units :: "nat \<Rightarrow> nat" where
  "mag_units m = (if m div 2 ^ 23 = 0 then m else (2 ^ 23 + m mod 2 ^ 23) * 2 ^ (m div 2 ^ 23 - 1))"

definition f_units :: "f32 \<Rightarrow> nat" where
  "f_units w = mag_units (f_mag w)"

definition f_int :: "f32 \<Rightarrow> int" where
  "f_int w = (if f_neg w then - int (f_units w) else int (f_units w))"

definition f_make :: "bool \<Rightarrow> nat \<Rightarrow> f32" where
  "f_make s m = of_nat (if s then 2 ^ 31 + m else m)"

definition f_nan :: f32 where
  "f_nan = 0x7FC00000"

section \<open>Comparisons\<close>

definition f_lt :: "f32 \<Rightarrow> f32 \<Rightarrow> bool" where
  "f_lt a b \<longleftrightarrow> \<not> is_nan a \<and> \<not> is_nan b \<and> f_int a < f_int b"

definition f_le :: "f32 \<Rightarrow> f32 \<Rightarrow> bool" where
  "f_le a b \<longleftrightarrow> \<not> is_nan a \<and> \<not> is_nan b \<and> f_int a \<le> f_int b"

definition f_eq :: "f32 \<Rightarrow> f32 \<Rightarrow> bool" where
  "f_eq a b \<longleftrightarrow> \<not> is_nan a \<and> \<not> is_nan b \<and> f_int a = f_int b"

section \<open>Rounding\<close>

text \<open>
  \<open>round_mag n d\<close> is the magnitude field (exponent and fraction) of the float nearest to
  \<open>n / d\<close> units. \<open>shift_for q\<close> is the number of low bits a 24-bit significand has to drop.
\<close>

fun shift_for :: "nat \<Rightarrow> nat" where
  "shift_for q = (if q < 2 ^ 24 then 0 else Suc (shift_for (q div 2)))"

declare shift_for.simps [simp del]

definition round_even :: "nat \<Rightarrow> nat \<Rightarrow> nat" where
  "round_even n d =
     (let m = n div d; r = n mod d in if d < 2 * r \<or> (2 * r = d \<and> odd m) then m + 1 else m)"

definition round_mag :: "nat \<Rightarrow> nat \<Rightarrow> nat" where
  "round_mag n d =
     (let k = shift_for (n div d) in min (k * 2 ^ 23 + round_even n (d * 2 ^ k)) f_inf_mag)"

section \<open>Arithmetic\<close>

definition f_uminus :: "f32 \<Rightarrow> f32" where
  "f_uminus w = f_make (\<not> f_neg w) (f_mag w)"

definition f_abs :: "f32 \<Rightarrow> f32" where
  "f_abs w = f_make False (f_mag w)"

definition f_add :: "f32 \<Rightarrow> f32 \<Rightarrow> f32" where
  "f_add a b =
     (if is_nan a \<or> is_nan b then f_nan
      else if is_inf a then (if is_inf b \<and> f_neg a \<noteq> f_neg b then f_nan else a)
      else if is_inf b then b
      else let s = f_int a + f_int b in
        if s = 0 then f_make (f_neg a \<and> f_neg b) 0
        else f_make (s < 0) (round_mag (nat \<bar>s\<bar>) 1))"

definition f_sub :: "f32 \<Rightarrow> f32 \<Rightarrow> f32" where
  "f_sub a b = f_add a (f_uminus b)"

definition f_mul :: "f32 \<Rightarrow> f32 \<Rightarrow> f32" where
  "f_mul a b =
     (if is_nan a \<or> is_nan b then f_nan
      else if is_inf a \<or> is_inf b then
        (if f_units a = 0 \<or> f_units b = 0 then f_nan else f_make (f_neg a \<noteq> f_neg b) f_inf_mag)
      else f_make (f_neg a \<noteq> f_neg b) (round_mag (f_units a * f_units b) (2 ^ 149)))"

definition f_div :: "f32 \<Rightarrow> f32 \<Rightarrow> f32" where
  "f_div a b =
     (if is_nan a \<or> is_nan b then f_nan
      else if is_inf a then (if is_inf b then f_nan else f_make (f_neg a \<noteq> f_neg b) f_inf_mag)
      else if is_inf b then f_make (f_neg a \<noteq> f_neg b) 0
      else if f_units b = 0 then
        (if f_units a = 0 then f_nan else f_make (f_neg a \<noteq> f_neg b) f_inf_mag)
      else f_make (f_neg a \<noteq> f_neg b) (round_mag (f_units a * 2 ^ 149) (f_units b)))"

section \<open>Constants and conversions\<close>

text \<open>\<open>f_lit n d\<close> is the literal with the decimal value \<open>n / d\<close>; \<open>f_of_int\<close> a converted integer.\<close>

definition f_lit :: "nat \<Rightarrow> nat \<Rightarrow> f32" where
  "f_lit n d = f_make False (round_mag (n * 2 ^ 149) d)"

definition f_of_int :: "int \<Rightarrow> f32" where
  "f_of_int i = f_make (i < 0) (round_mag (nat \<bar>i\<bar> * 2 ^ 149) 1)"

text \<open>
  Conversion to an integer truncates towards zero; it is undefined when the truncated value
  does not fit. \<open>f_trunc\<close> is the truncated value of a finite float. \<open>f_to_word oob\<close> converts
  to an unsigned type, with \<open>oob\<close> standing for what the platform does in the undefined case.
\<close>

definition f_trunc :: "f32 \<Rightarrow> int option" where
  "f_trunc w =
     (if is_nan w \<or> is_inf w then None
      else Some ((if f_neg w then - 1 else 1) * int (f_units w div 2 ^ 149)))"

definition f_to_word :: "(f32 \<Rightarrow> 'a::len word) \<Rightarrow> f32 \<Rightarrow> 'a word" where
  "f_to_word oob w =
     (case f_trunc w of
        Some i \<Rightarrow> if 0 \<le> i \<and> i < 2 ^ LENGTH('a) then of_int i else oob w
      | None \<Rightarrow> oob w)"

text \<open>Output of \<open>%.df\<close>: the exact value rounded to \<open>d\<close> decimals, ties to even.\<close>

definition fmt_fixed :: "nat \<Rightarrow> f32 \<Rightarrow> string" where
  "fmt_fixed d w =
     (let sgn = (if f_neg w then ''-'' else '''') in
      if is_nan w then sgn @ ''nan''
      else if is_inf w then sgn @ ''inf''
      else let h = round_even (f_units w * 10 ^ d) (2 ^ 149) in
        sgn @ fmt_u (h div 10 ^ d) @ ''.'' @ map (\<lambda>i. digit_char (h div 10 ^ i mod 10)) (rev [0..<d]))"

abbreviation fmt_f2 :: "f32 \<Rightarrow> string" where
  "fmt_f2 \<equiv> fmt_fixed 2"

section \<open>Properties of the encoding\<close>

lemma f_mag_bound: "f_mag w < 2 ^ 31"
  by (simp add: f_mag_def)

lemma unat_f_make: "m < 2 ^ 31 \<Longrightarrow> unat (f_make s m) = (if s then 2 ^ 31 + m else m)"
  by (auto simp: f_make_def unat_of_nat take_bit_nat_eq_self_iff)

lemma f_neg_make [simp]: "m < 2 ^ 31 \<Longrightarrow> f_neg (f_make s m) = s"
  by (simp add: f_neg_def unat_f_make)

lemma f_mag_make [simp]: "m < 2 ^ 31 \<Longrightarrow> f_mag (f_make s m) = m"
  by (simp add: f_mag_def unat_f_make)

lemma f_make_fields: "f_make (f_neg w) (f_mag w) = w"
proof -
  have "unat w < 2 ^ LENGTH(32)"
    by (rule unsigned_less)
  then have "(if f_neg w then 2 ^ 31 + f_mag w else f_mag w) = unat w"
    by (auto simp: f_neg_def f_mag_def mod_if)
  then show ?thesis
    by (simp add: f_make_def del: of_nat_add)
qed

lemma f_uminus_simps [simp]:
  "f_neg (f_uminus w) = (\<not> f_neg w)"
  "f_mag (f_uminus w) = f_mag w"
  "is_nan (f_uminus w) = is_nan w"
  "is_inf (f_uminus w) = is_inf w"
  "f_units (f_uminus w) = f_units w"
  "f_int (f_uminus w) = - f_int w"
  using f_mag_bound [of w]
  by (simp_all add: f_uminus_def is_nan_def is_inf_def f_units_def f_int_def)

lemma f_abs_simps [simp]:
  "f_neg (f_abs w) = False"
  "f_mag (f_abs w) = f_mag w"
  "is_nan (f_abs w) = is_nan w"
  "is_inf (f_abs w) = is_inf w"
  "f_units (f_abs w) = f_units w"
  "f_int (f_abs w) = \<bar>f_int w\<bar>"
  using f_mag_bound [of w]
  by (simp_all add: f_abs_def is_nan_def is_inf_def f_units_def f_int_def)

text \<open>Rounding the exact value of a float gives the float back.\<close>

lemma shift_for_scaled:
  assumes "2 ^ 23 \<le> x" and "x < 2 ^ 24"
  shows "shift_for (x * 2 ^ k) = k"
proof (induction k)
  case 0
  from assms(2) show ?case by (subst shift_for.simps) simp
next
  case (Suc k)
  have "2 ^ 24 \<le> x * 2 ^ Suc k"
    using assms(1) mult_le_mono [OF assms(1), of 2 "2 ^ Suc k"] by simp
  with Suc show ?case
    by (subst shift_for.simps) (simp add: mult.left_commute)
qed

lemma round_mag_exact:
  assumes "m \<le> f_inf_mag"
  shows "round_mag (mag_units m) 1 = m"
proof (cases "m div 2 ^ 23 = 0")
  case True
  then have "m < 2 ^ 23" by (simp add: div_eq_0_iff)
  with True assms show ?thesis
    by (subst round_mag_def, subst shift_for.simps) (simp add: mag_units_def round_even_def)
next
  case False
  let ?x = "2 ^ 23 + m mod 2 ^ 23" and ?k = "m div 2 ^ 23 - 1"
  have units: "mag_units m = ?x * 2 ^ ?k"
    using False by (simp add: mag_units_def)
  have "m mod 2 ^ 23 < 2 ^ 23" by simp
  then have "?x < 2 ^ 24" and "2 ^ 23 \<le> ?x" by simp_all
  then have shift: "shift_for (mag_units m) = ?k"
    unfolding units using shift_for_scaled by blast
  have "round_even (mag_units m) (2 ^ ?k) = ?x"
    unfolding units round_even_def by simp
  moreover have "?k * 2 ^ 23 + ?x = m"
  proof -
    have "?k * 2 ^ 23 + 2 ^ 23 = m div 2 ^ 23 * 2 ^ 23"
      using False by (cases "m div 2 ^ 23") auto
    then have "?k * 2 ^ 23 + ?x = m div 2 ^ 23 * 2 ^ 23 + m mod 2 ^ 23" by linarith
    then show ?thesis by simp
  qed
  ultimately show ?thesis
    using assms shift by (simp add: round_mag_def)
qed

lemma round_mag_le_inf: "round_mag n d \<le> f_inf_mag"
  by (simp add: round_mag_def Let_def)

lemma round_mag_bound [simp]: "round_mag n d < 2147483648"
  using round_mag_le_inf [of n d] by (simp add: f_inf_mag_def)

lemma f_round_self:
  assumes "\<not> is_nan w"
  shows "f_make (f_neg w) (round_mag (f_units w) 1) = w"
proof -
  have "round_mag (f_units w) 1 = f_mag w"
    unfolding f_units_def using assms by (intro round_mag_exact) (simp add: is_nan_def)
  then show ?thesis by (simp add: f_make_fields)
qed

lemma mag_units_0: "mag_units m = 0 \<longleftrightarrow> m = 0"
  by (auto simp: mag_units_def)

text \<open>Adding zero and subtracting a value from itself are exact.\<close>

lemma f_add_zero_right:
  assumes "\<not> is_nan a" and "f_units a \<noteq> 0" and "f_units b = 0"
  shows "f_add a b = a"
proof -
  have b: "\<not> is_nan b" "\<not> is_inf b"
    using assms(3) by (auto simp: f_units_def mag_units_0 is_nan_def is_inf_def f_inf_mag_def)
  have "f_int b = 0" using assms(3) by (simp add: f_int_def)
  moreover have "f_int a \<noteq> 0" and "(f_int a < 0) = f_neg a" and "nat \<bar>f_int a\<bar> = f_units a"
    using assms(2) by (auto simp: f_int_def)
  ultimately show ?thesis
    using assms(1) b f_round_self [OF assms(1)] by (auto simp: f_add_def Let_def)
qed

lemma f_sub_self:
  assumes "\<not> is_nan a" and "\<not> is_inf a"
  shows "f_sub a a = 0"
  using assms by (simp add: f_sub_def f_add_def Let_def f_make_def)

lemma is_nan_zero [simp]: "\<not> is_nan 0" and f_int_zero [simp]: "f_int 0 = 0"
  and is_inf_zero [simp]: "\<not> is_inf 0" and f_units_zero [simp]: "f_units 0 = 0"
  by (simp_all add: is_nan_def is_inf_def f_int_def f_units_def f_mag_def mag_units_def f_inf_mag_def)

lemma not_nan_round [simp]: "\<not> is_nan (f_make s (round_mag n d))"
  using round_mag_le_inf [of n d] by (simp add: is_nan_def)

lemma not_nan_lit [simp]: "\<not> is_nan (f_lit n d)"
  by (simp add: f_lit_def)

lemma not_nan_of_int [simp]: "\<not> is_nan (f_of_int i)"
  by (simp add: f_of_int_def)

text \<open>Integers of at most 24 bits are represented exactly.\<close>

lemma normalise_24:
  fixes n :: nat
  assumes "0 < n" and "n < 2 ^ 24"
  shows "\<exists>k \<le> 23. 2 ^ 23 \<le> n * 2 ^ k \<and> n * 2 ^ k < 2 ^ 24"
  using assms
proof (induction "2 ^ 24 - n" arbitrary: n rule: less_induct)
  case less
  show ?case
  proof (cases "2 ^ 23 \<le> n")
    case True
    with less.prems have "2 ^ 23 \<le> n * 2 ^ 0 \<and> n * 2 ^ 0 < 2 ^ 24" by simp
    then show ?thesis by blast
  next
    case False
    then have "2 ^ 24 - 2 * n < 2 ^ 24 - n" "0 < 2 * n" "2 * n < 2 ^ 24" using less.prems by auto
    from less.hyps [OF this] obtain k where k: "2 ^ 23 \<le> n * 2 ^ Suc k" "n * 2 ^ Suc k < 2 ^ 24" by (auto simp: mult.assoc mult.left_commute)
    have "1 * 2 ^ Suc k \<le> n * 2 ^ Suc k" by (rule mult_right_mono) (use less.prems in simp_all)
    with k(2) have "(2::nat) ^ Suc k < 2 ^ 24" by linarith
    then have "Suc k < 24" by (rule power_less_imp_less_exp [rotated]) simp
    with k show ?thesis by (intro exI [of _ "Suc k"]) simp
  qed
qed

lemma round_mag_int:
  assumes "n < 2 ^ 24"
  shows "mag_units (round_mag (n * 2 ^ 149) 1) = n * 2 ^ 149 \<and> round_mag (n * 2 ^ 149) 1 < f_inf_mag"
proof (cases "n = 0")
  case True
  then show ?thesis by (subst (1 2) round_mag_def, subst (1 2) shift_for.simps) (simp add: round_even_def mag_units_def f_inf_mag_def)
next
  case False
  with assms obtain k where k: "k \<le> 23" "2 ^ 23 \<le> n * 2 ^ k" "n * 2 ^ k < 2 ^ 24" using normalise_24 [of n] by blast
  let ?m = "(149 - k) * 2 ^ 23 + n * 2 ^ k"
  have split: "n * 2 ^ 149 = n * 2 ^ k * 2 ^ (149 - k)" using k(1) by (simp add: power_add [symmetric] mult.assoc)
  have "?m = (150 - k) * 2 ^ 23 + (n * 2 ^ k - 2 ^ 23)" using k(1, 2) by (simp add: Suc_diff_le algebra_simps)
  moreover have "n * 2 ^ k - 2 ^ 23 < 2 ^ 23" using k(3) by simp
  ultimately have dm: "?m div 2 ^ 23 = 150 - k" "?m mod 2 ^ 23 = n * 2 ^ k - 2 ^ 23" by simp_all
  have "mag_units ?m = n * 2 ^ 149" unfolding mag_units_def dm split using k by simp
  moreover have "?m < f_inf_mag"
  proof -
    have "(149 - k) * 2 ^ 23 \<le> 149 * 2 ^ 23" by simp
    moreover have "n * 2 ^ k < 106 * 2 ^ 23" using k(3) by simp
    ultimately have "?m < 149 * 2 ^ 23 + 106 * 2 ^ 23" by linarith
    then show ?thesis by (simp add: f_inf_mag_def)
  qed
  ultimately show ?thesis using round_mag_exact [of ?m] by simp
qed

lemma f_of_int_exact:
  assumes "0 \<le> i" and "i < 2 ^ 24"
  shows "f_int (f_of_int i) = i * 2 ^ 149" "\<not> is_inf (f_of_int i)" "f_trunc (f_of_int i) = Some i"
proof -
  let ?n = "nat \<bar>i\<bar>"
  have n: "?n < 2 ^ 24" using assms by simp
  have u: "f_units (f_of_int i) = ?n * 2 ^ 149" and ni: "\<not> is_inf (f_of_int i)" and pos: "\<not> f_neg (f_of_int i)"
    using round_mag_int [OF n] assms(1) by (simp_all add: f_of_int_def f_units_def is_inf_def)
  show "f_int (f_of_int i) = i * 2 ^ 149" "\<not> is_inf (f_of_int i)" "f_trunc (f_of_int i) = Some i"
    using u ni pos assms(1) by (simp_all add: f_int_def f_trunc_def)
qed

lemma f_to_word_of_int:
  assumes "0 \<le> i" and "i < 2 ^ 24" and "i < 2 ^ LENGTH('a)"
  shows "f_to_word oob (f_of_int i) = (of_int i :: 'a::len word)"
  using f_of_int_exact(3) [OF assms(1, 2)] assms by (simp add: f_to_word_def)

section \<open>Order\<close>

lemma f_lt_irrefl [simp]: "\<not> f_lt a a"
  by (simp add: f_lt_def)

lemma f_lt_trans: "f_lt a b \<Longrightarrow> f_lt b c \<Longrightarrow> f_lt a c"
  by (auto simp: f_lt_def)

lemma f_le_trans: "f_le a b \<Longrightarrow> f_le b c \<Longrightarrow> f_le a c"
  by (auto simp: f_le_def)

lemma f_le_refl: "\<not> is_nan a \<Longrightarrow> f_le a a"
  by (simp add: f_le_def)

lemma f_not_lt: "\<not> is_nan a \<Longrightarrow> \<not> is_nan b \<Longrightarrow> (\<not> f_lt a b) = f_le b a"
  by (auto simp: f_lt_def f_le_def)

lemma f_lt_imp_le: "f_lt a b \<Longrightarrow> f_le a b"
  by (auto simp: f_lt_def f_le_def)

lemma f_lt_not_nan: "f_lt a b \<Longrightarrow> \<not> is_nan a \<and> \<not> is_nan b"
  by (simp add: f_lt_def)

lemma f_cmp_nan [simp]:
  "is_nan a \<Longrightarrow> \<not> f_lt a b" "is_nan b \<Longrightarrow> \<not> f_lt a b"
  "is_nan a \<Longrightarrow> \<not> f_le a b" "is_nan b \<Longrightarrow> \<not> f_le a b"
  "is_nan a \<Longrightarrow> \<not> f_eq a b" "is_nan b \<Longrightarrow> \<not> f_eq a b"
  by (simp_all add: f_lt_def f_le_def f_eq_def)

text \<open>A float whose truncation is in range converts exactly.\<close>

lemma f_to_word_in_range:
  assumes "f_trunc w = Some i" and "0 \<le> i" and "i < 2 ^ LENGTH('a)"
  shows "uint (f_to_word oob w :: 'a::len word) = i"
  using assms by (simp add: f_to_word_def uint_word_of_int_eq take_bit_int_eq_self_iff)

lemmas f32_eval = is_nan_def is_inf_def f_neg_def f_mag_def f_inf_mag_def f_units_def mag_units_def
  f_int_def f_make_def round_mag_def round_even_def shift_for.simps f_lit_def f_of_int_def f_nan_def

end
