(* ===== verification/Crc.thy ===== *)
theory Crc
  imports Prelude
begin

text \<open>
  The checksums of \<^verbatim>\<open>src/src/utils/crc.c\<close> (CRC-16-CCITT and CRC-32) and of
  \<^verbatim>\<open>src/src/modbus/modbus_common.c\<close> (CRC-16 of Modbus RTU). The code uses 256-entry lookup
  tables; the reference is the bit-by-bit polynomial division. The reflected algorithms
  (CRC-32, Modbus) share the locale \<open>reflected_crc\<close>, whose law says that the table holds the
  eight-step remainders; the law is checked for the tables of the source, entry by entry, and
  the equality of table-driven and bitwise computation for every message follows.
\<close>

section \<open>The code\<close>

definition crc16_table :: "u16 list" where
  "crc16_table =
    [0x0000, 0x1021, 0x2042, 0x3063, 0x4084, 0x50a5, 0x60c6, 0x70e7,
     0x8108, 0x9129, 0xa14a, 0xb16b, 0xc18c, 0xd1ad, 0xe1ce, 0xf1ef,
     0x1231, 0x0210, 0x3273, 0x2252, 0x52b5, 0x4294, 0x72f7, 0x62d6,
     0x9339, 0x8318, 0xb37b, 0xa35a, 0xd3bd, 0xc39c, 0xf3ff, 0xe3de,
     0x2462, 0x3443, 0x0420, 0x1401, 0x64e6, 0x74c7, 0x44a4, 0x5485,
     0xa56a, 0xb54b, 0x8528, 0x9509, 0xe5ee, 0xf5cf, 0xc5ac, 0xd58d,
     0x3653, 0x2672, 0x1611, 0x0630, 0x76d7, 0x66f6, 0x5695, 0x46b4,
     0xb75b, 0xa77a, 0x9719, 0x8738, 0xf7df, 0xe7fe, 0xd79d, 0xc7bc,
     0x48c4, 0x58e5, 0x6886, 0x78a7, 0x0840, 0x1861, 0x2802, 0x3823,
     0xc9cc, 0xd9ed, 0xe98e, 0xf9af, 0x8948, 0x9969, 0xa90a, 0xb92b,
     0x5af5, 0x4ad4, 0x7ab7, 0x6a96, 0x1a71, 0x0a50, 0x3a33, 0x2a12,
     0xdbfd, 0xcbdc, 0xfbbf, 0xeb9e, 0x9b79, 0x8b58, 0xbb3b, 0xab1a,
     0x6ca6, 0x7c87, 0x4ce4, 0x5cc5, 0x2c22, 0x3c03, 0x0c60, 0x1c41,
     0xedae, 0xfd8f, 0xcdec, 0xddcd, 0xad2a, 0xbd0b, 0x8d68, 0x9d49,
     0x7e97, 0x6eb6, 0x5ed5, 0x4ef4, 0x3e13, 0x2e32, 0x1e51, 0x0e70,
     0xff9f, 0xefbe, 0xdfdd, 0xcffc, 0xbf1b, 0xaf3a, 0x9f59, 0x8f78,
     0x9188, 0x81a9, 0xb1ca, 0xa1eb, 0xd10c, 0xc12d, 0xf14e, 0xe16f,
     0x1080, 0x00a1, 0x30c2, 0x20e3, 0x5004, 0x4025, 0x7046, 0x6067,
     0x83b9, 0x9398, 0xa3fb, 0xb3da, 0xc33d, 0xd31c, 0xe37f, 0xf35e,
     0x02b1, 0x1290, 0x22f3, 0x32d2, 0x4235, 0x5214, 0x6277, 0x7256,
     0xb5ea, 0xa5cb, 0x95a8, 0x8589, 0xf56e, 0xe54f, 0xd52c, 0xc50d,
     0x34e2, 0x24c3, 0x14a0, 0x0481, 0x7466, 0x6447, 0x5424, 0x4405,
     0xa7db, 0xb7fa, 0x8799, 0x97b8, 0xe75f, 0xf77e, 0xc71d, 0xd73c,
     0x26d3, 0x36f2, 0x0691, 0x16b0, 0x6657, 0x7676, 0x4615, 0x5634,
     0xd94c, 0xc96d, 0xf90e, 0xe92f, 0x99c8, 0x89e9, 0xb98a, 0xa9ab,
     0x5844, 0x4865, 0x7806, 0x6827, 0x18c0, 0x08e1, 0x3882, 0x28a3,
     0xcb7d, 0xdb5c, 0xeb3f, 0xfb1e, 0x8bf9, 0x9bd8, 0xabbb, 0xbb9a,
     0x4a75, 0x5a54, 0x6a37, 0x7a16, 0x0af1, 0x1ad0, 0x2ab3, 0x3a92,
     0xfd2e, 0xed0f, 0xdd6c, 0xcd4d, 0xbdaa, 0xad8b, 0x9de8, 0x8dc9,
     0x7c26, 0x6c07, 0x5c64, 0x4c45, 0x3ca2, 0x2c83, 0x1ce0, 0x0cc1,
     0xef1f, 0xff3e, 0xcf5d, 0xdf7c, 0xaf9b, 0xbfba, 0x8fd9, 0x9ff8,
     0x6e17, 0x7e36, 0x4e55, 0x5e74, 0x2e93, 0x3eb2, 0x0ed1, 0x1ef0]"

definition crc32_table :: "u32 list" where
  "crc32_table =
    [0x00000000, 0x77073096, 0xee0e612c, 0x990951ba, 0x076dc419, 0x706af48f,
     0xe963a535, 0x9e6495a3, 0x0edb8832, 0x79dcb8a4, 0xe0d5e91e, 0x97d2d988,
     0x09b64c2b, 0x7eb17cbd, 0xe7b82d07, 0x90bf1d91, 0x1db71064, 0x6ab020f2,
     0xf3b97148, 0x84be41de, 0x1adad47d, 0x6ddde4eb, 0xf4d4b551, 0x83d385c7,
     0x136c9856, 0x646ba8c0, 0xfd62f97a, 0x8a65c9ec, 0x14015c4f, 0x63066cd9,
     0xfa0f3d63, 0x8d080df5, 0x3b6e20c8, 0x4c69105e, 0xd56041e4, 0xa2677172,
     0x3c03e4d1, 0x4b04d447, 0xd20d85fd, 0xa50ab56b, 0x35b5a8fa, 0x42b2986c,
     0xdbbbc9d6, 0xacbcf940, 0x32d86ce3, 0x45df5c75, 0xdcd60dcf, 0xabd13d59,
     0x26d930ac, 0x51de003a, 0xc8d75180, 0xbfd06116, 0x21b4f4b5, 0x56b3c423,
     0xcfba9599, 0xb8bda50f, 0x2802b89e, 0x5f058808, 0xc60cd9b2, 0xb10be924,
     0x2f6f7c87, 0x58684c11, 0xc1611dab, 0xb6662d3d, 0x76dc4190, 0x01db7106,
     0x98d220bc, 0xefd5102a, 0x71b18589, 0x06b6b51f, 0x9fbfe4a5, 0xe8b8d433,
     0x7807c9a2, 0x0f00f934, 0x9609a88e, 0xe10e9818, 0x7f6a0dbb, 0x086d3d2d,
     0x91646c97, 0xe6635c01, 0x6b6b51f4, 0x1c6c6162, 0x856530d8, 0xf262004e,
     0x6c0695ed, 0x1b01a57b, 0x8208f4c1, 0xf50fc457, 0x65b0d9c6, 0x12b7e950,
     0x8bbeb8ea, 0xfcb9887c, 0x62dd1ddf, 0x15da2d49, 0x8cd37cf3, 0xfbd44c65,
     0x4db26158, 0x3ab551ce, 0xa3bc0074, 0xd4bb30e2, 0x4adfa541, 0x3dd895d7,
     0xa4d1c46d, 0xd3d6f4fb, 0x4369e96a, 0x346ed9fc, 0xad678846, 0xda60b8d0,
     0x44042d73, 0x33031de5, 0xaa0a4c5f, 0xdd0d7cc9, 0x5005713c, 0x270241aa,
     0xbe0b1010, 0xc90c2086, 0x5768b525, 0x206f85b3, 0xb966d409, 0xce61e49f,
     0x5edef90e, 0x29d9c998, 0xb0d09822, 0xc7d7a8b4, 0x59b33d17, 0x2eb40d81,
     0xb7bd5c3b, 0xc0ba6cad, 0xedb88320, 0x9abfb3b6, 0x03b6e20c, 0x74b1d29a,
     0xead54739, 0x9dd277af, 0x04db2615, 0x73dc1683, 0xe3630b12, 0x94643b84,
     0x0d6d6a3e, 0x7a6a5aa8, 0xe40ecf0b, 0x9309ff9d, 0x0a00ae27, 0x7d079eb1,
     0xf00f9344, 0x8708a3d2, 0x1e01f268, 0x6906c2fe, 0xf762575d, 0x806567cb,
     0x196c3671, 0x6e6b06e7, 0xfed41b76, 0x89d32be0, 0x10da7a5a, 0x67dd4acc,
     0xf9b9df6f, 0x8ebeeff9, 0x17b7be43, 0x60b08ed5, 0xd6d6a3e8, 0xa1d1937e,
     0x38d8c2c4, 0x4fdff252, 0xd1bb67f1, 0xa6bc5767, 0x3fb506dd, 0x48b2364b,
     0xd80d2bda, 0xaf0a1b4c, 0x36034af6, 0x41047a60, 0xdf60efc3, 0xa867df55,
     0x316e8eef, 0x4669be79, 0xcb61b38c, 0xbc66831a, 0x256fd2a0, 0x5268e236,
     0xcc0c7795, 0xbb0b4703, 0x220216b9, 0x5505262f, 0xc5ba3bbe, 0xb2bd0b28,
     0x2bb45a92, 0x5cb36a04, 0xc2d7ffa7, 0xb5d0cf31, 0x2cd99e8b, 0x5bdeae1d,
     0x9b64c2b0, 0xec63f226, 0x756aa39c, 0x026d930a, 0x9c0906a9, 0xeb0e363f,
     0x72076785, 0x05005713, 0x95bf4a82, 0xe2b87a14, 0x7bb12bae, 0x0cb61b38,
     0x92d28e9b, 0xe5d5be0d, 0x7cdcefb7, 0x0bdbdf21, 0x86d3d2d4, 0xf1d4e242,
     0x68ddb3f8, 0x1fda836e, 0x81be16cd, 0xf6b9265b, 0x6fb077e1, 0x18b74777,
     0x88085ae6, 0xff0f6a70, 0x66063bca, 0x11010b5c, 0x8f659eff, 0xf862ae69,
     0x616bffd3, 0x166ccf45, 0xa00ae278, 0xd70dd2ee, 0x4e048354, 0x3903b3c2,
     0xa7672661, 0xd06016f7, 0x4969474d, 0x3e6e77db, 0xaed16a4a, 0xd9d65adc,
     0x40df0b66, 0x37d83bf0, 0xa9bcae53, 0xdebb9ec5, 0x47b2cf7f, 0x30b5ffe9,
     0xbdbdf21c, 0xcabac28a, 0x53b39330, 0x24b4a3a6, 0xbad03605, 0xcdd706b3,
     0x54de5729, 0x23d967bf, 0xb3667a2e, 0xc4614ab8, 0x5d681b02, 0x2a6f2b94,
     0xb40bbe37, 0xc30c8ea1, 0x5a05df1b, 0x2d02ef8d]"

definition modbus_crc16_table :: "u16 list" where
  "modbus_crc16_table =
    [0x0000, 0xC0C1, 0xC181, 0x0140, 0xC301, 0x03C0, 0x0280, 0xC241,
     0xC601, 0x06C0, 0x0780, 0xC741, 0x0500, 0xC5C1, 0xC481, 0x0440,
     0xCC01, 0x0CC0, 0x0D80, 0xCD41, 0x0F00, 0xCFC1, 0xCE81, 0x0E40,
     0x0A00, 0xCAC1, 0xCB81, 0x0B40, 0xC901, 0x09C0, 0x0880, 0xC841,
     0xD801, 0x18C0, 0x1980, 0xD941, 0x1B00, 0xDBC1, 0xDA81, 0x1A40,
     0x1E00, 0xDEC1, 0xDF81, 0x1F40, 0xDD01, 0x1DC0, 0x1C80, 0xDC41,
     0x1400, 0xD4C1, 0xD581, 0x1540, 0xD701, 0x17C0, 0x1680, 0xD641,
     0xD201, 0x12C0, 0x1380, 0xD341, 0x1100, 0xD1C1, 0xD081, 0x1040,
     0xF001, 0x30C0, 0x3180, 0xF141, 0x3300, 0xF3C1, 0xF281, 0x3240,
     0x3600, 0xF6C1, 0xF781, 0x3740, 0xF501, 0x35C0, 0x3480, 0xF441,
     0x3C00, 0xFCC1, 0xFD81, 0x3D40, 0xFF01, 0x3FC0, 0x3E80, 0xFE41,
     0xFA01, 0x3AC0, 0x3B80, 0xFB41, 0x3900, 0xF9C1, 0xF881, 0x3840,
     0x2800, 0xE8C1, 0xE981, 0x2940, 0xEB01, 0x2BC0, 0x2A80, 0xEA41,
     0xEE01, 0x2EC0, 0x2F80, 0xEF41, 0x2D00, 0xEDC1, 0xEC81, 0x2C40,
     0xE401, 0x24C0, 0x2580, 0xE541, 0x2700, 0xE7C1, 0xE681, 0x2640,
     0x2200, 0xE2C1, 0xE381, 0x2340, 0xE101, 0x21C0, 0x2080, 0xE041,
     0xA001, 0x60C0, 0x6180, 0xA141, 0x6300, 0xA3C1, 0xA281, 0x6240,
     0x6600, 0xA6C1, 0xA781, 0x6740, 0xA501, 0x65C0, 0x6480, 0xA441,
     0x6C00, 0xACC1, 0xAD81, 0x6D40, 0xAF01, 0x6FC0, 0x6E80, 0xAE41,
     0xAA01, 0x6AC0, 0x6B80, 0xAB41, 0x6900, 0xA9C1, 0xA881, 0x6840,
     0x7800, 0xB8C1, 0xB981, 0x7940, 0xBB01, 0x7BC0, 0x7A80, 0xBA41,
     0xBE01, 0x7EC0, 0x7F80, 0xBF41, 0x7D00, 0xBDC1, 0xBC81, 0x7C40,
     0xB401, 0x74C0, 0x7580, 0xB541, 0x7700, 0xB7C1, 0xB681, 0x7640,
     0x7200, 0xB2C1, 0xB381, 0x7340, 0xB101, 0x71C0, 0x7080, 0xB041,
     0x5000, 0x90C1, 0x9181, 0x5140, 0x9301, 0x53C0, 0x5280, 0x9241,
     0x9601, 0x56C0, 0x5780, 0x9741, 0x5500, 0x95C1, 0x9481, 0x5440,
     0x9C01, 0x5CC0, 0x5D80, 0x9D41, 0x5F00, 0x9FC1, 0x9E81, 0x5E40,
     0x5A00, 0x9AC1, 0x9B81, 0x5B40, 0x9901, 0x59C0, 0x5880, 0x9841,
     0x8801, 0x48C0, 0x4980, 0x8941, 0x4B00, 0x8BC1, 0x8A81, 0x4A40,
     0x4E00, 0x8EC1, 0x8F81, 0x4F40, 0x8D01, 0x4DC0, 0x4C80, 0x8C41,
     0x4400, 0x84C1, 0x8581, 0x4540, 0x8701, 0x47C0, 0x4680, 0x8641,
     0x8201, 0x42C0, 0x4380, 0x8341, 0x4100, 0x81C1, 0x8081, 0x4040]"

text \<open>The \<open>while (len--)\<close> loops: \<open>data\<close> is the list of the \<open>len\<close> bytes.\<close>

primrec crc16_ccitt_loop :: "u16 \<Rightarrow> u8 list \<Rightarrow> u16" where
  "crc16_ccitt_loop crc [] = crc"
| "crc16_ccitt_loop crc (b # bs) =
     crc16_ccitt_loop
       (push_bit 8 crc XOR crc16_table ! unat ((drop_bit 8 crc XOR ucast b) AND 0xFF)) bs"

definition crc16_ccitt_update :: "u16 \<Rightarrow> u8 list option \<Rightarrow> u16" where
  "crc16_ccitt_update crc data = (case data of None \<Rightarrow> crc | Some bs \<Rightarrow> crc16_ccitt_loop crc bs)"

definition crc16_ccitt :: "u8 list option \<Rightarrow> u16" where
  "crc16_ccitt data = crc16_ccitt_update 0xFFFF data"

primrec crc32_loop :: "u32 \<Rightarrow> u8 list \<Rightarrow> u32" where
  "crc32_loop crc [] = crc"
| "crc32_loop crc (b # bs) =
     crc32_loop (crc32_table ! unat ((crc XOR ucast b) AND 0xFF) XOR drop_bit 8 crc) bs"

definition crc32_update :: "u32 \<Rightarrow> u8 list option \<Rightarrow> u32" where
  "crc32_update crc data = (case data of None \<Rightarrow> crc | Some bs \<Rightarrow> crc32_loop crc bs)"

definition crc32 :: "u8 list option \<Rightarrow> u32" where
  "crc32 data = crc32_update 0xFFFFFFFF data XOR 0xFFFFFFFF"

definition crc32_verify_fcs :: "u8 list option \<Rightarrow> bool" where
  "crc32_verify_fcs frame =
     (case frame of
        None \<Rightarrow> False
      | Some bs \<Rightarrow> if length bs < 4 then False else crc32_update 0xFFFFFFFF frame = 0xDEBB20E3)"

primrec modbus_crc16_loop :: "u16 \<Rightarrow> u8 list \<Rightarrow> u16" where
  "modbus_crc16_loop crc [] = crc"
| "modbus_crc16_loop crc (b # bs) =
     (let idx = (crc XOR ucast b) AND 0xFF in
      modbus_crc16_loop (drop_bit 8 crc XOR modbus_crc16_table ! unat idx) bs)"

definition modbus_crc16 :: "u8 list \<Rightarrow> u16" where
  "modbus_crc16 data = modbus_crc16_loop 0xFFFF data"

section \<open>Bitwise reference\<close>

definition lsb_step :: "'a::len word \<Rightarrow> 'a word \<Rightarrow> 'a word" where
  "lsb_step poly c = (if bit c 0 then drop_bit 1 c XOR poly else drop_bit 1 c)"

definition msb_step :: "'a::len word \<Rightarrow> 'a word \<Rightarrow> 'a word" where
  "msb_step poly c = (if bit c (LENGTH('a) - 1) then push_bit 1 c XOR poly else push_bit 1 c)"

primrec lsb_crc :: "'a::len word \<Rightarrow> 'a word \<Rightarrow> u8 list \<Rightarrow> 'a word" where
  "lsb_crc poly c [] = c"
| "lsb_crc poly c (b # bs) = lsb_crc poly ((lsb_step poly ^^ 8) (c XOR ucast b)) bs"

primrec msb_crc :: "'a::len word \<Rightarrow> 'a word \<Rightarrow> u8 list \<Rightarrow> 'a word" where
  "msb_crc poly c [] = c"
| "msb_crc poly c (b # bs) =
     msb_crc poly ((msb_step poly ^^ 8) (c XOR push_bit (LENGTH('a) - 8) (ucast b))) bs"

lemma lsb_step_xor: "lsb_step p (a XOR b) = lsb_step p a XOR lsb_step p b"
  by (rule word_eq_by_bits) (auto simp: lsb_step_def bit_simps)

lemma msb_step_xor: "msb_step p (a XOR b) = msb_step p a XOR msb_step p b"
  by (rule word_eq_by_bits) (auto simp: msb_step_def bit_simps)

lemma lsb_steps_xor: "(lsb_step p ^^ n) (a XOR b) = (lsb_step p ^^ n) a XOR (lsb_step p ^^ n) b"
  by (induction n) (simp_all add: lsb_step_xor)

lemma msb_steps_xor: "(msb_step p ^^ n) (a XOR b) = (msb_step p ^^ n) a XOR (msb_step p ^^ n) b"
  by (induction n) (simp_all add: msb_step_xor)

text \<open>Steps over bits that are zero only shift.\<close>

lemma lsb_steps_shift:
  assumes "\<And>i. i < n \<Longrightarrow> \<not> bit a i"
  shows "(lsb_step p ^^ n) a = drop_bit n a"
  using assms
proof (induction n)
  case 0
  then show ?case by simp
next
  case (Suc n)
  then have "(lsb_step p ^^ n) a = drop_bit n a" by simp
  moreover have "\<not> bit (drop_bit n a) 0"
    using Suc.prems [of n] by (simp add: bit_simps)
  ultimately show ?case
    by (simp add: lsb_step_def [of p "drop_bit n a"] drop_bit_drop_bit)
qed

lemma msb_steps_shift:
  fixes a :: "'a::len word"
  assumes "\<And>i. LENGTH('a) - n \<le> i \<Longrightarrow> \<not> bit a i" and "n \<le> LENGTH('a)"
  shows "(msb_step p ^^ n) a = push_bit n a"
  using assms
proof (induction n)
  case 0
  then show ?case by simp
next
  case (Suc n)
  then have ih: "(msb_step p ^^ n) a = push_bit n a" by simp
  have "\<not> bit (push_bit n a) (LENGTH('a) - 1)"
    using Suc.prems(1) [of "LENGTH('a) - 1 - n"] Suc.prems(2) by (simp add: bit_simps)
  with ih have "(msb_step p ^^ Suc n) a = push_bit 1 (push_bit n a)"
    by (simp add: msb_step_def [of p "push_bit n a"])
  then show ?case by (simp only: push_bit_push_bit) simp
qed

section \<open>Tables of a linear function\<close>

text \<open>All eight-step remainders follow from those of the eight single bits: \<open>xor_span\<close> builds the
  table from the highest basis element down.\<close>

primrec xor_span :: "'a::len word list \<Rightarrow> 'a word list" where
  "xor_span [] = [0]"
| "xor_span (b # bs) = xor_span bs @ map (\<lambda>x. x XOR b) (xor_span bs)"

lemma length_xor_span [simp]: "length (xor_span bs) = 2 ^ length bs"
  by (induction bs) simp_all

lemma of_nat_split_bit:
  assumes "i < 2 ^ k"
  shows "(of_nat (2 ^ k + i) :: 'a::len word) = of_nat i XOR 2 ^ k"
proof -
  have "\<not> bit i k"
    using assms by (simp add: bit_iff_odd)
  then have "(of_nat i :: 'a word) AND 2 ^ k = 0"
    by (intro word_eq_by_bits) (auto simp: bit_simps)
  then have "(of_nat i :: 'a word) + 2 ^ k = of_nat i XOR 2 ^ k"
    by (rule disjunctive_add_eq_xor)
  then show ?thesis by (simp add: add.commute)
qed

text \<open>A table that holds the span of the images of the single bits holds the images of all indices.\<close>

lemma xor_span_nth:
  fixes g :: "'a::len word \<Rightarrow> 'b::len word"
  assumes lin: "\<And>a b. g (a XOR b) = g a XOR g b"
    and basis: "\<And>k. k < length bs \<Longrightarrow> rev bs ! k = g (2 ^ k)"
  shows "i < 2 ^ length bs \<Longrightarrow> xor_span bs ! i = g (of_nat i)"
  using basis
proof (induction bs arbitrary: i)
  case Nil
  from lin [of 0 0] show ?case using Nil by simp
next
  case (Cons b bs)
  have b: "b = g (2 ^ length bs)"
    using Cons.prems(2) [of "length bs"] by (simp add: nth_append)
  have "rev bs ! k = g (2 ^ k)" if "k < length bs" for k
    using Cons.prems(2) [of k] that by (simp add: nth_append)
  then have ih: "xor_span bs ! j = g (of_nat j)" if "j < 2 ^ length bs" for j
    using Cons.IH [OF that] by blast
  show ?case
  proof (cases "i < 2 ^ length bs")
    case True
    then show ?thesis by (simp add: nth_append ih)
  next
    case False
    then obtain j where "i = 2 ^ length bs + j"
      using le_Suc_ex not_less by blast
    with Cons.prems(1) have "j < 2 ^ length bs" by simp
    with \<open>i = _\<close> show ?thesis
      by (simp add: nth_append ih b lin of_nat_split_bit del: of_nat_add)
  qed
qed

lemma basis_nth:
  assumes "rev bs = map h [0..<8]" and "k < length bs"
  shows "rev bs ! k = h k"
proof -
  have "length bs = 8" using arg_cong [OF assms(1), of length] by simp
  with assms show ?thesis by simp
qed

section \<open>Reflected table-driven CRCs\<close>

text \<open>\<open>lsb_avoids\<close>: no table access of the run over the message has a faulty index.\<close>

primrec lsb_avoids :: "'a::len word \<Rightarrow> nat set \<Rightarrow> 'a word \<Rightarrow> u8 list \<Rightarrow> bool" where
  "lsb_avoids poly faulty c [] = True"
| "lsb_avoids poly faulty c (b # bs) =
     (unat ((c XOR ucast b) AND 0xFF) \<notin> faulty \<and>
      lsb_avoids poly faulty ((lsb_step poly ^^ 8) (c XOR ucast b)) bs)"

lemma lsb_avoids_none: "lsb_avoids poly {} c bs"
  by (induction bs arbitrary: c) simp_all

locale reflected_crc =
  fixes poly :: "'a::len word" and table :: "'a word list" and faulty :: "nat set"
  assumes wide: "8 \<le> LENGTH('a)"
    and table_entry: "i < 256 \<Longrightarrow> i \<notin> faulty \<Longrightarrow> table ! i = (lsb_step poly ^^ 8) (of_nat i)"
begin

lemma low_byte_lt: "unat ((c::'a word) AND 0xFF) < 256"
proof -
  have "unat (c AND 0xFF) \<le> unat (0xFF :: 'a word)"
    by (rule word_and_le1 [THEN word_le_nat_alt [THEN iffD1]])
  also have "unat (0xFF :: 'a word) \<le> 255"
    by (simp add: unsigned_numeral take_bit_nat_less_eq_self)
  finally show ?thesis by simp
qed

lemma table_step:
  assumes "unat (c AND 0xFF) \<notin> faulty"
  shows "table ! unat (c AND 0xFF) XOR drop_bit 8 c = (lsb_step poly ^^ 8) c"
proof -
  let ?lo = "c AND 0xFF" and ?hi = "c AND NOT 0xFF"
  have split: "c = ?lo XOR ?hi"
    by (rule word_eq_by_bits) (auto simp: bit_simps)
  have mask: "(0xFF :: 'a word) = mask 8"
    by (simp add: mask_eq_exp_minus_1)
  have "(lsb_step poly ^^ 8) ?hi = drop_bit 8 ?hi"
    by (rule lsb_steps_shift) (simp add: mask bit_simps)
  also have "drop_bit 8 ?hi = drop_bit 8 c"
    by (rule word_eq_by_bits) (auto simp: mask bit_simps dest: bit_imp_le_length)
  finally have hi: "(lsb_step poly ^^ 8) ?hi = drop_bit 8 c" .
  have lo: "table ! unat ?lo = (lsb_step poly ^^ 8) ?lo"
    using table_entry [OF low_byte_lt [of c] assms] by simp
  have "(lsb_step poly ^^ 8) c = (lsb_step poly ^^ 8) ?lo XOR (lsb_step poly ^^ 8) ?hi"
    by (subst split) (rule lsb_steps_xor)
  with hi lo show ?thesis by simp
qed

lemma byte_above: "drop_bit 8 (c XOR ucast (b::u8)) = drop_bit 8 (c::'a word)"
  by (rule word_eq_by_bits) (simp add: bit_simps not_bit_beyond)

lemma table_byte:
  "unat ((c XOR ucast (b::u8)) AND 0xFF) \<notin> faulty \<Longrightarrow>
    table ! unat ((c XOR ucast b) AND 0xFF) XOR drop_bit 8 c = (lsb_step poly ^^ 8) (c XOR ucast b)"
  using table_step [of "c XOR ucast b"] unfolding byte_above .

lemma table_run:
  assumes "\<And>c. run c [] = c"
    and "\<And>c b bs. run c (b # bs) = run (table ! unat ((c XOR ucast b) AND 0xFF) XOR drop_bit 8 c) bs"
  shows "lsb_avoids poly faulty c bs \<Longrightarrow> run c bs = lsb_crc poly c bs"
  by (induction bs arbitrary: c) (simp_all add: assms table_byte)

end

text \<open>The law of the locale for the tables of the source: a table is the span of its entries at the
  powers of two, and those are the eight-step remainders. The CRC-32 table has one entry for
  which this fails: entry 245 is \<open>0xcdd706b3\<close> where the remainder is \<open>0xcdd70693\<close>.\<close>

lemma crc32_table_span:
  "crc32_table [245 := 0xcdd70693] = xor_span [0xedb88320, 0x76dc4190, 0x3b6e20c8, 0x1db71064,
     0xedb8832, 0x76dc419, 0xee0e612c, 0x77073096]"
  by (simp add: crc32_table_def)

lemma crc32_basis:
  "rev [0xedb88320, 0x76dc4190, 0x3b6e20c8, 0x1db71064, 0xedb8832, 0x76dc419, 0xee0e612c, 0x77073096] =
    map (\<lambda>k. (lsb_step 0xEDB88320 ^^ 8) (2 ^ k :: u32)) [0..<8]"
  by code_simp

lemma modbus_table_span:
  "modbus_crc16_table = xor_span [0xa001, 0xf001, 0xd801, 0xcc01, 0xc601, 0xc301, 0xc181, 0xc0c1]"
  by (simp add: modbus_crc16_table_def)

lemma modbus_basis:
  "rev [0xa001, 0xf001, 0xd801, 0xcc01, 0xc601, 0xc301, 0xc181, 0xc0c1] =
    map (\<lambda>k. (lsb_step 0xA001 ^^ 8) (2 ^ k :: u16)) [0..<8]"
  by code_simp

lemma crc16_table_span:
  "crc16_table = xor_span [0x9188, 0x48c4, 0x2462, 0x1231, 0x8108, 0x4084, 0x2042, 0x1021]"
  by (simp add: crc16_table_def)

lemma crc16_basis:
  "rev [0x9188, 0x48c4, 0x2462, 0x1231, 0x8108, 0x4084, 0x2042, 0x1021] =
    map (\<lambda>k. (msb_step 0x1021 ^^ 8) (push_bit 8 (2 ^ k :: u16))) [0..<8]"
  by code_simp

lemma crc32_table_fixed:
  "i < 256 \<Longrightarrow> crc32_table [245 := 0xcdd70693] ! i = (lsb_step 0xEDB88320 ^^ 8) (of_nat i)"
  unfolding crc32_table_span
  by (rule xor_span_nth [OF lsb_steps_xor basis_nth [OF crc32_basis]]) simp_all

lemma crc32_table_entry:
  "i < 256 \<Longrightarrow> i \<notin> {245} \<Longrightarrow> crc32_table ! i = (lsb_step 0xEDB88320 ^^ 8) (of_nat i)"
  using crc32_table_fixed [of i] by simp

lemma modbus_table_entry: "i < 256 \<Longrightarrow> modbus_crc16_table ! i = (lsb_step 0xA001 ^^ 8) (of_nat i)"
  unfolding modbus_table_span
  by (rule xor_span_nth [OF lsb_steps_xor basis_nth [OF modbus_basis]]) simp_all

lemma crc16_table_entry:
  "i < 256 \<Longrightarrow> crc16_table ! i = (msb_step 0x1021 ^^ 8) (push_bit 8 (of_nat i))"
  unfolding crc16_table_span
  by (rule xor_span_nth [where g = "\<lambda>x. (msb_step 0x1021 ^^ 8) (push_bit 8 x)",
        OF _ basis_nth [OF crc16_basis]])
    (simp_all add: push_bit_xor msb_steps_xor)

interpretation eth: reflected_crc "0xEDB88320 :: u32" crc32_table "{245}"
  by unfold_locales (simp_all add: crc32_table_entry)

interpretation mb: reflected_crc "0xA001 :: u16" modbus_crc16_table "{}"
  by unfold_locales (simp_all add: modbus_table_entry)

section \<open>Table-driven and bitwise computation agree\<close>

lemma crc32_loop_bitwise: "lsb_avoids 0xEDB88320 {245} c bs \<Longrightarrow> crc32_loop c bs = lsb_crc 0xEDB88320 c bs"
  by (rule eth.table_run) simp_all

lemma modbus_loop_bitwise: "modbus_crc16_loop c bs = lsb_crc 0xA001 c bs"
  by (rule mb.table_run [OF _ _ lsb_avoids_none]) (simp_all add: Let_def xor.commute)

lemma crc16_byte:
  "push_bit 8 crc XOR crc16_table ! unat ((drop_bit 8 crc XOR ucast (b::u8)) AND 0xFF) =
    (msb_step 0x1021 ^^ 8) (crc XOR push_bit 8 (ucast b))"
proof -
  let ?f = "msb_step (0x1021 :: u16) ^^ 8"
  define i where "i = (drop_bit 8 crc XOR ucast b) AND 0xFF"
  have mask: "(0xFF :: u16) = mask 8"
    by (simp add: mask_eq_exp_minus_1)
  have split: "crc XOR push_bit 8 (ucast b) = push_bit 8 i XOR (crc AND 0xFF)"
    by (rule word_eq_by_bits) (auto simp: i_def mask bit_simps not_bit_beyond)
  have "unat i \<le> unat (0xFF :: u16)"
    unfolding i_def by (rule word_and_le1 [THEN word_le_nat_alt [THEN iffD1]])
  then have "crc16_table ! unat i = ?f (push_bit 8 i)"
    using crc16_table_entry [of "unat i"] by simp
  moreover have "?f (crc AND 0xFF) = push_bit 8 (crc AND 0xFF)"
    by (rule msb_steps_shift) (simp_all add: mask bit_simps)
  moreover have "push_bit 8 (crc AND 0xFF) = push_bit 8 crc"
    by (rule word_eq_by_bits) (auto simp: mask bit_simps)
  ultimately show ?thesis
    unfolding i_def [symmetric] by (simp only: split msb_steps_xor xor.commute)
qed

lemma crc16_loop_bitwise: "crc16_ccitt_loop c bs = msb_crc 0x1021 c bs"
  by (induction bs arbitrary: c) (simp_all add: crc16_byte)


section \<open>The frame check sequence\<close>

text \<open>Reading one byte is \<open>crc32_step\<close> of the state with the byte XORed in, and the step shifts the
  upper bytes through; so four bytes in little-endian order act as one XOR into the state.\<close>

definition crc32_step :: "u32 \<Rightarrow> u32" where
  "crc32_step c = crc32_table ! unat (c AND 0xFF) XOR drop_bit 8 c"

lemma crc32_loop_step: "crc32_loop c (b # bs) = crc32_loop (crc32_step (c XOR ucast b)) bs"
  unfolding crc32_step_def eth.byte_above by simp

lemma crc32_loop_append: "crc32_loop c (xs @ ys) = crc32_loop (crc32_loop c xs) ys"
  by (induction xs arbitrary: c) simp_all

lemma drop24_bits: "drop_bit 24 (x::u32) = 0 \<Longrightarrow> 24 \<le> n \<Longrightarrow> \<not> bit x n"
  using bit_drop_bit_eq [of 24 x, THEN fun_cong, of "n - 24"] by simp

lemma low_byte_bits: "bit (x AND 0xFF :: u32) n \<longleftrightarrow> n < 8 \<and> bit x n"
proof -
  have mask: "(0xFF :: u32) = mask 8" by (simp add: mask_eq_exp_minus_1)
  show ?thesis unfolding mask by (auto simp: bit_simps)
qed

lemma crc32_step_shift:
  assumes "drop_bit 24 x = 0"
  shows "crc32_step c XOR x = crc32_step (c XOR push_bit 8 x)"
proof -
  have lo: "(c XOR push_bit 8 x) AND 0xFF = c AND 0xFF"
    by (rule word_eq_by_bits) (auto simp: low_byte_bits bit_xor_iff bit_push_bit_iff)
  have hi: "drop_bit 8 (c XOR push_bit 8 x) = drop_bit 8 c XOR x"
    by (rule word_eq_by_bits) (use drop24_bits [OF assms] in \<open>auto simp: bit_simps linorder_not_less\<close>)
  show ?thesis unfolding crc32_step_def lo hi by (simp only: xor.assoc)
qed

lemma crc32_step_low_byte:
  "crc32_step (c XOR ucast (ucast x :: u8)) = crc32_step (c XOR x) XOR drop_bit 8 x"
proof -
  have "x = ucast (ucast x :: u8) XOR push_bit 8 (drop_bit 8 x)"
  proof (rule word_eq_by_bits)
    show "bit x n = bit (ucast (ucast x :: u8) XOR push_bit 8 (drop_bit 8 x)) n" if "n < LENGTH(32)" for n
      using that by (cases "n < 8") (simp_all add: bit_simps not_bit_beyond)
  qed
  then have split: "c XOR x = (c XOR ucast (ucast x :: u8)) XOR push_bit 8 (drop_bit 8 x)"
    by (simp only: xor.assoc)
  have "drop_bit 24 (drop_bit 8 x) = 0"
    by (rule word_eq_by_bits) (simp add: bit_simps not_bit_beyond)
  from crc32_step_shift [OF this, of "c XOR ucast (ucast x :: u8)"]
  show ?thesis unfolding split by (metis bit.xor_left_self xor.commute)
qed

lemma funpow_4: "(f ^^ 4) x = f (f (f (f x)))"
  by (simp add: numeral_eq_Suc)

lemma crc32_loop_le32: "crc32_loop c (le32 w) = (crc32_step ^^ 4) (c XOR w)"
proof -
  have next_byte: "crc32_step ((s XOR x) XOR ucast (ucast x :: u8)) = crc32_step s XOR drop_bit 8 x" for s x
    using crc32_step_low_byte [of "s XOR x" x] by (simp add: xor.assoc)
  have "drop_bit 32 w = 0"
    by (rule word_eq_by_bits) (simp add: bit_simps not_bit_beyond)
  then show ?thesis
    using next_byte [of "crc32_step (c XOR w)" "drop_bit 8 w"]
      next_byte [of "crc32_step (crc32_step (c XOR w))" "drop_bit 16 w"]
      next_byte [of "crc32_step (crc32_step (crc32_step (c XOR w)))" "drop_bit 24 w"]
    unfolding le32_def crc32_loop_step crc32_step_low_byte
    by (simp add: drop_bit_drop_bit funpow_4)
qed

text \<open>The step is injective: the entry is recovered from the top byte of the result. In the bitwise
  form this is that a step whose result has a clear top bit did not add the polynomial.\<close>

lemma low_bits_of_top_bits:
  fixes x :: "'a::len word"
  assumes "bit poly (LENGTH('a) - 1)"
  shows "n < LENGTH('a) \<Longrightarrow> \<forall>k<n. \<not> bit ((lsb_step poly ^^ n) x) (LENGTH('a) - 1 - k) \<Longrightarrow>
    \<forall>k<n. \<not> bit x k"
proof (induction n)
  case (Suc n)
  let ?y = "(lsb_step poly ^^ n) x"
  have top: "\<not> bit (lsb_step poly ?y) (LENGTH('a) - 1 - k)" if "k \<le> n" for k
    using Suc.prems(2) that by simp
  from top [of 0] assms have y0: "\<not> bit ?y 0"
    by (auto simp: lsb_step_def bit_simps not_bit_beyond split: if_splits)
  have "\<not> bit ?y (LENGTH('a) - 1 - k)" if "k < n" for k
    using top [of "Suc k"] y0 that Suc.prems(1) by (simp add: lsb_step_def bit_simps Suc_diff_Suc)
  with Suc have low: "\<forall>k<n. \<not> bit x k" by simp
  then have "?y = drop_bit n x" by (intro lsb_steps_shift) simp
  with y0 low show ?case by (simp add: bit_simps less_Suc_eq)
qed simp

lemma crc32_table_top: "i < 256 \<Longrightarrow> drop_bit 24 (crc32_table ! i) = drop_bit 24 ((lsb_step 0xEDB88320 ^^ 8) (of_nat i))"
proof (cases "i = 245")
  case True
  have "drop_bit 24 (crc32_table ! 245) = drop_bit 24 (0xcdd70693)" by (simp add: crc32_table_def)
  moreover have "crc32_table [245 := 0xcdd70693] ! 245 = 0xcdd70693" by (simp add: crc32_table_def)
  ultimately show ?thesis using True crc32_table_fixed [of 245] by simp
qed (simp add: crc32_table_entry)

lemma crc32_step_inj: "inj crc32_step"
proof (rule injI)
  fix a b assume eq: "crc32_step a = crc32_step b"
  let ?lo = "\<lambda>x::u32. x AND 0xFF" and ?f = "lsb_step (0xEDB88320 :: u32) ^^ 8"
  have top: "drop_bit 24 (crc32_step x) = drop_bit 24 (?f (?lo x))" for x
  proof -
    have "drop_bit 24 (drop_bit 8 x) = 0"
      by (rule word_eq_by_bits) (simp add: bit_simps not_bit_beyond)
    then show ?thesis
      using crc32_table_top [OF eth.low_byte_lt [of x]] by (simp add: crc32_step_def)
  qed
  from eq top [of a] top [of b] have "drop_bit 24 (?f (?lo a XOR ?lo b)) = 0"
    by (simp add: lsb_steps_xor)
  from drop24_bits [OF this] have "\<forall>k<8. \<not> bit (?lo a XOR ?lo b) k"
    by (intro low_bits_of_top_bits [of "0xEDB88320 :: u32"]) simp_all
  then have lo: "?lo a = ?lo b"
    by (intro word_eq_by_bits) (auto simp: low_byte_bits bit_xor_iff)
  with eq have hi: "drop_bit 8 a = drop_bit 8 b"
    by (simp add: crc32_step_def) (metis bit.xor_left_self)
  show "a = b"
  proof (rule word_eq_by_bits)
    show "bit a n = bit b n" for n
      using arg_cong [OF lo, of "\<lambda>w. bit w n"] arg_cong [OF hi, of "\<lambda>w. bit w (n - 8)"]
      by (cases "n < 8") (simp_all add: low_byte_bits bit_drop_bit_eq)
  qed
qed

lemma crc32_residue: "(crc32_step ^^ 4) 0xFFFFFFFF = 0xDEBB20E3"
  by (simp add: funpow_4 crc32_step_def crc32_table_def)

lemma le32_inj: "le32 v = le32 w \<longleftrightarrow> v = w"
proof
  assume "le32 v = le32 w"
  then have "of_be32 (ucast (drop_bit 24 v)) (ucast (drop_bit 16 v)) (ucast (drop_bit 8 v)) (ucast v) =
      of_be32 (ucast (drop_bit 24 w)) (ucast (drop_bit 16 w)) (ucast (drop_bit 8 w)) (ucast w)"
    by (simp add: le32_def)
  then show "v = w" by (simp only: of_be32_be32)
qed simp

lemma le32_inverse: "length bs = 4 \<Longrightarrow> \<exists>w. bs = le32 w"
proof -
  assume "length bs = 4"
  then obtain b0 b1 b2 b3 where bs: "bs = [b0, b1, b2, b3]"
    by (auto simp: length_Suc_conv numeral_eq_Suc)
  let ?w = "of_be32 b3 b2 b1 b0"
  have "b0 = ucast ?w" "b1 = ucast (drop_bit 8 ?w)" "b2 = ucast (drop_bit 16 ?w)" "b3 = ucast (drop_bit 24 ?w)"
    by (rule word_eq_by_bits; simp add: of_be32_def bit_simps not_bit_beyond)+
  then show ?thesis unfolding bs le32_def by blast
qed

text \<open>Whatever the table holds at 245, the check accepts a frame exactly when its last four bytes are
  the code's own CRC of the rest.\<close>

lemma crc32_fcs_iff:
  assumes "length fcs = 4"
  shows "crc32_verify_fcs (Some (data @ fcs)) \<longleftrightarrow> fcs = le32 (crc32 (Some data))"
proof -
  obtain w where fcs: "fcs = le32 w" using le32_inverse [OF assms] by blast
  let ?c = "crc32_loop 0xFFFFFFFF data"
  have "crc32_verify_fcs (Some (data @ fcs)) \<longleftrightarrow> (crc32_step ^^ 4) (?c XOR w) = (crc32_step ^^ 4) 0xFFFFFFFF"
    using assms by (simp add: crc32_verify_fcs_def crc32_update_def crc32_loop_append fcs crc32_loop_le32 crc32_residue)
  also have "\<dots> \<longleftrightarrow> ?c XOR w = 0xFFFFFFFF"
    using inj_eq [OF crc32_step_inj] by (simp add: funpow_4)
  also have "\<dots> \<longleftrightarrow> w = crc32 (Some data)"
    by (simp add: crc32_def crc32_update_def) (metis bit.xor_left_self xor.commute)
  finally show ?thesis by (simp add: fcs le32_inj)
qed

section \<open>Properties\<close>

text \<open>Every entry of the CRC-32 table but one is the IEEE 802.3 remainder of its index; entry 245
  is not (it has bit 5 inverted).\<close>

theorem crc32_table_one_fault:
  assumes "i < 256"
  shows "crc32_table ! i = (lsb_step 0xEDB88320 ^^ 8) (of_nat i) \<longleftrightarrow> i \<noteq> 245"
proof (cases "i = 245")
  case True
  have "crc32_table ! 245 = 0xcdd706b3" "crc32_table [245 := 0xcdd70693] ! 245 = 0xcdd70693"
    by (simp_all add: crc32_table_def)
  then show ?thesis using True crc32_table_fixed [of 245] by simp
qed (use assms crc32_table_entry in simp)

theorem crc32_table_one_fault_witness:
  "(245::nat) < 256 \<and> crc32_table ! 245 \<noteq> (lsb_step 0xEDB88320 ^^ 8) (of_nat 245)"
  using crc32_table_one_fault [of 245] by simp

text \<open>\<^bold>\<open>C11.\<close> For every message whose run does not consult the faulty entry, \<open>crc32\<close> is the IEEE CRC-32
  (bit-by-bit division with initial value and final XOR \<open>0xFFFFFFFF\<close>).\<close>

theorem crc32_is_ieee:
  assumes "lsb_avoids (0xEDB88320 :: u32) {245} 0xFFFFFFFF data"
  shows "crc32 (Some data) = lsb_crc 0xEDB88320 0xFFFFFFFF data XOR 0xFFFFFFFF"
  using crc32_loop_bitwise [OF assms] by (simp add: crc32_def crc32_update_def)

lemma check_string_crc: "crc32 (Some [0x31, 0x32, 0x33, 0x34, 0x35, 0x36, 0x37, 0x38, 0x39]) = 0xCBF43926"
  by (simp add: crc32_def crc32_update_def crc32_table_def)

lemma check_string_avoids: "lsb_avoids 0xEDB88320 {245} (0xFFFFFFFF :: u32) [0x31, 0x32, 0x33]"
  by code_simp

theorem crc32_is_ieee_witness:
  "crc32 (Some [0x31, 0x32, 0x33]) = lsb_crc 0xEDB88320 0xFFFFFFFF [0x31, 0x32, 0x33] XOR 0xFFFFFFFF"
  by (rule crc32_is_ieee [OF check_string_avoids])

text \<open>The hypothesis is needed: the one-byte message \<open>0x0A\<close> consults entry 245 and its checksum is not
  the IEEE one.\<close>

lemma crc32_newline_not_ieee:
  "crc32 (Some [0x0A]) \<noteq> lsb_crc 0xEDB88320 0xFFFFFFFF [0x0A] XOR 0xFFFFFFFF"
proof -
  have "crc32 (Some [0x0A]) = 0x32D706B3"
    by (simp add: crc32_def crc32_update_def crc32_table_def)
  moreover have "lsb_crc (0xEDB88320 :: u32) 0xFFFFFFFF [0x0A] = 0xCD28F96C"
    by code_simp
  ultimately show ?thesis by simp
qed

text \<open>The frame check accepts a frame exactly when its last four bytes are the little-endian
  \<open>crc32\<close> of the bytes before them: a frame sealed with the code's checksum always passes and any
  other trailer is rejected. The step on the checksum state is injective in spite of the faulty
  entry, whose error is in the low bytes.\<close>

theorem crc32_frame_check:
  assumes "length fcs = 4"
  shows "crc32_verify_fcs (Some (data @ fcs)) \<longleftrightarrow> fcs = le32 (crc32 (Some data))"
  by (rule crc32_fcs_iff [OF assms])

theorem crc32_frame_check_witness:
  "crc32_verify_fcs (Some ([0x31, 0x32, 0x33, 0x34, 0x35, 0x36, 0x37, 0x38, 0x39] @ [0x26, 0x39, 0xF4, 0xCB]))"
  using crc32_frame_check [of "[0x26, 0x39, 0xF4, 0xCB]" "[0x31, 0x32, 0x33, 0x34, 0x35, 0x36, 0x37, 0x38, 0x39]"]
  unfolding check_string_crc by (simp add: le32_def)

text \<open>The two 16-bit checksums are the bitwise divisions for every message: Modbus RTU (reflected,
  polynomial \<open>0xA001\<close>) and CCITT (\<open>0x1021\<close>, most significant bit first), both from \<open>0xFFFF\<close>.\<close>

theorem crc16_bitwise:
  "modbus_crc16 data = lsb_crc 0xA001 0xFFFF data \<and>
   crc16_ccitt (Some data) = msb_crc 0x1021 0xFFFF data"
  by (simp add: modbus_crc16_def modbus_loop_bitwise crc16_ccitt_def crc16_ccitt_update_def
      crc16_loop_bitwise)

end
