(* ===== verification/Types.thy ===== *)
theory Types
  imports Prelude Float32
begin

text \<open>
  The data types of \<^verbatim>\<open>src/src/types.h\<close> that the components share. Character arrays are the strings
  they hold; an array with a count is the list of its live elements. The sensor and actuator arrays
  of a device are addressed up to their capacity, so they are lists of that length and the counts
  stay separate fields.
\<close>

section \<open>Enumerations\<close>

datatype profinet_state =
  PROFINET_STATE_OFFLINE | PROFINET_STATE_DISCOVERY | PROFINET_STATE_CONNECTING | PROFINET_STATE_CONNECTED
| PROFINET_STATE_RUNNING | PROFINET_STATE_ERROR | PROFINET_STATE_DISCONNECT

datatype slot_type = SLOT_TYPE_DAP | SLOT_TYPE_SENSOR | SLOT_TYPE_ACTUATOR

datatype measurement_type =
  MEASUREMENT_PH | MEASUREMENT_TEMPERATURE | MEASUREMENT_TURBIDITY | MEASUREMENT_TDS
| MEASUREMENT_DISSOLVED_OXYGEN | MEASUREMENT_FLOW_RATE | MEASUREMENT_LEVEL | MEASUREMENT_PRESSURE
| MEASUREMENT_CONDUCTIVITY | MEASUREMENT_ORP | MEASUREMENT_CHLORINE | MEASUREMENT_CUSTOM

datatype actuator_type =
  ACTUATOR_RELAY | ACTUATOR_PWM | ACTUATOR_PUMP | ACTUATOR_VALVE | ACTUATOR_LATCHING | ACTUATOR_MOMENTARY

text \<open>Actuator commands are stored in a \<open>uint8_t\<close>, which other code also fills from the network.\<close>

definition ACTUATOR_CMD_OFF :: u8 where "ACTUATOR_CMD_OFF = 0"
definition ACTUATOR_CMD_ON :: u8 where "ACTUATOR_CMD_ON = 1"
definition ACTUATOR_CMD_PWM :: u8 where "ACTUATOR_CMD_PWM = 2"

lemmas actuator_cmd_defs = ACTUATOR_CMD_OFF_def ACTUATOR_CMD_ON_def ACTUATOR_CMD_PWM_def

datatype iops = IOPS_BAD | IOPS_GOOD

datatype data_quality = QUALITY_GOOD | QUALITY_UNCERTAIN | QUALITY_BAD | QUALITY_NOT_CONNECTED

datatype pid_mode = PID_MODE_OFF | PID_MODE_MANUAL | PID_MODE_AUTO | PID_MODE_CASCADE

datatype interlock_condition =
  INTERLOCK_CONDITION_ABOVE | INTERLOCK_CONDITION_BELOW | INTERLOCK_CONDITION_EQUAL
| INTERLOCK_CONDITION_NOT_EQUAL

datatype interlock_action =
  INTERLOCK_ACTION_ALARM_ONLY | INTERLOCK_ACTION_FORCE_OFF | INTERLOCK_ACTION_FORCE_ON
| INTERLOCK_ACTION_SET_VALUE

datatype alarm_severity =
  ALARM_SEVERITY_LOW | ALARM_SEVERITY_MEDIUM | ALARM_SEVERITY_HIGH | ALARM_SEVERITY_EMERGENCY

datatype alarm_state =
  ALARM_STATE_CLEARED | ALARM_STATE_ACTIVE_UNACK | ALARM_STATE_ACTIVE_ACK | ALARM_STATE_CLEARED_UNACK

datatype alarm_condition =
  ALARM_CONDITION_HIGH | ALARM_CONDITION_LOW | ALARM_CONDITION_HIGH_HIGH | ALARM_CONDITION_LOW_LOW
| ALARM_CONDITION_RATE_OF_CHANGE | ALARM_CONDITION_DEVIATION | ALARM_CONDITION_BAD_QUALITY

datatype sequence_state =
  SEQUENCE_STATE_IDLE | SEQUENCE_STATE_RUNNING | SEQUENCE_STATE_PAUSED | SEQUENCE_STATE_COMPLETE
| SEQUENCE_STATE_FAULTED | SEQUENCE_STATE_ABORTED

datatype failover_mode = FAILOVER_MODE_MANUAL | FAILOVER_MODE_AUTO | FAILOVER_MODE_HOT_STANDBY

datatype authority_state =
  AUTHORITY_AUTONOMOUS | AUTHORITY_HANDOFF_PENDING | AUTHORITY_SUPERVISED | AUTHORITY_RELEASING

section \<open>Structures\<close>

record authority_context =
  ac_epoch :: u32
  ac_state :: authority_state
  ac_request_time_ms :: u64
  ac_grant_time_ms :: u64
  ac_holder :: string
  ac_controller_online :: bool
  ac_rtu_acknowledged :: bool
  ac_stale_command_threshold_ms :: u32

record sensor_data =
  sd_value :: f32
  sd_status :: iops
  sd_quality :: data_quality
  sd_timestamp_ms :: u64
  sd_stale :: bool

record actuator_output =
  ao_command :: u8
  ao_pwm_duty :: u8

record actuator_state =
  as_output :: actuator_output
  as_forced :: bool
  as_last_change_ms :: u64
  as_total_on_time_ms :: u64
  as_cycle_count :: u32

record slot_config =
  sc_slot :: int
  sc_subslot :: int
  sc_type :: slot_type
  sc_name :: string
  sc_unit :: string
  sc_measurement_type :: measurement_type
  sc_actuator_type :: actuator_type
  sc_scale_min :: f32
  sc_scale_max :: f32
  sc_alarm_low :: f32
  sc_alarm_high :: f32
  sc_alarm_low_low :: f32
  sc_alarm_high_high :: f32
  sc_warning_low :: f32
  sc_warning_high :: f32
  sc_deadband :: f32
  sc_enabled :: bool

record rtu_device =
  rd_id :: int
  rd_station_name :: string
  rd_ip_address :: string
  rd_vendor_id :: u16
  rd_device_id :: u16
  rd_connection_state :: profinet_state
  rd_last_seen_ms :: u64
  rd_slots :: "slot_config list"
  rd_slot_capacity :: int
  rd_sensors :: "sensor_data list"
  rd_sensor_count :: int
  rd_actuators :: "actuator_state list"
  rd_actuator_count :: int
  rd_failed_cycles :: int
  rd_packet_loss_percent :: f32
  rd_total_cycles :: u64
  rd_good_cycles :: u64
  rd_reconnect_count :: u32
  rd_authority :: authority_context
  rd_config_dirty :: bool

text \<open>What \<open>calloc\<close> and \<open>memset\<close> to zero leave in these structures.\<close>

definition zero_sensor :: sensor_data where
  "zero_sensor = \<lparr>sd_value = 0, sd_status = IOPS_BAD, sd_quality = QUALITY_GOOD, sd_timestamp_ms = 0, sd_stale = False\<rparr>"

definition zero_actuator :: actuator_state where
  "zero_actuator = \<lparr>as_output = \<lparr>ao_command = 0, ao_pwm_duty = 0\<rparr>, as_forced = False, as_last_change_ms = 0,
     as_total_on_time_ms = 0, as_cycle_count = 0\<rparr>"

definition zero_authority :: authority_context where
  "zero_authority = \<lparr>ac_epoch = 0, ac_state = AUTHORITY_AUTONOMOUS, ac_request_time_ms = 0, ac_grant_time_ms = 0,
     ac_holder = [], ac_controller_online = False, ac_rtu_acknowledged = False, ac_stale_command_threshold_ms = 0\<rparr>"

definition zero_slot_config :: slot_config where
  "zero_slot_config = \<lparr>sc_slot = 0, sc_subslot = 0, sc_type = SLOT_TYPE_DAP, sc_name = [], sc_unit = [],
     sc_measurement_type = MEASUREMENT_PH, sc_actuator_type = ACTUATOR_RELAY, sc_scale_min = 0, sc_scale_max = 0,
     sc_alarm_low = 0, sc_alarm_high = 0, sc_alarm_low_low = 0, sc_alarm_high_high = 0, sc_warning_low = 0,
     sc_warning_high = 0, sc_deadband = 0, sc_enabled = False\<rparr>"

definition zero_device :: rtu_device where
  "zero_device = \<lparr>rd_id = 0, rd_station_name = [], rd_ip_address = [], rd_vendor_id = 0, rd_device_id = 0,
     rd_connection_state = PROFINET_STATE_OFFLINE, rd_last_seen_ms = 0, rd_slots = [], rd_slot_capacity = 0,
     rd_sensors = [], rd_sensor_count = 0, rd_actuators = [], rd_actuator_count = 0, rd_failed_cycles = 0,
     rd_packet_loss_percent = 0, rd_total_cycles = 0, rd_good_cycles = 0, rd_reconnect_count = 0,
     rd_authority = zero_authority, rd_config_dirty = False\<rparr>"

end
