(* ===== verification/Buffer.thy ===== *)
theory Buffer
  imports Prelude Float32
begin

text \<open>
  \<^verbatim>\<open>src/src/utils/buffer.c\<close>: the circular sample buffer and the byte buffer of the network code.

  The circular buffer keeps \<open>capacity\<close> slots of \<open>element_size\<close> bytes; a slot is one list element here.
  It is shown to refine a bounded queue that drops its oldest element when full; the part of that
  argument that concerns pushes only is the locale \<open>bounded_window\<close>, which the alarm history shares.
  The byte buffer is shown to refine a byte stream over bounded storage and to read back what was written.
\<close>

section \<open>Circular buffer\<close>

record 'a circular_buffer =
  cb_data :: "'a list option"
  cb_element_size :: nat
  cb_capacity :: nat
  cb_head :: nat
  cb_tail :: nat
  cb_count :: nat

text \<open>\<open>mem\<close> is the outcome of \<open>calloc\<close>: \<open>None\<close> when it fails, the zeroed slots otherwise.\<close>

definition buffer_init ::
  "'a circular_buffer option \<Rightarrow> nat \<Rightarrow> nat \<Rightarrow> 'a list option \<Rightarrow> wtc_result \<times> 'a circular_buffer option" where
  "buffer_init buf element_size capacity mem =
     on_handle WTC_ERROR_INVALID_PARAM (\<lambda>b.
       if element_size = 0 \<or> capacity = 0 then (WTC_ERROR_INVALID_PARAM, b)
       else case mem of
         None \<Rightarrow> (WTC_ERROR_NO_MEMORY, b\<lparr>cb_data := None\<rparr>)
       | Some slots \<Rightarrow> (WTC_OK, b\<lparr>cb_data := Some slots, cb_element_size := element_size,
           cb_capacity := capacity, cb_head := 0, cb_tail := 0, cb_count := 0\<rparr>)) buf"

definition buffer_free :: "'a circular_buffer option \<Rightarrow> 'a circular_buffer option" where
  "buffer_free = map_option (\<lambda>b. b\<lparr>cb_data := None, cb_capacity := 0, cb_count := 0\<rparr>)"

definition buffer_push ::
  "'a circular_buffer option \<Rightarrow> 'a option \<Rightarrow> wtc_result \<times> 'a circular_buffer option" where
  "buffer_push buf element =
     on_handle WTC_ERROR_INVALID_PARAM (\<lambda>b.
       case (cb_data b, element) of
         (Some slots, Some x) \<Rightarrow>
           (let b = b\<lparr>cb_data := Some (slots[cb_head b := x])\<rparr>;
                b = b\<lparr>cb_head := (cb_head b + 1) mod cb_capacity b\<rparr> in
            (WTC_OK,
             if cb_count b < cb_capacity b then b\<lparr>cb_count := cb_count b + 1\<rparr>
             else b\<lparr>cb_tail := (cb_tail b + 1) mod cb_capacity b\<rparr>))
       | _ \<Rightarrow> (WTC_ERROR_INVALID_PARAM, b)) buf"

text \<open>Functions with an output parameter take whether that pointer is non-NULL and return what they
  store through it (\<open>None\<close> when they store nothing).\<close>

definition buffer_pop ::
  "'a circular_buffer option \<Rightarrow> bool \<Rightarrow> (wtc_result \<times> 'a option) \<times> 'a circular_buffer option" where
  "buffer_pop buf out_ok =
     on_handle (WTC_ERROR_INVALID_PARAM, None) (\<lambda>b.
       case cb_data b of
         Some slots \<Rightarrow>
           if \<not> out_ok then ((WTC_ERROR_INVALID_PARAM, None), b)
           else if cb_count b = 0 then ((WTC_ERROR_EMPTY, None), b)
           else ((WTC_OK, Some (slots ! cb_tail b)),
                 b\<lparr>cb_tail := (cb_tail b + 1) mod cb_capacity b, cb_count := cb_count b - 1\<rparr>)
       | None \<Rightarrow> ((WTC_ERROR_INVALID_PARAM, None), b)) buf"

definition buffer_peek :: "'a circular_buffer option \<Rightarrow> bool \<Rightarrow> wtc_result \<times> 'a option" where
  "buffer_peek buf out_ok =
     with_handle (WTC_ERROR_INVALID_PARAM, None) (\<lambda>b.
       case cb_data b of
         Some slots \<Rightarrow>
           if \<not> out_ok then (WTC_ERROR_INVALID_PARAM, None)
           else if cb_count b = 0 then (WTC_ERROR_EMPTY, None)
           else (WTC_OK, Some (slots ! cb_tail b))
       | None \<Rightarrow> (WTC_ERROR_INVALID_PARAM, None)) buf"

definition buffer_get :: "'a circular_buffer option \<Rightarrow> nat \<Rightarrow> bool \<Rightarrow> wtc_result \<times> 'a option" where
  "buffer_get buf index out_ok =
     with_handle (WTC_ERROR_INVALID_PARAM, None) (\<lambda>b.
       case cb_data b of
         Some slots \<Rightarrow>
           if \<not> out_ok then (WTC_ERROR_INVALID_PARAM, None)
           else if cb_count b \<le> index then (WTC_ERROR_INVALID_PARAM, None)
           else (WTC_OK, Some (slots ! ((cb_tail b + index) mod cb_capacity b)))
       | None \<Rightarrow> (WTC_ERROR_INVALID_PARAM, None)) buf"

definition buffer_count :: "'a circular_buffer option \<Rightarrow> nat" where
  "buffer_count = with_handle 0 cb_count"

definition buffer_is_empty :: "'a circular_buffer option \<Rightarrow> bool" where
  "buffer_is_empty = with_handle True (\<lambda>b. cb_count b = 0)"

definition buffer_is_full :: "'a circular_buffer option \<Rightarrow> bool" where
  "buffer_is_full = with_handle False (\<lambda>b. cb_count b = cb_capacity b)"

definition buffer_clear :: "'a circular_buffer option \<Rightarrow> 'a circular_buffer option" where
  "buffer_clear = map_option (\<lambda>b. b\<lparr>cb_head := 0, cb_tail := 0, cb_count := 0\<rparr>)"

section \<open>Rings\<close>

text \<open>The live part of a ring of slots: \<open>count\<close> elements from \<open>tail\<close> on, oldest first.\<close>

definition ring_contents :: "'a list \<Rightarrow> nat \<Rightarrow> nat \<Rightarrow> 'a list" where
  "ring_contents slots tail count = map (\<lambda>i. slots ! ((tail + i) mod length slots)) [0..<count]"

lemma length_ring_contents [simp]: "length (ring_contents slots tail count) = count"
  by (simp add: ring_contents_def)

lemma ring_contents_0 [simp]: "ring_contents slots tail 0 = []"
  by (simp add: ring_contents_def)

lemma nth_ring_contents:
  "i < count \<Longrightarrow> ring_contents slots tail count ! i = slots ! ((tail + i) mod length slots)"
  by (simp add: ring_contents_def)

lemma mod_add_inj:
  fixes i j n t :: nat
  assumes "(t + i) mod n = (t + j) mod n" and "i < n" and "j < n"
  shows "i = j"
proof -
  have "i mod n = j mod n"
    using assms(1) by (simp add: nat_mod_eq_iff)
  with assms show ?thesis by simp
qed

lemma ring_extend:
  assumes "count < length slots"
  shows "ring_contents (slots[(tail + count) mod length slots := x]) tail (Suc count) =
    ring_contents slots tail count @ [x]"
proof -
  let ?h = "(tail + count) mod length slots"
  have "?h < length slots" by (rule mod_less_divisor) (use assms in linarith)
  moreover have "?h \<noteq> (tail + i) mod length slots" if "i < count" for i
    using mod_add_inj [of tail count "length slots" i] that assms by auto
  ultimately show ?thesis by (auto simp: ring_contents_def)
qed

lemma ring_shift:
  "0 < count \<Longrightarrow> ring_contents slots (Suc tail mod length slots) (count - 1) = tl (ring_contents slots tail count)"
  by (rule nth_equalityI) (simp_all add: nth_ring_contents nth_tl mod_add_left_eq)

lemma ring_overwrite:
  assumes "slots \<noteq> []" and "tail < length slots"
  shows "ring_contents (slots[tail := x]) (Suc tail mod length slots) (length slots) =
    tl (ring_contents slots tail (length slots)) @ [x]"
proof -
  let ?n = "length slots"
  have "ring_contents (slots[(Suc tail mod ?n + (?n - 1)) mod ?n := x]) (Suc tail mod ?n) (Suc (?n - 1)) =
      ring_contents slots (Suc tail mod ?n) (?n - 1) @ [x]"
    using assms by (intro ring_extend) simp
  moreover have "(Suc tail mod ?n + (?n - 1)) mod ?n = tail"
    using assms by (cases "Suc tail = ?n") auto
  ultimately show ?thesis using assms ring_shift [of ?n slots tail] by simp
qed

lemma drop_window:
  "drop (Suc (length (drop (length zs - c) zs)) - c) (drop (length zs - c) zs @ [x]) =
    drop (Suc (length zs) - c) (zs @ [x])"
proof (cases "length zs < c")
  case False
  then have "Suc (length zs) - c = Suc (length zs - c)" by simp
  with False show ?thesis by (cases c) (auto simp: drop_Suc drop_tl)
qed simp

text \<open>
  A structure that remembers the most recent elements: pushing appends, and drops from the front
  what exceeds the capacity.
\<close>

locale bounded_window =
  fixes contents :: "'s \<Rightarrow> 'a list" and wf :: "'s \<Rightarrow> bool" and cap :: "'s \<Rightarrow> nat" and push :: "'a \<Rightarrow> 's \<Rightarrow> 's"
  assumes bounded: "wf s \<Longrightarrow> length (contents s) \<le> cap s"
    and wf_push: "wf s \<Longrightarrow> wf (push x s)"
    and cap_push: "wf s \<Longrightarrow> cap (push x s) = cap s"
    and contents_push: "wf s \<Longrightarrow> contents (push x s) = drop (Suc (length (contents s)) - cap s) (contents s @ [x])"
begin

lemma wf_fold: "wf s \<Longrightarrow> wf (fold push xs s)"
  by (induction xs arbitrary: s) (simp_all add: wf_push)

lemma cap_fold: "wf s \<Longrightarrow> cap (fold push xs s) = cap s"
  by (induction xs arbitrary: s) (simp_all add: wf_push cap_push)

lemma contents_fold:
  "wf s \<Longrightarrow> contents (fold push xs s) = drop (length (contents s) + length xs - cap s) (contents s @ xs)"
proof (induction xs rule: rev_induct)
  case Nil
  then show ?case using bounded [of s] by simp
next
  case (snoc x xs)
  let ?s = "fold push xs s"
  from snoc have "contents (push x ?s) = drop (Suc (length (contents ?s)) - cap s) (contents ?s @ [x])"
    by (simp add: contents_push wf_fold cap_fold)
  also have "contents ?s = drop (length (contents s @ xs) - cap s) (contents s @ xs)"
    using snoc by simp
  finally show ?case unfolding drop_window by simp
qed

lemma newest: "wf s \<Longrightarrow> 0 < cap s \<Longrightarrow> last (contents (push x s)) = x"
  using bounded [of s] by (simp add: contents_push)

end

section \<open>The circular buffer refines a bounded queue\<close>

definition cb_wf :: "'a circular_buffer \<Rightarrow> bool" where
  "cb_wf b \<longleftrightarrow> (case cb_data b of None \<Rightarrow> False | Some slots \<Rightarrow>
     length slots = cb_capacity b \<and> 0 < cb_capacity b \<and> cb_tail b < cb_capacity b \<and>
     cb_count b \<le> cb_capacity b \<and> cb_head b = (cb_tail b + cb_count b) mod cb_capacity b)"

definition cb_contents :: "'a circular_buffer \<Rightarrow> 'a list" where
  "cb_contents b = (case cb_data b of None \<Rightarrow> [] | Some slots \<Rightarrow> ring_contents slots (cb_tail b) (cb_count b))"

definition push_state :: "'a \<Rightarrow> 'a circular_buffer \<Rightarrow> 'a circular_buffer" where
  "push_state x b = the (snd (buffer_push (Some b) (Some x)))"

lemma cb_wfE:
  assumes "cb_wf b"
  obtains slots where "cb_data b = Some slots" "length slots = cb_capacity b" "0 < cb_capacity b"
    "cb_tail b < cb_capacity b" "cb_count b \<le> cb_capacity b"
    "cb_head b = (cb_tail b + cb_count b) mod cb_capacity b"
  using assms by (auto simp: cb_wf_def split: option.splits)

lemma push_wf: "cb_wf b \<Longrightarrow> cb_wf (push_state x b)"
  by (erule cb_wfE) (auto simp: push_state_def buffer_push_def cb_wf_def Let_def mod_Suc_eq mod_add_left_eq)

lemma push_contents:
  assumes "cb_wf b"
  shows "cb_contents (push_state x b) =
    (if cb_count b < cb_capacity b then cb_contents b @ [x] else tl (cb_contents b) @ [x])"
proof -
  from assms obtain slots where b: "cb_data b = Some slots" "length slots = cb_capacity b" "0 < cb_capacity b"
    "cb_tail b < cb_capacity b" "cb_count b \<le> cb_capacity b"
    "cb_head b = (cb_tail b + cb_count b) mod cb_capacity b" by (rule cb_wfE)
  show ?thesis
  proof (cases "cb_count b < cb_capacity b")
    case True
    with b ring_extend [of "cb_count b" slots "cb_tail b" x] show ?thesis
      by (simp add: push_state_def buffer_push_def cb_contents_def Let_def)
  next
    case False
    with b have full: "cb_count b = length slots" and head: "cb_head b = cb_tail b" by auto
    from b have "slots \<noteq> []" by auto
    with False full head b ring_overwrite [of slots "cb_tail b" x] show ?thesis
      by (simp add: push_state_def buffer_push_def cb_contents_def Let_def)
  qed
qed

lemma length_cb_contents: "cb_wf b \<Longrightarrow> length (cb_contents b) = cb_count b"
  by (erule cb_wfE) (simp add: cb_contents_def)

interpretation samples: bounded_window cb_contents cb_wf cb_capacity push_state
proof
  fix b :: "'a circular_buffer" and x
  assume wf: "cb_wf b"
  then show "cb_wf (push_state x b)" by (rule push_wf)
  show "length (cb_contents b) \<le> cb_capacity b"
    using wf length_cb_contents [OF wf] by (auto elim: cb_wfE)
  show "cb_capacity (push_state x b) = cb_capacity b"
    using wf by (auto elim!: cb_wfE simp: push_state_def buffer_push_def Let_def)
  have "cb_count b \<le> cb_capacity b" "0 < cb_capacity b" using wf by (auto elim: cb_wfE)
  then show "cb_contents (push_state x b) = drop (Suc (length (cb_contents b)) - cb_capacity b) (cb_contents b @ [x])"
    using push_contents [OF wf, of x] length_cb_contents [OF wf]
    by (cases "cb_contents b") (auto simp: drop_Suc)
qed

text \<open>A program using the buffer: its calls, what they return, and the same on a queue.\<close>

datatype 'a buf_call = Push 'a | Pop | Peek | Get nat | Count | Clear

datatype 'a buf_reply = Status wtc_result "'a option" | Number nat | Done

fun buf_exec :: "'a buf_call \<Rightarrow> 'a circular_buffer \<Rightarrow> 'a buf_reply \<times> 'a circular_buffer" where
  "buf_exec (Push x) b = (let (r, b') = buffer_push (Some b) (Some x) in (Status r None, the b'))"
| "buf_exec Pop b = (let ((r, v), b') = buffer_pop (Some b) True in (Status r v, the b'))"
| "buf_exec Peek b = (let (r, v) = buffer_peek (Some b) True in (Status r v, b))"
| "buf_exec (Get i) b = (let (r, v) = buffer_get (Some b) i True in (Status r v, b))"
| "buf_exec Count b = (Number (buffer_count (Some b)), b)"
| "buf_exec Clear b = (Done, the (buffer_clear (Some b)))"

fun queue_exec :: "nat \<Rightarrow> 'a buf_call \<Rightarrow> 'a list \<Rightarrow> 'a buf_reply \<times> 'a list" where
  "queue_exec n (Push x) q = (Status WTC_OK None, if length q < n then q @ [x] else tl q @ [x])"
| "queue_exec n Pop q = (case q of [] \<Rightarrow> (Status WTC_ERROR_EMPTY None, []) | x # xs \<Rightarrow> (Status WTC_OK (Some x), xs))"
| "queue_exec n Peek q = (case q of [] \<Rightarrow> (Status WTC_ERROR_EMPTY None, []) | x # xs \<Rightarrow> (Status WTC_OK (Some x), q))"
| "queue_exec n (Get i) q =
     (if i < length q then Status WTC_OK (Some (q ! i)) else Status WTC_ERROR_INVALID_PARAM None, q)"
| "queue_exec n Count q = (Number (length q), q)"
| "queue_exec n Clear q = (Done, [])"

lemma exec_simulates:
  assumes "cb_wf b"
  shows "cb_wf (snd (buf_exec c b))" "cb_capacity (snd (buf_exec c b)) = cb_capacity b"
    "queue_exec (cb_capacity b) c (cb_contents b) = (fst (buf_exec c b), cb_contents (snd (buf_exec c b)))"
proof -
  from assms obtain slots where b: "cb_data b = Some slots" "length slots = cb_capacity b" "0 < cb_capacity b"
    "cb_tail b < cb_capacity b" "cb_count b \<le> cb_capacity b"
    "cb_head b = (cb_tail b + cb_count b) mod cb_capacity b" by (rule cb_wfE)
  note defs = buffer_pop_def buffer_peek_def buffer_get_def buffer_count_def buffer_clear_def
  have push: "buf_exec (Push x) b = (Status WTC_OK None, push_state x b)" for x
    using b by (simp add: push_state_def buffer_push_def Let_def split_beta)
  have head: "slots ! cb_tail b = cb_contents b ! 0" if "0 < cb_count b"
    using that b by (simp add: cb_contents_def nth_ring_contents)
  have len: "length (cb_contents b) = cb_count b" by (rule length_cb_contents [OF assms])
  have pop: "cb_wf (snd (buf_exec Pop b))"
  proof (cases "cb_count b")
    case 0
    with assms b show ?thesis by (simp add: defs)
  next
    case (Suc n)
    with b have "(Suc (cb_tail b) mod cb_capacity b + n) mod cb_capacity b = (cb_tail b + Suc n) mod cb_capacity b"
      by (simp add: mod_add_left_eq)
    with b Suc show ?thesis by (simp add: defs cb_wf_def)
  qed
  show "cb_wf (snd (buf_exec c b))"
    using assms b pop push samples.wf_push [OF assms]
    by (cases c) (auto simp: defs cb_wf_def Let_def split_beta)
  show "cb_capacity (snd (buf_exec c b)) = cb_capacity b"
    using b push samples.cap_push [OF assms] by (cases c) (auto simp: defs split_beta)
  show "queue_exec (cb_capacity b) c (cb_contents b) = (fst (buf_exec c b), cb_contents (snd (buf_exec c b)))"
  proof (cases c)
    case (Push x)
    then show ?thesis using push push_contents [OF assms] len by simp
  next
    case Pop
    show ?thesis
    proof (cases "cb_contents b")
      case Nil
      with len b Pop show ?thesis by (simp add: defs)
    next
      case (Cons x xs)
      with len have "0 < cb_count b" by auto
      with Pop Cons b head ring_shift [of "cb_count b" slots "cb_tail b"] show ?thesis
        by (simp add: defs cb_contents_def)
    qed
  next
    case Peek
    with b head len show ?thesis by (cases "cb_contents b") (auto simp: defs split_beta)
  next
    case (Get i)
    with b len show ?thesis by (simp add: defs cb_contents_def nth_ring_contents)
  next
    case Count
    with len show ?thesis by (simp add: defs)
  next
    case Clear
    with b show ?thesis by (simp add: defs cb_contents_def)
  qed
qed

interpretation cb_sim: call_simulation buf_exec queue_exec cb_contents cb_capacity cb_wf
  by unfold_locales (simp_all add: exec_simulates)

text \<open>\<^bold>\<open>C26.\<close> The circular buffer is a bounded first-in first-out queue that drops its oldest element
  when it is full: every program of calls gets from the buffer the replies that the queue gives, and
  the live elements are the queue. A buffer that \<open>buffer_init\<close> set up is the empty queue.\<close>

theorem circular_buffer_refines_queue:
  assumes "cb_wf b"
  shows "run_calls (queue_exec (cb_capacity b)) calls (cb_contents b) =
    (fst (run_calls buf_exec calls b), cb_contents (snd (run_calls buf_exec calls b)))"
  by (rule cb_sim.run_sim [OF assms])

lemma init_wf:
  assumes "0 < n" "0 < capacity" "length slots = capacity"
  shows "\<exists>b'. buffer_init (Some b) n capacity (Some slots) = (WTC_OK, Some b') \<and> cb_wf b' \<and>
    cb_contents b' = [] \<and> cb_capacity b' = capacity"
  using assms by (simp add: buffer_init_def cb_wf_def cb_contents_def)

definition two_slots :: "nat circular_buffer" where
  "two_slots = \<lparr>cb_data = Some [0, 0], cb_element_size = 8, cb_capacity = 2, cb_head = 0, cb_tail = 0, cb_count = 0\<rparr>"

theorem circular_buffer_refines_queue_witness:
  "fst (run_calls buf_exec [Push 7, Push 8, Push 9, Get 1, Pop, Pop, Pop] two_slots) =
    [Status WTC_OK None, Status WTC_OK None, Status WTC_OK None, Status WTC_OK (Some 9),
     Status WTC_OK (Some 8), Status WTC_OK (Some 9), Status WTC_ERROR_EMPTY None]"
proof -
  have wf: "cb_wf two_slots" and "cb_contents two_slots = []" and "cb_capacity two_slots = 2"
    by (simp_all add: two_slots_def cb_wf_def cb_contents_def)
  with circular_buffer_refines_queue [OF wf, of "[Push 7, Push 8, Push 9, Get 1, Pop, Pop, Pop]"]
  show ?thesis by (auto simp: split_beta)
qed

section \<open>Byte buffer\<close>

text \<open>\<open>size_t\<close> arithmetic.\<close>

definition size_add :: "nat \<Rightarrow> nat \<Rightarrow> nat" where
  "size_add a b = (a + b) mod 2 ^ 64"

definition size_sub :: "nat \<Rightarrow> nat \<Rightarrow> nat" where
  "size_sub a b = (a + 2 ^ 64 - b) mod 2 ^ 64"

lemma size_sub_exact: "b \<le> a \<Longrightarrow> a < 2 ^ 64 \<Longrightarrow> size_sub a b = a - b"
proof -
  assume "b \<le> a" "a < 2 ^ 64"
  then have "a + 2 ^ 64 - b = (a - b) + 2 ^ 64" by simp
  then show ?thesis using \<open>a < 2 ^ 64\<close> unfolding size_sub_def by (simp only: mod_add_self2) simp
qed

lemma size_add_exact: "a + b < 2 ^ 64 \<Longrightarrow> size_add a b = a + b"
  by (simp add: size_add_def)

record byte_buffer =
  bb_data :: "u8 list option"
  bb_capacity :: nat
  bb_read_pos :: nat
  bb_write_pos :: nat

text \<open>\<open>mem\<close> is the outcome of \<open>malloc\<close>, with whatever bytes it holds.\<close>

definition byte_buffer_init ::
  "byte_buffer option \<Rightarrow> nat \<Rightarrow> u8 list option \<Rightarrow> wtc_result \<times> byte_buffer option" where
  "byte_buffer_init buf capacity mem =
     on_handle WTC_ERROR_INVALID_PARAM (\<lambda>b.
       if capacity = 0 then (WTC_ERROR_INVALID_PARAM, b)
       else case mem of
         None \<Rightarrow> (WTC_ERROR_NO_MEMORY, b\<lparr>bb_data := None\<rparr>)
       | Some bytes \<Rightarrow> (WTC_OK, b\<lparr>bb_data := Some bytes, bb_capacity := capacity,
           bb_read_pos := 0, bb_write_pos := 0\<rparr>)) buf"

definition byte_buffer_free :: "byte_buffer option \<Rightarrow> byte_buffer option" where
  "byte_buffer_free = map_option (\<lambda>b. b\<lparr>bb_data := None, bb_capacity := 0\<rparr>)"

definition byte_buffer_reset :: "byte_buffer option \<Rightarrow> byte_buffer option" where
  "byte_buffer_reset = map_option (\<lambda>b. b\<lparr>bb_read_pos := 0, bb_write_pos := 0\<rparr>)"

definition byte_buffer_readable :: "byte_buffer option \<Rightarrow> nat" where
  "byte_buffer_readable = with_handle 0 (\<lambda>b. size_sub (bb_write_pos b) (bb_read_pos b))"

definition byte_buffer_writable :: "byte_buffer option \<Rightarrow> nat" where
  "byte_buffer_writable = with_handle 0 (\<lambda>b. size_sub (bb_capacity b) (bb_write_pos b))"

definition byte_buffer_write :: "byte_buffer option \<Rightarrow> u8 list option \<Rightarrow> wtc_result \<times> byte_buffer option" where
  "byte_buffer_write buf data =
     on_handle WTC_ERROR_INVALID_PARAM (\<lambda>b.
       case (bb_data b, data) of
         (Some mem, Some bs) \<Rightarrow>
           if byte_buffer_writable (Some b) < length bs then (WTC_ERROR_FULL, b)
           else (WTC_OK, b\<lparr>bb_data := Some (memcpy_at mem (bb_write_pos b) bs),
                  bb_write_pos := size_add (bb_write_pos b) (length bs)\<rparr>)
       | _ \<Rightarrow> (WTC_ERROR_INVALID_PARAM, b)) buf"

definition byte_buffer_read ::
  "byte_buffer option \<Rightarrow> bool \<Rightarrow> nat \<Rightarrow> (wtc_result \<times> u8 list option) \<times> byte_buffer option" where
  "byte_buffer_read buf out_ok len =
     on_handle (WTC_ERROR_INVALID_PARAM, None) (\<lambda>b.
       case bb_data b of
         Some mem \<Rightarrow>
           if \<not> out_ok then ((WTC_ERROR_INVALID_PARAM, None), b)
           else if byte_buffer_readable (Some b) < len then ((WTC_ERROR_EMPTY, None), b)
           else ((WTC_OK, Some (mem_read mem (bb_read_pos b) len)),
                 b\<lparr>bb_read_pos := size_add (bb_read_pos b) len\<rparr>)
       | None \<Rightarrow> ((WTC_ERROR_INVALID_PARAM, None), b)) buf"

definition byte_buffer_peek :: "byte_buffer option \<Rightarrow> bool \<Rightarrow> nat \<Rightarrow> wtc_result \<times> u8 list option" where
  "byte_buffer_peek buf out_ok len =
     with_handle (WTC_ERROR_INVALID_PARAM, None) (\<lambda>b.
       case bb_data b of
         Some mem \<Rightarrow>
           if \<not> out_ok then (WTC_ERROR_INVALID_PARAM, None)
           else if byte_buffer_readable (Some b) < len then (WTC_ERROR_EMPTY, None)
           else (WTC_OK, Some (mem_read mem (bb_read_pos b) len))
       | None \<Rightarrow> (WTC_ERROR_INVALID_PARAM, None)) buf"

definition byte_buffer_skip :: "byte_buffer option \<Rightarrow> nat \<Rightarrow> wtc_result \<times> byte_buffer option" where
  "byte_buffer_skip buf len =
     on_handle WTC_ERROR_INVALID_PARAM (\<lambda>b.
       if byte_buffer_readable (Some b) < len then (WTC_ERROR_EMPTY, b)
       else (WTC_OK, b\<lparr>bb_read_pos := size_add (bb_read_pos b) len\<rparr>)) buf"

text \<open>The pointers into the storage are the offsets they point to.\<close>

definition byte_buffer_read_ptr :: "byte_buffer option \<Rightarrow> nat option" where
  "byte_buffer_read_ptr = with_handle None (\<lambda>b. Some (bb_read_pos b))"

definition byte_buffer_write_ptr :: "byte_buffer option \<Rightarrow> nat option" where
  "byte_buffer_write_ptr = with_handle None (\<lambda>b. Some (bb_write_pos b))"

definition byte_buffer_advance_write :: "byte_buffer option \<Rightarrow> nat \<Rightarrow> byte_buffer option" where
  "byte_buffer_advance_write buf len =
     map_option (\<lambda>b.
       if size_add (bb_write_pos b) len \<le> bb_capacity b
       then b\<lparr>bb_write_pos := size_add (bb_write_pos b) len\<rparr> else b) buf"

definition byte_buffer_write_u8 :: "byte_buffer option \<Rightarrow> u8 \<Rightarrow> wtc_result \<times> byte_buffer option" where
  "byte_buffer_write_u8 buf v = byte_buffer_write buf (Some [v])"

definition byte_buffer_write_u16 :: "byte_buffer option \<Rightarrow> u16 \<Rightarrow> wtc_result \<times> byte_buffer option" where
  "byte_buffer_write_u16 buf v = byte_buffer_write buf (Some (be16 v))"

definition byte_buffer_write_u32 :: "byte_buffer option \<Rightarrow> u32 \<Rightarrow> wtc_result \<times> byte_buffer option" where
  "byte_buffer_write_u32 buf v = byte_buffer_write buf (Some (be32 v))"

definition byte_buffer_write_float :: "byte_buffer option \<Rightarrow> f32 \<Rightarrow> wtc_result \<times> byte_buffer option" where
  "byte_buffer_write_float buf v = byte_buffer_write_u32 buf v"

definition byte_buffer_read_u8 :: "byte_buffer option \<Rightarrow> (wtc_result \<times> u8 option) \<times> byte_buffer option" where
  "byte_buffer_read_u8 buf =
     (let ((res, bs), buf') = byte_buffer_read buf True 1 in ((res, map_option hd bs), buf'))"

definition byte_buffer_read_u16 :: "byte_buffer option \<Rightarrow> (wtc_result \<times> u16 option) \<times> byte_buffer option" where
  "byte_buffer_read_u16 buf =
     (let ((res, bs), buf') = byte_buffer_read buf True 2 in
      ((res, map_option (\<lambda>bs. of_be16 (bs ! 0) (bs ! 1)) bs), buf'))"

definition byte_buffer_read_u32 :: "byte_buffer option \<Rightarrow> (wtc_result \<times> u32 option) \<times> byte_buffer option" where
  "byte_buffer_read_u32 buf =
     (let ((res, bs), buf') = byte_buffer_read buf True 4 in
      ((res, map_option (\<lambda>bs. of_be32 (bs ! 0) (bs ! 1) (bs ! 2) (bs ! 3)) bs), buf'))"

definition byte_buffer_read_float :: "byte_buffer option \<Rightarrow> (wtc_result \<times> f32 option) \<times> byte_buffer option" where
  "byte_buffer_read_float buf = byte_buffer_read_u32 buf"

section \<open>The byte buffer is a byte stream\<close>

definition bb_wf :: "byte_buffer \<Rightarrow> bool" where
  "bb_wf b \<longleftrightarrow> (case bb_data b of None \<Rightarrow> False | Some mem \<Rightarrow> length mem = bb_capacity b) \<and>
     bb_read_pos b \<le> bb_write_pos b \<and> bb_write_pos b \<le> bb_capacity b \<and> bb_capacity b < 2 ^ 64"

definition bb_unread :: "byte_buffer \<Rightarrow> u8 list" where
  "bb_unread b = (case bb_data b of None \<Rightarrow> [] | Some mem \<Rightarrow>
     mem_read mem (bb_read_pos b) (bb_write_pos b - bb_read_pos b))"

text \<open>The storage in front of the unread bytes and behind them.\<close>

definition bb_done :: "byte_buffer \<Rightarrow> u8 list" where
  "bb_done b = take (bb_read_pos b) (the (bb_data b))"

definition bb_free :: "byte_buffer \<Rightarrow> u8 list" where
  "bb_free b = drop (bb_write_pos b) (the (bb_data b))"

definition bb_room :: "byte_buffer \<Rightarrow> nat" where
  "bb_room b = bb_capacity b - bb_write_pos b"

lemma bb_wfE:
  assumes "bb_wf b"
  obtains mem where "bb_data b = Some mem" "length mem = bb_capacity b" "bb_read_pos b \<le> bb_write_pos b"
    "bb_write_pos b \<le> bb_capacity b" "bb_capacity b < 2 ^ 64"
  using assms by (auto simp: bb_wf_def split: option.splits)

lemma length_bb_unread: "bb_wf b \<Longrightarrow> length (bb_unread b) = bb_write_pos b - bb_read_pos b"
  by (erule bb_wfE) (simp add: bb_unread_def)

lemma byte_positions:
  assumes "bb_wf b"
  shows "byte_buffer_writable (Some b) = bb_room b"
    "byte_buffer_readable (Some b) = length (bb_unread b)"
    "n \<le> bb_room b \<Longrightarrow> size_add (bb_write_pos b) n = bb_write_pos b + n"
    "n \<le> length (bb_unread b) \<Longrightarrow> size_add (bb_read_pos b) n = bb_read_pos b + n"
  using assms length_bb_unread [OF assms]
  by (auto elim!: bb_wfE simp: byte_buffer_writable_def byte_buffer_readable_def bb_room_def
      size_sub_exact size_add_exact)

lemma take_mem_read: "n \<le> m \<Longrightarrow> take n (mem_read mem p m) = mem_read mem p n"
  by (simp add: mem_read_def min_def)

lemma drop_mem_read: "n \<le> m \<Longrightarrow> drop n (mem_read mem p m) = mem_read mem (p + n) (m - n)"
  by (simp add: mem_read_def drop_take add.commute)

datatype byte_call =
  Write "u8 list" | Read nat | ReadPeek nat | Skip nat | AdvanceWrite nat | Reset | Readable | Writable

datatype byte_reply = Reply wtc_result "u8 list option" | Size nat

fun byte_exec :: "byte_call \<Rightarrow> byte_buffer \<Rightarrow> byte_reply \<times> byte_buffer" where
  "byte_exec (Write bs) b = (let (r, b') = byte_buffer_write (Some b) (Some bs) in (Reply r None, the b'))"
| "byte_exec (Read n) b = (let ((r, v), b') = byte_buffer_read (Some b) True n in (Reply r v, the b'))"
| "byte_exec (ReadPeek n) b = (let (r, v) = byte_buffer_peek (Some b) True n in (Reply r v, b))"
| "byte_exec (Skip n) b = (let (r, b') = byte_buffer_skip (Some b) n in (Reply r None, the b'))"
| "byte_exec (AdvanceWrite n) b = (Reply WTC_OK None, the (byte_buffer_advance_write (Some b) n))"
| "byte_exec Reset b = (Reply WTC_OK None, the (byte_buffer_reset (Some b)))"
| "byte_exec Readable b = (Size (byte_buffer_readable (Some b)), b)"
| "byte_exec Writable b = (Size (byte_buffer_writable (Some b)), b)"

text \<open>The stream: the bytes already read, the unread bytes and the free storage behind them. A write replaces
  the beginning of the free storage, \<open>byte_buffer_advance_write\<close> takes over what the caller has stored
  there through the write pointer. Reading does not give storage back, a reset does.\<close>

type_synonym stream = "u8 list \<times> u8 list \<times> u8 list"

fun stream_exec :: "byte_call \<Rightarrow> stream \<Rightarrow> byte_reply \<times> stream" where
  "stream_exec (Write bs) (ds, us, fs) =
     (if length fs < length bs then (Reply WTC_ERROR_FULL None, ds, us, fs)
      else (Reply WTC_OK None, ds, us @ bs, drop (length bs) fs))"
| "stream_exec (Read n) (ds, us, fs) =
     (if length us < n then (Reply WTC_ERROR_EMPTY None, ds, us, fs)
      else (Reply WTC_OK (Some (take n us)), ds @ take n us, drop n us, fs))"
| "stream_exec (ReadPeek n) (ds, us, fs) =
     (if length us < n then Reply WTC_ERROR_EMPTY None else Reply WTC_OK (Some (take n us)), ds, us, fs)"
| "stream_exec (Skip n) (ds, us, fs) =
     (if length us < n then (Reply WTC_ERROR_EMPTY None, ds, us, fs)
      else (Reply WTC_OK None, ds @ take n us, drop n us, fs))"
| "stream_exec (AdvanceWrite n) (ds, us, fs) =
     (Reply WTC_OK None, if n \<le> length fs then (ds, us @ take n fs, drop n fs) else (ds, us, fs))"
| "stream_exec Reset (ds, us, fs) = (Reply WTC_OK None, [], [], ds @ us @ fs)"
| "stream_exec Readable (ds, us, fs) = (Size (length us), ds, us, fs)"
| "stream_exec Writable (ds, us, fs) = (Size (length fs), ds, us, fs)"

text \<open>The guard of \<open>byte_buffer_advance_write\<close> adds the length to a position below the capacity; a length close
  to the largest \<open>size_t\<close> wraps around there.\<close>

fun no_wrap :: "nat \<Rightarrow> byte_call \<Rightarrow> bool" where
  "no_wrap cap (AdvanceWrite n) \<longleftrightarrow> cap + n < 2 ^ 64"
| "no_wrap cap _ \<longleftrightarrow> True"

lemma write_appends:
  assumes "bb_wf b" "length bs \<le> bb_room b" "bb_data b = Some mem"
  shows "mem_read (memcpy_at mem (bb_write_pos b) bs) (bb_read_pos b)
      (bb_write_pos b + length bs - bb_read_pos b) = bb_unread b @ bs"
proof -
  from assms have p: "bb_read_pos b \<le> bb_write_pos b" "bb_write_pos b + length bs \<le> length mem"
    by (auto elim!: bb_wfE simp: bb_room_def)
  have "bb_write_pos b + length bs - bb_read_pos b = (bb_write_pos b - bb_read_pos b) + length bs"
    using p by simp
  with p assms(3) show ?thesis
    by (simp only: mem_read_split) (simp add: mem_read_below bb_unread_def)
qed

definition bb_abs :: "byte_buffer \<Rightarrow> stream" where
  "bb_abs b = (bb_done b, bb_unread b, bb_free b)"

lemma length_bb_free: "bb_wf b \<Longrightarrow> length (bb_free b) = bb_room b"
  by (erule bb_wfE) (simp add: bb_free_def bb_room_def)

lemma byte_write_step:
  assumes "bb_wf b"
  shows "length bs \<le> bb_room b \<Longrightarrow> \<exists>b'. byte_buffer_write (Some b) (Some bs) = (WTC_OK, Some b') \<and> bb_wf b' \<and>
      bb_abs b' = (bb_done b, bb_unread b @ bs, drop (length bs) (bb_free b)) \<and> bb_room b' = bb_room b - length bs \<and>
      bb_capacity b' = bb_capacity b"
    and "bb_room b < length bs \<Longrightarrow> byte_buffer_write (Some b) (Some bs) = (WTC_ERROR_FULL, Some b)"
proof -
  from assms obtain mem where b: "bb_data b = Some mem" "length mem = bb_capacity b"
    "bb_read_pos b \<le> bb_write_pos b" "bb_write_pos b \<le> bb_capacity b" "bb_capacity b < 2 ^ 64" by (rule bb_wfE)
  show "bb_room b < length bs \<Longrightarrow> byte_buffer_write (Some b) (Some bs) = (WTC_ERROR_FULL, Some b)"
    using b by (simp add: byte_buffer_write_def byte_positions [OF assms])
  assume fits: "length bs \<le> bb_room b"
  then have le: "bb_write_pos b + length bs \<le> length mem" using b by (simp add: bb_room_def)
  have "take (bb_read_pos b) (memcpy_at mem (bb_write_pos b) bs) = take (bb_read_pos b) mem"
    "drop (bb_write_pos b + length bs) (memcpy_at mem (bb_write_pos b) bs) = drop (length bs) (drop (bb_write_pos b) mem)"
    using b le by (simp_all add: memcpy_at_def add.commute)
  with b fits le show "\<exists>b'. byte_buffer_write (Some b) (Some bs) = (WTC_OK, Some b') \<and> bb_wf b' \<and>
      bb_abs b' = (bb_done b, bb_unread b @ bs, drop (length bs) (bb_free b)) \<and> bb_room b' = bb_room b - length bs \<and>
      bb_capacity b' = bb_capacity b"
    using write_appends [OF assms fits b(1)]
    by (simp add: byte_buffer_write_def byte_positions [OF assms] bb_wf_def bb_abs_def bb_done_def bb_free_def bb_unread_def
        bb_room_def)
qed

lemma byte_read_step:
  assumes "bb_wf b"
  shows "n \<le> length (bb_unread b) \<Longrightarrow>
      \<exists>b'. byte_buffer_read (Some b) True n = ((WTC_OK, Some (take n (bb_unread b))), Some b') \<and>
      byte_buffer_skip (Some b) n = (WTC_OK, Some b') \<and> bb_wf b' \<and>
      bb_abs b' = (bb_done b @ take n (bb_unread b), drop n (bb_unread b), bb_free b) \<and> bb_room b' = bb_room b \<and>
      bb_capacity b' = bb_capacity b"
    and "length (bb_unread b) < n \<Longrightarrow> byte_buffer_read (Some b) True n = ((WTC_ERROR_EMPTY, None), Some b) \<and>
      byte_buffer_skip (Some b) n = (WTC_ERROR_EMPTY, Some b)"
proof -
  from assms obtain mem where b: "bb_data b = Some mem" "length mem = bb_capacity b"
    "bb_read_pos b \<le> bb_write_pos b" "bb_write_pos b \<le> bb_capacity b" "bb_capacity b < 2 ^ 64" by (rule bb_wfE)
  show "length (bb_unread b) < n \<Longrightarrow> byte_buffer_read (Some b) True n = ((WTC_ERROR_EMPTY, None), Some b) \<and>
      byte_buffer_skip (Some b) n = (WTC_ERROR_EMPTY, Some b)"
    using b by (simp add: byte_buffer_read_def byte_buffer_skip_def byte_positions [OF assms])
  assume n: "n \<le> length (bb_unread b)"
  with length_bb_unread [OF assms] b have "n \<le> bb_write_pos b - bb_read_pos b" "bb_read_pos b + n \<le> bb_write_pos b"
    by auto
  moreover have "take (bb_read_pos b + n) mem = take (bb_read_pos b) mem @ mem_read mem (bb_read_pos b) n"
    by (simp add: mem_read_def take_add)
  ultimately show "\<exists>b'. byte_buffer_read (Some b) True n = ((WTC_OK, Some (take n (bb_unread b))), Some b') \<and>
      byte_buffer_skip (Some b) n = (WTC_OK, Some b') \<and> bb_wf b' \<and>
      bb_abs b' = (bb_done b @ take n (bb_unread b), drop n (bb_unread b), bb_free b) \<and> bb_room b' = bb_room b \<and>
      bb_capacity b' = bb_capacity b"
    using b n
    by (simp add: byte_buffer_read_def byte_buffer_skip_def byte_positions [OF assms] bb_wf_def bb_room_def
        bb_abs_def bb_done_def bb_free_def bb_unread_def take_mem_read drop_mem_read)
qed

lemma advance_write_step:
  assumes "bb_wf b" and "bb_write_pos b + n < 2 ^ 64" and "b' = the (byte_buffer_advance_write (Some b) n)"
  shows "bb_wf b' \<and> bb_capacity b' = bb_capacity b \<and> bb_abs b' =
    (if n \<le> length (bb_free b) then (bb_done b, bb_unread b @ take n (bb_free b), drop n (bb_free b)) else bb_abs b)"
proof -
  from assms(1) obtain mem where b: "bb_data b = Some mem" "length mem = bb_capacity b"
    "bb_read_pos b \<le> bb_write_pos b" "bb_write_pos b \<le> bb_capacity b" "bb_capacity b < 2 ^ 64" by (rule bb_wfE)
  have b': "b' = (if n \<le> bb_room b then b\<lparr>bb_write_pos := bb_write_pos b + n\<rparr> else b)"
    using assms(2, 3) b(4) by (auto simp: byte_buffer_advance_write_def size_add_exact bb_room_def)
  have "mem_read mem (bb_read_pos b) (bb_write_pos b + n - bb_read_pos b) = bb_unread b @ take n (drop (bb_write_pos b) mem)"
    using mem_read_split [of mem "bb_read_pos b" "bb_write_pos b - bb_read_pos b" n] b(1, 3)
    by (simp add: bb_unread_def mem_read_def)
  with b assms(1) length_bb_free [OF assms(1)] show ?thesis
    by (auto simp: b' bb_wf_def bb_abs_def bb_done_def bb_free_def bb_unread_def bb_room_def add.commute)
qed

lemma byte_exec_simulates:
  assumes "bb_wf b" and "no_wrap (bb_capacity b) c"
  shows "bb_wf (snd (byte_exec c b)) \<and> bb_capacity (snd (byte_exec c b)) = bb_capacity b \<and>
    stream_exec c (bb_abs b) = (fst (byte_exec c b), bb_abs (snd (byte_exec c b)))"
proof (cases c)
  case (Write bs)
  then show ?thesis
    using byte_write_step [OF assms(1), of bs] assms(1) length_bb_free [OF assms(1)]
    by (cases "length bs \<le> bb_room b") (auto simp: bb_abs_def)
next
  case (Read n)
  then show ?thesis
    using byte_read_step [OF assms(1), of n] assms(1) by (cases "n \<le> length (bb_unread b)") (auto simp: bb_abs_def)
next
  case (ReadPeek n)
  from assms(1) obtain mem where b: "bb_data b = Some mem" by (rule bb_wfE)
  have "mem_read mem (bb_read_pos b) n = take n (bb_unread b)" if "n \<le> length (bb_unread b)"
    using that b length_bb_unread [OF assms(1)] by (simp add: bb_unread_def take_mem_read)
  with ReadPeek b assms(1) show ?thesis
    by (auto simp: byte_buffer_peek_def byte_positions [OF assms(1)] bb_abs_def split_beta)
next
  case (Skip n)
  then show ?thesis
    using byte_read_step [OF assms(1), of n] assms(1) by (cases "n \<le> length (bb_unread b)") (auto simp: bb_abs_def)
next
  case (AdvanceWrite n)
  have "bb_write_pos b \<le> bb_capacity b" using assms(1) by (rule bb_wfE)
  then have "bb_write_pos b + n < 2 ^ 64" using assms(2) AdvanceWrite by simp
  from advance_write_step [OF assms(1) this refl] AdvanceWrite show ?thesis by (simp add: bb_abs_def)
next
  case Reset
  from assms(1) obtain mem where b: "bb_data b = Some mem" "bb_read_pos b \<le> bb_write_pos b" by (rule bb_wfE)
  have "mem = take (bb_read_pos b) mem @ mem_read mem (bb_read_pos b) (bb_write_pos b - bb_read_pos b) @ drop (bb_write_pos b) mem"
    using b(2) by (metis append_assoc append_take_drop_id le_add_diff_inverse mem_read_def take_add)
  with Reset b assms(1) show ?thesis
    by (simp add: byte_buffer_reset_def bb_abs_def bb_wf_def bb_unread_def bb_done_def bb_free_def mem_read_def)
qed (use assms(1) in \<open>simp_all add: byte_positions bb_abs_def length_bb_free\<close>)

interpretation bb_sim: guarded_simulation byte_exec "\<lambda>_. stream_exec" bb_abs bb_capacity bb_wf no_wrap
  by unfold_locales (simp_all add: byte_exec_simulates)

text \<open>\<^bold>\<open>C27.\<close> The byte buffer is a byte stream over bounded storage: every program of writes, reads, peeks,
  skips, advances of the write position, resets and size queries gets the replies of the stream, no
  call leaves the storage, and the bytes read, unread and free are those of the stream, provided no
  advance is by so much that capacity and length together exceed the largest \<open>size_t\<close>. For such a length
  the guard of \<open>byte_buffer_advance_write\<close> wraps around and the invariant can break
  (\<open>advance_write_wraps\<close> below).\<close>

theorem byte_buffer_refines_stream:
  assumes "bb_wf b" and "\<forall>c \<in> set calls. no_wrap (bb_capacity b) c"
  shows "run_calls stream_exec calls (bb_abs b) =
      (fst (run_calls byte_exec calls b), bb_abs (snd (run_calls byte_exec calls b))) \<and>
    bb_wf (snd (run_calls byte_exec calls b))"
  using bb_sim.admitted_sim [OF assms] bb_sim.admitted_wf [OF assms] by blast

definition three_bytes :: byte_buffer where
  "three_bytes = \<lparr>bb_data = Some [0, 0, 0], bb_capacity = 3, bb_read_pos = 0, bb_write_pos = 0\<rparr>"

theorem byte_buffer_refines_stream_witness:
  "fst (run_calls byte_exec [Write [1, 2], Read 1, Write [3, 4], AdvanceWrite 2, AdvanceWrite 1, Read 2] three_bytes) =
    [Reply WTC_OK None, Reply WTC_OK (Some [1]), Reply WTC_ERROR_FULL None, Reply WTC_OK None, Reply WTC_OK None,
     Reply WTC_OK (Some [2, 0])]"
proof -
  have wf: "bb_wf three_bytes" and "bb_abs three_bytes = ([], [], [0, 0, 0])" and "bb_capacity three_bytes = 3"
    by (simp_all add: three_bytes_def bb_wf_def bb_abs_def bb_done_def bb_unread_def bb_free_def mem_read_def)
  with byte_buffer_refines_stream [OF wf, of "[Write [1, 2], Read 1, Write [3, 4], AdvanceWrite 2, AdvanceWrite 1, Read 2]"]
  show ?thesis by (auto simp: split_beta)
qed

section \<open>Typed fields\<close>

datatype field = U8 u8 | U16 u16 | U32 u32 | Real f32

fun write_field :: "byte_buffer option \<Rightarrow> field \<Rightarrow> wtc_result \<times> byte_buffer option" where
  "write_field buf (U8 v) = byte_buffer_write_u8 buf v"
| "write_field buf (U16 v) = byte_buffer_write_u16 buf v"
| "write_field buf (U32 v) = byte_buffer_write_u32 buf v"
| "write_field buf (Real v) = byte_buffer_write_float buf v"

text \<open>Reading the kind of field that \<open>f\<close> is.\<close>

fun read_field :: "byte_buffer option \<Rightarrow> field \<Rightarrow> (wtc_result \<times> field option) \<times> byte_buffer option" where
  "read_field buf (U8 _) = (let ((r, v), b) = byte_buffer_read_u8 buf in ((r, map_option U8 v), b))"
| "read_field buf (U16 _) = (let ((r, v), b) = byte_buffer_read_u16 buf in ((r, map_option U16 v), b))"
| "read_field buf (U32 _) = (let ((r, v), b) = byte_buffer_read_u32 buf in ((r, map_option U32 v), b))"
| "read_field buf (Real _) = (let ((r, v), b) = byte_buffer_read_float buf in ((r, map_option Real v), b))"

fun field_bytes :: "field \<Rightarrow> u8 list" where
  "field_bytes (U8 v) = [v]"
| "field_bytes (U16 v) = be16 v"
| "field_bytes (U32 v) = be32 v"
| "field_bytes (Real v) = be32 v"

primrec write_fields :: "field list \<Rightarrow> byte_buffer \<Rightarrow> byte_buffer" where
  "write_fields [] b = b"
| "write_fields (f # fs) b = write_fields fs (the (snd (write_field (Some b) f)))"

primrec read_fields :: "field list \<Rightarrow> byte_buffer \<Rightarrow> (wtc_result \<times> field option) list" where
  "read_fields [] b = []"
| "read_fields (f # fs) b = (let (r, b') = read_field (Some b) f in r # read_fields fs (the b'))"

lemma write_field_bytes: "write_field buf f = byte_buffer_write buf (Some (field_bytes f))"
  by (cases f) (simp_all add: byte_buffer_write_u8_def byte_buffer_write_u16_def byte_buffer_write_u32_def
      byte_buffer_write_float_def)

lemma write_fields_bytes:
  assumes "bb_wf b" and "length (concat (map field_bytes fs)) \<le> bb_room b"
  shows "bb_wf (write_fields fs b) \<and> bb_unread (write_fields fs b) = bb_unread b @ concat (map field_bytes fs)"
  using assms
proof (induction fs arbitrary: b)
  case (Cons f fs)
  have "length (field_bytes f) \<le> bb_room b" using Cons.prems(2) by simp
  from byte_write_step(1) [OF Cons.prems(1) this] obtain b' where
    b': "write_field (Some b) f = (WTC_OK, Some b')" "bb_wf b'" "bb_unread b' = bb_unread b @ field_bytes f"
      "bb_room b' = bb_room b - length (field_bytes f)"
    by (auto simp: write_field_bytes bb_abs_def)
  then show ?case using Cons.IH [of b'] Cons.prems(2) by simp
qed simp

lemma be_nth:
  "of_be16 (be16 v ! 0) (be16 v ! Suc 0) = v"
  "of_be32 (be32 w ! 0) (be32 w ! Suc 0) (be32 w ! 2) (be32 w ! 3) = w"
  by (simp_all add: be16_def be32_def of_be16_be16 of_be32_be32)

lemma read_field_bytes:
  assumes "bb_wf b" and "bb_unread b = field_bytes f @ rest"
  shows "\<exists>b'. read_field (Some b) f = ((WTC_OK, Some f), Some b') \<and> bb_wf b' \<and> bb_unread b' = rest"
proof -
  have "length (field_bytes f) \<le> length (bb_unread b)" using assms(2) by simp
  from byte_read_step(1) [OF assms(1) this] assms(2) obtain b' where
    "byte_buffer_read (Some b) True (length (field_bytes f)) = ((WTC_OK, Some (field_bytes f)), Some b')"
    "bb_wf b'" "bb_unread b' = rest" by (auto simp: bb_abs_def)
  then show ?thesis
    by (cases f) (simp_all add: byte_buffer_read_u8_def byte_buffer_read_u16_def byte_buffer_read_u32_def
        byte_buffer_read_float_def be_nth)
qed

lemma read_fields_bytes:
  "bb_wf b \<Longrightarrow> bb_unread b = concat (map field_bytes fs) \<Longrightarrow> read_fields fs b = map (\<lambda>f. (WTC_OK, Some f)) fs"
proof (induction fs arbitrary: b)
  case (Cons f fs)
  then obtain b' where "read_field (Some b) f = ((WTC_OK, Some f), Some b')" "bb_wf b'"
    "bb_unread b' = concat (map field_bytes fs)" using read_field_bytes [of b f] by auto
  then show ?case using Cons.IH [of b'] by simp
qed simp

text \<open>Typed round trip: any sequence of bytes, 16-bit and 32-bit integers and floats written into a
  drained buffer with room for them is read back, field by field, in network byte order.\<close>

theorem byte_buffer_fields_roundtrip:
  assumes "bb_wf b" and "bb_unread b = []" and "length (concat (map field_bytes fs)) \<le> bb_room b"
  shows "read_fields fs (write_fields fs b) = map (\<lambda>f. (WTC_OK, Some f)) fs"
  using write_fields_bytes [OF assms(1, 3)] assms(2) by (intro read_fields_bytes) simp_all

theorem byte_buffer_fields_roundtrip_witness:
  "read_fields [U16 0x1234, U8 7] (write_fields [U16 0x1234, U8 7] three_bytes) =
    [(WTC_OK, Some (U16 0x1234)), (WTC_OK, Some (U8 7))]"
  using byte_buffer_fields_roundtrip [of three_bytes "[U16 0x1234, U8 7]"]
  by (simp add: three_bytes_def bb_wf_def bb_unread_def bb_room_def mem_read_def be16_def)

text \<open>The guard of \<open>byte_buffer_advance_write\<close> alone does not keep the invariant.\<close>

lemma advance_write_wraps:
  "\<exists>b. bb_wf b \<and> \<not> bb_wf (the (byte_buffer_advance_write (Some b) (2 ^ 64 - 1)))"
proof -
  let ?b = "three_bytes\<lparr>bb_read_pos := 2, bb_write_pos := 2\<rparr>"
  have "bb_wf ?b" by (simp add: three_bytes_def bb_wf_def)
  moreover have "\<not> bb_wf (the (byte_buffer_advance_write (Some ?b) (2 ^ 64 - 1)))"
    by (simp add: three_bytes_def bb_wf_def byte_buffer_advance_write_def size_add_def)
  ultimately show ?thesis by blast
qed

end
