(* ===== verification/Registry.thy ===== *)
theory Registry
  imports Types
begin

text \<open>
  The RTU registry (\<^verbatim>\<open>src/src/registry/rtu_registry.c\<close>) and the slot templates
  (\<^verbatim>\<open>src/src/registry/slot_manager.c\<close>). The registry is the store the rest of the controller reads
  sensors from and writes actuator commands to; that contract is the locale \<open>actuator_store\<close>, which
  the control engine, the sequence engine and the Modbus gateway rely on.
\<close>

section \<open>State\<close>

record registry_config =
  rc_database_path :: "string option"
  rc_max_devices :: int
  rc_on_device_added :: bool
  rc_on_device_removed :: bool
  rc_on_device_state_changed :: bool

record rtu_registry =
  rr_config :: registry_config
  rr_devices :: "rtu_device list"

text \<open>The callbacks made, with their arguments; the flags of the configuration say which are set.\<close>

datatype registry_event =
    Device_Added rtu_device
  | Device_Removed string
  | Device_State_Changed string profinet_state profinet_state

definition WTC_MAX_RTUS :: nat where "WTC_MAX_RTUS = 256"
definition WTC_DEFAULT_SLOTS :: int where "WTC_DEFAULT_SLOTS = 247"
definition WTC_DEFAULT_SENSORS :: nat where "WTC_DEFAULT_SENSORS = 123"
definition WTC_DEFAULT_ACTUATORS :: nat where "WTC_DEFAULT_ACTUATORS = 123"

abbreviation named :: "string \<Rightarrow> rtu_device \<Rightarrow> bool" where
  "named s \<equiv> \<lambda>d. rd_station_name d = s"

definition find_device_locked :: "rtu_registry \<Rightarrow> string \<Rightarrow> rtu_device option" where
  "find_device_locked r station = List.find (named station) (rr_devices r)"

definition change_device :: "string \<Rightarrow> (rtu_device \<Rightarrow> rtu_device) \<Rightarrow> rtu_registry \<Rightarrow> rtu_registry" where
  "change_device station f r =
     (case update_first (named station) f (rr_devices r) of None \<Rightarrow> r | Some ds \<Rightarrow> r\<lparr>rr_devices := ds\<rparr>)"

section \<open>Devices\<close>

definition count_type :: "slot_type \<Rightarrow> slot_config list \<Rightarrow> int" where
  "count_type t slots = int (length (filter (\<lambda>s. sc_type s = t) slots))"

text \<open>\<open>mem\<close> says whether the allocations of the call succeed.\<close>

definition new_device :: "int \<Rightarrow> string \<Rightarrow> string option \<Rightarrow> slot_config list option \<Rightarrow> int \<Rightarrow> u64 \<Rightarrow> rtu_device" where
  "new_device i station ip slots slot_count now =
     (let cfg = (case slots of Some ss \<Rightarrow> if 0 < slot_count then take (nat slot_count) ss else [] | None \<Rightarrow> []) in
      zero_device\<lparr>rd_id := i,
        rd_station_name := cstr_copy 63 station,
        rd_ip_address := (case ip of None \<Rightarrow> [] | Some a \<Rightarrow> cstr_copy 15 a),
        rd_connection_state := PROFINET_STATE_OFFLINE,
        rd_last_seen_ms := now,
        rd_slot_capacity := (if 0 < slot_count then slot_count else WTC_DEFAULT_SLOTS),
        rd_sensors := replicate WTC_DEFAULT_SENSORS zero_sensor,
        rd_actuators := replicate WTC_DEFAULT_ACTUATORS zero_actuator,
        rd_slots := cfg,
        rd_sensor_count := count_type SLOT_TYPE_SENSOR cfg,
        rd_actuator_count := count_type SLOT_TYPE_ACTUATOR cfg\<rparr>)"

definition rtu_registry_add_device ::
  "rtu_registry option \<Rightarrow> string option \<Rightarrow> string option \<Rightarrow> slot_config list option \<Rightarrow> int \<Rightarrow> bool \<Rightarrow> u64 \<Rightarrow>
   (wtc_result \<times> registry_event list) \<times> rtu_registry option" where
  "rtu_registry_add_device reg station_name ip_address slots slot_count mem now =
     on_handle (WTC_ERROR_INVALID_PARAM, []) (\<lambda>r.
       case station_name of
         None \<Rightarrow> ((WTC_ERROR_INVALID_PARAM, []), r)
       | Some station \<Rightarrow>
           if List.find (named station) (rr_devices r) \<noteq> None then ((WTC_ERROR_ALREADY_EXISTS, []), r)
           else if WTC_MAX_RTUS \<le> length (rr_devices r) then ((WTC_ERROR_FULL, []), r)
           else if \<not> mem then ((WTC_ERROR_NO_MEMORY, []), r)
           else
             (let device = new_device (int (length (rr_devices r))) station ip_address slots slot_count now in
              ((WTC_OK, if rc_on_device_added (rr_config r) then [Device_Added device] else []),
               r\<lparr>rr_devices := rr_devices r @ [device]\<rparr>))) reg"

text \<open>Removing shifts the later devices down and renumbers them.\<close>

primrec remove_shift :: "string \<Rightarrow> nat \<Rightarrow> rtu_device list \<Rightarrow> rtu_device list option" where
  "remove_shift station i [] = None"
| "remove_shift station i (d # ds) =
     (if named station d
      then Some (map (\<lambda>(j, e). e\<lparr>rd_id := int j\<rparr>) (enumerate i ds))
      else map_option ((#) d) (remove_shift station (Suc i) ds))"

definition rtu_registry_remove_device ::
  "rtu_registry option \<Rightarrow> string option \<Rightarrow> (wtc_result \<times> registry_event list) \<times> rtu_registry option" where
  "rtu_registry_remove_device reg station_name =
     on_handle (WTC_ERROR_INVALID_PARAM, []) (\<lambda>r.
       case station_name of
         None \<Rightarrow> ((WTC_ERROR_INVALID_PARAM, []), r)
       | Some station \<Rightarrow>
           (case remove_shift station 0 (rr_devices r) of
              None \<Rightarrow> ((WTC_ERROR_NOT_FOUND, []), r)
            | Some ds \<Rightarrow>
                ((WTC_OK, if rc_on_device_removed (rr_config r) then [Device_Removed station] else []),
                 r\<lparr>rr_devices := ds\<rparr>))) reg"

text \<open>Copies of devices; each of the four allocations of a copy may fail on its own.\<close>

record copy_alloc =
  ca_device :: bool
  ca_slots :: bool
  ca_sensors :: bool
  ca_actuators :: bool

definition copy_arrays :: "copy_alloc \<Rightarrow> rtu_device \<Rightarrow> rtu_device" where
  "copy_arrays a src =
     (let dst = src;
          dst = (if 0 < rd_slot_capacity src \<and> \<not> ca_slots a then dst\<lparr>rd_slots := [], rd_slot_capacity := 0\<rparr> else dst);
          dst = (if rd_sensors src \<noteq> [] \<and> \<not> ca_sensors a then dst\<lparr>rd_sensors := []\<rparr> else dst);
          dst = (if rd_actuators src \<noteq> [] \<and> \<not> ca_actuators a then dst\<lparr>rd_actuators := []\<rparr> else dst)
      in dst)"

definition deep_copy_device :: "copy_alloc \<Rightarrow> rtu_device \<Rightarrow> rtu_device option" where
  "deep_copy_device a src = (if ca_device a then Some (copy_arrays a src) else None)"

definition rtu_registry_get_device :: "rtu_registry option \<Rightarrow> string option \<Rightarrow> copy_alloc \<Rightarrow> rtu_device option" where
  "rtu_registry_get_device reg station_name a =
     (case (reg, station_name) of
        (Some r, Some station) \<Rightarrow> Option.bind (find_device_locked r station) (deep_copy_device a)
      | _ \<Rightarrow> None)"

definition rtu_registry_get_device_by_index :: "rtu_registry option \<Rightarrow> int \<Rightarrow> copy_alloc \<Rightarrow> rtu_device option" where
  "rtu_registry_get_device_by_index reg index a =
     with_handle None (\<lambda>r.
       if index < 0 \<or> int (length (rr_devices r)) \<le> index then None
       else deep_copy_device a (rr_devices r ! nat index)) reg"

text \<open>\<open>mem\<close> is the allocation of the array, \<open>a i\<close> the allocations for the copy of device \<open>i\<close>. A negative
  \<open>max_count\<close> is converted to a huge size by \<open>calloc\<close>, which fails.\<close>

definition rtu_registry_list_devices ::
  "rtu_registry option \<Rightarrow> bool \<Rightarrow> bool \<Rightarrow> int \<Rightarrow> bool \<Rightarrow> (nat \<Rightarrow> copy_alloc) \<Rightarrow>
   wtc_result \<times> rtu_device list option \<times> int option" where
  "rtu_registry_list_devices reg devices_ok count_ok max_count mem a =
     with_handle (WTC_ERROR_INVALID_PARAM, None, None) (\<lambda>r.
       if \<not> devices_ok \<or> \<not> count_ok then (WTC_ERROR_INVALID_PARAM, None, None)
       else
         (let n = int (length (rr_devices r)); copy_count = (if max_count < n then max_count else n) in
          if copy_count = 0 then (WTC_OK, None, Some 0)
          else if copy_count < 0 \<or> \<not> mem then (WTC_ERROR_NO_MEMORY, None, None)
          else (WTC_OK,
                Some (map (\<lambda>(i, d). copy_arrays (a i) d) (enumerate 0 (take (nat copy_count) (rr_devices r)))),
                Some copy_count))) reg"

definition rtu_registry_get_device_count :: "rtu_registry option \<Rightarrow> int" where
  "rtu_registry_get_device_count = with_handle 0 (\<lambda>r. int (length (rr_devices r)))"

section \<open>Configuration, state and process data\<close>

definition rtu_registry_set_device_config ::
  "rtu_registry option \<Rightarrow> string option \<Rightarrow> slot_config list option \<Rightarrow> int \<Rightarrow> bool \<Rightarrow> wtc_result \<times> rtu_registry option" where
  "rtu_registry_set_device_config reg station_name slots slot_count mem =
     on_handle WTC_ERROR_INVALID_PARAM (\<lambda>r.
       case (station_name, slots) of
         (Some station, Some ss) \<Rightarrow>
           if slot_count < 0 then (WTC_ERROR_INVALID_PARAM, r)
           else (case find_device_locked r station of
             None \<Rightarrow> (WTC_ERROR_NOT_FOUND, r)
           | Some device \<Rightarrow>
               if rd_slot_capacity device < slot_count \<and> \<not> mem then (WTC_ERROR_NO_MEMORY, r)
               else
                 (let cfg = take (nat slot_count) ss in
                  (WTC_OK, change_device station (\<lambda>d. d\<lparr>
                     rd_slot_capacity := max (rd_slot_capacity d) slot_count,
                     rd_slots := cfg,
                     rd_config_dirty := True,
                     rd_sensor_count := count_type SLOT_TYPE_SENSOR cfg,
                     rd_actuator_count := count_type SLOT_TYPE_ACTUATOR cfg\<rparr>) r)))
       | _ \<Rightarrow> (WTC_ERROR_INVALID_PARAM, r)) reg"

definition rtu_registry_set_device_state ::
  "rtu_registry option \<Rightarrow> string option \<Rightarrow> profinet_state \<Rightarrow> u64 \<Rightarrow>
   (wtc_result \<times> registry_event list) \<times> rtu_registry option" where
  "rtu_registry_set_device_state reg station_name state now =
     on_handle (WTC_ERROR_INVALID_PARAM, []) (\<lambda>r.
       case station_name of
         None \<Rightarrow> ((WTC_ERROR_INVALID_PARAM, []), r)
       | Some station \<Rightarrow>
           (case find_device_locked r station of
              None \<Rightarrow> ((WTC_ERROR_NOT_FOUND, []), r)
            | Some device \<Rightarrow>
                if rd_connection_state device = state then ((WTC_OK, []), r)
                else
                  ((WTC_OK, if rc_on_device_state_changed (rr_config r)
                     then [Device_State_Changed station (rd_connection_state device) state] else []),
                   change_device station (\<lambda>d. d\<lparr>rd_connection_state := state, rd_last_seen_ms := now\<rparr>) r))) reg"

definition rtu_registry_update_sensor ::
  "rtu_registry option \<Rightarrow> string option \<Rightarrow> int \<Rightarrow> f32 \<Rightarrow> iops \<Rightarrow> data_quality \<Rightarrow> u64 \<Rightarrow> wtc_result \<times> rtu_registry option" where
  "rtu_registry_update_sensor reg station_name slot val status quality now =
     on_handle WTC_ERROR_INVALID_PARAM (\<lambda>r.
       case station_name of
         None \<Rightarrow> (WTC_ERROR_INVALID_PARAM, r)
       | Some station \<Rightarrow>
           if slot < 0 then (WTC_ERROR_INVALID_PARAM, r)
           else (case find_device_locked r station of
             None \<Rightarrow> (WTC_ERROR_NOT_FOUND, r)
           | Some device \<Rightarrow>
               if int (length (rd_sensors device)) \<le> slot then (WTC_ERROR_INVALID_PARAM, r)
               else (WTC_OK, change_device station (\<lambda>d. d\<lparr>rd_sensors := (rd_sensors d)[nat slot :=
                      \<lparr>sd_value = val, sd_status = status, sd_quality = quality, sd_timestamp_ms = now, sd_stale = False\<rparr>]\<rparr>) r))) reg"

definition rtu_registry_update_actuator ::
  "rtu_registry option \<Rightarrow> string option \<Rightarrow> int \<Rightarrow> actuator_output option \<Rightarrow> u64 \<Rightarrow> wtc_result \<times> rtu_registry option" where
  "rtu_registry_update_actuator reg station_name slot output now =
     on_handle WTC_ERROR_INVALID_PARAM (\<lambda>r.
       case (station_name, output) of
         (Some station, Some out) \<Rightarrow>
           if slot < 0 then (WTC_ERROR_INVALID_PARAM, r)
           else (case find_device_locked r station of
             None \<Rightarrow> (WTC_ERROR_NOT_FOUND, r)
           | Some device \<Rightarrow>
               if int (length (rd_actuators device)) \<le> slot then (WTC_ERROR_INVALID_PARAM, r)
               else (WTC_OK, change_device station (\<lambda>d. d\<lparr>rd_actuators := (rd_actuators d)[nat slot :=
                      (rd_actuators d ! nat slot)\<lparr>as_output := out, as_last_change_ms := now\<rparr>]\<rparr>) r))
       | _ \<Rightarrow> (WTC_ERROR_INVALID_PARAM, r)) reg"

definition rtu_registry_get_sensor ::
  "rtu_registry option \<Rightarrow> string option \<Rightarrow> int \<Rightarrow> bool \<Rightarrow> u64 \<Rightarrow> wtc_result \<times> sensor_data option" where
  "rtu_registry_get_sensor reg station_name slot out_ok now =
     with_handle (WTC_ERROR_INVALID_PARAM, None) (\<lambda>r.
       case station_name of
         None \<Rightarrow> (WTC_ERROR_INVALID_PARAM, None)
       | Some station \<Rightarrow>
           if \<not> out_ok \<or> slot < 0 then (WTC_ERROR_INVALID_PARAM, None)
           else (case find_device_locked r station of
             None \<Rightarrow> (WTC_ERROR_NOT_FOUND, None)
           | Some device \<Rightarrow>
               if int (length (rd_sensors device)) \<le> slot then (WTC_ERROR_INVALID_PARAM, None)
               else
                 (let data = rd_sensors device ! nat slot in
                  (WTC_OK, Some (if 5000 < now - sd_timestamp_ms data then data\<lparr>sd_stale := True\<rparr> else data))))) reg"

definition rtu_registry_get_actuator ::
  "rtu_registry option \<Rightarrow> string option \<Rightarrow> int \<Rightarrow> bool \<Rightarrow> wtc_result \<times> actuator_state option" where
  "rtu_registry_get_actuator reg station_name slot out_ok =
     with_handle (WTC_ERROR_INVALID_PARAM, None) (\<lambda>r.
       case station_name of
         None \<Rightarrow> (WTC_ERROR_INVALID_PARAM, None)
       | Some station \<Rightarrow>
           if \<not> out_ok \<or> slot < 0 then (WTC_ERROR_INVALID_PARAM, None)
           else (case find_device_locked r station of
             None \<Rightarrow> (WTC_ERROR_NOT_FOUND, None)
           | Some device \<Rightarrow>
               if int (length (rd_actuators device)) \<le> slot then (WTC_ERROR_INVALID_PARAM, None)
               else (WTC_OK, Some (rd_actuators device ! nat slot)))) reg"

record registry_stats =
  rs_total_devices :: int
  rs_connected_devices :: int
  rs_disconnected_devices :: int
  rs_error_devices :: int

fun stats_step :: "rtu_device \<Rightarrow> registry_stats \<Rightarrow> registry_stats" where
  "stats_step d st =
     (case rd_connection_state d of
        PROFINET_STATE_RUNNING \<Rightarrow> st\<lparr>rs_connected_devices := rs_connected_devices st + 1\<rparr>
      | PROFINET_STATE_ERROR \<Rightarrow> st\<lparr>rs_error_devices := rs_error_devices st + 1\<rparr>
      | PROFINET_STATE_DISCONNECT \<Rightarrow> st\<lparr>rs_error_devices := rs_error_devices st + 1\<rparr>
      | _ \<Rightarrow> st\<lparr>rs_disconnected_devices := rs_disconnected_devices st + 1\<rparr>)"

definition rtu_registry_get_stats :: "rtu_registry option \<Rightarrow> bool \<Rightarrow> wtc_result \<times> registry_stats option" where
  "rtu_registry_get_stats reg out_ok =
     with_handle (WTC_ERROR_INVALID_PARAM, None) (\<lambda>r.
       if \<not> out_ok then (WTC_ERROR_INVALID_PARAM, None)
       else (WTC_OK, Some (fold stats_step (rr_devices r)
         \<lparr>rs_total_devices = int (length (rr_devices r)), rs_connected_devices = 0,
          rs_disconnected_devices = 0, rs_error_devices = 0\<rparr>))) reg"

section \<open>Topology files\<close>

text \<open>
  \<open>pos += snprintf(buffer + pos, cap - pos, ...)\<close>: \<open>snprintf\<close> stores at most \<open>cap - pos - 1\<close> characters and
  returns the full length. Once \<open>pos\<close> is past \<open>cap\<close> the size argument is negative, becomes huge as a
  \<open>size_t\<close>, and the text is stored behind the buffer: \<open>jo_overrun\<close>.
\<close>

record json_out =
  jo_pos :: nat
  jo_text :: string
  jo_overrun :: bool

definition snprintf_append :: "nat \<Rightarrow> string \<Rightarrow> json_out \<Rightarrow> json_out" where
  "snprintf_append cap piece j =
     j\<lparr>jo_pos := jo_pos j + length piece,
       jo_text := jo_text j @ take (cap - 1 - jo_pos j) piece,
       jo_overrun := (jo_overrun j \<or> cap < jo_pos j)\<rparr>"

definition json_start :: json_out where
  "json_start = \<lparr>jo_pos = 0, jo_text = [], jo_overrun = False\<rparr>"

definition quoted :: "string \<Rightarrow> string" where
  "quoted s = [CHR 0x22] @ s @ [CHR 0x22]"

definition json_field :: "string \<Rightarrow> string \<Rightarrow> string" where
  "json_field k v = quoted k @ '':'' @ v"

fun state_code :: "profinet_state \<Rightarrow> int" where
  "state_code PROFINET_STATE_OFFLINE = 0"
| "state_code PROFINET_STATE_DISCOVERY = 1"
| "state_code PROFINET_STATE_CONNECTING = 2"
| "state_code PROFINET_STATE_CONNECTED = 3"
| "state_code PROFINET_STATE_RUNNING = 4"
| "state_code PROFINET_STATE_ERROR = 5"
| "state_code PROFINET_STATE_DISCONNECT = 6"

fun slot_type_code :: "slot_type \<Rightarrow> int" where
  "slot_type_code SLOT_TYPE_DAP = 0"
| "slot_type_code SLOT_TYPE_SENSOR = 1"
| "slot_type_code SLOT_TYPE_ACTUATOR = 2"

text \<open>The pieces printed, one per call of \<open>snprintf\<close>.\<close>

primrec commas :: "(nat \<Rightarrow> 'a \<Rightarrow> string list) \<Rightarrow> nat \<Rightarrow> 'a list \<Rightarrow> string list" where
  "commas f i [] = []"
| "commas f i (x # xs) = (if 0 < i then ['',''] else []) @ f i x @ commas f (Suc i) xs"

definition export_device :: "nat \<Rightarrow> rtu_device \<Rightarrow> string list" where
  "export_device i dev =
     [''{'' @ json_field ''station_name'' (quoted (rd_station_name dev)) @ '','' @
      json_field ''ip_address'' (quoted (rd_ip_address dev)) @ '','' @
      json_field ''vendor_id'' (fmt_u (unat (rd_vendor_id dev))) @ '','' @
      json_field ''device_id'' (fmt_u (unat (rd_device_id dev))) @ '','' @
      json_field ''state'' (fmt_d (state_code (rd_connection_state dev))) @ '','' @
      json_field ''slot_count'' (fmt_d (int (length (rd_slots dev)))) @ ''}'']"

definition export_pieces :: "rtu_registry \<Rightarrow> string list" where
  "export_pieces r = [''{'' @ quoted ''devices'' @ '':[''] @ commas export_device 0 (rr_devices r) @ ['']}'']"

definition rtu_registry_export_json :: "rtu_registry option \<Rightarrow> bool \<Rightarrow> nat \<Rightarrow> wtc_result \<times> json_out option" where
  "rtu_registry_export_json reg buffer_ok buffer_size =
     with_handle (WTC_ERROR_INVALID_PARAM, None) (\<lambda>r.
       if \<not> buffer_ok \<or> buffer_size < 64 then (WTC_ERROR_INVALID_PARAM, None)
       else (WTC_OK, Some (fold (snprintf_append buffer_size) (export_pieces r) json_start))) reg"

definition save_slot :: "nat \<Rightarrow> slot_config \<Rightarrow> string list" where
  "save_slot j sl =
     [''{'' @ json_field ''number'' (fmt_d (sc_slot sl)) @ '','' @
      json_field ''type'' (fmt_d (slot_type_code (sc_type sl))) @ '','' @
      json_field ''subslot'' (fmt_d (sc_subslot sl)) @ '','' @
      json_field ''name'' (quoted (sc_name sl)) @ ''}'']"

definition save_device :: "nat \<Rightarrow> rtu_device \<Rightarrow> string list" where
  "save_device i dev =
     [''{'' @ json_field ''station_name'' (quoted (rd_station_name dev)) @ '','' @
      json_field ''ip_address'' (quoted (rd_ip_address dev)) @ '','' @
      json_field ''vendor_id'' (fmt_u (unat (rd_vendor_id dev))) @ '','' @
      json_field ''device_id'' (fmt_u (unat (rd_device_id dev))) @ '','' @
      json_field ''slot_count'' (fmt_d (int (length (rd_slots dev)))) @ '','' @
      quoted ''slots'' @ '':['']
     @ commas save_slot 0 (rd_slots dev) @ ['']}'']"

definition save_pieces :: "rtu_registry \<Rightarrow> string list" where
  "save_pieces r =
     [''{'' @ json_field ''version'' ''1'' @ '','' @ quoted ''devices'' @ '':['']
     @ commas save_device 0 (rr_devices r) @ ['']}'']"

text \<open>\<open>mem\<close>, \<open>opened\<close> and \<open>complete\<close> are the outcomes of \<open>malloc\<close>, \<open>fopen\<close> and \<open>fwrite\<close>; the second result is
  what was printed into the 64 KiB buffer.\<close>

definition rtu_registry_save_topology ::
  "rtu_registry option \<Rightarrow> bool \<Rightarrow> bool \<Rightarrow> bool \<Rightarrow> wtc_result \<times> json_out option" where
  "rtu_registry_save_topology reg mem opened complete =
     with_handle (WTC_ERROR_INVALID_PARAM, None) (\<lambda>r.
       if \<not> mem then (WTC_ERROR_NO_MEMORY, None)
       else
         (let j = fold (snprintf_append 65536) (save_pieces r) json_start in
          if \<not> opened then (WTC_ERROR_IO, Some j)
          else if \<not> complete then (WTC_ERROR_IO, Some j)
          else (WTC_OK, Some j))) reg"

fun strstr :: "string \<Rightarrow> string \<Rightarrow> string option" where
  "strstr needle [] = (if needle = [] then Some [] else None)"
| "strstr needle (c # cs) =
     (if take (length needle) (c # cs) = needle then Some (c # cs) else strstr needle cs)"

definition strchr :: "char \<Rightarrow> string \<Rightarrow> string option" where
  "strchr c s = (case dropWhile (\<lambda>x. x \<noteq> c) s of [] \<Rightarrow> None | t \<Rightarrow> Some t)"

lemma strstr_length: "strstr needle s = Some t \<Longrightarrow> length needle \<le> length t \<and> length t \<le> length s"
proof (induction s arbitrary: t)
  case (Cons c cs)
  show ?case
  proof (cases "take (length needle) (c # cs) = needle")
    case True
    then have "length needle \<le> length (c # cs)" by (metis length_take min.cobounded1)
    with True Cons.prems show ?thesis by simp
  next
    case False
    with Cons show ?thesis by force
  qed
qed (auto split: if_splits)

lemma strchr_length: "strchr c s = Some t \<Longrightarrow> length t \<le> length s"
  by (auto simp: strchr_def length_dropWhile_le split: list.splits)

definition station_key :: string where
  "station_key = quoted ''station_name'' @ '':'' @ [CHR 0x22]"

definition ip_key :: string where
  "ip_key = quoted ''ip_address'' @ '':'' @ [CHR 0x22]"

lemma length_station_key [simp]: "length station_key = 16"
  by (simp add: station_key_def quoted_def)

text \<open>The characters up to a delimiter, at most \<open>n\<close> of them: the clamped \<open>strncpy\<close> of the parser.\<close>

definition token_before :: "nat \<Rightarrow> string \<Rightarrow> string \<Rightarrow> string" where
  "token_before n s rest = take (min n (length s - length rest)) s"

definition parse_ip :: "string \<Rightarrow> string" where
  "parse_ip rest =
     (case strstr ip_key rest of
        None \<Rightarrow> []
      | Some q \<Rightarrow> (let q = drop 14 q in
          case strchr (CHR 0x22) q of None \<Rightarrow> [] | Some e \<Rightarrow> token_before 15 q e))"

text \<open>The parsing loop over the text from \<open>p\<close> on: \<open>mem i\<close> and \<open>clk i\<close> are the allocations and the clock
  reading of the \<open>i\<close>-th device added.\<close>

function load_stations ::
  "(nat \<Rightarrow> bool) \<Rightarrow> (nat \<Rightarrow> u64) \<Rightarrow> nat \<Rightarrow> string \<Rightarrow> rtu_registry \<Rightarrow> registry_event list \<times> rtu_registry" where
  "load_stations mem clk i p r =
     (case strstr station_key p of
        None \<Rightarrow> ([], r)
      | Some q \<Rightarrow>
          (case strchr (CHR 0x22) (drop 16 q) of
             None \<Rightarrow> ([], r)
           | Some e \<Rightarrow>
               (let station = token_before 63 (drop 16 q) e;
                    ip = parse_ip e;
                    ((res, evs), r') = rtu_registry_add_device (Some r) (Some station)
                       (if ip = [] then None else Some ip) None 0 (mem i) (clk i);
                    (evs', r'') = load_stations mem clk (Suc i) e (the r')
                in (evs @ evs', r''))))"
  by pat_completeness auto
termination
  by (relation "measure (\<lambda>(mem, clk, i, p, r). length p)")
    (auto dest!: strstr_length strchr_length)

declare load_stations.simps [simp del]

text \<open>\<open>file\<close> is the content of the topology file (\<open>None\<close>: it cannot be opened); \<open>mem_buf\<close> and \<open>complete\<close> are
  the outcomes of \<open>malloc\<close> and \<open>fread\<close>. The text ends at the first zero byte.\<close>

definition rtu_registry_load_topology ::
  "rtu_registry option \<Rightarrow> string option \<Rightarrow> bool \<Rightarrow> bool \<Rightarrow> (nat \<Rightarrow> bool) \<Rightarrow> (nat \<Rightarrow> u64) \<Rightarrow>
   (wtc_result \<times> registry_event list) \<times> rtu_registry option" where
  "rtu_registry_load_topology reg file mem_buf complete mem clk =
     on_handle (WTC_ERROR_INVALID_PARAM, []) (\<lambda>r.
       case file of
         None \<Rightarrow> ((WTC_OK, []), r)
       | Some text \<Rightarrow>
           if length text = 0 \<or> 1024 * 1024 < length text then ((WTC_ERROR_INVALID_PARAM, []), r)
           else if \<not> mem_buf then ((WTC_ERROR_NO_MEMORY, []), r)
           else if \<not> complete then ((WTC_ERROR_IO, []), r)
           else
             (let (evs, r') = load_stations mem clk 0 (takeWhile (\<lambda>c. c \<noteq> CHR 0x00) text) r in
              ((WTC_OK, evs), r'))) reg"

definition rtu_registry_init ::
  "bool \<Rightarrow> registry_config option \<Rightarrow> bool \<Rightarrow> string option \<Rightarrow> bool \<Rightarrow> bool \<Rightarrow> (nat \<Rightarrow> bool) \<Rightarrow> (nat \<Rightarrow> u64) \<Rightarrow>
   (wtc_result \<times> registry_event list) \<times> rtu_registry option" where
  "rtu_registry_init out_ok config alloc file mem_buf complete mem clk =
     (if \<not> out_ok then ((WTC_ERROR_INVALID_PARAM, []), None)
      else if \<not> alloc then ((WTC_ERROR_NO_MEMORY, []), None)
      else
        (let cfg = (case config of Some c \<Rightarrow> c | None \<Rightarrow>
                \<lparr>rc_database_path = None, rc_max_devices = 0, rc_on_device_added = False,
                 rc_on_device_removed = False, rc_on_device_state_changed = False\<rparr>);
             r = \<lparr>rr_config = cfg, rr_devices = []\<rparr> in
         if rc_database_path cfg \<noteq> None
         then (let ((_, evs), r') = rtu_registry_load_topology (Some r) file mem_buf complete mem clk in
               ((WTC_OK, evs), r'))
         else ((WTC_OK, []), Some r)))"

section \<open>Slot templates\<close>

record measurement_info =
  mi_type :: measurement_type
  mi_name :: string
  mi_unit :: string
  mi_default_min :: f32
  mi_default_max :: f32
  mi_default_alarm_low :: f32
  mi_default_alarm_high :: f32

definition info_row :: "measurement_type \<Rightarrow> string \<Rightarrow> string \<Rightarrow> f32 \<Rightarrow> f32 \<Rightarrow> f32 \<Rightarrow> f32 \<Rightarrow> measurement_info" where
  "info_row t n u lo hi al ah = \<lparr>mi_type = t, mi_name = n, mi_unit = u, mi_default_min = lo,
     mi_default_max = hi, mi_default_alarm_low = al, mi_default_alarm_high = ah\<rparr>"

definition measurement_info_table :: "measurement_info list" where
  "measurement_info_table =
    [info_row MEASUREMENT_PH ''pH'' ''pH'' 0 (f_lit 14 1) (f_lit 65 10) (f_lit 85 10),
     info_row MEASUREMENT_TEMPERATURE ''Temperature'' ''C'' (f_uminus (f_lit 20 1)) (f_lit 100 1) 0 (f_lit 50 1),
     info_row MEASUREMENT_TURBIDITY ''Turbidity'' ''NTU'' 0 (f_lit 1000 1) 0 (f_lit 4 1),
     info_row MEASUREMENT_TDS ''TDS'' ''ppm'' 0 (f_lit 5000 1) 0 (f_lit 500 1),
     info_row MEASUREMENT_DISSOLVED_OXYGEN ''Dissolved Oxygen'' ''mg/L'' 0 (f_lit 20 1) (f_lit 2 1) (f_lit 20 1),
     info_row MEASUREMENT_FLOW_RATE ''Flow Rate'' ''L/min'' 0 (f_lit 10000 1) 0 0,
     info_row MEASUREMENT_LEVEL ''Level'' ''%'' 0 (f_lit 100 1) (f_lit 10 1) (f_lit 90 1),
     info_row MEASUREMENT_PRESSURE ''Pressure'' ''bar'' 0 (f_lit 100 1) 0 0,
     info_row MEASUREMENT_CONDUCTIVITY ''Conductivity'' ''uS/cm'' 0 (f_lit 100000 1) 0 0,
     info_row MEASUREMENT_ORP ''ORP'' ''mV'' (f_uminus (f_lit 2000 1)) (f_lit 2000 1) 0 0,
     info_row MEASUREMENT_CHLORINE ''Chlorine'' ''ppm'' 0 (f_lit 10 1) (f_lit 2 10) (f_lit 4 1),
     info_row MEASUREMENT_CUSTOM ''Custom'' [] 0 (f_lit 100 1) 0 0]"

definition get_measurement_info :: "measurement_type \<Rightarrow> measurement_info" where
  "get_measurement_info t =
     (case List.find (\<lambda>m. mi_type m = t) measurement_info_table of
        Some m \<Rightarrow> m | None \<Rightarrow> last measurement_info_table)"

definition create_sensor_slot_config ::
  "slot_config option \<Rightarrow> int \<Rightarrow> measurement_type \<Rightarrow> string option \<Rightarrow> wtc_result \<times> slot_config option" where
  "create_sensor_slot_config slot slot_number t name =
     on_handle WTC_ERROR_INVALID_PARAM (\<lambda>s.
       if slot_number < 0 then (WTC_ERROR_INVALID_PARAM, s)
       else
         (let info = get_measurement_info t;
              s = zero_slot_config\<lparr>sc_slot := slot_number, sc_subslot := 1, sc_type := SLOT_TYPE_SENSOR,
                    sc_measurement_type := t, sc_enabled := True\<rparr>;
              s = s\<lparr>sc_name := (case name of
                     Some n \<Rightarrow> if n \<noteq> [] then cstr_copy 63 n else cstr_copy 63 (mi_name info @ '' '' @ fmt_d slot_number)
                   | None \<Rightarrow> cstr_copy 63 (mi_name info @ '' '' @ fmt_d slot_number))\<rparr>;
              s = s\<lparr>sc_unit := cstr_copy 15 (mi_unit info), sc_scale_min := mi_default_min info,
                    sc_scale_max := mi_default_max info, sc_alarm_low := mi_default_alarm_low info,
                    sc_alarm_high := mi_default_alarm_high info\<rparr>;
              s = (if f_lt 0 (mi_default_alarm_low info)
                   then s\<lparr>sc_warning_low := f_mul (mi_default_alarm_low info) (f_lit 11 10)\<rparr> else s);
              s = (if f_lt 0 (mi_default_alarm_high info)
                   then s\<lparr>sc_warning_high := f_mul (mi_default_alarm_high info) (f_lit 9 10)\<rparr> else s)
          in (WTC_OK, s))) slot"

fun actuator_type_name :: "actuator_type \<Rightarrow> string" where
  "actuator_type_name ACTUATOR_RELAY = ''Relay''"
| "actuator_type_name ACTUATOR_PWM = ''PWM''"
| "actuator_type_name ACTUATOR_PUMP = ''Pump''"
| "actuator_type_name ACTUATOR_VALVE = ''Valve''"
| "actuator_type_name ACTUATOR_LATCHING = ''Latching''"
| "actuator_type_name ACTUATOR_MOMENTARY = ''Momentary''"

definition create_actuator_slot_config ::
  "slot_config option \<Rightarrow> int \<Rightarrow> actuator_type \<Rightarrow> string option \<Rightarrow> wtc_result \<times> slot_config option" where
  "create_actuator_slot_config slot slot_number t name =
     on_handle WTC_ERROR_INVALID_PARAM (\<lambda>s.
       if slot_number < 0 then (WTC_ERROR_INVALID_PARAM, s)
       else
         (let dflt = cstr_copy 63 (actuator_type_name t @ '' (slot '' @ fmt_d slot_number @ '')'') in
          (WTC_OK, zero_slot_config\<lparr>sc_slot := slot_number, sc_subslot := 1, sc_type := SLOT_TYPE_ACTUATOR,
             sc_actuator_type := t, sc_enabled := True,
             sc_name := (case name of Some n \<Rightarrow> if n \<noteq> [] then cstr_copy 63 n else dflt | None \<Rightarrow> dflt)\<rparr>))) slot"

text \<open>\<open>slots\<close> is the caller's array; the template fills its first sixteen elements.\<close>

definition water_treatment_slots :: "slot_config list" where
  "water_treatment_slots =
     (let z = Some zero_slot_config in
      map (the \<circ> snd)
       [create_sensor_slot_config z 0 MEASUREMENT_PH (Some ''pH Sensor''),
        create_sensor_slot_config z 1 MEASUREMENT_TEMPERATURE (Some ''Temperature''),
        create_sensor_slot_config z 2 MEASUREMENT_TURBIDITY (Some ''Turbidity''),
        create_sensor_slot_config z 3 MEASUREMENT_TDS (Some ''TDS''),
        create_sensor_slot_config z 4 MEASUREMENT_DISSOLVED_OXYGEN (Some ''DO''),
        create_sensor_slot_config z 5 MEASUREMENT_FLOW_RATE (Some ''Flow Rate''),
        create_sensor_slot_config z 6 MEASUREMENT_LEVEL (Some ''Tank Level''),
        create_sensor_slot_config z 7 MEASUREMENT_PRESSURE (Some ''Pressure''),
        create_actuator_slot_config z 8 ACTUATOR_PUMP (Some ''Main Pump''),
        create_actuator_slot_config z 9 ACTUATOR_VALVE (Some ''Inlet Valve''),
        create_actuator_slot_config z 10 ACTUATOR_VALVE (Some ''Outlet Valve''),
        create_actuator_slot_config z 11 ACTUATOR_PWM (Some ''Dosing Pump''),
        create_actuator_slot_config z 12 ACTUATOR_RELAY (Some ''Aerator''),
        create_actuator_slot_config z 13 ACTUATOR_RELAY (Some ''Heater''),
        create_actuator_slot_config z 14 ACTUATOR_RELAY (Some ''Mixer''),
        create_actuator_slot_config z 15 ACTUATOR_RELAY (Some ''Spare'')])"

definition create_water_treatment_rtu_config ::
  "slot_config list option \<Rightarrow> bool \<Rightarrow> (wtc_result \<times> int option) \<times> slot_config list option" where
  "create_water_treatment_rtu_config slots count_ok =
     on_handle (WTC_ERROR_INVALID_PARAM, None) (\<lambda>ss.
       if \<not> count_ok then ((WTC_ERROR_INVALID_PARAM, None), ss)
       else ((WTC_OK, Some 16), water_treatment_slots @ drop 16 ss)) slots"

section \<open>The registry as a store\<close>

text \<open>
  What a client that commands actuators relies on: a write to an actuator that exists is what a read
  of it returns, a write touches no other actuator, creates none, and leaves the sensors alone.
\<close>

definition write_targets :: "(string \<times> int \<times> actuator_output \<times> u64) list \<Rightarrow> (string \<times> int) set" where
  "write_targets ws = (\<lambda>(st, sl, v, t). (st, sl)) ` set ws"

lemma write_targets_simps [simp]:
  "write_targets [] = {}"
  "write_targets ((st, sl, v, t) # ws) = insert (st, sl) (write_targets ws)"
  "write_targets (ws @ ws') = write_targets ws \<union> write_targets ws'"
  "write_targets (concat wss) = (\<Union>ws \<in> set wss. write_targets ws)"
  by (simp_all add: write_targets_def image_UN image_Un)

locale actuator_store =
  fixes wr :: "string \<Rightarrow> int \<Rightarrow> actuator_output \<Rightarrow> u64 \<Rightarrow> 's \<Rightarrow> 's"
    and out :: "'s \<Rightarrow> string \<Rightarrow> int \<Rightarrow> actuator_output option"
    and sens :: "'s \<Rightarrow> string \<Rightarrow> int \<Rightarrow> sensor_data option"
  assumes out_same: "out s st sl \<noteq> None \<Longrightarrow> out (wr st sl v t s) st sl = Some v"
    and out_other: "(st', sl') \<noteq> (st, sl) \<Longrightarrow> out (wr st sl v t s) st' sl' = out s st' sl'"
    and out_absent: "out s st sl = None \<Longrightarrow> out (wr st sl v t s) st sl = None"
    and sens_same: "sens (wr st sl v t s) = sens s"
begin

definition apply_writes :: "(string \<times> int \<times> actuator_output \<times> u64) list \<Rightarrow> 's \<Rightarrow> 's" where
  "apply_writes = fold (\<lambda>(st, sl, v, t) s. wr st sl v t s)"

lemma apply_simps [simp]:
  "apply_writes [] s = s"
  "apply_writes ((st, sl, v, t) # ws) s = apply_writes ws (wr st sl v t s)"
  "apply_writes (ws @ ws') s = apply_writes ws' (apply_writes ws s)"
  by (simp_all add: apply_writes_def)

lemma writes_sens: "sens (apply_writes ws s) = sens s"
  by (induction ws arbitrary: s) (auto simp: sens_same)

lemma write_present: "(out (wr st sl v t s) st' sl' = None) = (out s st' sl' = None)"
  using out_same [of s st sl v t] out_absent [of s st sl v t] out_other [of st' sl' st sl v t s]
  by (cases "(st', sl') = (st, sl)"; cases "out s st sl") auto

lemma writes_present: "(out (apply_writes ws s) st sl = None) = (out s st sl = None)"
  by (induction ws arbitrary: s) (auto simp: write_present)

lemma writes_untouched:
  "(st, sl) \<notin> write_targets ws \<Longrightarrow> out (apply_writes ws s) st sl = out s st sl"
  by (induction ws arbitrary: s) (auto simp: out_other)

text \<open>After a sequence of writes an actuator has the value last written to it.\<close>

lemma writes_last:
  assumes "out s st sl \<noteq> None"
    and "(st, sl) \<notin> write_targets ws'"
  shows "out (apply_writes (ws @ (st, sl, v, t) # ws') s) st sl = Some v"
  using assms(1) writes_untouched [OF assms(2)] writes_present [of ws s st sl] by (simp add: out_same)

end

definition reg_write :: "string \<Rightarrow> int \<Rightarrow> actuator_output \<Rightarrow> u64 \<Rightarrow> rtu_registry \<Rightarrow> rtu_registry" where
  "reg_write st sl v t r = the (snd (rtu_registry_update_actuator (Some r) (Some st) sl (Some v) t))"

definition reg_out :: "rtu_registry \<Rightarrow> string \<Rightarrow> int \<Rightarrow> actuator_output option" where
  "reg_out r st sl = map_option as_output (snd (rtu_registry_get_actuator (Some r) (Some st) sl True))"

text \<open>The stored reading, before the staleness check of the read.\<close>

definition reg_sensor :: "rtu_registry \<Rightarrow> string \<Rightarrow> int \<Rightarrow> sensor_data option" where
  "reg_sensor r st sl =
     (if sl < 0 then None else case find_device_locked r st of
        None \<Rightarrow> None
      | Some d \<Rightarrow> if int (length (rd_sensors d)) \<le> sl then None else Some (rd_sensors d ! nat sl))"

lemma find_change_device:
  assumes "\<And>d. rd_station_name (f d) = rd_station_name d"
  shows "find_device_locked (change_device st f r) st' =
    (if st' = st then map_option f (find_device_locked r st) else find_device_locked r st')"
proof (cases "update_first (named st) f (rr_devices r)")
  case None
  then have "List.find (named st) (rr_devices r) = None" using find_None_update by metis
  with None show ?thesis by (auto simp: change_device_def find_device_locked_def)
next
  case (Some ds)
  with assms show ?thesis
    using find_update_same [OF Some] find_update_other [OF Some, of "named st'"]
    by (auto simp: change_device_def find_device_locked_def)
qed

interpretation reg: actuator_store reg_write reg_out reg_sensor
proof
  fix r st sl v t
  have w: "reg_write st sl v t r = r \<or> reg_write st sl v t r = change_device st (\<lambda>d. d\<lparr>rd_actuators :=
      (rd_actuators d)[nat sl := (rd_actuators d ! nat sl)\<lparr>as_output := v, as_last_change_ms := t\<rparr>]\<rparr>) r"
    by (auto simp: reg_write_def rtu_registry_update_actuator_def split: option.splits)
  show "reg_out r st sl \<noteq> None \<Longrightarrow> reg_out (reg_write st sl v t r) st sl = Some v"
    by (auto simp: reg_out_def reg_write_def rtu_registry_get_actuator_def rtu_registry_update_actuator_def
        find_change_device split: option.splits if_splits)
  show "reg_out r st sl = None \<Longrightarrow> reg_out (reg_write st sl v t r) st sl = None"
    by (auto simp: reg_out_def reg_write_def rtu_registry_get_actuator_def rtu_registry_update_actuator_def
        find_change_device split: option.splits if_splits)
  show "reg_sensor (reg_write st sl v t r) = reg_sensor r"
    using w by (auto simp: reg_sensor_def find_change_device fun_eq_iff split: option.splits if_splits)
  show "reg_out (reg_write st sl v t r) st' sl' = reg_out r st' sl'" if "(st', sl') \<noteq> (st, sl)" for st' sl'
    using that
    by (auto simp: reg_out_def reg_write_def rtu_registry_get_actuator_def rtu_registry_update_actuator_def
        find_change_device nth_list_update nat_eq_iff split: option.splits if_splits)
qed

section \<open>Invariant\<close>

definition device_wf :: "rtu_device \<Rightarrow> bool" where
  "device_wf d \<longleftrightarrow> length (rd_station_name d) \<le> 63 \<and> length (rd_ip_address d) \<le> 15 \<and>
     length (rd_sensors d) = WTC_DEFAULT_SENSORS \<and> length (rd_actuators d) = WTC_DEFAULT_ACTUATORS \<and>
     int (length (rd_slots d)) \<le> rd_slot_capacity d \<and>
     rd_sensor_count d = count_type SLOT_TYPE_SENSOR (rd_slots d) \<and>
     rd_actuator_count d = count_type SLOT_TYPE_ACTUATOR (rd_slots d)"

definition registry_wf :: "rtu_registry \<Rightarrow> bool" where
  "registry_wf r \<longleftrightarrow> length (rr_devices r) \<le> WTC_MAX_RTUS \<and>
     map rd_id (rr_devices r) = map int [0..<length (rr_devices r)] \<and>
     distinct (map rd_station_name (rr_devices r)) \<and> (\<forall>d \<in> set (rr_devices r). device_wf d)"

lemma change_device_wf:
  assumes "registry_wf r"
    and f: "\<And>d. rd_station_name (f d) = rd_station_name d" "\<And>d. rd_id (f d) = rd_id d"
      "\<And>d. device_wf d \<Longrightarrow> device_wf (f d)"
  shows "registry_wf (change_device st f r)"
proof (cases "update_first (named st) f (rr_devices r)")
  case None
  with assms(1) show ?thesis by (simp add: change_device_def)
next
  case (Some ds)
  have "map rd_id ds = map rd_id (rr_devices r)" "map rd_station_name ds = map rd_station_name (rr_devices r)"
    by (rule update_first_map [OF Some]; simp add: f)+
  moreover have "device_wf d" if "d \<in> set ds" for d
    using update_first_set [OF Some that] assms(1) f(3) by (auto simp: registry_wf_def)
  ultimately show ?thesis
    using assms(1) Some update_first_length [OF Some] by (simp add: change_device_def registry_wf_def)
qed

lemma length_count: "device_wf d \<Longrightarrow> length (rd_sensors d) = 123 \<and> length (rd_actuators d) = 123"
  by (simp add: device_wf_def WTC_DEFAULT_SENSORS_def WTC_DEFAULT_ACTUATORS_def)

lemma new_device_wf:
  "device_wf (new_device i st ip slots n t) \<and> rd_id (new_device i st ip slots n t) = i \<and>
   rd_station_name (new_device i st ip slots n t) = cstr_copy 63 st"
proof -
  have "int (length (case slots of None \<Rightarrow> [] | Some ss \<Rightarrow> if 0 < n then take (nat n) ss else []))
      \<le> (if 0 < n then n else WTC_DEFAULT_SLOTS)"
    by (auto simp: WTC_DEFAULT_SLOTS_def split: option.splits)
  then show ?thesis
    by (auto simp: new_device_def device_wf_def Let_def length_cstr_copy split: option.splits)
qed

lemma add_wf [inv_intros]:
  assumes "registry_wf r" and "length st \<le> 63"
  shows "registry_wf (the (snd (rtu_registry_add_device (Some r) (Some st) ip slots n mem t)))"
proof -
  let ?d = "new_device (int (length (rr_devices r))) st ip slots n t"
  have d: "device_wf ?d" "rd_id ?d = int (length (rr_devices r))" "rd_station_name ?d = st"
    using new_device_wf assms(2) by (auto simp: cstr_copy_id)
  consider "snd (rtu_registry_add_device (Some r) (Some st) ip slots n mem t) = Some r"
    | "List.find (named st) (rr_devices r) = None" "length (rr_devices r) < WTC_MAX_RTUS"
      "snd (rtu_registry_add_device (Some r) (Some st) ip slots n mem t) = Some (r\<lparr>rr_devices := rr_devices r @ [?d]\<rparr>)"
    by (cases "List.find (named st) (rr_devices r) = None"; cases "length (rr_devices r) < WTC_MAX_RTUS"; cases mem)
      (auto simp: rtu_registry_add_device_def Let_def)
  then show ?thesis
  proof cases
    case 1
    with assms(1) show ?thesis by simp
  next
    case 2
    from 2(1) have "st \<notin> rd_station_name ` set (rr_devices r)" by (auto simp: find_None_iff_all)
    with 2 d assms(1) show ?thesis by (auto simp: registry_wf_def)
  qed
qed

lemma remove_shift_split:
  "remove_shift st i ds = Some es \<Longrightarrow> \<exists>as d bs. ds = as @ d # bs \<and> named st d \<and> (\<forall>a \<in> set as. \<not> named st a) \<and>
     es = as @ map (\<lambda>(j, e). e\<lparr>rd_id := int j\<rparr>) (enumerate (i + length as) bs)"
proof (induction ds arbitrary: i es)
  case (Cons d ds)
  show ?case
  proof (cases "named st d")
    case True
    with Cons.prems show ?thesis
      by (intro exI [of _ "[]"] exI [of _ d] exI [of _ ds]) simp
  next
    case False
    with Cons.prems obtain fs where fs: "remove_shift st (Suc i) ds = Some fs" "es = d # fs" by auto
    from Cons.IH [OF fs(1)] obtain as d' bs where "ds = as @ d' # bs" "named st d'" "\<forall>a \<in> set as. \<not> named st a"
      "fs = as @ map (\<lambda>(j, e). e\<lparr>rd_id := int j\<rparr>) (enumerate (Suc i + length as) bs)" by blast
    with False fs(2) show ?thesis
      by (intro exI [of _ "d # as"] exI [of _ d'] exI [of _ bs]) simp
  qed
qed simp

lemma renumber_names [simp]:
  "map rd_station_name (map (\<lambda>(j, e). e\<lparr>rd_id := int j\<rparr>) (enumerate n ds)) = map rd_station_name ds"
  by (induction ds arbitrary: n) simp_all

lemma renumber_ids: "map rd_id (map (\<lambda>(j, e). e\<lparr>rd_id := int j\<rparr>) (enumerate n ds)) = map int [n..<n + length ds]"
  by (induction ds arbitrary: n) (simp_all add: upt_conv_Cons del: upt_Suc)

lemma remove_wf [inv_intros]:
  assumes "registry_wf r"
  shows "registry_wf (the (snd (rtu_registry_remove_device (Some r) (Some st))))"
proof (cases "remove_shift st 0 (rr_devices r)")
  case None
  with assms show ?thesis by (simp add: rtu_registry_remove_device_def)
next
  case (Some es)
  then obtain as d bs where split: "rr_devices r = as @ d # bs"
    "es = as @ map (\<lambda>(j, e). e\<lparr>rd_id := int j\<rparr>) (enumerate (length as) bs)"
    using remove_shift_split by fastforce
  have "map rd_id as = map int [0..<length as]"
    using arg_cong [of _ _ "take (length as)", OF assms [unfolded registry_wf_def, THEN conjunct2, THEN conjunct1]]
    by (simp add: split(1) take_map)
  then have "map rd_id es = map int [0..<length es]"
    by (simp add: split(2) renumber_ids del: map_map) (simp add: upt_add_eq_append [of 0 "length as"])
  moreover have "map rd_station_name es = map rd_station_name (as @ bs)"
    unfolding split(2) by (simp del: map_map)
  moreover have "device_wf e" if "e \<in> set es" for e
    using that assms by (auto simp: split registry_wf_def device_wf_def in_set_enumerate_eq)
  ultimately show ?thesis
    using assms Some split by (auto simp: rtu_registry_remove_device_def registry_wf_def)
qed

lemma config_wf [inv_intros]:
  assumes "registry_wf r"
  shows "registry_wf (the (snd (rtu_registry_set_device_config (Some r) (Some st) (Some ss) n mem)))"
proof -
  have "registry_wf (change_device st (\<lambda>d. d\<lparr>rd_slot_capacity := max (rd_slot_capacity d) n,
      rd_slots := take (nat n) ss, rd_config_dirty := True,
      rd_sensor_count := count_type SLOT_TYPE_SENSOR (take (nat n) ss),
      rd_actuator_count := count_type SLOT_TYPE_ACTUATOR (take (nat n) ss)\<rparr>) r)" if "0 \<le> n"
    using that by (intro change_device_wf assms) (auto simp: device_wf_def)
  with assms show ?thesis
    by (auto simp: rtu_registry_set_device_config_def Let_def not_less split: option.splits)
qed

lemma state_wf [inv_intros]:
  "registry_wf r \<Longrightarrow> registry_wf (the (snd (rtu_registry_set_device_state (Some r) (Some st) state now)))"
  by (auto simp: rtu_registry_set_device_state_def device_wf_def intro!: change_device_wf split: option.splits)

lemma sensor_wf [inv_intros]:
  "registry_wf r \<Longrightarrow> registry_wf (the (snd (rtu_registry_update_sensor (Some r) (Some st) sl v q w now)))"
  by (auto simp: rtu_registry_update_sensor_def device_wf_def intro!: change_device_wf split: option.splits)

lemma actuator_wf [inv_intros]:
  "registry_wf r \<Longrightarrow> registry_wf (the (snd (rtu_registry_update_actuator (Some r) (Some st) sl (Some v) now)))"
  by (auto simp: rtu_registry_update_actuator_def device_wf_def intro!: change_device_wf split: option.splits)

lemma length_token_before: "length (token_before n s t) \<le> n"
  by (simp add: token_before_def)

lemma load_stations_wf: "registry_wf r \<Longrightarrow> registry_wf (snd (load_stations mem clk i p r))"
proof (induction mem clk i p r rule: load_stations.induct)
  case (1 mem clk i p r)
  show ?case
  proof (cases "strstr station_key p")
    case None
    with 1 show ?thesis by (subst load_stations.simps) simp
  next
    case q: (Some q)
    show ?thesis
    proof (cases "strchr (CHR 0x22) (drop 16 q)")
      case None
      with 1 q show ?thesis by (subst load_stations.simps) simp
    next
      case e: (Some e)
      let ?st = "token_before 63 (drop 16 q) e" and ?ip = "if parse_ip e = [] then None else Some (parse_ip e)"
      let ?r = "the (snd (rtu_registry_add_device (Some r) (Some ?st) ?ip None 0 (mem i) (clk i)))"
      have "registry_wf ?r" using 1(2) length_token_before by (rule add_wf)
      with 1(1) [OF q e refl refl] have "registry_wf (snd (load_stations mem clk (Suc i) e ?r))"
        by (metis prod.collapse)
      with q e show ?thesis by (subst load_stations.simps) (simp add: Let_def split_beta)
    qed
  qed
qed

lemma load_wf [inv_intros]:
  "registry_wf r \<Longrightarrow> registry_wf (the (snd (rtu_registry_load_topology (Some r) file mb cp mem clk)))"
  by (auto simp: rtu_registry_load_topology_def Let_def split_beta load_stations_wf split: option.splits)

datatype registry_call =
    Add_Device string "string option" "slot_config list option" int bool u64
  | Remove_Device string
  | Set_Config string "slot_config list" int bool
  | Set_State string profinet_state u64
  | Update_Sensor string int f32 iops data_quality u64
  | Update_Actuator string int actuator_output u64
  | Load_Topology "string option" bool bool "nat \<Rightarrow> bool" "nat \<Rightarrow> u64"

fun reg_exec :: "registry_call \<Rightarrow> rtu_registry \<Rightarrow> wtc_result \<times> rtu_registry" where
  "reg_exec (Add_Device st ip ss n mem t) r =
     (let ((res, _), r') = rtu_registry_add_device (Some r) (Some st) ip ss n mem t in (res, the r'))"
| "reg_exec (Remove_Device st) r =
     (let ((res, _), r') = rtu_registry_remove_device (Some r) (Some st) in (res, the r'))"
| "reg_exec (Set_Config st ss n mem) r =
     (let (res, r') = rtu_registry_set_device_config (Some r) (Some st) (Some ss) n mem in (res, the r'))"
| "reg_exec (Set_State st state t) r =
     (let ((res, _), r') = rtu_registry_set_device_state (Some r) (Some st) state t in (res, the r'))"
| "reg_exec (Update_Sensor st sl v q w t) r =
     (let (res, r') = rtu_registry_update_sensor (Some r) (Some st) sl v q w t in (res, the r'))"
| "reg_exec (Update_Actuator st sl v t) r =
     (let (res, r') = rtu_registry_update_actuator (Some r) (Some st) sl (Some v) t in (res, the r'))"
| "reg_exec (Load_Topology file mb cp mem clk) r =
     (let ((res, _), r') = rtu_registry_load_topology (Some r) file mb cp mem clk in (res, the r'))"

fun short_name :: "registry_call \<Rightarrow> bool" where
  "short_name (Add_Device st ip ss n mem t) = (length st \<le> 63)"
| "short_name _ = True"

lemma reg_exec_wf: "registry_wf r \<Longrightarrow> short_name c \<Longrightarrow> registry_wf (snd (reg_exec c r))"
  by (cases c) (auto simp: split_beta intro: inv_intros)

text \<open>\<^bold>\<open>C28.\<close> The registry keeps its invariant through every sequence of operations whose new station names
  fit the 63 characters of the name field: at most 256 devices, numbered by position, with distinct
  names, with arrays of the size the slot checks assume, and with sensor and actuator counts that
  agree with the slot configuration. Names read from a topology file are clamped and need no
  hypothesis.\<close>

theorem registry_keeps_invariant:
  assumes "registry_wf r" and "\<forall>c \<in> set calls. short_name c"
  shows "registry_wf (snd (run_calls reg_exec calls r))"
  using assms by (induction calls arbitrary: r) (auto simp: Let_def split_beta reg_exec_wf)

definition empty_registry :: rtu_registry where
  "empty_registry = \<lparr>rr_config = \<lparr>rc_database_path = None, rc_max_devices = 0, rc_on_device_added = False,
     rc_on_device_removed = False, rc_on_device_state_changed = False\<rparr>, rr_devices = []\<rparr>"

lemma empty_registry_wf: "registry_wf empty_registry"
  by (simp add: registry_wf_def empty_registry_def)

theorem registry_keeps_invariant_witness:
  "registry_wf (snd (run_calls reg_exec [Add_Device ''rtu-1'' None None 0 True 10, Set_State ''rtu-1''
     PROFINET_STATE_RUNNING 20, Remove_Device ''rtu-1''] empty_registry))"
  by (rule registry_keeps_invariant) (simp_all add: empty_registry_wf)

text \<open>The hypothesis on new names is needed: the duplicate check compares the full name with the stored,
  truncated ones, so the same long name is accepted twice and stored twice under one name.\<close>

lemma long_name_added_twice:
  "let r = snd (run_calls reg_exec [Add_Device (replicate 64 CHR ''a'') None None 0 True 10,
       Add_Device (replicate 64 CHR ''a'') None None 0 True 20] empty_registry)
   in \<not> registry_wf r \<and> map rd_station_name (rr_devices r) = replicate 2 (replicate 63 CHR ''a'')"
proof -
  let ?n = "replicate 64 CHR ''a''" and ?m = "replicate 63 CHR ''a''"
  have "?m \<noteq> ?n" by (metis length_replicate numeral_eq_iff semiring_norm(88) semiring_norm(90))
  then show ?thesis
    by (simp add: Let_def split_beta rtu_registry_add_device_def empty_registry_def new_device_def
        cstr_copy_def WTC_MAX_RTUS_def registry_wf_def numeral_2_eq_2)
qed

section \<open>Reading back and exporting\<close>

lemma sensor_update:
  assumes "reg_sensor r st sl \<noteq> None"
    and "r' = the (snd (rtu_registry_update_sensor (Some r) (Some st) sl v q w t))"
  shows "rtu_registry_get_sensor (Some r') (Some st) sl True now =
      (WTC_OK, Some \<lparr>sd_value = v, sd_status = q, sd_quality = w, sd_timestamp_ms = t, sd_stale = 5000 < now - t\<rparr>)"
    and "(st', sl') \<noteq> (st, sl) \<Longrightarrow> reg_sensor r' st' sl' = reg_sensor r st' sl'"
    and "reg_out r' = reg_out r"
    and "reg_sensor r' st sl = Some \<lparr>sd_value = v, sd_status = q, sd_quality = w, sd_timestamp_ms = t, sd_stale = False\<rparr>"
proof -
  let ?f = "\<lambda>d. d\<lparr>rd_sensors := (rd_sensors d)[nat sl := \<lparr>sd_value = v, sd_status = q, sd_quality = w,
    sd_timestamp_ms = t, sd_stale = False\<rparr>]\<rparr>"
  from assms(1) obtain d where d: "0 \<le> sl" "find_device_locked r st = Some d" "sl < int (length (rd_sensors d))"
    by (auto simp: reg_sensor_def split: if_splits option.splits)
  with assms(2) have r': "r' = change_device st ?f r" by (simp add: rtu_registry_update_sensor_def)
  have find: "find_device_locked r' x = (if x = st then Some (?f d) else find_device_locked r x)" for x
    unfolding r' by (subst find_change_device) (simp_all add: d)
  show "rtu_registry_get_sensor (Some r') (Some st) sl True now =
      (WTC_OK, Some \<lparr>sd_value = v, sd_status = q, sd_quality = w, sd_timestamp_ms = t, sd_stale = 5000 < now - t\<rparr>)"
    using d by (simp add: rtu_registry_get_sensor_def find Let_def nat_less_iff)
  show "reg_sensor r' st' sl' = reg_sensor r st' sl'" if "(st', sl') \<noteq> (st, sl)"
    using that d by (auto simp: reg_sensor_def find nth_list_update nat_eq_iff)
  show "reg_out r' = reg_out r"
    using d by (auto simp: reg_out_def rtu_registry_get_actuator_def find fun_eq_iff)
  show "reg_sensor r' st sl = Some \<lparr>sd_value = v, sd_status = q, sd_quality = w, sd_timestamp_ms = t, sd_stale = False\<rparr>"
    using d by (simp add: reg_sensor_def find nat_less_iff)
qed

text \<open>Process data is read back: after a sensor of an existing slot is updated, a read returns the
  value, status and quality stored, marked stale exactly when more than five seconds of clock have
  passed since; every other sensor slot and every actuator output is as before.\<close>

theorem sensor_read_after_write:
  assumes "reg_sensor r st sl \<noteq> None"
    and "r' = the (snd (rtu_registry_update_sensor (Some r) (Some st) sl v q w t))"
  shows "rtu_registry_get_sensor (Some r') (Some st) sl True now =
      (WTC_OK, Some \<lparr>sd_value = v, sd_status = q, sd_quality = w, sd_timestamp_ms = t, sd_stale = 5000 < now - t\<rparr>) \<and>
    (\<forall>st' sl'. (st', sl') \<noteq> (st, sl) \<longrightarrow> reg_sensor r' st' sl' = reg_sensor r st' sl') \<and>
    reg_out r' = reg_out r"
  using sensor_update [OF assms] by blast

definition one_device :: rtu_registry where
  "one_device = the (snd (rtu_registry_add_device (Some empty_registry) (Some ''rtu-1'') None None 0 True 10))"

lemma one_device_find:
  "find_device_locked one_device st =
    (if st = ''rtu-1'' then Some (new_device 0 ''rtu-1'' None None 0 10) else None)"
  by (simp add: one_device_def find_device_locked_def rtu_registry_add_device_def empty_registry_def
      WTC_MAX_RTUS_def Let_def new_device_def cstr_copy_def)

lemma one_device_arrays:
  "rd_sensors (new_device 0 ''rtu-1'' None None 0 10) = replicate WTC_DEFAULT_SENSORS zero_sensor"
  "rd_actuators (new_device 0 ''rtu-1'' None None 0 10) = replicate WTC_DEFAULT_ACTUATORS zero_actuator"
  by (simp_all add: new_device_def)

lemma one_device_sensor: "reg_sensor one_device ''rtu-1'' 7 = Some zero_sensor"
proof -
  have "7 < WTC_DEFAULT_SENSORS" "\<not> int WTC_DEFAULT_SENSORS \<le> 7" by (simp_all add: WTC_DEFAULT_SENSORS_def)
  then show ?thesis by (simp add: reg_sensor_def one_device_find one_device_arrays)
qed

theorem sensor_read_after_write_witness:
  "rtu_registry_get_sensor (snd (rtu_registry_update_sensor (Some one_device) (Some ''rtu-1'') 7 0x41200000
      IOPS_GOOD QUALITY_GOOD 100)) (Some ''rtu-1'') 7 True 6000 =
    (WTC_OK, Some \<lparr>sd_value = 0x41200000, sd_status = IOPS_GOOD, sd_quality = QUALITY_GOOD,
      sd_timestamp_ms = 100, sd_stale = True\<rparr>)"
proof -
  have "reg_sensor one_device ''rtu-1'' 7 \<noteq> None" by (simp add: one_device_sensor)
  from sensor_read_after_write [OF this refl, of "0x41200000" IOPS_GOOD QUALITY_GOOD 100 6000]
  show ?thesis by (simp add: rtu_registry_update_sensor_def on_handle_def split_beta)
qed

lemma snprintf_pieces:
  assumes "j' = fold (snprintf_append cap) ps j"
  shows "jo_pos j' = jo_pos j + length (concat ps)"
    and "ps \<noteq> [] \<Longrightarrow> jo_overrun j' \<longleftrightarrow> jo_overrun j \<or> cap < jo_pos j + length (concat (butlast ps))"
    and "jo_pos j + length (concat ps) < cap \<Longrightarrow> jo_text j' = jo_text j @ concat ps"
  using assms
proof (induction ps arbitrary: j)
  case (Cons p ps)
  { case 1
    then show ?case using Cons.IH(1) by (simp add: snprintf_append_def)
  next
    case 2
    then show ?case using Cons.IH(2) by (cases "ps = []") (auto simp: snprintf_append_def)
  next
    case 3
    then show ?case using Cons.IH(3) by (simp add: snprintf_append_def)
  }
qed simp_all

lemma export_json_text:
  assumes "64 \<le> n" and "rtu_registry_export_json (Some r) True n = (WTC_OK, Some j)"
  shows "length (concat (export_pieces r)) < n \<Longrightarrow> jo_text j = concat (export_pieces r) \<and> \<not> jo_overrun j"
    and "jo_overrun j \<longleftrightarrow> n < length (concat (butlast (export_pieces r)))"
proof -
  have j: "j = fold (snprintf_append n) (export_pieces r) json_start"
    using assms by (simp add: rtu_registry_export_json_def)
  have ne: "export_pieces r \<noteq> []" by (simp add: export_pieces_def)
  show overrun: "jo_overrun j \<longleftrightarrow> n < length (concat (butlast (export_pieces r)))"
    using snprintf_pieces(2) [OF j ne] by (simp add: json_start_def)
  have "length (concat (butlast ps)) \<le> length (concat ps)" for ps :: "string list"
    by (induction ps) auto
  then have "length (concat (butlast (export_pieces r))) \<le> length (concat (export_pieces r))" .
  then show "length (concat (export_pieces r)) < n \<Longrightarrow> jo_text j = concat (export_pieces r) \<and> \<not> jo_overrun j"
    using snprintf_pieces(3) [OF j] overrun by (simp add: json_start_def)
qed

text \<open>The export prints the whole document when it fits the buffer with its terminator. It writes
  outside the buffer exactly when the document without its closing bracket is longer than the
  buffer: the truncating \<open>snprintf\<close> calls add their untruncated lengths to the position, and a
  position past the end turns into a huge size for the next call. The witness is a registry with one
  device of a short name, which overruns the smallest buffer the function accepts.\<close>

theorem export_json_bounds:
  assumes "64 \<le> n" and "rtu_registry_export_json (Some r) True n = (WTC_OK, Some j)"
  shows "(length (concat (export_pieces r)) < n \<longrightarrow> jo_text j = concat (export_pieces r) \<and> \<not> jo_overrun j) \<and>
    (jo_overrun j \<longleftrightarrow> n < length (concat (butlast (export_pieces r))))"
  using export_json_text [OF assms] by blast

lemma one_device_pieces:
  "rr_devices one_device = [new_device 0 ''rtu-1'' None None 0 10]"
  by (simp add: one_device_def rtu_registry_add_device_def empty_registry_def WTC_MAX_RTUS_def Let_def)

theorem export_json_bounds_witness:
  "\<exists>j. rtu_registry_export_json (Some one_device) True 64 = (WTC_OK, Some j) \<and> jo_overrun j"
proof -
  let ?j = "fold (snprintf_append 64) (export_pieces one_device) json_start"
  have run: "rtu_registry_export_json (Some one_device) True 64 = (WTC_OK, Some ?j)"
    by (simp add: rtu_registry_export_json_def)
  have "64 < length (concat (butlast (export_pieces one_device)))"
    by (simp add: export_pieces_def one_device_pieces export_device_def new_device_def zero_device_def
        json_field_def quoted_def cstr_copy_def fmt_d_def fmt_u.simps [of 0])
  then show ?thesis using export_json_bounds [OF _ run] run by auto
qed

end
