(* ===== verification/Control.thy ===== *)
theory Control
  imports Registry
begin

text \<open>
  The control engine (\<^verbatim>\<open>src/src/control/control_engine.c\<close>): PID loops, safety interlocks, forced
  outputs and the scan that runs them over the registry.

  The engine holds the registry it is attached to (\<open>None\<close>: NULL). The arrays indexed by the position
  of a loop (input times, communication loss, the static watchdog array) have a fixed length. The
  clock is read once at the start of each pass and again in the calls made per item; \<open>scan_env\<close>
  collects those readings, the value of a reading the code left uninitialised, and the result of
  converting a float that does not fit into a \<open>uint8_t\<close>.
\<close>

section \<open>State\<close>

record pid_loop =
  pl_loop_id :: int
  pl_name :: string
  pl_enabled :: bool
  pl_input_rtu :: string
  pl_input_slot :: int
  pl_output_rtu :: string
  pl_output_slot :: int
  pl_kp :: f32
  pl_ki :: f32
  pl_kd :: f32
  pl_setpoint :: f32
  pl_output_min :: f32
  pl_output_max :: f32
  pl_deadband :: f32
  pl_integral_limit :: f32
  pl_derivative_filter :: f32
  pl_pv :: f32
  pl_cv :: f32
  pl_error :: f32
  pl_integral :: f32
  pl_derivative :: f32
  pl_last_error :: f32
  pl_mode :: pid_mode
  pl_last_update_ms :: u64

record interlock =
  il_interlock_id :: int
  il_name :: string
  il_enabled :: bool
  il_condition_rtu :: string
  il_condition_slot :: int
  il_condition :: interlock_condition
  il_threshold :: f32
  il_delay_ms :: u32
  il_action_rtu :: string
  il_action_slot :: int
  il_action :: interlock_action
  il_action_value :: f32
  il_tripped :: bool
  il_trip_time_ms :: u64
  il_condition_start_ms :: u64

record forced_output =
  fo_station_name :: string
  fo_slot :: int
  fo_output :: actuator_output

record control_config =
  cc_scan_rate_ms :: u32
  cc_on_pid_output :: bool
  cc_on_interlock_trip :: bool

record control_stats =
  cs_total_scans :: u64
  cs_scan_time_us_min :: u64
  cs_scan_time_us_max :: u64
  cs_scan_time_us_avg :: u64
  cs_active_pid_loops :: int
  cs_active_interlocks :: int
  cs_tripped_interlocks :: int

record control_engine =
  ce_config :: control_config
  ce_registry :: "rtu_registry option"
  ce_pid_loops :: "pid_loop list"
  ce_next_pid_id :: int
  ce_interlocks :: "interlock list"
  ce_next_interlock_id :: int
  ce_forced_outputs :: "forced_output list"
  ce_running :: bool
  ce_last_scan_time_ms :: u64
  ce_watchdog_tripped :: bool
  ce_last_input_time_ms :: "u64 list"
  ce_comm_loss :: "bool list"
  ce_at_limit_start :: "u64 list"
  ce_stats :: control_stats

datatype control_event = Pid_Output int f32 | Interlock_Trip int

record scan_env =
  se_now :: u64
  se_read :: "nat \<Rightarrow> u64"
  se_watchdog :: "nat \<Rightarrow> u64"
  se_write :: "nat \<Rightarrow> u64"
  se_unset :: "nat \<Rightarrow> sensor_data"
  se_oob :: "f32 \<Rightarrow> u8"

definition WTC_MAX_PID_LOOPS :: nat where "WTC_MAX_PID_LOOPS = 64"
definition WTC_MAX_INTERLOCKS :: nat where "WTC_MAX_INTERLOCKS = 128"
definition CONTROL_WATCHDOG_TIMEOUT_MS :: u64 where "CONTROL_WATCHDOG_TIMEOUT_MS = 5000"
definition COMM_LOSS_TIMEOUT_MS :: u64 where "COMM_LOSS_TIMEOUT_MS = 10000"

section \<open>The PID calculation\<close>

text \<open>The clamp of the integral to its limit, and of the output to its range with the anti-windup
  correction of the integral.\<close>

definition limit_integral :: "f32 \<Rightarrow> f32 \<Rightarrow> f32" where
  "limit_integral lim i =
     (if f_lt 0 lim then
        (if f_lt lim i then lim else if f_lt i (f_uminus lim) then f_uminus lim else i)
      else i)"

definition clamp_output :: "pid_loop \<Rightarrow> f32 \<Rightarrow> f32 \<Rightarrow> f32 \<Rightarrow> f32 \<Rightarrow> f32 \<times> f32" where
  "clamp_output loop error dt integral out =
     (if f_lt (pl_output_max loop) out then
        (pl_output_max loop,
         if f_lt 0 error then f_sub integral (f_mul (f_mul (pl_ki loop) error) dt) else integral)
      else if f_lt out (pl_output_min loop) then
        (pl_output_min loop,
         if f_lt error 0 then f_sub integral (f_mul (f_mul (pl_ki loop) error) dt) else integral)
      else (out, integral))"

definition calculate_pid :: "pid_loop \<Rightarrow> f32 \<Rightarrow> f32 \<Rightarrow> f32 \<times> pid_loop" where
  "calculate_pid loop pv dt_ms =
     (case pl_mode loop of
        PID_MODE_OFF \<Rightarrow> (0, loop)
      | PID_MODE_MANUAL \<Rightarrow> (pl_cv loop, loop)
      | _ \<Rightarrow>
        (let dt = f_div dt_ms (f_lit 1000 1);
             dt = (if f_le dt 0 then f_lit 1 1000 else dt);
             error = f_sub (pl_setpoint loop) pv;
             error = (if f_lt (f_abs error) (pl_deadband loop) then 0 else error);
             p_term = f_mul (pl_kp loop) error;
             integral = f_add (pl_integral loop) (f_mul (f_mul (pl_ki loop) error) dt);
             integral = limit_integral (pl_integral_limit loop) integral;
             i_term = integral;
             derivative = f_div (f_sub error (pl_last_error loop)) dt;
             filtered = (if f_lt 0 (pl_derivative_filter loop)
               then f_add (f_mul (pl_derivative loop) (pl_derivative_filter loop))
                          (f_mul derivative (f_sub (f_lit 1 1) (pl_derivative_filter loop)))
               else derivative);
             d_term = f_mul (pl_kd loop) filtered;
             out = f_add (f_add p_term i_term) d_term;
             (out, integral) = clamp_output loop error dt integral out
         in (out, loop\<lparr>pl_integral := integral, pl_derivative := filtered, pl_last_error := error,
              pl_error := error, pl_pv := pv, pl_cv := out\<rparr>)))"

text \<open>\<open>check_pid_watchdog\<close> on the entry of its static array for this loop.\<close>

definition check_pid_watchdog :: "pid_loop \<Rightarrow> f32 \<Rightarrow> u64 \<Rightarrow> u64 \<Rightarrow> bool \<times> u64" where
  "check_pid_watchdog loop out clk at_limit_start =
     (if f_le (pl_output_max loop) out \<or> f_le out (pl_output_min loop) then
        (if at_limit_start = 0 then (False, clk)
         else if CONTROL_WATCHDOG_TIMEOUT_MS < clk - at_limit_start then (True, at_limit_start)
         else (False, at_limit_start))
      else (False, 0))"

definition pid_actuator_out :: "(f32 \<Rightarrow> u8) \<Rightarrow> f32 \<Rightarrow> actuator_output" where
  "pid_actuator_out oob out =
     (if f_lt (f_lit 1 2) out then \<lparr>ao_command = ACTUATOR_CMD_PWM, ao_pwm_duty = f_to_word oob out\<rparr>
      else if f_lt 0 out then \<lparr>ao_command = ACTUATOR_CMD_ON, ao_pwm_duty = 0\<rparr>
      else \<lparr>ao_command = ACTUATOR_CMD_OFF, ao_pwm_duty = 0\<rparr>)"

definition off_output :: actuator_output where
  "off_output = \<lparr>ao_command = ACTUATOR_CMD_OFF, ao_pwm_duty = 0\<rparr>"

definition write_actuator :: "string \<Rightarrow> int \<Rightarrow> actuator_output \<Rightarrow> u64 \<Rightarrow> control_engine \<Rightarrow> control_engine" where
  "write_actuator st sl v t e =
     e\<lparr>ce_registry := snd (rtu_registry_update_actuator (ce_registry e) (Some st) sl (Some v) t)\<rparr>"

section \<open>One pass over the PID loops\<close>

definition good_input :: "wtc_result \<times> sensor_data option \<Rightarrow> bool" where
  "good_input rs \<longleftrightarrow> fst rs = WTC_OK \<and> sd_status (the (snd rs)) = IOPS_GOOD"

definition read_input :: "scan_env \<Rightarrow> nat \<Rightarrow> control_engine \<Rightarrow> string \<Rightarrow> int \<Rightarrow> wtc_result \<times> sensor_data option" where
  "read_input env i e st sl = rtu_registry_get_sensor (ce_registry e) (Some st) sl True (se_read env i)"

definition process_pid_fault :: "scan_env \<Rightarrow> nat \<Rightarrow> control_engine \<Rightarrow> control_engine" where
  "process_pid_fault env i e =
     (let loop = ce_pid_loops e ! i; seen = ce_last_input_time_ms e ! i in
      if 0 < seen \<and> COMM_LOSS_TIMEOUT_MS < se_now env - seen
      then write_actuator (pl_output_rtu loop) (pl_output_slot loop) off_output (se_write env i)
             (e\<lparr>ce_comm_loss := (ce_comm_loss e)[i := True]\<rparr>)
      else e)"

definition process_pid_good :: "scan_env \<Rightarrow> nat \<Rightarrow> f32 \<Rightarrow> control_engine \<Rightarrow> control_event list \<times> control_engine" where
  "process_pid_good env i pv e =
     (let e = e\<lparr>ce_last_input_time_ms := (ce_last_input_time_ms e)[i := se_now env],
                ce_comm_loss := (ce_comm_loss e)[i := False]\<rparr>;
          loop = ce_pid_loops e ! i;
          dt_ms = (if 0 < pl_last_update_ms loop then se_now env - pl_last_update_ms loop else 100);
          (out, loop) = calculate_pid (loop\<lparr>pl_last_update_ms := se_now env\<rparr>) pv (f_of_int (uint dt_ms));
          (wd, start) = check_pid_watchdog loop out (se_watchdog env i) (ce_at_limit_start e ! i);
          e = e\<lparr>ce_pid_loops := (ce_pid_loops e)[i := loop], ce_at_limit_start := (ce_at_limit_start e)[i := start],
                ce_watchdog_tripped := (ce_watchdog_tripped e \<or> wd)\<rparr>;
          out = (if wd then f_div (f_add (pl_output_max loop) (pl_output_min loop)) (f_lit 2 1) else out);
          e = write_actuator (pl_output_rtu loop) (pl_output_slot loop) (pid_actuator_out (se_oob env) out)
                (se_write env i) e
      in (if cc_on_pid_output (ce_config e) then [Pid_Output (pl_loop_id loop) out] else [], e))"

definition process_pid_one :: "scan_env \<Rightarrow> nat \<Rightarrow> control_engine \<Rightarrow> control_event list \<times> control_engine" where
  "process_pid_one env i e =
     (let loop = ce_pid_loops e ! i in
      if \<not> pl_enabled loop \<or> pl_mode loop = PID_MODE_OFF then ([], e)
      else
        (let rs = read_input env i e (pl_input_rtu loop) (pl_input_slot loop) in
         if good_input rs then process_pid_good env i (sd_value (the (snd rs))) e
         else ([], process_pid_fault env i e)))"

definition process_pid_loops :: "scan_env \<Rightarrow> control_engine \<Rightarrow> control_event list \<times> control_engine" where
  "process_pid_loops env e =
     (case ce_registry e of
        None \<Rightarrow> ([], e)
      | Some _ \<Rightarrow> for_each (process_pid_one env) [0..<length (ce_pid_loops e)] (e\<lparr>ce_last_scan_time_ms := se_now env\<rparr>))"

section \<open>One pass over the interlocks\<close>

fun condition_met :: "interlock_condition \<Rightarrow> f32 \<Rightarrow> f32 \<Rightarrow> bool" where
  "condition_met INTERLOCK_CONDITION_ABOVE v t = f_lt t v"
| "condition_met INTERLOCK_CONDITION_BELOW v t = f_lt v t"
| "condition_met INTERLOCK_CONDITION_EQUAL v t = f_lt (f_abs (f_sub v t)) (f_lit 1 100)"
| "condition_met INTERLOCK_CONDITION_NOT_EQUAL v t = f_le (f_lit 1 100) (f_abs (f_sub v t))"

text \<open>The delay handling: the interlock afterwards and whether it tripped now.\<close>

definition interlock_delay :: "u64 \<Rightarrow> bool \<Rightarrow> interlock \<Rightarrow> bool \<times> interlock" where
  "interlock_delay now met il =
     (if met \<and> \<not> il_tripped il then
        (if il_condition_start_ms il = 0 then (False, il\<lparr>il_condition_start_ms := now\<rparr>)
         else if ucast (il_delay_ms il) \<le> now - il_condition_start_ms il
           then (True, il\<lparr>il_tripped := True, il_trip_time_ms := now\<rparr>)
         else (False, il))
      else if \<not> met then (False, il\<lparr>il_condition_start_ms := 0\<rparr>)
      else (False, il))"

definition interlock_output :: "(f32 \<Rightarrow> u8) \<Rightarrow> interlock \<Rightarrow> actuator_output option" where
  "interlock_output oob il =
     (if \<not> il_tripped il then None
      else case il_action il of
        INTERLOCK_ACTION_ALARM_ONLY \<Rightarrow> None
      | INTERLOCK_ACTION_FORCE_OFF \<Rightarrow> Some \<lparr>ao_command = ACTUATOR_CMD_OFF, ao_pwm_duty = 0\<rparr>
      | INTERLOCK_ACTION_FORCE_ON \<Rightarrow> Some \<lparr>ao_command = ACTUATOR_CMD_ON, ao_pwm_duty = 0\<rparr>
      | INTERLOCK_ACTION_SET_VALUE \<Rightarrow>
          Some \<lparr>ao_command = ACTUATOR_CMD_PWM, ao_pwm_duty = f_to_word oob (il_action_value il)\<rparr>)"

text \<open>The condition is evaluated on the reading even when the read failed or its status is bad; after a
  failed read the local variable holds whatever was there (\<open>se_unset\<close>).\<close>

definition interlock_reading :: "scan_env \<Rightarrow> nat \<Rightarrow> control_engine \<Rightarrow> interlock \<Rightarrow> sensor_data" where
  "interlock_reading env i e il =
     (let rs = read_input env i e (il_condition_rtu il) (il_condition_slot il) in
      if fst rs = WTC_OK then the (snd rs) else se_unset env i)"

definition process_interlock_one :: "scan_env \<Rightarrow> nat \<Rightarrow> control_engine \<Rightarrow> control_event list \<times> control_engine" where
  "process_interlock_one env i e =
     (let il = ce_interlocks e ! i in
      if \<not> il_enabled il then ([], e)
      else
        (let e = (if il_tripped il
                  then e\<lparr>ce_stats := (ce_stats e)\<lparr>cs_tripped_interlocks := cs_tripped_interlocks (ce_stats e) + 1\<rparr>\<rparr>
                  else e);
             met = condition_met (il_condition il) (sd_value (interlock_reading env i e il)) (il_threshold il);
             (trip, il) = interlock_delay (se_now env) met il;
             e = e\<lparr>ce_interlocks := (ce_interlocks e)[i := il]\<rparr>;
             e = (case interlock_output (se_oob env) il of
                    None \<Rightarrow> e
                  | Some v \<Rightarrow> write_actuator (il_action_rtu il) (il_action_slot il) v (se_write env i) e)
         in (if trip \<and> cc_on_interlock_trip (ce_config e) then [Interlock_Trip (il_interlock_id il)] else [], e)))"

definition process_interlocks :: "scan_env \<Rightarrow> control_engine \<Rightarrow> control_event list \<times> control_engine" where
  "process_interlocks env e =
     (case ce_registry e of
        None \<Rightarrow> ([], e)
      | Some _ \<Rightarrow> for_each (process_interlock_one env) [0..<length (ce_interlocks e)]
          (e\<lparr>ce_stats := (ce_stats e)\<lparr>cs_tripped_interlocks := 0\<rparr>\<rparr>))"

text \<open>The two passes read the clock separately.\<close>

definition control_engine_process ::
  "scan_env \<Rightarrow> scan_env \<Rightarrow> control_engine option \<Rightarrow> (wtc_result \<times> control_event list) \<times> control_engine option" where
  "control_engine_process env_il env_pid eng =
     on_handle (WTC_ERROR_INVALID_PARAM, []) (\<lambda>e.
       let (evs, e) = process_interlocks env_il e; (evs', e) = process_pid_loops env_pid e in
       ((WTC_OK, evs @ evs'), e)) eng"

section \<open>Engine lifecycle\<close>

definition zero_control_engine :: control_engine where
  "zero_control_engine = \<lparr>ce_config = \<lparr>cc_scan_rate_ms = 0, cc_on_pid_output = False, cc_on_interlock_trip = False\<rparr>,
     ce_registry = None, ce_pid_loops = [], ce_next_pid_id = 0, ce_interlocks = [], ce_next_interlock_id = 0,
     ce_forced_outputs = [], ce_running = False, ce_last_scan_time_ms = 0, ce_watchdog_tripped = False,
     ce_last_input_time_ms = replicate WTC_MAX_PID_LOOPS 0, ce_comm_loss = replicate WTC_MAX_PID_LOOPS False,
     ce_at_limit_start = replicate WTC_MAX_PID_LOOPS 0,
     ce_stats = \<lparr>cs_total_scans = 0, cs_scan_time_us_min = 0, cs_scan_time_us_max = 0, cs_scan_time_us_avg = 0,
       cs_active_pid_loops = 0, cs_active_interlocks = 0, cs_tripped_interlocks = 0\<rparr>\<rparr>"

definition control_engine_init ::
  "bool \<Rightarrow> control_config option \<Rightarrow> bool \<Rightarrow> wtc_result \<times> control_engine option" where
  "control_engine_init out_ok config mem =
     (if \<not> out_ok then (WTC_ERROR_INVALID_PARAM, None)
      else if \<not> mem then (WTC_ERROR_NO_MEMORY, None)
      else
        (let e = (case config of Some c \<Rightarrow> zero_control_engine\<lparr>ce_config := c\<rparr> | None \<Rightarrow> zero_control_engine);
             e = (if cc_scan_rate_ms (ce_config e) = 0
                  then e\<lparr>ce_config := (ce_config e)\<lparr>cc_scan_rate_ms := 100\<rparr>\<rparr> else e)
         in (WTC_OK, Some (e\<lparr>ce_next_pid_id := 1, ce_next_interlock_id := 1\<rparr>))))"

text \<open>\<open>created\<close> is the outcome of \<open>pthread_create\<close>.\<close>

definition control_engine_start :: "control_engine option \<Rightarrow> bool \<Rightarrow> wtc_result \<times> control_engine option" where
  "control_engine_start eng created =
     on_handle WTC_ERROR_INVALID_PARAM (\<lambda>e.
       if ce_running e then (WTC_OK, e)
       else if created then (WTC_OK, e\<lparr>ce_running := True\<rparr>)
       else (WTC_ERROR, e\<lparr>ce_running := False\<rparr>)) eng"

definition control_engine_stop :: "control_engine option \<Rightarrow> wtc_result \<times> control_engine option" where
  "control_engine_stop eng = on_handle WTC_OK (\<lambda>e. (WTC_OK, e\<lparr>ce_running := False\<rparr>)) eng"

definition control_engine_set_registry ::
  "control_engine option \<Rightarrow> rtu_registry option \<Rightarrow> wtc_result \<times> control_engine option" where
  "control_engine_set_registry eng registry =
     on_handle WTC_ERROR_INVALID_PARAM (\<lambda>e. (WTC_OK, e\<lparr>ce_registry := registry\<rparr>)) eng"

text \<open>The statistics the control thread keeps after each scan.\<close>

definition update_scan_stats :: "u64 \<Rightarrow> control_stats \<Rightarrow> control_stats" where
  "update_scan_stats elapsed st =
     (let st = st\<lparr>cs_total_scans := cs_total_scans st + 1\<rparr>;
          st = (if elapsed < cs_scan_time_us_min st \<or> cs_scan_time_us_min st = 0
                then st\<lparr>cs_scan_time_us_min := elapsed\<rparr> else st);
          st = (if cs_scan_time_us_max st < elapsed then st\<lparr>cs_scan_time_us_max := elapsed\<rparr> else st)
      in st\<lparr>cs_scan_time_us_avg :=
           (cs_scan_time_us_avg st * (cs_total_scans st - 1) + elapsed) div cs_total_scans st\<rparr>)"

definition control_thread_step ::
  "scan_env \<Rightarrow> scan_env \<Rightarrow> u64 \<Rightarrow> control_engine \<Rightarrow> control_event list \<times> control_engine" where
  "control_thread_step env_il env_pid elapsed_us e =
     (let ((_, evs), e') = control_engine_process env_il env_pid (Some e) in
      (evs, (the e')\<lparr>ce_stats := update_scan_stats elapsed_us (ce_stats (the e'))\<rparr>))"

section \<open>Loops, interlocks and forced outputs\<close>

definition change_loop :: "int \<Rightarrow> (pid_loop \<Rightarrow> pid_loop) \<Rightarrow> control_engine \<Rightarrow> wtc_result \<times> control_engine" where
  "change_loop loop_id f e =
     (case update_first (\<lambda>l. pl_loop_id l = loop_id) f (ce_pid_loops e) of
        None \<Rightarrow> (WTC_ERROR_NOT_FOUND, e)
      | Some ls \<Rightarrow> (WTC_OK, e\<lparr>ce_pid_loops := ls\<rparr>))"

definition change_interlock :: "int \<Rightarrow> (interlock \<Rightarrow> interlock) \<Rightarrow> control_engine \<Rightarrow> wtc_result \<times> control_engine" where
  "change_interlock interlock_id f e =
     (case update_first (\<lambda>l. il_interlock_id l = interlock_id) f (ce_interlocks e) of
        None \<Rightarrow> (WTC_ERROR_NOT_FOUND, e)
      | Some ls \<Rightarrow> (WTC_OK, e\<lparr>ce_interlocks := ls\<rparr>))"

definition control_engine_add_pid_loop ::
  "control_engine option \<Rightarrow> pid_loop option \<Rightarrow> (wtc_result \<times> int option) \<times> control_engine option" where
  "control_engine_add_pid_loop eng config =
     on_handle (WTC_ERROR_INVALID_PARAM, None) (\<lambda>e.
       case config of
         None \<Rightarrow> ((WTC_ERROR_INVALID_PARAM, None), e)
       | Some c \<Rightarrow>
           if WTC_MAX_PID_LOOPS \<le> length (ce_pid_loops e) then ((WTC_ERROR_FULL, None), e)
           else ((WTC_OK, Some (ce_next_pid_id e)),
                 e\<lparr>ce_pid_loops := ce_pid_loops e @ [c\<lparr>pl_loop_id := ce_next_pid_id e\<rparr>],
                   ce_next_pid_id := ce_next_pid_id e + 1\<rparr>)) eng"

definition control_engine_remove_pid_loop :: "control_engine option \<Rightarrow> int \<Rightarrow> wtc_result \<times> control_engine option" where
  "control_engine_remove_pid_loop eng loop_id =
     on_handle WTC_ERROR_INVALID_PARAM (\<lambda>e.
       case remove_first (\<lambda>l. pl_loop_id l = loop_id) (ce_pid_loops e) of
         None \<Rightarrow> (WTC_ERROR_NOT_FOUND, e)
       | Some ls \<Rightarrow> (WTC_OK, e\<lparr>ce_pid_loops := ls\<rparr>)) eng"

definition control_engine_get_pid_loop ::
  "control_engine option \<Rightarrow> int \<Rightarrow> bool \<Rightarrow> wtc_result \<times> pid_loop option" where
  "control_engine_get_pid_loop eng loop_id out_ok =
     with_handle (WTC_ERROR_INVALID_PARAM, None) (\<lambda>e.
       if \<not> out_ok then (WTC_ERROR_INVALID_PARAM, None)
       else case List.find (\<lambda>l. pl_loop_id l = loop_id) (ce_pid_loops e) of
         None \<Rightarrow> (WTC_ERROR_NOT_FOUND, None) | Some l \<Rightarrow> (WTC_OK, Some l)) eng"

definition control_engine_set_setpoint :: "control_engine option \<Rightarrow> int \<Rightarrow> f32 \<Rightarrow> wtc_result \<times> control_engine option" where
  "control_engine_set_setpoint eng loop_id setpoint =
     on_handle WTC_ERROR_INVALID_PARAM (change_loop loop_id (\<lambda>l. l\<lparr>pl_setpoint := setpoint\<rparr>)) eng"

definition switch_mode :: "pid_mode \<Rightarrow> pid_loop \<Rightarrow> pid_loop" where
  "switch_mode mode l =
     (let l = (if pl_mode l = PID_MODE_MANUAL \<and> mode = PID_MODE_AUTO
               then l\<lparr>pl_integral := pl_cv l, pl_last_error := 0\<rparr> else l)
      in l\<lparr>pl_mode := mode\<rparr>)"

definition control_engine_set_pid_mode :: "control_engine option \<Rightarrow> int \<Rightarrow> pid_mode \<Rightarrow> wtc_result \<times> control_engine option" where
  "control_engine_set_pid_mode eng loop_id mode =
     on_handle WTC_ERROR_INVALID_PARAM (change_loop loop_id (switch_mode mode)) eng"

definition control_engine_set_pid_tuning ::
  "control_engine option \<Rightarrow> int \<Rightarrow> f32 \<Rightarrow> f32 \<Rightarrow> f32 \<Rightarrow> wtc_result \<times> control_engine option" where
  "control_engine_set_pid_tuning eng loop_id kp ki kd =
     on_handle WTC_ERROR_INVALID_PARAM (change_loop loop_id (\<lambda>l. l\<lparr>pl_kp := kp, pl_ki := ki, pl_kd := kd\<rparr>)) eng"

definition control_engine_get_pid_output ::
  "control_engine option \<Rightarrow> int \<Rightarrow> bool \<Rightarrow> wtc_result \<times> f32 option" where
  "control_engine_get_pid_output eng loop_id out_ok =
     with_handle (WTC_ERROR_INVALID_PARAM, None) (\<lambda>e.
       if \<not> out_ok then (WTC_ERROR_INVALID_PARAM, None)
       else case List.find (\<lambda>l. pl_loop_id l = loop_id) (ce_pid_loops e) of
         None \<Rightarrow> (WTC_ERROR_NOT_FOUND, None) | Some l \<Rightarrow> (WTC_OK, Some (pl_cv l))) eng"

text \<open>The lists of pointers the listing functions fill are the elements pointed to; a negative
  \<open>max_count\<close> is returned as the count, with nothing stored.\<close>

definition control_engine_list_pid_loops ::
  "control_engine option \<Rightarrow> bool \<Rightarrow> bool \<Rightarrow> int \<Rightarrow> wtc_result \<times> (pid_loop list \<times> int) option" where
  "control_engine_list_pid_loops eng loops_ok count_ok max_count =
     with_handle (WTC_ERROR_INVALID_PARAM, None) (\<lambda>e.
       if \<not> loops_ok \<or> \<not> count_ok then (WTC_ERROR_INVALID_PARAM, None)
       else
         (let n = int (length (ce_pid_loops e)); copy_count = (if max_count < n then max_count else n) in
          (WTC_OK, Some (take (nat copy_count) (ce_pid_loops e), copy_count)))) eng"

definition control_engine_add_interlock ::
  "control_engine option \<Rightarrow> interlock option \<Rightarrow> (wtc_result \<times> int option) \<times> control_engine option" where
  "control_engine_add_interlock eng config =
     on_handle (WTC_ERROR_INVALID_PARAM, None) (\<lambda>e.
       case config of
         None \<Rightarrow> ((WTC_ERROR_INVALID_PARAM, None), e)
       | Some c \<Rightarrow>
           if WTC_MAX_INTERLOCKS \<le> length (ce_interlocks e) then ((WTC_ERROR_FULL, None), e)
           else ((WTC_OK, Some (ce_next_interlock_id e)),
                 e\<lparr>ce_interlocks := ce_interlocks e @ [c\<lparr>il_interlock_id := ce_next_interlock_id e\<rparr>],
                   ce_next_interlock_id := ce_next_interlock_id e + 1\<rparr>)) eng"

definition control_engine_remove_interlock :: "control_engine option \<Rightarrow> int \<Rightarrow> wtc_result \<times> control_engine option" where
  "control_engine_remove_interlock eng interlock_id =
     on_handle WTC_ERROR_INVALID_PARAM (\<lambda>e.
       case remove_first (\<lambda>l. il_interlock_id l = interlock_id) (ce_interlocks e) of
         None \<Rightarrow> (WTC_ERROR_NOT_FOUND, e)
       | Some ls \<Rightarrow> (WTC_OK, e\<lparr>ce_interlocks := ls\<rparr>)) eng"

definition control_engine_get_interlock ::
  "control_engine option \<Rightarrow> int \<Rightarrow> bool \<Rightarrow> wtc_result \<times> interlock option" where
  "control_engine_get_interlock eng interlock_id out_ok =
     with_handle (WTC_ERROR_INVALID_PARAM, None) (\<lambda>e.
       if \<not> out_ok then (WTC_ERROR_INVALID_PARAM, None)
       else case List.find (\<lambda>l. il_interlock_id l = interlock_id) (ce_interlocks e) of
         None \<Rightarrow> (WTC_ERROR_NOT_FOUND, None) | Some l \<Rightarrow> (WTC_OK, Some l)) eng"

definition control_engine_enable_interlock :: "control_engine option \<Rightarrow> int \<Rightarrow> bool \<Rightarrow> wtc_result \<times> control_engine option" where
  "control_engine_enable_interlock eng interlock_id enabled =
     on_handle WTC_ERROR_INVALID_PARAM (change_interlock interlock_id (\<lambda>l. l\<lparr>il_enabled := enabled\<rparr>)) eng"

definition control_engine_reset_interlock :: "control_engine option \<Rightarrow> int \<Rightarrow> wtc_result \<times> control_engine option" where
  "control_engine_reset_interlock eng interlock_id =
     on_handle WTC_ERROR_INVALID_PARAM (change_interlock interlock_id
       (\<lambda>l. l\<lparr>il_tripped := False, il_trip_time_ms := 0, il_condition_start_ms := 0\<rparr>)) eng"

definition control_engine_list_interlocks ::
  "control_engine option \<Rightarrow> bool \<Rightarrow> bool \<Rightarrow> int \<Rightarrow> wtc_result \<times> (interlock list \<times> int) option" where
  "control_engine_list_interlocks eng ils_ok count_ok max_count =
     with_handle (WTC_ERROR_INVALID_PARAM, None) (\<lambda>e.
       if \<not> ils_ok \<or> \<not> count_ok then (WTC_ERROR_INVALID_PARAM, None)
       else
         (let n = int (length (ce_interlocks e)); copy_count = (if max_count < n then max_count else n) in
          (WTC_OK, Some (take (nat copy_count) (ce_interlocks e), copy_count)))) eng"

abbreviation forced_at :: "string \<Rightarrow> int \<Rightarrow> forced_output \<Rightarrow> bool" where
  "forced_at st sl \<equiv> \<lambda>f. fo_station_name f = st \<and> fo_slot f = sl"

definition control_engine_force_output ::
  "control_engine option \<Rightarrow> string option \<Rightarrow> int \<Rightarrow> u8 \<Rightarrow> u8 \<Rightarrow> wtc_result \<times> control_engine option" where
  "control_engine_force_output eng station_name slot command pwm_duty =
     on_handle WTC_ERROR_INVALID_PARAM (\<lambda>e.
       case station_name of
         None \<Rightarrow> (WTC_ERROR_INVALID_PARAM, e)
       | Some st \<Rightarrow>
           (let out = \<lparr>ao_command = command, ao_pwm_duty = pwm_duty\<rparr> in
            case update_first (forced_at st slot) (\<lambda>f. f\<lparr>fo_output := out\<rparr>) (ce_forced_outputs e) of
              Some fs \<Rightarrow> (WTC_OK, e\<lparr>ce_forced_outputs := fs\<rparr>)
            | None \<Rightarrow>
                if 128 \<le> length (ce_forced_outputs e) then (WTC_ERROR_FULL, e)
                else (WTC_OK, e\<lparr>ce_forced_outputs := ce_forced_outputs e @
                  [\<lparr>fo_station_name = cstr_copy 63 st, fo_slot = slot, fo_output = out\<rparr>]\<rparr>))) eng"

definition control_engine_release_output ::
  "control_engine option \<Rightarrow> string option \<Rightarrow> int \<Rightarrow> wtc_result \<times> control_engine option" where
  "control_engine_release_output eng station_name slot =
     on_handle WTC_ERROR_INVALID_PARAM (\<lambda>e.
       case station_name of
         None \<Rightarrow> (WTC_ERROR_INVALID_PARAM, e)
       | Some st \<Rightarrow>
           (case remove_first (forced_at st slot) (ce_forced_outputs e) of
              None \<Rightarrow> (WTC_ERROR_NOT_FOUND, e)
            | Some fs \<Rightarrow> (WTC_OK, e\<lparr>ce_forced_outputs := fs\<rparr>))) eng"

definition control_engine_is_output_forced ::
  "control_engine option \<Rightarrow> string option \<Rightarrow> int \<Rightarrow> bool \<Rightarrow> wtc_result \<times> bool option" where
  "control_engine_is_output_forced eng station_name slot out_ok =
     with_handle (WTC_ERROR_INVALID_PARAM, None) (\<lambda>e.
       case station_name of
         None \<Rightarrow> (WTC_ERROR_INVALID_PARAM, None)
       | Some st \<Rightarrow>
           if \<not> out_ok then (WTC_ERROR_INVALID_PARAM, None)
           else (WTC_OK, Some (List.find (forced_at st slot) (ce_forced_outputs e) \<noteq> None))) eng"

definition control_engine_get_stats :: "control_engine option \<Rightarrow> bool \<Rightarrow> wtc_result \<times> control_stats option" where
  "control_engine_get_stats eng out_ok =
     with_handle (WTC_ERROR_INVALID_PARAM, None) (\<lambda>e.
       if \<not> out_ok then (WTC_ERROR_INVALID_PARAM, None)
       else (WTC_OK, Some ((ce_stats e)\<lparr>cs_active_pid_loops := int (length (ce_pid_loops e)),
              cs_active_interlocks := int (length (ce_interlocks e))\<rparr>))) eng"

section \<open>The PID output\<close>

lemma clamp_bounds:
  assumes "f_le (pl_output_min l) (pl_output_max l)" and "\<not> is_nan out"
  shows "f_le (pl_output_min l) (fst (clamp_output l err dt i out)) \<and>
    f_le (fst (clamp_output l err dt i out)) (pl_output_max l)"
  using assms by (auto simp: clamp_output_def f_le_def f_lt_def)

lemma clamp_nan: "is_nan out \<Longrightarrow> clamp_output l err dt i out = (out, i)"
  by (simp add: clamp_output_def)

lemma calculate_pid_clamped:
  assumes "pl_mode l = PID_MODE_AUTO \<or> pl_mode l = PID_MODE_CASCADE"
  obtains err dt i raw where "fst (calculate_pid l pv t) = fst (clamp_output l err dt i raw)"
    "pl_integral (snd (calculate_pid l pv t)) = snd (clamp_output l err dt i raw)"
    "pl_cv (snd (calculate_pid l pv t)) = fst (calculate_pid l pv t)"
    "i = limit_integral (pl_integral_limit l) (f_add (pl_integral l) (f_mul (f_mul (pl_ki l) err) dt))"
  using assms that by (auto simp: calculate_pid_def Let_def split_beta)

lemma f_int_255: "f_int (f_lit 255 1) = 255 * 2 ^ 149" and not_inf_255: "\<not> is_inf (f_lit 255 1)"
  by (simp_all add: f32_eval)

lemma inf_units: "is_inf w \<Longrightarrow> f_units w = 2 ^ 277"
  by (simp add: is_inf_def f_units_def f_inf_mag_def mag_units_def)

lemma byte_conversion_defined:
  assumes "f_lt 0 out" and "f_le out (f_lit 255 1)"
  shows "f_to_word oob out = (f_to_word oob' out :: u8)"
proof -
  from assms have int: "\<not> is_nan out" "0 < f_int out" "f_int out \<le> 255 * 2 ^ 149"
    using f_int_255 by (auto simp: f_lt_def f_le_def)
  then have "\<not> f_neg out" and units: "int (f_units out) \<le> 255 * 2 ^ 149"
    by (auto simp: f_int_def split: if_splits)
  from units have "\<not> is_inf out" using inf_units [of out] by auto
  moreover have "f_units out div 2 ^ 149 \<le> 255"
  proof -
    from units have "f_units out \<le> 255 * 2 ^ 149" by simp
    from div_le_mono [OF this, of "2 ^ 149"] show ?thesis by simp
  qed
  ultimately show ?thesis
    using int(1) \<open>\<not> f_neg out\<close> by (simp add: f_to_word_def f_trunc_def)
qed

text \<open>\<^bold>\<open>C29.\<close> In automatic and cascade mode the PID calculation returns a value between the output limits,
  or a NaN, for every input, gain and history; and with an upper limit of at most 255 the conversion
  of the value to the duty byte is always defined (a NaN switches the actuator off).\<close>

theorem pid_output_within_limits:
  assumes "pl_mode l = PID_MODE_AUTO \<or> pl_mode l = PID_MODE_CASCADE"
    and "f_le (pl_output_min l) (pl_output_max l)" and "calculate_pid l pv dt_ms = (out, l')"
  shows "(is_nan out \<or> f_le (pl_output_min l) out \<and> f_le out (pl_output_max l)) \<and> pl_cv l' = out \<and>
    (f_le (pl_output_max l) (f_lit 255 1) \<longrightarrow> pid_actuator_out oob out = pid_actuator_out oob' out) \<and>
    (is_nan out \<longrightarrow> pid_actuator_out oob out = off_output)"
proof -
  obtain err dt i raw where c: "out = fst (clamp_output l err dt i raw)" "pl_cv l' = out"
    using calculate_pid_clamped [OF assms(1), of pv dt_ms] assms(3) by (metis fst_conv snd_conv)
  have range: "is_nan out \<or> f_le (pl_output_min l) out \<and> f_le out (pl_output_max l)"
    using clamp_bounds [OF assms(2), of raw err dt i] clamp_nan [of raw l err dt i] c(1) by (cases "is_nan raw") auto
  moreover have "pid_actuator_out oob out = pid_actuator_out oob' out" if "f_le (pl_output_max l) (f_lit 255 1)"
  proof (cases "f_lt (f_lit 1 2) out")
    case True
    have half: "f_lt 0 (f_lit 1 2)" by (simp add: f32_eval f_lt_def)
    from True range have "f_le out (f_lit 255 1)"
      using that f_le_trans by (auto simp: f_lt_def)
    with f_lt_trans [OF half True] byte_conversion_defined [of out oob oob'] show ?thesis
      by (simp add: pid_actuator_out_def)
  qed (simp add: pid_actuator_out_def)
  moreover have "is_nan out \<Longrightarrow> pid_actuator_out oob out = off_output"
    by (simp add: pid_actuator_out_def off_output_def)
  ultimately show ?thesis using c(2) by blast
qed

definition sample_loop :: pid_loop where
  "sample_loop = \<lparr>pl_loop_id = 1, pl_name = ''level'', pl_enabled = True, pl_input_rtu = ''rtu-1'', pl_input_slot = 7,
     pl_output_rtu = ''rtu-1'', pl_output_slot = 1, pl_kp = 0, pl_ki = 0x3F800000, pl_kd = 0, pl_setpoint = 0x41F00000,
     pl_output_min = 0, pl_output_max = 0x40A00000, pl_deadband = 0, pl_integral_limit = 0x41200000,
     pl_derivative_filter = 0, pl_pv = 0, pl_cv = 0, pl_error = 0, pl_integral = 0xC1200000,
     pl_derivative = 0, pl_last_error = 0, pl_mode = PID_MODE_AUTO, pl_last_update_ms = 0\<rparr>"

lemma lit_values:
  "f_lit 1000 1 = 0x447A0000" "f_lit 1 1000 = 0x3A83126F" "f_lit 255 1 = 0x437F0000"
  by (simp_all add: f32_eval)

lemmas float_eval = f_div_def f_sub_def f_add_def f_mul_def f_uminus_def f_abs_def f_lt_def f_le_def f32_eval

lemma sample_arith:
  "f_div 0x447A0000 0x447A0000 = 0x3F800000"
  "f_sub 0x41F00000 0 = 0x41F00000"
  "f_abs 0x41F00000 = 0x41F00000"
  "f_mul 0 0x41F00000 = 0"
  "f_mul 0x3F800000 0x41F00000 = 0x41F00000"
  "f_mul 0x41F00000 0x3F800000 = 0x41F00000"
  "f_add 0xC1200000 0x41F00000 = 0x41A00000"
  "f_add 0 0x41200000 = 0x41200000"
  "f_div 0x41F00000 0x3F800000 = 0x41F00000"
  "f_add 0x41200000 0 = 0x41200000"
  "f_sub 0x41200000 0x41F00000 = 0xC1A00000"
  "f_uminus 0x41200000 = 0xC1200000"
  by (simp_all add: float_eval)

lemma sample_order:
  "\<not> f_le 0x3F800000 0"
  "\<not> f_lt 0x41F00000 0"
  "f_lt 0 0x41F00000"
  "f_lt 0 0x41200000"
  "f_lt 0x41200000 0x41A00000"
  "f_lt 0x40A00000 0x41200000"
  "f_le 0 0x40A00000"
  "f_le 0x40A00000 0x437F0000"
  "f_lt 0xC1A00000 0xC1200000"
  by (simp_all add: float_eval)

lemma calculate_pid_steps:
  assumes "pl_mode l = PID_MODE_AUTO \<or> pl_mode l = PID_MODE_CASCADE"
    and "dt = (if f_le (f_div t (f_lit 1000 1)) 0 then f_lit 1 1000 else f_div t (f_lit 1000 1))"
    and "err = (if f_lt (f_abs (f_sub (pl_setpoint l) pv)) (pl_deadband l) then 0 else f_sub (pl_setpoint l) pv)"
    and "i = limit_integral (pl_integral_limit l) (f_add (pl_integral l) (f_mul (f_mul (pl_ki l) err) dt))"
    and "d = f_div (f_sub err (pl_last_error l)) dt"
    and "d' = (if f_lt 0 (pl_derivative_filter l) then f_add (f_mul (pl_derivative l) (pl_derivative_filter l))
        (f_mul d (f_sub (f_lit 1 1) (pl_derivative_filter l))) else d)"
    and "raw = f_add (f_add (f_mul (pl_kp l) err) i) (f_mul (pl_kd l) d')"
    and "(out, i') = clamp_output l err dt i raw"
  shows "calculate_pid l pv t = (out, l\<lparr>pl_integral := i', pl_derivative := d', pl_last_error := err,
    pl_error := err, pl_pv := pv, pl_cv := out\<rparr>)"
proof -
  from assms(8) have "clamp_output l err dt i raw = (out, i')" by simp
  with assms(1) show ?thesis
    by (elim disjE) (simp_all only: calculate_pid_def Let_def pid_mode.case assms(2-7) [symmetric] prod.case)
qed

lemma calm_order:
  "\<not> f_lt 0x437F0000 0x41200000" "\<not> f_lt 0x41200000 0" "f_lt 0x41200000 0x437F0000" "f_le 0xC1200000 0xC1200000"
  "\<not> is_nan 0x41200000" "f_le 0x41200000 0x41200000"
  by (simp_all add: float_eval)

lemmas sample_eval = sample_loop_def lit_values [simplified] sample_arith sample_order

lemma sample_step:
  "calculate_pid sample_loop 0 0x447A0000 =
    (0x40A00000, sample_loop\<lparr>pl_integral := 0xC1A00000, pl_derivative := 0x41F00000,
      pl_last_error := 0x41F00000, pl_error := 0x41F00000, pl_pv := 0, pl_cv := 0x40A00000\<rparr>)"
proof (rule calculate_pid_steps [where dt = "0x3F800000" and err = "0x41F00000" and i = "0x41200000"
        and d = "0x41F00000" and raw = "0x41200000"])
  show "0x41200000 = limit_integral (pl_integral_limit sample_loop)
      (f_add (pl_integral sample_loop) (f_mul (f_mul (pl_ki sample_loop) 0x41F00000) 0x3F800000))"
    by (simp add: sample_eval limit_integral_def)
  show "(0x40A00000, 0xC1A00000) = clamp_output sample_loop 0x41F00000 0x3F800000 0x41200000 0x41200000"
    by (simp add: sample_eval clamp_output_def)
qed (simp_all add: sample_eval)

theorem pid_output_within_limits_witness:
  "(is_nan 0x40A00000 \<or> f_le (pl_output_min sample_loop) 0x40A00000 \<and> f_le 0x40A00000 (pl_output_max sample_loop)) \<and>
    pid_actuator_out (\<lambda>_. 0) 0x40A00000 = pid_actuator_out (\<lambda>_. 9) 0x40A00000"
proof -
  have m: "pl_mode sample_loop = PID_MODE_AUTO \<or> pl_mode sample_loop = PID_MODE_CASCADE"
    and le: "f_le (pl_output_min sample_loop) (pl_output_max sample_loop)"
    and max: "f_le (pl_output_max sample_loop) (f_lit 255 1)"
    by (simp_all add: sample_eval)
  from pid_output_within_limits [OF m le sample_step, of "\<lambda>_. 0" "\<lambda>_. 9"] max show ?thesis by blast
qed

text \<open>Integral limit: when the limit is positive and the output is not saturated, the integral after
  the calculation is within plus and minus the limit, or a NaN.\<close>

theorem pid_integral_limited:
  assumes "pl_mode l = PID_MODE_AUTO \<or> pl_mode l = PID_MODE_CASCADE"
    and "f_lt 0 (pl_integral_limit l)" and "calculate_pid l pv dt_ms = (out, l')"
    and "f_lt (pl_output_min l) out" and "f_lt out (pl_output_max l)"
  shows "is_nan (pl_integral l') \<or>
    f_le (f_uminus (pl_integral_limit l)) (pl_integral l') \<and> f_le (pl_integral l') (pl_integral_limit l)"
proof -
  obtain err dt i raw where c: "out = fst (clamp_output l err dt i raw)"
    "pl_integral l' = snd (clamp_output l err dt i raw)"
    "i = limit_integral (pl_integral_limit l) (f_add (pl_integral l) (f_mul (f_mul (pl_ki l) err) dt))"
    using calculate_pid_clamped [OF assms(1), of pv dt_ms] assms(3) by (metis fst_conv snd_conv)
  from c(1) assms(4, 5) have "pl_integral l' = i"
    unfolding c(2) by (auto simp: clamp_output_def split: if_splits)
  with c(3) assms(2) show ?thesis
    by (auto simp: limit_integral_def f_le_def f_lt_def)
qed

definition calm_loop :: pid_loop where
  "calm_loop = sample_loop\<lparr>pl_output_max := 0x437F0000\<rparr>"

lemma calm_step:
  "calculate_pid calm_loop 0 0x447A0000 =
    (0x41200000, calm_loop\<lparr>pl_integral := 0x41200000, pl_derivative := 0x41F00000,
      pl_last_error := 0x41F00000, pl_error := 0x41F00000, pl_pv := 0, pl_cv := 0x41200000\<rparr>)"
proof (rule calculate_pid_steps [where dt = "0x3F800000" and err = "0x41F00000" and i = "0x41200000"
        and d = "0x41F00000" and raw = "0x41200000"])
  show "0x41200000 = limit_integral (pl_integral_limit calm_loop)
      (f_add (pl_integral calm_loop) (f_mul (f_mul (pl_ki calm_loop) 0x41F00000) 0x3F800000))"
    by (simp add: calm_loop_def sample_eval limit_integral_def)
  show "(0x41200000, 0x41200000) = clamp_output calm_loop 0x41F00000 0x3F800000 0x41200000 0x41200000"
    by (simp add: calm_loop_def sample_eval clamp_output_def calm_order)
qed (simp_all add: calm_loop_def sample_eval)

theorem pid_integral_limited_witness:
  "f_le (f_uminus (pl_integral_limit calm_loop)) 0x41200000 \<and> f_le 0x41200000 (pl_integral_limit calm_loop)"
proof -
  have m: "pl_mode calm_loop = PID_MODE_AUTO \<or> pl_mode calm_loop = PID_MODE_CASCADE"
    and lim: "f_lt 0 (pl_integral_limit calm_loop)"
    and lo: "f_lt (pl_output_min calm_loop) 0x41200000" and hi: "f_lt 0x41200000 (pl_output_max calm_loop)"
    by (simp_all add: calm_loop_def sample_eval calm_order)
  from pid_integral_limited [OF m lim calm_step lo hi] show ?thesis by (simp add: calm_order)
qed

text \<open>The limit does not hold when the output saturates: the anti-windup correction subtracts the
  whole increment of this step although the limiter has already cut most of it, and drives the
  integral past the opposite limit. Here the integral goes from -10 to -20 with a limit of 10, on a
  positive error.\<close>

theorem pid_antiwindup_breaks_limit:
  "\<exists>l l' out. pl_mode l = PID_MODE_AUTO \<and> f_lt 0 (pl_integral_limit l) \<and>
     f_le (f_uminus (pl_integral_limit l)) (pl_integral l) \<and> calculate_pid l 0 0x447A0000 = (out, l') \<and>
     f_lt 0 (pl_error l') \<and> f_lt (pl_integral l') (f_uminus (pl_integral_limit l))"
  by (rule exI [of _ sample_loop], rule exI, rule exI, intro conjI, simp add: sample_eval, simp add: sample_eval,
      simp add: sample_eval calm_order, rule sample_step, simp_all add: sample_eval)

end
