(* ===== verification/ControlScan.thy ===== *)
theory ControlScan
  imports Control
begin

text \<open>
  The scan of the control engine (\<open>control_engine_process\<close>): which actuator ends up with which output,
  the timing of interlock trips, and the effect of input faults.
\<close>

section \<open>What a scan writes\<close>

text \<open>
  The registry after a scan is the registry before it with a list of writes applied, first those of
  the interlocks, then those of the PID loops. The lists are given in closed form from the readings
  before the scan: writes do not change readings.
\<close>

lemma get_sensor_reg:
  "rtu_registry_get_sensor (Some r) (Some st) sl True t =
    (case reg_sensor r st sl of
       Some d \<Rightarrow> (WTC_OK, Some (if 5000 < t - sd_timestamp_ms d then d\<lparr>sd_stale := True\<rparr> else d))
     | None \<Rightarrow> (fst (rtu_registry_get_sensor (Some r) (Some st) sl True t), None)) \<and>
   (reg_sensor r st sl = None \<longrightarrow> fst (rtu_registry_get_sensor (Some r) (Some st) sl True t) \<noteq> WTC_OK)"
  by (auto simp: rtu_registry_get_sensor_def reg_sensor_def Let_def split: option.splits)

definition input_of :: "rtu_registry \<Rightarrow> string \<Rightarrow> int \<Rightarrow> f32 option" where
  "input_of r st sl = (case reg_sensor r st sl of
     Some d \<Rightarrow> if sd_status d = IOPS_GOOD then Some (sd_value d) else None | None \<Rightarrow> None)"

lemma good_input_reg:
  assumes "ce_registry e = Some r"
  shows "good_input (read_input env i e st sl) \<longleftrightarrow> input_of r st sl \<noteq> None"
    and "input_of r st sl = Some v \<Longrightarrow> sd_value (the (snd (read_input env i e st sl))) = v"
  using get_sensor_reg [of r st sl "se_read env i"] assms
  by (auto simp: good_input_def read_input_def input_of_def split: option.splits if_splits)

definition reading_of :: "scan_env \<Rightarrow> rtu_registry \<Rightarrow> nat \<Rightarrow> string \<Rightarrow> int \<Rightarrow> f32" where
  "reading_of env r i st sl = (case reg_sensor r st sl of Some d \<Rightarrow> sd_value d | None \<Rightarrow> sd_value (se_unset env i))"

lemma reading_reg:
  "ce_registry e = Some r \<Longrightarrow>
    sd_value (interlock_reading env i e il) = reading_of env r i (il_condition_rtu il) (il_condition_slot il)"
  using get_sensor_reg [of r "il_condition_rtu il" "il_condition_slot il" "se_read env i"]
  by (auto simp: interlock_reading_def read_input_def reading_of_def Let_def split: option.splits)

lemma write_actuator_reg:
  "ce_registry e = Some r \<Longrightarrow> write_actuator st sl v t e = e\<lparr>ce_registry := Some (reg_write st sl v t r)\<rparr>"
  by (simp add: write_actuator_def reg_write_def rtu_registry_update_actuator_def on_handle_def split_beta)

lemma input_same_sensors: "reg_sensor r' = reg_sensor r \<Longrightarrow> input_of r' = input_of r"
  by (simp add: input_of_def fun_eq_iff)

lemma reading_same_sensors: "reg_sensor r' = reg_sensor r \<Longrightarrow> reading_of env r' = reading_of env r"
  by (simp add: reading_of_def fun_eq_iff)

subsection \<open>Interlocks\<close>

definition interlock_after :: "scan_env \<Rightarrow> rtu_registry \<Rightarrow> nat \<Rightarrow> interlock \<Rightarrow> interlock" where
  "interlock_after env r i il =
     (if il_enabled il then
        snd (interlock_delay (se_now env)
          (condition_met (il_condition il) (reading_of env r i (il_condition_rtu il) (il_condition_slot il))
             (il_threshold il)) il)
      else il)"

definition interlock_writes :: "scan_env \<Rightarrow> rtu_registry \<Rightarrow> nat \<Rightarrow> interlock \<Rightarrow> (string \<times> int \<times> actuator_output \<times> u64) list" where
  "interlock_writes env r i il =
     (if il_enabled il then
        (case interlock_output (se_oob env) (interlock_after env r i il) of
           None \<Rightarrow> []
         | Some v \<Rightarrow> [(il_action_rtu il, il_action_slot il, v, se_write env i)])
      else [])"

lemma interlock_delay_static [simp]:
  "il_action_rtu (snd (interlock_delay now met il)) = il_action_rtu il"
  "il_action_slot (snd (interlock_delay now met il)) = il_action_slot il"
  "il_action (snd (interlock_delay now met il)) = il_action il"
  "il_interlock_id (snd (interlock_delay now met il)) = il_interlock_id il"
  "il_enabled (snd (interlock_delay now met il)) = il_enabled il"
  "il_action_value (snd (interlock_delay now met il)) = il_action_value il"
  by (auto simp: interlock_delay_def)

lemma interlock_one_step:
  assumes reg: "ce_registry e = Some r'" and sens: "reg_sensor r' = reg_sensor r"
    and il: "ce_interlocks e ! i = il"
  shows "ce_registry (snd (process_interlock_one env i e)) = Some (reg.apply_writes (interlock_writes env r i il) r')"
    and "ce_interlocks (snd (process_interlock_one env i e)) = (ce_interlocks e)[i := interlock_after env r i il]"
    and "ce_pid_loops (snd (process_interlock_one env i e)) = ce_pid_loops e"
    and "ce_last_input_time_ms (snd (process_interlock_one env i e)) = ce_last_input_time_ms e"
    and "ce_at_limit_start (snd (process_interlock_one env i e)) = ce_at_limit_start e"
proof -
  define met where "met = condition_met (il_condition il)
    (reading_of env r i (il_condition_rtu il) (il_condition_slot il)) (il_threshold il)"
  have after: "interlock_after env r i il = (if il_enabled il then snd (interlock_delay (se_now env) met il) else il)"
    by (simp add: interlock_after_def met_def)
  let ?e = "if il_tripped il then e\<lparr>ce_stats := (ce_stats e)\<lparr>cs_tripped_interlocks := cs_tripped_interlocks (ce_stats e) + 1\<rparr>\<rparr> else e"
  have reg': "ce_registry ?e = Some r'" using reg by simp
  have "condition_met (il_condition il) (sd_value (interlock_reading env i ?e il)) (il_threshold il) = met"
    unfolding reading_reg [OF reg'] by (simp add: met_def reading_same_sensors [OF sens])
  then have step: "il_enabled il \<Longrightarrow> snd (process_interlock_one env i e) =
      (case interlock_output (se_oob env) (snd (interlock_delay (se_now env) met il)) of
         None \<Rightarrow> ?e\<lparr>ce_interlocks := (ce_interlocks ?e)[i := snd (interlock_delay (se_now env) met il)]\<rparr>
       | Some v \<Rightarrow> write_actuator (il_action_rtu il) (il_action_slot il) v (se_write env i)
           (?e\<lparr>ce_interlocks := (ce_interlocks ?e)[i := snd (interlock_delay (se_now env) met il)]\<rparr>))"
    by (cases "il_tripped il") (simp_all add: process_interlock_one_def il Let_def split_beta split: option.split)
  show "ce_registry (snd (process_interlock_one env i e)) = Some (reg.apply_writes (interlock_writes env r i il) r')"
    and "ce_interlocks (snd (process_interlock_one env i e)) = (ce_interlocks e)[i := interlock_after env r i il]"
    and "ce_pid_loops (snd (process_interlock_one env i e)) = ce_pid_loops e"
    and "ce_last_input_time_ms (snd (process_interlock_one env i e)) = ce_last_input_time_ms e"
    and "ce_at_limit_start (snd (process_interlock_one env i e)) = ce_at_limit_start e"
    using step reg il
    by (cases "il_enabled il"; auto simp: interlock_writes_def after write_actuator_reg process_interlock_one_def
        split: option.splits)+
qed

lemma interlock_pass:
  assumes "ce_registry e = Some r" and "n \<le> length (ce_interlocks e)"
    and "e' = snd (for_each (process_interlock_one env) [0..<n] e)"
  shows "ce_registry e' = Some (reg.apply_writes (concat (map (\<lambda>k. interlock_writes env r k (ce_interlocks e ! k)) [0..<n])) r) \<and>
    ce_interlocks e' = map (\<lambda>k. interlock_after env r k (ce_interlocks e ! k)) [0..<n] @ drop n (ce_interlocks e) \<and>
    ce_pid_loops e' = ce_pid_loops e \<and> ce_last_input_time_ms e' = ce_last_input_time_ms e \<and>
    ce_at_limit_start e' = ce_at_limit_start e"
  using assms(2, 3)
proof (induction n arbitrary: e')
  case 0
  with assms(1) show ?case by simp
next
  case (Suc n)
  let ?e = "snd (for_each (process_interlock_one env) [0..<n] e)"
  from Suc have ih: "ce_registry ?e = Some (reg.apply_writes (concat (map (\<lambda>k. interlock_writes env r k (ce_interlocks e ! k)) [0..<n])) r)"
    "ce_interlocks ?e = map (\<lambda>k. interlock_after env r k (ce_interlocks e ! k)) [0..<n] @ drop n (ce_interlocks e)"
    "ce_pid_loops ?e = ce_pid_loops e" "ce_last_input_time_ms ?e = ce_last_input_time_ms e"
    "ce_at_limit_start ?e = ce_at_limit_start e" by auto
  have il: "ce_interlocks ?e ! n = ce_interlocks e ! n" using ih(2) Suc.prems(1) by (simp add: nth_append)
  have drop: "drop n (ce_interlocks e) = ce_interlocks e ! n # drop (Suc n) (ce_interlocks e)"
    using Suc.prems(1) by (simp add: Cons_nth_drop_Suc)
  have "e' = snd (process_interlock_one env n ?e)" using Suc.prems(2) by (simp only: for_each_upto)
  with interlock_one_step [OF ih(1) reg.writes_sens il, of env] ih show ?case
    by (simp add: list_update_append drop)
qed

lemma process_interlocks_writes:
  assumes "ce_registry e = Some r" and "e' = snd (process_interlocks env e)"
  shows "ce_registry e' = Some (reg.apply_writes (concat (map (\<lambda>k. interlock_writes env r k (ce_interlocks e ! k))
      [0..<length (ce_interlocks e)])) r) \<and>
    ce_interlocks e' = map (\<lambda>k. interlock_after env r k (ce_interlocks e ! k)) [0..<length (ce_interlocks e)] \<and>
    ce_pid_loops e' = ce_pid_loops e \<and> ce_last_input_time_ms e' = ce_last_input_time_ms e \<and>
    ce_at_limit_start e' = ce_at_limit_start e"
  using interlock_pass [of "e\<lparr>ce_stats := (ce_stats e)\<lparr>cs_tripped_interlocks := 0\<rparr>\<rparr>" r "length (ce_interlocks e)" e' env] assms
  by (simp add: process_interlocks_def)

subsection \<open>PID loops\<close>

definition pid_result :: "scan_env \<Rightarrow> nat \<Rightarrow> f32 \<Rightarrow> pid_loop \<Rightarrow> u64 \<Rightarrow> f32" where
  "pid_result env i pv l start =
     (let dt_ms = (if 0 < pl_last_update_ms l then se_now env - pl_last_update_ms l else 100);
          (out, l') = calculate_pid (l\<lparr>pl_last_update_ms := se_now env\<rparr>) pv (f_of_int (uint dt_ms))
      in if fst (check_pid_watchdog l' out (se_watchdog env i) start)
         then f_div (f_add (pl_output_max l) (pl_output_min l)) (f_lit 2 1) else out)"

definition pid_writes ::
  "scan_env \<Rightarrow> rtu_registry \<Rightarrow> nat \<Rightarrow> pid_loop \<Rightarrow> u64 \<Rightarrow> u64 \<Rightarrow> (string \<times> int \<times> actuator_output \<times> u64) list" where
  "pid_writes env r i l seen start =
     (if \<not> pl_enabled l \<or> pl_mode l = PID_MODE_OFF then []
      else case input_of r (pl_input_rtu l) (pl_input_slot l) of
        Some pv \<Rightarrow> [(pl_output_rtu l, pl_output_slot l, pid_actuator_out (se_oob env) (pid_result env i pv l start), se_write env i)]
      | None \<Rightarrow> if 0 < seen \<and> COMM_LOSS_TIMEOUT_MS < se_now env - seen
                then [(pl_output_rtu l, pl_output_slot l, off_output, se_write env i)] else [])"

lemma calculate_pid_static [simp]:
  "pl_output_rtu (snd (calculate_pid l pv t)) = pl_output_rtu l"
  "pl_output_slot (snd (calculate_pid l pv t)) = pl_output_slot l"
  "pl_output_max (snd (calculate_pid l pv t)) = pl_output_max l"
  "pl_output_min (snd (calculate_pid l pv t)) = pl_output_min l"
  "pl_loop_id (snd (calculate_pid l pv t)) = pl_loop_id l"
  by (simp_all add: calculate_pid_def Let_def split_beta split: pid_mode.split)

text \<open>What one iteration leaves alone: the entries of the other loops.\<close>

definition others_kept :: "nat \<Rightarrow> control_engine \<Rightarrow> control_engine \<Rightarrow> bool" where
  "others_kept i e e' \<longleftrightarrow> length (ce_pid_loops e') = length (ce_pid_loops e) \<and>
     (\<forall>j. j \<noteq> i \<longrightarrow> ce_pid_loops e' ! j = ce_pid_loops e ! j \<and>
        ce_last_input_time_ms e' ! j = ce_last_input_time_ms e ! j \<and>
        ce_at_limit_start e' ! j = ce_at_limit_start e ! j)"

lemma pid_good_step:
  assumes "ce_registry e = Some r'" and "i < length (ce_pid_loops e)"
  shows "ce_registry (snd (process_pid_good env i pv e)) = Some (reg_write (pl_output_rtu (ce_pid_loops e ! i))
      (pl_output_slot (ce_pid_loops e ! i)) (pid_actuator_out (se_oob env)
        (pid_result env i pv (ce_pid_loops e ! i) (ce_at_limit_start e ! i))) (se_write env i) r')"
    and "others_kept i e (snd (process_pid_good env i pv e))"
proof -
  show "ce_registry (snd (process_pid_good env i pv e)) = Some (reg_write (pl_output_rtu (ce_pid_loops e ! i))
      (pl_output_slot (ce_pid_loops e ! i)) (pid_actuator_out (se_oob env)
        (pid_result env i pv (ce_pid_loops e ! i) (ce_at_limit_start e ! i))) (se_write env i) r')"
    using assms by (simp add: process_pid_good_def pid_result_def Let_def split_beta write_actuator_reg)
  show "others_kept i e (snd (process_pid_good env i pv e))"
    using assms by (simp add: process_pid_good_def Let_def split_beta write_actuator_def others_kept_def)
qed

lemma pid_one_step:
  assumes reg: "ce_registry e = Some r'" and sens: "reg_sensor r' = reg_sensor r" and i: "i < length (ce_pid_loops e)"
  shows "ce_registry (snd (process_pid_one env i e)) = Some (reg.apply_writes
      (pid_writes env r i (ce_pid_loops e ! i) (ce_last_input_time_ms e ! i) (ce_at_limit_start e ! i)) r')"
    and "others_kept i e (snd (process_pid_one env i e))"
proof -
  let ?l = "ce_pid_loops e ! i"
  have input: "input_of r' = input_of r" by (rule input_same_sensors [OF sens])
  note g = good_input_reg [OF reg, unfolded input, where env = env and i = i and st = "pl_input_rtu ?l" and sl = "pl_input_slot ?l"]
  show "ce_registry (snd (process_pid_one env i e)) = Some (reg.apply_writes
      (pid_writes env r i ?l (ce_last_input_time_ms e ! i) (ce_at_limit_start e ! i)) r')"
    using g pid_good_step(1) [OF reg i] reg
    by (cases "input_of r (pl_input_rtu ?l) (pl_input_slot ?l)")
      (auto simp: process_pid_one_def pid_writes_def process_pid_fault_def Let_def write_actuator_reg)
  show "others_kept i e (snd (process_pid_one env i e))"
    using pid_good_step(2) [OF reg i]
    by (auto simp: process_pid_one_def process_pid_fault_def Let_def write_actuator_def others_kept_def)
qed

lemma pid_pass:
  assumes "ce_registry e = Some r0" and "reg_sensor r0 = reg_sensor r" and "n \<le> length (ce_pid_loops e)"
    and "e' = snd (for_each (process_pid_one env) [0..<n] e)"
  shows "ce_registry e' = Some (reg.apply_writes (concat (map (\<lambda>k. pid_writes env r k (ce_pid_loops e ! k)
      (ce_last_input_time_ms e ! k) (ce_at_limit_start e ! k)) [0..<n])) r0) \<and>
    length (ce_pid_loops e') = length (ce_pid_loops e) \<and>
    (\<forall>j \<ge> n. ce_pid_loops e' ! j = ce_pid_loops e ! j \<and>
      ce_last_input_time_ms e' ! j = ce_last_input_time_ms e ! j \<and> ce_at_limit_start e' ! j = ce_at_limit_start e ! j)"
  using assms(3, 4)
proof (induction n arbitrary: e')
  case 0
  with assms(1) show ?case by simp
next
  case (Suc n)
  let ?e = "snd (for_each (process_pid_one env) [0..<n] e)"
  from Suc have ih: "ce_registry ?e = Some (reg.apply_writes (concat (map (\<lambda>k. pid_writes env r k (ce_pid_loops e ! k)
      (ce_last_input_time_ms e ! k) (ce_at_limit_start e ! k)) [0..<n])) r0)"
    "length (ce_pid_loops ?e) = length (ce_pid_loops e)"
    "\<forall>j \<ge> n. ce_pid_loops ?e ! j = ce_pid_loops e ! j \<and>
      ce_last_input_time_ms ?e ! j = ce_last_input_time_ms e ! j \<and> ce_at_limit_start ?e ! j = ce_at_limit_start e ! j" by auto
  have e': "e' = snd (process_pid_one env n ?e)" using Suc.prems(2) by (simp only: for_each_upto)
  have sens: "reg_sensor (reg.apply_writes ws r0) = reg_sensor r" for ws
    using reg.writes_sens assms(2) by simp
  have "n < length (ce_pid_loops ?e)" using ih(2) Suc.prems(1) by simp
  from pid_one_step [OF ih(1) sens this, of env] ih(2, 3) show ?case
    unfolding e' by (auto simp: others_kept_def)
qed

subsection \<open>The scan\<close>

definition scan_interlock_writes where
  "scan_interlock_writes env r e =
     concat (map (\<lambda>k. interlock_writes env r k (ce_interlocks e ! k)) [0..<length (ce_interlocks e)])"

definition scan_pid_writes where
  "scan_pid_writes env r e =
     concat (map (\<lambda>k. pid_writes env r k (ce_pid_loops e ! k) (ce_last_input_time_ms e ! k) (ce_at_limit_start e ! k))
       [0..<length (ce_pid_loops e)])"

lemma process_writes:
  assumes "ce_registry e = Some r" and "control_engine_process env env' (Some e) = (res, Some e')"
  shows "ce_registry e' = Some (reg.apply_writes (scan_interlock_writes env r e @ scan_pid_writes env' r e) r)"
proof -
  let ?e = "snd (process_interlocks env e)"
  note il = process_interlocks_writes [OF assms(1) refl, of env]
  let ?r = "reg.apply_writes (scan_interlock_writes env r e) r"
  have reg: "ce_registry ?e = Some ?r" using il by (simp add: scan_interlock_writes_def)
  have sens: "reg_sensor ?r = reg_sensor r" by (rule reg.writes_sens)
  have e': "e' = snd (for_each (process_pid_one env') [0..<length (ce_pid_loops ?e)] (?e\<lparr>ce_last_scan_time_ms := se_now env'\<rparr>))"
    using assms(2) reg by (auto simp: control_engine_process_def process_pid_loops_def Let_def split_beta)
  from pid_pass [of "?e\<lparr>ce_last_scan_time_ms := se_now env'\<rparr>" ?r r "length (ce_pid_loops ?e)" e' env'] reg sens e' il
  show ?thesis by (simp add: scan_pid_writes_def)
qed

text \<open>\<^bold>\<open>C2.\<close> A scan of the control engine changes the actuators of the registry by a list of writes that
  is determined by the readings before the scan: for each enabled interlock that is tripped after its
  delay check the forced output, in order, then for each enabled loop with good input the clamped PID
  output, and for each loop whose input has been lost for more than ten seconds the off command.
  Every actuator ends with the last write made to it, so a PID loop on the actuator of a tripped
  interlock wins over the interlock.\<close>

theorem scan_applies_interlocks_then_loops:
  assumes "ce_registry e = Some r" and "control_engine_process env env' (Some e) = (res, Some e')"
  shows "ce_registry e' = Some (fold (\<lambda>(st, sl, v, t). reg_write st sl v t)
    (scan_interlock_writes env r e @ scan_pid_writes env' r e) r)"
  using process_writes [OF assms] by (simp add: reg.apply_writes_def)

subsection \<open>Consequences for one actuator\<close>

lemma concat_upt_split:
  "k < n \<Longrightarrow> concat (map f [0..<n]) = concat (map f [0..<k]) @ f k @ concat (map f [Suc k..<n])"
proof -
  assume "k < n"
  then have "[0..<n] = [0..<k] @ k # [Suc k..<n]"
    using upt_add_eq_append [of 0 k "n - k"] upt_conv_Cons [of k n] by simp
  then show ?thesis by simp
qed

lemma pid_writes_target:
  "(st, sl) \<in> write_targets (pid_writes env r k l seen start) \<Longrightarrow>
    (pl_output_rtu l, pl_output_slot l) = (st, sl)"
  by (cases "input_of r (pl_input_rtu l) (pl_input_slot l)") (simp_all add: pid_writes_def split: if_splits)

lemma tripped_stays: "il_tripped il \<Longrightarrow> il_tripped (snd (interlock_delay now met il))"
  by (simp add: interlock_delay_def)

text \<open>The interlocks after a scan: the PID pass does not touch them.\<close>

lemma pid_one_interlocks [simp]: "ce_interlocks (snd (process_pid_one env i e)) = ce_interlocks e"
  by (simp add: process_pid_one_def process_pid_good_def process_pid_fault_def write_actuator_def Let_def split_beta)

lemma process_interlocks_after:
  assumes "ce_registry e = Some r" and "control_engine_process env env' (Some e) = (res, Some e')"
  shows "ce_interlocks e' = map (\<lambda>k. interlock_after env r k (ce_interlocks e ! k)) [0..<length (ce_interlocks e)]"
proof -
  let ?e = "snd (process_interlocks env e)"
  have keep: "ce_interlocks (snd (for_each (process_pid_one env') is t)) = ce_interlocks t" for "is" t
    by (rule for_each_inv [where P = "\<lambda>t'. ce_interlocks t' = ce_interlocks t"]) simp_all
  have "ce_interlocks e' = ce_interlocks ?e"
    using assms(2) keep
    by (auto simp: control_engine_process_def process_pid_loops_def Let_def split_beta split: option.splits)
  with process_interlocks_writes [OF assms(1) refl, of env] show ?thesis by simp
qed

text \<open>Whether an interlock forces an output in a scan, read off the interlock after the scan; whether a
  loop is in operation.\<close>

definition forcing :: "interlock \<Rightarrow> bool" where
  "forcing il \<longleftrightarrow> il_enabled il \<and> il_tripped il \<and> il_action il \<noteq> INTERLOCK_ACTION_ALARM_ONLY"

definition in_operation :: "pid_loop \<Rightarrow> bool" where
  "in_operation l \<longleftrightarrow> pl_enabled l \<and> pl_mode l \<noteq> PID_MODE_OFF"

lemma interlock_after_static [simp]:
  "il_action_rtu (interlock_after env r k il) = il_action_rtu il"
  "il_action_slot (interlock_after env r k il) = il_action_slot il"
  "il_action (interlock_after env r k il) = il_action il"
  "il_enabled (interlock_after env r k il) = il_enabled il"
  by (simp_all add: interlock_after_def)

lemma interlock_writes_forcing:
  "(st, sl) \<in> write_targets (interlock_writes env r k il) \<Longrightarrow>
    forcing (interlock_after env r k il) \<and> (il_action_rtu il, il_action_slot il) = (st, sl)"
  by (auto simp: interlock_writes_def forcing_def interlock_output_def split: if_splits interlock_action.splits)

lemma pid_writes_in_operation:
  "(st, sl) \<in> write_targets (pid_writes env r k l seen start) \<Longrightarrow>
    in_operation l \<and> (pl_output_rtu l, pl_output_slot l) = (st, sl)"
  using pid_writes_target [of st sl env r k l seen start] by (auto simp: pid_writes_def in_operation_def split: if_splits)

text \<open>\<^bold>\<open>C1.\<close> A tripped interlock is enforced: after every scan the actuator of an enabled, tripped interlock
  with a forcing action has the forced output, provided the registry has the actuator, no later
  interlock that is forcing after the scan (enabled, tripped and not for alarms only) acts on the same
  actuator, and no PID loop in operation (enabled and not in mode OFF) is configured on it.\<close>

theorem tripped_interlock_enforced:
  assumes "ce_registry e = Some r" and "control_engine_process env env' (Some e) = (res, Some e')"
    and "i < length (ce_interlocks e)" and "il = ce_interlocks e ! i" and "forcing il"
    and "reg_out r (il_action_rtu il) (il_action_slot il) \<noteq> None"
    and "\<forall>j < length (ce_interlocks e). i < j \<and> forcing (ce_interlocks e' ! j) \<longrightarrow>
      (il_action_rtu (ce_interlocks e ! j), il_action_slot (ce_interlocks e ! j)) \<noteq> (il_action_rtu il, il_action_slot il)"
    and "\<forall>l \<in> set (ce_pid_loops e). in_operation l \<longrightarrow>
      (pl_output_rtu l, pl_output_slot l) \<noteq> (il_action_rtu il, il_action_slot il)"
  shows "\<exists>r'. ce_registry e' = Some r' \<and>
    reg_out r' (il_action_rtu il) (il_action_slot il) = interlock_output (se_oob env) il"
proof -
  let ?at = "(il_action_rtu il, il_action_slot il)"
  have il: "il_enabled il" "il_tripped il" "il_action il \<noteq> INTERLOCK_ACTION_ALARM_ONLY"
    using assms(5) by (simp_all add: forcing_def)
  have out_same: "interlock_output (se_oob env) (interlock_after env r i il) = interlock_output (se_oob env) il"
    using il(1, 2) by (cases "il_action il") (simp_all add: interlock_after_def interlock_output_def tripped_stays)
  moreover obtain v where v: "interlock_output (se_oob env) il = Some v"
    using il(2, 3) by (cases "il_action il") (auto simp: interlock_output_def)
  ultimately have here: "interlock_writes env r i il = [(il_action_rtu il, il_action_slot il, v, se_write env i)]"
    using il(1) by (simp add: interlock_writes_def)
  let ?f = "\<lambda>k. interlock_writes env r k (ce_interlocks e ! k)"
  let ?after = "concat (map ?f [Suc i..<length (ce_interlocks e)]) @ scan_pid_writes env' r e"
  have "?at \<notin> write_targets ?after"
  proof
    assume "?at \<in> write_targets ?after"
    then consider j where "Suc i \<le> j" "j < length (ce_interlocks e)" "?at \<in> write_targets (?f j)"
      | k where "k < length (ce_pid_loops e)" "?at \<in> write_targets (pid_writes env' r k
          (ce_pid_loops e ! k) (ce_last_input_time_ms e ! k) (ce_at_limit_start e ! k))"
      by (auto simp: scan_pid_writes_def)
    then show False
    proof cases
      case 1
      have "ce_interlocks e' ! j = interlock_after env r j (ce_interlocks e ! j)"
        using process_interlocks_after [OF assms(1, 2)] 1(2) by simp
      with interlock_writes_forcing [OF 1(3)] assms(7) 1(1, 2) show False by auto
    next
      case 2
      with pid_writes_in_operation [OF 2(2)] assms(8) nth_mem show False by blast
    qed
  qed
  then have "reg_out (reg.apply_writes (concat (map ?f [0..<i]) @ (il_action_rtu il, il_action_slot il, v, se_write env i) # ?after) r)
      (il_action_rtu il) (il_action_slot il) = Some v"
    by (rule reg.writes_last [OF assms(6)])
  moreover have "scan_interlock_writes env r e @ scan_pid_writes env' r e =
      concat (map ?f [0..<i]) @ (il_action_rtu il, il_action_slot il, v, se_write env i) # ?after"
    using concat_upt_split [OF assms(3), of ?f] here assms(4) by (simp add: scan_interlock_writes_def)
  ultimately show ?thesis using process_writes [OF assms(1, 2)] v by simp
qed

lemma pid_write_final:
  assumes "ce_registry e = Some r" and "control_engine_process env env' (Some e) = (res, Some e')"
    and "k < length (ce_pid_loops e)" and "l = ce_pid_loops e ! k"
    and "pid_writes env' r k l (ce_last_input_time_ms e ! k) (ce_at_limit_start e ! k) =
      [(pl_output_rtu l, pl_output_slot l, v, se_write env' k)]"
    and "reg_out r (pl_output_rtu l) (pl_output_slot l) \<noteq> None"
    and "\<forall>j < length (ce_pid_loops e). k < j \<and> in_operation (ce_pid_loops e ! j) \<longrightarrow>
      (pl_output_rtu (ce_pid_loops e ! j), pl_output_slot (ce_pid_loops e ! j)) \<noteq> (pl_output_rtu l, pl_output_slot l)"
  shows "\<exists>r'. ce_registry e' = Some r' \<and> reg_out r' (pl_output_rtu l) (pl_output_slot l) = Some v"
proof -
  let ?f = "\<lambda>k. pid_writes env' r k (ce_pid_loops e ! k) (ce_last_input_time_ms e ! k) (ce_at_limit_start e ! k)"
  let ?after = "concat (map ?f [Suc k..<length (ce_pid_loops e)])"
  have "(pl_output_rtu l, pl_output_slot l) \<notin> write_targets ?after"
  proof
    assume "(pl_output_rtu l, pl_output_slot l) \<in> write_targets ?after"
    then obtain j where j: "Suc k \<le> j" "j < length (ce_pid_loops e)"
      "(pl_output_rtu l, pl_output_slot l) \<in> write_targets (?f j)" by auto
    from pid_writes_in_operation [OF j(3)] assms(7) j(1, 2) show False by auto
  qed
  then have "reg_out (reg.apply_writes ((scan_interlock_writes env r e @ concat (map ?f [0..<k])) @
      (pl_output_rtu l, pl_output_slot l, v, se_write env' k) # ?after) r) (pl_output_rtu l) (pl_output_slot l) = Some v"
    by (rule reg.writes_last [OF assms(6)])
  moreover have "scan_pid_writes env' r e =
      concat (map ?f [0..<k]) @ (pl_output_rtu l, pl_output_slot l, v, se_write env' k) # ?after"
    using concat_upt_split [OF assms(3), of ?f] assms(4, 5) by (simp add: scan_pid_writes_def)
  ultimately show ?thesis using process_writes [OF assms(1, 2)] by simp
qed

text \<open>A plant for the witnesses: one device, a good reading of 10.0 on sensor slot 7, a tripped interlock
  that forces actuator 1 off, and a loop in manual mode at 50.0 on the same actuator.\<close>

definition plant :: rtu_registry where
  "plant = the (snd (rtu_registry_update_sensor (Some one_device) (Some ''rtu-1'') 7 0x41200000 IOPS_GOOD QUALITY_GOOD 100))"

definition force_off :: interlock where
  "force_off = \<lparr>il_interlock_id = 1, il_name = ''overflow'', il_enabled = True, il_condition_rtu = ''rtu-1'',
     il_condition_slot = 7, il_condition = INTERLOCK_CONDITION_ABOVE, il_threshold = 0x40A00000, il_delay_ms = 0,
     il_action_rtu = ''rtu-1'', il_action_slot = 1, il_action = INTERLOCK_ACTION_FORCE_OFF, il_action_value = 0,
     il_tripped = True, il_trip_time_ms = 500, il_condition_start_ms = 400\<rparr>"

definition manual_loop :: pid_loop where
  "manual_loop = sample_loop\<lparr>pl_mode := PID_MODE_MANUAL, pl_cv := 0x42480000, pl_output_max := 0x42C80000\<rparr>"

definition engine_il :: control_engine where
  "engine_il = zero_control_engine\<lparr>ce_registry := Some plant, ce_interlocks := [force_off]\<rparr>"

definition engine_both :: control_engine where
  "engine_both = engine_il\<lparr>ce_pid_loops := [manual_loop]\<rparr>"

definition env0 :: scan_env where
  "env0 = \<lparr>se_now = 1000, se_read = (\<lambda>_. 1000), se_watchdog = (\<lambda>_. 1000), se_write = (\<lambda>_. 1000),
     se_unset = (\<lambda>_. zero_sensor), se_oob = (\<lambda>_. 0)\<rparr>"

lemma plant_facts:
  "reg_sensor plant ''rtu-1'' 7 = Some \<lparr>sd_value = 0x41200000, sd_status = IOPS_GOOD, sd_quality = QUALITY_GOOD,
     sd_timestamp_ms = 100, sd_stale = False\<rparr>"
  "reg_out plant ''rtu-1'' 1 = Some (as_output zero_actuator)"
proof -
  have some: "reg_sensor one_device ''rtu-1'' 7 \<noteq> None" by (simp add: one_device_sensor)
  have "1 < WTC_DEFAULT_ACTUATORS" "\<not> int WTC_DEFAULT_ACTUATORS \<le> 1" by (simp_all add: WTC_DEFAULT_ACTUATORS_def)
  then show "reg_out plant ''rtu-1'' 1 = Some (as_output zero_actuator)"
    using sensor_update(3) [OF some plant_def]
    by (simp add: reg_out_def rtu_registry_get_actuator_def one_device_find one_device_arrays)
  show "reg_sensor plant ''rtu-1'' 7 = Some \<lparr>sd_value = 0x41200000, sd_status = IOPS_GOOD, sd_quality = QUALITY_GOOD,
     sd_timestamp_ms = 100, sd_stale = False\<rparr>"
    by (rule sensor_update(4) [OF some plant_def])
qed

lemma process_Some: "\<exists>res e'. control_engine_process env env' (Some e) = (res, Some e')"
  by (simp add: control_engine_process_def)

theorem scan_applies_interlocks_then_loops_witness:
  "\<exists>e'. snd (control_engine_process env0 env0 (Some engine_both)) = Some e' \<and>
    ce_registry e' = Some (fold (\<lambda>(st, sl, v, t). reg_write st sl v t)
      (scan_interlock_writes env0 plant engine_both @ scan_pid_writes env0 plant engine_both) plant)"
proof -
  have "ce_registry engine_both = Some plant" by (simp add: engine_both_def engine_il_def)
  moreover obtain res e' where "control_engine_process env0 env0 (Some engine_both) = (res, Some e')"
    using process_Some by blast
  ultimately show ?thesis using scan_applies_interlocks_then_loops by (intro exI [of _ e']) simp
qed

definition engine_idle :: control_engine where
  "engine_idle = engine_il\<lparr>ce_interlocks := [force_off, force_off\<lparr>il_enabled := False\<rparr>],
     ce_pid_loops := [manual_loop\<lparr>pl_mode := PID_MODE_OFF\<rparr>]\<rparr>"

theorem tripped_interlock_enforced_witness:
  "\<exists>res e' r'. control_engine_process env0 env0 (Some engine_idle) = (res, Some e') \<and> ce_registry e' = Some r' \<and>
     reg_out r' ''rtu-1'' 1 = Some \<lparr>ao_command = ACTUATOR_CMD_OFF, ao_pwm_duty = 0\<rparr>"
proof -
  obtain res e' where run: "control_engine_process env0 env0 (Some engine_idle) = (res, Some e')"
    using process_Some by blast
  have later: "ce_interlocks e' = [interlock_after env0 plant 0 force_off, force_off\<lparr>il_enabled := False\<rparr>]"
    using process_interlocks_after [OF _ run, of plant]
    by (simp add: engine_idle_def engine_il_def interlock_after_def)
  have "\<exists>r'. ce_registry e' = Some r' \<and>
      reg_out r' (il_action_rtu force_off) (il_action_slot force_off) = interlock_output (se_oob env0) force_off"
    by (rule tripped_interlock_enforced [OF _ run, of plant 0])
      (auto simp: engine_idle_def engine_il_def force_off_def plant_facts forcing_def in_operation_def later less_Suc_eq)
  with run show ?thesis by (auto simp: force_off_def interlock_output_def)
qed

text \<open>\<^bold>\<open>C31.\<close> A PID loop takes precedence over interlocks on its actuator: after a scan, the actuator of an
  enabled loop with good input (the last loop on that actuator) has the output of the loop, whatever
  the interlocks are. The witness has a tripped interlock forcing that actuator off.\<close>

theorem pid_loop_overrides_interlocks:
  assumes "ce_registry e = Some r" and "control_engine_process env env' (Some e) = (res, Some e')"
    and "k < length (ce_pid_loops e)" and "l = ce_pid_loops e ! k" and "pl_enabled l" and "pl_mode l \<noteq> PID_MODE_OFF"
    and "input_of r (pl_input_rtu l) (pl_input_slot l) = Some pv"
    and "reg_out r (pl_output_rtu l) (pl_output_slot l) \<noteq> None"
    and "\<forall>j < length (ce_pid_loops e). k < j \<longrightarrow>
      (pl_output_rtu (ce_pid_loops e ! j), pl_output_slot (ce_pid_loops e ! j)) \<noteq> (pl_output_rtu l, pl_output_slot l)"
  shows "\<exists>r'. ce_registry e' = Some r' \<and> reg_out r' (pl_output_rtu l) (pl_output_slot l) =
    Some (pid_actuator_out (se_oob env') (pid_result env' k pv l (ce_at_limit_start e ! k)))"
  using assms(5-7, 9)
  by (intro pid_write_final [OF assms(1-4) _ assms(8)]) (simp_all add: pid_writes_def)

lemma manual_result: "pid_result env0 0 0x41200000 manual_loop 0 = 0x42480000"
proof -
  have "\<not> f_le 0x42C80000 0x42480000" "\<not> f_le 0x42480000 0" by (simp_all add: float_eval)
  then show ?thesis
    by (simp add: pid_result_def calculate_pid_def manual_loop_def sample_loop_def check_pid_watchdog_def)
qed

theorem pid_loop_overrides_interlocks_witness:
  "ce_interlocks engine_both = [force_off] \<and> il_tripped force_off \<and>
   (\<exists>res e' r'. control_engine_process env0 env0 (Some engine_both) = (res, Some e') \<and> ce_registry e' = Some r' \<and>
     reg_out r' (il_action_rtu force_off) (il_action_slot force_off) =
       Some \<lparr>ao_command = ACTUATOR_CMD_PWM, ao_pwm_duty = 50\<rparr>)"
proof -
  obtain res e' where run: "control_engine_process env0 env0 (Some engine_both) = (res, Some e')"
    using process_Some by blast
  have start: "ce_at_limit_start engine_both ! 0 = 0"
    by (simp add: engine_both_def engine_il_def zero_control_engine_def WTC_MAX_PID_LOOPS_def)
  have "\<exists>r'. ce_registry e' = Some r' \<and> reg_out r' (pl_output_rtu manual_loop) (pl_output_slot manual_loop) =
      Some (pid_actuator_out (se_oob env0) (pid_result env0 0 0x41200000 manual_loop (ce_at_limit_start engine_both ! 0)))"
    by (rule pid_loop_overrides_interlocks [OF _ run, of plant])
      (simp_all add: engine_both_def engine_il_def manual_loop_def sample_loop_def plant_facts input_of_def)
  moreover have "pid_actuator_out (se_oob env0) 0x42480000 = \<lparr>ao_command = ACTUATOR_CMD_PWM, ao_pwm_duty = 50\<rparr>"
    by (simp add: pid_actuator_out_def float_eval f_to_word_def f_trunc_def)
  moreover have "pl_output_rtu manual_loop = il_action_rtu force_off" "pl_output_slot manual_loop = il_action_slot force_off"
    "il_tripped force_off" "ce_interlocks engine_both = [force_off]"
    by (simp_all add: manual_loop_def sample_loop_def force_off_def engine_both_def engine_il_def)
  ultimately show ?thesis using run by (auto simp: start manual_result)
qed

text \<open>\<^bold>\<open>C30.\<close> Loss of input is safe for a loop that had input: when an enabled loop that is not in mode OFF
  has had a good input before, has none in this scan, and the last good one is more than ten seconds
  old, the scan commands its actuator off, provided the registry has the actuator and no later loop in
  operation is configured on it. The condition on an earlier good input is needed: a loop that never had
  one (its last input time is 0) is not switched off, however long its input is missing.\<close>

theorem comm_loss_switches_off:
  assumes "ce_registry e = Some r" and "control_engine_process env env' (Some e) = (res, Some e')"
    and "k < length (ce_pid_loops e)" and "l = ce_pid_loops e ! k" and "pl_enabled l" and "pl_mode l \<noteq> PID_MODE_OFF"
    and "input_of r (pl_input_rtu l) (pl_input_slot l) = None"
    and "0 < ce_last_input_time_ms e ! k" and "10000 < se_now env' - ce_last_input_time_ms e ! k"
    and "reg_out r (pl_output_rtu l) (pl_output_slot l) \<noteq> None"
    and "\<forall>j < length (ce_pid_loops e). k < j \<and> in_operation (ce_pid_loops e ! j) \<longrightarrow>
      (pl_output_rtu (ce_pid_loops e ! j), pl_output_slot (ce_pid_loops e ! j)) \<noteq> (pl_output_rtu l, pl_output_slot l)"
  shows "\<exists>r'. ce_registry e' = Some r' \<and> reg_out r' (pl_output_rtu l) (pl_output_slot l) =
    Some \<lparr>ao_command = ACTUATOR_CMD_OFF, ao_pwm_duty = 0\<rparr>"
  using assms(5-9)
  by (intro pid_write_final [OF assms(1-4) _ assms(10, 11)])
    (simp add: pid_writes_def COMM_LOSS_TIMEOUT_MS_def off_output_def)

definition engine_lost :: control_engine where
  "engine_lost = engine_both\<lparr>ce_pid_loops := [manual_loop\<lparr>pl_input_slot := 500\<rparr>],
     ce_last_input_time_ms := 1000 # replicate 63 0\<rparr>"

theorem comm_loss_switches_off_witness:
  "\<exists>res e' r'. control_engine_process env0 (env0\<lparr>se_now := 20000\<rparr>) (Some engine_lost) = (res, Some e') \<and>
     ce_registry e' = Some r' \<and> reg_out r' ''rtu-1'' 1 = Some \<lparr>ao_command = ACTUATOR_CMD_OFF, ao_pwm_duty = 0\<rparr>"
proof -
  obtain res e' where run: "control_engine_process env0 (env0\<lparr>se_now := 20000\<rparr>) (Some engine_lost) = (res, Some e')"
    using process_Some by blast
  let ?l = "manual_loop\<lparr>pl_input_slot := 500\<rparr>"
  have none: "reg_sensor plant ''rtu-1'' 500 = None"
    using sensor_update(2) [of one_device "''rtu-1''" 7 plant, OF _ plant_def, of "''rtu-1''" 500]
    by (simp add: one_device_sensor) (simp add: reg_sensor_def one_device_find one_device_arrays WTC_DEFAULT_SENSORS_def)
  have "\<exists>r'. ce_registry e' = Some r' \<and> reg_out r' (pl_output_rtu ?l) (pl_output_slot ?l) =
      Some \<lparr>ao_command = ACTUATOR_CMD_OFF, ao_pwm_duty = 0\<rparr>"
    by (rule comm_loss_switches_off [OF _ run, of plant 0])
      (simp_all add: engine_lost_def engine_both_def engine_il_def manual_loop_def sample_loop_def plant_facts
        input_of_def none env0_def)
  with run show ?thesis by (auto simp: manual_loop_def sample_loop_def)
qed

text \<open>Forced outputs are not applied: the registry after a scan does not depend on the table of forced
  outputs.\<close>

theorem forced_outputs_have_no_effect:
  "map_option ce_registry (snd (control_engine_process env env' (Some (e\<lparr>ce_forced_outputs := fs\<rparr>)))) =
   map_option ce_registry (snd (control_engine_process env env' (Some e)))"
proof (cases "ce_registry e")
  case None
  then show ?thesis
    by (simp add: control_engine_process_def process_interlocks_def process_pid_loops_def)
next
  case (Some r)
  obtain res e' res' e'' where run: "control_engine_process env env' (Some e) = (res, Some e')"
    "control_engine_process env env' (Some (e\<lparr>ce_forced_outputs := fs\<rparr>)) = (res', Some e'')"
    using process_Some by meson
  from process_writes [OF Some run(1)] process_writes [OF _ run(2), of r] Some show ?thesis
    by (simp add: run scan_interlock_writes_def scan_pid_writes_def)
qed

section \<open>Interlock timing\<close>

definition run_interlock :: "(u64 \<times> bool) list \<Rightarrow> interlock \<Rightarrow> interlock" where
  "run_interlock inputs il = fold (\<lambda>(now, met) il. snd (interlock_delay now met il)) inputs il"

lemma run_interlock_snoc: "run_interlock (xs @ [(now, met)]) il = snd (interlock_delay now met (run_interlock xs il))"
  by (simp add: run_interlock_def)

lemma run_interlock_append: "run_interlock (xs @ ys) il = run_interlock ys (run_interlock xs il)"
  by (simp add: run_interlock_def)

lemma run_interlock_Cons: "run_interlock ((now, met) # xs) il = run_interlock xs (snd (interlock_delay now met il))"
  by (simp add: run_interlock_def)

lemma run_delay_same [simp]: "il_delay_ms (run_interlock xs il) = il_delay_ms il"
proof (induction xs rule: rev_induct)
  case (snoc x xs)
  then show ?case by (cases x) (auto simp: run_interlock_snoc interlock_delay_def)
qed (simp add: run_interlock_def)

lemma run_stays_tripped: "il_tripped il \<Longrightarrow> il_tripped (run_interlock xs il)"
proof (induction xs rule: rev_induct)
  case (snoc x xs)
  then show ?case by (cases x) (simp add: run_interlock_snoc tripped_stays)
qed (simp add: run_interlock_def)

text \<open>What the history of an interlock shows: its start time is that of the current stretch of met
  conditions, and a trip had a long enough stretch.\<close>

definition stretch :: "interlock \<Rightarrow> (u64 \<times> bool) list \<Rightarrow> bool" where
  "stretch il xs \<longleftrightarrow> (\<exists>as n1 bs n2 cs. xs = as @ (n1, True) # bs @ (n2, True) # cs \<and> (\<forall>b \<in> set bs. snd b) \<and>
     ucast (il_delay_ms il) \<le> n2 - n1)"

lemma trip_needs_stretch:
  assumes "\<not> il_tripped il" and "il_condition_start_ms il = 0"
  shows "(il_tripped (run_interlock xs il) \<longrightarrow> stretch il xs) \<and>
    (\<not> il_tripped (run_interlock xs il) \<and> il_condition_start_ms (run_interlock xs il) \<noteq> 0 \<longrightarrow>
      (\<exists>as bs. xs = as @ (il_condition_start_ms (run_interlock xs il), True) # bs \<and> (\<forall>b \<in> set bs. snd b)))"
proof (induction xs rule: rev_induct)
  case Nil
  then show ?case using assms by (simp add: run_interlock_def)
next
  case (snoc x xs)
  obtain now met where x: "x = (now, met)" by force
  let ?il = "run_interlock xs il"
  have keep: "stretch il xs \<Longrightarrow> stretch il (xs @ [x])"
    unfolding stretch_def by (elim exE conjE) (metis append_Cons append_assoc)
  show ?case
  proof (cases "il_tripped ?il")
    case True
    with snoc.IH keep show ?thesis by (auto simp: x run_interlock_snoc tripped_stays)
  next
    case False
    consider "\<not> met" | "met" "il_condition_start_ms ?il = 0" | "met" "il_condition_start_ms ?il \<noteq> 0" by blast
    then show ?thesis
    proof cases
      case 3
      with False snoc.IH obtain as bs where split: "xs = as @ (il_condition_start_ms ?il, True) # bs" "\<forall>b \<in> set bs. snd b"
        by auto
      show ?thesis
      proof (cases "ucast (il_delay_ms il) \<le> now - il_condition_start_ms ?il")
        case True
        have "stretch il (xs @ [x])"
          unfolding stretch_def
          by (rule exI [of _ as], rule exI [of _ "il_condition_start_ms ?il"], rule exI [of _ bs], rule exI [of _ now],
              rule exI [of _ "[]"]) (use split True 3 x in simp)
        with False 3 True show ?thesis by (simp add: x run_interlock_snoc interlock_delay_def)
      next
        case no: False
        have "\<exists>as bs. xs @ [(now, True)] = as @ (il_condition_start_ms ?il, True) # bs \<and> (\<forall>b \<in> set bs. snd b)"
          by (rule exI [of _ as], rule exI [of _ "bs @ [(now, True)]"]) (use split in auto)
        with False 3 no show ?thesis by (simp add: x run_interlock_snoc interlock_delay_def)
      qed
    next
      case 2
      have "\<exists>as bs. xs @ [(now, True)] = as @ (now, True) # bs \<and> (\<forall>b \<in> set bs. snd b)"
        by (rule exI [of _ xs], rule exI [of _ "[]"]) simp
      with 2 False show ?thesis by (simp add: x run_interlock_snoc interlock_delay_def)
    qed (use False in \<open>simp add: x run_interlock_snoc interlock_delay_def\<close>)
  qed
qed

lemma stretch_trips:
  assumes "\<not> il_tripped il" and "il_condition_start_ms il = n1" and "n1 \<noteq> 0"
    and "\<forall>b \<in> set bs. snd b" and "ucast (il_delay_ms il) \<le> n2 - n1"
  shows "il_tripped (run_interlock (bs @ [(n2, True)]) il)"
  using assms
proof (induction bs arbitrary: il)
  case Nil
  then show ?case by (simp add: run_interlock_def interlock_delay_def)
next
  case (Cons b bs)
  obtain now where b: "b = (now, True)" using Cons.prems(4) by (cases b) simp
  show ?case
  proof (cases "ucast (il_delay_ms il) \<le> now - n1")
    case True
    with Cons.prems have "il_tripped (snd (interlock_delay now True il))" by (simp add: interlock_delay_def)
    then show ?thesis by (simp add: b run_interlock_Cons run_stays_tripped)
  next
    case False
    with Cons.prems have "snd (interlock_delay now True il) = il" by (simp add: interlock_delay_def)
    with Cons show ?thesis by (simp add: b run_interlock_Cons)
  qed
qed

lemma fresh_start:
  assumes "\<not> il_tripped il" and "il_condition_start_ms il = 0" and "as = [] \<or> \<not> snd (last as)"
  shows "il_tripped (run_interlock as il) \<or> il_condition_start_ms (run_interlock as il) = 0"
  using assms
proof (cases as rule: rev_cases)
  case (snoc xs x)
  then obtain now where "x = (now, False)" using assms(3) by (cases x) auto
  with snoc show ?thesis by (simp add: run_interlock_snoc interlock_delay_def)
qed (simp add: run_interlock_def)

text \<open>\<^bold>\<open>C12.\<close> Trip delay: over any history of scans, each with its clock reading and whether the condition
  was met, an armed interlock trips only if the condition was met on every scan of a stretch that
  spans at least its delay; and it does trip when the condition is met from a scan (with a non-zero
  clock) after a scan without it, or from the first, on every scan until one at least the delay
  later. Once tripped it stays tripped. At least two scans are needed, even with no delay.\<close>

theorem interlock_trips_after_delay:
  assumes "\<not> il_tripped il" and "il_condition_start_ms il = 0"
  shows "(il_tripped (run_interlock xs il) \<longrightarrow> stretch il xs) \<and>
    (\<forall>as n1 bs n2 cs. xs = as @ (n1, True) # bs @ (n2, True) # cs \<and> (as = [] \<or> \<not> snd (last as)) \<and> n1 \<noteq> 0 \<and>
      (\<forall>b \<in> set bs. snd b) \<and> ucast (il_delay_ms il) \<le> n2 - n1 \<longrightarrow> il_tripped (run_interlock xs il))"
proof (intro conjI allI impI; (elim conjE)?)
  show "il_tripped (run_interlock xs il) \<Longrightarrow> stretch il xs" using trip_needs_stretch [OF assms] by blast
  fix as n1 bs n2 cs
  assume xs: "xs = as @ (n1, True) # bs @ (n2, True) # cs" and as: "as = [] \<or> \<not> snd (last as)" and n1: "n1 \<noteq> 0"
    and bs: "\<forall>b \<in> set bs. snd b" and delay: "ucast (il_delay_ms il) \<le> n2 - n1"
  let ?il = "run_interlock as il"
  have run: "run_interlock xs il = run_interlock cs (run_interlock (bs @ [(n2, True)]) (snd (interlock_delay n1 True ?il)))"
    by (simp add: xs run_interlock_def)
  show "il_tripped (run_interlock xs il)"
  proof (cases "il_tripped ?il")
    case True
    then show ?thesis by (simp add: run run_stays_tripped tripped_stays)
  next
    case False
    with fresh_start [OF assms as] have start: "il_condition_start_ms ?il = 0" by blast
    have "il_tripped (run_interlock (bs @ [(n2, True)]) (snd (interlock_delay n1 True ?il)))"
      using False start n1 delay bs by (intro stretch_trips [where ?n1.0 = n1]) (simp_all add: interlock_delay_def)
    then show ?thesis by (simp add: run run_stays_tripped)
  qed
qed

definition armed :: interlock where
  "armed = force_off\<lparr>il_tripped := False, il_condition_start_ms := 0, il_delay_ms := 200\<rparr>"

theorem interlock_trips_after_delay_witness:
  "il_tripped (run_interlock [(100, False), (200, True), (300, True), (400, True)] armed) \<and>
   \<not> il_tripped (run_interlock [(200, True), (300, True)] armed)"
proof -
  have armed: "\<not> il_tripped armed" "il_condition_start_ms armed = 0" "il_delay_ms armed = 200"
    by (simp_all add: armed_def)
  have "il_tripped (run_interlock [(100, False), (200, True), (300, True), (400, True)] armed)"
    using interlock_trips_after_delay [OF armed(1, 2), of "[(100, False), (200, True), (300, True), (400, True)]",
        THEN conjunct2, rule_format, of "[(100, False)]" 200 "[(300, True)]" 400 "[]"] armed(3) by simp
  moreover have "\<not> il_tripped (run_interlock [(200, True), (300, True)] armed)"
    using armed by (simp add: run_interlock_def interlock_delay_def)
  ultimately show ?thesis by blast
qed

text \<open>An input fault does not trip an interlock: while the status of the sensor is bad, the condition
  is evaluated on the stored value, and if that does not meet it the interlock is not tripped and its
  delay restarts.\<close>

theorem interlock_ignores_input_fault:
  assumes "ce_registry e = Some r" and "i < length (ce_interlocks e)" and "il = ce_interlocks e ! i"
    and "il_enabled il" and "\<not> il_tripped il"
    and "reg_sensor r (il_condition_rtu il) (il_condition_slot il) = Some d" and "sd_status d = IOPS_BAD"
    and "\<not> condition_met (il_condition il) (sd_value d) (il_threshold il)"
  shows "ce_interlocks (snd (process_interlocks env e)) ! i = il\<lparr>il_condition_start_ms := 0\<rparr>"
  using process_interlocks_writes [OF assms(1) refl, of env] assms
  by (simp add: interlock_after_def reading_of_def interlock_delay_def)

definition bad_plant :: rtu_registry where
  "bad_plant = the (snd (rtu_registry_update_sensor (Some one_device) (Some ''rtu-1'') 7 0 IOPS_BAD QUALITY_BAD 100))"

theorem interlock_ignores_input_fault_witness:
  "\<not> il_tripped (ce_interlocks (snd (process_interlocks env0
     (zero_control_engine\<lparr>ce_registry := Some bad_plant, ce_interlocks := [armed]\<rparr>))) ! 0)"
proof -
  let ?e = "zero_control_engine\<lparr>ce_registry := Some bad_plant, ce_interlocks := [armed]\<rparr>"
  have "reg_sensor one_device ''rtu-1'' 7 \<noteq> None" by (simp add: one_device_sensor)
  note d = sensor_update(4) [OF this bad_plant_def]
  have cond: "il_condition_rtu armed = ''rtu-1''" "il_condition_slot armed = 7" by (simp_all add: armed_def force_off_def)
  have "\<not> f_lt 0x40A00000 0" by (simp add: float_eval)
  then have "ce_interlocks (snd (process_interlocks env0 ?e)) ! 0 = armed\<lparr>il_condition_start_ms := 0\<rparr>"
    by (intro interlock_ignores_input_fault [OF _ _ _ _ _ d [folded cond]]) (simp_all add: armed_def force_off_def)
  then show ?thesis by (simp add: armed_def)
qed

end
