(* ===== verification/PidLoop.thy ===== *)
theory PidLoop
  imports Control
begin

text \<open>
  \<^verbatim>\<open>src/src/control/pid_loop.c\<close>: the standard loop configurations, relay auto-tuning and the
  performance metrics. The static arrays indexed by the loop number are lists of length 64.
\<close>

section \<open>Standard loops\<close>

definition zero_pid_loop :: pid_loop where
  "zero_pid_loop = \<lparr>pl_loop_id = 0, pl_name = [], pl_enabled = False, pl_input_rtu = [], pl_input_slot = 0,
     pl_output_rtu = [], pl_output_slot = 0, pl_kp = 0, pl_ki = 0, pl_kd = 0, pl_setpoint = 0, pl_output_min = 0,
     pl_output_max = 0, pl_deadband = 0, pl_integral_limit = 0, pl_derivative_filter = 0, pl_pv = 0, pl_cv = 0,
     pl_error = 0, pl_integral = 0, pl_derivative = 0, pl_last_error = 0, pl_mode = PID_MODE_OFF, pl_last_update_ms = 0\<rparr>"

text \<open>The part all six functions share.\<close>

definition standard_loop :: "string \<Rightarrow> string \<Rightarrow> int \<Rightarrow> string \<Rightarrow> int \<Rightarrow> pid_loop" where
  "standard_loop name input_rtu input_slot output_rtu output_slot =
     zero_pid_loop\<lparr>pl_name := cstr_copy 63 name, pl_enabled := True, pl_mode := PID_MODE_AUTO,
       pl_input_rtu := cstr_copy 63 input_rtu, pl_input_slot := input_slot,
       pl_output_rtu := cstr_copy 63 output_rtu, pl_output_slot := output_slot\<rparr>"

definition create_ph_control_loop ::
  "pid_loop option \<Rightarrow> string \<Rightarrow> int \<Rightarrow> string \<Rightarrow> int \<Rightarrow> f32 \<Rightarrow> wtc_result \<times> pid_loop option" where
  "create_ph_control_loop loop input_rtu input_slot output_rtu output_slot setpoint =
     on_handle WTC_ERROR_INVALID_PARAM (\<lambda>_.
       (WTC_OK, (standard_loop ''pH Control'' input_rtu input_slot output_rtu output_slot)\<lparr>
          pl_kp := f_lit 2 1, pl_ki := f_lit 1 10, pl_kd := f_lit 1 2,
          pl_setpoint := (if f_lt 0 setpoint then setpoint else f_lit 7 1),
          pl_output_min := 0, pl_output_max := f_lit 100 1, pl_deadband := f_lit 1 10,
          pl_integral_limit := f_lit 50 1, pl_derivative_filter := f_lit 8 10\<rparr>)) loop"

definition create_level_control_loop ::
  "pid_loop option \<Rightarrow> string \<Rightarrow> int \<Rightarrow> string \<Rightarrow> int \<Rightarrow> f32 \<Rightarrow> wtc_result \<times> pid_loop option" where
  "create_level_control_loop loop input_rtu input_slot output_rtu output_slot setpoint =
     on_handle WTC_ERROR_INVALID_PARAM (\<lambda>_.
       (WTC_OK, (standard_loop ''Level Control'' input_rtu input_slot output_rtu output_slot)\<lparr>
          pl_kp := f_lit 5 1, pl_ki := f_lit 1 2, pl_kd := f_lit 1 1,
          pl_setpoint := (if f_lt 0 setpoint then setpoint else f_lit 50 1),
          pl_output_min := 0, pl_output_max := f_lit 100 1, pl_deadband := f_lit 2 1,
          pl_integral_limit := f_lit 100 1, pl_derivative_filter := f_lit 1 2\<rparr>)) loop"

definition create_pressure_control_loop ::
  "pid_loop option \<Rightarrow> string \<Rightarrow> int \<Rightarrow> string \<Rightarrow> int \<Rightarrow> f32 \<Rightarrow> wtc_result \<times> pid_loop option" where
  "create_pressure_control_loop loop input_rtu input_slot output_rtu output_slot setpoint =
     on_handle WTC_ERROR_INVALID_PARAM (\<lambda>_.
       (WTC_OK, (standard_loop ''Pressure Control'' input_rtu input_slot output_rtu output_slot)\<lparr>
          pl_kp := f_lit 3 1, pl_ki := f_lit 3 10, pl_kd := f_lit 8 10,
          pl_setpoint := (if f_lt 0 setpoint then setpoint else f_lit 5 1),
          pl_output_min := 0, pl_output_max := f_lit 100 1, pl_deadband := f_lit 2 10,
          pl_integral_limit := f_lit 75 1, pl_derivative_filter := f_lit 6 10\<rparr>)) loop"

definition create_temperature_control_loop ::
  "pid_loop option \<Rightarrow> string \<Rightarrow> int \<Rightarrow> string \<Rightarrow> int \<Rightarrow> f32 \<Rightarrow> wtc_result \<times> pid_loop option" where
  "create_temperature_control_loop loop input_rtu input_slot output_rtu output_slot setpoint =
     on_handle WTC_ERROR_INVALID_PARAM (\<lambda>_.
       (WTC_OK, (standard_loop ''Temperature Control'' input_rtu input_slot output_rtu output_slot)\<lparr>
          pl_kp := f_lit 4 1, pl_ki := f_lit 2 10, pl_kd := f_lit 2 1,
          pl_setpoint := (if f_lt 0 setpoint then setpoint else f_lit 25 1),
          pl_output_min := 0, pl_output_max := f_lit 100 1, pl_deadband := f_lit 1 2,
          pl_integral_limit := f_lit 100 1, pl_derivative_filter := f_lit 9 10\<rparr>)) loop"

definition create_do_control_loop ::
  "pid_loop option \<Rightarrow> string \<Rightarrow> int \<Rightarrow> string \<Rightarrow> int \<Rightarrow> f32 \<Rightarrow> wtc_result \<times> pid_loop option" where
  "create_do_control_loop loop input_rtu input_slot output_rtu output_slot setpoint =
     on_handle WTC_ERROR_INVALID_PARAM (\<lambda>_.
       (WTC_OK, (standard_loop ''DO Control'' input_rtu input_slot output_rtu output_slot)\<lparr>
          pl_kp := f_lit 3 1, pl_ki := f_lit 15 100, pl_kd := f_lit 15 10,
          pl_setpoint := (if f_lt 0 setpoint then setpoint else f_lit 6 1),
          pl_output_min := 0, pl_output_max := f_lit 100 1, pl_deadband := f_lit 2 10,
          pl_integral_limit := f_lit 80 1, pl_derivative_filter := f_lit 7 10\<rparr>)) loop"

definition create_chlorine_control_loop ::
  "pid_loop option \<Rightarrow> string \<Rightarrow> int \<Rightarrow> string \<Rightarrow> int \<Rightarrow> f32 \<Rightarrow> wtc_result \<times> pid_loop option" where
  "create_chlorine_control_loop loop input_rtu input_slot output_rtu output_slot setpoint =
     on_handle WTC_ERROR_INVALID_PARAM (\<lambda>_.
       (WTC_OK, (standard_loop ''Chlorine Control'' input_rtu input_slot output_rtu output_slot)\<lparr>
          pl_kp := f_lit 15 10, pl_ki := f_lit 5 100, pl_kd := f_lit 3 10,
          pl_setpoint := (if f_lt 0 setpoint then setpoint else f_lit 1 1),
          pl_output_min := 0, pl_output_max := f_lit 100 1, pl_deadband := f_lit 5 100,
          pl_integral_limit := f_lit 40 1, pl_derivative_filter := f_lit 85 100\<rparr>)) loop"

section \<open>Auto-tuning\<close>

record autotune_state =
  at_active :: bool
  at_relay_amplitude :: f32
  at_crossing_count :: int
  at_period_sum :: f32
  at_amplitude_max :: f32
  at_amplitude_min :: f32
  at_last_error :: f32

definition valid_loop :: "int \<Rightarrow> bool" where
  "valid_loop loop_id \<longleftrightarrow> 0 \<le> loop_id \<and> loop_id < int WTC_MAX_PID_LOOPS"

definition pid_start_autotune :: "int \<Rightarrow> f32 \<Rightarrow> autotune_state list \<Rightarrow> wtc_result \<times> autotune_state list" where
  "pid_start_autotune loop_id relay_amplitude states =
     (if \<not> valid_loop loop_id then (WTC_ERROR_INVALID_PARAM, states)
      else (WTC_OK, states[nat loop_id := \<lparr>at_active = True,
             at_relay_amplitude = (if f_lt 0 relay_amplitude then relay_amplitude else f_lit 10 1),
             at_crossing_count = 0, at_period_sum = 0, at_amplitude_max = f_uminus (f_lit (10 ^ 30) 1),
             at_amplitude_min = f_lit (10 ^ 30) 1, at_last_error = 0\<rparr>]))"

text \<open>What the function stores through its pointers; \<open>None\<close>: not stored.\<close>

record autotune_out =
  ao_output :: "f32 option"
  ao_complete :: "bool option"
  ao_kp :: "f32 option"
  ao_ki :: "f32 option"
  ao_kd :: "f32 option"

definition autotune_none :: autotune_out where
  "autotune_none = \<lparr>ao_output = None, ao_complete = None, ao_kp = None, ao_ki = None, ao_kd = None\<rparr>"

text \<open>The crossing part: the state, the outputs, and whether the function returned early. The gains are
  computed from \<open>*kp\<close>, which is dereferenced even when \<open>kp\<close> is NULL: the result \<open>None\<close>.\<close>

definition autotune_crossing ::
  "bool \<Rightarrow> bool \<Rightarrow> bool \<Rightarrow> autotune_state \<Rightarrow> autotune_out \<Rightarrow> (bool \<times> autotune_state \<times> autotune_out) option" where
  "autotune_crossing kp_ok ki_ok kd_ok st out =
     (let st = st\<lparr>at_crossing_count := at_crossing_count st + 1\<rparr>;
          st = (if 2 \<le> at_crossing_count st then st\<lparr>at_period_sum := f_add (at_period_sum st) 0\<rparr> else st) in
      if 6 \<le> at_crossing_count st then
        (let Tu = f_div (at_period_sum st) (f_of_int (at_crossing_count st - 1));
             amplitude = f_div (f_sub (at_amplitude_max st) (at_amplitude_min st)) (f_lit 2 1) in
         if f_lt amplitude (f_lit 1 1000) \<or> f_lt Tu (f_lit 1 1000)
         then Some (True, st\<lparr>at_active := False\<rparr>, out\<lparr>ao_complete := Some True\<rparr>)
         else if (ki_ok \<or> kd_ok) \<and> \<not> kp_ok then None
         else
           (let Ku = f_div (f_mul (f_lit 4 1) (at_relay_amplitude st)) (f_mul (f_lit 314159 100000) amplitude);
                kp = f_mul (f_lit 6 10) Ku in
            Some (False, st\<lparr>at_active := False\<rparr>, out\<lparr>ao_complete := Some True,
              ao_kp := (if kp_ok then Some kp else None),
              ao_ki := (if ki_ok then Some (f_div (f_mul (f_lit 2 1) kp) Tu) else None),
              ao_kd := (if kd_ok then Some (f_div (f_mul kp Tu) (f_lit 8 1)) else None)\<rparr>)))
      else Some (False, st, out))"

definition pid_process_autotune ::
  "int \<Rightarrow> f32 \<Rightarrow> f32 \<Rightarrow> bool \<Rightarrow> bool \<Rightarrow> bool \<Rightarrow> bool \<Rightarrow> bool \<Rightarrow> autotune_state list \<Rightarrow>
   ((wtc_result \<times> autotune_out) \<times> autotune_state list) option" where
  "pid_process_autotune loop_id pv setpoint out_ok complete_ok kp_ok ki_ok kd_ok states =
     (if \<not> valid_loop loop_id \<or> \<not> out_ok \<or> \<not> complete_ok then Some ((WTC_ERROR_INVALID_PARAM, autotune_none), states)
      else
        (let st = states ! nat loop_id; out = autotune_none\<lparr>ao_complete := Some False\<rparr> in
         if \<not> at_active st then Some ((WTC_ERROR_NOT_INITIALIZED, out), states)
         else
           (let error = f_sub setpoint pv;
                st = (if f_lt (at_amplitude_max st) pv then st\<lparr>at_amplitude_max := pv\<rparr> else st);
                st = (if f_lt pv (at_amplitude_min st) then st\<lparr>at_amplitude_min := pv\<rparr> else st);
                out = out\<lparr>ao_output := Some (if f_lt 0 error then at_relay_amplitude st else f_uminus (at_relay_amplitude st))\<rparr>;
                crossing = (f_le (at_last_error st) 0 \<and> f_lt 0 error \<or> f_le 0 (at_last_error st) \<and> f_lt error 0)
            in case (if crossing then autotune_crossing kp_ok ki_ok kd_ok st out else Some (False, st, out)) of
                 None \<Rightarrow> None
               | Some (early, st, out) \<Rightarrow>
                   (let st = (if early then st else st\<lparr>at_last_error := error\<rparr>) in
                    Some ((WTC_OK, out), states[nat loop_id := st])))))"

definition pid_stop_autotune :: "int \<Rightarrow> autotune_state list \<Rightarrow> wtc_result \<times> autotune_state list" where
  "pid_stop_autotune loop_id states =
     (if \<not> valid_loop loop_id then (WTC_ERROR_INVALID_PARAM, states)
      else (WTC_OK, states[nat loop_id := (states ! nat loop_id)\<lparr>at_active := False\<rparr>]))"

section \<open>Performance metrics\<close>

record pid_performance =
  pp_iae :: f32
  pp_ise :: f32
  pp_overshoot :: f32
  pp_settling_time :: f32
  pp_rise_time :: f32

definition pid_reset_performance_metrics :: "int \<Rightarrow> pid_performance list \<Rightarrow> pid_performance list" where
  "pid_reset_performance_metrics loop_id ms =
     (if valid_loop loop_id then ms[nat loop_id :=
        \<lparr>pp_iae = 0, pp_ise = 0, pp_overshoot = 0, pp_settling_time = 0, pp_rise_time = 0\<rparr>] else ms)"

definition pid_update_performance_metrics ::
  "int \<Rightarrow> f32 \<Rightarrow> f32 \<Rightarrow> f32 \<Rightarrow> f32 \<Rightarrow> pid_performance list \<Rightarrow> pid_performance list" where
  "pid_update_performance_metrics loop_id pv setpoint error dt ms =
     (if \<not> valid_loop loop_id then ms
      else
        (let p = ms ! nat loop_id;
             p = p\<lparr>pp_iae := f_add (pp_iae p) (f_mul (f_abs error) dt)\<rparr>;
             p = p\<lparr>pp_ise := f_add (pp_ise p) (f_mul (f_mul error error) dt)\<rparr>;
             pct = f_mul (f_div (f_sub pv setpoint) setpoint) (f_lit 100 1);
             p = (if f_lt (f_lit 1 10000) (f_abs setpoint) \<and> f_lt (pp_overshoot p) pct
                  then p\<lparr>pp_overshoot := pct\<rparr> else p)
         in ms[nat loop_id := p]))"

definition pid_get_performance_metrics ::
  "int \<Rightarrow> bool \<Rightarrow> pid_performance list \<Rightarrow> wtc_result \<times> pid_performance option" where
  "pid_get_performance_metrics loop_id out_ok ms =
     (if \<not> valid_loop loop_id \<or> \<not> out_ok then (WTC_ERROR_INVALID_PARAM, None) else (WTC_OK, Some (ms ! nat loop_id)))"

section \<open>Auto-tuning never produces gains\<close>

lemma round_mag_pos: "2 ^ 24 \<le> n div d \<Longrightarrow> 0 < round_mag n d"
  by (subst round_mag_def, subst shift_for.simps) (simp add: Let_def f_inf_mag_def)

lemma f_units_of_int_pos: "0 < i \<Longrightarrow> f_units (f_of_int i) \<noteq> 0"
proof -
  assume "0 < i"
  then have "2 ^ 24 \<le> nat \<bar>i\<bar> * 2 ^ 149 div 1"
    using mult_le_mono [of 1 "nat \<bar>i\<bar>" "2 ^ 24" "2 ^ 149"] by simp
  then have "0 < round_mag (nat \<bar>i\<bar> * 2 ^ 149) 1" by (rule round_mag_pos)
  then show ?thesis by (simp add: f_units_def f_of_int_def mag_units_0)
qed

lemma zero_div_pos: "0 < i \<Longrightarrow> f_div 0 (f_of_int i) = f_make (f_neg (f_of_int i)) 0"
  using f_units_of_int_pos [of i]
  by (auto simp: f_div_def round_mag_def round_even_def shift_for.simps f_neg_def)

lemma signed_zero_small: "f_lt (f_make s 0) (f_lit 1 1000)"
  by (cases s) (simp_all add: f_lt_def f32_eval)

lemma zero_plus_zero: "f_add 0 0 = 0"
  by (simp add: f_add_def f_make_def f_neg_def)

lemma crossing_no_gains:
  assumes "at_period_sum st = 0" and "ao_kp out = None" and "ao_ki out = None" and "ao_kd out = None"
  shows "\<exists>early st' out'. autotune_crossing kp_ok ki_ok kd_ok st out = Some (early, st', out') \<and>
    at_period_sum st' = 0 \<and> ao_kp out' = None \<and> ao_ki out' = None \<and> ao_kd out' = None"
proof -
  consider "at_crossing_count st < 1" | "1 \<le> at_crossing_count st" "at_crossing_count st < 5" | "5 \<le> at_crossing_count st"
    by linarith
  then show ?thesis
  proof cases
    case 3
    then have "f_lt (f_div 0 (f_of_int (at_crossing_count st))) (f_lit 1 1000)"
      using zero_div_pos [of "at_crossing_count st"] signed_zero_small by simp
    with 3 assms show ?thesis by (auto simp: autotune_crossing_def Let_def zero_plus_zero)
  qed (use assms in \<open>auto simp: autotune_crossing_def Let_def zero_plus_zero\<close>)
qed

definition no_gains :: "autotune_out \<Rightarrow> bool" where
  "no_gains out \<longleftrightarrow> ao_kp out = None \<and> ao_ki out = None \<and> ao_kd out = None"

lemma process_no_gains:
  assumes "length states = WTC_MAX_PID_LOOPS" and "valid_loop lid" and "at_period_sum (states ! nat lid) = 0"
  obtains res out states' where "pid_process_autotune lid pv sp True True kp_ok ki_ok kd_ok states = Some ((res, out), states')"
    "no_gains out" "length states' = WTC_MAX_PID_LOOPS" "at_period_sum (states' ! nat lid) = 0"
proof -
  have lid: "nat lid < length states" using assms(1, 2) by (auto simp: valid_loop_def)
  show thesis
  proof (cases "at_active (states ! nat lid)")
    case False
    with assms that [of WTC_ERROR_NOT_INITIALIZED _ states] show thesis
      by (auto simp: pid_process_autotune_def autotune_none_def no_gains_def Let_def)
  next
    case True
    let ?st = "let st = states ! nat lid; st = (if f_lt (at_amplitude_max st) pv then st\<lparr>at_amplitude_max := pv\<rparr> else st)
      in (if f_lt pv (at_amplitude_min st) then st\<lparr>at_amplitude_min := pv\<rparr> else st)"
    let ?out = "autotune_none\<lparr>ao_complete := Some False, ao_output := Some (if f_lt 0 (f_sub sp pv)
      then at_relay_amplitude ?st else f_uminus (at_relay_amplitude ?st))\<rparr>"
    have st: "at_period_sum ?st = 0" using assms(3) by (simp add: Let_def)
    have out: "ao_kp ?out = None" "ao_ki ?out = None" "ao_kd ?out = None" by (simp_all add: autotune_none_def)
    obtain early st' out' where c: "autotune_crossing kp_ok ki_ok kd_ok ?st ?out = Some (early, st', out')"
      "at_period_sum st' = 0" "ao_kp out' = None" "ao_ki out' = None" "ao_kd out' = None"
      using crossing_no_gains [OF st out] by metis
    define cross where "cross = (f_le (at_last_error ?st) 0 \<and> f_lt 0 (f_sub sp pv) \<or>
      f_le 0 (at_last_error ?st) \<and> f_lt (f_sub sp pv) 0)"
    have run: "pid_process_autotune lid pv sp True True kp_ok ki_ok kd_ok states =
        (case (if cross then autotune_crossing kp_ok ki_ok kd_ok ?st ?out else Some (False, ?st, ?out)) of
           None \<Rightarrow> None
         | Some (early, st, out) \<Rightarrow> Some ((WTC_OK, out),
             states[nat lid := if early then st else st\<lparr>at_last_error := f_sub sp pv\<rparr>]))"
      using assms(2) True unfolding pid_process_autotune_def cross_def by (simp only: Let_def if_False simp_thms if_True)
    show thesis
      using that c out st lid assms(1) unfolding run no_gains_def by (cases cross) (auto simp: nth_list_update)
  qed
qed

primrec autotune_run ::
  "int \<Rightarrow> (f32 \<times> f32 \<times> bool \<times> bool \<times> bool) list \<Rightarrow> autotune_state list \<Rightarrow> (wtc_result \<times> autotune_out) list option" where
  "autotune_run lid [] states = Some []"
| "autotune_run lid (c # cs) states =
     (case c of (pv, sp, kp_ok, ki_ok, kd_ok) \<Rightarrow>
        (case pid_process_autotune lid pv sp True True kp_ok ki_ok kd_ok states of
           None \<Rightarrow> None
         | Some (o1, states') \<Rightarrow> map_option ((#) o1) (autotune_run lid cs states')))"

lemma run_no_gains:
  "length states = WTC_MAX_PID_LOOPS \<Longrightarrow> valid_loop lid \<Longrightarrow> at_period_sum (states ! nat lid) = 0 \<Longrightarrow>
    \<exists>outs. autotune_run lid cs states = Some outs \<and> length outs = length cs \<and> (\<forall>o1 \<in> set outs. no_gains (snd o1))"
proof (induction cs arbitrary: states)
  case (Cons c cs)
  obtain pv sp kp_ok ki_ok kd_ok where c: "c = (pv, sp, kp_ok, ki_ok, kd_ok)" by (cases c) auto
  obtain res out states' where "pid_process_autotune lid pv sp True True kp_ok ki_ok kd_ok states = Some ((res, out), states')"
    "no_gains out" "length states' = WTC_MAX_PID_LOOPS" "at_period_sum (states' ! nat lid) = 0"
    using process_no_gains [OF Cons.prems] by metis
  with Cons.IH [of states'] Cons.prems(2) show ?case by (auto simp: c)
qed simp

text \<open>Auto-tuning never delivers gains: after it is started, for every sequence of process values and
  setpoints, no call stores a proportional, integral or derivative gain. The measured period is the
  constant zero, so the attempt ends by the guard against a short period.\<close>

theorem autotune_never_tunes:
  assumes "length states = WTC_MAX_PID_LOOPS" and "0 \<le> loop_id" and "loop_id < 64"
    and "pid_start_autotune loop_id amplitude states = (res, states')"
  shows "\<exists>outs. autotune_run loop_id calls states' = Some outs \<and> length outs = length calls \<and>
    (\<forall>o1 \<in> set outs. ao_kp (snd o1) = None \<and> ao_ki (snd o1) = None \<and> ao_kd (snd o1) = None)"
proof -
  have v: "valid_loop loop_id" using assms(2, 3) by (simp add: valid_loop_def WTC_MAX_PID_LOOPS_def)
  with assms have "length states' = WTC_MAX_PID_LOOPS" "at_period_sum (states' ! nat loop_id) = 0"
    by (auto simp: pid_start_autotune_def valid_loop_def nat_less_iff)
  from run_no_gains [OF this(1) v this(2), of calls] show ?thesis by (simp add: no_gains_def)
qed

definition idle_state :: autotune_state where
  "idle_state = \<lparr>at_active = False, at_relay_amplitude = 0, at_crossing_count = 0, at_period_sum = 0,
     at_amplitude_max = 0, at_amplitude_min = 0, at_last_error = 0\<rparr>"

theorem autotune_never_tunes_witness:
  "\<exists>outs. autotune_run 3 [(0, 0x41200000, True, True, True), (0x41A00000, 0x41200000, True, True, True)]
      (snd (pid_start_autotune 3 0 (replicate 64 idle_state))) = Some outs \<and> length outs = 2 \<and>
    (\<forall>o1 \<in> set outs. ao_kp (snd o1) = None \<and> ao_ki (snd o1) = None \<and> ao_kd (snd o1) = None)"
proof -
  have "length (replicate 64 idle_state) = WTC_MAX_PID_LOOPS" by (simp add: WTC_MAX_PID_LOOPS_def)
  from autotune_never_tunes [OF this, of 3 0 "fst (pid_start_autotune 3 0 (replicate 64 idle_state))"
      "snd (pid_start_autotune 3 0 (replicate 64 idle_state))"
      "[(0, 0x41200000, True, True, True), (0x41A00000, 0x41200000, True, True, True)]"]
  show ?thesis by (simp del: autotune_run.simps add: numeral_2_eq_2)
qed

end
