(* ===== verification/Interlocks.thy ===== *)
theory Interlocks
  imports Control
begin

text \<open>
  \<^verbatim>\<open>src/src/control/interlock_manager.c\<close>: the standard interlocks of a treatment plant, their priorities
  and the status text.
\<close>

section \<open>Standard interlocks\<close>

definition zero_interlock :: interlock where
  "zero_interlock = \<lparr>il_interlock_id = 0, il_name = [], il_enabled = False, il_condition_rtu = [], il_condition_slot = 0,
     il_condition = INTERLOCK_CONDITION_ABOVE, il_threshold = 0, il_delay_ms = 0, il_action_rtu = [], il_action_slot = 0,
     il_action = INTERLOCK_ACTION_ALARM_ONLY, il_action_value = 0, il_tripped = False, il_trip_time_ms = 0,
     il_condition_start_ms = 0\<rparr>"

text \<open>The part all these functions share: the action is to force an output off.\<close>

definition standard_interlock ::
  "string \<Rightarrow> string \<Rightarrow> int \<Rightarrow> interlock_condition \<Rightarrow> f32 \<Rightarrow> f32 \<Rightarrow> u32 \<Rightarrow> string \<Rightarrow> int \<Rightarrow> interlock" where
  "standard_interlock name rtu slot cond threshold dflt delay act_rtu act_slot =
     zero_interlock\<lparr>il_name := cstr_copy 63 name, il_enabled := True,
       il_condition_rtu := cstr_copy 63 rtu, il_condition_slot := slot, il_condition := cond,
       il_threshold := (if f_lt 0 threshold then threshold else dflt), il_delay_ms := delay,
       il_action_rtu := cstr_copy 63 act_rtu, il_action_slot := act_slot,
       il_action := INTERLOCK_ACTION_FORCE_OFF\<rparr>"

definition create_low_level_interlock ::
  "interlock option \<Rightarrow> string \<Rightarrow> int \<Rightarrow> string \<Rightarrow> int \<Rightarrow> f32 \<Rightarrow> wtc_result \<times> interlock option" where
  "create_low_level_interlock il level_rtu level_slot pump_rtu pump_slot low_level_threshold =
     on_handle WTC_ERROR_INVALID_PARAM (\<lambda>_.
       (WTC_OK, standard_interlock ''Low Level Pump Protect'' level_rtu level_slot INTERLOCK_CONDITION_BELOW
          low_level_threshold (f_lit 10 1) 5000 pump_rtu pump_slot)) il"

definition create_high_level_interlock ::
  "interlock option \<Rightarrow> string \<Rightarrow> int \<Rightarrow> string \<Rightarrow> int \<Rightarrow> f32 \<Rightarrow> wtc_result \<times> interlock option" where
  "create_high_level_interlock il level_rtu level_slot inlet_rtu inlet_slot high_level_threshold =
     on_handle WTC_ERROR_INVALID_PARAM (\<lambda>_.
       (WTC_OK, standard_interlock ''High Level Overflow Protect'' level_rtu level_slot INTERLOCK_CONDITION_ABOVE
          high_level_threshold (f_lit 90 1) 2000 inlet_rtu inlet_slot)) il"

definition create_high_pressure_interlock ::
  "interlock option \<Rightarrow> string \<Rightarrow> int \<Rightarrow> string \<Rightarrow> int \<Rightarrow> f32 \<Rightarrow> wtc_result \<times> interlock option" where
  "create_high_pressure_interlock il pressure_rtu pressure_slot pump_rtu pump_slot high_pressure_threshold =
     on_handle WTC_ERROR_INVALID_PARAM (\<lambda>_.
       (WTC_OK, standard_interlock ''High Pressure Relief'' pressure_rtu pressure_slot INTERLOCK_CONDITION_ABOVE
          high_pressure_threshold (f_lit 10 1) 1000 pump_rtu pump_slot)) il"

definition create_overtemp_interlock ::
  "interlock option \<Rightarrow> string \<Rightarrow> int \<Rightarrow> string \<Rightarrow> int \<Rightarrow> f32 \<Rightarrow> wtc_result \<times> interlock option" where
  "create_overtemp_interlock il temp_rtu temp_slot heater_rtu heater_slot max_temperature =
     on_handle WTC_ERROR_INVALID_PARAM (\<lambda>_.
       (WTC_OK, standard_interlock ''Over-temperature Shutdown'' temp_rtu temp_slot INTERLOCK_CONDITION_ABOVE
          max_temperature (f_lit 50 1) 3000 heater_rtu heater_slot)) il"

definition create_low_flow_interlock ::
  "interlock option \<Rightarrow> string \<Rightarrow> int \<Rightarrow> string \<Rightarrow> int \<Rightarrow> f32 \<Rightarrow> wtc_result \<times> interlock option" where
  "create_low_flow_interlock il flow_rtu flow_slot pump_rtu pump_slot min_flow =
     on_handle WTC_ERROR_INVALID_PARAM (\<lambda>_.
       (WTC_OK, standard_interlock ''Low Flow Pump Protect'' flow_rtu flow_slot INTERLOCK_CONDITION_BELOW
          min_flow (f_lit 10 1) 30000 pump_rtu pump_slot)) il"

definition create_ph_interlock ::
  "interlock option \<Rightarrow> string \<Rightarrow> int \<Rightarrow> string \<Rightarrow> int \<Rightarrow> f32 \<Rightarrow> f32 \<Rightarrow> bool \<Rightarrow> wtc_result \<times> interlock option" where
  "create_ph_interlock il ph_rtu ph_slot dosing_rtu dosing_slot low_ph high_ph check_low =
     on_handle WTC_ERROR_INVALID_PARAM (\<lambda>_.
       (WTC_OK,
        if check_low
        then standard_interlock ''Low pH Interlock'' ph_rtu ph_slot INTERLOCK_CONDITION_BELOW low_ph (f_lit 55 10) 10000
               dosing_rtu dosing_slot
        else standard_interlock ''High pH Interlock'' ph_rtu ph_slot INTERLOCK_CONDITION_ABOVE high_ph (f_lit 9 1) 10000
               dosing_rtu dosing_slot)) il"

definition add_created :: "wtc_result \<times> interlock option \<Rightarrow> control_engine \<Rightarrow> control_engine" where
  "add_created c e = the (snd (control_engine_add_interlock (Some e) (snd c)))"

definition standard_set :: "string \<Rightarrow> (wtc_result \<times> interlock option) list" where
  "standard_set rtu =
     (let z = Some zero_interlock in
      [create_low_level_interlock z rtu 7 rtu 9 (f_lit 10 1),
       create_high_level_interlock z rtu 7 rtu 10 (f_lit 90 1),
       create_high_pressure_interlock z rtu 8 rtu 9 (f_lit 10 1),
       create_overtemp_interlock z rtu 2 rtu 14 (f_lit 50 1),
       create_ph_interlock z rtu 1 rtu 12 (f_lit 55 10) 0 True,
       create_ph_interlock z rtu 1 rtu 12 0 (f_lit 9 1) False])"

definition create_water_treatment_interlocks ::
  "control_engine option \<Rightarrow> string option \<Rightarrow> wtc_result \<times> control_engine option" where
  "create_water_treatment_interlocks eng rtu_name =
     on_handle WTC_ERROR_INVALID_PARAM (\<lambda>e.
       case rtu_name of
         None \<Rightarrow> (WTC_ERROR_INVALID_PARAM, e)
       | Some rtu \<Rightarrow> (WTC_OK, fold add_created (standard_set rtu) e)) eng"

section \<open>Priorities and status\<close>

datatype interlock_priority =
  INTERLOCK_PRIORITY_SAFETY | INTERLOCK_PRIORITY_EQUIPMENT | INTERLOCK_PRIORITY_PROCESS | INTERLOCK_PRIORITY_QUALITY

definition mentions :: "interlock \<Rightarrow> string \<Rightarrow> bool" where
  "mentions il w \<longleftrightarrow> strstr w (il_name il) \<noteq> None"

definition get_interlock_priority :: "interlock option \<Rightarrow> interlock_priority" where
  "get_interlock_priority il =
     with_handle INTERLOCK_PRIORITY_PROCESS (\<lambda>i.
       if mentions i ''Pressure'' \<or> mentions i ''Emergency'' then INTERLOCK_PRIORITY_SAFETY
       else if mentions i ''Pump'' \<or> mentions i ''Motor'' \<or> mentions i ''temperature'' then INTERLOCK_PRIORITY_EQUIPMENT
       else if mentions i ''Level'' \<or> mentions i ''Flow'' then INTERLOCK_PRIORITY_PROCESS
       else if mentions i ''pH'' \<or> mentions i ''Chlorine'' \<or> mentions i ''Turbidity'' then INTERLOCK_PRIORITY_QUALITY
       else INTERLOCK_PRIORITY_PROCESS) il"

definition interlock_can_bypass :: "interlock option \<Rightarrow> bool" where
  "interlock_can_bypass il =
     with_handle False (\<lambda>i. get_interlock_priority (Some i) \<noteq> INTERLOCK_PRIORITY_SAFETY) il"

fun condition_text :: "interlock_condition \<Rightarrow> string" where
  "condition_text INTERLOCK_CONDITION_ABOVE = ''>''"
| "condition_text INTERLOCK_CONDITION_BELOW = ''<''"
| "condition_text INTERLOCK_CONDITION_EQUAL = ''=''"
| "condition_text INTERLOCK_CONDITION_NOT_EQUAL = ''!=''"

text \<open>The text stored into the buffer, truncated to its size; \<open>None\<close>: nothing stored.\<close>

definition format_interlock_status :: "interlock option \<Rightarrow> bool \<Rightarrow> nat \<Rightarrow> string option" where
  "format_interlock_status il buffer_ok n =
     with_handle None (\<lambda>i.
       if \<not> buffer_ok \<or> n < 64 then None
       else Some (cstr_copy (n - 1)
         (il_name i @ '' ['' @ (if il_tripped i then ''TRIPPED'' else if il_enabled i then ''ENABLED'' else ''DISABLED'') @
          '']: '' @ il_condition_rtu i @ '' slot '' @ fmt_d (il_condition_slot i) @ '' '' @ condition_text (il_condition i) @
          '' '' @ fmt_f2 (il_threshold i) @ '' -> '' @ il_action_rtu i @ '' slot '' @ fmt_d (il_action_slot i)))) il"

section \<open>The standard set and the standard slots\<close>

text \<open>What the slot template of the registry has at a slot number.\<close>

definition template_slot :: "int \<Rightarrow> slot_config option" where
  "template_slot n = List.find (\<lambda>s. sc_slot s = n) water_treatment_slots"

lemma standard_fields [simp]:
  "il_name (standard_interlock name rtu slot cond th dflt delay act_rtu act_slot) = cstr_copy 63 name"
  "il_condition_slot (standard_interlock name rtu slot cond th dflt delay act_rtu act_slot) = slot"
  "il_action_slot (standard_interlock name rtu slot cond th dflt delay act_rtu act_slot) = act_slot"
  "il_action (standard_interlock name rtu slot cond th dflt delay act_rtu act_slot) = INTERLOCK_ACTION_FORCE_OFF"
  "il_enabled (standard_interlock name rtu slot cond th dflt delay act_rtu act_slot)"
  by (simp_all add: standard_interlock_def)

lemma created [simp]:
  "snd (create_low_level_interlock (Some il) r s r' s' th) =
     Some (standard_interlock ''Low Level Pump Protect'' r s INTERLOCK_CONDITION_BELOW th (f_lit 10 1) 5000 r' s')"
  "snd (create_high_level_interlock (Some il) r s r' s' th) =
     Some (standard_interlock ''High Level Overflow Protect'' r s INTERLOCK_CONDITION_ABOVE th (f_lit 90 1) 2000 r' s')"
  "snd (create_high_pressure_interlock (Some il) r s r' s' th) =
     Some (standard_interlock ''High Pressure Relief'' r s INTERLOCK_CONDITION_ABOVE th (f_lit 10 1) 1000 r' s')"
  "snd (create_overtemp_interlock (Some il) r s r' s' th) =
     Some (standard_interlock ''Over-temperature Shutdown'' r s INTERLOCK_CONDITION_ABOVE th (f_lit 50 1) 3000 r' s')"
  by (simp_all add: create_low_level_interlock_def create_high_level_interlock_def create_high_pressure_interlock_def
      create_overtemp_interlock_def)

lemma created_ph [simp]:
  "snd (create_ph_interlock (Some il) r s r' s' lo hi True) =
     Some (standard_interlock ''Low pH Interlock'' r s INTERLOCK_CONDITION_BELOW lo (f_lit 55 10) 10000 r' s')"
  "snd (create_ph_interlock (Some il) r s r' s' lo hi False) =
     Some (standard_interlock ''High pH Interlock'' r s INTERLOCK_CONDITION_ABOVE hi (f_lit 9 1) 10000 r' s')"
  by (simp_all add: create_ph_interlock_def)

lemma add_created:
  "snd c = Some il \<Longrightarrow> length (ce_interlocks e) < WTC_MAX_INTERLOCKS \<Longrightarrow>
    ce_interlocks (add_created c e) = ce_interlocks e @ [il\<lparr>il_interlock_id := ce_next_interlock_id e\<rparr>]"
  by (simp add: add_created_def control_engine_add_interlock_def)

lemma add_all_created:
  "length (ce_interlocks e) + length cs \<le> WTC_MAX_INTERLOCKS \<Longrightarrow> \<forall>c \<in> set cs. snd c \<noteq> None \<Longrightarrow>
    map (il_interlock_id_update (\<lambda>_. 0)) (ce_interlocks (fold add_created cs e)) =
    map (il_interlock_id_update (\<lambda>_. 0)) (ce_interlocks e @ map (the \<circ> snd) cs)"
proof (induction cs arbitrary: e)
  case (Cons c cs)
  then obtain il where "snd c = Some il" by auto
  with Cons.prems have "ce_interlocks (add_created c e) = ce_interlocks e @ [il\<lparr>il_interlock_id := ce_next_interlock_id e\<rparr>]"
    by (intro add_created) auto
  with Cons.IH [of "add_created c e"] Cons.prems \<open>snd c = Some il\<close> show ?case by simp
qed simp

lemma standard_set_created: "\<forall>c \<in> set (standard_set rtu). snd c \<noteq> None" "length (standard_set rtu) = 6"
  by (simp_all add: standard_set_def Let_def)

text \<open>The standard set is installed whole: on an engine with room for six more interlocks the call
  succeeds and appends exactly the six created interlocks in their order (up to the identifiers the
  engine assigns), and every one of them is enabled and switches its output off.\<close>

theorem standard_interlocks_installed:
  assumes "length (ce_interlocks e) \<le> 122"
  shows "\<exists>e' ils. create_water_treatment_interlocks (Some e) (Some rtu) = (WTC_OK, Some e') \<and>
    map (il_interlock_id_update (\<lambda>_. 0)) (ce_interlocks e') =
      map (il_interlock_id_update (\<lambda>_. 0)) (ce_interlocks e) @ ils \<and>
    map (\<lambda>i. (il_name i, il_condition_slot i, il_action_slot i)) ils =
      [(''Low Level Pump Protect'', 7, 9), (''High Level Overflow Protect'', 7, 10), (''High Pressure Relief'', 8, 9),
       (''Over-temperature Shutdown'', 2, 14), (''Low pH Interlock'', 1, 12), (''High pH Interlock'', 1, 12)] \<and>
    (\<forall>i \<in> set ils. il_enabled i \<and> il_action i = INTERLOCK_ACTION_FORCE_OFF)"
proof -
  let ?ils = "map (il_interlock_id_update (\<lambda>_. 0) \<circ> the \<circ> snd) (standard_set rtu)"
  have "map (il_interlock_id_update (\<lambda>_. 0)) (ce_interlocks (fold add_created (standard_set rtu) e)) =
      map (il_interlock_id_update (\<lambda>_. 0)) (ce_interlocks e) @ ?ils"
    using add_all_created [OF _ standard_set_created(1), of e rtu] assms by (simp add: standard_set_created(2) WTC_MAX_INTERLOCKS_def)
  then show ?thesis
    by (intro exI [of _ "fold add_created (standard_set rtu) e"] exI [of _ ?ils] conjI)
      (simp_all add: create_water_treatment_interlocks_def standard_set_def Let_def cstr_copy_def)
qed

theorem standard_interlocks_installed_witness:
  "\<exists>e' ils. create_water_treatment_interlocks (Some zero_control_engine) (Some ''rtu-1'') = (WTC_OK, Some e') \<and>
    map (il_interlock_id_update (\<lambda>_. 0)) (ce_interlocks e') = ils \<and> length ils = 6"
  using standard_interlocks_installed [of zero_control_engine "''rtu-1''"]
  by (auto simp: zero_control_engine_def dest: arg_cong [of _ _ length])

lemma sensor_slot [simp]:
  "0 \<le> n \<Longrightarrow> sc_slot (the (snd (create_sensor_slot_config (Some s) n t name))) = n"
  "0 \<le> n \<Longrightarrow> sc_measurement_type (the (snd (create_sensor_slot_config (Some s) n t name))) = t"
  by (simp_all add: create_sensor_slot_config_def Let_def)

lemma actuator_slot [simp]:
  "0 \<le> n \<Longrightarrow> sc_slot (the (snd (create_actuator_slot_config (Some s) n t name))) = n"
  "0 \<le> n \<Longrightarrow> nm \<noteq> [] \<Longrightarrow> sc_name (the (snd (create_actuator_slot_config (Some s) n t (Some nm)))) = cstr_copy 63 nm"
  by (simp_all add: create_actuator_slot_config_def Let_def)

text \<open>The slot numbers of the standard interlocks are not those of the standard slot layout: the
  low-level protection watches slot 7, which the layout gives to the pressure sensor, and switches
  slot 9, the inlet valve; the over-temperature shutdown watches slot 2, the turbidity, and switches
  slot 14, the mixer; the pH interlocks watch slot 1, the temperature, and switch slot 12, the aerator.\<close>

theorem standard_interlocks_watch_wrong_slots:
  "map (\<lambda>c. (il_name (the (snd c)),
      map_option sc_measurement_type (template_slot (il_condition_slot (the (snd c)))),
      map_option sc_name (template_slot (il_action_slot (the (snd c)))))) (map (nth (standard_set rtu)) [0, 3, 4, 5]) =
    [(''Low Level Pump Protect'', Some MEASUREMENT_PRESSURE, Some ''Inlet Valve''),
     (''Over-temperature Shutdown'', Some MEASUREMENT_TURBIDITY, Some ''Mixer''),
     (''Low pH Interlock'', Some MEASUREMENT_TEMPERATURE, Some ''Aerator''),
     (''High pH Interlock'', Some MEASUREMENT_TEMPERATURE, Some ''Aerator'')]"
  by (simp add: standard_set_def template_slot_def water_treatment_slots_def Let_def cstr_copy_def)

end
