(* ===== verification/Sequence.thy ===== *)
theory Sequence
  imports Control
begin

text \<open>
  The sequence engine (\<^verbatim>\<open>src/src/control/sequence_engine.c\<close>): lists of steps (set an output, wait for a
  time or a condition, jump, end) that a periodic pass runs over the registry.

  The static variables of the file are one record. The union of a step is a datatype, so a step has
  exactly the parameters of its type. The index of the current step is a C \<open>int\<close>; the code compares
  it with the step count only, so a negative index reads outside the array. What is found there is
  the parameter \<open>wild\<close>.
\<close>

section \<open>State\<close>

datatype step_params =
  Set_Output u8 u8
| Wait_Time u32
| Wait_Condition interlock_condition f32 u32
| Wait_Level f32 f32 u32
| Parallel_Start
| Parallel_End
| Goto_Step int
| End_Step

record sequence_step =
  ss_station_name :: string
  ss_slot :: int
  ss_params :: step_params

record sequence =
  sq_sequence_id :: int
  sq_name :: string
  sq_enabled :: bool
  sq_state :: sequence_state
  sq_steps :: "sequence_step list"
  sq_current_step :: int
  sq_step_start_time_ms :: u64
  sq_sequence_start_time_ms :: u64
  sq_sequence_timeout_ms :: u32
  sq_default_step_timeout_ms :: u32
  sq_on_step_change :: bool
  sq_on_complete :: bool

record sequence_engine =
  sg_sequences :: "sequence list"
  sg_next_sequence_id :: int
  sg_registry :: "rtu_registry option"

definition MAX_SEQUENCE_STEPS :: nat where "MAX_SEQUENCE_STEPS = 64"
definition WTC_MAX_SEQUENCES :: nat where "WTC_MAX_SEQUENCES = 32"

definition initial_sequence_engine :: sequence_engine where
  "initial_sequence_engine = \<lparr>sg_sequences = [], sg_next_sequence_id = 1, sg_registry = None\<rparr>"

section \<open>Operations\<close>

definition sequence_engine_set_registry :: "rtu_registry option \<Rightarrow> sequence_engine \<Rightarrow> sequence_engine" where
  "sequence_engine_set_registry registry g = g\<lparr>sg_registry := registry\<rparr>"

definition sequence_create :: "string option \<Rightarrow> bool \<Rightarrow> sequence_engine \<Rightarrow> (wtc_result \<times> int option) \<times> sequence_engine" where
  "sequence_create name id_ok g =
     (case name of
        None \<Rightarrow> ((WTC_ERROR_INVALID_PARAM, None), g)
      | Some n \<Rightarrow>
          if \<not> id_ok \<or> WTC_MAX_SEQUENCES \<le> length (sg_sequences g) then ((WTC_ERROR_INVALID_PARAM, None), g)
          else
            (let new_id = sg_next_sequence_id g in
             ((WTC_OK, Some new_id),
              g\<lparr>sg_sequences := sg_sequences g @ [\<lparr>sq_sequence_id = new_id, sq_name = cstr_copy 63 n, sq_enabled = True,
                   sq_state = SEQUENCE_STATE_IDLE, sq_steps = [], sq_current_step = 0, sq_step_start_time_ms = 0,
                   sq_sequence_start_time_ms = 0, sq_sequence_timeout_ms = 0, sq_default_step_timeout_ms = 0,
                   sq_on_step_change = False, sq_on_complete = False\<rparr>],
                sg_next_sequence_id := new_id + 1\<rparr>)))"

text \<open>The loop of every operation that takes an identifier: the first sequence with it is given to the
  body, which returns the result code and the changed sequence.\<close>

definition on_sequence :: "int \<Rightarrow> (sequence \<Rightarrow> wtc_result \<times> sequence) \<Rightarrow> sequence_engine \<Rightarrow> wtc_result \<times> sequence_engine" where
  "on_sequence sequence_id f g =
     (case List.find (\<lambda>s. sq_sequence_id s = sequence_id) (sg_sequences g) of
        None \<Rightarrow> (WTC_ERROR_NOT_FOUND, g)
      | Some s \<Rightarrow> (fst (f s), g\<lparr>sg_sequences :=
          the (update_first (\<lambda>s. sq_sequence_id s = sequence_id) (\<lambda>s. snd (f s)) (sg_sequences g))\<rparr>))"

definition sequence_add_step :: "int \<Rightarrow> sequence_step option \<Rightarrow> sequence_engine \<Rightarrow> wtc_result \<times> sequence_engine" where
  "sequence_add_step sequence_id step g =
     (case step of
        None \<Rightarrow> (WTC_ERROR_INVALID_PARAM, g)
      | Some st \<Rightarrow> on_sequence sequence_id (\<lambda>s.
          if MAX_SEQUENCE_STEPS \<le> length (sq_steps s) then (WTC_ERROR_FULL, s)
          else (WTC_OK, s\<lparr>sq_steps := sq_steps s @ [st]\<rparr>)) g)"

definition sequence_add_output_step :: "int \<Rightarrow> string \<Rightarrow> int \<Rightarrow> u8 \<Rightarrow> u8 \<Rightarrow> sequence_engine \<Rightarrow> wtc_result \<times> sequence_engine" where
  "sequence_add_output_step sequence_id station slot command pwm_duty =
     sequence_add_step sequence_id
       (Some \<lparr>ss_station_name = cstr_copy 63 station, ss_slot = slot, ss_params = Set_Output command pwm_duty\<rparr>)"

definition sequence_add_wait_step :: "int \<Rightarrow> u32 \<Rightarrow> sequence_engine \<Rightarrow> wtc_result \<times> sequence_engine" where
  "sequence_add_wait_step sequence_id duration_ms =
     sequence_add_step sequence_id (Some \<lparr>ss_station_name = [], ss_slot = 0, ss_params = Wait_Time duration_ms\<rparr>)"

definition sequence_add_wait_condition_step ::
  "int \<Rightarrow> string \<Rightarrow> int \<Rightarrow> interlock_condition \<Rightarrow> f32 \<Rightarrow> u32 \<Rightarrow> sequence_engine \<Rightarrow> wtc_result \<times> sequence_engine" where
  "sequence_add_wait_condition_step sequence_id station slot cond threshold timeout_ms =
     sequence_add_step sequence_id
       (Some \<lparr>ss_station_name = cstr_copy 63 station, ss_slot = slot, ss_params = Wait_Condition cond threshold timeout_ms\<rparr>)"

definition sequence_add_end_step :: "int \<Rightarrow> sequence_engine \<Rightarrow> wtc_result \<times> sequence_engine" where
  "sequence_add_end_step sequence_id =
     sequence_add_step sequence_id (Some \<lparr>ss_station_name = [], ss_slot = 0, ss_params = End_Step\<rparr>)"

text \<open>\<open>sequence_start\<close> reads the clock twice.\<close>

definition sequence_start :: "int \<Rightarrow> u64 \<Rightarrow> u64 \<Rightarrow> sequence_engine \<Rightarrow> wtc_result \<times> sequence_engine" where
  "sequence_start sequence_id now now' =
     on_sequence sequence_id (\<lambda>s.
       if \<not> sq_enabled s then (WTC_ERROR_PERMISSION, s)
       else if sq_state s = SEQUENCE_STATE_RUNNING then (WTC_ERROR_BUSY, s)
       else (WTC_OK, s\<lparr>sq_state := SEQUENCE_STATE_RUNNING, sq_current_step := 0,
              sq_sequence_start_time_ms := now, sq_step_start_time_ms := now'\<rparr>))"

definition sequence_stop :: "int \<Rightarrow> sequence_engine \<Rightarrow> wtc_result \<times> sequence_engine" where
  "sequence_stop sequence_id = on_sequence sequence_id (\<lambda>s. (WTC_OK, s\<lparr>sq_state := SEQUENCE_STATE_ABORTED\<rparr>))"

definition sequence_pause :: "int \<Rightarrow> sequence_engine \<Rightarrow> wtc_result \<times> sequence_engine" where
  "sequence_pause sequence_id =
     on_sequence sequence_id (\<lambda>s.
       if sq_state s = SEQUENCE_STATE_RUNNING then (WTC_OK, s\<lparr>sq_state := SEQUENCE_STATE_PAUSED\<rparr>)
       else (WTC_ERROR_NOT_INITIALIZED, s))"

definition sequence_resume :: "int \<Rightarrow> u64 \<Rightarrow> sequence_engine \<Rightarrow> wtc_result \<times> sequence_engine" where
  "sequence_resume sequence_id now =
     on_sequence sequence_id (\<lambda>s.
       if sq_state s = SEQUENCE_STATE_PAUSED
       then (WTC_OK, s\<lparr>sq_state := SEQUENCE_STATE_RUNNING, sq_step_start_time_ms := now\<rparr>)
       else (WTC_ERROR_NOT_INITIALIZED, s))"

definition sequence_set_timeouts :: "int \<Rightarrow> u32 \<Rightarrow> u32 \<Rightarrow> sequence_engine \<Rightarrow> wtc_result \<times> sequence_engine" where
  "sequence_set_timeouts sequence_id sequence_timeout_ms default_step_timeout_ms =
     on_sequence sequence_id (\<lambda>s.
       (WTC_OK, s\<lparr>sq_sequence_timeout_ms := sequence_timeout_ms,
          sq_default_step_timeout_ms := default_step_timeout_ms\<rparr>))"

definition sequence_get_state ::
  "int \<Rightarrow> bool \<Rightarrow> bool \<Rightarrow> sequence_engine \<Rightarrow> wtc_result \<times> sequence_state option \<times> int option" where
  "sequence_get_state sequence_id state_ok step_ok g =
     (case List.find (\<lambda>s. sq_sequence_id s = sequence_id) (sg_sequences g) of
        None \<Rightarrow> (WTC_ERROR_NOT_FOUND, None, None)
      | Some s \<Rightarrow> (WTC_OK, if state_ok then Some (sq_state s) else None,
          if step_ok then Some (sq_current_step s) else None))"

section \<open>One pass\<close>

datatype sequence_event = Step_Changed int int | Sequence_Completed int bool

text \<open>The clock of the pass, and its readings inside the registry calls made for the sequence at an index.\<close>

record sequence_env =
  qe_now :: u64
  qe_read :: "nat \<Rightarrow> u64"
  qe_write :: "nat \<Rightarrow> u64"

definition step_condition_met :: "sequence_env \<Rightarrow> nat \<Rightarrow> rtu_registry option \<Rightarrow> sequence_step \<Rightarrow> interlock_condition \<Rightarrow> f32 \<Rightarrow> bool" where
  "step_condition_met env i reg step cond threshold =
     (case rtu_registry_get_sensor reg (Some (ss_station_name step)) (ss_slot step) True (qe_read env i) of
        (WTC_OK, Some sensor) \<Rightarrow>
          (case cond of
             INTERLOCK_CONDITION_ABOVE \<Rightarrow> f_lt threshold (sd_value sensor)
           | INTERLOCK_CONDITION_BELOW \<Rightarrow> f_lt (sd_value sensor) threshold
           | _ \<Rightarrow> False)
      | _ \<Rightarrow> False)"

text \<open>The switch over the step type: whether the step is complete, the callbacks made, the sequence and
  the registry.\<close>

definition run_step ::
  "sequence_env \<Rightarrow> nat \<Rightarrow> sequence_step \<Rightarrow> sequence \<Rightarrow> rtu_registry option \<Rightarrow>
    bool \<times> sequence_event list \<times> sequence \<times> rtu_registry option" where
  "run_step env i step s reg =
     (case ss_params step of
        Set_Output command duty \<Rightarrow>
          (True, [], s, snd (rtu_registry_update_actuator reg (Some (ss_station_name step)) (ss_slot step)
             (Some \<lparr>ao_command = command, ao_pwm_duty = duty\<rparr>) (qe_write env i)))
      | Wait_Time duration \<Rightarrow> (ucast duration \<le> qe_now env - sq_step_start_time_ms s, [], s, reg)
      | Wait_Condition cond threshold timeout \<Rightarrow>
          (step_condition_met env i reg step cond threshold, [],
           if 0 < timeout \<and> ucast timeout \<le> qe_now env - sq_step_start_time_ms s
             then s\<lparr>sq_state := SEQUENCE_STATE_FAULTED\<rparr> else s, reg)
      | Goto_Step target \<Rightarrow> (True, [], s\<lparr>sq_current_step := target - 1\<rparr>, reg)
      | End_Step \<Rightarrow>
          (False, if sq_on_complete s then [Sequence_Completed (sq_sequence_id s) True] else [],
           s\<lparr>sq_state := SEQUENCE_STATE_COMPLETE\<rparr>, reg)
      | _ \<Rightarrow> (True, [], s, reg))"

definition next_step :: "u64 \<Rightarrow> bool \<Rightarrow> sequence \<Rightarrow> sequence_event list \<times> sequence" where
  "next_step now step_complete s =
     (if step_complete \<and> sq_state s = SEQUENCE_STATE_RUNNING
      then (if sq_on_step_change s then [Step_Changed (sq_sequence_id s) (sq_current_step s + 1)] else [],
            s\<lparr>sq_current_step := sq_current_step s + 1, sq_step_start_time_ms := now\<rparr>)
      else ([], s))"

definition step_at :: "(int \<Rightarrow> sequence_step) \<Rightarrow> sequence \<Rightarrow> sequence_step" where
  "step_at wild s = (if sq_current_step s < 0 then wild (sq_current_step s) else sq_steps s ! nat (sq_current_step s))"

definition process_sequence ::
  "(int \<Rightarrow> sequence_step) \<Rightarrow> sequence_env \<Rightarrow> nat \<Rightarrow> sequence \<Rightarrow> rtu_registry option \<Rightarrow>
    sequence_event list \<times> sequence \<times> rtu_registry option" where
  "process_sequence wild env i s reg =
     (if sq_state s \<noteq> SEQUENCE_STATE_RUNNING then ([], s, reg)
      else if 0 < sq_sequence_timeout_ms s \<and>
              ucast (sq_sequence_timeout_ms s) \<le> qe_now env - sq_sequence_start_time_ms s
        then (if sq_on_complete s then [Sequence_Completed (sq_sequence_id s) False] else [],
              s\<lparr>sq_state := SEQUENCE_STATE_FAULTED\<rparr>, reg)
      else if int (length (sq_steps s)) \<le> sq_current_step s
        then ([], s\<lparr>sq_state := SEQUENCE_STATE_COMPLETE\<rparr>, reg)
      else
        (let (step_complete, evs, s, reg) = run_step env i (step_at wild s) s reg;
             (evs', s) = next_step (qe_now env) step_complete s
         in (evs @ evs', s, reg)))"

definition process_sequence_at ::
  "(int \<Rightarrow> sequence_step) \<Rightarrow> sequence_env \<Rightarrow> nat \<Rightarrow> sequence_engine \<Rightarrow> sequence_event list \<times> sequence_engine" where
  "process_sequence_at wild env i g =
     (let (evs, s, reg) = process_sequence wild env i (sg_sequences g ! i) (sg_registry g) in
      (evs, g\<lparr>sg_sequences := (sg_sequences g)[i := s], sg_registry := reg\<rparr>))"

definition sequence_process ::
  "(int \<Rightarrow> sequence_step) \<Rightarrow> sequence_env \<Rightarrow> sequence_engine \<Rightarrow> (wtc_result \<times> sequence_event list) \<times> sequence_engine" where
  "sequence_process wild env g =
     (if sg_registry g = None then ((WTC_ERROR_NOT_INITIALIZED, []), g)
      else
        (let (evs, g) = for_each (process_sequence_at wild env) [0..<length (sg_sequences g)] g in
         ((WTC_OK, evs), g)))"

section \<open>Calls\<close>

datatype sequence_call =
  Create_Sequence string
| Add_Step int sequence_step
| Start_Sequence int u64 u64
| Stop_Sequence int
| Pause_Sequence int
| Resume_Sequence int u64
| Set_Timeouts int u32 u32
| Set_Registry "rtu_registry option"
| Process_Sequences sequence_env

datatype sequence_reply =
  Created wtc_result "int option" | Answered wtc_result | Processed wtc_result "sequence_event list"

fun seq_exec :: "(int \<Rightarrow> sequence_step) \<Rightarrow> sequence_call \<Rightarrow> sequence_engine \<Rightarrow> sequence_reply \<times> sequence_engine" where
  "seq_exec wild (Create_Sequence n) g = (let ((r, i), g) = sequence_create (Some n) True g in (Created r i, g))"
| "seq_exec wild (Add_Step i st) g = apfst Answered (sequence_add_step i (Some st) g)"
| "seq_exec wild (Start_Sequence i t t') g = apfst Answered (sequence_start i t t' g)"
| "seq_exec wild (Stop_Sequence i) g = apfst Answered (sequence_stop i g)"
| "seq_exec wild (Pause_Sequence i) g = apfst Answered (sequence_pause i g)"
| "seq_exec wild (Resume_Sequence i t) g = apfst Answered (sequence_resume i t g)"
| "seq_exec wild (Set_Timeouts i t t') g = apfst Answered (sequence_set_timeouts i t t' g)"
| "seq_exec wild (Set_Registry r) g = (Answered WTC_OK, sequence_engine_set_registry r g)"
| "seq_exec wild (Process_Sequences env) g = (let ((r, evs), g) = sequence_process wild env g in (Processed r evs, g))"

lemmas seq_op_defs = sequence_add_step_def sequence_start_def sequence_stop_def sequence_pause_def sequence_resume_def
  sequence_set_timeouts_def

lemma process_sequence_static [simp]:
  "sq_steps (fst (snd (process_sequence wild env i s reg))) = sq_steps s"
  "sq_sequence_id (fst (snd (process_sequence wild env i s reg))) = sq_sequence_id s"
  by (simp_all add: process_sequence_def run_step_def next_step_def split_beta Let_def split: step_params.split)

lemma process_sequence_idle:
  "sq_state s \<noteq> SEQUENCE_STATE_RUNNING \<Longrightarrow> process_sequence wild env i s reg = ([], s, reg)"
  by (simp add: process_sequence_def)

lemma process_at_sequences:
  "sg_sequences (snd (process_sequence_at wild env i g)) =
    (sg_sequences g)[i := fst (snd (process_sequence wild env i (sg_sequences g ! i) (sg_registry g)))]"
  by (simp add: process_sequence_at_def split_beta Let_def)

text \<open>A pass treats the sequences one by one: entry \<open>k\<close> afterwards is its own step on some registry.\<close>

lemma process_length [simp]: "length (sg_sequences (snd (sequence_process wild env g))) = length (sg_sequences g)"
  using for_each_entry(1) [of sg_sequences "process_sequence_at wild env"
      "\<lambda>i s g. fst (snd (process_sequence wild env i s (sg_registry g)))", OF process_at_sequences order_refl]
  by (simp add: sequence_process_def split_beta Let_def)

lemma process_entry:
  assumes "k < length (sg_sequences g)" and "sg_registry g \<noteq> None"
  obtains reg where "sg_sequences (snd (sequence_process wild env g)) ! k =
    fst (snd (process_sequence wild env k (sg_sequences g ! k) reg))"
  using for_each_entry(2) [of sg_sequences "process_sequence_at wild env"
      "\<lambda>i s g. fst (snd (process_sequence wild env i s (sg_registry g)))", OF process_at_sequences order_refl assms(1)]
    assms(2)
  by (auto simp: sequence_process_def split_beta Let_def)

lemma on_sequence_entries:
  "length (sg_sequences (snd (on_sequence i f g))) = length (sg_sequences g)"
  "k < length (sg_sequences g) \<Longrightarrow> sg_sequences (snd (on_sequence i f g)) ! k = sg_sequences g ! k \<or>
    sg_sequences (snd (on_sequence i f g)) ! k = snd (f (sg_sequences g ! k))"
proof -
  let ?p = "\<lambda>s. sq_sequence_id s = i"
  have "length (sg_sequences (snd (on_sequence i f g))) = length (sg_sequences g) \<and>
    (k < length (sg_sequences g) \<longrightarrow> sg_sequences (snd (on_sequence i f g)) ! k = sg_sequences g ! k \<or>
      sg_sequences (snd (on_sequence i f g)) ! k = snd (f (sg_sequences g ! k)))"
  proof (cases "update_first ?p (\<lambda>s. snd (f s)) (sg_sequences g)")
    case None
    then show ?thesis by (simp add: on_sequence_def find_None_update [of ?p _ "\<lambda>s. snd (f s)", THEN iffD2])
  next
    case (Some ys)
    then obtain s where "List.find ?p (sg_sequences g) = Some s"
      using find_None_update [of ?p "sg_sequences g" "\<lambda>s. snd (f s)"] by fastforce
    moreover obtain xs x zs where "sg_sequences g = xs @ x # zs" "ys = xs @ snd (f x) # zs"
      using update_first_split [OF Some] by blast
    ultimately show ?thesis using Some by (auto simp: on_sequence_def nth_append nth_Cons split: nat.split)
  qed
  then show "length (sg_sequences (snd (on_sequence i f g))) = length (sg_sequences g)"
    and "k < length (sg_sequences g) \<Longrightarrow> sg_sequences (snd (on_sequence i f g)) ! k = sg_sequences g ! k \<or>
      sg_sequences (snd (on_sequence i f g)) ! k = snd (f (sg_sequences g ! k))" by auto
qed

section \<open>The states of a sequence\<close>

inductive seq_move :: "sequence_call \<Rightarrow> sequence_state \<Rightarrow> sequence_state \<Rightarrow> bool" where
  stay: "seq_move c st st"
| start: "st \<noteq> SEQUENCE_STATE_RUNNING \<Longrightarrow> seq_move (Start_Sequence i t t') st SEQUENCE_STATE_RUNNING"
| stop: "seq_move (Stop_Sequence i) st SEQUENCE_STATE_ABORTED"
| pause: "seq_move (Pause_Sequence i) SEQUENCE_STATE_RUNNING SEQUENCE_STATE_PAUSED"
| resume: "seq_move (Resume_Sequence i t) SEQUENCE_STATE_PAUSED SEQUENCE_STATE_RUNNING"
| complete: "seq_move (Process_Sequences env) SEQUENCE_STATE_RUNNING SEQUENCE_STATE_COMPLETE"
| fault: "seq_move (Process_Sequences env) SEQUENCE_STATE_RUNNING SEQUENCE_STATE_FAULTED"

lemma process_sequence_moves:
  "seq_move (Process_Sequences env) (sq_state s) (sq_state (fst (snd (process_sequence wild env i s reg))))"
  by (cases "ss_params (step_at wild s)")
    (auto simp: process_sequence_def run_step_def next_step_def split_beta Let_def intro: seq_move.intros)

lemma on_sequence_moves:
  assumes "k < length (sg_sequences g)" and "\<And>s. seq_move c (sq_state s) (sq_state (snd (f s)))"
  shows "seq_move c (sq_state (sg_sequences g ! k)) (sq_state (sg_sequences (snd (on_sequence i f g)) ! k))"
  using on_sequence_entries(2) [OF assms(1), of i f] assms(2) seq_move.stay by metis

text \<open>\<^bold>\<open>C34.\<close> The state machine of a sequence: whatever the call, a sequence moves only from any state but
  running to running (start), from any state to aborted (stop), from running to paused (pause), from
  paused to running (resume), or from running to complete or faulted (a pass); no other call changes
  its state.\<close>

theorem sequence_state_machine:
  assumes "k < length (sg_sequences g)"
  shows "seq_move c (sq_state (sg_sequences g ! k)) (sq_state (sg_sequences (snd (seq_exec wild c g)) ! k))"
proof (cases c)
  case (Process_Sequences env)
  show ?thesis
  proof (cases "sg_registry g = None")
    case True
    then show ?thesis by (simp add: Process_Sequences sequence_process_def seq_move.stay)
  next
    case False
    from process_entry [OF assms this] process_sequence_moves show ?thesis
      by (metis (no_types, lifting) Process_Sequences seq_exec.simps(9) split_beta snd_conv)
  qed
qed (use assms in \<open>auto simp: seq_op_defs sequence_create_def sequence_engine_set_registry_def Let_def nth_append
  intro!: on_sequence_moves intro: seq_move.intros\<close>)

definition flush_steps :: "sequence_step list" where
  "flush_steps =
     [\<lparr>ss_station_name = ''rtu-1'', ss_slot = 1, ss_params = Set_Output ACTUATOR_CMD_ON 0\<rparr>,
      \<lparr>ss_station_name = [], ss_slot = 0, ss_params = Wait_Time 1000\<rparr>,
      \<lparr>ss_station_name = ''rtu-1'', ss_slot = 7, ss_params = Wait_Condition INTERLOCK_CONDITION_ABOVE 0x42480000 2000\<rparr>,
      \<lparr>ss_station_name = [], ss_slot = 0, ss_params = End_Step\<rparr>]"

definition flush :: sequence where
  "flush = \<lparr>sq_sequence_id = 1, sq_name = ''flush'', sq_enabled = True, sq_state = SEQUENCE_STATE_RUNNING,
     sq_steps = flush_steps, sq_current_step = 0, sq_step_start_time_ms = 0, sq_sequence_start_time_ms = 0,
     sq_sequence_timeout_ms = 0, sq_default_step_timeout_ms = 0, sq_on_step_change = False, sq_on_complete = False\<rparr>"

definition flush_engine :: sequence_engine where
  "flush_engine = \<lparr>sg_sequences = [flush], sg_next_sequence_id = 2, sg_registry = Some one_device\<rparr>"

definition tick :: "u64 \<Rightarrow> sequence_env" where
  "tick t = \<lparr>qe_now = t, qe_read = (\<lambda>_. t), qe_write = (\<lambda>_. t)\<rparr>"

theorem sequence_state_machine_witness:
  "seq_move (Pause_Sequence 1) SEQUENCE_STATE_RUNNING
     (sq_state (sg_sequences (snd (seq_exec (\<lambda>_. undefined) (Pause_Sequence 1) flush_engine)) ! 0)) \<and>
   sq_state (sg_sequences (snd (seq_exec (\<lambda>_. undefined) (Pause_Sequence 1) flush_engine)) ! 0) = SEQUENCE_STATE_PAUSED"
  using sequence_state_machine [of 0 flush_engine "Pause_Sequence 1" "\<lambda>_. undefined"]
  by (simp add: flush_engine_def flush_def sequence_pause_def on_sequence_def)

section \<open>Progress\<close>

text \<open>Steps that finish within \<open>d\<close> milliseconds: no jump, no longer wait, no wait without a timeout.
  \<open>spaced d t envs\<close>: the passes are at least \<open>d\<close> apart, the first one at least \<open>d\<close> after \<open>t\<close>.\<close>

definition bounded_step :: "u32 \<Rightarrow> sequence_step \<Rightarrow> bool" where
  "bounded_step d st =
     (case ss_params st of
        Wait_Time w \<Rightarrow> w \<le> d
      | Wait_Condition _ _ w \<Rightarrow> 0 < w \<and> w \<le> d
      | Goto_Step _ \<Rightarrow> False
      | _ \<Rightarrow> True)"

primrec spaced :: "u32 \<Rightarrow> u64 \<Rightarrow> sequence_env list \<Rightarrow> bool" where
  "spaced d t [] = True"
| "spaced d t (env # envs) = (ucast d \<le> qe_now env - t \<and> spaced d (qe_now env) envs)"

definition passes :: "(int \<Rightarrow> sequence_step) \<Rightarrow> sequence_env list \<Rightarrow> sequence_engine \<Rightarrow> sequence_engine" where
  "passes wild envs g = fold (\<lambda>env g. snd (sequence_process wild env g)) envs g"

definition ended :: "sequence \<Rightarrow> bool" where
  "ended s \<longleftrightarrow> sq_state s = SEQUENCE_STATE_COMPLETE \<or> sq_state s = SEQUENCE_STATE_FAULTED"

lemma unat_ucast_u64: "unat (ucast (w::u32) :: u64) = unat w"
  using unsigned_less [of w, where 'a = nat] by (simp add: unsigned_ucast_eq take_bit_nat_eq_self)

lemma ucast_le_elapsed: "(w::u32) \<le> d \<Longrightarrow> (ucast d :: u64) \<le> t \<Longrightarrow> ucast w \<le> t"
proof -
  assume "w \<le> d" and d: "(ucast d :: u64) \<le> t"
  then have "(ucast w :: u64) \<le> ucast d" by (simp add: word_le_nat_alt unat_ucast_u64)
  with d show ?thesis by simp
qed

lemma process_sequence_progress:
  assumes "sq_state s = SEQUENCE_STATE_RUNNING" and "0 \<le> sq_current_step s"
    and "\<forall>st \<in> set (sq_steps s). bounded_step d st" and "ucast d \<le> qe_now env - sq_step_start_time_ms s"
    and "s' = fst (snd (process_sequence wild env i s reg))"
  shows "ended s' \<or> sq_state s' = SEQUENCE_STATE_RUNNING \<and> sq_current_step s' = sq_current_step s + 1 \<and>
    sq_current_step s < int (length (sq_steps s)) \<and> sq_step_start_time_ms s' = qe_now env"
proof (cases "sq_current_step s < int (length (sq_steps s))")
  case True
  then have "step_at wild s \<in> set (sq_steps s)" using assms(2) by (simp add: step_at_def nat_less_iff)
  with assms(3) have b: "bounded_step d (step_at wild s)" by blast
  show ?thesis
  proof (cases "0 < sq_sequence_timeout_ms s \<and> ucast (sq_sequence_timeout_ms s) \<le> qe_now env - sq_sequence_start_time_ms s")
    case timeout: True
    with assms(1, 5) show ?thesis by (simp add: process_sequence_def ended_def)
  next
    case False
    let ?r = "run_step env i (step_at wild s) s reg"
    have s': "s' = snd (next_step (qe_now env) (fst ?r) (fst (snd (snd ?r))))"
      using assms(1, 5) True False unfolding process_sequence_def by (simp add: split_beta Let_def)
    show ?thesis
      using assms(1) b ucast_le_elapsed [OF _ assms(4)] True unfolding s' run_step_def bounded_step_def
      by (cases "ss_params (step_at wild s)") (simp_all add: next_step_def ended_def)
  qed
next
  case False
  with assms(1, 5) show ?thesis by (auto simp: process_sequence_def ended_def)
qed

lemma process_keeps_registry: "sg_registry g \<noteq> None \<Longrightarrow> sg_registry (snd (sequence_process wild env g)) \<noteq> None"
proof -
  assume r: "sg_registry g \<noteq> None"
  have "\<And>i s reg. reg \<noteq> None \<Longrightarrow> snd (snd (snd (run_step env i (step_at wild s) s reg))) \<noteq> None"
    by (auto simp: run_step_def rtu_registry_update_actuator_def on_handle_def split_beta Let_def
        simp del: on_handle_simps split: step_params.split)
  then have "\<And>i t. sg_registry t \<noteq> None \<Longrightarrow> sg_registry (snd (process_sequence_at wild env i t)) \<noteq> None"
    by (simp add: process_sequence_at_def process_sequence_def split_beta Let_def)
  with r have "sg_registry (snd (for_each (process_sequence_at wild env) [0..<length (sg_sequences g)] g)) \<noteq> None"
    using for_each_inv [of "\<lambda>t. sg_registry t \<noteq> None" g] by blast
  with r show ?thesis by (simp add: sequence_process_def split_beta Let_def)
qed

lemma passes_ended:
  assumes "k < length (sg_sequences g)" and "ended (sg_sequences g ! k)"
  shows "ended (sg_sequences (passes wild envs g) ! k)"
  using assms
proof (induction envs arbitrary: g)
  case (Cons env envs)
  have "sg_sequences (snd (sequence_process wild env g)) ! k = sg_sequences g ! k"
  proof (cases "sg_registry g = None")
    case False
    obtain reg where "sg_sequences (snd (sequence_process wild env g)) ! k =
        fst (snd (process_sequence wild env k (sg_sequences g ! k) reg))" by (rule process_entry [OF Cons.prems(1) False])
    moreover have "sq_state (sg_sequences g ! k) \<noteq> SEQUENCE_STATE_RUNNING" using Cons.prems(2) by (auto simp: ended_def)
    ultimately show ?thesis by (simp add: process_sequence_idle)
  qed (simp add: sequence_process_def)
  with Cons show ?case by (simp add: passes_def)
qed (simp add: passes_def)

lemma passes_end:
  assumes "k < length (sg_sequences g)" and "sg_registry g \<noteq> None" and "sg_sequences g ! k = s"
    and "sq_state s = SEQUENCE_STATE_RUNNING" and "0 \<le> sq_current_step s"
    and "\<forall>st \<in> set (sq_steps s). bounded_step d st" and "spaced d (sq_step_start_time_ms s) envs"
    and "int (length (sq_steps s)) < sq_current_step s + int (length envs)"
    and "sq_current_step s \<le> int (length (sq_steps s))"
  shows "ended (sg_sequences (passes wild envs g) ! k)"
  using assms
proof (induction envs arbitrary: g s)
  case (Cons env envs)
  let ?g = "snd (sequence_process wild env g)"
  obtain reg where e: "sg_sequences ?g ! k = fst (snd (process_sequence wild env k s reg))"
    using Cons.prems(3) by (auto intro: process_entry [OF Cons.prems(1, 2), of wild env])
  have k: "k < length (sg_sequences ?g)" using Cons.prems(1) by simp
  have "ucast d \<le> qe_now env - sq_step_start_time_ms s" using Cons.prems(7) by simp
  from process_sequence_progress [OF Cons.prems(4, 5, 6) this e]
  consider "ended (sg_sequences ?g ! k)" | "sq_state (sg_sequences ?g ! k) = SEQUENCE_STATE_RUNNING"
      "sq_current_step (sg_sequences ?g ! k) = sq_current_step s + 1" "sq_current_step s < int (length (sq_steps s))"
      "sq_step_start_time_ms (sg_sequences ?g ! k) = qe_now env" by blast
  then have "ended (sg_sequences (passes wild envs ?g) ! k)"
  proof cases
    case 1
    with k show ?thesis by (rule passes_ended)
  next
    case 2
    have "sq_steps (sg_sequences ?g ! k) = sq_steps s" by (simp add: e)
    with 2 Cons.prems show ?thesis
      by (intro Cons.IH [OF k process_keeps_registry [OF Cons.prems(2)] refl]) simp_all
  qed
  then show ?case by (simp add: passes_def)
qed simp

text \<open>\<^bold>\<open>C10.\<close> Progress: a started sequence without jumps, whose waits all last at most \<open>d\<close> milliseconds and
  whose conditions all have a timeout, has completed or faulted after one pass more than it has steps,
  when the passes are at least \<open>d\<close> milliseconds apart.\<close>

theorem sequence_ends:
  assumes "k < length (sg_sequences g)" and "sg_registry g \<noteq> None" and "sg_sequences g ! k = s"
    and "sq_state s = SEQUENCE_STATE_RUNNING" and "sq_current_step s = 0"
    and "\<forall>st \<in> set (sq_steps s). bounded_step d st" and "spaced d (sq_step_start_time_ms s) envs"
    and "length (sq_steps s) < length envs"
  shows "sq_state (sg_sequences (fold (\<lambda>env g. snd (sequence_process wild env g)) envs g) ! k) \<in>
    {SEQUENCE_STATE_COMPLETE, SEQUENCE_STATE_FAULTED}"
  using passes_end [OF assms(1-4), of d envs wild] assms(5-) by (simp add: passes_def ended_def)

theorem sequence_ends_witness:
  "sq_state (sg_sequences (fold (\<lambda>env g. snd (sequence_process (\<lambda>_. undefined) env g))
      (map tick [2000, 4000, 6000, 8000, 10000]) flush_engine) ! 0) \<in> {SEQUENCE_STATE_COMPLETE, SEQUENCE_STATE_FAULTED}"
  by (rule sequence_ends [where s = flush and d = 2000])
    (simp_all add: flush_engine_def flush_def flush_steps_def bounded_step_def tick_def)

section \<open>The step index\<close>

definition goto_ok :: "sequence_step \<Rightarrow> bool" where
  "goto_ok st = (case ss_params st of Goto_Step t \<Rightarrow> 0 \<le> t | _ \<Rightarrow> True)"

definition sequence_wf :: "sequence \<Rightarrow> bool" where
  "sequence_wf s \<longleftrightarrow> 0 \<le> sq_current_step s \<and> length (sq_steps s) \<le> MAX_SEQUENCE_STEPS \<and> (\<forall>st \<in> set (sq_steps s). goto_ok st)"

definition sequences_wf :: "sequence_engine \<Rightarrow> bool" where
  "sequences_wf g \<longleftrightarrow> length (sg_sequences g) \<le> WTC_MAX_SEQUENCES \<and> (\<forall>s \<in> set (sg_sequences g). sequence_wf s)"

lemma sequence_wf_step:
  assumes "sequence_wf s"
  shows "process_sequence wild env i s reg = process_sequence wild' env i s reg"
    and "sequence_wf (fst (snd (process_sequence wild env i s reg)))"
proof -
  show "process_sequence wild env i s reg = process_sequence wild' env i s reg"
    using assms by (simp add: process_sequence_def step_at_def sequence_wf_def)
  have "0 \<le> sq_current_step (fst (snd (process_sequence wild env i s reg)))"
  proof (cases "sq_current_step s < int (length (sq_steps s))")
    case True
    then have "step_at wild s \<in> set (sq_steps s)" using assms by (simp add: sequence_wf_def step_at_def nat_less_iff)
    then have "goto_ok (step_at wild s)" using assms by (simp add: sequence_wf_def)
    moreover have "0 \<le> sq_current_step s" using assms by (simp add: sequence_wf_def)
    moreover have "0 \<le> sq_current_step (snd (next_step t (fst (run_step env i (step_at wild s) s reg))
        (fst (snd (snd (run_step env i (step_at wild s) s reg))))))" if "sq_state s = SEQUENCE_STATE_RUNNING" for t
      using calculation that
      by (cases "ss_params (step_at wild s)") (simp_all add: run_step_def next_step_def goto_ok_def)
    ultimately show ?thesis by (simp add: process_sequence_def split_beta Let_def)
  next
    case False
    then show ?thesis using assms by (simp add: process_sequence_def sequence_wf_def)
  qed
  then show "sequence_wf (fst (snd (process_sequence wild env i s reg)))"
    using assms by (simp add: sequence_wf_def)
qed

lemma process_at_wf:
  assumes "sequences_wf g" and "i < length (sg_sequences g)"
  shows "process_sequence_at wild env i g = process_sequence_at wild' env i g"
    and "sequences_wf (snd (process_sequence_at wild env i g))"
proof -
  have wf: "sequence_wf (sg_sequences g ! i)" using assms by (simp add: sequences_wf_def)
  from sequence_wf_step(1) [OF wf, of wild env i _ wild']
  show "process_sequence_at wild env i g = process_sequence_at wild' env i g" by (simp add: process_sequence_at_def)
  show "sequences_wf (snd (process_sequence_at wild env i g))"
    using assms sequence_wf_step(2) [OF wf, of wild env i "sg_registry g"]
    by (auto simp: sequences_wf_def process_at_sequences dest!: subsetD [OF set_update_subset_insert])
qed

lemma sequence_process_wf:
  assumes "sequences_wf g"
  shows "sequence_process wild env g = sequence_process wild' env g" and "sequences_wf (snd (sequence_process wild env g))"
proof -
  let ?P = "\<lambda>t. sequences_wf t \<and> length (sg_sequences t) = length (sg_sequences g)"
  have step: "?P (snd (process_sequence_at w env i t))" if "i \<in> set [0..<length (sg_sequences g)]" "?P t" for w i t
    using that process_at_wf(2) [of t i w env] by (simp add: process_at_sequences)
  have P: "?P g" using assms by simp
  have eq: "process_sequence_at wild env i t = process_sequence_at wild' env i t"
    if "i \<in> set [0..<length (sg_sequences g)]" "?P t" for i t
    using that by (intro process_at_wf(1)) simp_all
  have "for_each (process_sequence_at wild env) [0..<length (sg_sequences g)] g =
      for_each (process_sequence_at wild' env) [0..<length (sg_sequences g)] g"
    by (rule for_each_cong [of ?P, OF P eq step])
  moreover have "?P (snd (for_each (process_sequence_at wild env) [0..<length (sg_sequences g)] g))"
    by (rule for_each_inv [of ?P, OF P step])
  ultimately show "sequence_process wild env g = sequence_process wild' env g" "sequences_wf (snd (sequence_process wild env g))"
    using assms by (simp_all add: sequence_process_def split_beta Let_def)
qed

lemma on_sequence_wf:
  assumes "sequences_wf g" and "\<And>s. sequence_wf s \<Longrightarrow> sequence_wf (snd (f s))"
  shows "sequences_wf (snd (on_sequence i f g))"
proof -
  have "sequence_wf (sg_sequences (snd (on_sequence i f g)) ! k)" if k: "k < length (sg_sequences g)" for k
  proof -
    have "sequence_wf (sg_sequences g ! k)" using assms(1) k by (simp add: sequences_wf_def)
    with on_sequence_entries(2) [OF k, of i f] assms(2) show ?thesis by auto
  qed
  then show ?thesis using assms(1) by (auto simp: sequences_wf_def on_sequence_entries(1) in_set_conv_nth)
qed

fun call_ok :: "sequence_call \<Rightarrow> bool" where
  "call_ok (Add_Step i st) = goto_ok st"
| "call_ok _ = True"

lemma seq_op_wf:
  assumes "sequences_wf g"
  shows "goto_ok st \<Longrightarrow> sequences_wf (snd (sequence_add_step i (Some st) g))"
    and "sequences_wf (snd (sequence_start i t t' g))" and "sequences_wf (snd (sequence_stop i g))"
    and "sequences_wf (snd (sequence_pause i g))" and "sequences_wf (snd (sequence_resume i t g))"
    and "sequences_wf (snd (sequence_set_timeouts i d d' g))"
  unfolding seq_op_defs option.case by (rule on_sequence_wf [OF assms]; simp add: sequence_wf_def)+

lemma seq_exec_wf:
  assumes "sequences_wf g" and "call_ok c"
  shows "seq_exec wild c g = seq_exec wild' c g \<and> sequences_wf (snd (seq_exec wild c g))"
proof (cases c)
  case (Create_Sequence n)
  then show ?thesis using assms(1)
    by (auto simp: sequence_create_def Let_def sequences_wf_def sequence_wf_def MAX_SEQUENCE_STEPS_def)
next
  case (Process_Sequences env)
  with sequence_process_wf(2) [OF assms(1), of wild' env] sequence_process_wf(1) [OF assms(1), of wild env wild']
  show ?thesis by (simp add: split_beta)
next
  case (Set_Registry r)
  then show ?thesis using assms(1) by (simp add: sequence_engine_set_registry_def sequences_wf_def)
qed (use assms in \<open>simp_all add: seq_op_wf\<close>)

lemma run_calls_wf:
  assumes "sequences_wf g" and "\<forall>c \<in> set calls. call_ok c"
  shows "run_calls (seq_exec wild) calls g = run_calls (seq_exec wild') calls g \<and>
    sequences_wf (snd (run_calls (seq_exec wild') calls g))"
  using assms
proof (induction calls arbitrary: g)
  case (Cons c cs)
  have "seq_exec wild c g = seq_exec wild' c g" "sequences_wf (snd (seq_exec wild' c g))"
    using seq_exec_wf [of g c wild' wild'] seq_exec_wf [of g c wild wild'] Cons.prems by simp_all
  with Cons.IH [of "snd (seq_exec wild' c g)"] Cons.prems show ?case by (simp add: split_beta Let_def)
qed simp

lemma initial_wf: "sequences_wf initial_sequence_engine"
  by (simp add: initial_sequence_engine_def sequences_wf_def)

text \<open>Memory safety of the step index: starting from the initial engine, if no step that is added
  jumps to a negative target, then for every sequence of calls the number of sequences and of steps
  stays within the arrays, the current step of every sequence is never negative, and no reply depends
  on what lies outside the step arrays.\<close>

theorem sequence_index_safe:
  assumes "\<forall>c \<in> set calls. call_ok c"
  shows "run_calls (seq_exec wild) calls initial_sequence_engine = run_calls (seq_exec wild') calls initial_sequence_engine \<and>
    sequences_wf (snd (run_calls (seq_exec wild') calls initial_sequence_engine))"
  by (rule run_calls_wf [OF initial_wf assms])

theorem sequence_index_safe_witness:
  "sequences_wf (snd (run_calls (seq_exec (\<lambda>_. hd flush_steps))
    [Create_Sequence ''loop'', Add_Step 1 \<lparr>ss_station_name = [], ss_slot = 0, ss_params = Goto_Step 0\<rparr>,
     Set_Registry (Some one_device), Start_Sequence 1 0 0, Process_Sequences (tick 10)] initial_sequence_engine))"
  using sequence_index_safe [where calls = "[Create_Sequence ''loop'',
      Add_Step 1 \<lparr>ss_station_name = [], ss_slot = 0, ss_params = Goto_Step 0\<rparr>,
      Set_Registry (Some one_device), Start_Sequence 1 0 0, Process_Sequences (tick 10)]"]
  by (simp add: goto_ok_def del: run_calls.simps)

section \<open>The default step timeout\<close>

definition clear_default :: "sequence \<Rightarrow> sequence" where
  "clear_default s = s\<lparr>sq_default_step_timeout_ms := 0\<rparr>"

definition clear_defaults :: "sequence_engine \<Rightarrow> sequence_engine" where
  "clear_defaults g = g\<lparr>sg_sequences := map clear_default (sg_sequences g)\<rparr>"

lemma process_sequence_clear:
  "process_sequence wild env i (clear_default s) reg =
    (case process_sequence wild env i s reg of (evs, s', reg') \<Rightarrow> (evs, clear_default s', reg'))"
proof -
  have at: "step_at wild (clear_default s) = step_at wild s" by (simp add: step_at_def clear_default_def)
  have run: "run_step env i st (clear_default s) reg =
      (case run_step env i st s reg of (c, evs, s', reg') \<Rightarrow> (c, evs, clear_default s', reg'))" for st
    by (cases "ss_params st") (simp_all add: run_step_def clear_default_def)
  have nxt: "next_step t c (clear_default s') = (case next_step t c s' of (evs, s'') \<Rightarrow> (evs, clear_default s''))" for t c s'
    by (simp add: next_step_def clear_default_def)
  have "clear_default (s\<lparr>sq_state := st\<rparr>) = (clear_default s)\<lparr>sq_state := st\<rparr>" for st by (simp add: clear_default_def)
  moreover have "sq_state (clear_default s) = sq_state s" "sq_sequence_timeout_ms (clear_default s) = sq_sequence_timeout_ms s"
    "sq_sequence_start_time_ms (clear_default s) = sq_sequence_start_time_ms s" "sq_steps (clear_default s) = sq_steps s"
    "sq_current_step (clear_default s) = sq_current_step s" "sq_on_complete (clear_default s) = sq_on_complete s"
    "sq_sequence_id (clear_default s) = sq_sequence_id s" by (simp_all add: clear_default_def)
  ultimately show ?thesis by (simp add: process_sequence_def at run nxt split_beta Let_def)
qed

lemma for_each_clear:
  "\<forall>i \<in> set is. i < length (sg_sequences g) \<Longrightarrow> for_each (process_sequence_at wild env) is (clear_defaults g) =
    apsnd clear_defaults (for_each (process_sequence_at wild env) is g)"
proof (induction "is" arbitrary: g)
  case (Cons i "is")
  have step: "process_sequence_at wild env i (clear_defaults g) = apsnd clear_defaults (process_sequence_at wild env i g)"
    using Cons.prems
    by (simp add: process_sequence_at_def clear_defaults_def process_sequence_clear split_beta Let_def map_update)
  have "\<forall>j \<in> set is. j < length (sg_sequences (snd (process_sequence_at wild env i g)))"
    using Cons.prems by (simp add: process_at_sequences)
  from Cons.IH [OF this] show ?case by (simp add: step split_beta Let_def apsnd_def map_prod_def)
qed simp

text \<open>The default step timeout has no effect: a pass makes the same callbacks, returns the same code
  and leaves the same state, up to that field, whatever default timeouts the sequences have. A wait
  without a timeout of its own therefore waits without limit.\<close>

theorem default_step_timeout_ignored:
  "sequence_process wild env (clear_defaults g) = apsnd clear_defaults (sequence_process wild env g)"
  using for_each_clear [of "[0..<length (sg_sequences g)]" g wild env]
  by (cases "sg_registry g") (simp_all add: sequence_process_def split_beta Let_def clear_defaults_def)

end
