(* ===== verification/Frame.thy ===== *)
theory Frame
  imports Buffer
begin

text \<open>
  PROFINET frames (\<^verbatim>\<open>src/src/profinet/profinet_frame.c\<close>): the builder that appends headers and DCP requests
  to a buffer, the parser that walks over a received frame, and the text forms of IP and MAC
  addresses.

  The buffer behind the builder's pointer is a list of bytes. \<open>fb_overrun\<close> is not a field of the
  struct: it records that a store went past the buffer, which the C code does not notice. A MAC
  address is a list of six bytes.
\<close>

section \<open>Constants\<close>

definition ETH_ADDR_LEN :: nat where "ETH_ADDR_LEN = 6"
definition ETH_HEADER_LEN :: nat where "ETH_HEADER_LEN = 14"
definition ETH_MIN_FRAME_LEN :: nat where "ETH_MIN_FRAME_LEN = 60"
definition PROFINET_ETHERTYPE :: u16 where "PROFINET_ETHERTYPE = 0x8892"
definition PROFINET_ETHERTYPE_VLAN :: u16 where "PROFINET_ETHERTYPE_VLAN = 0x8100"
definition PROFINET_FRAME_ID_DCP_GETSET :: u16 where "PROFINET_FRAME_ID_DCP_GETSET = 0xFEFD"
definition PROFINET_FRAME_ID_DCP_IDENT :: u16 where "PROFINET_FRAME_ID_DCP_IDENT = 0xFEFE"
definition DCP_SERVICE_SET :: u8 where "DCP_SERVICE_SET = 4"
definition DCP_SERVICE_IDENTIFY :: u8 where "DCP_SERVICE_IDENTIFY = 5"
definition DCP_SERVICE_TYPE_REQUEST :: u8 where "DCP_SERVICE_TYPE_REQUEST = 0"
definition DCP_OPTION_DEVICE :: u8 where "DCP_OPTION_DEVICE = 2"
definition DCP_OPTION_ALL :: u8 where "DCP_OPTION_ALL = 0xFF"
definition DCP_SUBOPTION_DEVICE_NAME :: u8 where "DCP_SUBOPTION_DEVICE_NAME = 2"

lemmas frame_consts = ETH_ADDR_LEN_def ETH_HEADER_LEN_def

section \<open>The builder\<close>

record frame_builder =
  fb_buffer :: "u8 list"
  fb_capacity :: nat
  fb_position :: nat
  fb_src_mac :: "u8 list"
  fb_overrun :: bool

text \<open>Store bytes at the position and advance it.\<close>

definition put :: "u8 list \<Rightarrow> frame_builder \<Rightarrow> frame_builder" where
  "put bs b = b\<lparr>fb_buffer := memcpy_at (fb_buffer b) (fb_position b) bs, fb_position := fb_position b + length bs,
     fb_overrun := (fb_overrun b \<or> length (fb_buffer b) < fb_position b + length bs)\<rparr>"

definition bytes_of :: "string \<Rightarrow> u8 list" where
  "bytes_of s = map of_char s"

definition frame_builder_init ::
  "frame_builder option \<Rightarrow> u8 list option \<Rightarrow> nat \<Rightarrow> u8 list option \<Rightarrow> wtc_result \<times> frame_builder option" where
  "frame_builder_init builder buffer capacity src_mac =
     on_handle WTC_ERROR_INVALID_PARAM (\<lambda>b.
       case buffer of
         None \<Rightarrow> (WTC_ERROR_INVALID_PARAM, b)
       | Some buf \<Rightarrow> (WTC_OK, \<lparr>fb_buffer = buf, fb_capacity = capacity, fb_position = 0,
           fb_src_mac = (case src_mac of Some m \<Rightarrow> take ETH_ADDR_LEN m | None \<Rightarrow> replicate ETH_ADDR_LEN 0),
           fb_overrun = False\<rparr>)) builder"

definition frame_builder_reset :: "frame_builder option \<Rightarrow> frame_builder option" where
  "frame_builder_reset builder = map_option (\<lambda>b. b\<lparr>fb_position := 0\<rparr>) builder"

definition frame_builder_length :: "frame_builder option \<Rightarrow> nat" where
  "frame_builder_length builder = with_handle 0 fb_position builder"

definition frame_build_ethernet :: "frame_builder option \<Rightarrow> u8 list option \<Rightarrow> u16 \<Rightarrow> wtc_result \<times> frame_builder option" where
  "frame_build_ethernet builder dst_mac ethertype =
     on_handle WTC_ERROR_INVALID_PARAM (\<lambda>b.
       case dst_mac of
         None \<Rightarrow> (WTC_ERROR_INVALID_PARAM, b)
       | Some dst \<Rightarrow>
           if fb_capacity b < size_add (fb_position b) ETH_HEADER_LEN then (WTC_ERROR_FULL, b)
           else
             (let b = put (take ETH_ADDR_LEN dst) b;
                  b = put (take ETH_ADDR_LEN (fb_src_mac b)) b;
                  b = put (be16 ethertype) b
              in (WTC_OK, b))) builder"

definition frame_build_rt_header :: "frame_builder option \<Rightarrow> u16 \<Rightarrow> wtc_result \<times> frame_builder option" where
  "frame_build_rt_header builder frame_id =
     on_handle WTC_ERROR_INVALID_PARAM (\<lambda>b.
       if fb_capacity b < size_add (fb_position b) 2 then (WTC_ERROR_FULL, b)
       else (WTC_OK, put (be16 frame_id) b)) builder"

text \<open>The length field is a \<open>uint16_t\<close>: the sum is cut to sixteen bits.\<close>

definition identify_data_length :: "string option \<Rightarrow> u16" where
  "identify_data_length station_name =
     (case station_name of
        None \<Rightarrow> 4
      | Some n \<Rightarrow> (let data_length = of_nat (4 + 4 + length n) in
                   if odd (length n) then data_length + 1 else data_length))"

definition put_dcp_header :: "u16 \<Rightarrow> u8 \<Rightarrow> u32 \<Rightarrow> u16 \<Rightarrow> u16 \<Rightarrow> frame_builder \<Rightarrow> frame_builder" where
  "put_dcp_header frame_id service xid response_delay data_length b =
     (let b = put (be16 frame_id) b;
          b = put [service] b;
          b = put [DCP_SERVICE_TYPE_REQUEST] b;
          b = put (be32 xid) b;
          b = put (be16 response_delay) b
      in put (be16 data_length) b)"

definition put_dcp_block :: "u8 \<Rightarrow> u8 \<Rightarrow> u8 list \<Rightarrow> frame_builder \<Rightarrow> frame_builder" where
  "put_dcp_block option suboption data b =
     (let b = put [option] b;
          b = put [suboption] b;
          b = put (be16 (of_nat (length data))) b;
          b = put data b
      in if odd (length data) then put [0] b else b)"

definition frame_build_dcp_identify :: "frame_builder option \<Rightarrow> u32 \<Rightarrow> string option \<Rightarrow> wtc_result \<times> frame_builder option" where
  "frame_build_dcp_identify builder xid station_name =
     on_handle WTC_ERROR_INVALID_PARAM (\<lambda>b.
       let data_length = identify_data_length station_name in
       if fb_capacity b < size_add (size_add (size_add (fb_position b) 2) 10) (unat data_length)
       then (WTC_ERROR_FULL, b)
       else
         (let b = put_dcp_header PROFINET_FRAME_ID_DCP_IDENT DCP_SERVICE_IDENTIFY xid 0x80 data_length b in
          (WTC_OK, case station_name of
             Some n \<Rightarrow> put_dcp_block DCP_OPTION_DEVICE DCP_SUBOPTION_DEVICE_NAME (bytes_of n) b
           | None \<Rightarrow> put (be16 0) (put [0xFF] (put [DCP_OPTION_ALL] b))))) builder"

definition set_data_length :: "nat \<Rightarrow> u16" where
  "set_data_length n = (let total = of_nat (4 + n) in if odd n then total + 1 else total)"

definition frame_build_dcp_set ::
  "frame_builder option \<Rightarrow> u8 list option \<Rightarrow> u32 \<Rightarrow> u8 \<Rightarrow> u8 \<Rightarrow> u8 list option \<Rightarrow> wtc_result \<times> frame_builder option" where
  "frame_build_dcp_set builder dst_mac xid option suboption data =
     on_handle WTC_ERROR_INVALID_PARAM (\<lambda>b.
       case (dst_mac, data) of
         (Some _, Some d) \<Rightarrow>
           (let total_data_len = set_data_length (length d) in
            if fb_capacity b < size_add (size_add (size_add (fb_position b) 2) 10) (unat total_data_len)
            then (WTC_ERROR_FULL, b)
            else (WTC_OK, put_dcp_block option suboption d
                   (put_dcp_header PROFINET_FRAME_ID_DCP_GETSET DCP_SERVICE_SET xid 1 total_data_len b)))
       | _ \<Rightarrow> (WTC_ERROR_INVALID_PARAM, b)) builder"

definition frame_append_data :: "frame_builder option \<Rightarrow> u8 list option \<Rightarrow> wtc_result \<times> frame_builder option" where
  "frame_append_data builder data =
     on_handle WTC_ERROR_INVALID_PARAM (\<lambda>b.
       case data of
         None \<Rightarrow> (WTC_ERROR_INVALID_PARAM, b)
       | Some d \<Rightarrow>
           if fb_capacity b < size_add (fb_position b) (length d) then (WTC_ERROR_FULL, b)
           else (WTC_OK, put d b)) builder"

text \<open>The padding loop.\<close>

function pad_loop :: "nat \<Rightarrow> frame_builder \<Rightarrow> frame_builder" where
  "pad_loop min_length b =
     (if fb_position b < min_length \<and> fb_position b < fb_capacity b then pad_loop min_length (put [0] b) else b)"
  by pat_completeness auto
termination by (relation "measure (\<lambda>(n, b). n - fb_position b)") (auto simp: put_def)

declare pad_loop.simps [simp del]

definition frame_append_padding :: "frame_builder option \<Rightarrow> nat \<Rightarrow> wtc_result \<times> frame_builder option" where
  "frame_append_padding builder min_length =
     on_handle WTC_ERROR_INVALID_PARAM (\<lambda>b. (WTC_OK, pad_loop min_length b)) builder"

section \<open>The parser\<close>

record frame_parser =
  fp_buffer :: "u8 list"
  fp_length :: nat
  fp_position :: nat

record dcp_header =
  dh_service_id :: u8
  dh_service_type :: u8
  dh_xid :: u32
  dh_response_delay :: u16
  dh_data_length :: u16

record dcp_block_header =
  db_option :: u8
  db_suboption :: u8
  db_length :: u16

definition frame_parser_init :: "frame_parser option \<Rightarrow> u8 list option \<Rightarrow> nat \<Rightarrow> wtc_result \<times> frame_parser option" where
  "frame_parser_init parser buffer len =
     on_handle WTC_ERROR_INVALID_PARAM (\<lambda>p.
       case buffer of
         None \<Rightarrow> (WTC_ERROR_INVALID_PARAM, p)
       | Some buf \<Rightarrow> (WTC_OK, \<lparr>fp_buffer = buf, fp_length = len, fp_position = 0\<rparr>)) parser"

definition frame_parser_remaining :: "frame_parser option \<Rightarrow> nat" where
  "frame_parser_remaining parser = with_handle 0 (\<lambda>p. size_sub (fp_length p) (fp_position p)) parser"

abbreviation too_short :: "frame_parser \<Rightarrow> nat \<Rightarrow> bool" where
  "too_short p n \<equiv> frame_parser_remaining (Some p) < n"

definition skip :: "nat \<Rightarrow> frame_parser \<Rightarrow> frame_parser" where
  "skip n p = p\<lparr>fp_position := fp_position p + n\<rparr>"

definition byte_at :: "frame_parser \<Rightarrow> nat \<Rightarrow> u8" where
  "byte_at p i = fp_buffer p ! (fp_position p + i)"

definition u16_at :: "frame_parser \<Rightarrow> nat \<Rightarrow> u16" where
  "u16_at p i = of_be16 (byte_at p i) (byte_at p (i + 1))"

definition u32_at :: "frame_parser \<Rightarrow> nat \<Rightarrow> u32" where
  "u32_at p i = of_be32 (byte_at p i) (byte_at p (i + 1)) (byte_at p (i + 2)) (byte_at p (i + 3))"

definition bytes_at :: "frame_parser \<Rightarrow> nat \<Rightarrow> nat \<Rightarrow> u8 list" where
  "bytes_at p i n = mem_read (fp_buffer p) (fp_position p + i) n"

text \<open>The outputs of \<open>frame_parse_ethernet\<close>: the two addresses and the type, each only if its pointer is
  not NULL. A frame that ends inside its VLAN tag is refused after the addresses were stored.\<close>

type_synonym ethernet_out = "u8 list option \<times> u8 list option \<times> u16 option"

definition frame_parse_ethernet ::
  "frame_parser option \<Rightarrow> bool \<Rightarrow> bool \<Rightarrow> bool \<Rightarrow> (wtc_result \<times> ethernet_out) \<times> frame_parser option" where
  "frame_parse_ethernet parser dst_ok src_ok type_ok =
     on_handle (WTC_ERROR_INVALID_PARAM, None, None, None) (\<lambda>p.
       if too_short p ETH_HEADER_LEN then ((WTC_ERROR_INVALID_PARAM, None, None, None), p)
       else
         (let dst = (if dst_ok then Some (bytes_at p 0 ETH_ADDR_LEN) else None);
              p = skip ETH_ADDR_LEN p;
              src = (if src_ok then Some (bytes_at p 0 ETH_ADDR_LEN) else None);
              p = skip ETH_ADDR_LEN p;
              etype = u16_at p 0;
              p = skip 2 p
          in if etype = PROFINET_ETHERTYPE_VLAN
             then (if too_short p 4 then ((WTC_ERROR_PROTOCOL, dst, src, None), p)
                   else
                     (let p = skip 2 p; etype = u16_at p 0; p = skip 2 p in
                      ((WTC_OK, dst, src, if type_ok then Some etype else None), p)))
             else ((WTC_OK, dst, src, if type_ok then Some etype else None), p))) parser"

definition frame_parse_rt_header :: "frame_parser option \<Rightarrow> bool \<Rightarrow> (wtc_result \<times> u16 option) \<times> frame_parser option" where
  "frame_parse_rt_header parser id_ok =
     on_handle (WTC_ERROR_INVALID_PARAM, None) (\<lambda>p.
       if too_short p 2 then ((WTC_ERROR_INVALID_PARAM, None), p)
       else ((WTC_OK, if id_ok then Some (u16_at p 0) else None), skip 2 p)) parser"

definition frame_parse_dcp_header :: "frame_parser option \<Rightarrow> bool \<Rightarrow> (wtc_result \<times> dcp_header option) \<times> frame_parser option" where
  "frame_parse_dcp_header parser header_ok =
     on_handle (WTC_ERROR_INVALID_PARAM, None) (\<lambda>p.
       if \<not> header_ok \<or> too_short p 10 then ((WTC_ERROR_INVALID_PARAM, None), p)
       else
         ((WTC_OK, Some \<lparr>dh_service_id = byte_at p 0, dh_service_type = byte_at p 1, dh_xid = u32_at p 2,
             dh_response_delay = u16_at p 6, dh_data_length = u16_at p 8\<rparr>), skip 10 p)) parser"

text \<open>The data of a block are given as their offset in the buffer. A block longer than the frame is
  refused after its header was stored and passed.\<close>

definition frame_parse_dcp_block ::
  "frame_parser option \<Rightarrow> bool \<Rightarrow> bool \<Rightarrow> (wtc_result \<times> dcp_block_header option \<times> nat option) \<times> frame_parser option" where
  "frame_parse_dcp_block parser header_ok data_ok =
     on_handle (WTC_ERROR_INVALID_PARAM, None, None) (\<lambda>p.
       if \<not> header_ok \<or> too_short p 4 then ((WTC_ERROR_INVALID_PARAM, None, None), p)
       else
         (let header = \<lparr>db_option = byte_at p 0, db_suboption = byte_at p 1, db_length = u16_at p 2\<rparr>;
              p = skip 4 p
          in if too_short p (unat (db_length header)) then ((WTC_ERROR_PROTOCOL, Some header, None), p)
             else ((WTC_OK, Some header, if data_ok then Some (fp_position p) else None),
                   skip (unat (db_length header)) p))) parser"

definition frame_read_bytes :: "frame_parser option \<Rightarrow> bool \<Rightarrow> nat \<Rightarrow> (wtc_result \<times> u8 list option) \<times> frame_parser option" where
  "frame_read_bytes parser data_ok len =
     on_handle (WTC_ERROR_INVALID_PARAM, None) (\<lambda>p.
       if \<not> data_ok \<or> too_short p len then ((WTC_ERROR_INVALID_PARAM, None), p)
       else ((WTC_OK, Some (bytes_at p 0 len)), skip len p)) parser"

definition frame_skip_bytes :: "frame_parser option \<Rightarrow> nat \<Rightarrow> wtc_result \<times> frame_parser option" where
  "frame_skip_bytes parser len =
     on_handle WTC_ERROR_INVALID_PARAM (\<lambda>p.
       if too_short p len then (WTC_ERROR_INVALID_PARAM, p) else (WTC_OK, skip len p)) parser"

definition frame_read_u8 :: "frame_parser option \<Rightarrow> bool \<Rightarrow> (wtc_result \<times> u8 option) \<times> frame_parser option" where
  "frame_read_u8 parser val_ok =
     on_handle (WTC_ERROR_INVALID_PARAM, None) (\<lambda>p.
       if \<not> val_ok \<or> too_short p 1 then ((WTC_ERROR_INVALID_PARAM, None), p)
       else ((WTC_OK, Some (byte_at p 0)), skip 1 p)) parser"

definition frame_read_u16 :: "frame_parser option \<Rightarrow> bool \<Rightarrow> (wtc_result \<times> u16 option) \<times> frame_parser option" where
  "frame_read_u16 parser val_ok =
     on_handle (WTC_ERROR_INVALID_PARAM, None) (\<lambda>p.
       if \<not> val_ok \<or> too_short p 2 then ((WTC_ERROR_INVALID_PARAM, None), p)
       else ((WTC_OK, Some (u16_at p 0)), skip 2 p)) parser"

definition frame_read_u32 :: "frame_parser option \<Rightarrow> bool \<Rightarrow> (wtc_result \<times> u32 option) \<times> frame_parser option" where
  "frame_read_u32 parser val_ok =
     on_handle (WTC_ERROR_INVALID_PARAM, None) (\<lambda>p.
       if \<not> val_ok \<or> too_short p 4 then ((WTC_ERROR_INVALID_PARAM, None), p)
       else ((WTC_OK, Some (u32_at p 0)), skip 4 p)) parser"

section \<open>Addresses as text\<close>

definition octet :: "u32 \<Rightarrow> nat \<Rightarrow> string" where
  "octet ip n = fmt_u (unat (drop_bit n ip AND 0xFF))"

definition ip_to_string :: "u32 \<Rightarrow> bool \<Rightarrow> nat \<Rightarrow> string option" where
  "ip_to_string ip buf_ok buf_len =
     (if \<not> buf_ok \<or> buf_len < 16 then None
      else Some (cstr_copy (buf_len - 1)
        (octet ip 24 @ ''.'' @ octet ip 16 @ ''.'' @ octet ip 8 @ ''.'' @ octet ip 0)))"

text \<open>
  What \<open>sscanf\<close> does for \<open>%u\<close> and \<open>%x\<close>: skip white space, an optional sign, for \<open>%x\<close> an optional
  prefix \<open>0x\<close>, then the longest run of digits, at least one. A value that does not fit into
  \<open>unsigned int\<close> is left open by the C standard: \<open>big\<close>.
\<close>

definition is_space :: "char \<Rightarrow> bool" where
  "is_space c \<longleftrightarrow> of_char c \<in> {9, 10, 11, 12, 13, 32 :: nat}"

definition digit_value :: "char \<Rightarrow> nat option" where
  "digit_value c =
     (let n = of_char c in
      if 48 \<le> n \<and> n \<le> 57 then Some (n - 48)
      else if 65 \<le> n \<and> n \<le> 70 then Some (n - 55)
      else if 97 \<le> n \<and> n \<le> 102 then Some (n - 87)
      else None)"

definition is_digit :: "nat \<Rightarrow> char \<Rightarrow> bool" where
  "is_digit base c = (case digit_value c of None \<Rightarrow> False | Some d \<Rightarrow> d < base)"

definition digits_value :: "nat \<Rightarrow> string \<Rightarrow> nat" where
  "digits_value base = foldl (\<lambda>n c. n * base + the (digit_value c)) 0"

definition scan_sign :: "string \<Rightarrow> bool \<times> string" where
  "scan_sign s =
     (case s of
        [] \<Rightarrow> (False, [])
      | c # cs \<Rightarrow> if c = CHR ''-'' then (True, cs) else if c = CHR ''+'' then (False, cs) else (False, s))"

definition scan_prefix :: "nat \<Rightarrow> string \<Rightarrow> string" where
  "scan_prefix base s = (if base = 16 \<and> (take 2 s = ''0x'' \<or> take 2 s = ''0X'') then drop 2 s else s)"

definition scan_number :: "(bool \<Rightarrow> nat \<Rightarrow> u32) \<Rightarrow> nat \<Rightarrow> string \<Rightarrow> (u32 \<times> string) option" where
  "scan_number big base s =
     (let (neg, s) = scan_sign (dropWhile is_space s);
          s = scan_prefix base s;
          ds = takeWhile (is_digit base) s;
          v = digits_value base ds
      in if ds = [] then None
         else Some (if 2 ^ 32 \<le> v then big neg v else if neg then - of_nat v else of_nat v, drop (length ds) s))"

text \<open>\<open>n\<close> numbers separated by a literal character; the text after the last one is not looked at.\<close>

fun scan_list :: "(bool \<Rightarrow> nat \<Rightarrow> u32) \<Rightarrow> nat \<Rightarrow> char \<Rightarrow> nat \<Rightarrow> string \<Rightarrow> u32 list option" where
  "scan_list big base sep 0 s = Some []"
| "scan_list big base sep (Suc n) s =
     (case scan_number big base s of
        None \<Rightarrow> None
      | Some (v, rest) \<Rightarrow>
          if n = 0 then Some [v]
          else (case rest of
                  c # cs \<Rightarrow> if c = sep then map_option ((#) v) (scan_list big base sep n cs) else None
                | [] \<Rightarrow> None))"

definition string_to_ip :: "(bool \<Rightarrow> nat \<Rightarrow> u32) \<Rightarrow> string option \<Rightarrow> u32" where
  "string_to_ip big str =
     (case str of
        None \<Rightarrow> 0
      | Some s \<Rightarrow>
          (case scan_list big 10 CHR ''.'' 4 s of
             Some [a, b, c, d] \<Rightarrow> push_bit 24 a OR push_bit 16 b OR push_bit 8 c OR d
           | _ \<Rightarrow> 0))"

definition hex_digit :: "nat \<Rightarrow> char" where
  "hex_digit d = char_of (if d < 10 then 48 + d else 55 + d)"

definition fmt_02X :: "u8 \<Rightarrow> string" where
  "fmt_02X b = [hex_digit (unat b div 16), hex_digit (unat b mod 16)]"

definition mac_text :: "u8 list \<Rightarrow> string" where
  "mac_text m = fmt_02X (m ! 0) @ '':'' @ fmt_02X (m ! 1) @ '':'' @ fmt_02X (m ! 2) @ '':'' @
     fmt_02X (m ! 3) @ '':'' @ fmt_02X (m ! 4) @ '':'' @ fmt_02X (m ! 5)"

definition mac_to_string :: "u8 list option \<Rightarrow> bool \<Rightarrow> nat \<Rightarrow> string option" where
  "mac_to_string mac buf_ok buf_len =
     (case mac of
        None \<Rightarrow> None
      | Some m \<Rightarrow> if \<not> buf_ok \<or> buf_len < 18 then None else Some (cstr_copy (buf_len - 1) (mac_text m)))"

definition string_to_mac :: "(bool \<Rightarrow> nat \<Rightarrow> u32) \<Rightarrow> string option \<Rightarrow> bool \<Rightarrow> bool \<times> u8 list option" where
  "string_to_mac big str mac_ok =
     (case str of
        None \<Rightarrow> (False, None)
      | Some s \<Rightarrow>
          if \<not> mac_ok then (False, None)
          else (case scan_list big 16 CHR '':'' 6 s of
                  None \<Rightarrow> (False, None)
                | Some m \<Rightarrow> (True, Some (map ucast m))))"

section \<open>What the builder writes\<close>

text \<open>The invariant: the buffer has the capacity, the position is inside, and the capacity is far enough
  from the end of the address space that the checks of the code do not wrap.\<close>

definition builder_wf :: "frame_builder \<Rightarrow> bool" where
  "builder_wf b \<longleftrightarrow> length (fb_buffer b) = fb_capacity b \<and> fb_position b \<le> fb_capacity b \<and> fb_capacity b < 2 ^ 63 \<and>
     length (fb_src_mac b) = 6 \<and> \<not> fb_overrun b"

definition written :: "frame_builder \<Rightarrow> u8 list" where
  "written b = take (fb_position b) (fb_buffer b)"

lemma put_simps [simp]:
  "fb_position (put bs b) = fb_position b + length bs" "fb_capacity (put bs b) = fb_capacity b"
  "fb_src_mac (put bs b) = fb_src_mac b"
  by (simp_all add: put_def)

lemma put_wf: "builder_wf b \<Longrightarrow> fb_position b + length bs \<le> fb_capacity b \<Longrightarrow> builder_wf (put bs b)"
  by (simp add: builder_wf_def put_def)

lemma written_put: "builder_wf b \<Longrightarrow> fb_position b + length bs \<le> fb_capacity b \<Longrightarrow> written (put bs b) = written b @ bs"
  by (simp add: builder_wf_def written_def put_def memcpy_at_def)

lemma put_put:
  assumes "builder_wf b" and "fb_position b + length xs \<le> fb_capacity b"
  shows "put ys (put xs b) = put (xs @ ys) b"
proof -
  have "take (fb_position b + length xs) (memcpy_at (fb_buffer b) (fb_position b) xs) = take (fb_position b) (fb_buffer b) @ xs"
    using assms by (simp add: builder_wf_def memcpy_at_def)
  moreover have "drop (fb_position b + length xs + length ys) (memcpy_at (fb_buffer b) (fb_position b) xs) =
      drop (fb_position b + length xs + length ys) (fb_buffer b)"
    using assms by (simp add: builder_wf_def memcpy_at_def add.commute)
  ultimately have "memcpy_at (memcpy_at (fb_buffer b) (fb_position b) xs) (fb_position b + length xs) ys =
      memcpy_at (fb_buffer b) (fb_position b) (xs @ ys)"
    unfolding memcpy_at_def [of "memcpy_at _ _ _"] by (simp add: memcpy_at_def [of _ _ "xs @ ys"] add.assoc)
  then show ?thesis using assms by (simp add: put_def builder_wf_def add.assoc)
qed

definition dcp_header_bytes :: "u16 \<Rightarrow> u8 \<Rightarrow> u32 \<Rightarrow> u16 \<Rightarrow> u16 \<Rightarrow> u8 list" where
  "dcp_header_bytes frame_id service xid delay dl =
     be16 frame_id @ [service, DCP_SERVICE_TYPE_REQUEST] @ be32 xid @ be16 delay @ be16 dl"

definition dcp_block_bytes :: "u8 \<Rightarrow> u8 \<Rightarrow> u8 list \<Rightarrow> u8 list" where
  "dcp_block_bytes opt sub data =
     [opt, sub] @ be16 (of_nat (length data)) @ data @ (if odd (length data) then [0] else [])"

lemma length_dcp_bytes [simp]:
  "length (dcp_header_bytes f s x d l) = 12"
  "length (dcp_block_bytes opt sub data) = 4 + length data + length data mod 2"
  by (simp_all add: dcp_header_bytes_def dcp_block_bytes_def mod2_eq_if)

lemma put_dcp_header:
  "builder_wf b \<Longrightarrow> fb_position b + 12 \<le> fb_capacity b \<Longrightarrow>
    put_dcp_header frame_id service xid delay dl b = put (dcp_header_bytes frame_id service xid delay dl) b"
  by (simp add: put_dcp_header_def dcp_header_bytes_def put_put put_wf Let_def)

lemma put_dcp_block:
  "builder_wf b \<Longrightarrow> fb_position b + (4 + length data + length data mod 2) \<le> fb_capacity b \<Longrightarrow>
    put_dcp_block opt sub data b = put (dcp_block_bytes opt sub data) b"
  by (simp add: put_dcp_block_def dcp_block_bytes_def put_put put_wf Let_def mod2_eq_if split: if_splits)

lemma size_add_small: "a + b < 2 ^ 64 \<Longrightarrow> size_add a b = a + b"
  by (simp add: size_add_def)

lemma u16_pad:
  assumes "k + n + n mod 2 < 65536"
  shows "unat (if odd n then of_nat (k + n) + 1 else of_nat (k + n) :: u16) = k + n + n mod 2"
proof -
  have "(if odd n then of_nat (k + n) + 1 else of_nat (k + n) :: u16) = of_nat (k + n + n mod 2)"
    by (simp add: mod2_eq_if)
  with assms show ?thesis by (simp add: unat_of_nat del: of_nat_add)
qed

lemma mod2_le [simp]: "(n::nat) mod 2 \<le> 1"
  by (simp add: mod2_eq_if)

lemma unat_identify_length:
  assumes "length n \<le> 65526"
  shows "unat (identify_data_length (Some n)) = 8 + length n + length n mod 2"
proof -
  have "4 + 4 + length n + length n mod 2 < 65536" using assms mod2_le [of "length n"] by linarith
  from u16_pad [OF this] have "unat (identify_data_length (Some n)) = 4 + 4 + length n + length n mod 2"
    by (simp only: identify_data_length_def option.case Let_def)
  then show ?thesis by simp
qed

lemma unat_set_length:
  assumes "n \<le> 65530"
  shows "unat (set_data_length n) = 4 + n + n mod 2"
proof -
  have "4 + n + n mod 2 < 65536" using assms mod2_le [of n] by linarith
  from u16_pad [OF this] show ?thesis by (simp only: set_data_length_def Let_def)
qed

lemma size_add_header:
  assumes "builder_wf b" and "m < 65536"
  shows "size_add (size_add (size_add (fb_position b) 2) 10) m = fb_position b + 12 + m"
proof -
  have "fb_position b < 2 ^ 63" using assms(1) by (simp add: builder_wf_def)
  with assms(2) show ?thesis by (simp add: size_add_small)
qed

lemma identify_put:
  assumes "builder_wf b" and "length n \<le> 65526" and "fb_position b + 20 + length n + length n mod 2 \<le> fb_capacity b"
  shows "frame_build_dcp_identify (Some b) xid (Some n) =
    (WTC_OK, Some (put (dcp_header_bytes PROFINET_FRAME_ID_DCP_IDENT DCP_SERVICE_IDENTIFY xid 0x80 (identify_data_length (Some n)) @
      dcp_block_bytes DCP_OPTION_DEVICE DCP_SUBOPTION_DEVICE_NAME (bytes_of n)) b))"
proof -
  have len: "length (bytes_of n) = length n" by (simp add: bytes_of_def)
  show ?thesis
    using assms mod2_le [of "length n"] unfolding frame_build_dcp_identify_def
    by (simp add: size_add_header unat_identify_length put_dcp_header put_dcp_block put_wf put_put len Let_def)
qed

section \<open>The builder stays inside its buffer\<close>

datatype build_call =
  Reset_Frame
| Build_Ethernet "u8 list" u16
| Build_Rt u16
| Build_Identify u32 "string option"
| Build_Set "u8 list" u32 u8 u8 "u8 list"
| Append_Data "u8 list"
| Append_Padding nat

fun build_exec :: "build_call \<Rightarrow> frame_builder \<Rightarrow> wtc_result \<times> frame_builder" where
  "build_exec Reset_Frame b = (WTC_OK, the (frame_builder_reset (Some b)))"
| "build_exec (Build_Ethernet dst t) b = apsnd the (frame_build_ethernet (Some b) (Some dst) t)"
| "build_exec (Build_Rt i) b = apsnd the (frame_build_rt_header (Some b) i)"
| "build_exec (Build_Identify xid n) b = apsnd the (frame_build_dcp_identify (Some b) xid n)"
| "build_exec (Build_Set dst xid opt sub d) b = apsnd the (frame_build_dcp_set (Some b) (Some dst) xid opt sub (Some d))"
| "build_exec (Append_Data d) b = apsnd the (frame_append_data (Some b) (Some d))"
| "build_exec (Append_Padding n) b = apsnd the (frame_append_padding (Some b) n)"

text \<open>Names and data short enough for the sixteen-bit length field, data that fit into memory.\<close>

fun build_ok :: "build_call \<Rightarrow> bool" where
  "build_ok (Build_Identify xid (Some n)) = (length n \<le> 65526)"
| "build_ok (Build_Set dst xid opt sub d) = (length d \<le> 65530)"
| "build_ok (Append_Data d) = (length d < 2 ^ 63)"
| "build_ok _ = True"

lemma pad_loop_wf: "builder_wf b \<Longrightarrow> builder_wf (pad_loop n b)"
proof (induction n b rule: pad_loop.induct)
  case (1 n b)
  show ?case
  proof (cases "fb_position b < n \<and> fb_position b < fb_capacity b")
    case True
    with 1 show ?thesis by (subst pad_loop.simps) (simp add: put_wf)
  next
    case False
    with 1 show ?thesis by (subst pad_loop.simps) auto
  qed
qed

lemma pad_loop_length: "fb_position b \<le> fb_capacity b \<Longrightarrow> fb_position (pad_loop n b) = max (fb_position b) (min n (fb_capacity b))"
proof (induction n b rule: pad_loop.induct)
  case (1 n b)
  then show ?case by (subst pad_loop.simps) (auto simp: max_def min_def)
qed

lemma build_exec_wf:
  assumes "builder_wf b" and "build_ok c"
  shows "builder_wf (snd (build_exec c b))"
proof -
  have pos: "fb_position b < 2 ^ 63" "fb_position b \<le> fb_capacity b" "length (fb_src_mac b) = 6"
    using assms(1) by (simp_all add: builder_wf_def)
  show ?thesis
  proof (cases c)
    case Reset_Frame
    then show ?thesis using assms(1) by (simp add: frame_builder_reset_def builder_wf_def)
  next
    case (Build_Ethernet dst t)
    then show ?thesis using assms(1) pos
      by (simp add: frame_build_ethernet_def put_wf put_put size_add_small frame_consts Let_def)
  next
    case (Build_Rt i)
    then show ?thesis using assms(1) pos by (simp add: frame_build_rt_header_def put_wf size_add_small)
  next
    case (Build_Identify xid n)
    show ?thesis
    proof (cases n)
      case None
      then show ?thesis using assms(1) Build_Identify
        by (simp add: frame_build_dcp_identify_def identify_data_length_def size_add_header put_dcp_header put_wf put_put Let_def)
    next
      case (Some m)
      have len: "length (bytes_of m) = length m" by (simp add: bytes_of_def)
      show ?thesis using assms Build_Identify Some mod2_le [of "length m"]
        by (simp add: size_add_header unat_identify_length put_dcp_header put_dcp_block put_wf len Let_def
            frame_build_dcp_identify_def)
    qed
  next
    case (Build_Set dst xid opt sub d)
    then show ?thesis using assms mod2_le [of "length d"]
      by (simp add: frame_build_dcp_set_def size_add_header unat_set_length put_dcp_header put_dcp_block put_wf Let_def)
  next
    case (Append_Data d)
    then show ?thesis using assms pos by (simp add: frame_append_data_def put_wf size_add_small)
  next
    case (Append_Padding n)
    then show ?thesis using assms(1) by (simp add: frame_append_padding_def pad_loop_wf)
  qed
qed

text \<open>\<^bold>\<open>C35.\<close> No sequence of builder calls stores past the buffer, for names of at most 65526 characters and
  set data of at most 65530 bytes: the position stays inside the capacity and the buffer keeps its
  size.\<close>

theorem builder_stays_in_buffer:
  assumes "builder_wf b" and "\<forall>c \<in> set calls. build_ok c"
  shows "builder_wf (snd (run_calls build_exec calls b))"
  using assms by (induction calls arbitrary: b) (simp_all add: build_exec_wf split_beta Let_def)

definition fresh_builder :: frame_builder where
  "fresh_builder = \<lparr>fb_buffer = replicate 64 0, fb_capacity = 64, fb_position = 0, fb_src_mac = [1, 2, 3, 4, 5, 6],
     fb_overrun = False\<rparr>"

lemma fresh_builder_wf: "builder_wf fresh_builder" "written fresh_builder = []" "fb_capacity fresh_builder = 64"
  "fb_position fresh_builder = 0" "fb_src_mac fresh_builder = [1, 2, 3, 4, 5, 6]"
  by (simp_all add: fresh_builder_def builder_wf_def written_def)

theorem builder_stays_in_buffer_witness:
  "builder_wf (snd (run_calls build_exec [Build_Ethernet [1, 14, 207, 0, 0, 0] 0x8892, Build_Identify 7 (Some ''rtu-1''),
     Append_Padding 60, Append_Data [1, 2, 3, 4, 5]] fresh_builder))"
  by (rule builder_stays_in_buffer [OF fresh_builder_wf(1)]) simp

text \<open>The bound on names is needed: for a name of 65528 characters the length field wraps to zero, the
  check passes with twelve free bytes, and the name is stored past the buffer.\<close>

lemma long_name_overruns:
  assumes "builder_wf b" and "fb_position b + 12 = fb_capacity b" and "length n = 65528"
  shows "\<exists>b'. frame_build_dcp_identify (Some b) xid (Some n) = (WTC_OK, Some b') \<and> fb_overrun b'"
proof -
  have "identify_data_length (Some n) = 0" by (simp add: identify_data_length_def assms(3) Let_def)
  moreover have "fb_overrun (put xs b')" if "length (fb_buffer b') < fb_position b' + length xs" for xs b'
    using that by (simp add: put_def)
  moreover have "fb_overrun (put xs b')" if "fb_overrun b'" for xs b' using that by (simp add: put_def)
  moreover have "length (fb_buffer (put (dcp_header_bytes f s x d l) b)) = fb_capacity b" for f s x d l
    using put_wf [OF assms(1), of "dcp_header_bytes f s x d l"] assms(2) by (simp add: builder_wf_def)
  ultimately show ?thesis using assms
    by (simp add: frame_build_dcp_identify_def size_add_header put_dcp_header put_dcp_block_def bytes_of_def Let_def)
qed

section \<open>The parser consumes a list of bytes\<close>

definition parser_wf :: "frame_parser \<Rightarrow> bool" where
  "parser_wf p \<longleftrightarrow> fp_position p \<le> fp_length p \<and> fp_length p \<le> length (fp_buffer p) \<and> fp_length p < 2 ^ 64"

definition fp_rest :: "frame_parser \<Rightarrow> u8 list" where
  "fp_rest p = mem_read (fp_buffer p) (fp_position p) (fp_length p - fp_position p)"

lemma length_rest: "parser_wf p \<Longrightarrow> length (fp_rest p) = fp_length p - fp_position p"
  by (simp add: parser_wf_def fp_rest_def)

lemma remaining_rest: "parser_wf p \<Longrightarrow> frame_parser_remaining (Some p) = length (fp_rest p)"
  by (simp add: frame_parser_remaining_def length_rest parser_wf_def size_sub_exact)

lemma byte_at_rest: "parser_wf p \<Longrightarrow> i < length (fp_rest p) \<Longrightarrow> byte_at p i = fp_rest p ! i"
  by (simp add: byte_at_def length_rest) (simp add: fp_rest_def mem_read_def parser_wf_def)

lemma bytes_at_rest: "parser_wf p \<Longrightarrow> n \<le> length (fp_rest p) \<Longrightarrow> bytes_at p 0 n = take n (fp_rest p)"
  by (simp add: bytes_at_def length_rest fp_rest_def mem_read_def min_absorb1)

lemma skip_rest:
  assumes "parser_wf p" and "n \<le> length (fp_rest p)"
  shows "parser_wf (skip n p)" "fp_rest (skip n p) = drop n (fp_rest p)" "fp_position (skip n p) = fp_position p + n"
proof -
  have n: "n \<le> fp_length p - fp_position p" using assms(2) length_rest [OF assms(1)] by simp
  then show "parser_wf (skip n p)" "fp_position (skip n p) = fp_position p + n"
    using assms(1) by (auto simp: skip_def parser_wf_def)
  show "fp_rest (skip n p) = drop n (fp_rest p)"
    by (simp add: skip_def fp_rest_def mem_read_def drop_take add.commute)
qed

lemma fields_at_rest:
  assumes "parser_wf p"
  shows "fp_rest p \<noteq> [] \<Longrightarrow> byte_at p 0 = fp_rest p ! 0" and "2 \<le> length (fp_rest p) \<Longrightarrow> byte_at p 0 = fp_rest p ! 0"
    and "2 \<le> length (fp_rest p) \<Longrightarrow> byte_at p (Suc 0) = fp_rest p ! 1"
    and "2 \<le> length (fp_rest p) \<Longrightarrow> u16_at p 0 = of_be16 (fp_rest p ! 0) (fp_rest p ! 1)"
    and "4 \<le> length (fp_rest p) \<Longrightarrow> u16_at p 2 = of_be16 (fp_rest p ! 2) (fp_rest p ! 3)"
    and "8 \<le> length (fp_rest p) \<Longrightarrow> u16_at p 6 = of_be16 (fp_rest p ! 6) (fp_rest p ! 7)"
    and "10 \<le> length (fp_rest p) \<Longrightarrow> u16_at p 8 = of_be16 (fp_rest p ! 8) (fp_rest p ! 9)"
    and "4 \<le> length (fp_rest p) \<Longrightarrow> u32_at p 0 = of_be32 (fp_rest p ! 0) (fp_rest p ! 1) (fp_rest p ! 2) (fp_rest p ! 3)"
    and "6 \<le> length (fp_rest p) \<Longrightarrow> u32_at p 2 = of_be32 (fp_rest p ! 2) (fp_rest p ! 3) (fp_rest p ! 4) (fp_rest p ! 5)"
proof -
  have at: "i < length (fp_rest p) \<Longrightarrow> byte_at p i = fp_rest p ! i" for i by (rule byte_at_rest [OF assms])
  have at0: "2 \<le> length (fp_rest p) \<Longrightarrow> byte_at p 0 = fp_rest p ! 0" by (rule at) linarith
  have eq: "(0::nat) + 1 = 1" "(0::nat) + 2 = 2" "(0::nat) + 3 = 3" "(2::nat) + 1 = 3" "(2::nat) + 2 = 4" "(2::nat) + 3 = 5"
    "(6::nat) + 1 = 7" "(8::nat) + 1 = 9" by simp_all
  show "fp_rest p \<noteq> [] \<Longrightarrow> byte_at p 0 = fp_rest p ! 0" "2 \<le> length (fp_rest p) \<Longrightarrow> byte_at p 0 = fp_rest p ! 0"
    "2 \<le> length (fp_rest p) \<Longrightarrow> byte_at p (Suc 0) = fp_rest p ! 1"
    "2 \<le> length (fp_rest p) \<Longrightarrow> u16_at p 0 = of_be16 (fp_rest p ! 0) (fp_rest p ! 1)"
    "4 \<le> length (fp_rest p) \<Longrightarrow> u16_at p 2 = of_be16 (fp_rest p ! 2) (fp_rest p ! 3)"
    "8 \<le> length (fp_rest p) \<Longrightarrow> u16_at p 6 = of_be16 (fp_rest p ! 6) (fp_rest p ! 7)"
    "10 \<le> length (fp_rest p) \<Longrightarrow> u16_at p 8 = of_be16 (fp_rest p ! 8) (fp_rest p ! 9)"
    "4 \<le> length (fp_rest p) \<Longrightarrow> u32_at p 0 = of_be32 (fp_rest p ! 0) (fp_rest p ! 1) (fp_rest p ! 2) (fp_rest p ! 3)"
    "6 \<le> length (fp_rest p) \<Longrightarrow> u32_at p 2 = of_be32 (fp_rest p ! 2) (fp_rest p ! 3) (fp_rest p ! 4) (fp_rest p ! 5)"
    unfolding u16_at_def u32_at_def eq by (simp_all add: at at0)
qed

lemmas rest_simps = remaining_rest fields_at_rest bytes_at_rest skip_rest

datatype parse_call =
  Parse_Ethernet bool bool bool
| Parse_Rt bool
| Parse_Dcp_Header bool
| Parse_Dcp_Block bool bool
| Read_Bytes bool nat
| Skip_Bytes nat
| Read_U8 bool
| Read_U16 bool
| Read_U32 bool

datatype parse_reply =
  Ethernet wtc_result ethernet_out
| Value16 wtc_result "u16 option"
| Header wtc_result "dcp_header option"
| Block wtc_result "dcp_block_header option" "nat option"
| Bytes wtc_result "u8 list option"
| Done wtc_result
| Value8 wtc_result "u8 option"
| Value32 wtc_result "u32 option"

fun parse_exec :: "parse_call \<Rightarrow> frame_parser \<Rightarrow> parse_reply \<times> frame_parser" where
  "parse_exec (Parse_Ethernet d s t) p = (let ((r, out), p') = frame_parse_ethernet (Some p) d s t in (Ethernet r out, the p'))"
| "parse_exec (Parse_Rt i) p = (let ((r, v), p') = frame_parse_rt_header (Some p) i in (Value16 r v, the p'))"
| "parse_exec (Parse_Dcp_Header h) p = (let ((r, v), p') = frame_parse_dcp_header (Some p) h in (Header r v, the p'))"
| "parse_exec (Parse_Dcp_Block h d) p = (let ((r, v, q), p') = frame_parse_dcp_block (Some p) h d in (Block r v q, the p'))"
| "parse_exec (Read_Bytes d n) p = (let ((r, v), p') = frame_read_bytes (Some p) d n in (Bytes r v, the p'))"
| "parse_exec (Skip_Bytes n) p = (let (r, p') = frame_skip_bytes (Some p) n in (Done r, the p'))"
| "parse_exec (Read_U8 v) p = (let ((r, v), p') = frame_read_u8 (Some p) v in (Value8 r v, the p'))"
| "parse_exec (Read_U16 v) p = (let ((r, v), p') = frame_read_u16 (Some p) v in (Value16 r v, the p'))"
| "parse_exec (Read_U32 v) p = (let ((r, v), p') = frame_read_u32 (Some p) v in (Value32 r v, the p'))"

text \<open>The specification: the offset in the frame and the bytes not yet consumed.\<close>

definition spec_ethernet :: "bool \<Rightarrow> bool \<Rightarrow> bool \<Rightarrow> nat \<Rightarrow> u8 list \<Rightarrow> parse_reply \<times> nat \<times> u8 list" where
  "spec_ethernet d s t pos bs =
     (if length bs < 14 then (Ethernet WTC_ERROR_INVALID_PARAM (None, None, None), pos, bs)
      else
        (let dst = (if d then Some (take 6 bs) else None);
             src = (if s then Some (take 6 (drop 6 bs)) else None);
             etype = of_be16 (bs ! 12) (bs ! 13)
         in if etype \<noteq> PROFINET_ETHERTYPE_VLAN
            then (Ethernet WTC_OK (dst, src, if t then Some etype else None), pos + 14, drop 14 bs)
            else if length bs < 18 then (Ethernet WTC_ERROR_PROTOCOL (dst, src, None), pos + 14, drop 14 bs)
            else (Ethernet WTC_OK (dst, src, if t then Some (of_be16 (bs ! 16) (bs ! 17)) else None), pos + 18, drop 18 bs)))"

fun spec_exec :: "unit \<Rightarrow> parse_call \<Rightarrow> nat \<times> u8 list \<Rightarrow> parse_reply \<times> nat \<times> u8 list" where
  "spec_exec _ (Parse_Ethernet d s t) (pos, bs) = spec_ethernet d s t pos bs"
| "spec_exec _ (Parse_Rt i) (pos, bs) =
     (if length bs < 2 then (Value16 WTC_ERROR_INVALID_PARAM None, pos, bs)
      else (Value16 WTC_OK (if i then Some (of_be16 (bs ! 0) (bs ! 1)) else None), pos + 2, drop 2 bs))"
| "spec_exec _ (Parse_Dcp_Header h) (pos, bs) =
     (if \<not> h \<or> length bs < 10 then (Header WTC_ERROR_INVALID_PARAM None, pos, bs)
      else (Header WTC_OK (Some \<lparr>dh_service_id = bs ! 0, dh_service_type = bs ! 1,
              dh_xid = of_be32 (bs ! 2) (bs ! 3) (bs ! 4) (bs ! 5), dh_response_delay = of_be16 (bs ! 6) (bs ! 7),
              dh_data_length = of_be16 (bs ! 8) (bs ! 9)\<rparr>), pos + 10, drop 10 bs))"
| "spec_exec _ (Parse_Dcp_Block h d) (pos, bs) =
     (if \<not> h \<or> length bs < 4 then (Block WTC_ERROR_INVALID_PARAM None None, pos, bs)
      else
        (let n = unat (of_be16 (bs ! 2) (bs ! 3));
             hd = \<lparr>db_option = bs ! 0, db_suboption = bs ! 1, db_length = of_be16 (bs ! 2) (bs ! 3)\<rparr>
         in if length bs < 4 + n then (Block WTC_ERROR_PROTOCOL (Some hd) None, pos + 4, drop 4 bs)
            else (Block WTC_OK (Some hd) (if d then Some (pos + 4) else None), pos + 4 + n, drop (4 + n) bs)))"
| "spec_exec _ (Read_Bytes d n) (pos, bs) =
     (if \<not> d \<or> length bs < n then (Bytes WTC_ERROR_INVALID_PARAM None, pos, bs)
      else (Bytes WTC_OK (Some (take n bs)), pos + n, drop n bs))"
| "spec_exec _ (Skip_Bytes n) (pos, bs) =
     (if length bs < n then (Done WTC_ERROR_INVALID_PARAM, pos, bs) else (Done WTC_OK, pos + n, drop n bs))"
| "spec_exec _ (Read_U8 v) (pos, bs) =
     (if \<not> v \<or> bs = [] then (Value8 WTC_ERROR_INVALID_PARAM None, pos, bs)
      else (Value8 WTC_OK (Some (hd bs)), pos + 1, tl bs))"
| "spec_exec _ (Read_U16 v) (pos, bs) =
     (if \<not> v \<or> length bs < 2 then (Value16 WTC_ERROR_INVALID_PARAM None, pos, bs)
      else (Value16 WTC_OK (Some (of_be16 (bs ! 0) (bs ! 1))), pos + 2, drop 2 bs))"
| "spec_exec _ (Read_U32 v) (pos, bs) =
     (if \<not> v \<or> length bs < 4 then (Value32 WTC_ERROR_INVALID_PARAM None, pos, bs)
      else (Value32 WTC_OK (Some (of_be32 (bs ! 0) (bs ! 1) (bs ! 2) (bs ! 3))), pos + 4, drop 4 bs))"

definition parser_abs :: "frame_parser \<Rightarrow> nat \<times> u8 list" where
  "parser_abs p = (fp_position p, fp_rest p)"

lemma ethernet_step:
  assumes "parser_wf p"
  shows "parser_wf (snd (parse_exec (Parse_Ethernet d s t) p)) \<and>
    spec_ethernet d s t (fp_position p) (fp_rest p) =
      (fst (parse_exec (Parse_Ethernet d s t) p), parser_abs (snd (parse_exec (Parse_Ethernet d s t) p)))"
proof (cases "length (fp_rest p) < 14")
  case True
  then show ?thesis using assms
    by (simp add: frame_parse_ethernet_def spec_ethernet_def rest_simps frame_consts parser_abs_def)
next
  case False
  let ?q = "skip 2 (skip 6 (skip 6 p))"
  have q: "parser_wf ?q" "fp_rest ?q = drop 14 (fp_rest p)" "fp_position ?q = fp_position p + 14"
    "u16_at (skip 6 (skip 6 p)) 0 = of_be16 (fp_rest p ! 12) (fp_rest p ! 13)"
    "bytes_at p 0 6 = take 6 (fp_rest p)" "bytes_at (skip 6 p) 0 6 = take 6 (drop 6 (fp_rest p))"
    using False assms by (simp_all add: rest_simps)
  have "parser_wf (skip 2 (skip 2 ?q))" "fp_rest (skip 2 (skip 2 ?q)) = drop 18 (fp_rest p)"
    "fp_position (skip 2 (skip 2 ?q)) = fp_position p + 18" "u16_at (skip 2 ?q) 0 = of_be16 (fp_rest p ! 16) (fp_rest p ! 17)"
    if "\<not> length (fp_rest p) < 18" using that q(1-3) by (simp_all add: rest_simps)
  with False assms q show ?thesis
    by (simp add: frame_parse_ethernet_def spec_ethernet_def remaining_rest frame_consts parser_abs_def Let_def
        less_diff_conv2)
qed

lemma block_step:
  assumes "parser_wf p"
  shows "parser_wf (snd (parse_exec (Parse_Dcp_Block h d) p)) \<and>
    spec_exec () (Parse_Dcp_Block h d) (fp_position p, fp_rest p) =
      (fst (parse_exec (Parse_Dcp_Block h d) p), parser_abs (snd (parse_exec (Parse_Dcp_Block h d) p)))"
proof (cases "h \<and> \<not> length (fp_rest p) < 4")
  case False
  then show ?thesis using assms by (auto simp: frame_parse_dcp_block_def rest_simps parser_abs_def)
next
  case True
  then have q: "parser_wf (skip 4 p)" "fp_rest (skip 4 p) = drop 4 (fp_rest p)" "fp_position (skip 4 p) = fp_position p + 4"
    using assms by (simp_all add: skip_rest)
  have "parser_wf (skip n (skip 4 p))" "fp_rest (skip n (skip 4 p)) = drop (4 + n) (fp_rest p)"
    "fp_position (skip n (skip 4 p)) = fp_position p + 4 + n" if "\<not> length (fp_rest p) < 4 + n" for n
    using that q by (simp_all add: skip_rest add.commute)
  with True assms q show ?thesis
    by (simp add: frame_parse_dcp_block_def remaining_rest fields_at_rest parser_abs_def Let_def less_diff_conv2
        add.commute)
qed

lemma parse_step:
  assumes "parser_wf p"
  shows "parser_wf (snd (parse_exec c p)) \<and> spec_exec () c (parser_abs p) = (fst (parse_exec c p), parser_abs (snd (parse_exec c p)))"
proof (cases c)
  case (Parse_Ethernet d s t)
  with ethernet_step [OF assms] show ?thesis by (simp add: parser_abs_def del: parse_exec.simps)
next
  case (Parse_Dcp_Block h d)
  with block_step [OF assms] show ?thesis by (simp add: parser_abs_def del: parse_exec.simps)
qed (use assms in \<open>auto simp: parser_abs_def frame_parse_rt_header_def frame_parse_dcp_header_def frame_read_bytes_def
  frame_skip_bytes_def frame_read_u8_def frame_read_u16_def frame_read_u32_def rest_simps hd_conv_nth drop_Suc not_less
  Suc_le_eq\<close>)

interpretation frames: call_simulation parse_exec spec_exec parser_abs "\<lambda>_. ()" parser_wf
  by unfold_locales (use parse_step in simp_all)

text \<open>\<^bold>\<open>C6.\<close> The parser refines a consumer of the bytes of the frame: for every sequence of calls on a
  well-formed parser the replies are those of the specification on the remaining bytes, and the
  position stays inside the frame. In particular no reply depends on memory behind the frame.\<close>

theorem parser_refines_consumer:
  assumes "parser_wf p"
  shows "run_calls (spec_exec ()) calls (parser_abs p) =
      (fst (run_calls parse_exec calls p), parser_abs (snd (run_calls parse_exec calls p))) \<and>
    parser_wf (snd (run_calls parse_exec calls p))"
  using frames.run_sim [OF assms] frames.run_wf [OF assms] by blast

definition tagged_frame :: frame_parser where
  "tagged_frame = \<lparr>fp_buffer = [1, 2, 3, 4, 5, 6, 7, 8, 9, 10, 11, 12, 0x81, 0, 0x20, 0, 0x88, 0x92, 0xC0, 0, 99],
     fp_length = 20, fp_position = 0\<rparr>"

theorem parser_refines_consumer_witness:
  "fst (run_calls parse_exec [Parse_Ethernet True True True, Parse_Rt True, Read_U8 True] tagged_frame) =
    [Ethernet WTC_OK (Some [1, 2, 3, 4, 5, 6], Some [7, 8, 9, 10, 11, 12], Some 0x8892), Value16 WTC_OK (Some 0xC000),
     Value8 WTC_ERROR_INVALID_PARAM None]"
proof -
  have wf: "parser_wf tagged_frame" and "parser_abs tagged_frame = (0, [1, 2, 3, 4, 5, 6, 7, 8, 9, 10, 11, 12, 0x81, 0,
      0x20, 0, 0x88, 0x92, 0xC0, 0])"
    by (simp_all add: tagged_frame_def parser_wf_def parser_abs_def fp_rest_def mem_read_def)
  with parser_refines_consumer [OF wf, of "[Parse_Ethernet True True True, Parse_Rt True, Read_U8 True]"]
  show ?thesis by (simp add: spec_ethernet_def PROFINET_ETHERTYPE_VLAN_def of_be16_def Let_def split_beta)
qed

section \<open>Building and parsing an identify request\<close>

definition parser_on :: "u8 list \<Rightarrow> frame_parser" where
  "parser_on bs = \<lparr>fp_buffer = bs, fp_length = length bs, fp_position = 0\<rparr>"

lemma be_fields:
  "of_be16 (be16 w ! 0) (be16 w ! Suc 0) = w"
  "of_be32 (be32 v ! 0) (be32 v ! Suc 0) (be32 v ! 2) (be32 v ! 3) = v"
  by (simp_all add: be16_def be32_def of_be16_be16 of_be32_be32)

lemma be16_fields: "be16 w = [be16 w ! 0, be16 w ! Suc 0]" and be32_fields: "be32 v = [be32 v ! 0, be32 v ! Suc 0, be32 v ! 2, be32 v ! 3]"
  by (simp_all add: be16_def be32_def)

lemma ethernet_spec:
  assumes "length dst = 6" and "length src = 6" and "etype \<noteq> PROFINET_ETHERTYPE_VLAN"
  shows "spec_ethernet True True True pos (dst @ src @ be16 etype @ rest) =
    (Ethernet WTC_OK (Some dst, Some src, Some etype), pos + 14, rest)"
  using assms by (simp add: spec_ethernet_def nth_append be_fields Let_def)

lemma header_spec:
  "spec_exec () (Parse_Dcp_Header True) (pos, [service, typ] @ be32 xid @ be16 delay @ be16 dl @ rest) =
    (Header WTC_OK (Some \<lparr>dh_service_id = service, dh_service_type = typ, dh_xid = xid, dh_response_delay = delay,
       dh_data_length = dl\<rparr>), pos + 10, rest)"
  by (simp add: be16_def be32_def of_be16_be16 of_be32_be32)

lemma drop_four: "drop (4 + n) (a # b # c # d # xs) = drop n xs"
  by (simp add: eval_nat_numeral)

lemma block_spec:
  assumes "length data < 65536"
  shows "spec_exec () (Parse_Dcp_Block True True) (pos, dcp_block_bytes opt sub data) =
    (Block WTC_OK (Some \<lparr>db_option = opt, db_suboption = sub, db_length = of_nat (length data)\<rparr>) (Some (pos + 4)),
      pos + 4 + length data, if odd (length data) then [0] else [])"
proof -
  have "unat (of_nat (length data) :: u16) = length data" using assms by (simp add: unat_of_nat)
  then show ?thesis by (simp add: dcp_block_bytes_def be16_def of_be16_be16 drop_four Let_def)
qed

definition identify_calls :: "parse_call list" where
  "identify_calls = [Parse_Ethernet True True True, Parse_Rt True, Parse_Dcp_Header True, Parse_Dcp_Block True True]"

lemma parser_on_wf: "length bs < 2 ^ 64 \<Longrightarrow> parser_wf (parser_on bs)" and parser_on_abs: "parser_abs (parser_on bs) = (0, bs)"
  by (simp_all add: parser_wf_def parser_on_def parser_abs_def fp_rest_def mem_read_def)

lemma ethernet_put:
  assumes "builder_wf b" and "length dst = 6" and "fb_position b + 14 \<le> fb_capacity b"
  shows "frame_build_ethernet (Some b) (Some dst) etype = (WTC_OK, Some (put (dst @ fb_src_mac b @ be16 etype) b))"
proof -
  have "length (fb_src_mac b) = 6" "fb_position b < 2 ^ 63" using assms(1) by (simp_all add: builder_wf_def)
  with assms show ?thesis
    by (simp add: frame_build_ethernet_def put_wf put_put size_add_small frame_consts Let_def)
qed

text \<open>\<^bold>\<open>C37.\<close> Round trip of an identify request: an Ethernet header and a DCP identify request for a station
  name, built into an empty builder with room, are parsed back field by field, and the block data are
  the bytes of the name. The data-length field of the DCP header is four more than the bytes that
  follow that header.\<close>

theorem identify_roundtrip:
  assumes "builder_wf b" and "fb_position b = 0" and "length dst = 6" and "length name \<le> 65526"
    and "34 + length name + length name mod 2 \<le> fb_capacity b"
  shows "\<exists>b1 b2 dl. frame_build_ethernet (Some b) (Some dst) PROFINET_ETHERTYPE = (WTC_OK, Some b1) \<and>
    frame_build_dcp_identify (Some b1) xid (Some name) = (WTC_OK, Some b2) \<and>
    fst (run_calls parse_exec identify_calls (parser_on (take (frame_builder_length (Some b2)) (fb_buffer b2)))) =
      [Ethernet WTC_OK (Some dst, Some (fb_src_mac b), Some PROFINET_ETHERTYPE),
       Value16 WTC_OK (Some PROFINET_FRAME_ID_DCP_IDENT),
       Header WTC_OK (Some \<lparr>dh_service_id = DCP_SERVICE_IDENTIFY, dh_service_type = DCP_SERVICE_TYPE_REQUEST, dh_xid = xid,
         dh_response_delay = 0x80, dh_data_length = dl\<rparr>),
       Block WTC_OK (Some \<lparr>db_option = DCP_OPTION_DEVICE, db_suboption = DCP_SUBOPTION_DEVICE_NAME,
         db_length = of_nat (length name)\<rparr>) (Some 30)] \<and>
    mem_read (fb_buffer b2) 30 (length name) = bytes_of name \<and>
    unat dl = frame_builder_length (Some b2) - 26 + 4"
proof -
  let ?dl = "identify_data_length (Some name)"
  let ?e = "dst @ fb_src_mac b @ be16 PROFINET_ETHERTYPE"
  let ?h = "dcp_header_bytes PROFINET_FRAME_ID_DCP_IDENT DCP_SERVICE_IDENTIFY xid 0x80 ?dl"
  let ?n = "dcp_block_bytes DCP_OPTION_DEVICE DCP_SUBOPTION_DEVICE_NAME (bytes_of name)"
  let ?b1 = "put ?e b" and ?b2 = "put (?h @ ?n) (put ?e b)"
  have len: "length (bytes_of name) = length name" by (simp add: bytes_of_def)
  have src: "length (fb_src_mac b) = 6" and cap: "fb_capacity b < 2 ^ 63" using assms(1) by (simp_all add: builder_wf_def)
  have b1: "builder_wf ?b1" "fb_position ?b1 = 14" using assms src by (simp_all add: put_wf)
  have build: "frame_build_ethernet (Some b) (Some dst) PROFINET_ETHERTYPE = (WTC_OK, Some ?b1)"
    "frame_build_dcp_identify (Some ?b1) xid (Some name) = (WTC_OK, Some ?b2)"
    using assms by (simp add: ethernet_put, intro identify_put [OF b1(1) assms(4)]) (use b1(2) assms(5) in simp)
  have w: "written ?b2 = ?e @ ?h @ ?n"
    using b1 assms src len by (simp add: written_put) (simp add: written_def)
  then have frame: "take (frame_builder_length (Some ?b2)) (fb_buffer ?b2) = ?e @ ?h @ ?n"
    by (simp add: written_def frame_builder_length_def)
  have rt: "spec_exec () (Parse_Rt True) (14, ?h @ ?n) = (Value16 WTC_OK (Some PROFINET_FRAME_ID_DCP_IDENT), 16, drop 2 ?h @ ?n)"
    by (simp add: dcp_header_bytes_def be_fields nth_append)
  have hd: "drop 2 ?h = [DCP_SERVICE_IDENTIFY, DCP_SERVICE_TYPE_REQUEST] @ be32 xid @ be16 0x80 @ be16 ?dl"
    by (simp add: dcp_header_bytes_def)
  have vlan: "PROFINET_ETHERTYPE \<noteq> PROFINET_ETHERTYPE_VLAN" by (simp add: PROFINET_ETHERTYPE_def PROFINET_ETHERTYPE_VLAN_def)
  have "run_calls (spec_exec ()) identify_calls (0, ?e @ ?h @ ?n) =
      ([Ethernet WTC_OK (Some dst, Some (fb_src_mac b), Some PROFINET_ETHERTYPE),
        Value16 WTC_OK (Some PROFINET_FRAME_ID_DCP_IDENT),
        Header WTC_OK (Some \<lparr>dh_service_id = DCP_SERVICE_IDENTIFY, dh_service_type = DCP_SERVICE_TYPE_REQUEST, dh_xid = xid,
          dh_response_delay = 0x80, dh_data_length = ?dl\<rparr>),
        Block WTC_OK (Some \<lparr>db_option = DCP_OPTION_DEVICE, db_suboption = DCP_SUBOPTION_DEVICE_NAME,
          db_length = of_nat (length name)\<rparr>) (Some 30)], 30 + length name, if odd (length name) then [0] else [])"
    using ethernet_spec [OF assms(3) src vlan, of 0 "?h @ ?n"] rt
      header_spec [of 16 DCP_SERVICE_IDENTIFY DCP_SERVICE_TYPE_REQUEST xid "0x80" ?dl ?n]
      block_spec [of "bytes_of name" 26 DCP_OPTION_DEVICE DCP_SUBOPTION_DEVICE_NAME] assms(4) len
    by (simp add: identify_calls_def hd del: spec_exec.simps(2-9))
  moreover have "length (?e @ ?h @ ?n) < 2 ^ 64" using assms(3, 4) src len mod2_le [of "length name"] by simp
  ultimately have run: "fst (run_calls parse_exec identify_calls (parser_on (?e @ ?h @ ?n))) =
      [Ethernet WTC_OK (Some dst, Some (fb_src_mac b), Some PROFINET_ETHERTYPE),
        Value16 WTC_OK (Some PROFINET_FRAME_ID_DCP_IDENT),
        Header WTC_OK (Some \<lparr>dh_service_id = DCP_SERVICE_IDENTIFY, dh_service_type = DCP_SERVICE_TYPE_REQUEST, dh_xid = xid,
          dh_response_delay = 0x80, dh_data_length = ?dl\<rparr>),
        Block WTC_OK (Some \<lparr>db_option = DCP_OPTION_DEVICE, db_suboption = DCP_SUBOPTION_DEVICE_NAME,
          db_length = of_nat (length name)\<rparr>) (Some 30)]"
    using frames.run_sim [OF parser_on_wf, of "?e @ ?h @ ?n" identify_calls] by (simp add: parser_on_abs)
  have pos: "frame_builder_length (Some ?b2) = 30 + length name + length name mod 2"
    using assms(2, 3) src len by (simp add: frame_builder_length_def)
  have "mem_read (fb_buffer ?b2) 30 (length name) = mem_read (written ?b2) 30 (length name)"
    using pos by (simp add: written_def mem_read_def frame_builder_length_def drop_take min_def)
  also have "\<dots> = bytes_of name"
    using assms(3) src len unfolding w by (simp add: mem_read_def dcp_header_bytes_def dcp_block_bytes_def)
  finally show ?thesis
    using build run pos frame unat_identify_length [OF assms(4)] by (intro exI [of _ ?b1] exI [of _ ?b2] exI [of _ ?dl]) simp
qed

theorem identify_roundtrip_witness:
  "\<exists>b1 b2 dl. frame_build_ethernet (Some fresh_builder) (Some [1, 14, 207, 0, 0, 0]) PROFINET_ETHERTYPE = (WTC_OK, Some b1) \<and>
    frame_build_dcp_identify (Some b1) 7 (Some ''rtu-1'') = (WTC_OK, Some b2) \<and>
    mem_read (fb_buffer b2) 30 (length ''rtu-1'') = bytes_of ''rtu-1'' \<and> unat (dl :: u16) = frame_builder_length (Some b2) - 26 + 4"
proof -
  have "length [1, 14, 207, 0, 0, 0 :: u8] = 6" "length ''rtu-1'' \<le> 65526"
    "34 + length ''rtu-1'' + length ''rtu-1'' mod 2 \<le> fb_capacity fresh_builder" by (simp_all add: fresh_builder_wf)
  from identify_roundtrip [OF fresh_builder_wf(1, 4) this, of 7] obtain b1 b2 dl where
    "frame_build_ethernet (Some fresh_builder) (Some [1, 14, 207, 0, 0, 0]) PROFINET_ETHERTYPE = (WTC_OK, Some b1)"
    "frame_build_dcp_identify (Some b1) 7 (Some ''rtu-1'') = (WTC_OK, Some b2)"
    "mem_read (fb_buffer b2) 30 (length ''rtu-1'') = bytes_of ''rtu-1''"
    "unat (dl :: u16) = frame_builder_length (Some b2) - 26 + 4" by blast
  then show ?thesis by blast
qed

section \<open>Text forms of addresses\<close>

lemma digit_char_value: "d < 10 \<Longrightarrow> digit_value (digit_char d) = Some d"
  by (simp add: digit_value_def digit_char_def Let_def)

lemma fmt_u_digits: "\<forall>c \<in> set (fmt_u n). is_digit 10 c"
proof (induction n rule: fmt_u.induct)
  case (1 n)
  then show ?case by (subst fmt_u.simps) (auto simp: is_digit_def digit_char_value)
qed

lemma fmt_u_value: "digits_value 10 (fmt_u n) = n"
proof (induction n rule: fmt_u.induct)
  case (1 n)
  then show ?case by (subst fmt_u.simps) (simp add: digits_value_def digit_char_value)
qed

lemma digit_not_special: "is_digit base c \<Longrightarrow> \<not> is_space c \<and> c \<noteq> CHR ''-'' \<and> c \<noteq> CHR ''+''"
  by (auto simp: is_digit_def digit_value_def is_space_def Let_def split: if_splits)

lemma scan_digits:
  assumes "ds \<noteq> []" and "\<forall>c \<in> set ds. is_digit base c" and "rest = [] \<or> \<not> is_digit base (hd rest)"
    and "digits_value base ds < 2 ^ 32" and "base = 16 \<longrightarrow> take 2 (ds @ rest) \<noteq> ''0x'' \<and> take 2 (ds @ rest) \<noteq> ''0X''"
  shows "scan_number big base (ds @ rest) = Some (of_nat (digits_value base ds), rest)"
proof -
  obtain c cs where ds: "ds = c # cs" using assms(1) by (cases ds) auto
  then have "dropWhile is_space (ds @ rest) = ds @ rest" "scan_sign (ds @ rest) = (False, ds @ rest)"
    using assms(2) digit_not_special [of base c] by (auto simp: scan_sign_def)
  moreover have "scan_prefix base (ds @ rest) = ds @ rest" using assms(5) by (auto simp: scan_prefix_def)
  moreover have "takeWhile (is_digit base) (ds @ rest) = ds"
    using assms(2, 3) by (cases rest) (auto simp: takeWhile_append2)
  ultimately show ?thesis using assms(1, 4) by (simp add: scan_number_def Let_def)
qed

lemma scan_octet:
  assumes "n < 256" and "rest = [] \<or> hd rest = CHR ''.''"
  shows "scan_number big 10 (fmt_u n @ rest) = Some (of_nat n, rest)"
proof -
  have "\<not> is_digit 10 CHR ''.''" by (simp add: is_digit_def digit_value_def)
  with assms scan_digits [of "fmt_u n" 10 rest big] show ?thesis
    by (auto simp: fmt_u_nonempty fmt_u_digits fmt_u_value)
qed

lemma octet_bound: "unat (drop_bit k ip AND 0xFF :: u32) < 256"
  using word_and_le1 [of "drop_bit k ip" "0xFF :: u32"] by (simp add: word_le_nat_alt)

lemma octets_join:
  fixes ip :: u32
  shows "push_bit 24 (drop_bit 24 ip AND 0xFF) OR push_bit 16 (drop_bit 16 ip AND 0xFF) OR
    push_bit 8 (drop_bit 8 ip AND 0xFF) OR (drop_bit 0 ip AND 0xFF) = ip"
proof (rule word_eq_by_bits)
  fix n assume "n < LENGTH(32)"
  have mask: "(0xFF :: u32) = mask 8" by (simp add: mask_eq_exp_minus_1)
  from \<open>n < LENGTH(32)\<close> consider "n < 8" | "8 \<le> n" "n < 16" | "16 \<le> n" "n < 24" | "24 \<le> n" "n < 32" by fastforce
  then show "bit (push_bit 24 (drop_bit 24 ip AND 0xFF) OR push_bit 16 (drop_bit 16 ip AND 0xFF) OR
      push_bit 8 (drop_bit 8 ip AND 0xFF) OR (drop_bit 0 ip AND 0xFF)) n = bit ip n"
    unfolding mask by cases (auto simp: bit_simps)
qed

lemma length_fmt_octet: "n < 256 \<Longrightarrow> length (fmt_u n) \<le> 3"
  by (subst fmt_u.simps, subst fmt_u.simps, subst fmt_u.simps) auto

lemma ip_roundtrip: "string_to_ip big (ip_to_string ip True 16) = ip"
proof -
  let ?o = "\<lambda>k. unat (drop_bit k ip AND 0xFF :: u32)"
  let ?t = "octet ip 24 @ ''.'' @ octet ip 16 @ ''.'' @ octet ip 8 @ ''.'' @ octet ip 0"
  have len: "length (octet ip k) \<le> 3" for k unfolding octet_def by (rule length_fmt_octet [OF octet_bound])
  have "length ?t \<le> 15" using len [of 24] len [of 16] len [of 8] len [of 0] by simp
  then have printed: "ip_to_string ip True 16 = Some ?t" by (simp add: ip_to_string_def cstr_copy_def)
  have "scan_number big 10 (octet ip k @ rest) = Some (drop_bit k ip AND 0xFF, rest)"
    if "rest = [] \<or> hd rest = CHR ''.''" for k rest
    using scan_octet [OF octet_bound that, of big k ip] by (simp add: octet_def)
  from this [of "[]"] this [of "CHR ''.'' # _"]
  have "scan_list big 10 CHR ''.'' 4 ?t = Some [drop_bit 24 ip AND 0xFF, drop_bit 16 ip AND 0xFF, drop_bit 8 ip AND 0xFF,
      drop_bit 0 ip AND 0xFF]"
    by (simp add: eval_nat_numeral)
  then show ?thesis using octets_join [of ip] by (simp add: printed string_to_ip_def)
qed

lemma hex_digit_value: "d < 16 \<Longrightarrow> digit_value (hex_digit d) = Some d"
  by (auto simp: digit_value_def hex_digit_def Let_def)

lemma scan_hex:
  assumes "rest = [] \<or> hd rest = CHR '':''"
  shows "scan_number big 16 (fmt_02X b @ rest) = Some (ucast b, rest)"
proof -
  have b: "unat b < 256" using unsigned_less [of b, where 'a = nat] by simp
  then have d: "unat b div 16 < 16" "unat b mod 16 < 16" by (simp_all add: div_less_iff_less_mult)
  then have digits: "\<forall>c \<in> set (fmt_02X b). is_digit 16 c" "digits_value 16 (fmt_02X b) = unat b"
    by (simp_all add: fmt_02X_def is_digit_def digits_value_def hex_digit_value)
  have "digit_value CHR ''x'' = None" "digit_value CHR ''X'' = None" by (simp_all add: digit_value_def)
  with hex_digit_value [OF d(2)] have "hex_digit (unat b mod 16) \<noteq> CHR ''x''" "hex_digit (unat b mod 16) \<noteq> CHR ''X''" by auto
  then have pre: "take 2 (fmt_02X b @ rest) \<noteq> ''0x''" "take 2 (fmt_02X b @ rest) \<noteq> ''0X''" by (simp_all add: fmt_02X_def)
  have "\<not> is_digit 16 CHR '':''" by (simp add: is_digit_def digit_value_def)
  with assms have "rest = [] \<or> \<not> is_digit 16 (hd rest)" by auto
  from scan_digits [OF _ digits(1) this, of big] digits(2) pre b
  have "scan_number big 16 (fmt_02X b @ rest) = Some (of_nat (unat b), rest)" by (simp add: fmt_02X_def)
  moreover have "(of_nat (unat b) :: u32) = ucast b" by (rule word_eq_by_bits) (simp add: bit_simps)
  ultimately show ?thesis by simp
qed

lemma u8_u32_u8: "ucast (ucast (x :: u8) :: u32) = x"
  by (rule word_eq_by_bits) (simp add: bit_simps)

lemma mac_roundtrip:
  assumes "length m = 6"
  shows "string_to_mac big (mac_to_string (Some m) True 18) True = (True, Some m)"
proof -
  obtain a b c d e f where m: "m = [a, b, c, d, e, f]" using assms by (auto simp: length_Suc_conv eval_nat_numeral)
  have len: "length (fmt_02X x) = 2" for x by (simp add: fmt_02X_def)
  have printed: "mac_to_string (Some m) True 18 = Some (mac_text m)"
    by (simp add: mac_to_string_def cstr_copy_def mac_text_def len)
  from scan_hex [of "[]" big] scan_hex [of "CHR '':'' # _" big]
  have "scan_list big 16 CHR '':'' 6 (mac_text m) = Some (map ucast m)"
    by (simp add: m mac_text_def eval_nat_numeral)
  then show ?thesis by (simp add: printed string_to_mac_def comp_def u8_u32_u8)
qed

text \<open>Text round trips: the text of every IP address in a buffer of sixteen characters is read back as
  that address, and the text of every MAC address in a buffer of eighteen characters as that address.\<close>

theorem address_text_roundtrip:
  assumes "length m = 6"
  shows "string_to_ip big (ip_to_string ip True 16) = ip \<and>
    string_to_mac big (mac_to_string (Some m) True 18) True = (True, Some m)"
  using ip_roundtrip mac_roundtrip [OF assms] by blast

theorem address_text_roundtrip_witness:
  "string_to_ip (\<lambda>_ _. 0) (ip_to_string 0xC0A80001 True 16) = 0xC0A80001 \<and>
    string_to_mac (\<lambda>_ _. 0) (mac_to_string (Some [1, 0x0E, 0xCF, 0, 0, 0xFF]) True 18) True = (True, Some [1, 0x0E, 0xCF, 0, 0, 0xFF])"
  using address_text_roundtrip [of "[1, 0x0E, 0xCF, 0, 0, 0xFF]" "\<lambda>_ _. 0" "0xC0A80001"] by simp

end
