(* ===== verification/Authority.thy ===== *)
theory Authority
  imports Types
begin

text \<open>
  The authority manager (\<^verbatim>\<open>src/src/coordination/authority_manager.c\<close>): which side, controller or RTU, may
  command a station, and the handoff protocol between them.

  An entry of the table is never taken out of use, so the entries in use are a prefix of the array:
  the list \<open>am_entries\<close>, with the entry count as its length. The callback is returned as an event.
\<close>

section \<open>State\<close>

definition MAX_AUTHORITY_ENTRIES :: nat where "MAX_AUTHORITY_ENTRIES = 256"
definition DEFAULT_HANDOFF_TIMEOUT_MS :: u32 where "DEFAULT_HANDOFF_TIMEOUT_MS = 5000"
definition DEFAULT_STALE_COMMAND_MS :: u32 where "DEFAULT_STALE_COMMAND_MS = 10000"
definition DEFAULT_HEARTBEAT_INTERVAL_MS :: u32 where "DEFAULT_HEARTBEAT_INTERVAL_MS = 1000"

record authority_manager_config =
  amc_handoff_timeout_ms :: u32
  amc_stale_command_ms :: u32
  amc_heartbeat_interval_ms :: u32
  amc_auto_release_on_disconnect :: bool

record authority_entry =
  ae_station_name :: string
  ae_context :: authority_context
  ae_last_heartbeat_ms :: u64

record authority_manager =
  am_config :: authority_manager_config
  am_entries :: "authority_entry list"
  am_callback :: bool

datatype authority_event = Authority_Changed string authority_state authority_state

definition authority_context_init :: authority_context where
  "authority_context_init = zero_authority\<lparr>ac_epoch := 1, ac_state := AUTHORITY_AUTONOMOUS,
     ac_stale_command_threshold_ms := DEFAULT_STALE_COMMAND_MS\<rparr>"

section \<open>Entries\<close>

definition find_entry :: "authority_manager \<Rightarrow> string \<Rightarrow> nat option" where
  "find_entry m station = find_pos (\<lambda>e. ae_station_name e = station) (am_entries m)"

definition find_or_create_entry :: "authority_manager \<Rightarrow> string \<Rightarrow> nat option \<times> authority_manager" where
  "find_or_create_entry m station =
     (case find_entry m station of
        Some i \<Rightarrow> (Some i, m)
      | None \<Rightarrow>
          if length (am_entries m) < MAX_AUTHORITY_ENTRIES
          then (Some (length (am_entries m)),
                m\<lparr>am_entries := am_entries m @ [\<lparr>ae_station_name = cstr_copy 63 station,
                     ae_context = authority_context_init, ae_last_heartbeat_ms = 0\<rparr>]\<rparr>)
          else (None, m))"

abbreviation context_at :: "authority_manager \<Rightarrow> nat \<Rightarrow> authority_context" where
  "context_at m i \<equiv> ae_context (am_entries m ! i)"

definition set_context :: "nat \<Rightarrow> authority_context \<Rightarrow> authority_manager \<Rightarrow> authority_manager" where
  "set_context i c m = m\<lparr>am_entries := (am_entries m)[i := (am_entries m ! i)\<lparr>ae_context := c\<rparr>]\<rparr>"

definition notify_state_change :: "authority_manager \<Rightarrow> string \<Rightarrow> authority_state \<Rightarrow> authority_state \<Rightarrow> authority_event list" where
  "notify_state_change m station old new =
     (if am_callback m \<and> old \<noteq> new then [Authority_Changed station old new] else [])"

section \<open>Operations\<close>

definition authority_manager_init :: "bool \<Rightarrow> bool \<Rightarrow> authority_manager_config option \<Rightarrow> wtc_result \<times> authority_manager option" where
  "authority_manager_init out_ok mem config =
     (if \<not> out_ok then (WTC_ERROR_INVALID_PARAM, None)
      else if \<not> mem then (WTC_ERROR_NO_MEMORY, None)
      else (WTC_OK, Some \<lparr>am_config = (case config of
              Some c \<Rightarrow> c
            | None \<Rightarrow> \<lparr>amc_handoff_timeout_ms = DEFAULT_HANDOFF_TIMEOUT_MS, amc_stale_command_ms = DEFAULT_STALE_COMMAND_MS,
                amc_heartbeat_interval_ms = DEFAULT_HEARTBEAT_INTERVAL_MS, amc_auto_release_on_disconnect = True\<rparr>),
            am_entries = [], am_callback = False\<rparr>))"

definition authority_manager_set_callback :: "authority_manager option \<Rightarrow> bool \<Rightarrow> authority_manager option" where
  "authority_manager_set_callback mgr cb = map_option (\<lambda>m. m\<lparr>am_callback := cb\<rparr>) mgr"

text \<open>The result code, the context copied out (if a copy is made and its pointer is not NULL) and the
  callbacks.\<close>

type_synonym authority_reply = "wtc_result \<times> authority_context option \<times> authority_event list"

abbreviation copy_out :: "bool \<Rightarrow> authority_context \<Rightarrow> authority_context option" where
  "copy_out ok c \<equiv> (if ok then Some c else None)"

definition authority_request ::
  "authority_manager option \<Rightarrow> string option \<Rightarrow> bool \<Rightarrow> u64 \<Rightarrow> authority_reply \<times> authority_manager option" where
  "authority_request mgr station_name ctx_ok now =
     on_handle (WTC_ERROR_INVALID_PARAM, None, []) (\<lambda>m.
       case station_name of
         None \<Rightarrow> ((WTC_ERROR_INVALID_PARAM, None, []), m)
       | Some station \<Rightarrow>
           (case find_or_create_entry m station of
              (None, m) \<Rightarrow> ((WTC_ERROR_FULL, None, []), m)
            | (Some i, m) \<Rightarrow>
                (let c = context_at m i in
                 case ac_state c of
                   AUTHORITY_SUPERVISED \<Rightarrow> ((WTC_OK, copy_out ctx_ok c, []), m)
                 | AUTHORITY_HANDOFF_PENDING \<Rightarrow> ((WTC_ERROR_BUSY, copy_out ctx_ok c, []), m)
                 | old \<Rightarrow>
                     (let c = c\<lparr>ac_state := AUTHORITY_HANDOFF_PENDING, ac_request_time_ms := now,
                            ac_rtu_acknowledged := False, ac_controller_online := True,
                            ac_stale_command_threshold_ms := amc_stale_command_ms (am_config m)\<rparr>
                      in ((WTC_OK, copy_out ctx_ok c, notify_state_change m station old AUTHORITY_HANDOFF_PENDING),
                          set_context i c m))))) mgr"

text \<open>The common start of the remaining operations: NULL checks and the search for the station.\<close>

definition on_entry ::
  "authority_manager option \<Rightarrow> string option \<Rightarrow> (string \<Rightarrow> nat \<Rightarrow> authority_manager \<Rightarrow> authority_reply \<times> authority_manager) \<Rightarrow>
    authority_reply \<times> authority_manager option" where
  "on_entry mgr station_name f =
     on_handle (WTC_ERROR_INVALID_PARAM, None, []) (\<lambda>m.
       case station_name of
         None \<Rightarrow> ((WTC_ERROR_INVALID_PARAM, None, []), m)
       | Some station \<Rightarrow>
           (case find_entry m station of
              None \<Rightarrow> ((WTC_ERROR_NOT_FOUND, None, []), m)
            | Some i \<Rightarrow> f station i m)) mgr"

definition authority_release ::
  "authority_manager option \<Rightarrow> string option \<Rightarrow> bool \<Rightarrow> u64 \<Rightarrow> authority_reply \<times> authority_manager option" where
  "authority_release mgr station_name ctx_ok now =
     on_entry mgr station_name (\<lambda>station i m.
       let c = context_at m i in
       if ac_state c \<noteq> AUTHORITY_SUPERVISED then ((WTC_ERROR_PERMISSION, copy_out ctx_ok c, []), m)
       else
         (let c' = c\<lparr>ac_state := AUTHORITY_RELEASING, ac_request_time_ms := now\<rparr> in
          ((WTC_OK, copy_out ctx_ok c', notify_state_change m station (ac_state c) AUTHORITY_RELEASING), set_context i c' m)))"

definition authority_handle_grant ::
  "authority_manager option \<Rightarrow> string option \<Rightarrow> u32 \<Rightarrow> bool \<Rightarrow> u64 \<Rightarrow> authority_reply \<times> authority_manager option" where
  "authority_handle_grant mgr station_name epoch ctx_ok now =
     on_entry mgr station_name (\<lambda>station i m.
       let c = context_at m i in
       if ac_state c \<noteq> AUTHORITY_HANDOFF_PENDING then ((WTC_ERROR_PROTOCOL, None, []), m)
       else
         (let c' = c\<lparr>ac_epoch := epoch, ac_state := AUTHORITY_SUPERVISED, ac_grant_time_ms := now,
                ac_rtu_acknowledged := True, ac_holder := ''CONTROLLER''\<rparr>
          in ((WTC_OK, copy_out ctx_ok c', notify_state_change m station (ac_state c) AUTHORITY_SUPERVISED),
              set_context i c' m)))"

definition authority_handle_released ::
  "authority_manager option \<Rightarrow> string option \<Rightarrow> u32 \<Rightarrow> bool \<Rightarrow> authority_reply \<times> authority_manager option" where
  "authority_handle_released mgr station_name epoch ctx_ok =
     on_entry mgr station_name (\<lambda>station i m.
       let c = context_at m i;
           c' = c\<lparr>ac_epoch := epoch, ac_state := AUTHORITY_AUTONOMOUS, ac_rtu_acknowledged := False,
                  ac_holder := cstr_copy 63 station\<rparr>
       in ((WTC_OK, copy_out ctx_ok c', notify_state_change m station (ac_state c) AUTHORITY_AUTONOMOUS), set_context i c' m))"

definition authority_validate_command :: "authority_manager option \<Rightarrow> string option \<Rightarrow> u32 \<Rightarrow> wtc_result" where
  "authority_validate_command mgr station_name command_epoch =
     with_handle WTC_ERROR_INVALID_PARAM (\<lambda>m.
       case station_name of
         None \<Rightarrow> WTC_ERROR_INVALID_PARAM
       | Some station \<Rightarrow>
           (case find_entry m station of
              None \<Rightarrow> WTC_ERROR_NOT_FOUND
            | Some i \<Rightarrow>
                if ac_state (context_at m i) \<noteq> AUTHORITY_SUPERVISED then WTC_ERROR_PERMISSION
                else if command_epoch \<noteq> 0 \<and> command_epoch < ac_epoch (context_at m i) then WTC_ERROR_PERMISSION
                else WTC_OK)) mgr"

definition authority_get_state :: "authority_manager option \<Rightarrow> string option \<Rightarrow> authority_state" where
  "authority_get_state mgr station_name =
     (case (mgr, station_name) of
        (Some m, Some station) \<Rightarrow>
          (case find_entry m station of None \<Rightarrow> AUTHORITY_AUTONOMOUS | Some i \<Rightarrow> ac_state (context_at m i))
      | _ \<Rightarrow> AUTHORITY_AUTONOMOUS)"

definition authority_get_epoch :: "authority_manager option \<Rightarrow> string option \<Rightarrow> u32" where
  "authority_get_epoch mgr station_name =
     (case (mgr, station_name) of
        (Some m, Some station) \<Rightarrow> (case find_entry m station of None \<Rightarrow> 0 | Some i \<Rightarrow> ac_epoch (context_at m i))
      | _ \<Rightarrow> 0)"

definition timed_out :: "authority_manager \<Rightarrow> u64 \<Rightarrow> authority_context \<Rightarrow> bool" where
  "timed_out m now c \<longleftrightarrow> ucast (amc_handoff_timeout_ms (am_config m)) < now - ac_request_time_ms c"

definition process_entry :: "u64 \<Rightarrow> nat \<Rightarrow> authority_manager \<Rightarrow> authority_event list \<times> authority_manager" where
  "process_entry now i m =
     (let e = am_entries m ! i; c = ae_context e;
          pending = (ac_state c = AUTHORITY_HANDOFF_PENDING \<and> timed_out m now c);
          c' = (if pending then c\<lparr>ac_state := AUTHORITY_AUTONOMOUS, ac_controller_online := False\<rparr> else c);
          evs = (if pending then notify_state_change m (ae_station_name e) (ac_state c) AUTHORITY_AUTONOMOUS else []);
          releasing = (ac_state c' = AUTHORITY_RELEASING \<and> timed_out m now c');
          c'' = (if releasing then c'\<lparr>ac_state := AUTHORITY_AUTONOMOUS, ac_epoch := ac_epoch c' + 1\<rparr> else c');
          evs' = (if releasing then notify_state_change m (ae_station_name e) (ac_state c') AUTHORITY_AUTONOMOUS else [])
      in (evs @ evs', set_context i c'' m))"

definition authority_manager_process ::
  "authority_manager option \<Rightarrow> u64 \<Rightarrow> authority_reply \<times> authority_manager option" where
  "authority_manager_process mgr now =
     on_handle (WTC_ERROR_INVALID_PARAM, None, []) (\<lambda>m.
       let (evs, m) = for_each (process_entry now) [0..<length (am_entries m)] m in ((WTC_OK, None, evs), m)) mgr"

definition authority_force_release :: "authority_manager option \<Rightarrow> string option \<Rightarrow> authority_reply \<times> authority_manager option" where
  "authority_force_release mgr station_name =
     on_entry mgr station_name (\<lambda>station i m.
       let c = context_at m i;
           c' = c\<lparr>ac_state := AUTHORITY_AUTONOMOUS, ac_epoch := ac_epoch c + 1, ac_controller_online := False,
                  ac_holder := cstr_copy 63 station\<rparr>
       in ((WTC_OK, None, notify_state_change m station (ac_state c) AUTHORITY_AUTONOMOUS), set_context i c' m))"

fun authority_state_to_string :: "authority_state \<Rightarrow> string" where
  "authority_state_to_string AUTHORITY_AUTONOMOUS = ''AUTONOMOUS''"
| "authority_state_to_string AUTHORITY_HANDOFF_PENDING = ''HANDOFF_PENDING''"
| "authority_state_to_string AUTHORITY_SUPERVISED = ''SUPERVISED''"
| "authority_state_to_string AUTHORITY_RELEASING = ''RELEASING''"

section \<open>The protocol\<close>

datatype authority_call =
  Request string u64
| Release string u64
| Grant string u32 u64
| Released string u32
| Force_Release string
| Process_Timeouts u64

fun auth_exec :: "authority_call \<Rightarrow> authority_manager \<Rightarrow> authority_reply \<times> authority_manager" where
  "auth_exec (Request st t) m = apsnd the (authority_request (Some m) (Some st) True t)"
| "auth_exec (Release st t) m = apsnd the (authority_release (Some m) (Some st) True t)"
| "auth_exec (Grant st e t) m = apsnd the (authority_handle_grant (Some m) (Some st) e True t)"
| "auth_exec (Released st e) m = apsnd the (authority_handle_released (Some m) (Some st) e True)"
| "auth_exec (Force_Release st) m = apsnd the (authority_force_release (Some m) (Some st))"
| "auth_exec (Process_Timeouts t) m = apsnd the (authority_manager_process (Some m) t)"

fun call_station :: "authority_call \<Rightarrow> string option" where
  "call_station (Request st t) = Some st"
| "call_station (Release st t) = Some st"
| "call_station (Grant st e t) = Some st"
| "call_station (Released st e) = Some st"
| "call_station (Force_Release st) = Some st"
| "call_station (Process_Timeouts t) = None"

text \<open>The context of a station as a client sees it.\<close>

definition context_of :: "authority_manager \<Rightarrow> string \<Rightarrow> authority_context option" where
  "context_of m st = map_option (context_at m) (find_entry m st)"

text \<open>The transitions of the protocol for one station: a state, the epoch, and what a call makes of them.\<close>

inductive auth_move :: "authority_call \<Rightarrow> authority_state \<times> u32 \<Rightarrow> authority_state \<times> u32 \<Rightarrow> bool" where
  stay: "auth_move c s s"
| request: "st = AUTHORITY_AUTONOMOUS \<or> st = AUTHORITY_RELEASING \<Longrightarrow> auth_move (Request n t) (st, e) (AUTHORITY_HANDOFF_PENDING, e)"
| grant: "auth_move (Grant n e' t) (AUTHORITY_HANDOFF_PENDING, e) (AUTHORITY_SUPERVISED, e')"
| release: "auth_move (Release n t) (AUTHORITY_SUPERVISED, e) (AUTHORITY_RELEASING, e)"
| released: "auth_move (Released n e') (st, e) (AUTHORITY_AUTONOMOUS, e')"
| forced: "auth_move (Force_Release n) (st, e) (AUTHORITY_AUTONOMOUS, e + 1)"
| handoff_timeout: "auth_move (Process_Timeouts t) (AUTHORITY_HANDOFF_PENDING, e) (AUTHORITY_AUTONOMOUS, e)"
| release_timeout: "auth_move (Process_Timeouts t) (AUTHORITY_RELEASING, e) (AUTHORITY_AUTONOMOUS, e + 1)"

inductive_cases to_supervised: "auth_move c (st, e) (AUTHORITY_SUPERVISED, e')"
inductive_cases to_pending: "auth_move c (st, e) (AUTHORITY_HANDOFF_PENDING, e')"

lemma find_pos_names: "map f xs = map f ys \<Longrightarrow> find_pos (\<lambda>e. f e = k) xs = find_pos (\<lambda>e. f e = k) ys"
proof (induction xs arbitrary: ys)
  case (Cons x xs)
  then show ?case by (cases ys) auto
qed simp

lemma find_pos_snoc:
  "find_pos p (xs @ [y]) = (case find_pos p xs of None \<Rightarrow> if p y then Some (length xs) else None | Some i \<Rightarrow> Some i)"
  by (induction xs) (auto split: option.split)

lemma find_entry_Some: "find_entry m st = Some i \<Longrightarrow> i < length (am_entries m) \<and> ae_station_name (am_entries m ! i) = st"
  unfolding find_entry_def by (drule find_pos_SomeD) simp

lemma find_entry_set [simp]: "find_entry (set_context i c m) st = find_entry m st"
proof -
  have "map ae_station_name (am_entries (set_context i c m)) = map ae_station_name (am_entries m)"
    by (cases "i < length (am_entries m)") (simp_all add: set_context_def map_update list_update_same_conv list_update_beyond)
  then show ?thesis unfolding find_entry_def by (rule find_pos_names)
qed

lemma context_of_set:
  assumes "find_entry m n = Some i"
  shows "context_of (set_context i c m) st = (if st = n then Some c else context_of m st)"
proof (cases "st = n")
  case True
  with assms find_entry_Some [OF assms] show ?thesis by (simp add: context_of_def) (simp add: set_context_def)
next
  case False
  show ?thesis
  proof (cases "find_entry m st")
    case (Some j)
    with False find_entry_Some [OF Some] find_entry_Some [OF assms] have "i \<noteq> j" by blast
    with False Some show ?thesis by (simp add: context_of_def) (simp add: set_context_def)
  qed (use False in \<open>simp add: context_of_def\<close>)
qed

definition auth_view :: "authority_manager \<Rightarrow> string \<Rightarrow> authority_state \<times> u32" where
  "auth_view m st = (case context_of m st of None \<Rightarrow> (AUTHORITY_AUTONOMOUS, 1) | Some c \<Rightarrow> (ac_state c, ac_epoch c))"

lemma auth_view_set:
  "find_entry m n = Some i \<Longrightarrow> auth_view (set_context i c m) st = (if st = n then (ac_state c, ac_epoch c) else auth_view m st)"
  by (simp add: auth_view_def context_of_set)

lemma auth_view_at: "find_entry m n = Some i \<Longrightarrow> auth_view m n = (ac_state (context_at m i), ac_epoch (context_at m i))"
  by (simp add: auth_view_def context_of_def)

lemma find_or_create:
  assumes "find_or_create_entry m n = (r, m')" and "length n \<le> 63"
  shows "auth_view m' st = auth_view m st" and "r = Some i \<Longrightarrow> find_entry m' n = Some i"
proof -
  let ?e = "\<lparr>ae_station_name = n, ae_context = authority_context_init, ae_last_heartbeat_ms = 0\<rparr>"
  have "auth_view m' st = auth_view m st \<and> (r = Some i \<longrightarrow> find_entry m' n = Some i)"
  proof (cases "find_entry m n = None \<and> length (am_entries m) < MAX_AUTHORITY_ENTRIES")
    case True
    have m': "m' = m\<lparr>am_entries := am_entries m @ [?e]\<rparr>" "r = Some (length (am_entries m))"
      using assms True by (auto simp: find_or_create_entry_def cstr_copy_id)
    have f: "find_entry m' s = (if s = n then Some (length (am_entries m)) else find_entry m s)" for s
      using True by (auto simp: m' find_entry_def find_pos_snoc split: option.split)
    have "am_entries m' ! k = (if k = length (am_entries m) then ?e else am_entries m ! k)" if "k \<le> length (am_entries m)" for k
      using that by (auto simp: m' nth_append)
    with f [of st] f [of n] m'(2) True find_entry_Some [of m st] show ?thesis
      by (auto simp: auth_view_def context_of_def authority_context_init_def less_imp_le split: option.split)
  next
    case False
    then show ?thesis using assms by (auto simp: find_or_create_entry_def split: option.splits if_splits)
  qed
  then show "auth_view m' st = auth_view m st" and "r = Some i \<Longrightarrow> find_entry m' n = Some i" by auto
qed

definition after_timeouts :: "u64 \<Rightarrow> authority_manager \<Rightarrow> authority_entry \<Rightarrow> authority_entry" where
  "after_timeouts now m e = e\<lparr>ae_context :=
     (let c = ae_context e; c' = (if ac_state c = AUTHORITY_HANDOFF_PENDING \<and> timed_out m now c
            then c\<lparr>ac_state := AUTHORITY_AUTONOMOUS, ac_controller_online := False\<rparr> else c)
      in if ac_state c' = AUTHORITY_RELEASING \<and> timed_out m now c'
         then c'\<lparr>ac_state := AUTHORITY_AUTONOMOUS, ac_epoch := ac_epoch c' + 1\<rparr> else c')\<rparr>"

lemma process_entry_entries:
  "am_entries (snd (process_entry now i m)) = (am_entries m)[i := after_timeouts now m (am_entries m ! i)]"
  by (simp add: process_entry_def set_context_def after_timeouts_def Let_def)

lemma after_timeouts_name: "ae_station_name (after_timeouts now m e) = ae_station_name e"
  by (simp add: after_timeouts_def)

lemma after_timeouts_moves:
  "auth_move (Process_Timeouts t) (ac_state (ae_context e), ac_epoch (ae_context e))
    (ac_state (ae_context (after_timeouts t m e)), ac_epoch (ae_context (after_timeouts t m e)))"
  by (cases "ac_state (ae_context e)") (simp_all add: after_timeouts_def Let_def auth_move.intros)

lemma process_moves: "auth_move (Process_Timeouts t) (auth_view m st) (auth_view (snd (auth_exec (Process_Timeouts t) m)) st)"
proof -
  let ?m = "snd (for_each (process_entry t) [0..<length (am_entries m)] m)"
  note entry = for_each_entry [of am_entries "process_entry t" "\<lambda>i e m. after_timeouts t m e", OF process_entry_entries order_refl]
  have names: "map ae_station_name (am_entries ?m) = map ae_station_name (am_entries m)"
  proof (rule nth_equalityI)
    fix k assume "k < length (map ae_station_name (am_entries ?m))"
    with entry(1) have "k < length (am_entries m)" by simp
    with entry(1) [of m] entry(2) [OF this] show "map ae_station_name (am_entries ?m) ! k = map ae_station_name (am_entries m) ! k"
      by (auto simp: after_timeouts_name)
  qed (simp add: entry(1))
  then have same: "find_entry ?m st = find_entry m st" unfolding find_entry_def by (rule find_pos_names)
  have "auth_move (Process_Timeouts t) (auth_view m st) (auth_view ?m st)"
  proof (cases "find_entry m st")
    case None
    then show ?thesis by (simp add: auth_view_def context_of_def same auth_move.stay)
  next
    case (Some k)
    then have "k < length (am_entries m)" using find_entry_Some by blast
    from entry(2) [OF this] obtain n where "am_entries ?m ! k = after_timeouts t n (am_entries m ! k)" by auto
    with Some same show ?thesis by (simp add: auth_view_def context_of_def after_timeouts_moves)
  qed
  then show ?thesis by (simp add: authority_manager_process_def split_beta Let_def)
qed

text \<open>An operation on the entry of a station that leaves the table alone or stores a context it may move to.\<close>

lemma set_context_moves:
  assumes "find_entry m n = Some i"
    and "m' = m \<or> (\<exists>c'. m' = set_context i c' m \<and>
      auth_move c (ac_state (context_at m i), ac_epoch (context_at m i)) (ac_state c', ac_epoch c'))"
  shows "auth_move c (auth_view m st) (auth_view m' st) \<and> (st \<noteq> n \<longrightarrow> auth_view m' st = auth_view m st)"
  using assms(2)
proof
  assume "\<exists>c'. m' = set_context i c' m \<and>
    auth_move c (ac_state (context_at m i), ac_epoch (context_at m i)) (ac_state c', ac_epoch c')"
  then obtain c' where c': "m' = set_context i c' m"
    "auth_move c (ac_state (context_at m i), ac_epoch (context_at m i)) (ac_state c', ac_epoch c')" by blast
  show ?thesis
  proof (cases "st = n")
    case True
    with c' auth_view_at [OF assms(1)] auth_view_set [OF assms(1)] show ?thesis by simp
  next
    case False
    with c'(1) auth_view_set [OF assms(1)] show ?thesis by (simp add: auth_move.stay)
  qed
qed (simp add: auth_move.stay)

lemma on_entry_moves:
  assumes "\<And>i. find_entry m n = Some i \<Longrightarrow> snd (f n i m) = m \<or> (\<exists>c'. snd (f n i m) = set_context i c' m \<and>
      auth_move c (ac_state (context_at m i), ac_epoch (context_at m i)) (ac_state c', ac_epoch c'))"
  shows "auth_move c (auth_view m st) (auth_view (the (snd (on_entry (Some m) (Some n) f))) st) \<and>
    (st \<noteq> n \<longrightarrow> auth_view (the (snd (on_entry (Some m) (Some n) f))) st = auth_view m st)"
proof (cases "find_entry m n")
  case (Some i)
  from set_context_moves [OF Some assms [OF Some]] Some show ?thesis by (simp add: on_entry_def)
qed (simp add: on_entry_def auth_move.stay)

lemma request_moves:
  assumes "length n \<le> 63"
  shows "auth_move (Request n t) (auth_view m st) (auth_view (snd (auth_exec (Request n t) m)) st) \<and>
    (st \<noteq> n \<longrightarrow> auth_view (snd (auth_exec (Request n t) m)) st = auth_view m st)"
proof -
  obtain r m' where fc: "find_or_create_entry m n = (r, m')" by fastforce
  have view: "auth_view m' s = auth_view m s" for s by (rule find_or_create(1) [OF fc assms])
  show ?thesis
  proof (cases r)
    case None
    then show ?thesis using fc view by (simp add: authority_request_def auth_move.stay)
  next
    case (Some i)
    let ?m = "snd (auth_exec (Request n t) m)"
    have f: "find_entry m' n = Some i" by (rule find_or_create(2) [OF fc assms Some])
    have "?m = m' \<or> (\<exists>c'. ?m = set_context i c' m' \<and>
        auth_move (Request n t) (ac_state (context_at m' i), ac_epoch (context_at m' i)) (ac_state c', ac_epoch c'))"
      using fc Some by (cases "ac_state (context_at m' i)") (auto simp: authority_request_def Let_def auth_move.request)
    from set_context_moves [OF f this] view show ?thesis by simp
  qed
qed

lemma call_moves:
  assumes "\<And>n. call_station c = Some n \<Longrightarrow> length n \<le> 63"
  shows "auth_move c (auth_view m st) (auth_view (snd (auth_exec c m)) st)"
    and "call_station c = Some n \<Longrightarrow> st \<noteq> n \<Longrightarrow> auth_view (snd (auth_exec c m)) st = auth_view m st"
proof -
  have "auth_move c (auth_view m st) (auth_view (snd (auth_exec c m)) st) \<and>
    (\<forall>n. call_station c = Some n \<longrightarrow> st \<noteq> n \<longrightarrow> auth_view (snd (auth_exec c m)) st = auth_view m st)"
  proof (cases c)
    case (Request n t)
    with request_moves [of n] assms show ?thesis by (simp del: auth_exec.simps)
  next
    case (Process_Timeouts t)
    with process_moves show ?thesis by (simp del: auth_exec.simps)
  next
    case (Release n t)
    have "auth_move (Release n t) (auth_view m st) (auth_view (the (snd (authority_release (Some m) (Some n) True t))) st) \<and>
        (st \<noteq> n \<longrightarrow> auth_view (the (snd (authority_release (Some m) (Some n) True t))) st = auth_view m st)"
      unfolding authority_release_def by (rule on_entry_moves) (auto simp: Let_def auth_move.release)
    then show ?thesis by (simp add: Release)
  next
    case (Grant n e t)
    have "auth_move (Grant n e t) (auth_view m st) (auth_view (the (snd (authority_handle_grant (Some m) (Some n) e True t))) st) \<and>
        (st \<noteq> n \<longrightarrow> auth_view (the (snd (authority_handle_grant (Some m) (Some n) e True t))) st = auth_view m st)"
      unfolding authority_handle_grant_def by (rule on_entry_moves) (auto simp: Let_def auth_move.grant)
    then show ?thesis by (simp add: Grant)
  next
    case (Released n e)
    have "auth_move (Released n e) (auth_view m st) (auth_view (the (snd (authority_handle_released (Some m) (Some n) e True))) st) \<and>
        (st \<noteq> n \<longrightarrow> auth_view (the (snd (authority_handle_released (Some m) (Some n) e True))) st = auth_view m st)"
      unfolding authority_handle_released_def
      by (rule on_entry_moves, rule disjI2, rule exI, rule conjI) (simp_all add: Let_def, simp add: auth_move.released)
    then show ?thesis by (simp add: Released)
  next
    case (Force_Release n)
    have "auth_move (Force_Release n) (auth_view m st) (auth_view (the (snd (authority_force_release (Some m) (Some n)))) st) \<and>
        (st \<noteq> n \<longrightarrow> auth_view (the (snd (authority_force_release (Some m) (Some n)))) st = auth_view m st)"
      unfolding authority_force_release_def
      by (rule on_entry_moves, rule disjI2, rule exI, rule conjI) (simp_all add: Let_def, simp add: auth_move.forced)
    then show ?thesis by (simp add: Force_Release)
  qed
  then show "auth_move c (auth_view m st) (auth_view (snd (auth_exec c m)) st)"
    and "call_station c = Some n \<Longrightarrow> st \<noteq> n \<Longrightarrow> auth_view (snd (auth_exec c m)) st = auth_view m st" by auto
qed

text \<open>\<^bold>\<open>C33.\<close> The handoff protocol: every call moves the state and epoch of every station along one of the
  protocol's transitions (request, grant, release, released, forced release, the two timeouts) or
  leaves them alone, and a call for one station does not touch another. Station names have at most 63
  characters, the size of the field they are stored in.\<close>

theorem authority_protocol:
  assumes "\<forall>n. call_station c = Some n \<longrightarrow> length n \<le> 63"
  shows "auth_move c (auth_view m st) (auth_view (snd (auth_exec c m)) st) \<and>
    (\<forall>n. call_station c = Some n \<longrightarrow> st \<noteq> n \<longrightarrow> auth_view (snd (auth_exec c m)) st = auth_view m st)"
  using call_moves [of c] assms by blast

definition no_authority :: authority_manager where
  "no_authority = the (snd (authority_manager_init True True None))"

theorem authority_protocol_witness:
  "auth_move (Request ''rtu-1'' 100) (auth_view no_authority ''rtu-1'')
     (auth_view (snd (auth_exec (Request ''rtu-1'' 100) no_authority)) ''rtu-1'') \<and>
   auth_view (snd (auth_exec (Request ''rtu-1'' 100) no_authority)) ''rtu-1'' = (AUTHORITY_HANDOFF_PENDING, 1)"
  using authority_protocol [of "Request ''rtu-1'' 100" no_authority "''rtu-1''"]
  by (simp add: no_authority_def authority_manager_init_def authority_request_def find_or_create_entry_def find_entry_def
      MAX_AUTHORITY_ENTRIES_def authority_context_init_def zero_authority_def auth_view_def context_of_def set_context_def cstr_copy_def Let_def)

section \<open>Commands need a grant\<close>

fun gives_up :: "string \<Rightarrow> authority_call \<Rightarrow> bool" where
  "gives_up st (Release n t) = (n = st)"
| "gives_up st (Released n e) = (n = st)"
| "gives_up st (Force_Release n) = (n = st)"
| "gives_up st _ = False"

text \<open>\<open>st\<close> was requested, then granted with epoch \<open>e\<close>, and has not been given up since.\<close>

definition held_since :: "authority_call list \<Rightarrow> string \<Rightarrow> u32 \<Rightarrow> bool" where
  "held_since calls st e \<longleftrightarrow> (\<exists>xs t ys. calls = xs @ Grant st e t # ys \<and> (\<exists>t'. Request st t' \<in> set xs) \<and>
     (\<forall>c \<in> set ys. \<not> gives_up st c))"

lemma held_since_snoc: "held_since calls st e \<Longrightarrow> \<not> gives_up st c \<Longrightarrow> held_since (calls @ [c]) st e"
proof -
  assume "held_since calls st e" and keep: "\<not> gives_up st c"
  then obtain xs t ys where "calls = xs @ Grant st e t # ys" "\<exists>t'. Request st t' \<in> set xs" "\<forall>c \<in> set ys. \<not> gives_up st c"
    unfolding held_since_def by blast
  with keep show ?thesis
    unfolding held_since_def by (intro exI [of _ xs] exI [of _ t] exI [of _ "ys @ [c]"]) auto
qed

lemma auth_view_None: "find_entry m st = None \<Longrightarrow> auth_view m st = (AUTHORITY_AUTONOMOUS, 1)"
  by (simp add: auth_view_def context_of_def)

lemma gives_up_not_supervised:
  assumes "gives_up st c"
  shows "fst (auth_view (snd (auth_exec c m)) st) \<noteq> AUTHORITY_SUPERVISED"
proof (cases "find_entry m st")
  case None
  then show ?thesis using assms
    by (cases c) (simp_all add: authority_release_def authority_handle_released_def authority_force_release_def on_entry_def
        auth_view_None)
next
  case (Some i)
  note set = auth_view_set [OF Some] auth_view_at [OF Some]
  show ?thesis using assms
    by (cases c) (simp_all add: authority_release_def authority_handle_released_def authority_force_release_def on_entry_def
        Some set Let_def)
qed

lemma run_calls_snoc: "snd (run_calls ex (cs @ [c]) s) = snd (ex c (snd (run_calls ex cs s)))"
  by (induction cs arbitrary: s) (simp_all add: split_beta Let_def)

lemma history:
  assumes "\<forall>c \<in> set calls. \<forall>n. call_station c = Some n \<longrightarrow> length n \<le> 63"
  shows "(fst (auth_view (snd (run_calls auth_exec calls no_authority)) st) = AUTHORITY_HANDOFF_PENDING \<longrightarrow>
      (\<exists>t. Request st t \<in> set calls)) \<and>
    (fst (auth_view (snd (run_calls auth_exec calls no_authority)) st) = AUTHORITY_SUPERVISED \<longrightarrow>
      held_since calls st (snd (auth_view (snd (run_calls auth_exec calls no_authority)) st)))"
  using assms
proof (induction calls rule: rev_induct)
  case Nil
  then show ?case by (simp add: no_authority_def authority_manager_init_def auth_view_def context_of_def find_entry_def)
next
  case (snoc c calls)
  let ?m = "snd (run_calls auth_exec calls no_authority)"
  let ?m' = "snd (auth_exec c ?m)"
  have run: "snd (run_calls auth_exec (calls @ [c]) no_authority) = ?m'" by (simp add: run_calls_snoc)
  obtain s e s' e' where v: "auth_view ?m st = (s, e)" "auth_view ?m' st = (s', e')" by fastforce
  have short: "\<forall>n. call_station c = Some n \<longrightarrow> length n \<le> 63" using snoc.prems by simp
  have move: "auth_move c (s, e) (s', e')" using call_moves(1) [of c ?m st] short v by simp
  have other: "s' = s \<and> e' = e" if "call_station c = Some n" "st \<noteq> n" for n
    using call_moves(2) [of c n st ?m] short that v by simp
  have IH: "s = AUTHORITY_HANDOFF_PENDING \<Longrightarrow> \<exists>t. Request st t \<in> set calls" "s = AUTHORITY_SUPERVISED \<Longrightarrow> held_since calls st e"
    using snoc v by simp_all
  have pending: "\<exists>t. Request st t \<in> set (calls @ [c])" if p: "s' = AUTHORITY_HANDOFF_PENDING"
  proof -
    have "s = AUTHORITY_HANDOFF_PENDING \<or> s \<noteq> AUTHORITY_HANDOFF_PENDING \<and> (\<exists>n t. c = Request n t)"
      using move [unfolded p] by (auto elim: to_pending)
    then consider "s = AUTHORITY_HANDOFF_PENDING" | n t where "s \<noteq> AUTHORITY_HANDOFF_PENDING" "c = Request n t" by blast
    then show ?thesis
    proof cases
      case 1
      with IH(1) show ?thesis by auto
    next
      case 2
      with other p have "n = st" by auto
      with 2 show ?thesis by auto
    qed
  qed
  have held: "held_since (calls @ [c]) st e'" if p: "s' = AUTHORITY_SUPERVISED"
  proof -
    have keep: "\<not> gives_up st c" using gives_up_not_supervised [of st c ?m] v p by auto
    have "s = AUTHORITY_SUPERVISED \<and> e' = e \<or> s = AUTHORITY_HANDOFF_PENDING \<and> (\<exists>n t. c = Grant n e' t)"
      using move [unfolded p] by (auto elim: to_supervised)
    then consider "s = AUTHORITY_SUPERVISED" "e' = e" | n t where "s = AUTHORITY_HANDOFF_PENDING" "c = Grant n e' t" by blast
    then show ?thesis
    proof cases
      case 1
      with IH(2) keep show ?thesis by (simp add: held_since_snoc)
    next
      case 2
      with other p have "n = st" by auto
      moreover obtain t' where "Request st t' \<in> set calls" using IH(1) 2 by blast
      ultimately show ?thesis using 2 unfolding held_since_def by (intro exI [of _ calls] exI [of _ t] exI [of _ "[]"]) auto
    qed
  qed
  show ?case unfolding run v fst_conv snd_conv using pending held by blast
qed

text \<open>\<^bold>\<open>C5.\<close> A command is accepted only under a grant: if, after any sequence of calls on a new manager, a
  command for a station is valid, then the station was requested, afterwards granted with some epoch,
  and since then neither released, reported released nor force-released, and the epoch of the command
  is zero or at least that of the grant.\<close>

theorem command_needs_grant:
  assumes "\<forall>c \<in> set calls. \<forall>n. call_station c = Some n \<longrightarrow> length n \<le> 63"
    and "authority_validate_command (Some (snd (run_calls auth_exec calls no_authority))) (Some st) command_epoch = WTC_OK"
  shows "\<exists>e. held_since calls st e \<and> (command_epoch = 0 \<or> e \<le> command_epoch)"
proof -
  let ?m = "snd (run_calls auth_exec calls no_authority)"
  obtain i where i: "find_entry ?m st = Some i" using assms(2)
    by (cases "find_entry ?m st") (simp_all add: authority_validate_command_def)
  with assms(2) have "ac_state (context_at ?m i) = AUTHORITY_SUPERVISED"
    "command_epoch = 0 \<or> ac_epoch (context_at ?m i) \<le> command_epoch"
    by (auto simp: authority_validate_command_def split: if_splits)
  with history [OF assms(1), of st] auth_view_at [OF i] show ?thesis by auto
qed

theorem command_needs_grant_witness:
  "\<exists>e. held_since [Request ''rtu-1'' 100, Grant ''rtu-1'' 5 200] ''rtu-1'' e \<and> ((7 :: u32) = 0 \<or> e \<le> 7)"
  by (rule command_needs_grant)
    (simp_all add: no_authority_def authority_manager_init_def authority_request_def authority_handle_grant_def on_entry_def
      authority_validate_command_def find_or_create_entry_def find_entry_def MAX_AUTHORITY_ENTRIES_def
      authority_context_init_def zero_authority_def set_context_def cstr_copy_def Let_def)

end
