(* ===== verification/Failover.thy ===== *)
theory Failover
  imports Registry
begin

text \<open>
  Failover (\<^verbatim>\<open>src/src/coordination/failover.c\<close>): the health of the stations, the configured backups, and the
  periodic pass that fails over to a backup and restores the primary.

  A pointer into the health table is its index. The clock readings of a pass are \<open>fe_now\<close>, the reading
  made when the entry of a station is created and the one made when a station is failed over.
\<close>

section \<open>State\<close>

definition MAX_MONITORED_RTUS :: nat where "MAX_MONITORED_RTUS = 256"

record failover_config =
  fc_mode :: failover_mode
  fc_heartbeat_interval_ms :: u32
  fc_timeout_ms :: u32
  fc_max_retries :: int

record rtu_health =
  rh_station_name :: string
  rh_healthy :: bool
  rh_last_heartbeat_ms :: u64
  rh_consecutive_failures :: int
  rh_packet_loss :: f32
  rh_in_failover :: bool
  rh_backup_station :: string

record failover_status =
  fs_healthy_count :: int
  fs_failed_count :: int
  fs_in_failover_count :: int
  fs_last_failover_ms :: u64
  fs_last_failed_station :: string

record backup_mapping =
  bm_primary :: string
  bm_backup :: string
  bm_active :: bool

record failover_manager =
  fm_config :: failover_config
  fm_running :: bool
  fm_registry :: "rtu_registry option"
  fm_health :: "rtu_health list"
  fm_backups :: "backup_mapping list"
  fm_status :: failover_status
  fm_callback :: bool
  fm_last_process_ms :: u64

datatype failover_event = Failover_Changed string string bool

record failover_env =
  fe_now :: u64
  fe_created :: "string \<Rightarrow> u64"
  fe_failed :: "string \<Rightarrow> u64"

section \<open>Configuration\<close>

definition failover_init ::
  "bool \<Rightarrow> bool \<Rightarrow> bool \<Rightarrow> bool \<Rightarrow> failover_config option \<Rightarrow> wtc_result \<times> failover_manager option" where
  "failover_init out_ok mem mem_health mem_backups config =
     (case config of
        None \<Rightarrow> (WTC_ERROR_INVALID_PARAM, None)
      | Some c \<Rightarrow>
          if \<not> out_ok then (WTC_ERROR_INVALID_PARAM, None)
          else if \<not> mem \<or> \<not> mem_health \<or> \<not> mem_backups then (WTC_ERROR_NO_MEMORY, None)
          else (WTC_OK, Some \<lparr>fm_config = c, fm_running = False, fm_registry = None, fm_health = [], fm_backups = [],
                  fm_status = \<lparr>fs_healthy_count = 0, fs_failed_count = 0, fs_in_failover_count = 0,
                    fs_last_failover_ms = 0, fs_last_failed_station = []\<rparr>, fm_callback = False, fm_last_process_ms = 0\<rparr>))"

definition failover_start :: "failover_manager option \<Rightarrow> u64 \<Rightarrow> wtc_result \<times> failover_manager option" where
  "failover_start mgr now =
     on_handle WTC_ERROR_INVALID_PARAM (\<lambda>m. (WTC_OK, m\<lparr>fm_running := True, fm_last_process_ms := now\<rparr>)) mgr"

definition failover_stop :: "failover_manager option \<Rightarrow> wtc_result \<times> failover_manager option" where
  "failover_stop mgr = on_handle WTC_ERROR_INVALID_PARAM (\<lambda>m. (WTC_OK, m\<lparr>fm_running := False\<rparr>)) mgr"

definition failover_set_registry :: "failover_manager option \<Rightarrow> rtu_registry option \<Rightarrow> wtc_result \<times> failover_manager option" where
  "failover_set_registry mgr registry =
     on_handle WTC_ERROR_INVALID_PARAM (\<lambda>m. (WTC_OK, m\<lparr>fm_registry := registry\<rparr>)) mgr"

definition failover_set_callback :: "failover_manager option \<Rightarrow> bool \<Rightarrow> wtc_result \<times> failover_manager option" where
  "failover_set_callback mgr cb = on_handle WTC_ERROR_INVALID_PARAM (\<lambda>m. (WTC_OK, m\<lparr>fm_callback := cb\<rparr>)) mgr"

definition new_health :: "string \<Rightarrow> u64 \<Rightarrow> rtu_health" where
  "new_health station now = \<lparr>rh_station_name = cstr_copy 63 station, rh_healthy = True, rh_last_heartbeat_ms = now,
     rh_consecutive_failures = 0, rh_packet_loss = 0, rh_in_failover = False, rh_backup_station = []\<rparr>"

definition get_health_entry :: "(string \<Rightarrow> u64) \<Rightarrow> string \<Rightarrow> failover_manager \<Rightarrow> nat option \<times> failover_manager" where
  "get_health_entry created station m =
     (case find_pos (\<lambda>h. rh_station_name h = station) (fm_health m) of
        Some i \<Rightarrow> (Some i, m)
      | None \<Rightarrow>
          if MAX_MONITORED_RTUS \<le> length (fm_health m) then (None, m)
          else (Some (length (fm_health m)), m\<lparr>fm_health := fm_health m @ [new_health station (created station)]\<rparr>))"

definition change_health :: "nat \<Rightarrow> (rtu_health \<Rightarrow> rtu_health) \<Rightarrow> failover_manager \<Rightarrow> failover_manager" where
  "change_health i f m = m\<lparr>fm_health := (fm_health m)[i := f (fm_health m ! i)]\<rparr>"

definition failover_set_backup ::
  "failover_manager option \<Rightarrow> string option \<Rightarrow> string option \<Rightarrow> wtc_result \<times> failover_manager option" where
  "failover_set_backup mgr primary_station backup_station =
     on_handle WTC_ERROR_INVALID_PARAM (\<lambda>m.
       case (primary_station, backup_station) of
         (Some p, Some b) \<Rightarrow>
           (case update_first (\<lambda>x. bm_primary x = p) (\<lambda>x. x\<lparr>bm_backup := cstr_copy 63 b\<rparr>) (fm_backups m) of
              Some bs \<Rightarrow> (WTC_OK, m\<lparr>fm_backups := bs\<rparr>)
            | None \<Rightarrow>
                if MAX_MONITORED_RTUS \<le> length (fm_backups m) then (WTC_ERROR_FULL, m)
                else (WTC_OK, m\<lparr>fm_backups := fm_backups m @
                       [\<lparr>bm_primary = cstr_copy 63 p, bm_backup = cstr_copy 63 b, bm_active = False\<rparr>]\<rparr>))
       | _ \<Rightarrow> (WTC_ERROR_INVALID_PARAM, m)) mgr"

definition failover_remove_backup :: "failover_manager option \<Rightarrow> string option \<Rightarrow> wtc_result \<times> failover_manager option" where
  "failover_remove_backup mgr primary_station =
     on_handle WTC_ERROR_INVALID_PARAM (\<lambda>m.
       case primary_station of
         None \<Rightarrow> (WTC_ERROR_INVALID_PARAM, m)
       | Some p \<Rightarrow>
           (case remove_first (\<lambda>x. bm_primary x = p) (fm_backups m) of
              None \<Rightarrow> (WTC_ERROR_NOT_FOUND, m)
            | Some bs \<Rightarrow> (WTC_OK, m\<lparr>fm_backups := bs\<rparr>))) mgr"

definition failover_get_health :: "failover_manager option \<Rightarrow> string option \<Rightarrow> bool \<Rightarrow> wtc_result \<times> rtu_health option" where
  "failover_get_health mgr station_name health_ok =
     (case (mgr, station_name) of
        (Some m, Some st) \<Rightarrow>
          if \<not> health_ok then (WTC_ERROR_INVALID_PARAM, None)
          else (case List.find (\<lambda>h. rh_station_name h = st) (fm_health m) of
                  None \<Rightarrow> (WTC_ERROR_NOT_FOUND, None)
                | Some h \<Rightarrow> (WTC_OK, Some h))
      | _ \<Rightarrow> (WTC_ERROR_INVALID_PARAM, None))"

definition failover_get_status :: "failover_manager option \<Rightarrow> bool \<Rightarrow> wtc_result \<times> failover_status option" where
  "failover_get_status mgr status_ok =
     (case mgr of
        None \<Rightarrow> (WTC_ERROR_INVALID_PARAM, None)
      | Some m \<Rightarrow> if status_ok then (WTC_OK, Some (fm_status m)) else (WTC_ERROR_INVALID_PARAM, None))"

section \<open>Failing over and restoring\<close>

abbreviation notify :: "failover_manager \<Rightarrow> backup_mapping \<Rightarrow> bool \<Rightarrow> failover_event list" where
  "notify m x b \<equiv> (if fm_callback m then [Failover_Changed (bm_primary x) (bm_backup x) b] else [])"

definition execute_failover :: "failover_env \<Rightarrow> nat \<Rightarrow> failover_manager \<Rightarrow> failover_event list \<times> failover_manager" where
  "execute_failover env k m =
     (let x = fm_backups m ! k in
      if bm_active x then ([], m)
      else
        (let m = m\<lparr>fm_backups := (fm_backups m)[k := x\<lparr>bm_active := True\<rparr>],
                   fm_status := (fm_status m)\<lparr>fs_last_failover_ms := fe_failed env (bm_primary x),
                     fs_last_failed_station := cstr_copy 63 (bm_primary x)\<rparr>\<rparr>;
             (h, m) = get_health_entry (fe_created env) (bm_primary x) m;
             m = (case h of
                    None \<Rightarrow> m
                  | Some i \<Rightarrow> change_health i (\<lambda>h. h\<lparr>rh_in_failover := True, rh_backup_station := cstr_copy 63 (bm_backup x)\<rparr>) m)
         in (notify m x True, m)))"

definition failover_restore ::
  "failover_env \<Rightarrow> failover_manager option \<Rightarrow> string option \<Rightarrow> (wtc_result \<times> failover_event list) \<times> failover_manager option" where
  "failover_restore env mgr station_name =
     on_handle (WTC_ERROR_INVALID_PARAM, []) (\<lambda>m.
       case station_name of
         None \<Rightarrow> ((WTC_ERROR_INVALID_PARAM, []), m)
       | Some st \<Rightarrow>
           (case find_pos (\<lambda>x. bm_primary x = st \<and> bm_active x) (fm_backups m) of
              None \<Rightarrow> ((WTC_ERROR_NOT_FOUND, []), m)
            | Some k \<Rightarrow>
                (let x = fm_backups m ! k;
                     m = m\<lparr>fm_backups := (fm_backups m)[k := x\<lparr>bm_active := False\<rparr>]\<rparr>;
                     (h, m) = get_health_entry (fe_created env) st m;
                     m = (case h of
                            None \<Rightarrow> m
                          | Some i \<Rightarrow> change_health i (\<lambda>h. h\<lparr>rh_in_failover := False, rh_backup_station := []\<rparr>) m)
                 in ((WTC_OK, notify m x False), m)))) mgr"

definition failover_force ::
  "failover_env \<Rightarrow> failover_manager option \<Rightarrow> string option \<Rightarrow> (wtc_result \<times> failover_event list) \<times> failover_manager option" where
  "failover_force env mgr station_name =
     on_handle (WTC_ERROR_INVALID_PARAM, []) (\<lambda>m.
       case station_name of
         None \<Rightarrow> ((WTC_ERROR_INVALID_PARAM, []), m)
       | Some st \<Rightarrow>
           (case find_pos (\<lambda>x. bm_primary x = st) (fm_backups m) of
              None \<Rightarrow> ((WTC_ERROR_NOT_FOUND, []), m)
            | Some k \<Rightarrow> (let (evs, m) = execute_failover env k m in ((WTC_OK, evs), m)))) mgr"

section \<open>The pass\<close>

abbreviation count_healthy :: "failover_manager \<Rightarrow> failover_manager" where
  "count_healthy m \<equiv> m\<lparr>fm_status := (fm_status m)\<lparr>fs_healthy_count := fs_healthy_count (fm_status m) + 1\<rparr>\<rparr>"

abbreviation count_failed :: "failover_manager \<Rightarrow> failover_manager" where
  "count_failed m \<equiv> m\<lparr>fm_status := (fm_status m)\<lparr>fs_failed_count := fs_failed_count (fm_status m) + 1\<rparr>\<rparr>"

abbreviation count_in_failover :: "failover_manager \<Rightarrow> failover_manager" where
  "count_in_failover m \<equiv> m\<lparr>fm_status := (fm_status m)\<lparr>fs_in_failover_count := fs_in_failover_count (fm_status m) + 1\<rparr>\<rparr>"

definition health_running :: "failover_env \<Rightarrow> nat \<Rightarrow> failover_manager \<Rightarrow> failover_event list \<times> failover_manager" where
  "health_running env i m =
     (let m = count_healthy (change_health i (\<lambda>h. h\<lparr>rh_healthy := True, rh_last_heartbeat_ms := fe_now env,
                rh_consecutive_failures := 0\<rparr>) m);
          h = fm_health m ! i
      in if rh_in_failover h \<and> fc_mode (fm_config m) = FAILOVER_MODE_AUTO
         then (let ((r, evs), m') = failover_restore env (Some m) (Some (rh_station_name h)) in (evs, the m'))
         else ([], m))"

definition health_lost :: "failover_env \<Rightarrow> nat \<Rightarrow> failover_manager \<Rightarrow> failover_manager" where
  "health_lost env i m =
     (if ucast (fc_timeout_ms (fm_config m)) \<le> fe_now env - rh_last_heartbeat_ms (fm_health m ! i)
      then count_failed (change_health i (\<lambda>h. h\<lparr>rh_healthy := False,
             rh_consecutive_failures := rh_consecutive_failures h + 1\<rparr>) m)
      else m)"

definition update_health :: "failover_env \<Rightarrow> rtu_device \<Rightarrow> failover_manager \<Rightarrow> failover_event list \<times> failover_manager" where
  "update_health env d m =
     (case get_health_entry (fe_created env) (rd_station_name d) m of
        (None, m) \<Rightarrow> ([], m)
      | (Some i, m) \<Rightarrow>
          (let (evs, m) = (if rd_connection_state d = PROFINET_STATE_RUNNING then health_running env i m
                           else ([], health_lost env i m));
               m = change_health i (\<lambda>h. h\<lparr>rh_packet_loss := rd_packet_loss_percent d\<rparr>) m
           in (evs, if rh_in_failover (fm_health m ! i) then count_in_failover m else m)))"

definition check_backup :: "failover_env \<Rightarrow> nat \<Rightarrow> failover_manager \<Rightarrow> failover_event list \<times> failover_manager" where
  "check_backup env k m =
     (case get_health_entry (fe_created env) (bm_primary (fm_backups m ! k)) m of
        (None, m) \<Rightarrow> ([], m)
      | (Some i, m) \<Rightarrow>
          if \<not> rh_healthy (fm_health m ! i) \<and> \<not> bm_active (fm_backups m ! k)
          then (case get_health_entry (fe_created env) (bm_backup (fm_backups m ! k)) m of
                  (None, m) \<Rightarrow> ([], m)
                | (Some j, m) \<Rightarrow> if rh_healthy (fm_health m ! j) then execute_failover env k m else ([], m))
          else ([], m))"

text \<open>The stations come from \<open>rtu_registry_list_devices\<close> with the allocations \<open>mem\<close> and \<open>a\<close>.\<close>

definition refresh_health ::
  "failover_env \<Rightarrow> bool \<Rightarrow> (nat \<Rightarrow> copy_alloc) \<Rightarrow> failover_manager \<Rightarrow> failover_event list \<times> failover_manager" where
  "refresh_health env mem a m =
     (case fm_registry m of
        None \<Rightarrow> ([], m)
      | Some r \<Rightarrow>
          (case rtu_registry_list_devices (Some r) True True (int MAX_MONITORED_RTUS) mem a of
             (WTC_OK, Some devices, _) \<Rightarrow>
               for_each (\<lambda>i. update_health env (devices ! i)) [0..<length devices]
                 (m\<lparr>fm_status := (fm_status m)\<lparr>fs_healthy_count := 0, fs_failed_count := 0, fs_in_failover_count := 0\<rparr>\<rparr>)
           | _ \<Rightarrow> ([], m)))"

definition failover_process ::
  "failover_env \<Rightarrow> bool \<Rightarrow> (nat \<Rightarrow> copy_alloc) \<Rightarrow> failover_manager option \<Rightarrow>
    (wtc_result \<times> failover_event list) \<times> failover_manager option" where
  "failover_process env mem a mgr =
     on_handle (WTC_ERROR_NOT_INITIALIZED, []) (\<lambda>m.
       if \<not> fm_running m then ((WTC_ERROR_NOT_INITIALIZED, []), m)
       else
         (let (evs, m) = refresh_health env mem a m;
              (evs', m) = (if fc_mode (fm_config m) \<noteq> FAILOVER_MODE_MANUAL
                           then for_each (check_backup env) [0..<length (fm_backups m)] m else ([], m))
          in ((WTC_OK, evs @ evs'), m\<lparr>fm_last_process_ms := fe_now env\<rparr>))) mgr"

section \<open>When the pass fails over\<close>

text \<open>The health the table records for a station.\<close>

definition healthy_of :: "failover_manager \<Rightarrow> string \<Rightarrow> bool option" where
  "healthy_of m n = map_option rh_healthy (List.find (\<lambda>h. rh_station_name h = n) (fm_health m))"

definition kept :: "failover_manager \<Rightarrow> failover_manager \<Rightarrow> bool" where
  "kept m m' \<longleftrightarrow> fm_config m' = fm_config m \<and> (\<forall>n b. healthy_of m n = Some b \<longrightarrow> healthy_of m' n = Some b)"

lemma kept_refl [simp]: "kept m m"
  by (simp add: kept_def)

lemma kept_trans: "kept m m' \<Longrightarrow> kept m' m'' \<Longrightarrow> kept m m''"
  by (simp add: kept_def)

lemma find_of_pos: "find_pos p xs = Some i \<Longrightarrow> List.find p xs = Some (xs ! i) \<and> i < length xs"
  by (induction xs arbitrary: i) (auto split: if_splits)

lemma find_snoc: "List.find p (xs @ [y]) = (case List.find p xs of None \<Rightarrow> if p y then Some y else None | r \<Rightarrow> r)"
  by (induction xs) auto

lemma get_health_entry_keeps:
  assumes "get_health_entry created n m = (r, m')"
  shows "fm_backups m' = fm_backups m" "kept m m'"
    and "length n \<le> 63 \<Longrightarrow> r = Some i \<Longrightarrow> healthy_of m' n = Some (rh_healthy (fm_health m' ! i))"
proof -
  let ?p = "\<lambda>h. rh_station_name h = n"
  have "fm_backups m' = fm_backups m \<and> kept m m' \<and>
    (length n \<le> 63 \<longrightarrow> r = Some i \<longrightarrow> healthy_of m' n = Some (rh_healthy (fm_health m' ! i)))"
  proof (cases "find_pos ?p (fm_health m)")
    case (Some j)
    with assms find_of_pos [OF Some] show ?thesis by (auto simp: get_health_entry_def healthy_of_def)
  next
    case None
    then have new: "List.find ?p (fm_health m) = None" by (simp add: find_None_pos)
    show ?thesis
    proof (cases "MAX_MONITORED_RTUS \<le> length (fm_health m)")
      case False
      with assms None new show ?thesis
        by (auto simp: get_health_entry_def healthy_of_def kept_def find_snoc new_health_def cstr_copy_id split: option.split)
    qed (use assms None in \<open>simp add: get_health_entry_def\<close>)
  qed
  then show "fm_backups m' = fm_backups m" "kept m m'"
    "length n \<le> 63 \<Longrightarrow> r = Some i \<Longrightarrow> healthy_of m' n = Some (rh_healthy (fm_health m' ! i))" by auto
qed

lemma find_update_keeps:
  assumes "\<And>h. rh_station_name (f h) = rh_station_name h" "\<And>h. rh_healthy (f h) = rh_healthy h"
  shows "map_option rh_healthy (List.find (\<lambda>h. rh_station_name h = n) (hs[i := f (hs ! i)])) =
    map_option rh_healthy (List.find (\<lambda>h. rh_station_name h = n) hs)"
proof (induction hs arbitrary: i)
  case (Cons h hs)
  then show ?case by (cases i) (simp_all add: assms)
qed simp

lemma change_health_keeps:
  assumes "\<And>h. rh_station_name (f h) = rh_station_name h" "\<And>h. rh_healthy (f h) = rh_healthy h"
  shows "fm_backups (change_health i f m) = fm_backups m" "kept m (change_health i f m)"
  using find_update_keeps [of f, OF assms] by (simp_all add: change_health_def kept_def healthy_of_def)

lemma execute_failover_keeps:
  "kept m (snd (execute_failover env k m)) \<and> (fm_backups (snd (execute_failover env k m)) =
    (fm_backups m)[k := (fm_backups m ! k)\<lparr>bm_active := True\<rparr>])"
proof (cases "bm_active (fm_backups m ! k)")
  case True
  then have same: "(fm_backups m ! k)\<lparr>bm_active := True\<rparr> = fm_backups m ! k" by simp
  show ?thesis unfolding same list_update_id using True by (simp add: execute_failover_def)
next
  case False
  let ?x = "fm_backups m ! k"
  let ?m = "m\<lparr>fm_backups := (fm_backups m)[k := ?x\<lparr>bm_active := True\<rparr>],
    fm_status := (fm_status m)\<lparr>fs_last_failover_ms := fe_failed env (bm_primary ?x),
      fs_last_failed_station := cstr_copy 63 (bm_primary ?x)\<rparr>\<rparr>"
  obtain r m1 where g: "get_health_entry (fe_created env) (bm_primary ?x) ?m = (r, m1)" by fastforce
  have "kept m ?m" by (simp add: kept_def healthy_of_def)
  with get_health_entry_keeps(1, 2) [OF g] have "fm_backups m1 = fm_backups ?m" "kept m m1" by (auto intro: kept_trans)
  moreover have "snd (execute_failover env k m) = (case r of None \<Rightarrow> m1 | Some i \<Rightarrow>
      change_health i (\<lambda>h. h\<lparr>rh_in_failover := True, rh_backup_station := cstr_copy 63 (bm_backup ?x)\<rparr>) m1)"
    using False g by (simp add: execute_failover_def Let_def)
  ultimately show ?thesis
    using change_health_keeps [where m = m1 and f = "\<lambda>h. h\<lparr>rh_in_failover := True, rh_backup_station := cstr_copy 63 (bm_backup ?x)\<rparr>"]
    by (cases r) (auto intro: kept_trans)
qed

definition names_short :: "failover_manager \<Rightarrow> bool" where
  "names_short m \<longleftrightarrow> (\<forall>x \<in> set (fm_backups m). length (bm_primary x) \<le> 63 \<and> length (bm_backup x) \<le> 63)"

text \<open>What one check does: it leaves the mappings alone, or activates mapping \<open>k\<close> when its primary is
  recorded unhealthy and its backup healthy.\<close>

lemma check_backup_step:
  assumes "names_short m" and "k < length (fm_backups m)" and "m' = snd (check_backup env k m)"
  shows "kept m m' \<and> (fm_backups m' = fm_backups m \<or> fm_backups m' = (fm_backups m)[k := (fm_backups m ! k)\<lparr>bm_active := True\<rparr>] \<and>
    healthy_of m' (bm_primary (fm_backups m ! k)) = Some False \<and> healthy_of m' (bm_backup (fm_backups m ! k)) = Some True)"
proof -
  let ?x = "fm_backups m ! k"
  have short: "length (bm_primary ?x) \<le> 63" "length (bm_backup ?x) \<le> 63" using assms(1, 2) by (simp_all add: names_short_def)
  obtain r m1 where g1: "get_health_entry (fe_created env) (bm_primary ?x) m = (r, m1)" by fastforce
  note k1 = get_health_entry_keeps [OF g1]
  show ?thesis
  proof (cases "\<exists>i. r = Some i \<and> \<not> rh_healthy (fm_health m1 ! i) \<and> \<not> bm_active ?x")
    case False
    then have "m' = m1" using assms(3) g1 k1(1) by (auto simp: check_backup_def split: option.split)
    with k1 show ?thesis by simp
  next
    case True
    then obtain i where i: "r = Some i" "\<not> rh_healthy (fm_health m1 ! i)" "\<not> bm_active ?x" by blast
    obtain r2 m2 where g2: "get_health_entry (fe_created env) (bm_backup ?x) m1 = (r2, m2)" by fastforce
    note k2 = get_health_entry_keeps [OF g2]
    have bad: "healthy_of m2 (bm_primary ?x) = Some False" using k1(3) [OF short(1) i(1)] i(2) k2(2) by (simp add: kept_def)
    have keep: "kept m m2" "fm_backups m2 = fm_backups m" using kept_trans [OF k1(2) k2(2)] k1(1) k2(1) by simp_all
    show ?thesis
    proof (cases "\<exists>j. r2 = Some j \<and> rh_healthy (fm_health m2 ! j)")
      case False
      then have "m' = m2" using assms(3) g1 g2 i k1(1) by (auto simp: check_backup_def split: option.split)
      with keep show ?thesis by simp
    next
      case True
      then obtain j where j: "r2 = Some j" "rh_healthy (fm_health m2 ! j)" by blast
      have m': "m' = snd (execute_failover env k m2)" using assms(3) g1 g2 i j k1(1) by (simp add: check_backup_def)
      have good: "healthy_of m2 (bm_backup ?x) = Some True" using k2(3) [OF short(2) j(1)] j(2) by simp
      from execute_failover_keeps [of m2 env k] bad good keep show ?thesis by (auto simp: m' kept_def)
    qed
  qed
qed

definition justified :: "failover_manager \<Rightarrow> failover_manager \<Rightarrow> bool" where
  "justified m m' \<longleftrightarrow> length (fm_backups m') = length (fm_backups m) \<and> (\<forall>k < length (fm_backups m).
     bm_primary (fm_backups m' ! k) = bm_primary (fm_backups m ! k) \<and> bm_backup (fm_backups m' ! k) = bm_backup (fm_backups m ! k) \<and>
     (bm_active (fm_backups m' ! k) \<longrightarrow> bm_active (fm_backups m ! k) \<or>
       healthy_of m' (bm_primary (fm_backups m ! k)) = Some False \<and> healthy_of m' (bm_backup (fm_backups m ! k)) = Some True))"

lemma checks_justified:
  assumes "names_short m"
  shows "justified m (snd (for_each (check_backup env) [0..<length (fm_backups m)] m))"
proof -
  have "justified m (snd (check_backup env k t))" if k: "k \<in> set [0..<length (fm_backups m)]" and t: "justified m t" for k t
  proof -
    have "names_short t" using assms t unfolding names_short_def justified_def all_set_conv_all_nth by auto
    moreover have "k < length (fm_backups t)" using k t by (simp add: justified_def)
    ultimately have "kept t (snd (check_backup env k t)) \<and> (fm_backups (snd (check_backup env k t)) = fm_backups t \<or>
        fm_backups (snd (check_backup env k t)) = (fm_backups t)[k := (fm_backups t ! k)\<lparr>bm_active := True\<rparr>] \<and>
        healthy_of (snd (check_backup env k t)) (bm_primary (fm_backups t ! k)) = Some False \<and>
        healthy_of (snd (check_backup env k t)) (bm_backup (fm_backups t ! k)) = Some True)"
      by (rule check_backup_step) simp
    with t k show ?thesis unfolding justified_def kept_def by (auto simp: nth_list_update split: if_splits)
  qed
  moreover have "justified m m" by (simp add: justified_def)
  ultimately show ?thesis using for_each_inv [of "justified m" m] by blast
qed

text \<open>The first part of the pass only deactivates mappings.\<close>

definition only_restores :: "failover_manager \<Rightarrow> failover_manager \<Rightarrow> bool" where
  "only_restores m m' \<longleftrightarrow> fm_config m' = fm_config m \<and> list_all2 (\<lambda>x y. bm_primary y = bm_primary x \<and>
     bm_backup y = bm_backup x \<and> (bm_active y \<longrightarrow> bm_active x)) (fm_backups m) (fm_backups m')"

lemma only_restores_same: "fm_config m' = fm_config m \<Longrightarrow> fm_backups m' = fm_backups m \<Longrightarrow> only_restores m m'"
  by (simp add: only_restores_def list_all2_same)

lemma only_restores_trans: "only_restores m m' \<Longrightarrow> only_restores m' m'' \<Longrightarrow> only_restores m m''"
  unfolding only_restores_def by (auto elim: list_all2_trans [rotated])

lemma only_restores_off:
  "only_restores m (m\<lparr>fm_backups := (fm_backups m)[k := (fm_backups m ! k)\<lparr>bm_active := False\<rparr>]\<rparr>)"
  by (cases "k < length (fm_backups m)")
    (auto simp: only_restores_def list_all2_conv_all_nth nth_list_update list_update_beyond)

lemma change_health_restores: "only_restores m (change_health i f m)"
  by (simp add: only_restores_same change_health_def)

lemma get_health_restores: "get_health_entry created n m = (r, m') \<Longrightarrow> only_restores m m'"
  using get_health_entry_keeps(1, 2) [of created n m r m'] by (simp add: only_restores_same kept_def)

lemma restore_restores: "only_restores m (the (snd (failover_restore env (Some m) (Some st))))"
proof (cases "find_pos (\<lambda>x. bm_primary x = st \<and> bm_active x) (fm_backups m)")
  case None
  then show ?thesis by (simp add: failover_restore_def only_restores_same)
next
  case (Some k)
  let ?m = "m\<lparr>fm_backups := (fm_backups m)[k := (fm_backups m ! k)\<lparr>bm_active := False\<rparr>]\<rparr>"
  obtain r m1 where g: "get_health_entry (fe_created env) st ?m = (r, m1)" by fastforce
  have "only_restores m m1" using only_restores_trans [OF only_restores_off get_health_restores [OF g]] .
  moreover have "the (snd (failover_restore env (Some m) (Some st))) = (case r of None \<Rightarrow> m1
      | Some i \<Rightarrow> change_health i (\<lambda>h. h\<lparr>rh_in_failover := False, rh_backup_station := []\<rparr>) m1)"
    using Some g by (simp add: failover_restore_def Let_def)
  ultimately show ?thesis by (cases r) (auto intro: only_restores_trans [OF _ change_health_restores])
qed

lemma health_running_restores: "only_restores m (snd (health_running env i m))"
proof -
  let ?m = "count_healthy (change_health i (\<lambda>h. h\<lparr>rh_healthy := True, rh_last_heartbeat_ms := fe_now env,
    rh_consecutive_failures := 0\<rparr>) m)"
  have m: "only_restores m ?m" by (simp add: only_restores_same change_health_def)
  have "snd (health_running env i m) = ?m \<or> snd (health_running env i m) =
      the (snd (failover_restore env (Some ?m) (Some (rh_station_name (fm_health ?m ! i)))))"
    by (simp add: health_running_def Let_def split_beta)
  with m only_restores_trans [OF m restore_restores] show ?thesis by auto
qed

lemma update_health_restores: "only_restores m (snd (update_health env d m))"
proof -
  obtain r m1 where g: "get_health_entry (fe_created env) (rd_station_name d) m = (r, m1)" by fastforce
  show ?thesis
  proof (cases r)
    case None
    with g get_health_restores [OF g] show ?thesis by (simp add: update_health_def)
  next
    case (Some i)
    let ?m2 = "if rd_connection_state d = PROFINET_STATE_RUNNING then snd (health_running env i m1) else health_lost env i m1"
    let ?m3 = "change_health i (\<lambda>h. h\<lparr>rh_packet_loss := rd_packet_loss_percent d\<rparr>) ?m2"
    have "only_restores m1 (health_lost env i m1)"
      by (simp add: health_lost_def only_restores_same change_health_def)
    with health_running_restores [of m1 env i] have "only_restores m1 ?m2" by simp
    then have "only_restores m ?m3"
      by (blast intro: only_restores_trans get_health_restores [OF g] change_health_restores)
    moreover have "only_restores ?m3 (count_in_failover ?m3)" by (simp add: only_restores_same)
    ultimately have "only_restores m ?m3 \<and> only_restores m (count_in_failover ?m3)" by (blast intro: only_restores_trans)
    moreover have "snd (update_health env d m) = (if rh_in_failover (fm_health ?m3 ! i) then count_in_failover ?m3 else ?m3)"
      using g Some by (simp add: update_health_def Let_def split_beta)
    ultimately show ?thesis by simp
  qed
qed

lemma refresh_restores: "only_restores m (snd (refresh_health env mem a m))"
proof -
  have "only_restores m' (snd (for_each (\<lambda>i. update_health env (ds ! i)) is m'))" for m' ds "is"
    by (rule for_each_inv [of "only_restores m'"])
      (auto simp: only_restores_same intro: only_restores_trans [OF _ update_health_restores])
  moreover have "only_restores m (m\<lparr>fm_status := s\<rparr>)" for s by (simp add: only_restores_same)
  ultimately have "only_restores m (snd (for_each (\<lambda>i. update_health env (ds ! i)) is (m\<lparr>fm_status := s\<rparr>)))" for ds "is" s
    by (rule only_restores_trans [rotated])
  note pass = this
  show ?thesis
  proof (cases "fm_registry m")
    case (Some reg)
    obtain e ds n where l: "rtu_registry_list_devices (Some reg) True True (int MAX_MONITORED_RTUS) mem a = (e, ds, n)"
      by (cases "rtu_registry_list_devices (Some reg) True True (int MAX_MONITORED_RTUS) mem a")
    show ?thesis
    proof (cases "e = WTC_OK \<and> ds \<noteq> None")
      case True
      with Some l pass show ?thesis by (auto simp: refresh_health_def)
    next
      case False
      then have "refresh_health env mem a m = ([], m)"
        using Some l by (cases e; cases ds) (simp_all add: refresh_health_def)
      then show ?thesis by (simp add: only_restores_same)
    qed
  qed (simp add: refresh_health_def only_restores_same)
qed

text \<open>\<^bold>\<open>C36.\<close> A pass fails a station over only when it should: a backup mapping that was inactive before a pass
  and is active after it belongs to a mode other than manual, its primary is recorded unhealthy and
  its backup healthy.\<close>

theorem failover_needs_healthy_backup:
  assumes "names_short m" and "failover_process env mem a (Some m) = (r, Some m')" and "k < length (fm_backups m)"
    and "\<not> bm_active (fm_backups m ! k)" and "bm_active (fm_backups m' ! k)"
  shows "fc_mode (fm_config m) \<noteq> FAILOVER_MODE_MANUAL \<and> healthy_of m' (bm_primary (fm_backups m ! k)) = Some False \<and>
    healthy_of m' (bm_backup (fm_backups m ! k)) = Some True"
proof -
  let ?m1 = "snd (refresh_health env mem a m)"
  let ?m2 = "snd (for_each (check_backup env) [0..<length (fm_backups ?m1)] ?m1)"
  note r = refresh_restores [of m env mem a, unfolded only_restores_def list_all2_conv_all_nth]
  have run: "fm_running m" using assms(2, 4, 5) by (auto simp: failover_process_def split: if_splits)
  show ?thesis
  proof (cases "fc_mode (fm_config m) = FAILOVER_MODE_MANUAL")
    case True
    with assms(2) run r have "fm_backups m' = fm_backups ?m1" by (auto simp: failover_process_def split_beta Let_def)
    with r assms(3-5) show ?thesis by auto
  next
    case False
    have m': "m' = ?m2\<lparr>fm_last_process_ms := fe_now env\<rparr>"
      using assms(2) run r False by (auto simp: failover_process_def split_beta Let_def)
    have "names_short ?m1" using assms(1) r unfolding names_short_def all_set_conv_all_nth by auto
    from checks_justified [OF this, of env] have j: "justified ?m1 ?m2" .
    have "k < length (fm_backups ?m1)" "\<not> bm_active (fm_backups ?m1 ! k)" "bm_active (fm_backups ?m2 ! k)"
      using r assms(3-5) m' by auto
    with j have "healthy_of ?m2 (bm_primary (fm_backups ?m1 ! k)) = Some False"
      "healthy_of ?m2 (bm_backup (fm_backups ?m1 ! k)) = Some True" unfolding justified_def by blast+
    with r assms(3) False m' show ?thesis by (simp add: healthy_of_def)
  qed
qed

text \<open>A manager that watches two stations, \<open>A\<close> recorded lost and \<open>B\<close> healthy, with \<open>B\<close> the backup of \<open>A\<close>.\<close>

definition two_stations :: failover_manager where
  "two_stations = \<lparr>fm_config = \<lparr>fc_mode = FAILOVER_MODE_AUTO, fc_heartbeat_interval_ms = 1000, fc_timeout_ms = 5000,
       fc_max_retries = 3\<rparr>, fm_running = True, fm_registry = None,
     fm_health = [(new_health ''A'' 0)\<lparr>rh_healthy := False\<rparr>, new_health ''B'' 0],
     fm_backups = [\<lparr>bm_primary = ''A'', bm_backup = ''B'', bm_active = False\<rparr>],
     fm_status = \<lparr>fs_healthy_count = 1, fs_failed_count = 1, fs_in_failover_count = 0, fs_last_failover_ms = 0,
       fs_last_failed_station = []\<rparr>, fm_callback = True, fm_last_process_ms = 0\<rparr>"

definition later :: failover_env where
  "later = \<lparr>fe_now = 9000, fe_created = (\<lambda>_. 9000), fe_failed = (\<lambda>_. 9000)\<rparr>"

theorem failover_needs_healthy_backup_witness:
  "bm_active (fm_backups (the (snd (failover_process later True (\<lambda>_. undefined) (Some two_stations)))) ! 0) \<and>
   healthy_of (the (snd (failover_process later True (\<lambda>_. undefined) (Some two_stations)))) ''B'' = Some True"
proof -
  let ?p = "failover_process later True (\<lambda>_. undefined) (Some two_stations)"
  have on: "bm_active (fm_backups (the (snd ?p)) ! 0)" and some: "snd ?p \<noteq> None"
    by (simp_all add: failover_process_def two_stations_def refresh_health_def check_backup_def get_health_entry_def
        execute_failover_def change_health_def new_health_def later_def cstr_copy_def)
  have short: "names_short two_stations" by (simp add: names_short_def two_stations_def)
  have run: "?p = (fst ?p, Some (the (snd ?p)))" using some by (cases ?p) auto
  show ?thesis
    using failover_needs_healthy_backup [OF short run, of 0] on by (simp add: two_stations_def)
qed

end
