(* ===== verification/Alarms.thy ===== *)
theory Alarms
  imports Registry Buffer
begin

text \<open>
  The alarm manager (\<^verbatim>\<open>src/src/alarms/alarm_manager.c\<close>): rules, the active alarms and their life cycle after
  ISA-18.2, the ring of past alarms, suppression, shelving, rates, and the periodic pass over the rules.

  The callbacks are flags of the configuration, and a call of one is an event. The readings of the
  clock are arguments; those of a pass are collected in \<open>alarm_env\<close>, together with the value that the
  uninitialised sensor structure holds when reading the sensor of a rule fails.
\<close>

section \<open>State\<close>

definition MAX_ACTIVE_ALARMS :: nat where "MAX_ACTIVE_ALARMS = 256"
definition MAX_HISTORY_ALARMS :: int where "MAX_HISTORY_ALARMS = 10000"
definition MAX_SUPPRESSIONS :: nat where "MAX_SUPPRESSIONS = 64"
definition WTC_MAX_ALARM_RULES :: nat where "WTC_MAX_ALARM_RULES = 512"

record alarm_rule =
  ru_rule_id :: int
  ru_name :: string
  ru_enabled :: bool
  ru_rtu_station :: string
  ru_slot :: int
  ru_condition :: alarm_condition
  ru_threshold :: f32
  ru_delay_ms :: u32
  ru_severity :: alarm_severity
  ru_message_template :: string
  ru_consequence :: string
  ru_corrective_action :: string
  ru_response_time_sec :: u32
  ru_out_of_service :: bool
  ru_oos_user :: string
  ru_oos_reason :: string
  ru_oos_start_time_ms :: u64
  ru_active :: bool
  ru_condition_start_ms :: u64

record alarm =
  al_alarm_id :: int
  al_rule_id :: int
  al_rtu_station :: string
  al_slot :: int
  al_severity :: alarm_severity
  al_state :: alarm_state
  al_message :: string
  al_value :: f32
  al_threshold :: f32
  al_raise_time_ms :: u64
  al_ack_time_ms :: u64
  al_clear_time_ms :: u64
  al_ack_user :: string
  al_shelved :: bool
  al_shelve_end_time_ms :: u64
  al_shelve_user :: string
  al_shelve_reason :: string

record alarm_manager_config =
  mc_database_path :: "string option"
  mc_max_active_alarms :: int
  mc_max_history_entries :: int
  mc_store_to_database :: bool
  mc_max_alarms_per_10min :: int
  mc_require_ack :: bool
  mc_shelving_enabled :: bool
  mc_on_alarm_raised :: bool
  mc_on_alarm_cleared :: bool
  mc_on_alarm_acknowledged :: bool

record suppression =
  sp_rtu_station :: string
  sp_slot :: int
  sp_end_time_ms :: u64
  sp_reason :: string
  sp_user :: string

record alarm_stats =
  st_total_alarms :: u32
  st_active_alarms :: u32
  st_unack_alarms :: u32
  st_alarms_per_hour :: u32
  st_avg_ack_time_ms :: u64
  st_avg_clear_time_ms :: u64

record alarm_manager =
  am_config :: alarm_manager_config
  am_registry :: "rtu_registry option"
  am_rules :: "alarm_rule list"
  am_next_rule_id :: int
  am_active_alarms :: "alarm list"
  am_next_alarm_id :: int
  am_history :: "alarm list"
  am_history_count :: nat
  am_history_write_pos :: nat
  am_suppressions :: "suppression list"
  am_alarm_timestamps :: "u64 list"
  am_alarm_timestamp_idx :: nat
  am_running :: bool
  am_stats :: alarm_stats

datatype alarm_event = Alarm_Raised alarm | Alarm_Cleared alarm | Alarm_Acknowledged alarm

abbreviation history_capacity :: "alarm_manager \<Rightarrow> nat" where
  "history_capacity m \<equiv> length (am_history m)"

definition zero_alarm :: alarm where
  "zero_alarm = \<lparr>al_alarm_id = 0, al_rule_id = 0, al_rtu_station = [], al_slot = 0, al_severity = ALARM_SEVERITY_LOW,
     al_state = ALARM_STATE_CLEARED, al_message = [], al_value = 0, al_threshold = 0, al_raise_time_ms = 0,
     al_ack_time_ms = 0, al_clear_time_ms = 0, al_ack_user = [], al_shelved = False, al_shelve_end_time_ms = 0,
     al_shelve_user = [], al_shelve_reason = []\<rparr>"

definition zero_config :: alarm_manager_config where
  "zero_config = \<lparr>mc_database_path = None, mc_max_active_alarms = 0, mc_max_history_entries = 0, mc_store_to_database = False,
     mc_max_alarms_per_10min = 0, mc_require_ack = False, mc_shelving_enabled = False, mc_on_alarm_raised = False,
     mc_on_alarm_cleared = False, mc_on_alarm_acknowledged = False\<rparr>"

definition with_defaults :: "alarm_manager_config \<Rightarrow> alarm_manager_config" where
  "with_defaults c = c\<lparr>
     mc_max_active_alarms := (if mc_max_active_alarms c = 0 then int MAX_ACTIVE_ALARMS else mc_max_active_alarms c),
     mc_max_history_entries := (if mc_max_history_entries c = 0 then MAX_HISTORY_ALARMS else mc_max_history_entries c),
     mc_max_alarms_per_10min := (if mc_max_alarms_per_10min c = 0 then 100 else mc_max_alarms_per_10min c)\<rparr>"

text \<open>A negative number of history entries becomes a huge size, for which the allocation fails.\<close>

definition alarm_manager_init :: "bool \<Rightarrow> bool \<Rightarrow> bool \<Rightarrow> alarm_manager_config option \<Rightarrow> wtc_result \<times> alarm_manager option" where
  "alarm_manager_init out_ok mem mem_history config =
     (if \<not> out_ok then (WTC_ERROR_INVALID_PARAM, None)
      else if \<not> mem then (WTC_ERROR_NO_MEMORY, None)
      else
        (let c = with_defaults (case config of None \<Rightarrow> zero_config | Some c \<Rightarrow> c) in
         if mc_max_history_entries c < 0 \<or> \<not> mem_history then (WTC_ERROR_NO_MEMORY, None)
         else (WTC_OK, Some \<lparr>am_config = c, am_registry = None, am_rules = [], am_next_rule_id = 1, am_active_alarms = [],
                 am_next_alarm_id = 1, am_history = replicate (nat (mc_max_history_entries c)) zero_alarm,
                 am_history_count = 0, am_history_write_pos = 0, am_suppressions = [],
                 am_alarm_timestamps = replicate 600 0, am_alarm_timestamp_idx = 0, am_running = False,
                 am_stats = \<lparr>st_total_alarms = 0, st_active_alarms = 0, st_unack_alarms = 0, st_alarms_per_hour = 0,
                   st_avg_ack_time_ms = 0, st_avg_clear_time_ms = 0\<rparr>\<rparr>)))"

definition alarm_manager_start :: "alarm_manager option \<Rightarrow> bool \<Rightarrow> wtc_result \<times> alarm_manager option" where
  "alarm_manager_start manager thread_ok =
     on_handle WTC_ERROR_INVALID_PARAM (\<lambda>m.
       if am_running m then (WTC_OK, m)
       else if thread_ok then (WTC_OK, m\<lparr>am_running := True\<rparr>)
       else (WTC_ERROR, m\<lparr>am_running := False\<rparr>)) manager"

definition alarm_manager_stop :: "alarm_manager option \<Rightarrow> wtc_result \<times> alarm_manager option" where
  "alarm_manager_stop manager = on_handle WTC_OK (\<lambda>m. (WTC_OK, m\<lparr>am_running := False\<rparr>)) manager"

definition alarm_manager_set_registry :: "alarm_manager option \<Rightarrow> rtu_registry option \<Rightarrow> wtc_result \<times> alarm_manager option" where
  "alarm_manager_set_registry manager registry =
     on_handle WTC_ERROR_INVALID_PARAM (\<lambda>m. (WTC_OK, m\<lparr>am_registry := registry\<rparr>)) manager"

section \<open>Rules\<close>

fun condition_code :: "alarm_condition \<Rightarrow> int" where
  "condition_code ALARM_CONDITION_HIGH = 0"
| "condition_code ALARM_CONDITION_LOW = 1"
| "condition_code ALARM_CONDITION_HIGH_HIGH = 2"
| "condition_code ALARM_CONDITION_LOW_LOW = 3"
| "condition_code ALARM_CONDITION_RATE_OF_CHANGE = 4"
| "condition_code ALARM_CONDITION_DEVIATION = 5"
| "condition_code ALARM_CONDITION_BAD_QUALITY = 6"

fun severity_code :: "alarm_severity \<Rightarrow> int" where
  "severity_code ALARM_SEVERITY_LOW = 1"
| "severity_code ALARM_SEVERITY_MEDIUM = 2"
| "severity_code ALARM_SEVERITY_HIGH = 3"
| "severity_code ALARM_SEVERITY_EMERGENCY = 4"

fun condition_text :: "alarm_condition \<Rightarrow> string" where
  "condition_text ALARM_CONDITION_HIGH = ''High''"
| "condition_text ALARM_CONDITION_LOW = ''Low''"
| "condition_text ALARM_CONDITION_HIGH_HIGH = ''High-High''"
| "condition_text ALARM_CONDITION_LOW_LOW = ''Low-Low''"
| "condition_text ALARM_CONDITION_RATE_OF_CHANGE = ''Rate of Change''"
| "condition_text ALARM_CONDITION_DEVIATION = ''Deviation''"
| "condition_text ALARM_CONDITION_BAD_QUALITY = ''Bad Quality''"

definition default_message :: "alarm_condition \<Rightarrow> string \<Rightarrow> int \<Rightarrow> string" where
  "default_message c station slot = condition_text c @ '' alarm on '' @ station @ '' slot '' @ fmt_d slot"

definition new_rule ::
  "int \<Rightarrow> string \<Rightarrow> int \<Rightarrow> alarm_condition \<Rightarrow> f32 \<Rightarrow> alarm_severity \<Rightarrow> u32 \<Rightarrow> string option \<Rightarrow> alarm_rule" where
  "new_rule i station slot c threshold severity delay_ms message =
     \<lparr>ru_rule_id = i, ru_name = cstr_copy 63 (station @ ''_'' @ fmt_d slot @ ''_'' @ fmt_d (condition_code c)),
      ru_enabled = True, ru_rtu_station = cstr_copy 63 station, ru_slot = slot, ru_condition = c, ru_threshold = threshold,
      ru_delay_ms = delay_ms, ru_severity = severity,
      ru_message_template = cstr_copy 255 (case message of Some t \<Rightarrow> t | None \<Rightarrow> default_message c station slot),
      ru_consequence = [], ru_corrective_action = [], ru_response_time_sec = 0, ru_out_of_service = False,
      ru_oos_user = [], ru_oos_reason = [], ru_oos_start_time_ms = 0, ru_active = False, ru_condition_start_ms = 0\<rparr>"

definition alarm_manager_create_rule ::
  "alarm_manager option \<Rightarrow> string option \<Rightarrow> int \<Rightarrow> alarm_condition \<Rightarrow> f32 \<Rightarrow> alarm_severity \<Rightarrow> u32 \<Rightarrow> string option \<Rightarrow> bool \<Rightarrow>
    (wtc_result \<times> int option) \<times> alarm_manager option" where
  "alarm_manager_create_rule manager rtu_station slot c threshold severity delay_ms message id_ok =
     on_handle (WTC_ERROR_INVALID_PARAM, None) (\<lambda>m.
       case rtu_station of
         None \<Rightarrow> ((WTC_ERROR_INVALID_PARAM, None), m)
       | Some station \<Rightarrow>
           if WTC_MAX_ALARM_RULES \<le> length (am_rules m) then ((WTC_ERROR_FULL, None), m)
           else ((WTC_OK, if id_ok then Some (am_next_rule_id m) else None),
                 m\<lparr>am_rules := am_rules m @ [new_rule (am_next_rule_id m) station slot c threshold severity delay_ms message],
                   am_next_rule_id := am_next_rule_id m + 1\<rparr>)) manager"

definition alarm_manager_delete_rule :: "alarm_manager option \<Rightarrow> int \<Rightarrow> wtc_result \<times> alarm_manager option" where
  "alarm_manager_delete_rule manager rule_id =
     on_handle WTC_ERROR_INVALID_PARAM (\<lambda>m.
       case remove_first (\<lambda>r. ru_rule_id r = rule_id) (am_rules m) of
         None \<Rightarrow> (WTC_ERROR_NOT_FOUND, m)
       | Some rs \<Rightarrow> (WTC_OK, m\<lparr>am_rules := rs\<rparr>)) manager"

text \<open>The loop that changes the rule with an id.\<close>

definition change_rule :: "int \<Rightarrow> (alarm_rule \<Rightarrow> alarm_rule) \<Rightarrow> alarm_manager \<Rightarrow> wtc_result \<times> alarm_manager" where
  "change_rule rule_id f m =
     (case update_first (\<lambda>r. ru_rule_id r = rule_id) f (am_rules m) of
        None \<Rightarrow> (WTC_ERROR_NOT_FOUND, m)
      | Some rs \<Rightarrow> (WTC_OK, m\<lparr>am_rules := rs\<rparr>))"

definition alarm_manager_enable_rule :: "alarm_manager option \<Rightarrow> int \<Rightarrow> bool \<Rightarrow> wtc_result \<times> alarm_manager option" where
  "alarm_manager_enable_rule manager rule_id enabled =
     on_handle WTC_ERROR_INVALID_PARAM (change_rule rule_id (\<lambda>r. r\<lparr>ru_enabled := enabled\<rparr>)) manager"

definition alarm_manager_list_rules ::
  "alarm_manager option \<Rightarrow> bool \<Rightarrow> bool \<Rightarrow> int \<Rightarrow> bool \<Rightarrow> wtc_result \<times> alarm_rule list option \<times> int option" where
  "alarm_manager_list_rules manager rules_ok count_ok max_count mem =
     with_handle (WTC_ERROR_INVALID_PARAM, None, None) (\<lambda>m.
       if \<not> rules_ok \<or> \<not> count_ok then (WTC_ERROR_INVALID_PARAM, None, None)
       else
         (let copy_count = min (int (length (am_rules m))) max_count in
          if 0 < copy_count then
            if mem then (WTC_OK, Some (take (nat copy_count) (am_rules m)), Some copy_count)
            else (WTC_ERROR_NO_MEMORY, None, None)
          else (WTC_OK, None, Some copy_count))) manager"

definition alarm_manager_set_out_of_service ::
  "alarm_manager option \<Rightarrow> int \<Rightarrow> bool \<Rightarrow> string option \<Rightarrow> string option \<Rightarrow> u64 \<Rightarrow> wtc_result \<times> alarm_manager option" where
  "alarm_manager_set_out_of_service manager rule_id oos reason user now =
     on_handle WTC_ERROR_INVALID_PARAM (\<lambda>m.
       case user of
         None \<Rightarrow> (WTC_ERROR_INVALID_PARAM, m)
       | Some u \<Rightarrow> change_rule rule_id (\<lambda>r.
           if oos then r\<lparr>ru_out_of_service := True, ru_oos_user := cstr_copy 63 u,
             ru_oos_reason := (case reason of Some t \<Rightarrow> cstr_copy 255 t | None \<Rightarrow> ru_oos_reason r),
             ru_oos_start_time_ms := now\<rparr>
           else r\<lparr>ru_out_of_service := False, ru_oos_user := [], ru_oos_reason := [], ru_oos_start_time_ms := 0\<rparr>) m) manager"

definition alarm_manager_set_rationalization ::
  "alarm_manager option \<Rightarrow> int \<Rightarrow> string option \<Rightarrow> string option \<Rightarrow> u32 \<Rightarrow> wtc_result \<times> alarm_manager option" where
  "alarm_manager_set_rationalization manager rule_id consequence response response_time_sec =
     on_handle WTC_ERROR_INVALID_PARAM (change_rule rule_id (\<lambda>r. r\<lparr>
       ru_consequence := (case consequence of Some t \<Rightarrow> cstr_copy 255 t | None \<Rightarrow> ru_consequence r),
       ru_corrective_action := (case response of Some t \<Rightarrow> cstr_copy 255 t | None \<Rightarrow> ru_corrective_action r),
       ru_response_time_sec := response_time_sec\<rparr>)) manager"

text \<open>\<open>strncpy(dst, src, n)\<close> into an array with the contents \<open>dst\<close>: it pads with zeros and writes no terminator
  behind \<open>n\<close>.\<close>

definition strncpy_over :: "nat \<Rightarrow> string \<Rightarrow> string \<Rightarrow> string" where
  "strncpy_over n src dst = take n (src @ replicate n (CHR 0x00)) @ drop n dst"

text \<open>An output buffer is given by its contents, and its length is the size passed.\<close>

definition alarm_manager_get_rationalization ::
  "alarm_manager option \<Rightarrow> int \<Rightarrow> string option \<Rightarrow> string option \<Rightarrow> bool \<Rightarrow>
    wtc_result \<times> string option \<times> string option \<times> u32 option" where
  "alarm_manager_get_rationalization manager rule_id consequence response time_ok =
     with_handle (WTC_ERROR_INVALID_PARAM, consequence, response, None) (\<lambda>m.
       case List.find (\<lambda>r. ru_rule_id r = rule_id) (am_rules m) of
         None \<Rightarrow> (WTC_ERROR_NOT_FOUND, consequence, response, None)
       | Some r \<Rightarrow>
           (WTC_OK,
            map_option (\<lambda>b. if b = [] then b else strncpy_over (length b - 1) (ru_consequence r) b) consequence,
            map_option (\<lambda>b. if b = [] then b else strncpy_over (length b - 1) (ru_corrective_action r) b) response,
            if time_ok then Some (ru_response_time_sec r) else None)) manager"

definition export_rule :: "nat \<Rightarrow> alarm_rule \<Rightarrow> string list" where
  "export_rule i r =
     [''{'' @ json_field ''id'' (fmt_d (ru_rule_id r)) @ '','' @ json_field ''name'' (quoted (ru_name r)) @ '','' @
      json_field ''rtu'' (quoted (ru_rtu_station r)) @ '','' @ json_field ''slot'' (fmt_d (ru_slot r)) @ '','' @
      json_field ''condition'' (fmt_d (condition_code (ru_condition r))) @ '','' @
      json_field ''threshold'' (fmt_fixed 3 (ru_threshold r)) @ '','' @
      json_field ''severity'' (fmt_d (severity_code (ru_severity r))) @ '','' @
      json_field ''delay'' (fmt_u (unat (ru_delay_ms r))) @ '','' @
      json_field ''enabled'' (if ru_enabled r then ''true'' else ''false'') @ ''}'']"

definition alarm_manager_export_config :: "alarm_manager option \<Rightarrow> bool \<Rightarrow> nat \<Rightarrow> wtc_result \<times> json_out option" where
  "alarm_manager_export_config manager buffer_ok buffer_size =
     with_handle (WTC_ERROR_INVALID_PARAM, None) (\<lambda>m.
       if \<not> buffer_ok \<or> buffer_size < 256 then (WTC_ERROR_INVALID_PARAM, None)
       else (WTC_OK, Some (fold (snprintf_append buffer_size)
               ([''{'' @ json_field ''version'' ''1'' @ '','' @ quoted ''rules'' @ '':[''] @
                commas export_rule 0 (am_rules m) @ ['']}'']) json_start))) manager"

section \<open>Active alarms\<close>

definition acknowledged :: "string \<Rightarrow> u64 \<Rightarrow> alarm \<Rightarrow> alarm" where
  "acknowledged user now a =
     a\<lparr>al_state := (if al_state a = ALARM_STATE_ACTIVE_UNACK then ALARM_STATE_ACTIVE_ACK
                     else if al_state a = ALARM_STATE_CLEARED_UNACK then ALARM_STATE_CLEARED else al_state a),
       al_ack_time_ms := now, al_ack_user := cstr_copy 63 user\<rparr>"

text \<open>The loop that changes the active alarm with an id.\<close>

definition change_alarm :: "int \<Rightarrow> (alarm \<Rightarrow> alarm) \<Rightarrow> alarm_manager \<Rightarrow> wtc_result \<times> alarm_manager" where
  "change_alarm alarm_id f m =
     (case update_first (\<lambda>a. al_alarm_id a = alarm_id) f (am_active_alarms m) of
        None \<Rightarrow> (WTC_ERROR_NOT_FOUND, m)
      | Some as \<Rightarrow> (WTC_OK, m\<lparr>am_active_alarms := as\<rparr>))"

definition alarm_manager_acknowledge ::
  "alarm_manager option \<Rightarrow> int \<Rightarrow> string option \<Rightarrow> u64 \<Rightarrow> (wtc_result \<times> alarm_event list) \<times> alarm_manager option" where
  "alarm_manager_acknowledge manager alarm_id user now =
     on_handle (WTC_ERROR_INVALID_PARAM, []) (\<lambda>m.
       case user of
         None \<Rightarrow> ((WTC_ERROR_INVALID_PARAM, []), m)
       | Some u \<Rightarrow>
           (case List.find (\<lambda>a. al_alarm_id a = alarm_id) (am_active_alarms m) of
              None \<Rightarrow> ((WTC_ERROR_NOT_FOUND, []), m)
            | Some a \<Rightarrow>
                (let (r, m) = change_alarm alarm_id (acknowledged u now) m in
                 ((r, if mc_on_alarm_acknowledged (am_config m) then [Alarm_Acknowledged (acknowledged u now a)] else []), m)))) manager"

abbreviation unacked :: "alarm \<Rightarrow> bool" where
  "unacked a \<equiv> al_state a = ALARM_STATE_ACTIVE_UNACK \<or> al_state a = ALARM_STATE_CLEARED_UNACK"

definition alarm_manager_acknowledge_all ::
  "alarm_manager option \<Rightarrow> string option \<Rightarrow> (nat \<Rightarrow> u64) \<Rightarrow> wtc_result \<times> alarm_manager option" where
  "alarm_manager_acknowledge_all manager user now =
     on_handle WTC_ERROR_INVALID_PARAM (\<lambda>m.
       case user of
         None \<Rightarrow> (WTC_ERROR_INVALID_PARAM, m)
       | Some u \<Rightarrow> (WTC_OK, m\<lparr>am_active_alarms :=
           map (\<lambda>(i, a). if unacked a then acknowledged u (now i) a else a) (enumerate 0 (am_active_alarms m))\<rparr>)) manager"

text \<open>The pointers \<open>alarms[i] = &manager->active_alarms[i]\<close> are the positions of the alarms.\<close>

definition alarm_manager_get_active :: "alarm_manager option \<Rightarrow> bool \<Rightarrow> bool \<Rightarrow> int \<Rightarrow> wtc_result \<times> nat list \<times> int option" where
  "alarm_manager_get_active manager alarms_ok count_ok max_count =
     with_handle (WTC_ERROR_INVALID_PARAM, [], None) (\<lambda>m.
       if \<not> alarms_ok \<or> \<not> count_ok then (WTC_ERROR_INVALID_PARAM, [], None)
       else
         (let copy_count = min (int (length (am_active_alarms m))) max_count in
          (WTC_OK, [0..<nat copy_count], Some copy_count))) manager"

definition alarm_manager_get_active_count :: "alarm_manager option \<Rightarrow> int" where
  "alarm_manager_get_active_count = with_handle 0 (\<lambda>m. int (length (am_active_alarms m)))"

definition alarm_manager_get_unack_count :: "alarm_manager option \<Rightarrow> int" where
  "alarm_manager_get_unack_count = with_handle 0 (\<lambda>m. int (length (filter unacked (am_active_alarms m))))"

definition alarm_manager_shelve ::
  "alarm_manager option \<Rightarrow> int \<Rightarrow> u32 \<Rightarrow> string option \<Rightarrow> string option \<Rightarrow> u64 \<Rightarrow> wtc_result \<times> alarm_manager option" where
  "alarm_manager_shelve manager alarm_id duration_ms reason user now =
     on_handle WTC_ERROR_INVALID_PARAM (\<lambda>m.
       case user of
         None \<Rightarrow> (WTC_ERROR_INVALID_PARAM, m)
       | Some u \<Rightarrow>
           (let duration_ms = (if 86400000 < duration_ms then 86400000 else duration_ms) in
            change_alarm alarm_id (\<lambda>a. a\<lparr>al_shelved := True, al_shelve_end_time_ms := now + ucast duration_ms,
              al_shelve_user := cstr_copy 63 u,
              al_shelve_reason := (case reason of Some t \<Rightarrow> cstr_copy 255 t | None \<Rightarrow> al_shelve_reason a)\<rparr>) m)) manager"

definition alarm_manager_unshelve :: "alarm_manager option \<Rightarrow> int \<Rightarrow> wtc_result \<times> alarm_manager option" where
  "alarm_manager_unshelve manager alarm_id =
     on_handle WTC_ERROR_INVALID_PARAM
       (change_alarm alarm_id (\<lambda>a. a\<lparr>al_shelved := False, al_shelve_end_time_ms := 0\<rparr>)) manager"

section \<open>Suppression, rate and history\<close>

definition alarm_manager_suppress ::
  "alarm_manager option \<Rightarrow> string option \<Rightarrow> int \<Rightarrow> u32 \<Rightarrow> string option \<Rightarrow> string option \<Rightarrow> u64 \<Rightarrow> wtc_result \<times> alarm_manager option" where
  "alarm_manager_suppress manager rtu_station slot duration_ms reason user now =
     on_handle WTC_ERROR_INVALID_PARAM (\<lambda>m.
       case rtu_station of
         None \<Rightarrow> (WTC_ERROR_INVALID_PARAM, m)
       | Some station \<Rightarrow>
           if MAX_SUPPRESSIONS \<le> length (am_suppressions m) then (WTC_ERROR_FULL, m)
           else (WTC_OK, m\<lparr>am_suppressions := am_suppressions m @
                  [\<lparr>sp_rtu_station = cstr_copy 63 station, sp_slot = slot, sp_end_time_ms = now + ucast duration_ms,
                    sp_reason = (case reason of Some t \<Rightarrow> cstr_copy 127 t | None \<Rightarrow> []),
                    sp_user = (case user of Some t \<Rightarrow> cstr_copy 63 t | None \<Rightarrow> [])\<rparr>]\<rparr>)) manager"

definition is_suppressed_unlocked :: "alarm_manager \<Rightarrow> string \<Rightarrow> int \<Rightarrow> u64 \<Rightarrow> bool" where
  "is_suppressed_unlocked m rtu_station slot now =
     (\<exists>s \<in> set (am_suppressions m). sp_rtu_station s = rtu_station \<and> sp_slot s = slot \<and> now < sp_end_time_ms s)"

definition alarm_manager_is_suppressed :: "alarm_manager option \<Rightarrow> string option \<Rightarrow> int \<Rightarrow> u64 \<Rightarrow> bool" where
  "alarm_manager_is_suppressed manager rtu_station slot now =
     (case (manager, rtu_station) of
        (Some m, Some station) \<Rightarrow> is_suppressed_unlocked m station slot now
      | _ \<Rightarrow> False)"

definition track_alarm :: "u64 \<Rightarrow> alarm_manager \<Rightarrow> alarm_manager" where
  "track_alarm now m = m\<lparr>am_alarm_timestamps := (am_alarm_timestamps m)[am_alarm_timestamp_idx m := now],
     am_alarm_timestamp_idx := (am_alarm_timestamp_idx m + 1) mod 600\<rparr>"

definition recent_alarms :: "u64 \<Rightarrow> alarm_manager \<Rightarrow> int" where
  "recent_alarms now m = int (length (filter (\<lambda>t. now - 600000 < t) (am_alarm_timestamps m)))"

definition alarm_manager_get_alarm_rate :: "alarm_manager option \<Rightarrow> u64 \<Rightarrow> f32" where
  "alarm_manager_get_alarm_rate manager now = with_handle 0 (\<lambda>m. f_mul (f_of_int (recent_alarms now m)) (f_lit 6 1)) manager"

definition alarm_manager_is_alarm_flood :: "alarm_manager option \<Rightarrow> u64 \<Rightarrow> bool" where
  "alarm_manager_is_alarm_flood manager now =
     with_handle False (\<lambda>m. mc_max_alarms_per_10min (am_config m) < recent_alarms now m) manager"

text \<open>The caller's structure \<open>stats\<close> is filled in except for the two averages, which keep what they held.\<close>

definition alarm_manager_get_statistics ::
  "(f32 \<Rightarrow> u32) \<Rightarrow> alarm_manager option \<Rightarrow> alarm_stats option \<Rightarrow> u64 \<Rightarrow> wtc_result \<times> alarm_stats option" where
  "alarm_manager_get_statistics oob manager stats now =
     (case (manager, stats) of
        (Some m, Some s) \<Rightarrow>
          (WTC_OK, Some (s\<lparr>st_total_alarms := st_total_alarms (am_stats m),
             st_active_alarms := of_nat (length (am_active_alarms m)),
             st_unack_alarms := of_nat (length (filter (\<lambda>a. al_state a = ALARM_STATE_ACTIVE_UNACK) (am_active_alarms m))),
             st_alarms_per_hour := f_to_word oob (alarm_manager_get_alarm_rate (Some m) now)\<rparr>))
      | _ \<Rightarrow> (WTC_ERROR_INVALID_PARAM, stats))"

definition add_to_history :: "alarm \<Rightarrow> alarm_manager \<Rightarrow> alarm_manager" where
  "add_to_history a m =
     m\<lparr>am_history := (am_history m)[am_history_write_pos m := a],
       am_history_write_pos := (am_history_write_pos m + 1) mod history_capacity m,
       am_history_count := (if am_history_count m < history_capacity m then am_history_count m + 1 else am_history_count m)\<rparr>"

definition in_period :: "u64 \<Rightarrow> u64 \<Rightarrow> alarm \<Rightarrow> bool" where
  "in_period from_ms to_ms a \<longleftrightarrow> \<not> (0 < from_ms \<and> al_raise_time_ms a < from_ms) \<and> \<not> (0 < to_ms \<and> to_ms < al_raise_time_ms a)"

definition alarm_manager_get_history ::
  "alarm_manager option \<Rightarrow> bool \<Rightarrow> bool \<Rightarrow> int \<Rightarrow> u64 \<Rightarrow> u64 \<Rightarrow> wtc_result \<times> alarm list option" where
  "alarm_manager_get_history manager alarms_ok count_ok max_count from_time_ms to_time_ms =
     with_handle (WTC_ERROR_INVALID_PARAM, None) (\<lambda>m.
       if \<not> alarms_ok \<or> \<not> count_ok then (WTC_ERROR_INVALID_PARAM, None)
       else (WTC_OK, Some (take (nat max_count)
               (filter (in_period from_time_ms to_time_ms) (take (am_history_count m) (am_history m)))))) manager"

definition alarm_manager_raise_alarm ::
  "alarm_manager option \<Rightarrow> string option \<Rightarrow> int \<Rightarrow> alarm_severity \<Rightarrow> string option \<Rightarrow> f32 \<Rightarrow> u64 \<Rightarrow> u64 \<Rightarrow>
    (wtc_result \<times> alarm_event list) \<times> alarm_manager option" where
  "alarm_manager_raise_alarm manager rtu_station slot severity message value now tracked =
     on_handle (WTC_ERROR_INVALID_PARAM, []) (\<lambda>m.
       case message of
         None \<Rightarrow> ((WTC_ERROR_INVALID_PARAM, []), m)
       | Some msg \<Rightarrow>
           if MAX_ACTIVE_ALARMS \<le> length (am_active_alarms m) then ((WTC_ERROR_FULL, []), m)
           else
             (let a = zero_alarm\<lparr>al_alarm_id := am_next_alarm_id m, al_rule_id := 0,
                        al_rtu_station := (case rtu_station of Some st \<Rightarrow> cstr_copy 63 st | None \<Rightarrow> []),
                        al_slot := slot, al_severity := severity, al_state := ALARM_STATE_ACTIVE_UNACK, al_value := value,
                        al_raise_time_ms := now, al_message := cstr_copy 255 msg\<rparr>;
                  m = m\<lparr>am_active_alarms := am_active_alarms m @ [a], am_next_alarm_id := am_next_alarm_id m + 1,
                        am_stats := (am_stats m)\<lparr>st_total_alarms := st_total_alarms (am_stats m) + 1\<rparr>\<rparr>;
                  m = add_to_history a (track_alarm tracked m)
              in ((WTC_OK, if mc_on_alarm_raised (am_config m) then [Alarm_Raised a] else []), m))) manager"

section \<open>The pass\<close>

record alarm_env =
  ae_now :: u64
  ae_check :: "nat \<Rightarrow> u64"
  ae_read :: "nat \<Rightarrow> u64"
  ae_track :: "nat \<Rightarrow> u64"
  ae_wild :: "nat \<Rightarrow> f32"

definition find_active_alarm_by_rule :: "alarm_manager \<Rightarrow> int \<Rightarrow> nat option" where
  "find_active_alarm_by_rule m rule_id = find_pos (\<lambda>a. al_rule_id a = rule_id) (am_active_alarms m)"

definition rule_reading :: "alarm_env \<Rightarrow> nat \<Rightarrow> alarm_rule \<Rightarrow> alarm_manager \<Rightarrow> wtc_result \<times> sensor_data option" where
  "rule_reading env i r m = rtu_registry_get_sensor (am_registry m) (Some (ru_rtu_station r)) (ru_slot r) True (ae_read env i)"

definition rule_condition_met :: "alarm_rule \<Rightarrow> sensor_data option \<Rightarrow> bool" where
  "rule_condition_met r reading =
     (case reading of
        None \<Rightarrow> ru_condition r = ALARM_CONDITION_BAD_QUALITY
      | Some sensor \<Rightarrow>
          if sd_status sensor = IOPS_GOOD \<and> sd_quality sensor = QUALITY_GOOD
          then (case ru_condition r of
                  ALARM_CONDITION_HIGH \<Rightarrow> f_le (ru_threshold r) (sd_value sensor)
                | ALARM_CONDITION_HIGH_HIGH \<Rightarrow> f_le (ru_threshold r) (sd_value sensor)
                | ALARM_CONDITION_LOW \<Rightarrow> f_le (sd_value sensor) (ru_threshold r)
                | ALARM_CONDITION_LOW_LOW \<Rightarrow> f_le (sd_value sensor) (ru_threshold r)
                | _ \<Rightarrow> False)
          else ru_condition r = ALARM_CONDITION_BAD_QUALITY)"

definition rule_alarm :: "alarm_env \<Rightarrow> alarm_rule \<Rightarrow> f32 \<Rightarrow> int \<Rightarrow> alarm" where
  "rule_alarm env r value alarm_id = zero_alarm\<lparr>al_alarm_id := alarm_id, al_rule_id := ru_rule_id r,
     al_rtu_station := cstr_copy 63 (ru_rtu_station r), al_slot := ru_slot r, al_severity := ru_severity r,
     al_state := ALARM_STATE_ACTIVE_UNACK, al_value := value, al_threshold := ru_threshold r, al_raise_time_ms := ae_now env,
     al_message := cstr_copy 255 (take 200 (ru_message_template r) @ '' (value='' @ fmt_f2 value @
       '', threshold='' @ fmt_f2 (ru_threshold r) @ '')'')\<rparr>"

definition set_rule :: "nat \<Rightarrow> (alarm_rule \<Rightarrow> alarm_rule) \<Rightarrow> alarm_manager \<Rightarrow> alarm_manager" where
  "set_rule i f m = m\<lparr>am_rules := (am_rules m)[i := f (am_rules m ! i)]\<rparr>"

definition raise_for_rule :: "alarm_env \<Rightarrow> nat \<Rightarrow> f32 \<Rightarrow> alarm_manager \<Rightarrow> alarm_event list \<times> alarm_manager" where
  "raise_for_rule env i value m =
     (if length (am_active_alarms m) < MAX_ACTIVE_ALARMS then
        (let a = rule_alarm env (am_rules m ! i) value (am_next_alarm_id m);
             m = m\<lparr>am_active_alarms := am_active_alarms m @ [a], am_next_alarm_id := am_next_alarm_id m + 1,
                   am_stats := (am_stats m)\<lparr>st_total_alarms := st_total_alarms (am_stats m) + 1\<rparr>\<rparr>;
             m = add_to_history a (track_alarm (ae_track env i) (set_rule i (\<lambda>r. r\<lparr>ru_active := True\<rparr>) m))
         in (if mc_on_alarm_raised (am_config m) then [Alarm_Raised a] else [], m))
      else ([], m))"

definition cleared :: "u64 \<Rightarrow> alarm \<Rightarrow> alarm" where
  "cleared now a = a\<lparr>al_clear_time_ms := now, al_state :=
     (if al_state a = ALARM_STATE_ACTIVE_ACK then ALARM_STATE_CLEARED else ALARM_STATE_CLEARED_UNACK)\<rparr>"

definition clear_for_rule :: "alarm_env \<Rightarrow> nat \<Rightarrow> nat \<Rightarrow> alarm_manager \<Rightarrow> alarm_event list \<times> alarm_manager" where
  "clear_for_rule env i k m =
     (let a = am_active_alarms m ! k in
      if al_state a = ALARM_STATE_ACTIVE_UNACK \<or> al_state a = ALARM_STATE_ACTIVE_ACK then
        (let a = cleared (ae_now env) a;
             m = m\<lparr>am_active_alarms := (am_active_alarms m)[k := a]\<rparr>;
             m = add_to_history a (set_rule i (\<lambda>r. r\<lparr>ru_active := False\<rparr>) m)
         in (if mc_on_alarm_cleared (am_config m) then [Alarm_Cleared a] else [], m))
      else ([], m))"

definition process_rule :: "alarm_env \<Rightarrow> nat \<Rightarrow> alarm_manager \<Rightarrow> alarm_event list \<times> alarm_manager" where
  "process_rule env i m =
     (let r = am_rules m ! i in
      if \<not> ru_enabled r then ([], m)
      else if is_suppressed_unlocked m (ru_rtu_station r) (ru_slot r) (ae_check env i) then ([], m)
      else
        (let reading = snd (rule_reading env i r m);
             existing = find_active_alarm_by_rule m (ru_rule_id r)
         in
         if rule_condition_met r reading then
           if ru_condition_start_ms r = 0 then ([], set_rule i (\<lambda>r. r\<lparr>ru_condition_start_ms := ae_now env\<rparr>) m)
           else if existing = None \<and> ucast (ru_delay_ms r) \<le> ae_now env - ru_condition_start_ms r
             then raise_for_rule env i (case reading of Some s \<Rightarrow> sd_value s | None \<Rightarrow> ae_wild env i) m
           else ([], m)
         else
           (let m = set_rule i (\<lambda>r. r\<lparr>ru_condition_start_ms := 0\<rparr>) m in
            case existing of None \<Rightarrow> ([], m) | Some k \<Rightarrow> clear_for_rule env i k m)))"

text \<open>The loop that runs down the active alarms and closes the gap behind every cleared one.\<close>

primrec remove_cleared :: "nat \<Rightarrow> alarm list \<Rightarrow> alarm list" where
  "remove_cleared 0 as = as"
| "remove_cleared (Suc i) as = remove_cleared i
     (if al_state (as ! i) = ALARM_STATE_CLEARED then take i as @ drop (Suc i) as else as)"

definition alarm_manager_process ::
  "alarm_env \<Rightarrow> alarm_manager option \<Rightarrow> (wtc_result \<times> alarm_event list) \<times> alarm_manager option" where
  "alarm_manager_process env manager =
     on_handle (WTC_ERROR_INVALID_PARAM, []) (\<lambda>m.
       if am_registry m = None then ((WTC_ERROR_INVALID_PARAM, []), m)
       else
         (let (evs, m) = for_each (process_rule env) [0..<length (am_rules m)] m;
              m = m\<lparr>am_active_alarms := remove_cleared (length (am_active_alarms m)) (am_active_alarms m)\<rparr>
          in ((WTC_OK, evs), m\<lparr>am_stats := (am_stats m)\<lparr>st_active_alarms := of_nat (length (am_active_alarms m))\<rparr>\<rparr>))) manager"

section \<open>Calls\<close>

datatype alarm_call =
  Use_Registry "rtu_registry option"
| Create_Rule string int alarm_condition f32 alarm_severity u32 "string option"
| Delete_Rule int
| Enable_Rule int bool
| Out_Of_Service int bool "string option" string u64
| Rationalize int "string option" "string option" u32
| Acknowledge int string u64
| Acknowledge_All string "nat \<Rightarrow> u64"
| Suppress string int u32 "string option" "string option" u64
| Shelve int u32 "string option" string u64
| Unshelve int
| Raise "string option" int alarm_severity string f32 u64 u64
| Pass alarm_env

type_synonym alarm_reply = "wtc_result \<times> alarm_event list"

definition silent :: "wtc_result \<times> alarm_manager option \<Rightarrow> alarm_reply \<times> alarm_manager" where
  "silent r = ((fst r, []), the (snd r))"

definition heard :: "alarm_reply \<times> alarm_manager option \<Rightarrow> alarm_reply \<times> alarm_manager" where
  "heard r = (fst r, the (snd r))"

fun alarm_exec :: "alarm_call \<Rightarrow> alarm_manager \<Rightarrow> alarm_reply \<times> alarm_manager" where
  "alarm_exec (Use_Registry reg) m = silent (alarm_manager_set_registry (Some m) reg)"
| "alarm_exec (Create_Rule st sl c th sev d msg) m =
     (let ((r, i), m') = alarm_manager_create_rule (Some m) (Some st) sl c th sev d msg True in ((r, []), the m'))"
| "alarm_exec (Delete_Rule i) m = silent (alarm_manager_delete_rule (Some m) i)"
| "alarm_exec (Enable_Rule i b) m = silent (alarm_manager_enable_rule (Some m) i b)"
| "alarm_exec (Out_Of_Service i b why user t) m = silent (alarm_manager_set_out_of_service (Some m) i b why (Some user) t)"
| "alarm_exec (Rationalize i c a s) m = silent (alarm_manager_set_rationalization (Some m) i c a s)"
| "alarm_exec (Acknowledge i user t) m = heard (alarm_manager_acknowledge (Some m) i (Some user) t)"
| "alarm_exec (Acknowledge_All user t) m = silent (alarm_manager_acknowledge_all (Some m) (Some user) t)"
| "alarm_exec (Suppress st sl d why user t) m = silent (alarm_manager_suppress (Some m) (Some st) sl d why user t)"
| "alarm_exec (Shelve i d why user t) m = silent (alarm_manager_shelve (Some m) i d why (Some user) t)"
| "alarm_exec (Unshelve i) m = silent (alarm_manager_unshelve (Some m) i)"
| "alarm_exec (Raise st sl sev msg v t t') m = heard (alarm_manager_raise_alarm (Some m) st sl sev (Some msg) v t t')"
| "alarm_exec (Pass env) m = heard (alarm_manager_process env (Some m))"

section \<open>What the pass does for one rule\<close>

lemma remove_cleared_filter: "remove_cleared (length as) as = filter (\<lambda>a. al_state a \<noteq> ALARM_STATE_CLEARED) as"
proof -
  have "remove_cleared (length xs) (xs @ ys) = filter (\<lambda>a. al_state a \<noteq> ALARM_STATE_CLEARED) xs @ ys" for xs ys
    by (induction xs arbitrary: ys rule: rev_induct) (simp_all add: nth_append)
  from this [of as "[]"] show ?thesis by simp
qed

lemma set_rule_simps [simp]:
  "am_config (set_rule i f m) = am_config m" "am_registry (set_rule i f m) = am_registry m"
  "am_active_alarms (set_rule i f m) = am_active_alarms m" "am_next_alarm_id (set_rule i f m) = am_next_alarm_id m"
  "am_next_rule_id (set_rule i f m) = am_next_rule_id m" "am_suppressions (set_rule i f m) = am_suppressions m"
  "am_rules (set_rule i f m) = (am_rules m)[i := f (am_rules m ! i)]"
  "am_history (set_rule i f m) = am_history m" "am_history_count (set_rule i f m) = am_history_count m"
  "am_history_write_pos (set_rule i f m) = am_history_write_pos m"
  "am_alarm_timestamps (set_rule i f m) = am_alarm_timestamps m"
  "am_alarm_timestamp_idx (set_rule i f m) = am_alarm_timestamp_idx m"
  by (simp_all add: set_rule_def)

lemma add_to_history_simps [simp]:
  "am_config (add_to_history a m) = am_config m" "am_registry (add_to_history a m) = am_registry m"
  "am_active_alarms (add_to_history a m) = am_active_alarms m" "am_next_alarm_id (add_to_history a m) = am_next_alarm_id m"
  "am_next_rule_id (add_to_history a m) = am_next_rule_id m" "am_suppressions (add_to_history a m) = am_suppressions m"
  "am_rules (add_to_history a m) = am_rules m" "history_capacity (add_to_history a m) = history_capacity m"
  "am_alarm_timestamps (add_to_history a m) = am_alarm_timestamps m"
  "am_alarm_timestamp_idx (add_to_history a m) = am_alarm_timestamp_idx m"
  by (simp_all add: add_to_history_def)

lemma track_alarm_simps [simp]:
  "am_config (track_alarm t m) = am_config m" "am_registry (track_alarm t m) = am_registry m"
  "am_active_alarms (track_alarm t m) = am_active_alarms m" "am_next_alarm_id (track_alarm t m) = am_next_alarm_id m"
  "am_next_rule_id (track_alarm t m) = am_next_rule_id m" "am_suppressions (track_alarm t m) = am_suppressions m"
  "am_rules (track_alarm t m) = am_rules m" "am_history (track_alarm t m) = am_history m"
  "am_history_count (track_alarm t m) = am_history_count m" "am_history_write_pos (track_alarm t m) = am_history_write_pos m"
  by (simp_all add: track_alarm_def)

text \<open>The three things that processing a rule does to the active alarms and the next alarm number.\<close>

inductive rule_effect :: "alarm_env \<Rightarrow> alarm_rule \<Rightarrow> alarm list \<times> int \<Rightarrow> alarm list \<times> int \<Rightarrow> bool" for env r where
  keep: "rule_effect env r s s"
| raise: "\<forall>a \<in> set as. al_rule_id a \<noteq> ru_rule_id r \<Longrightarrow> length as < MAX_ACTIVE_ALARMS \<Longrightarrow>
    rule_effect env r (as, n) (as @ [rule_alarm env r v n], n + 1)"
| clear: "k < length as \<Longrightarrow> al_rule_id (as ! k) = ru_rule_id r \<Longrightarrow>
    al_state (as ! k) \<in> {ALARM_STATE_ACTIVE_UNACK, ALARM_STATE_ACTIVE_ACK} \<Longrightarrow>
    rule_effect env r (as, n) (as[k := cleared (ae_now env) (as ! k)], n)"

inductive_cases rule_effectE: "rule_effect env r (as, n) (as', n')"

abbreviation alarms_of :: "alarm_manager \<Rightarrow> alarm list \<times> int" where
  "alarms_of m \<equiv> (am_active_alarms m, am_next_alarm_id m)"

lemma rule_alarm_rule:
  assumes "ru_rule_id r' = ru_rule_id r" "ru_rtu_station r' = ru_rtu_station r" "ru_slot r' = ru_slot r"
    "ru_severity r' = ru_severity r" "ru_threshold r' = ru_threshold r" "ru_message_template r' = ru_message_template r"
  shows "rule_alarm env r' v n = rule_alarm env r v n"
  using assms by (simp add: rule_alarm_def)

lemma raise_effect:
  assumes "find_active_alarm_by_rule m (ru_rule_id (am_rules m ! i)) = None"
  shows "rule_effect env (am_rules m ! i) (alarms_of m) (alarms_of (snd (raise_for_rule env i v m)))"
proof -
  have "\<forall>a \<in> set (am_active_alarms m). al_rule_id a \<noteq> ru_rule_id (am_rules m ! i)"
    using assms unfolding find_active_alarm_by_rule_def find_None_pos [symmetric] find_None_iff_all .
  from rule_effect.raise [OF this] show ?thesis by (simp add: raise_for_rule_def Let_def rule_effect.keep)
qed

lemma clear_effect:
  assumes "find_active_alarm_by_rule m (ru_rule_id r) = Some k"
  shows "rule_effect env r (alarms_of m) (alarms_of (snd (clear_for_rule env i k m)))"
  using find_pos_SomeD [OF assms [unfolded find_active_alarm_by_rule_def]]
  by (auto simp: clear_for_rule_def Let_def intro: rule_effect.intros)

lemma process_rule_effect:
  "rule_effect env (am_rules m ! i) (alarms_of m) (alarms_of (snd (process_rule env i m)))"
proof -
  let ?m = "set_rule i (\<lambda>r. r\<lparr>ru_condition_start_ms := 0\<rparr>) m"
  have "find_active_alarm_by_rule ?m = find_active_alarm_by_rule m" by (simp add: find_active_alarm_by_rule_def fun_eq_iff)
  then have "find_active_alarm_by_rule m (ru_rule_id (am_rules m ! i)) = Some k \<Longrightarrow>
      rule_effect env (am_rules m ! i) (alarms_of m) (alarms_of (snd (clear_for_rule env i k ?m)))" for k
    using clear_effect [of ?m "am_rules m ! i" k env i] by simp
  with raise_effect [of m i env] show ?thesis
    by (simp add: process_rule_def Let_def rule_effect.keep split: option.split)
qed

text \<open>Processing rule \<open>i\<close> touches no other rule and none of the settings.\<close>

definition same_setting :: "nat \<Rightarrow> alarm_manager \<Rightarrow> alarm_manager \<Rightarrow> bool" where
  "same_setting i m m' \<longleftrightarrow> am_config m' = am_config m \<and> am_registry m' = am_registry m \<and>
     am_suppressions m' = am_suppressions m \<and> am_next_rule_id m' = am_next_rule_id m \<and>
     length (am_rules m') = length (am_rules m) \<and> (\<forall>j. j \<noteq> i \<longrightarrow> am_rules m' ! j = am_rules m ! j) \<and>
     map ru_rule_id (am_rules m') = map ru_rule_id (am_rules m)"

lemma map_update_same: "f y = f (xs ! i) \<Longrightarrow> map f (xs[i := y]) = map f xs"
  by (metis list_update_id map_update)

lemma nth_update_here: "xs[i := y] ! i = (if i < length xs then y else xs ! i)"
  by (simp add: list_update_beyond)

lemma process_rule_setting: "same_setting i m (snd (process_rule env i m))"
  by (auto simp: same_setting_def process_rule_def raise_for_rule_def clear_for_rule_def Let_def map_update_same nth_update_here
      split: option.split)

text \<open>The same for all rules before \<open>n\<close>, and what the whole loop keeps.\<close>

lemma pass_setting:
  assumes "m' = snd (for_each (process_rule env) [0..<n] m)"
  shows "am_config m' = am_config m" "am_registry m' = am_registry m" "am_suppressions m' = am_suppressions m"
    "am_next_rule_id m' = am_next_rule_id m" "length (am_rules m') = length (am_rules m)"
    "map ru_rule_id (am_rules m') = map ru_rule_id (am_rules m)" "n \<le> j \<Longrightarrow> am_rules m' ! j = am_rules m ! j"
proof -
  have "am_config m' = am_config m \<and> am_registry m' = am_registry m \<and> am_suppressions m' = am_suppressions m \<and>
    am_next_rule_id m' = am_next_rule_id m \<and> length (am_rules m') = length (am_rules m) \<and>
    map ru_rule_id (am_rules m') = map ru_rule_id (am_rules m) \<and> (\<forall>j \<ge> n. am_rules m' ! j = am_rules m ! j)"
    using assms
  proof (induction n arbitrary: m')
    case (Suc n)
    let ?t = "snd (for_each (process_rule env) [0..<n] m)"
    have "m' = snd (process_rule env n ?t)" using Suc.prems by (simp only: for_each_upto)
    then have "same_setting n ?t m'" by (simp add: process_rule_setting)
    with Suc.IH [of ?t] show ?case unfolding same_setting_def by auto
  qed simp
  then show "am_config m' = am_config m" "am_registry m' = am_registry m" "am_suppressions m' = am_suppressions m"
    "am_next_rule_id m' = am_next_rule_id m" "length (am_rules m') = length (am_rules m)"
    "map ru_rule_id (am_rules m') = map ru_rule_id (am_rules m)" "n \<le> j \<Longrightarrow> am_rules m' ! j = am_rules m ! j" by auto
qed

lemma pass_result:
  assumes "am_registry m \<noteq> None" and "t = snd (for_each (process_rule env) [0..<length (am_rules m)] m)"
  shows "alarm_exec (Pass env) m = ((WTC_OK, fst (for_each (process_rule env) [0..<length (am_rules m)] m)),
    t\<lparr>am_active_alarms := filter (\<lambda>a. al_state a \<noteq> ALARM_STATE_CLEARED) (am_active_alarms t), am_stats := (am_stats t)\<lparr>st_active_alarms :=
      of_nat (length (filter (\<lambda>a. al_state a \<noteq> ALARM_STATE_CLEARED) (am_active_alarms t)))\<rparr>\<rparr>)"
  using assms by (simp add: alarm_manager_process_def heard_def split_beta Let_def remove_cleared_filter)

section \<open>An alarm leaves the list only after an acknowledgement\<close>

definition pending_alarm :: "int \<Rightarrow> alarm list \<Rightarrow> bool" where
  "pending_alarm i as \<longleftrightarrow> (\<exists>a \<in> set as. al_alarm_id a = i \<and> unacked a)"

fun acknowledges :: "int \<Rightarrow> alarm_call \<Rightarrow> bool" where
  "acknowledges i (Acknowledge j user t) = (j = i)"
| "acknowledges i (Acknowledge_All user t) = True"
| "acknowledges i _ = False"

lemma pending_effect:
  assumes "rule_effect env r (as, n) (as', n')" and "pending_alarm i as"
  shows "pending_alarm i as'"
proof -
  consider "as' = as" | x where "as' = as @ [x]" | k where "as' = as[k := cleared (ae_now env) (as ! k)]"
    "k < length as" "al_state (as ! k) \<in> {ALARM_STATE_ACTIVE_UNACK, ALARM_STATE_ACTIVE_ACK}"
    using assms(1) by (auto elim: rule_effectE)
  then show ?thesis
  proof cases
    case (3 k)
    obtain a where a: "a \<in> set as" "al_alarm_id a = i" "unacked a" using assms(2) by (auto simp: pending_alarm_def)
    then obtain j where j: "j < length as" "as ! j = a" by (auto simp: in_set_conv_nth)
    have "unacked (as' ! j) \<and> al_alarm_id (as' ! j) = i" "j < length as'"
      using a j 3 by (auto simp: nth_list_update cleared_def)
    then show ?thesis unfolding pending_alarm_def by (intro bexI [of _ "as' ! j"]) auto
  qed (use assms(2) in \<open>auto simp: pending_alarm_def\<close>)
qed

lemma pending_update:
  assumes "update_first p f as = Some as'" and "\<And>a. p a \<Longrightarrow> al_alarm_id a = i \<Longrightarrow> unacked a \<Longrightarrow> al_alarm_id (f a) = i \<and> unacked (f a)"
    and "pending_alarm i as"
  shows "pending_alarm i as'"
proof -
  obtain xs x ys where s: "as = xs @ x # ys" "as' = xs @ f x # ys" "p x" using update_first_split [OF assms(1)] by blast
  from assms(3) s(1) consider "pending_alarm i (xs @ ys)" | "al_alarm_id x = i" "unacked x" by (auto simp: pending_alarm_def)
  then show ?thesis
  proof cases
    case 2
    from assms(2) [OF s(3) this] have "al_alarm_id (f x) = i \<and> unacked (f x)" .
    then show ?thesis unfolding pending_alarm_def s(2) by auto
  qed (auto simp: pending_alarm_def s(2))
qed

lemma pending_step:
  assumes "\<not> acknowledges i c" and "pending_alarm i (am_active_alarms m)"
  shows "pending_alarm i (am_active_alarms (snd (alarm_exec c m)))"
proof (cases c)
  case (Pass env)
  show ?thesis
  proof (cases "am_registry m = None")
    case True
    then show ?thesis using assms(2) by (simp add: Pass alarm_manager_process_def heard_def)
  next
    case False
    let ?t = "snd (for_each (process_rule env) [0..<length (am_rules m)] m)"
    have "pending_alarm i (am_active_alarms ?t)"
      by (rule for_each_inv [of "\<lambda>t. pending_alarm i (am_active_alarms t)", OF assms(2)])
        (rule pending_effect [OF process_rule_effect])
    then show ?thesis unfolding Pass pass_result [OF False refl] by (auto simp: pending_alarm_def)
  qed
next
  case (Acknowledge j user t)
  then show ?thesis using assms
    by (auto simp: heard_def alarm_manager_acknowledge_def change_alarm_def split_beta intro: pending_update split: option.split)
next
  case (Shelve j d why user t)
  then show ?thesis using assms
    by (auto simp: silent_def alarm_manager_shelve_def change_alarm_def Let_def intro: pending_update split: option.split)
next
  case (Unshelve j)
  then show ?thesis using assms
    by (auto simp: silent_def alarm_manager_unshelve_def change_alarm_def intro: pending_update split: option.split)
qed (use assms in \<open>auto simp: silent_def heard_def alarm_manager_set_registry_def alarm_manager_create_rule_def
  alarm_manager_delete_rule_def alarm_manager_enable_rule_def change_rule_def alarm_manager_set_out_of_service_def
  alarm_manager_set_rationalization_def alarm_manager_suppress_def alarm_manager_raise_alarm_def pending_alarm_def Let_def
  split: option.split\<close>)

text \<open>\<^bold>\<open>C3.\<close> No alarm is lost unseen: an active alarm that is not acknowledged stays in the list of active alarms,
  unacknowledged, through every sequence of calls (passes over the rules, deletion of its rule,
  suppression, shelving) that acknowledges neither it nor all alarms.\<close>

theorem alarm_needs_acknowledgement:
  assumes "a \<in> set (am_active_alarms m)" and "unacked a" and "\<forall>c \<in> set calls. \<not> acknowledges (al_alarm_id a) c"
  shows "\<exists>a' \<in> set (am_active_alarms (snd (run_calls alarm_exec calls m))). al_alarm_id a' = al_alarm_id a \<and> unacked a'"
proof -
  have "pending_alarm i (am_active_alarms m) \<Longrightarrow> \<forall>c \<in> set calls. \<not> acknowledges i c \<Longrightarrow>
      pending_alarm i (am_active_alarms (snd (run_calls alarm_exec calls m)))" for i
    by (induction calls arbitrary: m) (auto simp: split_beta Let_def pending_step simp del: alarm_exec.simps)
  with assms show ?thesis by (auto simp: pending_alarm_def)
qed

section \<open>The history is the window of the most recent events\<close>

definition hist_wf :: "alarm_manager \<Rightarrow> bool" where
  "hist_wf m \<longleftrightarrow> 0 < history_capacity m \<and> am_history_write_pos m < history_capacity m \<and>
     am_history_count m \<le> history_capacity m \<and>
     (am_history_count m < history_capacity m \<longrightarrow> am_history_write_pos m = am_history_count m)"

text \<open>The entries in the order in which they were recorded, the oldest first.\<close>

definition hist_contents :: "alarm_manager \<Rightarrow> alarm list" where
  "hist_contents m = ring_contents (am_history m)
     (if am_history_count m < history_capacity m then 0 else am_history_write_pos m) (am_history_count m)"

lemma length_hist_contents [simp]: "length (hist_contents m) = am_history_count m"
  by (simp add: hist_contents_def)

lemma add_to_history_wf: "hist_wf m \<Longrightarrow> hist_wf (add_to_history a m)"
  by (auto simp: hist_wf_def add_to_history_def mod_Suc)

lemma add_to_history_contents:
  assumes "hist_wf m"
  shows "hist_contents (add_to_history a m) =
    drop (Suc (length (hist_contents m)) - history_capacity m) (hist_contents m @ [a])"
proof (cases "am_history_count m < history_capacity m")
  case True
  with assms have pos: "am_history_write_pos m = (0 + am_history_count m) mod history_capacity m"
    by (simp add: hist_wf_def)
  have "\<not> Suc (am_history_count m) < history_capacity m \<Longrightarrow> Suc (am_history_count m) mod history_capacity m = 0"
    using True by (simp add: mod_Suc)
  with True ring_extend [of "am_history_count m" "am_history m" 0 a] show ?thesis
    by (simp add: hist_contents_def add_to_history_def pos)
next
  case False
  with assms have full: "am_history_count m = history_capacity m" and pos: "am_history_write_pos m < history_capacity m"
    by (auto simp: hist_wf_def)
  from assms have "am_history m \<noteq> []" by (auto simp: hist_wf_def)
  from ring_overwrite [OF this pos, of a] full assms show ?thesis
    by (simp add: hist_contents_def add_to_history_def drop_Suc hist_wf_def)
qed

interpretation past: bounded_window hist_contents hist_wf history_capacity add_to_history
  by unfold_locales (simp_all add: add_to_history_wf add_to_history_contents, simp add: hist_wf_def)

text \<open>The alarms of the events that go into the history (an acknowledgement does not), and what a call does
  to the ring when the callbacks for raised and cleared alarms are installed.\<close>

fun recorded :: "alarm_event \<Rightarrow> alarm list" where
  "recorded (Alarm_Raised a) = [a]"
| "recorded (Alarm_Cleared a) = [a]"
| "recorded (Alarm_Acknowledged a) = []"

abbreviation ring_of :: "alarm_manager \<Rightarrow> alarm list \<times> nat \<times> nat" where
  "ring_of m \<equiv> (am_history m, am_history_write_pos m, am_history_count m)"

definition records :: "alarm_manager \<Rightarrow> alarm_event list \<Rightarrow> alarm_manager \<Rightarrow> bool" where
  "records m evs m' \<longleftrightarrow> am_config m' = am_config m \<and> ring_of m' = ring_of (fold add_to_history (concat (map recorded evs)) m)"

lemma fold_add_ring: "ring_of m = ring_of m' \<Longrightarrow> ring_of (fold add_to_history as m) = ring_of (fold add_to_history as m')"
proof (induction as arbitrary: m m')
  case (Cons a as)
  have "ring_of (add_to_history a m) = ring_of (add_to_history a m')" using Cons.prems by (simp add: add_to_history_def)
  from Cons.IH [OF this] show ?case by simp
qed simp

lemma records_none: "am_config m' = am_config m \<Longrightarrow> ring_of m' = ring_of m \<Longrightarrow> records m [] m'"
  by (simp add: records_def)

lemma records_trans:
  assumes "records m e m'" and "records m' e' m''"
  shows "records m (e @ e') m''"
  using assms fold_add_ring [of m' "fold add_to_history (concat (map recorded e)) m" "concat (map recorded e')"]
  by (simp add: records_def)

lemma records_one:
  "am_config m' = am_config m \<Longrightarrow> ring_of m' = ring_of m \<Longrightarrow> recorded e = [a] \<Longrightarrow> records m [e] (add_to_history a m')"
  using fold_add_ring [of m' m "[a]"] by (simp add: records_def)

abbreviation reporting :: "alarm_manager \<Rightarrow> bool" where
  "reporting m \<equiv> mc_on_alarm_raised (am_config m) \<and> mc_on_alarm_cleared (am_config m)"

lemma raise_records: "reporting m \<Longrightarrow> records m (fst (raise_for_rule env i v m)) (snd (raise_for_rule env i v m))"
  by (auto simp: raise_for_rule_def Let_def intro: records_one records_none)

lemma clear_records: "reporting m \<Longrightarrow> records m (fst (clear_for_rule env i k m)) (snd (clear_for_rule env i k m))"
  by (auto simp: clear_for_rule_def Let_def intro: records_one records_none)

lemma process_rule_records: "reporting m \<Longrightarrow> records m (fst (process_rule env i m)) (snd (process_rule env i m))"
proof -
  assume on: "reporting m"
  let ?m = "set_rule i (\<lambda>r. r\<lparr>ru_condition_start_ms := 0\<rparr>) m"
  have "records m [] ?m" by (simp add: records_none)
  from records_trans [OF this clear_records [of ?m env i]] on
  have "records m (fst (clear_for_rule env i k ?m)) (snd (clear_for_rule env i k ?m))" for k by simp
  with raise_records [OF on] show ?thesis
    by (simp add: process_rule_def Let_def records_none split: option.split)
qed

lemma rules_record:
  "reporting m \<Longrightarrow> records m (fst (for_each (process_rule env) is m)) (snd (for_each (process_rule env) is m))"
proof (induction "is" arbitrary: m)
  case (Cons i "is")
  let ?m = "snd (process_rule env i m)"
  from process_rule_records [OF Cons.prems] have r: "records m (fst (process_rule env i m)) ?m" .
  then have "reporting ?m" using Cons.prems by (simp add: records_def)
  from records_trans [OF r Cons.IH [OF this]] show ?case by (simp add: split_beta Let_def)
qed (simp add: records_none)

lemma call_records:
  assumes "reporting m"
  shows "records m (snd (fst (alarm_exec c m))) (snd (alarm_exec c m))"
proof (cases c)
  case (Pass env)
  show ?thesis
  proof (cases "am_registry m = None")
    case True
    then show ?thesis by (simp add: Pass alarm_manager_process_def heard_def records_none)
  next
    case False
    show ?thesis unfolding Pass pass_result [OF False refl]
      using rules_record [OF assms, of env "[0..<length (am_rules m)]"] by (simp add: records_def)
  qed
next
  case (Raise st sl sev msg v t t')
  then show ?thesis using assms
    by (auto simp: heard_def alarm_manager_raise_alarm_def Let_def intro!: records_none records_one)
qed (auto simp: silent_def heard_def alarm_manager_set_registry_def alarm_manager_create_rule_def
  alarm_manager_delete_rule_def alarm_manager_enable_rule_def change_rule_def alarm_manager_set_out_of_service_def
  alarm_manager_set_rationalization_def alarm_manager_suppress_def alarm_manager_acknowledge_def alarm_manager_shelve_def
  alarm_manager_unshelve_def alarm_manager_acknowledge_all_def change_alarm_def records_def Let_def
  split: option.split)

lemma calls_record:
  "reporting m \<Longrightarrow> records m (concat (map snd (fst (run_calls alarm_exec calls m)))) (snd (run_calls alarm_exec calls m))"
proof (induction calls arbitrary: m)
  case (Cons c calls)
  let ?m = "snd (alarm_exec c m)"
  from call_records [OF Cons.prems] have r: "records m (snd (fst (alarm_exec c m))) ?m" .
  then have "reporting ?m" using Cons.prems by (simp add: records_def)
  from records_trans [OF r Cons.IH [OF this]] show ?case by (simp add: split_beta Let_def)
qed (simp add: records_none)

lemma ring_from_0: "n \<le> length slots \<Longrightarrow> ring_contents slots 0 n = take n slots"
  by (rule nth_equalityI) (simp_all add: nth_ring_contents)

lemma ring_full: "0 < length slots \<Longrightarrow> ring_contents slots t (length slots) = rotate t slots"
  by (rule nth_equalityI) (simp_all add: nth_ring_contents nth_rotate)

lemma stored_order:
  assumes "hist_wf m"
  shows "\<exists>k. take (am_history_count m) (am_history m) = rotate k (hist_contents m)"
proof (cases "am_history_count m < history_capacity m")
  case True
  then have "take (am_history_count m) (am_history m) = rotate 0 (hist_contents m)" by (simp add: hist_contents_def ring_from_0)
  then show ?thesis by blast
next
  case False
  with assms have full: "am_history_count m = history_capacity m" "0 < history_capacity m" "am_history_write_pos m < history_capacity m"
    by (auto simp: hist_wf_def)
  then have "rotate (history_capacity m - am_history_write_pos m) (hist_contents m) = am_history m"
    by (simp add: hist_contents_def ring_full rotate_rotate)
  with full(1) show ?thesis by (metis order_refl take_all)
qed

text \<open>The history does not depend on the callbacks: a manager with the callbacks for raised and cleared alarms
  installed goes through the same states, and reports every raised and cleared alarm.\<close>

definition watched :: "alarm_manager \<Rightarrow> alarm_manager" where
  "watched m = m\<lparr>am_config := (am_config m)\<lparr>mc_on_alarm_raised := True, mc_on_alarm_cleared := True\<rparr>\<rparr>"

lemma watched_simps [simp]:
  "am_registry (watched m) = am_registry m" "am_rules (watched m) = am_rules m" "am_active_alarms (watched m) = am_active_alarms m"
  "am_next_alarm_id (watched m) = am_next_alarm_id m" "am_suppressions (watched m) = am_suppressions m"
  "am_history (watched m) = am_history m" "am_history_write_pos (watched m) = am_history_write_pos m"
  "am_history_count (watched m) = am_history_count m" "am_stats (watched m) = am_stats m"
  "am_next_rule_id (watched m) = am_next_rule_id m" "reporting (watched m)"
  by (simp_all add: watched_def)

lemma watched_parts:
  "watched (set_rule i f m) = set_rule i f (watched m)"
  "watched (track_alarm t m) = track_alarm t (watched m)"
  "watched (add_to_history a m) = add_to_history a (watched m)"
  "watched (m\<lparr>am_active_alarms := as\<rparr>) = (watched m)\<lparr>am_active_alarms := as\<rparr>"
  "watched (m\<lparr>am_next_alarm_id := n\<rparr>) = (watched m)\<lparr>am_next_alarm_id := n\<rparr>"
  "watched (m\<lparr>am_next_rule_id := n\<rparr>) = (watched m)\<lparr>am_next_rule_id := n\<rparr>"
  "watched (m\<lparr>am_stats := st\<rparr>) = (watched m)\<lparr>am_stats := st\<rparr>"
  "watched (m\<lparr>am_rules := rs\<rparr>) = (watched m)\<lparr>am_rules := rs\<rparr>"
  "watched (m\<lparr>am_suppressions := ss\<rparr>) = (watched m)\<lparr>am_suppressions := ss\<rparr>"
  "watched (m\<lparr>am_registry := reg\<rparr>) = (watched m)\<lparr>am_registry := reg\<rparr>"
  by (simp_all add: watched_def set_rule_def track_alarm_def add_to_history_def Let_def)

lemma watched_rule: "snd (process_rule env i (watched m)) = watched (snd (process_rule env i m))"
  by (auto simp: process_rule_def raise_for_rule_def clear_for_rule_def is_suppressed_unlocked_def rule_reading_def
      find_active_alarm_by_rule_def Let_def watched_parts split: option.split)

lemma watched_rules: "snd (for_each (process_rule env) is (watched m)) = watched (snd (for_each (process_rule env) is m))"
  by (induction "is" arbitrary: m) (simp_all add: split_beta Let_def watched_rule)

lemma watched_exec: "snd (alarm_exec c (watched m)) = watched (snd (alarm_exec c m))"
  by (cases c) (auto simp: silent_def heard_def alarm_manager_set_registry_def alarm_manager_create_rule_def
    alarm_manager_delete_rule_def alarm_manager_enable_rule_def change_rule_def alarm_manager_set_out_of_service_def
    alarm_manager_set_rationalization_def alarm_manager_suppress_def alarm_manager_acknowledge_def alarm_manager_shelve_def
    alarm_manager_unshelve_def alarm_manager_acknowledge_all_def change_alarm_def alarm_manager_raise_alarm_def
    alarm_manager_process_def watched_rules watched_parts split_beta Let_def split: option.split)

lemma watched_calls: "snd (run_calls alarm_exec calls (watched m)) = watched (snd (run_calls alarm_exec calls m))"
  by (induction calls arbitrary: m) (simp_all add: split_beta Let_def watched_exec del: alarm_exec.simps)

text \<open>\<^bold>\<open>C25.\<close> The history records every raised and every cleared alarm, whichever callbacks are installed. The
  alarms a sequence of calls raises and clears are those it reports when the two callbacks for raised
  and cleared alarms are installed (\<open>watched\<close>); acknowledgements are not recorded. The history after the
  calls consists of the last of these alarms, as many as its capacity, after those already in it.
  Asking for the whole history returns these entries, but once the ring has wrapped around they start
  in the middle: a rotation of the order of time.\<close>

theorem history_records_events:
  assumes "hist_wf m" and "m' = snd (run_calls alarm_exec calls m)"
    and "all = hist_contents m @ concat (map recorded (concat (map snd (fst (run_calls alarm_exec calls (watched m))))))"
    and "int (history_capacity m) \<le> max_count"
  shows "hist_contents m' = drop (length all - history_capacity m) all \<and>
    (\<exists>k. alarm_manager_get_history (Some m') True True max_count 0 0 = (WTC_OK, Some (rotate k (hist_contents m'))))"
proof -
  let ?as = "concat (map recorded (concat (map snd (fst (run_calls alarm_exec calls (watched m))))))"
  have "ring_of (watched m') = ring_of (fold add_to_history ?as (watched m))"
    using calls_record [of "watched m" calls] assms(2) by (simp add: records_def watched_calls)
  then have ring: "ring_of m' = ring_of (fold add_to_history ?as m)"
    using fold_add_ring [of "watched m" m ?as] by simp
  then have c: "hist_contents m' = hist_contents (fold add_to_history ?as m)" "hist_wf m'" "history_capacity m' = history_capacity m"
    using past.wf_fold [OF assms(1), of ?as] past.cap_fold [OF assms(1), of ?as] by (simp_all add: hist_contents_def hist_wf_def)
  have "hist_contents m' = drop (length all - history_capacity m) all"
    using past.contents_fold [OF assms(1), of ?as] c(1) assms(3) by simp
  moreover obtain k where "take (am_history_count m') (am_history m') = rotate k (hist_contents m')"
    using stored_order [OF c(2)] by blast
  moreover have "am_history_count m' \<le> nat max_count" using c(2, 3) assms(4) unfolding hist_wf_def by linarith
  ultimately show ?thesis by (auto simp: alarm_manager_get_history_def in_period_def)
qed

section \<open>The invariant of the manager\<close>

text \<open>The alarm numbers are distinct and below the next one, and no two active alarms belong to the same rule;
  rule 0 is the mark of alarms raised from outside.\<close>

definition active_ok :: "int \<Rightarrow> alarm list \<times> int \<Rightarrow> bool" where
  "active_ok nr s \<longleftrightarrow> (let ids = map al_alarm_id (fst s); rids = map al_rule_id (fst s) in
     length ids \<le> MAX_ACTIVE_ALARMS \<and> distinct ids \<and> 1 \<le> snd s \<and> (\<forall>i \<in> set ids. 1 \<le> i \<and> i < snd s) \<and>
     distinct (filter (\<lambda>i. i \<noteq> 0) rids) \<and> (\<forall>i \<in> set rids. 0 \<le> i \<and> i < nr))"

definition rules_ok :: "alarm_manager \<Rightarrow> bool" where
  "rules_ok m \<longleftrightarrow> length (am_rules m) \<le> WTC_MAX_ALARM_RULES \<and> distinct (map ru_rule_id (am_rules m)) \<and>
     1 \<le> am_next_rule_id m \<and> (\<forall>i \<in> set (map ru_rule_id (am_rules m)). 1 \<le> i \<and> i < am_next_rule_id m)"

definition times_ok :: "alarm_manager \<Rightarrow> bool" where
  "times_ok m \<longleftrightarrow> length (am_alarm_timestamps m) = 600 \<and> am_alarm_timestamp_idx m < 600 \<and>
     length (am_suppressions m) \<le> MAX_SUPPRESSIONS"

definition alarms_wf :: "alarm_manager \<Rightarrow> bool" where
  "alarms_wf m \<longleftrightarrow> active_ok (am_next_rule_id m) (alarms_of m) \<and> rules_ok m \<and> times_ok m \<and> hist_wf m"

lemma active_ok_same:
  assumes "map al_alarm_id as' = map al_alarm_id as" and "map al_rule_id as' = map al_rule_id as" and "active_ok nr (as, n)"
  shows "active_ok nr (as', n)"
  using assms by (simp add: active_ok_def Let_def)

lemma active_ok_new:
  assumes "active_ok nr (as, n)" and "length as < MAX_ACTIVE_ALARMS" and "al_alarm_id a = n"
    and "al_rule_id a = 0 \<or> (\<forall>x \<in> set as. al_rule_id x \<noteq> al_rule_id a)" and "0 \<le> al_rule_id a" and "al_rule_id a < nr"
  shows "active_ok nr (as @ [a], n + 1)"
  using assms by (auto simp: active_ok_def Let_def)

lemma active_ok_filter: "active_ok nr (as, n) \<Longrightarrow> active_ok nr (filter p as, n)"
proof -
  have "distinct (filter q (map f as)) \<Longrightarrow> distinct (filter q (map f (filter p as)))" for q :: "int \<Rightarrow> bool" and f
    by (induction as) auto
  moreover have "length as \<le> c \<Longrightarrow> length (filter p as) \<le> c" for c using length_filter_le [of p as] by linarith
  ultimately show "active_ok nr (as, n) \<Longrightarrow> active_ok nr (filter p as, n)"
    by (simp add: active_ok_def Let_def distinct_map_filter)
qed

lemma active_ok_effect:
  assumes "rule_effect env r (as, n) (as', n')" and "active_ok nr (as, n)" and "1 \<le> ru_rule_id r" and "ru_rule_id r < nr"
  shows "active_ok nr (as', n')"
  using assms(1)
proof (rule rule_effectE)
  fix v
  assume "as' = as @ [rule_alarm env r v n]" "n' = n + 1" "\<forall>a \<in> set as. al_rule_id a \<noteq> ru_rule_id r"
    "length as < MAX_ACTIVE_ALARMS"
  with assms(2-4) active_ok_new [of nr as n "rule_alarm env r v n"] show ?thesis by (simp add: rule_alarm_def)
next
  fix k
  assume "as' = as[k := cleared (ae_now env) (as ! k)]" "n' = n"
  with assms(2) show ?thesis
    by (auto intro!: active_ok_same [of _ as] simp: map_update_same cleared_def)
qed (use assms(2) in simp)

lemma process_rule_ring:
  assumes "hist_wf m" and "times_ok m"
  shows "hist_wf (snd (process_rule env i m)) \<and> times_ok (snd (process_rule env i m))"
proof -
  have h: "hist_wf m' \<Longrightarrow> ring_of t = ring_of m' \<Longrightarrow> hist_wf (add_to_history a t)" for m' t a
    by (rule add_to_history_wf) (simp add: hist_wf_def)
  show ?thesis using assms
    by (auto simp: process_rule_def raise_for_rule_def clear_for_rule_def Let_def intro!: h [OF assms(1)] split: option.split)
      (simp_all add: hist_wf_def times_ok_def track_alarm_def)
qed

lemma process_rule_wf:
  assumes "i < length (am_rules m)" and "alarms_wf m"
  shows "alarms_wf (snd (process_rule env i m))"
proof -
  note st = process_rule_setting [of i m env, unfolded same_setting_def]
  have "ru_rule_id (am_rules m ! i) \<in> set (map ru_rule_id (am_rules m))" using assms(1) by simp
  with assms(2) have "1 \<le> ru_rule_id (am_rules m ! i)" "ru_rule_id (am_rules m ! i) < am_next_rule_id m"
    unfolding alarms_wf_def rules_ok_def by blast+
  from active_ok_effect [OF process_rule_effect _ this] st process_rule_ring [of m env i] assms(2)
  show ?thesis by (simp add: alarms_wf_def rules_ok_def)
qed

lemma pass_wf:
  assumes "alarms_wf m"
  shows "alarms_wf (snd (for_each (process_rule env) [0..<length (am_rules m)] m))"
proof -
  let ?P = "\<lambda>t. alarms_wf t \<and> length (am_rules t) = length (am_rules m)"
  have "?P (snd (for_each (process_rule env) [0..<length (am_rules m)] m))"
    by (rule for_each_inv) (use assms process_rule_wf process_rule_setting in \<open>auto simp: same_setting_def\<close>)
  then show ?thesis by blast
qed

lemma change_rule_wf:
  assumes "alarms_wf m" and "\<And>r. ru_rule_id (f r) = ru_rule_id r"
  shows "alarms_wf (snd (change_rule i f m))"
proof (cases "update_first (\<lambda>r. ru_rule_id r = i) f (am_rules m)")
  case (Some rs)
  have "map ru_rule_id rs = map ru_rule_id (am_rules m)" by (rule update_first_map [OF Some]) (rule assms(2))
  with Some assms(1) update_first_length [OF Some] show ?thesis
    by (simp add: change_rule_def alarms_wf_def rules_ok_def times_ok_def hist_wf_def)
qed (use assms(1) in \<open>simp add: change_rule_def\<close>)

lemma change_alarm_wf:
  assumes "alarms_wf m" and "\<And>a. al_alarm_id (f a) = al_alarm_id a" and "\<And>a. al_rule_id (f a) = al_rule_id a"
  shows "alarms_wf (snd (change_alarm i f m))"
proof (cases "update_first (\<lambda>a. al_alarm_id a = i) f (am_active_alarms m)")
  case (Some as)
  have "map al_alarm_id as = map al_alarm_id (am_active_alarms m)" by (rule update_first_map [OF Some]) (rule assms(2))
  moreover have "map al_rule_id as = map al_rule_id (am_active_alarms m)" by (rule update_first_map [OF Some]) (rule assms(3))
  ultimately show ?thesis using Some assms(1) active_ok_same [of as "am_active_alarms m"]
    by (simp add: change_alarm_def alarms_wf_def rules_ok_def times_ok_def hist_wf_def)
qed (use assms(1) in \<open>simp add: change_alarm_def\<close>)

lemma enter_wf:
  assumes "alarms_wf m" and "length (am_active_alarms m) < MAX_ACTIVE_ALARMS" and "al_alarm_id a = am_next_alarm_id m"
    and "al_rule_id a = 0"
  shows "alarms_wf (add_to_history a (track_alarm t
    (m\<lparr>am_active_alarms := am_active_alarms m @ [a], am_next_alarm_id := am_next_alarm_id m + 1, am_stats := s\<rparr>)))"
    (is "alarms_wf (add_to_history a ?m)")
proof -
  have "hist_wf ?m" "times_ok ?m" "rules_ok ?m" using assms(1)
    by (simp_all add: alarms_wf_def hist_wf_def times_ok_def rules_ok_def) (simp_all add: track_alarm_def)
  moreover have "active_ok (am_next_rule_id m) (alarms_of ?m)"
    using active_ok_new [of "am_next_rule_id m" "am_active_alarms m" "am_next_alarm_id m" a] assms
    by (simp add: alarms_wf_def rules_ok_def)
  ultimately show ?thesis using add_to_history_wf by (simp add: alarms_wf_def times_ok_def rules_ok_def)
qed

lemma call_wf:
  assumes wf: "alarms_wf m"
  shows "alarms_wf (snd (alarm_exec c m))"
proof (cases c)
  case (Pass env)
  show ?thesis
  proof (cases "am_registry m = None")
    case True
    then show ?thesis using wf by (simp add: Pass alarm_manager_process_def heard_def)
  next
    case False
    show ?thesis unfolding Pass pass_result [OF False refl] using pass_wf [OF wf, of env] active_ok_filter
      by (simp add: alarms_wf_def rules_ok_def times_ok_def hist_wf_def)
  qed
next
  case (Raise st sl sev msg v t t')
  show ?thesis using wf enter_wf [OF wf]
    by (auto simp: Raise heard_def alarm_manager_raise_alarm_def Let_def zero_alarm_def)
next
  case (Create_Rule st sl cond th sev d msg)
  have "active_ok nr s \<Longrightarrow> active_ok (nr + 1) s" for nr s by (auto simp: active_ok_def Let_def)
  then show ?thesis using wf
    by (auto simp: Create_Rule alarm_manager_create_rule_def alarms_wf_def rules_ok_def times_ok_def hist_wf_def new_rule_def)
next
  case (Delete_Rule i)
  show ?thesis
  proof (cases "remove_first (\<lambda>r. ru_rule_id r = i) (am_rules m)")
    case (Some rs)
    then show ?thesis using wf remove_first_set [OF Some] remove_first_length [OF Some] distinct_remove_first [OF Some, of ru_rule_id]
      by (auto simp: Delete_Rule silent_def alarm_manager_delete_rule_def alarms_wf_def rules_ok_def times_ok_def hist_wf_def)
  qed (use wf in \<open>simp add: Delete_Rule silent_def alarm_manager_delete_rule_def\<close>)
next
  case (Acknowledge i user t)
  have "alarms_wf (snd (change_alarm i (acknowledged user t) m))" by (rule change_alarm_wf [OF wf]) (simp_all add: acknowledged_def)
  then show ?thesis using wf by (simp add: Acknowledge heard_def alarm_manager_acknowledge_def split_beta split: option.split)
next
  case (Acknowledge_All user t)
  have "map f (map (\<lambda>(i, a). if unacked a then acknowledged user (t i) a else a) (enumerate k as)) = map f as"
    if "\<And>t a. f (acknowledged user t a) = f a" for f :: "alarm \<Rightarrow> int" and as k
    by (induction as arbitrary: k) (simp_all add: that)
  from active_ok_same [OF this this] wf show ?thesis
    by (simp add: Acknowledge_All silent_def alarm_manager_acknowledge_all_def alarms_wf_def rules_ok_def times_ok_def hist_wf_def
        acknowledged_def)
qed (use wf in \<open>simp_all add: silent_def alarm_manager_enable_rule_def alarm_manager_set_out_of_service_def
  alarm_manager_set_rationalization_def alarm_manager_shelve_def alarm_manager_unshelve_def change_rule_wf change_alarm_wf,
  simp_all add: alarm_manager_set_registry_def alarm_manager_suppress_def alarms_wf_def rules_ok_def times_ok_def hist_wf_def\<close>)

lemma alarms_init_wf:
  assumes "alarm_manager_init True True True config = (WTC_OK, Some m)"
  shows "alarms_wf m"
  using assms
  by (auto simp: alarm_manager_init_def Let_def with_defaults_def MAX_HISTORY_ALARMS_def alarms_wf_def active_ok_def rules_ok_def
      times_ok_def hist_wf_def split: if_splits)

lemma calls_wf: "alarms_wf m \<Longrightarrow> alarms_wf (snd (run_calls alarm_exec calls m))"
  by (induction calls arbitrary: m) (simp_all add: split_beta Let_def call_wf del: alarm_exec.simps)

text \<open>\<^bold>\<open>C23.\<close> The invariant of the alarm manager: after every sequence of calls on a new manager, the rules, active
  alarms, suppressions and history entries are within their arrays, rule and alarm numbers are unique
  and never reused, and no rule has more than one active alarm.\<close>

theorem alarm_manager_keeps_invariant:
  assumes "alarm_manager_init True True True config = (WTC_OK, Some m)"
  shows "alarms_wf (snd (run_calls alarm_exec calls m))"
  by (rule calls_wf) (rule alarms_init_wf [OF assms])

section \<open>When a rule raises its alarm\<close>

text \<open>The alarms of a rule are touched only when that rule is processed.\<close>

definition alarms_for :: "int \<Rightarrow> alarm_manager \<Rightarrow> alarm set" where
  "alarms_for x m = {a \<in> set (am_active_alarms m). al_rule_id a = x}"

lemma effect_other:
  assumes "rule_effect env r (as, n) (as', n')" and "x \<noteq> ru_rule_id r"
  shows "{a \<in> set as'. al_rule_id a = x} = {a \<in> set as. al_rule_id a = x}"
  using assms(1)
proof (rule rule_effectE)
  fix k
  assume k: "as' = as[k := cleared (ae_now env) (as ! k)]" "k < length as" "al_rule_id (as ! k) = ru_rule_id r"
  have "a \<in> set as' \<longleftrightarrow> a \<in> set as" if "al_rule_id a = x" for a
  proof -
    have "as' ! j = a \<longleftrightarrow> as ! j = a" for j using k that assms(2) by (cases "j = k") (auto simp: cleared_def)
    then show ?thesis unfolding in_set_conv_nth by (simp add: k(1))
  qed
  then show ?thesis by auto
qed (use assms(2) in \<open>auto simp: rule_alarm_def\<close>)

lemma process_other:
  "x \<noteq> ru_rule_id (am_rules m ! i) \<Longrightarrow> alarms_for x (snd (process_rule env i m)) = alarms_for x m"
  using effect_other [OF process_rule_effect] by (simp add: alarms_for_def)

text \<open>A run over rules none of which is rule \<open>k\<close> leaves the alarms of rule \<open>k\<close> alone.\<close>

lemma rules_other:
  assumes "distinct (map ru_rule_id (am_rules m))" and "k < length (am_rules m)" and "k \<notin> set is"
    and "\<forall>i \<in> set is. i < length (am_rules m)"
  shows "alarms_for (ru_rule_id (am_rules m ! k)) (snd (for_each (process_rule env) is m)) =
    alarms_for (ru_rule_id (am_rules m ! k)) m"
  using assms
proof (induction "is" arbitrary: m)
  case (Cons i "is")
  let ?m = "snd (process_rule env i m)"
  have st: "length (am_rules ?m) = length (am_rules m)" "am_rules ?m ! k = am_rules m ! k"
    "map ru_rule_id (am_rules ?m) = map ru_rule_id (am_rules m)"
    using process_rule_setting [of i m env] Cons.prems(3) by (auto simp: same_setting_def)
  have "ru_rule_id (am_rules m ! k) \<noteq> ru_rule_id (am_rules m ! i)"
    using Cons.prems by (auto simp: distinct_conv_nth)
  then have "alarms_for (ru_rule_id (am_rules m ! k)) ?m = alarms_for (ru_rule_id (am_rules m ! k)) m" by (rule process_other)
  with Cons.IH [of ?m] Cons.prems st show ?case by (simp add: split_beta Let_def)
qed simp

text \<open>So the alarms of rule \<open>k\<close> after a pass are those after processing rule \<open>k\<close> alone, less the cleared ones.\<close>

lemma pass_alarms_for:
  assumes "alarms_wf m" and "am_registry m \<noteq> None" and "k < length (am_rules m)"
  obtains t where "t = snd (for_each (process_rule env) [0..<k] m)" "am_rules t ! k = am_rules m ! k" "am_registry t = am_registry m" "am_suppressions t = am_suppressions m"
    "alarms_for (ru_rule_id (am_rules m ! k)) t = alarms_for (ru_rule_id (am_rules m ! k)) m"
    "alarms_for (ru_rule_id (am_rules m ! k)) (snd (alarm_exec (Pass env) m)) =
      {a \<in> alarms_for (ru_rule_id (am_rules m ! k)) (snd (process_rule env k t)). al_state a \<noteq> ALARM_STATE_CLEARED}"
proof -
  let ?x = "ru_rule_id (am_rules m ! k)"
  let ?t = "snd (for_each (process_rule env) [0..<k] m)"
  let ?u = "snd (process_rule env k ?t)"
  let ?v = "snd (for_each (process_rule env) [Suc k..<length (am_rules m)] ?u)"
  have d: "distinct (map ru_rule_id (am_rules m))" using assms(1) by (simp add: alarms_wf_def rules_ok_def)
  note st = pass_setting [where n = k and env = env and m = m, OF refl]
  have before: "alarms_for ?x ?t = alarms_for ?x m" using rules_other [OF d assms(3), of "[0..<k]"] assms(3) by simp
  have u: "length (am_rules ?u) = length (am_rules m)" "map ru_rule_id (am_rules ?u) = map ru_rule_id (am_rules m)"
    using process_rule_setting [of k ?t env] st(5, 6) by (simp_all add: same_setting_def)
  from u(2) have x: "ru_rule_id (am_rules ?u ! k) = ?x" using assms(3) u(1) by (metis nth_map)
  have after: "alarms_for ?x ?v = alarms_for ?x ?u"
    using rules_other [of ?u k "[Suc k..<length (am_rules m)]" env] d u x assms(3) by simp
  have "[0..<length (am_rules m)] = [0..<k] @ k # [Suc k..<length (am_rules m)]"
    using upt_add_eq_append [of 0 k "length (am_rules m) - k"] upt_conv_Cons [OF assms(3)] assms(3) by simp
  then have v: "?v = snd (for_each (process_rule env) [0..<length (am_rules m)] m)"
    by (simp add: for_each_append split_beta Let_def)
  show ?thesis
  proof (rule that [of ?t])
    show "alarms_for ?x (snd (alarm_exec (Pass env) m)) = {a \<in> alarms_for ?x ?u. al_state a \<noteq> ALARM_STATE_CLEARED}"
      unfolding pass_result [OF assms(2) v] using after by (auto simp: alarms_for_def)
  qed (use st before in simp_all)
qed

text \<open>\<^bold>\<open>C24.\<close> An alarm is raised when it should be: if the condition of an enabled, unsuppressed rule holds in a pass
  and has been seen before at least its delay ago, the list of active alarms has no alarm of the rule
  (not even a cleared one) and has room when the turn of the rule comes, after the rules before it
  were processed, then the pass raises the alarm of the rule, unacknowledged, with its severity,
  threshold and the value read.\<close>

theorem alarm_raised_after_delay:
  assumes "alarms_wf m" and "am_registry m \<noteq> None" and "k < length (am_rules m)" and "r = am_rules m ! k" and "ru_enabled r"
    and "\<not> is_suppressed_unlocked m (ru_rtu_station r) (ru_slot r) (ae_check env k)"
    and "snd (rule_reading env k r m) = reading" and "rule_condition_met r reading"
    and "ru_condition_start_ms r \<noteq> 0" and "ucast (ru_delay_ms r) \<le> ae_now env - ru_condition_start_ms r"
    and "\<forall>a \<in> set (am_active_alarms m). al_rule_id a \<noteq> ru_rule_id r"
    and "length (am_active_alarms (snd (for_each (process_rule env) [0..<k] m))) < MAX_ACTIVE_ALARMS"
  shows "\<exists>n. rule_alarm env r (case reading of Some s \<Rightarrow> sd_value s | None \<Rightarrow> ae_wild env k) n
    \<in> set (am_active_alarms (snd (alarm_exec (Pass env) m)))"
proof -
  let ?v = "case reading of Some s \<Rightarrow> sd_value s | None \<Rightarrow> ae_wild env k"
  obtain t where before: "t = snd (for_each (process_rule env) [0..<k] m)"
    and t: "am_rules t ! k = r" "am_registry t = am_registry m" "am_suppressions t = am_suppressions m"
    "alarms_for (ru_rule_id r) t = alarms_for (ru_rule_id r) m"
    "alarms_for (ru_rule_id r) (snd (alarm_exec (Pass env) m)) =
      {a \<in> alarms_for (ru_rule_id r) (snd (process_rule env k t)). al_state a \<noteq> ALARM_STATE_CLEARED}"
    by (rule pass_alarms_for [OF assms(1-3), of env, folded assms(4)])
  have "alarms_for (ru_rule_id r) m = {}" using assms(11) by (auto simp: alarms_for_def)
  with t(4) have "\<forall>a \<in> set (am_active_alarms t). al_rule_id a \<noteq> ru_rule_id r" by (auto simp: alarms_for_def)
  then have none: "find_active_alarm_by_rule t (ru_rule_id r) = None"
    unfolding find_active_alarm_by_rule_def find_None_pos [symmetric] find_None_iff_all .
  have room: "length (am_active_alarms t) < MAX_ACTIVE_ALARMS" using assms(12) before by simp
  have "snd (rule_reading env k r t) = reading" using assms(7) by (simp add: rule_reading_def t(2))
  moreover have "\<not> is_suppressed_unlocked t (ru_rtu_station r) (ru_slot r) (ae_check env k)"
    using assms(6) by (simp add: is_suppressed_unlocked_def t(3))
  ultimately have "process_rule env k t = raise_for_rule env k ?v t"
    using assms(5, 8-10) none by (simp add: process_rule_def Let_def t(1))
  then have "rule_alarm env r ?v (am_next_alarm_id t) \<in> alarms_for (ru_rule_id r) (snd (process_rule env k t))"
    using room by (simp add: raise_for_rule_def Let_def t(1) alarms_for_def) (simp add: rule_alarm_def)
  then have "rule_alarm env r ?v (am_next_alarm_id t) \<in> alarms_for (ru_rule_id r) (snd (alarm_exec (Pass env) m))"
    unfolding t(5) by (simp add: rule_alarm_def)
  then show ?thesis by (auto simp: alarms_for_def)
qed

lemma one_alarm:
  assumes "distinct (filter (\<lambda>i. i \<noteq> 0) (map al_rule_id as))" and "a \<in> set as" and "b \<in> set as" and "al_rule_id b = al_rule_id a"
    and "al_rule_id a \<noteq> 0"
  shows "b = a"
proof -
  from assms(1) have "inj_on al_rule_id (set (filter (\<lambda>a. al_rule_id a \<noteq> 0) as))" by (simp add: filter_map o_def distinct_map)
  with assms(2-5) show ?thesis by (simp add: inj_on_def)
qed

text \<open>A condition that returns goes unnoticed while its last alarm waits for acknowledgement: as long as an
  alarm is cleared but not acknowledged, no pass raises another alarm of its rule or makes that alarm
  active again, whatever the sensor reads.\<close>

theorem cleared_alarm_not_raised_again:
  assumes "alarms_wf m" and "am_registry m \<noteq> None" and "k < length (am_rules m)" and "a \<in> set (am_active_alarms m)"
    and "al_rule_id a = ru_rule_id (am_rules m ! k)" and "al_state a = ALARM_STATE_CLEARED_UNACK"
  shows "{a' \<in> set (am_active_alarms (snd (alarm_exec (Pass env) m))). al_rule_id a' = al_rule_id a} = {a}"
proof -
  let ?x = "ru_rule_id (am_rules m ! k)"
  obtain t where t: "am_rules t ! k = am_rules m ! k" "alarms_for ?x t = alarms_for ?x m"
    "alarms_for ?x (snd (alarm_exec (Pass env) m)) =
      {a \<in> alarms_for ?x (snd (process_rule env k t)). al_state a \<noteq> ALARM_STATE_CLEARED}"
    by (rule pass_alarms_for [OF assms(1-3), of env]) blast
  have "?x \<in> set (map ru_rule_id (am_rules m))" using assms(3) by simp
  then have "1 \<le> ?x" using assms(1) unfolding alarms_wf_def rules_ok_def by blast
  then have x: "al_rule_id a \<noteq> 0" using assms(5) by simp
  have d: "distinct (filter (\<lambda>i. i \<noteq> 0) (map al_rule_id (am_active_alarms m)))"
    using assms(1) unfolding alarms_wf_def active_ok_def Let_def fst_conv by blast
  have "b = a" if "b \<in> alarms_for ?x m" for b
    by (rule one_alarm [OF d assms(4) _ _ x]) (use that assms(5) in \<open>simp_all add: alarms_for_def\<close>)
  moreover have "a \<in> alarms_for ?x m" using assms(4, 5) by (simp add: alarms_for_def)
  ultimately have "alarms_for ?x m = {a}" by blast
  with t(2) have a: "alarms_for ?x t = {a}" by simp
  consider "am_active_alarms (snd (process_rule env k t)) = am_active_alarms t"
    | "\<forall>b \<in> set (am_active_alarms t). al_rule_id b \<noteq> ?x"
    | j where "j < length (am_active_alarms t)" "al_rule_id (am_active_alarms t ! j) = ?x"
      "al_state (am_active_alarms t ! j) \<noteq> ALARM_STATE_CLEARED_UNACK"
    using process_rule_effect [of env t k] unfolding t(1) by (auto elim: rule_effectE)
  then have "am_active_alarms (snd (process_rule env k t)) = am_active_alarms t"
  proof cases
    case 2
    with a show ?thesis by (auto simp: alarms_for_def)
  next
    case (3 j)
    then have "am_active_alarms t ! j \<in> alarms_for ?x t" by (simp add: alarms_for_def)
    with a assms(6) 3 show ?thesis by simp
  qed
  then have "alarms_for ?x (snd (process_rule env k t)) = {a}" using a by (simp add: alarms_for_def)
  then have "alarms_for ?x (snd (alarm_exec (Pass env) m)) = {a}" unfolding t(3) using assms(6) by auto
  then show ?thesis unfolding alarms_for_def assms(5) .
qed

section \<open>Example managers\<close>

text \<open>A new manager with a history of three entries, and one with a rule for a sensor that cannot be read, after a
  first pass.\<close>

definition small_config :: alarm_manager_config where
  "small_config = zero_config\<lparr>mc_max_history_entries := 3, mc_on_alarm_raised := True\<rparr>"

definition fresh_alarms :: alarm_manager where
  "fresh_alarms = the (snd (alarm_manager_init True True True (Some small_config)))"

definition at_time :: "u64 \<Rightarrow> alarm_env" where
  "at_time t = \<lparr>ae_now = t, ae_check = (\<lambda>_. t), ae_read = (\<lambda>_. t), ae_track = (\<lambda>_. t), ae_wild = (\<lambda>_. 0)\<rparr>"

definition pump_alarms :: alarm_manager where
  "pump_alarms = snd (run_calls alarm_exec [Use_Registry (Some empty_registry),
     Create_Rule ''pump'' 0 ALARM_CONDITION_BAD_QUALITY 0 ALARM_SEVERITY_HIGH 500 (Some ''pump lost''), Pass (at_time 1000)] fresh_alarms)"

lemma fresh_alarms_init: "alarm_manager_init True True True (Some small_config) = (WTC_OK, Some fresh_alarms)"
  by (simp add: fresh_alarms_def alarm_manager_init_def small_config_def zero_config_def with_defaults_def Let_def)

lemma fresh_alarms_fields:
  "am_config fresh_alarms = with_defaults small_config" "am_registry fresh_alarms = None" "am_rules fresh_alarms = []"
  "am_next_rule_id fresh_alarms = 1" "am_active_alarms fresh_alarms = []" "am_next_alarm_id fresh_alarms = 1"
  "am_history fresh_alarms = replicate 3 zero_alarm" "am_history_count fresh_alarms = 0" "am_suppressions fresh_alarms = []"
  by (simp_all add: fresh_alarms_def alarm_manager_init_def small_config_def zero_config_def with_defaults_def Let_def
      numeral_3_eq_3)

lemma no_reading: "snd (rtu_registry_get_sensor (Some empty_registry) n sl b t) = None"
  by (simp add: rtu_registry_get_sensor_def empty_registry_def find_device_locked_def split: option.split)

definition pump_rule :: alarm_rule where
  "pump_rule = (new_rule 1 ''pump'' 0 ALARM_CONDITION_BAD_QUALITY 0 ALARM_SEVERITY_HIGH 500 (Some ''pump lost''))
     \<lparr>ru_condition_start_ms := 1000\<rparr>"

lemma pump_alarms_fields:
  "am_registry pump_alarms = Some empty_registry" "am_rules pump_alarms = [pump_rule]" "am_active_alarms pump_alarms = []"
  "am_suppressions pump_alarms = []" "am_next_rule_id pump_alarms = 2"
  by (simp_all add: pump_alarms_def pump_rule_def silent_def heard_def alarm_manager_set_registry_def alarm_manager_create_rule_def
      alarm_manager_process_def process_rule_def set_rule_def rule_reading_def no_reading rule_condition_met_def new_rule_def
      fresh_alarms_fields WTC_MAX_ALARM_RULES_def is_suppressed_unlocked_def at_time_def Let_def)

lemma pump_alarms_wf: "alarms_wf pump_alarms"
  unfolding pump_alarms_def by (rule calls_wf) (rule alarms_init_wf [OF fresh_alarms_init])

theorem alarm_manager_keeps_invariant_witness:
  "alarms_wf (snd (run_calls alarm_exec [Raise None 0 ALARM_SEVERITY_LOW ''a'' 0 1 1, Acknowledge 1 ''op'' 2] fresh_alarms))"
  by (rule alarm_manager_keeps_invariant [OF fresh_alarms_init])

theorem alarm_raised_after_delay_witness:
  "\<exists>n. rule_alarm (at_time 1500) pump_rule 0 n \<in> set (am_active_alarms (snd (alarm_exec (Pass (at_time 1500)) pump_alarms)))"
proof -
  have "snd (rule_reading (at_time 1500) 0 pump_rule pump_alarms) = None"
    by (simp add: rule_reading_def no_reading pump_alarms_fields)
  from alarm_raised_after_delay [OF pump_alarms_wf _ _ _ _ _ this]
  have "\<exists>n. rule_alarm (at_time 1500) pump_rule (ae_wild (at_time 1500) 0) n \<in>
      set (am_active_alarms (snd (alarm_exec (Pass (at_time 1500)) pump_alarms)))"
    by (simp add: pump_alarms_fields pump_rule_def new_rule_def rule_condition_met_def is_suppressed_unlocked_def at_time_def
        MAX_ACTIVE_ALARMS_def del: alarm_exec.simps)
  then show ?thesis by (simp add: at_time_def)
qed

text \<open>The alarm of the rule has been cleared and waits for its acknowledgement; the sensor cannot be read again.\<close>

definition waiting_alarm :: alarm where
  "waiting_alarm = zero_alarm\<lparr>al_alarm_id := 1, al_rule_id := 1, al_state := ALARM_STATE_CLEARED_UNACK\<rparr>"

definition waiting_alarms :: alarm_manager where
  "waiting_alarms = pump_alarms\<lparr>am_active_alarms := [waiting_alarm], am_next_alarm_id := 2\<rparr>"

lemma waiting_alarms_wf: "alarms_wf waiting_alarms"
  using pump_alarms_wf
  by (simp add: alarms_wf_def waiting_alarms_def rules_ok_def times_ok_def hist_wf_def active_ok_def waiting_alarm_def zero_alarm_def
      MAX_ACTIVE_ALARMS_def pump_alarms_fields)

theorem cleared_alarm_not_raised_again_witness:
  "rule_condition_met pump_rule (snd (rule_reading (at_time 9000) 0 pump_rule waiting_alarms)) \<and>
   {a' \<in> set (am_active_alarms (snd (alarm_exec (Pass (at_time 9000)) waiting_alarms))). al_rule_id a' = 1} = {waiting_alarm}"
proof -
  have "rule_condition_met pump_rule (snd (rule_reading (at_time 9000) 0 pump_rule waiting_alarms))"
    by (simp add: rule_reading_def no_reading waiting_alarms_def pump_alarms_fields rule_condition_met_def pump_rule_def new_rule_def)
  moreover have "{a' \<in> set (am_active_alarms (snd (alarm_exec (Pass (at_time 9000)) waiting_alarms))).
      al_rule_id a' = al_rule_id waiting_alarm} = {waiting_alarm}"
    by (rule cleared_alarm_not_raised_again [OF waiting_alarms_wf, of 0])
      (simp_all add: waiting_alarms_def pump_alarms_fields waiting_alarm_def pump_rule_def new_rule_def)
  ultimately show ?thesis by (simp add: waiting_alarm_def zero_alarm_def del: alarm_exec.simps)
qed

theorem alarm_needs_acknowledgement_witness:
  "\<exists>a' \<in> set (am_active_alarms (snd (run_calls alarm_exec [Pass (at_time 9000), Delete_Rule 1, Unshelve 1, Pass (at_time 9100)]
      waiting_alarms))). al_alarm_id a' = 1 \<and> unacked a'"
  using alarm_needs_acknowledgement [of waiting_alarm waiting_alarms
      "[Pass (at_time 9000), Delete_Rule 1, Unshelve 1, Pass (at_time 9100)]"]
  by (simp add: waiting_alarms_def waiting_alarm_def zero_alarm_def del: alarm_exec.simps run_calls.simps)

definition four_alarms :: "alarm_call list" where
  "four_alarms = map (\<lambda>i. Raise None 0 ALARM_SEVERITY_LOW ''a'' 0 (of_nat i) 1) [1, 2, 3, 4]"

theorem history_records_events_witness:
  "map al_raise_time_ms (hist_contents (snd (run_calls alarm_exec four_alarms fresh_alarms))) = [2, 3, 4]"
proof -
  have wf: "hist_wf fresh_alarms" using alarms_init_wf [OF fresh_alarms_init] by (simp add: alarms_wf_def)
  have "hist_contents fresh_alarms = []" by (simp add: hist_contents_def fresh_alarms_fields)
  then show ?thesis
    using history_records_events [OF wf refl refl, of 3 four_alarms]
    by (simp add: four_alarms_def heard_def alarm_manager_raise_alarm_def Let_def fresh_alarms_fields MAX_ACTIVE_ALARMS_def
        with_defaults_def small_config_def)
qed

end
