(* ===== verification/AlarmRules.thy ===== *)
theory AlarmRules
  imports Alarms
begin

text \<open>
  The alarm rules engine (\<^verbatim>\<open>src/src/alarms/alarm_rules.c\<close>): a table of rules with their timing state, evaluated
  against single values. It is separate from the alarm manager, shares the rule structure with it,
  and compares strictly where the manager does not.
\<close>

section \<open>The table of rules\<close>

record rule_state =
  rs_rule :: alarm_rule
  rs_condition_start_ms :: u64
  rs_last_value :: f32
  rs_in_alarm :: bool

record alarm_rules_engine =
  re_rules :: "rule_state list"
  re_max_rules :: int

abbreviation has_id :: "int \<Rightarrow> rule_state \<Rightarrow> bool" where
  "has_id i s \<equiv> ru_rule_id (rs_rule s) = i"

definition alarm_rules_init :: "bool \<Rightarrow> int \<Rightarrow> bool \<Rightarrow> bool \<Rightarrow> wtc_result \<times> alarm_rules_engine option" where
  "alarm_rules_init out_ok max_rules mem mem_rules =
     (if \<not> out_ok \<or> max_rules \<le> 0 then (WTC_ERROR_INVALID_PARAM, None)
      else if \<not> mem \<or> \<not> mem_rules then (WTC_ERROR_NO_MEMORY, None)
      else (WTC_OK, Some \<lparr>re_rules = [], re_max_rules = max_rules\<rparr>))"

definition new_state :: "alarm_rule \<Rightarrow> rule_state" where
  "new_state r = \<lparr>rs_rule = r, rs_condition_start_ms = 0, rs_last_value = 0, rs_in_alarm = False\<rparr>"

definition alarm_rules_add :: "alarm_rules_engine option \<Rightarrow> alarm_rule option \<Rightarrow> wtc_result \<times> alarm_rules_engine option" where
  "alarm_rules_add engine rule =
     on_handle WTC_ERROR_INVALID_PARAM (\<lambda>e.
       case rule of
         None \<Rightarrow> (WTC_ERROR_INVALID_PARAM, e)
       | Some r \<Rightarrow>
           (case update_first (has_id (ru_rule_id r)) (\<lambda>s. s\<lparr>rs_rule := r\<rparr>) (re_rules e) of
              Some ss \<Rightarrow> (WTC_OK, e\<lparr>re_rules := ss\<rparr>)
            | None \<Rightarrow>
                if re_max_rules e \<le> int (length (re_rules e)) then (WTC_ERROR_FULL, e)
                else (WTC_OK, e\<lparr>re_rules := re_rules e @ [new_state r]\<rparr>))) engine"

definition alarm_rules_remove :: "alarm_rules_engine option \<Rightarrow> int \<Rightarrow> wtc_result \<times> alarm_rules_engine option" where
  "alarm_rules_remove engine rule_id =
     on_handle WTC_ERROR_INVALID_PARAM (\<lambda>e.
       case remove_first (has_id rule_id) (re_rules e) of
         None \<Rightarrow> (WTC_ERROR_NOT_FOUND, e)
       | Some ss \<Rightarrow> (WTC_OK, e\<lparr>re_rules := ss\<rparr>)) engine"

definition alarm_rules_get :: "alarm_rules_engine option \<Rightarrow> int \<Rightarrow> bool \<Rightarrow> wtc_result \<times> alarm_rule option" where
  "alarm_rules_get engine rule_id rule_ok =
     with_handle (WTC_ERROR_INVALID_PARAM, None) (\<lambda>e.
       if \<not> rule_ok then (WTC_ERROR_INVALID_PARAM, None)
       else (case List.find (has_id rule_id) (re_rules e) of
               None \<Rightarrow> (WTC_ERROR_NOT_FOUND, None)
             | Some s \<Rightarrow> (WTC_OK, Some (rs_rule s)))) engine"

definition alarm_rules_enable :: "alarm_rules_engine option \<Rightarrow> int \<Rightarrow> bool \<Rightarrow> wtc_result \<times> alarm_rules_engine option" where
  "alarm_rules_enable engine rule_id enabled =
     on_handle WTC_ERROR_INVALID_PARAM (\<lambda>e.
       case update_first (has_id rule_id) (\<lambda>s. s\<lparr>rs_rule := (rs_rule s)\<lparr>ru_enabled := enabled\<rparr>\<rparr>) (re_rules e) of
         None \<Rightarrow> (WTC_ERROR_NOT_FOUND, e)
       | Some ss \<Rightarrow> (WTC_OK, e\<lparr>re_rules := ss\<rparr>)) engine"

section \<open>Evaluation\<close>

fun alarm_rules_check_condition :: "alarm_condition \<Rightarrow> f32 \<Rightarrow> f32 \<Rightarrow> f32 \<Rightarrow> bool" where
  "alarm_rules_check_condition ALARM_CONDITION_HIGH v th last_v = f_lt th v"
| "alarm_rules_check_condition ALARM_CONDITION_LOW v th last_v = f_lt v th"
| "alarm_rules_check_condition ALARM_CONDITION_HIGH_HIGH v th last_v = f_lt th v"
| "alarm_rules_check_condition ALARM_CONDITION_LOW_LOW v th last_v = f_lt v th"
| "alarm_rules_check_condition ALARM_CONDITION_RATE_OF_CHANGE v th last_v = f_lt th (f_abs (f_sub v last_v))"
| "alarm_rules_check_condition ALARM_CONDITION_DEVIATION v th last_v =
     f_lt (f_mul th (f_lit 1 10)) (f_abs (f_sub v th))"
| "alarm_rules_check_condition ALARM_CONDITION_BAD_QUALITY v th last_v = False"

definition evaluate_rule :: "f32 \<Rightarrow> u64 \<Rightarrow> rule_state \<Rightarrow> bool \<times> rule_state" where
  "evaluate_rule value timestamp_ms s =
     (let r = rs_rule s in
      if \<not> ru_enabled r then (False, s\<lparr>rs_condition_start_ms := 0, rs_in_alarm := False\<rparr>)
      else
        (let met = alarm_rules_check_condition (ru_condition r) value (ru_threshold r) (rs_last_value s);
             s = s\<lparr>rs_last_value := value\<rparr>
         in
         if met then
           (let s = (if rs_condition_start_ms s = 0 then s\<lparr>rs_condition_start_ms := timestamp_ms\<rparr> else s) in
            if ucast (ru_delay_ms r) \<le> timestamp_ms - rs_condition_start_ms s \<and> \<not> rs_in_alarm s
            then (True, s\<lparr>rs_in_alarm := True\<rparr>) else (False, s))
         else (False, s\<lparr>rs_condition_start_ms := 0, rs_in_alarm := False\<rparr>)))"

definition alarm_rules_evaluate ::
  "alarm_rules_engine option \<Rightarrow> int \<Rightarrow> f32 \<Rightarrow> u64 \<Rightarrow> bool \<Rightarrow> (wtc_result \<times> bool option) \<times> alarm_rules_engine option" where
  "alarm_rules_evaluate engine rule_id value timestamp_ms triggered_ok =
     on_handle (WTC_ERROR_INVALID_PARAM, None) (\<lambda>e.
       if \<not> triggered_ok then ((WTC_ERROR_INVALID_PARAM, None), e)
       else (case List.find (has_id rule_id) (re_rules e) of
               None \<Rightarrow> ((WTC_ERROR_NOT_FOUND, Some False), e)
             | Some s \<Rightarrow>
                 ((WTC_OK, Some (fst (evaluate_rule value timestamp_ms s))),
                  e\<lparr>re_rules := the (update_first (has_id rule_id) (\<lambda>s. snd (evaluate_rule value timestamp_ms s)) (re_rules e))\<rparr>))) engine"

text \<open>One iteration of the loop over the rules of a station and slot; the result is the list of ids stored.\<close>

definition evaluate_point_at :: "string \<Rightarrow> int \<Rightarrow> f32 \<Rightarrow> u64 \<Rightarrow> nat \<Rightarrow> alarm_rules_engine \<Rightarrow> int list \<times> alarm_rules_engine" where
  "evaluate_point_at rtu_station slot value timestamp_ms i e =
     (let r = rs_rule (re_rules e ! i) in
      if ru_rtu_station r \<noteq> rtu_station \<or> ru_slot r \<noteq> slot then ([], e)
      else
        (let ((result, triggered), e') = alarm_rules_evaluate (Some e) (ru_rule_id r) value timestamp_ms True in
         (if result = WTC_OK \<and> triggered = Some True then [ru_rule_id r] else [], the e')))"

text \<open>The array of ids has room for \<open>max_triggered\<close>; further ids are dropped.\<close>

definition alarm_rules_evaluate_point ::
  "alarm_rules_engine option \<Rightarrow> string option \<Rightarrow> int \<Rightarrow> f32 \<Rightarrow> u64 \<Rightarrow> bool \<Rightarrow> bool \<Rightarrow> int \<Rightarrow>
    (wtc_result \<times> int list option) \<times> alarm_rules_engine option" where
  "alarm_rules_evaluate_point engine rtu_station slot value timestamp_ms ids_ok count_ok max_triggered =
     on_handle (WTC_ERROR_INVALID_PARAM, None) (\<lambda>e.
       case rtu_station of
         None \<Rightarrow> ((WTC_ERROR_INVALID_PARAM, None), e)
       | Some st \<Rightarrow>
           if \<not> ids_ok \<or> \<not> count_ok then ((WTC_ERROR_INVALID_PARAM, None), e)
           else
             (let (ids, e) = for_each (evaluate_point_at st slot value timestamp_ms) [0..<length (re_rules e)] e in
              ((WTC_OK, Some (take (nat max_triggered) ids)), e))) engine"

definition alarm_rules_list ::
  "alarm_rules_engine option \<Rightarrow> bool \<Rightarrow> bool \<Rightarrow> int \<Rightarrow> bool \<Rightarrow> wtc_result \<times> alarm_rule list option \<times> int option" where
  "alarm_rules_list engine out_ok count_ok max_count mem =
     with_handle (WTC_ERROR_INVALID_PARAM, None, None) (\<lambda>e.
       if \<not> out_ok \<or> \<not> count_ok then (WTC_ERROR_INVALID_PARAM, None, None)
       else
         (let copy_count = min (int (length (re_rules e))) max_count in
          if copy_count < 0 \<or> \<not> mem then (WTC_ERROR_NO_MEMORY, None, None)
          else (WTC_OK, Some (map rs_rule (take (nat copy_count) (re_rules e))), Some copy_count))) engine"

definition alarm_rules_count :: "alarm_rules_engine option \<Rightarrow> int" where
  "alarm_rules_count = with_handle 0 (\<lambda>e. int (length (re_rules e)))"

section \<open>When a rule triggers\<close>

text \<open>A run of evaluations of one rule, and the condition at evaluation \<open>j\<close>.\<close>

primrec evaluate_all :: "(f32 \<times> u64) list \<Rightarrow> rule_state \<Rightarrow> bool list \<times> rule_state" where
  "evaluate_all [] s = ([], s)"
| "evaluate_all (x # xs) s =
     (let (b, s') = evaluate_rule (fst x) (snd x) s; (bs, s'') = evaluate_all xs s' in (b # bs, s''))"

definition met_at :: "alarm_rule \<Rightarrow> (f32 \<times> u64) list \<Rightarrow> nat \<Rightarrow> bool" where
  "met_at r es j = alarm_rules_check_condition (ru_condition r) (fst (es ! j)) (ru_threshold r)
     (if j = 0 then 0 else fst (es ! (j - 1)))"

text \<open>The condition has held at every evaluation from \<open>i\<close> to \<open>n\<close>, and not just before \<open>i\<close>.\<close>

definition excursion :: "alarm_rule \<Rightarrow> (f32 \<times> u64) list \<Rightarrow> nat \<Rightarrow> nat \<Rightarrow> bool" where
  "excursion r es i n \<longleftrightarrow> i \<le> n \<and> (\<forall>j. i \<le> j \<and> j \<le> n \<longrightarrow> met_at r es j) \<and> (i = 0 \<or> \<not> met_at r es (i - 1))"

definition delay_over :: "alarm_rule \<Rightarrow> (f32 \<times> u64) list \<Rightarrow> nat \<Rightarrow> nat \<Rightarrow> bool" where
  "delay_over r es i j \<longleftrightarrow> ucast (ru_delay_ms r) \<le> snd (es ! j) - snd (es ! i)"

lemma evaluate_all_snoc:
  "evaluate_all (xs @ [x]) s = (let (bs, t) = evaluate_all xs s; (b, u) = evaluate_rule (fst x) (snd x) t in (bs @ [b], u))"
  by (induction xs arbitrary: s) (simp_all add: split_beta Let_def)

lemma length_evaluate_all: "length (fst (evaluate_all es s)) = length es"
  by (induction es arbitrary: s) (simp_all add: split_beta Let_def)

lemma met_at_prefix [simp]: "j < length xs \<Longrightarrow> met_at r (xs @ [x]) j = met_at r xs j"
  by (cases j) (simp_all add: met_at_def nth_append)

lemma excursion_prefix: "n < length xs \<Longrightarrow> excursion r (xs @ [x]) i n = excursion r xs i n"
  by (auto simp: excursion_def)

lemma excursion_start_unique:
  assumes "excursion r es i n" and "excursion r es i' n"
  shows "i = i'"
proof -
  have "\<not> i < i'" if "excursion r es i n" "excursion r es i' n" for i i'
  proof
    assume "i < i'"
    then have "i \<le> i' - 1" "i' - 1 \<le> n" "i' \<noteq> 0" using that by (auto simp: excursion_def)
    with that show False by (auto simp: excursion_def)
  qed
  from this [OF assms] this [OF assms(2, 1)] show ?thesis by simp
qed

lemma excursion_snoc:
  assumes "met_at r es (Suc n)"
  shows "excursion r es i (Suc n) \<longleftrightarrow> excursion r es i n \<or> i = Suc n \<and> \<not> met_at r es n"
  using assms by (auto simp: excursion_def le_Suc_eq)

text \<open>The timing state after a run: inside an excursion it holds its start, and whether the delay was over at one
  of its evaluations.\<close>

lemma evaluate_all_state:
  assumes "ru_enabled r" and "\<forall>e \<in> set es. snd e \<noteq> 0" and "s = snd (evaluate_all es (new_state r))"
  shows "rs_rule s = r \<and> rs_last_value s = (if es = [] then 0 else fst (last es)) \<and>
    (if es \<noteq> [] \<and> met_at r es (length es - 1)
     then \<exists>i. excursion r es i (length es - 1) \<and> rs_condition_start_ms s = snd (es ! i) \<and>
       (rs_in_alarm s \<longleftrightarrow> (\<exists>j < length es. i \<le> j \<and> delay_over r es i j))
     else rs_condition_start_ms s = 0 \<and> \<not> rs_in_alarm s)"
  using assms(2, 3)
proof (induction es arbitrary: s rule: rev_induct)
  case Nil
  then show ?case by (simp add: new_state_def)
next
  case (snoc x xs)
  let ?t = "snd (evaluate_all xs (new_state r))"
  let ?es = "xs @ [x]"
  have s: "s = snd (evaluate_rule (fst x) (snd x) ?t)" using snoc.prems(2) by (simp add: evaluate_all_snoc split_beta Let_def)
  have IH: "rs_rule ?t = r" "rs_last_value ?t = (if xs = [] then 0 else fst (last xs))"
    "if xs \<noteq> [] \<and> met_at r xs (length xs - 1)
     then \<exists>i. excursion r xs i (length xs - 1) \<and> rs_condition_start_ms ?t = snd (xs ! i) \<and>
       (rs_in_alarm ?t \<longleftrightarrow> (\<exists>j < length xs. i \<le> j \<and> delay_over r xs i j))
     else rs_condition_start_ms ?t = 0 \<and> \<not> rs_in_alarm ?t"
    using snoc.IH [OF _ refl] snoc.prems(1) by auto
  have met: "alarm_rules_check_condition (ru_condition r) (fst x) (ru_threshold r) (rs_last_value ?t) = met_at r ?es (length xs)"
    by (simp add: met_at_def IH(2) nth_append last_conv_nth)
  show ?case
  proof (cases "met_at r ?es (length xs)")
    case False
    then show ?thesis using s met IH(1) assms(1) by (simp add: evaluate_rule_def Let_def)
  next
    case True
    show ?thesis
    proof (cases "xs \<noteq> [] \<and> met_at r xs (length xs - 1)")
      case new: False
      have "excursion r ?es (length xs) (length xs)"
        using True new by (cases "xs = []") (auto simp: excursion_def)
      moreover have "\<exists>j < length ?es. length xs \<le> j \<and> delay_over r ?es (length xs) j \<longleftrightarrow> delay_over r ?es (length xs) (length xs)"
        by auto
      ultimately show ?thesis using True new s met IH assms(1) snoc.prems(1)
        by (intro conjI) (auto simp: evaluate_rule_def Let_def delay_over_def less_Suc_eq intro!: exI [of _ "length xs"])
    next
      case old: True
      then obtain i where i: "excursion r xs i (length xs - 1)" "rs_condition_start_ms ?t = snd (xs ! i)"
        "rs_in_alarm ?t \<longleftrightarrow> (\<exists>j < length xs. i \<le> j \<and> delay_over r xs i j)" using IH(3) by auto
      have il: "i < length xs" using i(1) old by (cases xs) (auto simp: excursion_def)
      have nz: "rs_condition_start_ms ?t \<noteq> 0" using i(2) il snoc.prems(1) by simp
      have "excursion r ?es i (length xs)"
        using excursion_snoc [of r ?es "length xs - 1" i] excursion_prefix [of "length xs - 1" xs r x i] i(1) True old by simp
      moreover have "delay_over r ?es i j = delay_over r xs i j" if "j < length xs" for j
        using that il by (simp add: delay_over_def nth_append)
      moreover have "delay_over r ?es i (length xs) \<longleftrightarrow> ucast (ru_delay_ms r) \<le> snd x - rs_condition_start_ms ?t"
        using il by (simp add: delay_over_def nth_append i(2))
      moreover have "rs_rule s = r" "rs_last_value s = fst x" "rs_condition_start_ms s = snd (xs ! i)"
        "rs_in_alarm s \<longleftrightarrow> rs_in_alarm ?t \<or> ucast (ru_delay_ms r) \<le> snd x - rs_condition_start_ms ?t"
        using True s met IH(1) assms(1) nz i(2) by (simp_all add: evaluate_rule_def Let_def) blast
      ultimately have "excursion r ?es i (length xs) \<and> rs_condition_start_ms s = snd (?es ! i) \<and>
        (rs_in_alarm s \<longleftrightarrow> (\<exists>j < length ?es. i \<le> j \<and> delay_over r ?es i j))"
        using i(3) il by (auto simp: nth_append less_Suc_eq)
      with True \<open>rs_rule s = r\<close> \<open>rs_last_value s = fst x\<close> show ?thesis by auto
    qed
  qed
qed

text \<open>The report of the last evaluation of a run, by whether it begins or continues an excursion.\<close>

abbreviation triggers_at :: "alarm_rule \<Rightarrow> (f32 \<times> u64) list \<Rightarrow> nat \<Rightarrow> bool" where
  "triggers_at r es n \<equiv> \<exists>i. excursion r es i n \<and> delay_over r es i n \<and> (\<forall>j. i \<le> j \<and> j < n \<longrightarrow> \<not> delay_over r es i j)"

lemma triggers_at_start:
  assumes "excursion r es i n"
  shows "triggers_at r es n \<longleftrightarrow> delay_over r es i n \<and> (\<forall>j. i \<le> j \<and> j < n \<longrightarrow> \<not> delay_over r es i j)"
  using assms excursion_start_unique [OF assms] by blast

lemma last_trigger:
  assumes "ru_enabled r" and "\<forall>e \<in> set xs. snd e \<noteq> 0"
  shows "fst (evaluate_rule (fst x) (snd x) (snd (evaluate_all xs (new_state r)))) \<longleftrightarrow> triggers_at r (xs @ [x]) (length xs)"
    (is "fst (evaluate_rule _ _ ?t) \<longleftrightarrow> triggers_at r ?es ?n")
proof -
  note st = evaluate_all_state [OF assms refl]
  have t: "rs_rule ?t = r" "rs_last_value ?t = (if xs = [] then 0 else fst (last xs))" using st by auto
  have met: "alarm_rules_check_condition (ru_condition r) (fst x) (ru_threshold r) (rs_last_value ?t) = met_at r ?es ?n"
    by (simp add: met_at_def t(2) nth_append last_conv_nth)
  consider (no) "\<not> met_at r ?es ?n" | (new) "met_at r ?es ?n" "\<not> (xs \<noteq> [] \<and> met_at r xs (?n - 1))"
    | (old) "met_at r ?es ?n" "xs \<noteq> [] \<and> met_at r xs (?n - 1)" by blast
  then show ?thesis
  proof cases
    case no
    then have "\<not> excursion r ?es i ?n" for i by (auto simp: excursion_def)
    then show ?thesis using no met t(1) assms(1) by (simp add: evaluate_rule_def Let_def)
  next
    case new
    then have start: "rs_condition_start_ms ?t = 0" "\<not> rs_in_alarm ?t" using st by (auto split: if_splits)
    have "excursion r ?es ?n ?n" using new by (cases "xs = []") (auto simp: excursion_def)
    from triggers_at_start [OF this] show ?thesis using new(1) met t(1) assms(1) start
      by (simp add: evaluate_rule_def Let_def delay_over_def)
  next
    case old
    then obtain i where i: "excursion r xs i (?n - 1)" "rs_condition_start_ms ?t = snd (xs ! i)"
      "rs_in_alarm ?t \<longleftrightarrow> (\<exists>j < ?n. i \<le> j \<and> delay_over r xs i j)" using st by auto
    have il: "i < ?n" using i(1) old by (cases xs) (auto simp: excursion_def)
    have nz: "rs_condition_start_ms ?t \<noteq> 0" using i(2) il assms(2) by simp
    have ex: "excursion r ?es i ?n"
      using excursion_snoc [of r ?es "?n - 1" i] excursion_prefix [of "?n - 1" xs r x i] i(1) old by simp
    have "delay_over r ?es i j = delay_over r xs i j" if "j < ?n" for j using that il by (simp add: delay_over_def nth_append)
    moreover have "delay_over r ?es i ?n \<longleftrightarrow> ucast (ru_delay_ms r) \<le> snd x - rs_condition_start_ms ?t"
      using il by (simp add: delay_over_def nth_append i(2))
    moreover have "fst (evaluate_rule (fst x) (snd x) ?t) \<longleftrightarrow>
        ucast (ru_delay_ms r) \<le> snd x - rs_condition_start_ms ?t \<and> \<not> rs_in_alarm ?t"
      using old(1) met t(1) assms(1) nz by (simp add: evaluate_rule_def Let_def)
    ultimately show ?thesis unfolding triggers_at_start [OF ex] i(3) by auto
  qed
qed

text \<open>\<^bold>\<open>C39.\<close> A rule triggers once per excursion and exactly when its delay is over: in a run of evaluations of a new,
  enabled rule with timestamps other than 0, the evaluation \<open>n\<close> reports a trigger if and only if the
  condition has held without interruption since some evaluation \<open>i\<close>, at least the delay of the rule
  has passed since then, and it had not passed at any earlier evaluation of the excursion.\<close>

theorem rule_triggers_once_after_delay:
  assumes "ru_enabled r" and "\<forall>e \<in> set es. snd e \<noteq> 0" and "n < length es"
  shows "fst (evaluate_all es (new_state r)) ! n \<longleftrightarrow>
    (\<exists>i. excursion r es i n \<and> delay_over r es i n \<and> (\<forall>j. i \<le> j \<and> j < n \<longrightarrow> \<not> delay_over r es i j))"
  using assms(2, 3)
proof (induction es rule: rev_induct)
  case (snoc x xs)
  show ?case
  proof (cases "n < length xs")
    case True
    then have "delay_over r (xs @ [x]) i j = delay_over r xs i j" if "i \<le> j" "j \<le> n" for i j
      using that by (simp add: delay_over_def nth_append)
    then have "triggers_at r (xs @ [x]) n \<longleftrightarrow> triggers_at r xs n"
      unfolding excursion_prefix [OF True] by (metis excursion_def less_imp_le order_refl)
    with True snoc show ?thesis by (simp add: evaluate_all_snoc split_beta Let_def nth_append length_evaluate_all)
  next
    case False
    with snoc.prems last_trigger [OF assms(1), of xs x] show ?thesis
      by (simp add: evaluate_all_snoc split_beta Let_def nth_append length_evaluate_all not_less_less_Suc_eq)
  qed
qed simp

text \<open>A high alarm above 10 with a delay of 100 ms: the excursion begins at the second evaluation and triggers at the
  fourth.\<close>

definition high_rule :: alarm_rule where
  "high_rule = new_rule 1 ''tank'' 0 ALARM_CONDITION_HIGH 0x41200000 ALARM_SEVERITY_HIGH 100 None"

definition high_run :: "(f32 \<times> u64) list" where
  "high_run = [(0x40A00000, 1000), (0x41300000, 1100), (0x41400000, 1150), (0x41400000, 1200), (0x41400000, 1300)]"

theorem rule_triggers_once_after_delay_witness:
  "\<exists>i. excursion high_rule high_run i 3 \<and> delay_over high_rule high_run i 3 \<and>
    (\<forall>j. i \<le> j \<and> j < 3 \<longrightarrow> \<not> delay_over high_rule high_run i j)"
proof -
  have "ru_enabled high_rule" "\<forall>e \<in> set high_run. snd e \<noteq> 0" "3 < length high_run"
    by (simp_all add: high_rule_def new_rule_def high_run_def)
  note trigger = rule_triggers_once_after_delay [OF this]
  have "fst (evaluate_all high_run (new_state high_rule)) ! 3"
    by (simp add: high_run_def high_rule_def new_rule_def new_state_def evaluate_rule_def f_lt_def f_int_def f32_eval)
  with trigger show ?thesis by blast
qed

end
