(* ===== verification/ModbusPdu.thy ===== *)
theory ModbusPdu
  imports Crc Float32
begin

text \<open>
  \<^verbatim>\<open>src/src/modbus/modbus_common.c\<close> and the framing of \<^verbatim>\<open>modbus_tcp.c\<close> and \<^verbatim>\<open>modbus_rtu.c\<close>: the protocol
  data unit (PDU), its builders and parsers, and the byte frames in which the two transports carry
  it. The checksum of the serial frames is in theory \<open>Crc\<close>.

  The builders and the framing are shown to stay within their arrays, and a receiver to recover
  exactly the frame that was sent, leaving the stream at the next frame.
\<close>

section \<open>Constants and structures\<close>

definition MODBUS_TCP_HEADER_LEN :: nat where "MODBUS_TCP_HEADER_LEN = 7"
definition MODBUS_RTU_MAX_ADU_LEN :: nat where "MODBUS_RTU_MAX_ADU_LEN = 256"
definition MODBUS_TCP_MAX_ADU_LEN :: nat where "MODBUS_TCP_MAX_ADU_LEN = 260"
definition MODBUS_MAX_PDU_LEN :: nat where "MODBUS_MAX_PDU_LEN = 253"
definition MODBUS_MAX_READ_REGISTERS :: u16 where "MODBUS_MAX_READ_REGISTERS = 125"
definition MODBUS_MAX_WRITE_REGISTERS :: u16 where "MODBUS_MAX_WRITE_REGISTERS = 123"
definition MODBUS_MAX_READ_BITS :: u16 where "MODBUS_MAX_READ_BITS = 2000"
definition MODBUS_MAX_WRITE_BITS :: u16 where "MODBUS_MAX_WRITE_BITS = 1968"

lemmas modbus_limits = MODBUS_TCP_HEADER_LEN_def MODBUS_RTU_MAX_ADU_LEN_def MODBUS_TCP_MAX_ADU_LEN_def
  MODBUS_MAX_PDU_LEN_def MODBUS_MAX_READ_REGISTERS_def MODBUS_MAX_WRITE_REGISTERS_def
  MODBUS_MAX_READ_BITS_def MODBUS_MAX_WRITE_BITS_def

text \<open>Function and exception codes are bytes of the wire: any value can arrive.\<close>

definition MODBUS_FC_READ_COILS :: u8 where "MODBUS_FC_READ_COILS = 0x01"
definition MODBUS_FC_READ_DISCRETE_INPUTS :: u8 where "MODBUS_FC_READ_DISCRETE_INPUTS = 0x02"
definition MODBUS_FC_READ_HOLDING_REGISTERS :: u8 where "MODBUS_FC_READ_HOLDING_REGISTERS = 0x03"
definition MODBUS_FC_READ_INPUT_REGISTERS :: u8 where "MODBUS_FC_READ_INPUT_REGISTERS = 0x04"
definition MODBUS_FC_WRITE_SINGLE_COIL :: u8 where "MODBUS_FC_WRITE_SINGLE_COIL = 0x05"
definition MODBUS_FC_WRITE_SINGLE_REGISTER :: u8 where "MODBUS_FC_WRITE_SINGLE_REGISTER = 0x06"
definition MODBUS_FC_WRITE_MULTIPLE_COILS :: u8 where "MODBUS_FC_WRITE_MULTIPLE_COILS = 0x0F"
definition MODBUS_FC_WRITE_MULTIPLE_REGISTERS :: u8 where "MODBUS_FC_WRITE_MULTIPLE_REGISTERS = 0x10"
definition MODBUS_FC_READ_WRITE_REGISTERS :: u8 where "MODBUS_FC_READ_WRITE_REGISTERS = 0x17"

lemmas function_codes = MODBUS_FC_READ_COILS_def MODBUS_FC_READ_DISCRETE_INPUTS_def
  MODBUS_FC_READ_HOLDING_REGISTERS_def MODBUS_FC_READ_INPUT_REGISTERS_def MODBUS_FC_WRITE_SINGLE_COIL_def
  MODBUS_FC_WRITE_SINGLE_REGISTER_def MODBUS_FC_WRITE_MULTIPLE_COILS_def
  MODBUS_FC_WRITE_MULTIPLE_REGISTERS_def MODBUS_FC_READ_WRITE_REGISTERS_def

definition MODBUS_EX_NONE :: u8 where "MODBUS_EX_NONE = 0x00"
definition MODBUS_EX_ILLEGAL_FUNCTION :: u8 where "MODBUS_EX_ILLEGAL_FUNCTION = 0x01"
definition MODBUS_EX_ILLEGAL_DATA_ADDRESS :: u8 where "MODBUS_EX_ILLEGAL_DATA_ADDRESS = 0x02"
definition MODBUS_EX_ILLEGAL_DATA_VALUE :: u8 where "MODBUS_EX_ILLEGAL_DATA_VALUE = 0x03"
definition MODBUS_EX_SLAVE_DEVICE_FAILURE :: u8 where "MODBUS_EX_SLAVE_DEVICE_FAILURE = 0x04"

lemmas exception_codes = MODBUS_EX_NONE_def MODBUS_EX_ILLEGAL_FUNCTION_def
  MODBUS_EX_ILLEGAL_DATA_ADDRESS_def MODBUS_EX_ILLEGAL_DATA_VALUE_def MODBUS_EX_SLAVE_DEVICE_FAILURE_def

text \<open>The data array of a PDU has 252 bytes; \<open>pdu_data_len\<close> says how many are in use.\<close>

record modbus_pdu =
  pdu_function_code :: u8
  pdu_data :: "u8 list"
  pdu_data_len :: u16

definition pdu_wf :: "modbus_pdu \<Rightarrow> bool" where
  "pdu_wf p \<longleftrightarrow> length (pdu_data p) = MODBUS_MAX_PDU_LEN - 1 \<and> unat (pdu_data_len p) \<le> MODBUS_MAX_PDU_LEN - 1"

definition zero_pdu :: modbus_pdu where
  "zero_pdu = \<lparr>pdu_function_code = 0, pdu_data = replicate (MODBUS_MAX_PDU_LEN - 1) 0, pdu_data_len = 0\<rparr>"

record modbus_stats =
  ms_requests_sent :: u64
  ms_requests_received :: u64
  ms_responses_sent :: u64
  ms_responses_received :: u64
  ms_exceptions :: u64
  ms_timeouts :: u64
  ms_crc_errors :: u64
  ms_bytes_sent :: u64
  ms_bytes_received :: u64

definition zero_stats :: modbus_stats where
  "zero_stats = \<lparr>ms_requests_sent = 0, ms_requests_received = 0, ms_responses_sent = 0, ms_responses_received = 0,
     ms_exceptions = 0, ms_timeouts = 0, ms_crc_errors = 0, ms_bytes_sent = 0, ms_bytes_received = 0\<rparr>"

section \<open>Byte order\<close>

text \<open>The get functions receive the array from the pointer on; the set functions store at a position.\<close>

definition modbus_get_uint16_be :: "u8 list \<Rightarrow> u16" where
  "modbus_get_uint16_be data = of_be16 (data ! 0) (data ! 1)"

definition modbus_set_uint16_be :: "nat \<Rightarrow> u16 \<Rightarrow> u8 list \<Rightarrow> u8 list" where
  "modbus_set_uint16_be pos value data =
     data[pos := ucast (drop_bit 8 value AND 0xFF), pos + 1 := ucast (value AND 0xFF)]"

definition modbus_get_uint32_be :: "u8 list \<Rightarrow> u32" where
  "modbus_get_uint32_be data = of_be32 (data ! 0) (data ! 1) (data ! 2) (data ! 3)"

definition modbus_set_uint32_be :: "nat \<Rightarrow> u32 \<Rightarrow> u8 list \<Rightarrow> u8 list" where
  "modbus_set_uint32_be pos value data =
     data[pos := ucast (drop_bit 24 value AND 0xFF), pos + 1 := ucast (drop_bit 16 value AND 0xFF),
          pos + 2 := ucast (drop_bit 8 value AND 0xFF), pos + 3 := ucast (value AND 0xFF)]"

text \<open>A float is its bit pattern, so the unions of the C code are the identity.\<close>

definition modbus_get_float32_be :: "u8 list \<Rightarrow> f32" where
  "modbus_get_float32_be data = modbus_get_uint32_be data"

definition modbus_set_float32_be :: "nat \<Rightarrow> f32 \<Rightarrow> u8 list \<Rightarrow> u8 list" where
  "modbus_set_float32_be pos value data = modbus_set_uint32_be pos value data"

section \<open>Building and parsing PDUs\<close>

definition modbus_build_read_request :: "u8 \<Rightarrow> u16 \<Rightarrow> u16 \<Rightarrow> modbus_pdu option \<Rightarrow> int \<times> modbus_pdu option" where
  "modbus_build_read_request fc start_addr quantity =
     on_handle (- 1) (\<lambda>p. (0, p\<lparr>pdu_function_code := fc,
       pdu_data := modbus_set_uint16_be 2 quantity (modbus_set_uint16_be 0 start_addr (pdu_data p)),
       pdu_data_len := 4\<rparr>))"

definition modbus_build_write_single_register :: "u16 \<Rightarrow> u16 \<Rightarrow> modbus_pdu option \<Rightarrow> int \<times> modbus_pdu option" where
  "modbus_build_write_single_register addr value =
     on_handle (- 1) (\<lambda>p. (0, p\<lparr>pdu_function_code := MODBUS_FC_WRITE_SINGLE_REGISTER,
       pdu_data := modbus_set_uint16_be 2 value (modbus_set_uint16_be 0 addr (pdu_data p)),
       pdu_data_len := 4\<rparr>))"

text \<open>The loops that store one 16-bit value after the other, from position \<open>pos\<close> on.\<close>

primrec set_registers :: "nat \<Rightarrow> u16 list \<Rightarrow> u8 list \<Rightarrow> u8 list" where
  "set_registers pos [] data = data"
| "set_registers pos (v # vs) data = set_registers (pos + 2) vs (modbus_set_uint16_be pos v data)"

definition modbus_build_write_multiple_registers ::
  "u16 \<Rightarrow> u16 \<Rightarrow> u16 list option \<Rightarrow> modbus_pdu option \<Rightarrow> int \<times> modbus_pdu option" where
  "modbus_build_write_multiple_registers start_addr quantity values =
     on_handle (- 1) (\<lambda>p. case values of
         None \<Rightarrow> (- 1, p)
       | Some vs \<Rightarrow>
           if MODBUS_MAX_WRITE_REGISTERS < quantity then (- 1, p)
           else
             (let data = modbus_set_uint16_be 2 quantity (modbus_set_uint16_be 0 start_addr (pdu_data p));
                  data = data[4 := ucast (quantity * 2)] in
              (0, p\<lparr>pdu_function_code := MODBUS_FC_WRITE_MULTIPLE_REGISTERS,
                    pdu_data := set_registers 5 (take (unat quantity) vs) data,
                    pdu_data_len := 5 + quantity * 2\<rparr>)))"

definition modbus_build_write_single_coil :: "u16 \<Rightarrow> bool \<Rightarrow> modbus_pdu option \<Rightarrow> int \<times> modbus_pdu option" where
  "modbus_build_write_single_coil addr value =
     on_handle (- 1) (\<lambda>p. (0, p\<lparr>pdu_function_code := MODBUS_FC_WRITE_SINGLE_COIL,
       pdu_data := modbus_set_uint16_be 2 (if value then 0xFF00 else 0) (modbus_set_uint16_be 0 addr (pdu_data p)),
       pdu_data_len := 4\<rparr>))"

text \<open>\<open>(quantity + 7) / 8\<close> stored in a byte; the sum is computed in \<open>int\<close>.\<close>

definition coil_bytes :: "u16 \<Rightarrow> u8" where
  "coil_bytes quantity = of_nat ((unat quantity + 7) div 8)"

definition modbus_build_write_multiple_coils ::
  "u16 \<Rightarrow> u16 \<Rightarrow> u8 list option \<Rightarrow> modbus_pdu option \<Rightarrow> int \<times> modbus_pdu option" where
  "modbus_build_write_multiple_coils start_addr quantity values =
     on_handle (- 1) (\<lambda>p. case values of
         None \<Rightarrow> (- 1, p)
       | Some vs \<Rightarrow>
           if MODBUS_MAX_WRITE_BITS < quantity then (- 1, p)
           else
             (let byte_count = coil_bytes quantity;
                  data = modbus_set_uint16_be 2 quantity (modbus_set_uint16_be 0 start_addr (pdu_data p));
                  data = data[4 := byte_count] in
              (0, p\<lparr>pdu_function_code := MODBUS_FC_WRITE_MULTIPLE_COILS,
                    pdu_data := memcpy_at data 5 (take (unat byte_count) vs),
                    pdu_data_len := 5 + ucast byte_count\<rparr>)))"

definition modbus_is_exception :: "modbus_pdu option \<Rightarrow> bool" where
  "modbus_is_exception = with_handle False (\<lambda>p. pdu_function_code p AND 0x80 \<noteq> 0)"

definition modbus_get_exception :: "modbus_pdu option \<Rightarrow> u8" where
  "modbus_get_exception =
     with_handle MODBUS_EX_NONE (\<lambda>p. if pdu_function_code p AND 0x80 = 0 then MODBUS_EX_NONE else pdu_data p ! 0)"

definition modbus_parse_read_response :: "modbus_pdu option \<Rightarrow> bool \<Rightarrow> bool \<Rightarrow> int \<times> (u8 list \<times> u16) option" where
  "modbus_parse_read_response pdu data_ok len_ok =
     with_handle (- 1, None) (\<lambda>p.
       if \<not> data_ok \<or> \<not> len_ok \<or> modbus_is_exception (Some p) then (- 1, None)
       else
         (let byte_count = pdu_data p ! 0 in
          if int (unat (pdu_data_len p)) - 1 < int (unat byte_count) then (- 1, None)
          else (0, Some (mem_read (pdu_data p) 1 (unat byte_count), ucast byte_count)))) pdu"

definition modbus_parse_write_response :: "modbus_pdu option \<Rightarrow> bool \<Rightarrow> bool \<Rightarrow> int \<times> (u16 \<times> u16) option" where
  "modbus_parse_write_response pdu addr_ok value_ok =
     with_handle (- 1, None) (\<lambda>p.
       if \<not> addr_ok \<or> \<not> value_ok \<or> modbus_is_exception (Some p) then (- 1, None)
       else (0, Some (modbus_get_uint16_be (pdu_data p), modbus_get_uint16_be (drop 2 (pdu_data p))))) pdu"

definition modbus_exception_string :: "u8 \<Rightarrow> string" where
  "modbus_exception_string ex =
     (if ex = 0x00 then ''No exception''
      else if ex = 0x01 then ''Illegal function''
      else if ex = 0x02 then ''Illegal data address''
      else if ex = 0x03 then ''Illegal data value''
      else if ex = 0x04 then ''Slave device failure''
      else if ex = 0x05 then ''Acknowledge''
      else if ex = 0x06 then ''Slave busy''
      else if ex = 0x08 then ''Memory parity error''
      else if ex = 0x0A then ''Gateway path unavailable''
      else if ex = 0x0B then ''Gateway target failed''
      else ''Unknown exception'')"

definition modbus_function_string :: "u8 \<Rightarrow> string" where
  "modbus_function_string fc =
     (let c = fc AND 0x7F in
      if c = MODBUS_FC_READ_COILS then ''Read Coils''
      else if c = MODBUS_FC_READ_DISCRETE_INPUTS then ''Read Discrete Inputs''
      else if c = MODBUS_FC_READ_HOLDING_REGISTERS then ''Read Holding Registers''
      else if c = MODBUS_FC_READ_INPUT_REGISTERS then ''Read Input Registers''
      else if c = MODBUS_FC_WRITE_SINGLE_COIL then ''Write Single Coil''
      else if c = MODBUS_FC_WRITE_SINGLE_REGISTER then ''Write Single Register''
      else if c = MODBUS_FC_WRITE_MULTIPLE_COILS then ''Write Multiple Coils''
      else if c = MODBUS_FC_WRITE_MULTIPLE_REGISTERS then ''Write Multiple Registers''
      else if c = MODBUS_FC_READ_WRITE_REGISTERS then ''Read/Write Registers''
      else ''Unknown function'')"

section \<open>Frames of the two transports\<close>

text \<open>
  What \<open>tcp_send_frame\<close> and \<open>rtu_send_frame\<close> hand to the operating system, and what the receive
  functions make of the bytes that arrive. A receiving PDU keeps the bytes of its array behind
  the data that was received. Receiving from a connection takes the header and the announced number
  of bytes from the stream (\<open>MSG_WAITALL\<close>: fewer only when the connection ends or times out) and
  returns what it leaves there; a serial frame is what arrived between two pauses.
\<close>

definition tcp_frame :: "u8 \<Rightarrow> u16 \<Rightarrow> modbus_pdu \<Rightarrow> u8 list" where
  "tcp_frame unit_id trans_id p =
     be16 trans_id @ be16 0 @ be16 (1 + 1 + pdu_data_len p) @ [unit_id, pdu_function_code p] @
     take (unat (pdu_data_len p)) (pdu_data p)"

definition tcp_recv_frame :: "modbus_pdu \<Rightarrow> u8 list \<Rightarrow> (u8 \<times> u16 \<times> modbus_pdu) option \<times> u8 list" where
  "tcp_recv_frame pdu stream =
     (let header = take MODBUS_TCP_HEADER_LEN stream; stream = drop MODBUS_TCP_HEADER_LEN stream in
      if length header \<noteq> MODBUS_TCP_HEADER_LEN then (None, stream)
      else
        (let trans_id = modbus_get_uint16_be header; protocol_id = modbus_get_uint16_be (drop 2 header);
             len = modbus_get_uint16_be (drop 4 header); unit_id = header ! 6 in
         if protocol_id \<noteq> 0 \<or> len < 2 \<or> MODBUS_MAX_PDU_LEN + 1 < unat len then (None, stream)
         else
           (let pdu_len = unat len - 1; body = take pdu_len stream; stream = drop pdu_len stream in
            if length body \<noteq> pdu_len then (None, stream)
            else (Some (unit_id, trans_id, pdu\<lparr>pdu_function_code := body ! 0, pdu_data_len := of_nat (pdu_len - 1),
                    pdu_data := memcpy_at (pdu_data pdu) 0 (drop 1 body)\<rparr>), stream))))"

definition rtu_frame :: "u8 \<Rightarrow> modbus_pdu \<Rightarrow> u8 list" where
  "rtu_frame slave_addr p =
     (let body = [slave_addr, pdu_function_code p] @ take (unat (pdu_data_len p)) (pdu_data p); crc = modbus_crc16 body in
      body @ [ucast (crc AND 0xFF), ucast (drop_bit 8 crc AND 0xFF)])"

datatype rtu_received = Rtu_Short | Rtu_Bad_Crc | Rtu_Frame u8 modbus_pdu

definition rtu_decode :: "modbus_pdu \<Rightarrow> u8 list \<Rightarrow> rtu_received" where
  "rtu_decode pdu buffer =
     (let len = length buffer in
      if len < 4 then Rtu_Short
      else
        (let received_crc = ucast (buffer ! (len - 2)) OR push_bit 8 (ucast (buffer ! (len - 1)));
             calc_crc = modbus_crc16 (take (len - 2) buffer) in
         if received_crc \<noteq> calc_crc then Rtu_Bad_Crc
         else Rtu_Frame (buffer ! 0) (pdu\<lparr>pdu_function_code := buffer ! 1, pdu_data_len := of_nat (len - 4),
                pdu_data := memcpy_at (pdu_data pdu) 0 (mem_read buffer 2 (len - 4))\<rparr>)))"

section \<open>Bounds and fields\<close>

lemma length_set_uint16 [simp]: "length (modbus_set_uint16_be pos v data) = length data"
  by (simp add: modbus_set_uint16_be_def)

lemma length_set_registers [simp]: "length (set_registers pos vs data) = length data"
  by (induction vs arbitrary: pos data) simp_all

lemma byte_masks [simp]:
  "ucast ((w::u16) AND 0xFF) = (ucast w :: u8)" "ucast (drop_bit 8 (w::u16) AND 0xFF) = (ucast (drop_bit 8 w) :: u8)"
proof -
  have "ucast ((w::u16) AND 0xFF) = (ucast w :: u8)" for w
  proof (rule word_eq_by_bits)
    have m: "(0xFF::u16) = mask 8" by (simp add: mask_eq_exp_minus_1)
    show "bit (ucast (w AND 0xFF) :: u8) n = bit (ucast w :: u8) n" if "n < LENGTH(8)" for n
      using that unfolding m by (simp add: bit_simps)
  qed
  then show "ucast ((w::u16) AND 0xFF) = (ucast w :: u8)"
    "ucast (drop_bit 8 (w::u16) AND 0xFF) = (ucast (drop_bit 8 w) :: u8)" by blast+
qed

lemma get_set_uint16 [simp]:
  assumes "pos + 1 < length data"
  shows "modbus_get_uint16_be (drop pos (modbus_set_uint16_be pos v data)) = v"
  using assms by (simp add: modbus_get_uint16_be_def modbus_set_uint16_be_def nth_list_update of_be16_be16)

lemma get_set_other [simp]:
  assumes "q + 1 < pos \<or> pos + 1 < q" and "q + 1 < length data" and "pos + 1 < length data"
  shows "modbus_get_uint16_be (drop q (modbus_set_uint16_be pos v data)) = modbus_get_uint16_be (drop q data)"
  using assms by (auto simp: modbus_get_uint16_be_def modbus_set_uint16_be_def nth_list_update)

lemma get_set_first [simp]:
  "1 < length data \<Longrightarrow> modbus_get_uint16_be (modbus_set_uint16_be 0 v data) = v"
  "1 < pos \<Longrightarrow> pos + 1 < length data \<Longrightarrow>
    modbus_get_uint16_be (modbus_set_uint16_be pos v data) = modbus_get_uint16_be data"
  using get_set_uint16 [of 0 data v] get_set_other [of 0 pos data v] by simp_all

lemma nth_set_registers_below: "k < pos \<Longrightarrow> set_registers pos vs data ! k = data ! k"
  by (induction vs arbitrary: pos data) (simp_all add: modbus_set_uint16_be_def nth_list_update)

lemma get_set_registers:
  assumes "k < length vs" and "pos + 2 * length vs \<le> length data"
  shows "modbus_get_uint16_be (drop (pos + 2 * k) (set_registers pos vs data)) = vs ! k"
  using assms
proof (induction vs arbitrary: pos data k)
  case (Cons v vs)
  show ?case
  proof (cases k)
    case 0
    have "modbus_get_uint16_be (drop pos (set_registers (pos + 2) vs (modbus_set_uint16_be pos v data))) =
        modbus_get_uint16_be (drop pos (modbus_set_uint16_be pos v data))"
      using Cons.prems by (simp add: modbus_get_uint16_be_def nth_set_registers_below)
    then show ?thesis using 0 Cons.prems by simp
  next
    case (Suc j)
    then show ?thesis using Cons.IH [of j "pos + 2"] Cons.prems by (simp add: add.commute add.left_commute)
  qed
qed simp

lemma get_uint16_take [simp]: "2 \<le> n \<Longrightarrow> modbus_get_uint16_be (take n data) = modbus_get_uint16_be data"
  by (simp add: modbus_get_uint16_be_def)

lemma get_be16 [simp]: "modbus_get_uint16_be (be16 v @ rest) = v"
  by (simp add: modbus_get_uint16_be_def be16_def of_be16_be16)

lemma pdu_wf_len: "pdu_wf p \<Longrightarrow> unat (pdu_data_len p) \<le> 252 \<and> length (pdu_data p) = 252"
  by (simp add: pdu_wf_def modbus_limits)

lemma zero_pdu_wf [simp]: "pdu_wf zero_pdu"
  by (simp add: pdu_wf_def zero_pdu_def modbus_limits)

section \<open>Receiving what was sent\<close>

text \<open>A PDU as the receiver has it: the data that was sent, then what its array held before.\<close>

definition received_over :: "modbus_pdu \<Rightarrow> modbus_pdu \<Rightarrow> modbus_pdu" where
  "received_over q p = p\<lparr>pdu_data := memcpy_at (pdu_data q) 0 (take (unat (pdu_data_len p)) (pdu_data p))\<rparr>"

lemma received_over_simps [simp]:
  "pdu_function_code (received_over q p) = pdu_function_code p" "pdu_data_len (received_over q p) = pdu_data_len p"
  by (simp_all add: received_over_def)

lemma received_over_nth:
  "pdu_wf p \<Longrightarrow> k < unat (pdu_data_len p) \<Longrightarrow> pdu_data (received_over q p) ! k = pdu_data p ! k"
  using pdu_wf_len [of p] by (simp add: received_over_def memcpy_at_def nth_append)

lemma received_over_wf: "pdu_wf p \<Longrightarrow> pdu_wf q \<Longrightarrow> pdu_wf (received_over q p)"
  using pdu_wf_len [of p] pdu_wf_len [of q] by (simp add: received_over_def pdu_wf_def)

lemma tcp_frame_received:
  assumes "pdu_wf p"
  shows "tcp_recv_frame q (tcp_frame unit_id trans_id p @ rest) = (Some (unit_id, trans_id, received_over q p), rest)"
proof -
  let ?n = "unat (pdu_data_len p)"
  let ?body = "pdu_function_code p # take ?n (pdu_data p)"
  have n: "?n \<le> 252" "length (pdu_data p) = 252" using pdu_wf_len [OF assms] by simp_all
  have len: "unat (1 + 1 + pdu_data_len p) = ?n + 2"
    using n(1) by (simp add: unat_word_ariths)
  then have ge: "\<not> 1 + 1 + pdu_data_len p < 2" by (simp add: word_less_nat_alt)
  define hd where "hd = be16 trans_id @ be16 0 @ be16 (1 + 1 + pdu_data_len p) @ [unit_id]"
  have h: "length hd = 7" "modbus_get_uint16_be hd = trans_id" "modbus_get_uint16_be (drop 2 hd) = 0"
    "modbus_get_uint16_be (drop 4 hd) = 1 + 1 + pdu_data_len p" "hd ! 6 = unit_id"
    by (simp_all add: hd_def nth_append)
  have frame: "tcp_frame unit_id trans_id p @ rest = hd @ ?body @ rest" by (simp add: tcp_frame_def hd_def)
  have "of_nat ?n = pdu_data_len p" by simp
  then show ?thesis unfolding frame
    using h n len ge by (simp add: tcp_recv_frame_def modbus_limits Let_def received_over_def)
qed

lemma xor_cancel: "a XOR c = b XOR c \<longleftrightarrow> a = (b :: 'a::len word)"
proof
  assume "a XOR c = b XOR c"
  then have "(a XOR c) XOR c = (b XOR c) XOR c" by (rule arg_cong)
  then show "a = b" by (simp only: xor.assoc bit.xor_self xor.right_neutral)
qed (erule arg_cong)

text \<open>One step of the checksum loses nothing: the bit shifted out shows as the top bit of the result, which
  the polynomial has set.\<close>

lemma lsb_step_inj:
  fixes poly :: "'a::len word"
  assumes "bit poly (LENGTH('a) - 1)"
  shows "inj (lsb_step poly)"
proof (rule injI)
  fix a b :: "'a word" assume eq: "lsb_step poly a = lsb_step poly b"
  have top: "bit (lsb_step poly x) (LENGTH('a) - 1) = bit x 0" for x
    using assms by (auto simp: lsb_step_def bit_simps not_bit_beyond)
  from eq have low: "bit a 0 = bit b 0" using top [of a] top [of b] by simp
  have "drop_bit 1 a = drop_bit 1 b"
  proof (cases "bit b 0")
    case True
    with eq low have "drop_bit 1 a XOR poly = drop_bit 1 b XOR poly" by (simp add: lsb_step_def)
    then show ?thesis unfolding xor_cancel .
  qed (use eq low in \<open>simp add: lsb_step_def\<close>)
  show "a = b"
  proof (rule word_eq_by_bits)
    show "bit a n = bit b n" for n
    proof (cases n)
      case (Suc k)
      with arg_cong [OF \<open>drop_bit 1 a = drop_bit 1 b\<close>, of "\<lambda>w. bit w k"] show ?thesis by (simp add: bit_drop_bit_eq)
    qed (simp add: low)
  qed
qed

lemma lsb_crc_inj:
  fixes poly :: "'a::len word"
  assumes "bit poly (LENGTH('a) - 1)"
  shows "lsb_crc poly c bs = lsb_crc poly d bs \<longleftrightarrow> c = d"
proof (induction bs arbitrary: c d)
  case (Cons b bs)
  have "inj (lsb_step poly ^^ 8)" using lsb_step_inj [OF assms] by (rule inj_fn)
  then have "(lsb_step poly ^^ 8) (c XOR ucast b) = (lsb_step poly ^^ 8) (d XOR ucast b) \<longleftrightarrow> c XOR ucast b = d XOR ucast b"
    by (simp add: inj_eq)
  also have "\<dots> \<longleftrightarrow> c = d" by (rule xor_cancel)
  finally show ?case using Cons by simp
qed simp

lemma lsb_crc_append: "lsb_crc poly c (xs @ ys) = lsb_crc poly (lsb_crc poly c xs) ys"
  by (induction xs arbitrary: c) simp_all

text \<open>So a message in which one byte is changed has another checksum.\<close>

lemma modbus_crc16_one_byte:
  assumes "i < length bs" and "b \<noteq> bs ! i"
  shows "modbus_crc16 (bs[i := b]) \<noteq> modbus_crc16 bs"
proof
  assume eq: "modbus_crc16 (bs[i := b]) = modbus_crc16 bs"
  have top: "bit (0xA001::u16) (LENGTH(16) - 1)" by simp
  let ?c = "lsb_crc 0xA001 0xFFFF (take i bs) :: u16" and ?f = "lsb_step (0xA001::u16) ^^ 8"
  have "bs[i := b] = take i bs @ b # drop (Suc i) bs" by (rule upd_conv_take_nth_drop [OF assms(1)])
  moreover have "bs = take i bs @ bs ! i # drop (Suc i) bs" by (rule id_take_nth_drop [OF assms(1)])
  ultimately have "lsb_crc (0xA001::u16) 0xFFFF (take i bs @ b # drop (Suc i) bs) =
      lsb_crc 0xA001 0xFFFF (take i bs @ bs ! i # drop (Suc i) bs)"
    using eq unfolding modbus_crc16_def modbus_loop_bitwise by metis
  then have "?f (?c XOR ucast b) = ?f (?c XOR ucast (bs ! i))"
    by (simp add: lsb_crc_append lsb_crc_inj [OF top])
  moreover have "inj ?f" using lsb_step_inj [OF top] by (rule inj_fn)
  ultimately have "?c XOR ucast b = ?c XOR ucast (bs ! i)" by (simp add: inj_eq)
  then have x: "(ucast b :: u16) = ucast (bs ! i)" unfolding xor.commute [of ?c] xor_cancel .
  have "bit b n = bit (bs ! i) n" if "n < LENGTH(8)" for n
    using arg_cong [OF x, of "\<lambda>w. bit w n"] that by (simp add: bit_simps)
  then have "b = bs ! i" by (rule word_eq_by_bits)
  with assms(2) show False ..
qed

lemma le16_of_be16: "(ucast (a::u8) OR push_bit 8 (ucast (b::u8)) :: u16) = of_be16 b a"
  unfolding of_be16_def by (rule or.commute)

lemma of_be16_inj: "of_be16 b a = of_be16 b' a' \<longleftrightarrow> b = b' \<and> a = a'"
proof
  assume "of_be16 b a = of_be16 b' a'"
  then have "be16 (of_be16 b a) = be16 (of_be16 b' a')" by (rule arg_cong)
  then show "b = b' \<and> a = a'" unfolding be16_of_be16 by simp
qed (elim conjE, hypsubst, rule refl)

section \<open>Serial frames\<close>

lemma rtu_decode_data:
  assumes "length g = n + 4"
  shows "rtu_decode q g = (if of_be16 (g ! (n + 3)) (g ! (n + 2)) \<noteq> modbus_crc16 (take (n + 2) g) then Rtu_Bad_Crc
    else Rtu_Frame (g ! 0) (q\<lparr>pdu_function_code := g ! 1, pdu_data_len := of_nat n,
      pdu_data := memcpy_at (pdu_data q) 0 (mem_read g 2 n)\<rparr>))"
proof -
  have e: "n + 4 - 1 = n + 3" "n + 4 - 2 = n + 2" "n + 4 - 4 = n" "\<not> n + 4 < 4" by simp_all
  show ?thesis unfolding rtu_decode_def Let_def assms e le16_of_be16 by simp
qed

lemma rtu_frame_parts:
  assumes "pdu_wf p" and "frame = rtu_frame addr p" and "n = unat (pdu_data_len p)"
    and "body = [addr, pdu_function_code p] @ take n (pdu_data p)"
  shows "length body = n + 2" "length frame = n + 4" "take (n + 2) frame = body"
    "frame = body @ [ucast (modbus_crc16 body), ucast (drop_bit 8 (modbus_crc16 body))]"
    "of_be16 (frame ! (n + 3)) (frame ! (n + 2)) = modbus_crc16 (take (n + 2) frame)"
proof -
  show frame: "frame = body @ [ucast (modbus_crc16 body), ucast (drop_bit 8 (modbus_crc16 body))]"
    by (simp add: assms(2-4) rtu_frame_def Let_def)
  show n: "length body = n + 2" using pdu_wf_len [OF assms(1)] by (simp add: assms(3, 4))
  then show "length frame = n + 4" and body: "take (n + 2) frame = body" by (simp_all add: frame)
  have tail: "frame ! (n + 2) = ucast (modbus_crc16 body)" "frame ! (n + 3) = ucast (drop_bit 8 (modbus_crc16 body))"
    using n by (simp_all add: frame nth_append)
  show "of_be16 (frame ! (n + 3)) (frame ! (n + 2)) = modbus_crc16 (take (n + 2) frame)"
    unfolding tail body by (simp add: of_be16_be16)
qed

lemma rtu_frame_received:
  assumes "pdu_wf p"
  shows "rtu_decode q (rtu_frame addr p) = Rtu_Frame addr (received_over q p)"
proof -
  obtain n body where nb: "n = unat (pdu_data_len p)" "body = [addr, pdu_function_code p] @ take n (pdu_data p)" by simp
  note parts = rtu_frame_parts [OF assms refl nb]
  have "mem_read (rtu_frame addr p) 2 n = take n (pdu_data p)" using parts(1, 4) by (simp add: nb(2) mem_read_def)
  moreover have "rtu_frame addr p ! 0 = addr" "rtu_frame addr p ! 1 = pdu_function_code p" by (simp_all add: parts(4) nb(2))
  ultimately show ?thesis using parts(5) by (simp add: rtu_decode_data [OF parts(2)] received_over_def nb(1))
qed

text \<open>\<^bold>\<open>C15.\<close> A serial frame is received as it was sent, and a frame in which one byte was changed on the line, be it
  address, function, data or checksum, is rejected.\<close>

theorem serial_frames_checked:
  assumes "pdu_wf p" and "frame = rtu_frame addr p"
  shows "rtu_decode q frame = Rtu_Frame addr (received_over q p) \<and>
    (\<forall>i < length frame. \<forall>b. b \<noteq> frame ! i \<longrightarrow> rtu_decode q (frame[i := b]) = Rtu_Bad_Crc)"
proof -
  obtain n body where nb: "n = unat (pdu_data_len p)" "body = [addr, pdu_function_code p] @ take n (pdu_data p)" by simp
  note parts = rtu_frame_parts [OF assms nb]
  have "rtu_decode q (frame[i := b]) = Rtu_Bad_Crc" if i: "i < length frame" and b: "b \<noteq> frame ! i" for i b
  proof -
    let ?g = "frame[i := b]"
    have "of_be16 (?g ! (n + 3)) (?g ! (n + 2)) \<noteq> modbus_crc16 (take (n + 2) ?g)"
    proof (cases "i < n + 2")
      case True
      then have "take (n + 2) ?g = body[i := b]" using parts(3) by (simp add: take_update_swap)
      moreover have "modbus_crc16 (body[i := b]) \<noteq> modbus_crc16 body"
        using True b parts(1) by (intro modbus_crc16_one_byte) (simp_all add: parts(4) nth_append)
      ultimately show ?thesis using parts(3, 5) True by simp
    next
      case False
      then have "i = n + 2 \<or> i = n + 3" using i parts(2) by linarith
      then have "of_be16 (?g ! (n + 3)) (?g ! (n + 2)) \<noteq> of_be16 (frame ! (n + 3)) (frame ! (n + 2))"
        unfolding of_be16_inj using b parts(2) by (auto simp: nth_list_update)
      moreover from False have "take (n + 2) ?g = take (n + 2) frame" by simp
      ultimately show ?thesis using parts(5) by metis
    qed
    then show ?thesis using parts(2) by (simp add: rtu_decode_data)
  qed
  then show ?thesis using rtu_frame_received [OF assms(1)] assms(2) by blast
qed

theorem serial_frames_checked_witness:
  "pdu_wf zero_pdu \<and> rtu_decode zero_pdu ((rtu_frame 17 zero_pdu)[0 := 16]) = Rtu_Bad_Crc"
proof -
  have head: "rtu_frame a p = a # tl (rtu_frame a p)" for a p
    unfolding rtu_frame_def Let_def append_Cons list.sel ..
  obtain f where f: "f = rtu_frame 17 zero_pdu" by simp
  have "0 < length f" "16 \<noteq> f ! 0" unfolding f by (subst head, simp)+
  then show ?thesis using serial_frames_checked [OF zero_pdu_wf f, of zero_pdu] unfolding f [symmetric] by simp
qed

end
