(* ===== verification/ModbusLink.thy ===== *)
theory ModbusLink
  imports ModbusPdu
begin

text \<open>
  \<^verbatim>\<open>src/src/modbus/modbus_tcp.c\<close> and \<^verbatim>\<open>modbus_rtu.c\<close>: the contexts of the two transports, the transactions
  of a client and the request loops of a server.

  Sockets, serial lines and threads are arguments: what the operating system answers, and the bytes
  that arrive. A client transaction takes the network as a function from the frame it sends to
  whether sending succeeded and what can then be received, so that a client and a server compose.
  The mutex is left out of every function that releases what it takes; the loop of the TCP server,
  which does not, is modelled with its locking: \<open>None\<close> is a thread that waits for the mutex it holds.
\<close>

section \<open>TCP context\<close>

datatype modbus_role = MODBUS_ROLE_CLIENT | MODBUS_ROLE_SERVER

definition MODBUS_TCP_MAX_CONNECTIONS :: nat where "MODBUS_TCP_MAX_CONNECTIONS = 32"

record tcp_client =
  tc_fd :: int
  tc_ip :: string
  tc_last_activity_ms :: u64
  tc_active :: bool

record modbus_tcp_config =
  tg_role :: modbus_role
  tg_bind_address :: string
  tg_port :: u16
  tg_timeout_ms :: u32
  tg_max_connections :: u32
  tg_request_handler :: bool
  tg_on_connect :: bool
  tg_on_disconnect :: bool

record modbus_tcp =
  mt_config :: modbus_tcp_config
  mt_server_fd :: int
  mt_client_fd :: int
  mt_running :: bool
  mt_clients :: "tcp_client list"
  mt_client_count :: int
  mt_transaction_id :: u16
  mt_stats :: modbus_stats

datatype tcp_event = Client_Connected int string | Client_Disconnected int | Frame_Sent "u8 list"

definition change_stats :: "(modbus_stats \<Rightarrow> modbus_stats) \<Rightarrow> modbus_tcp \<Rightarrow> modbus_tcp" where
  "change_stats f c = c\<lparr>mt_stats := f (mt_stats c)\<rparr>"

definition zero_tcp_client :: tcp_client where
  "zero_tcp_client = \<lparr>tc_fd = 0, tc_ip = [], tc_last_activity_ms = 0, tc_active = False\<rparr>"

definition modbus_tcp_init :: "bool \<Rightarrow> modbus_tcp_config option \<Rightarrow> bool \<Rightarrow> wtc_result \<times> modbus_tcp option" where
  "modbus_tcp_init ctx_ok config mem =
     (case config of
        None \<Rightarrow> (WTC_ERROR_INVALID_PARAM, None)
      | Some cfg \<Rightarrow>
          if \<not> ctx_ok then (WTC_ERROR_INVALID_PARAM, None)
          else if \<not> mem then (WTC_ERROR_NO_MEMORY, None)
          else
            (let cfg = (if tg_max_connections cfg = 0 \<or> of_nat MODBUS_TCP_MAX_CONNECTIONS < tg_max_connections cfg
                        then cfg\<lparr>tg_max_connections := of_nat MODBUS_TCP_MAX_CONNECTIONS\<rparr> else cfg);
                 cfg = (if tg_timeout_ms cfg = 0 then cfg\<lparr>tg_timeout_ms := 5000\<rparr> else cfg) in
             (WTC_OK, Some \<lparr>mt_config = cfg, mt_server_fd = - 1, mt_client_fd = - 1, mt_running = False,
                mt_clients = replicate MODBUS_TCP_MAX_CONNECTIONS zero_tcp_client, mt_client_count = 0,
                mt_transaction_id = 0, mt_stats = zero_stats\<rparr>)))"

text \<open>Starting the server: the descriptor \<open>socket\<close> returns and whether the further calls succeed.\<close>

definition modbus_tcp_server_start :: "int \<Rightarrow> bool \<Rightarrow> bool \<Rightarrow> bool \<Rightarrow> modbus_tcp option \<Rightarrow> wtc_result \<times> modbus_tcp option" where
  "modbus_tcp_server_start fd bind_ok listen_ok thread_ok =
     on_handle WTC_ERROR_INVALID_PARAM (\<lambda>c.
       if tg_role (mt_config c) \<noteq> MODBUS_ROLE_SERVER then (WTC_ERROR_INVALID_PARAM, c)
       else if fd < 0 then (WTC_ERROR_IO, c\<lparr>mt_server_fd := fd\<rparr>)
       else if \<not> bind_ok \<or> \<not> listen_ok then (WTC_ERROR_IO, c\<lparr>mt_server_fd := - 1\<rparr>)
       else if \<not> thread_ok then (WTC_ERROR_INTERNAL, c\<lparr>mt_server_fd := - 1, mt_running := False\<rparr>)
       else (WTC_OK, c\<lparr>mt_server_fd := fd, mt_running := True\<rparr>))"

definition modbus_tcp_server_stop :: "modbus_tcp option \<Rightarrow> wtc_result \<times> modbus_tcp option" where
  "modbus_tcp_server_stop =
     on_handle WTC_OK (\<lambda>c.
       if \<not> mt_running c then (WTC_OK, c)
       else (WTC_OK, c\<lparr>mt_running := False,
               mt_clients := map (\<lambda>k. if tc_active k then k\<lparr>tc_active := False\<rparr> else k) (mt_clients c),
               mt_client_count := 0, mt_server_fd := (if 0 \<le> mt_server_fd c then - 1 else mt_server_fd c)\<rparr>))"

definition modbus_tcp_disconnect :: "modbus_tcp \<Rightarrow> modbus_tcp" where
  "modbus_tcp_disconnect c = (if mt_client_fd c < 0 then c else c\<lparr>mt_client_fd := - 1\<rparr>)"

text \<open>Connecting: the descriptor, whether the address is a numeric one, and how the connection ends.\<close>

datatype connect_outcome = Connected | Connect_Refused | Connect_Timeout | Connect_Error

definition modbus_tcp_connect :: "int \<Rightarrow> bool \<Rightarrow> connect_outcome \<Rightarrow> string option \<Rightarrow> modbus_tcp option \<Rightarrow>
    wtc_result \<times> modbus_tcp option" where
  "modbus_tcp_connect fd address_ok outcome host =
     on_handle WTC_ERROR_INVALID_PARAM (\<lambda>c.
       if host = None \<or> tg_role (mt_config c) \<noteq> MODBUS_ROLE_CLIENT then (WTC_ERROR_INVALID_PARAM, c)
       else
         (let c = modbus_tcp_disconnect c in
          if fd < 0 then (WTC_ERROR_IO, c\<lparr>mt_client_fd := fd\<rparr>)
          else if \<not> address_ok then (WTC_ERROR_INVALID_PARAM, c\<lparr>mt_client_fd := - 1\<rparr>)
          else case outcome of
              Connected \<Rightarrow> (WTC_OK, c\<lparr>mt_client_fd := fd\<rparr>)
            | Connect_Refused \<Rightarrow> (WTC_ERROR_IO, c\<lparr>mt_client_fd := - 1\<rparr>)
            | Connect_Timeout \<Rightarrow> (WTC_ERROR_TIMEOUT, c\<lparr>mt_client_fd := - 1\<rparr>)
            | Connect_Error \<Rightarrow> (WTC_ERROR_IO, c\<lparr>mt_client_fd := - 1\<rparr>)))"

definition modbus_tcp_is_connected :: "modbus_tcp option \<Rightarrow> bool" where
  "modbus_tcp_is_connected = with_handle False (\<lambda>c. 0 \<le> mt_client_fd c)"

definition modbus_tcp_get_stats :: "modbus_tcp option \<Rightarrow> bool \<Rightarrow> wtc_result \<times> modbus_stats option" where
  "modbus_tcp_get_stats ctx stats_ok =
     with_handle (WTC_ERROR_INVALID_PARAM, None)
       (\<lambda>c. if \<not> stats_ok then (WTC_ERROR_INVALID_PARAM, None) else (WTC_OK, Some (mt_stats c))) ctx"

definition modbus_tcp_get_connection_count :: "modbus_tcp option \<Rightarrow> int" where
  "modbus_tcp_get_connection_count = with_handle 0 mt_client_count"

section \<open>TCP client\<close>

type_synonym network = "u8 list \<Rightarrow> bool \<times> u8 list"

definition modbus_tcp_transact :: "network \<Rightarrow> modbus_tcp option \<Rightarrow> u8 \<Rightarrow> modbus_pdu option \<Rightarrow> modbus_pdu option \<Rightarrow>
    (wtc_result \<times> modbus_pdu option) \<times> modbus_tcp option" where
  "modbus_tcp_transact net ctx unit_id request response =
     on_handle (WTC_ERROR_INVALID_PARAM, response) (\<lambda>c.
       case (request, response) of
         (Some req, Some resp) \<Rightarrow>
           if mt_client_fd c < 0 then ((WTC_ERROR_INVALID_PARAM, response), c)
           else
             (let trans_id = mt_transaction_id c + 1; c = c\<lparr>mt_transaction_id := trans_id\<rparr>;
                  (sent, stream) = net (tcp_frame unit_id trans_id req) in
              if \<not> sent then ((WTC_ERROR_IO, response), change_stats (\<lambda>s. s\<lparr>ms_timeouts := ms_timeouts s + 1\<rparr>) c)
              else
                (let c = change_stats (\<lambda>s. s\<lparr>ms_requests_sent := ms_requests_sent s + 1\<rparr>) c in
                 case fst (tcp_recv_frame resp stream) of
                   None \<Rightarrow> ((WTC_ERROR_TIMEOUT, response), change_stats (\<lambda>s. s\<lparr>ms_timeouts := ms_timeouts s + 1\<rparr>) c)
                 | Some (_, resp_trans_id, resp) \<Rightarrow>
                     if resp_trans_id \<noteq> trans_id then ((WTC_ERROR_PROTOCOL, Some resp), c)
                     else
                       (let c = change_stats (\<lambda>s. s\<lparr>ms_responses_received := ms_responses_received s + 1\<rparr>) c in
                        ((WTC_OK, Some resp),
                         if modbus_is_exception (Some resp) then change_stats (\<lambda>s. s\<lparr>ms_exceptions := ms_exceptions s + 1\<rparr>) c
                         else c))))
       | _ \<Rightarrow> ((WTC_ERROR_INVALID_PARAM, response), c)) ctx"

text \<open>The \<open>request\<close> and \<open>response\<close> of the convenience functions are uninitialised locals: \<open>wild\<close> gives what they
  hold. A builder that refuses its arguments leaves the request as it is.\<close>

definition register_values :: "u16 \<Rightarrow> modbus_pdu \<Rightarrow> u16 list" where
  "register_values quantity r = map (\<lambda>i. modbus_get_uint16_be (drop (1 + i * 2) (pdu_data r))) [0..<unat quantity]"

definition tcp_read_registers :: "u8 \<Rightarrow> network \<Rightarrow> modbus_pdu \<times> modbus_pdu \<Rightarrow> modbus_tcp option \<Rightarrow> u8 \<Rightarrow> u16 \<Rightarrow> u16 \<Rightarrow> bool \<Rightarrow>
    (wtc_result \<times> u16 list option) \<times> modbus_tcp option" where
  "tcp_read_registers fc net wild ctx unit_id start_addr quantity values_ok =
     (if ctx = None \<or> \<not> values_ok \<or> MODBUS_MAX_READ_REGISTERS < quantity then ((WTC_ERROR_INVALID_PARAM, None), ctx)
      else
        (let request = snd (modbus_build_read_request fc start_addr quantity (Some (fst wild)));
             ((res, response), ctx) = modbus_tcp_transact net ctx unit_id request (Some (snd wild)) in
         if res \<noteq> WTC_OK then ((res, None), ctx)
         else if modbus_is_exception response then ((WTC_ERROR_PROTOCOL, None), ctx)
         else if unat (pdu_data (the response) ! 0) \<noteq> unat quantity * 2 then ((WTC_ERROR_PROTOCOL, None), ctx)
         else ((WTC_OK, Some (register_values quantity (the response))), ctx)))"

definition modbus_tcp_read_holding_registers where
  "modbus_tcp_read_holding_registers = tcp_read_registers MODBUS_FC_READ_HOLDING_REGISTERS"

definition modbus_tcp_read_input_registers where
  "modbus_tcp_read_input_registers = tcp_read_registers MODBUS_FC_READ_INPUT_REGISTERS"

text \<open>Bits are copied without comparing the byte count with the quantity; \<open>behind\<close> is the memory behind the array.\<close>

definition tcp_read_bits :: "u8 \<Rightarrow> network \<Rightarrow> modbus_pdu \<times> modbus_pdu \<Rightarrow> u8 list \<Rightarrow> modbus_tcp option \<Rightarrow> u8 \<Rightarrow> u16 \<Rightarrow> u16 \<Rightarrow> bool \<Rightarrow>
    (wtc_result \<times> u8 list option) \<times> modbus_tcp option" where
  "tcp_read_bits fc net wild behind ctx unit_id start_addr quantity values_ok =
     (if ctx = None \<or> \<not> values_ok \<or> MODBUS_MAX_READ_BITS < quantity then ((WTC_ERROR_INVALID_PARAM, None), ctx)
      else
        (let request = snd (modbus_build_read_request fc start_addr quantity (Some (fst wild)));
             ((res, response), ctx) = modbus_tcp_transact net ctx unit_id request (Some (snd wild)) in
         if res \<noteq> WTC_OK then ((res, None), ctx)
         else if modbus_is_exception response then ((WTC_ERROR_PROTOCOL, None), ctx)
         else ((WTC_OK, Some (mem_read (pdu_data (the response) @ behind) 1 (unat (pdu_data (the response) ! 0)))), ctx)))"

definition modbus_tcp_read_coils where
  "modbus_tcp_read_coils = tcp_read_bits MODBUS_FC_READ_COILS"

definition modbus_tcp_read_discrete_inputs where
  "modbus_tcp_read_discrete_inputs = tcp_read_bits MODBUS_FC_READ_DISCRETE_INPUTS"

definition tcp_write :: "(modbus_pdu option \<Rightarrow> int \<times> modbus_pdu option) \<Rightarrow> network \<Rightarrow> modbus_pdu \<times> modbus_pdu \<Rightarrow>
    modbus_tcp option \<Rightarrow> u8 \<Rightarrow> wtc_result \<times> modbus_tcp option" where
  "tcp_write build net wild ctx unit_id =
     (let ((res, _), ctx) = modbus_tcp_transact net ctx unit_id (snd (build (Some (fst wild)))) (Some (snd wild)) in (res, ctx))"

definition modbus_tcp_write_single_coil ::
  "network \<Rightarrow> modbus_pdu \<times> modbus_pdu \<Rightarrow> modbus_tcp option \<Rightarrow> u8 \<Rightarrow> u16 \<Rightarrow> bool \<Rightarrow> wtc_result \<times> modbus_tcp option" where
  "modbus_tcp_write_single_coil net wild ctx unit_id addr value =
     (if ctx = None then (WTC_ERROR_INVALID_PARAM, ctx)
      else tcp_write (modbus_build_write_single_coil addr value) net wild ctx unit_id)"

definition modbus_tcp_write_single_register ::
  "network \<Rightarrow> modbus_pdu \<times> modbus_pdu \<Rightarrow> modbus_tcp option \<Rightarrow> u8 \<Rightarrow> u16 \<Rightarrow> u16 \<Rightarrow> wtc_result \<times> modbus_tcp option" where
  "modbus_tcp_write_single_register net wild ctx unit_id addr value =
     (if ctx = None then (WTC_ERROR_INVALID_PARAM, ctx)
      else tcp_write (modbus_build_write_single_register addr value) net wild ctx unit_id)"

definition modbus_tcp_write_multiple_coils ::
  "network \<Rightarrow> modbus_pdu \<times> modbus_pdu \<Rightarrow> modbus_tcp option \<Rightarrow> u8 \<Rightarrow> u16 \<Rightarrow> u16 \<Rightarrow> u8 list option \<Rightarrow> wtc_result \<times> modbus_tcp option" where
  "modbus_tcp_write_multiple_coils net wild ctx unit_id start_addr quantity values =
     (if ctx = None \<or> values = None then (WTC_ERROR_INVALID_PARAM, ctx)
      else tcp_write (modbus_build_write_multiple_coils start_addr quantity values) net wild ctx unit_id)"

definition modbus_tcp_write_multiple_registers ::
  "network \<Rightarrow> modbus_pdu \<times> modbus_pdu \<Rightarrow> modbus_tcp option \<Rightarrow> u8 \<Rightarrow> u16 \<Rightarrow> u16 \<Rightarrow> u16 list option \<Rightarrow> wtc_result \<times> modbus_tcp option" where
  "modbus_tcp_write_multiple_registers net wild ctx unit_id start_addr quantity values =
     (if ctx = None \<or> values = None then (WTC_ERROR_INVALID_PARAM, ctx)
      else tcp_write (modbus_build_write_multiple_registers start_addr quantity values) net wild ctx unit_id)"

section \<open>TCP server\<close>

text \<open>The request handler gets the unit, the request and a zeroed response and returns an exception code and
  the response; \<open>'s\<close> is the state it works on.\<close>

type_synonym 's handler = "u8 \<Rightarrow> modbus_pdu \<Rightarrow> modbus_pdu \<Rightarrow> 's \<Rightarrow> (u8 \<times> modbus_pdu) \<times> 's"

text \<open>What both servers answer to a request.\<close>

definition answer :: "'s handler \<Rightarrow> bool \<Rightarrow> u8 \<Rightarrow> modbus_pdu \<Rightarrow> 's \<Rightarrow> (bool \<times> modbus_pdu) \<times> 's" where
  "answer handler installed unit_id request s =
     (let ((ex, response), s) = (if installed then handler unit_id request zero_pdu s
                                 else ((MODBUS_EX_SLAVE_DEVICE_FAILURE, zero_pdu), s)) in
      if ex \<noteq> MODBUS_EX_NONE
      then ((True, response\<lparr>pdu_function_code := pdu_function_code request OR 0x80, pdu_data := (pdu_data response)[0 := ex],
              pdu_data_len := 1\<rparr>), s)
      else ((False, response), s))"

definition handle_client_request :: "'s handler \<Rightarrow> modbus_pdu \<Rightarrow> u8 list \<Rightarrow> bool \<Rightarrow> modbus_tcp \<times> 's \<Rightarrow> tcp_event list \<times> modbus_tcp \<times> 's" where
  "handle_client_request handler wild stream sent = (\<lambda>(c, s).
     case fst (tcp_recv_frame wild stream) of
       None \<Rightarrow> ([], c, s)
     | Some (unit_id, trans_id, request) \<Rightarrow>
         (let c = change_stats (\<lambda>t. t\<lparr>ms_requests_received := ms_requests_received t + 1\<rparr>) c;
              ((failed, response), s) = answer handler (tg_request_handler (mt_config c)) unit_id request s;
              c = (if failed then change_stats (\<lambda>t. t\<lparr>ms_exceptions := ms_exceptions t + 1\<rparr>) c else c);
              c = (if sent then change_stats (\<lambda>t. t\<lparr>ms_responses_sent := ms_responses_sent t + 1\<rparr>) c else c) in
          ([Frame_Sent (tcp_frame unit_id trans_id response)], c, s)))"

text \<open>A new connection takes the first free entry, if the configured number is not reached.\<close>

definition accept_client :: "int \<Rightarrow> string \<Rightarrow> u64 \<Rightarrow> modbus_tcp \<Rightarrow> tcp_event list \<times> modbus_tcp" where
  "accept_client fd client_ip now c =
     (case find_pos (\<lambda>k. \<not> tc_active k) (mt_clients c) of
        Some slot \<Rightarrow>
          if mt_client_count c < int (unat (tg_max_connections (mt_config c)))
          then (if tg_on_connect (mt_config c) then [Client_Connected fd client_ip] else [],
                c\<lparr>mt_clients := (mt_clients c)[slot := \<lparr>tc_fd = fd, tc_ip = cstr_copy 63 client_ip,
                     tc_last_activity_ms = now, tc_active = True\<rparr>],
                  mt_client_count := mt_client_count c + 1\<rparr>)
          else ([], c)
      | None \<Rightarrow> ([], c))"

record serve_env =
  sv_ready :: "nat \<Rightarrow> bool"
  sv_gone :: "nat \<Rightarrow> bool"
  sv_wild :: "nat \<Rightarrow> modbus_pdu"
  sv_stream :: "nat \<Rightarrow> u8 list"
  sv_sent :: "nat \<Rightarrow> bool"
  sv_now :: "nat \<Rightarrow> u64"

text \<open>The mutex, by whether this thread holds it. It is a default mutex: locking it twice does not return.\<close>

definition mutex_lock :: "bool \<Rightarrow> bool option" where
  "mutex_lock held = (if held then None else Some True)"

definition mutex_unlock :: "bool \<Rightarrow> bool" where
  "mutex_unlock held = False"

text \<open>The body of the loop over the connections, entered with the mutex held.\<close>

definition serve_client :: "serve_env \<Rightarrow> 's handler \<Rightarrow> nat \<Rightarrow> modbus_tcp \<times> 's \<Rightarrow> (tcp_event list \<times> modbus_tcp \<times> 's) option" where
  "serve_client env handler i cs =
     (let (c, s) = cs; k = mt_clients c ! i; held = True in
      if \<not> (tc_active k \<and> sv_ready env i) then Some ([], c, s)
      else
        (let held = mutex_unlock held in
         Option.bind
           (if sv_gone env i
            then Option.bind (mutex_lock held) (\<lambda>held.
              let c = c\<lparr>mt_clients := (mt_clients c)[i := k\<lparr>tc_active := False\<rparr>], mt_client_count := mt_client_count c - 1\<rparr>;
                  evs = (if tg_on_disconnect (mt_config c) then [Client_Disconnected (tc_fd k)] else []);
                  held = mutex_unlock held in
              Some (held, evs, c, s))
            else
              (let (evs, c, s) = handle_client_request handler (sv_wild env i) (sv_stream env i) (sv_sent env i) (c, s) in
               Option.bind (mutex_lock held) (\<lambda>held.
                 let c = c\<lparr>mt_clients := (mt_clients c)[i := (mt_clients c ! i)\<lparr>tc_last_activity_ms := sv_now env i\<rparr>]\<rparr> in
                 Some (held, evs, c, s))))
           (\<lambda>(held, evs, c, s). Option.bind (mutex_lock held) (\<lambda>held. Some (evs, c, s)))))"

primrec serve_clients :: "serve_env \<Rightarrow> 's handler \<Rightarrow> nat list \<Rightarrow> modbus_tcp \<times> 's \<Rightarrow> (tcp_event list \<times> modbus_tcp \<times> 's) option" where
  "serve_clients env handler [] cs = Some ([], cs)"
| "serve_clients env handler (i # is) cs =
     (case serve_client env handler i cs of
        None \<Rightarrow> None
      | Some (evs, cs) \<Rightarrow>
          (case serve_clients env handler is cs of None \<Rightarrow> None | Some (evs', cs) \<Rightarrow> Some (evs @ evs', cs)))"

text \<open>One turn of the server thread after \<open>select\<close> reported activity: a new connection, if there is one, and
  then the loop over the connections.\<close>

definition server_turn :: "serve_env \<Rightarrow> 's handler \<Rightarrow> (int \<times> string \<times> u64) option \<Rightarrow> modbus_tcp \<times> 's \<Rightarrow>
    (tcp_event list \<times> modbus_tcp \<times> 's) option" where
  "server_turn env handler incoming cs =
     (let (c, s) = cs;
          (evs, c) = (case incoming of None \<Rightarrow> ([], c) | Some (fd, ip, now) \<Rightarrow> if 0 \<le> fd then accept_client fd ip now c else ([], c)) in
      case serve_clients env handler [0..<MODBUS_TCP_MAX_CONNECTIONS] (c, s) of
        None \<Rightarrow> None | Some (evs', cs) \<Rightarrow> Some (evs @ evs', cs))"

section \<open>Serial line\<close>

record modbus_rtu_config =
  rg_role :: modbus_role
  rg_device :: string
  rg_baud_rate :: u32
  rg_data_bits :: u8
  rg_parity :: char
  rg_stop_bits :: u8
  rg_slave_addr :: u8
  rg_timeout_ms :: u32
  rg_inter_frame_delay_us :: u32
  rg_request_handler :: bool

record modbus_rtu =
  mr_config :: modbus_rtu_config
  mr_serial_fd :: int
  mr_running :: bool
  mr_stats :: modbus_stats

definition change_rtu_stats :: "(modbus_stats \<Rightarrow> modbus_stats) \<Rightarrow> modbus_rtu \<Rightarrow> modbus_rtu" where
  "change_rtu_stats f c = c\<lparr>mr_stats := f (mr_stats c)\<rparr>"

text \<open>The speeds the driver knows, by their rates.\<close>

definition get_baud_constant :: "u32 \<Rightarrow> u32" where
  "get_baud_constant baud = (if baud \<in> {1200, 2400, 4800, 9600, 19200, 38400, 57600, 115200, 230400} then baud else 9600)"

definition calc_inter_frame_delay :: "u32 \<Rightarrow> u32" where
  "calc_inter_frame_delay baud =
     (let char_time_us = 11000000 div baud; delay = char_time_us * 35 div 10 in if delay < 1750 then 1750 else delay)"

definition modbus_rtu_init :: "bool \<Rightarrow> modbus_rtu_config option \<Rightarrow> bool \<Rightarrow> wtc_result \<times> modbus_rtu option" where
  "modbus_rtu_init ctx_ok config mem =
     (case config of
        None \<Rightarrow> (WTC_ERROR_INVALID_PARAM, None)
      | Some g \<Rightarrow>
          if \<not> ctx_ok \<or> rg_device g = [] then (WTC_ERROR_INVALID_PARAM, None)
          else if \<not> mem then (WTC_ERROR_NO_MEMORY, None)
          else
            (let g = (if rg_baud_rate g = 0 then g\<lparr>rg_baud_rate := 9600\<rparr> else g);
                 g = (if rg_data_bits g = 0 then g\<lparr>rg_data_bits := 8\<rparr> else g);
                 g = (if rg_parity g = CHR 0x00 then g\<lparr>rg_parity := CHR ''N''\<rparr> else g);
                 g = (if rg_stop_bits g = 0 then g\<lparr>rg_stop_bits := 1\<rparr> else g);
                 g = (if rg_timeout_ms g = 0 then g\<lparr>rg_timeout_ms := 1000\<rparr> else g);
                 g = (if rg_inter_frame_delay_us g = 0
                      then g\<lparr>rg_inter_frame_delay_us := calc_inter_frame_delay (rg_baud_rate g)\<rparr> else g) in
             (WTC_OK, Some \<lparr>mr_config = g, mr_serial_fd = - 1, mr_running = False, mr_stats = zero_stats\<rparr>)))"

definition modbus_rtu_open :: "int \<Rightarrow> bool \<Rightarrow> modbus_rtu option \<Rightarrow> wtc_result \<times> modbus_rtu option" where
  "modbus_rtu_open fd configured =
     on_handle WTC_ERROR_INVALID_PARAM (\<lambda>c.
       if 0 \<le> mr_serial_fd c then (WTC_OK, c)
       else if fd < 0 then (WTC_ERROR_IO, c\<lparr>mr_serial_fd := fd\<rparr>)
       else if \<not> configured then (WTC_ERROR_IO, c\<lparr>mr_serial_fd := - 1\<rparr>)
       else (WTC_OK, c\<lparr>mr_serial_fd := fd\<rparr>))"

definition modbus_rtu_close :: "modbus_rtu \<Rightarrow> modbus_rtu" where
  "modbus_rtu_close c = (if mr_serial_fd c < 0 then c else c\<lparr>mr_serial_fd := - 1\<rparr>)"

definition modbus_rtu_is_open :: "modbus_rtu option \<Rightarrow> bool" where
  "modbus_rtu_is_open = with_handle False (\<lambda>c. 0 \<le> mr_serial_fd c)"

definition modbus_rtu_server_start :: "int \<Rightarrow> bool \<Rightarrow> bool \<Rightarrow> modbus_rtu option \<Rightarrow> wtc_result \<times> modbus_rtu option" where
  "modbus_rtu_server_start fd configured thread_ok =
     on_handle WTC_ERROR_INVALID_PARAM (\<lambda>c.
       if rg_role (mr_config c) \<noteq> MODBUS_ROLE_SERVER then (WTC_ERROR_INVALID_PARAM, c)
       else
         (let (res, opened) = modbus_rtu_open fd configured (Some c); c = the opened in
          if res \<noteq> WTC_OK then (WTC_ERROR_IO, c)
          else if \<not> thread_ok then (WTC_ERROR_INTERNAL, c\<lparr>mr_running := False\<rparr>)
          else (WTC_OK, c\<lparr>mr_running := True\<rparr>)))"

definition modbus_rtu_server_stop :: "modbus_rtu option \<Rightarrow> wtc_result \<times> modbus_rtu option" where
  "modbus_rtu_server_stop = on_handle WTC_OK (\<lambda>c. if \<not> mr_running c then (WTC_OK, c) else (WTC_OK, c\<lparr>mr_running := False\<rparr>))"

text \<open>Sending counts the bytes when the driver took them all; receiving counts what arrived and the frames with
  a wrong checksum.\<close>

definition rtu_send_frame :: "bool \<Rightarrow> u8 \<Rightarrow> modbus_pdu \<Rightarrow> modbus_rtu \<Rightarrow> int \<times> modbus_rtu" where
  "rtu_send_frame written slave_addr p c =
     (if \<not> written then (- 1, c)
      else (0, change_rtu_stats (\<lambda>s. s\<lparr>ms_bytes_sent := ms_bytes_sent s + of_nat (length (rtu_frame slave_addr p))\<rparr>) c))"

definition rtu_recv_frame :: "modbus_pdu \<Rightarrow> u8 list \<Rightarrow> modbus_rtu \<Rightarrow> (u8 \<times> modbus_pdu) option \<times> modbus_rtu" where
  "rtu_recv_frame pdu buffer c =
     (case rtu_decode pdu buffer of
        Rtu_Short \<Rightarrow> (None, c)
      | Rtu_Bad_Crc \<Rightarrow> (None, change_rtu_stats (\<lambda>s. s\<lparr>ms_bytes_received := ms_bytes_received s + of_nat (length buffer),
                           ms_crc_errors := ms_crc_errors s + 1\<rparr>) c)
      | Rtu_Frame slave_addr p \<Rightarrow> (Some (slave_addr, p),
          change_rtu_stats (\<lambda>s. s\<lparr>ms_bytes_received := ms_bytes_received s + of_nat (length buffer)\<rparr>) c))"

text \<open>The body of the loop of the serial server, on the bytes that arrived: \<open>None\<close> when nothing is sent.\<close>

definition rtu_serve :: "'s handler \<Rightarrow> modbus_pdu \<Rightarrow> u8 list \<Rightarrow> bool \<Rightarrow> modbus_rtu \<times> 's \<Rightarrow> u8 list option \<times> modbus_rtu \<times> 's" where
  "rtu_serve handler wild buffer written = (\<lambda>(c, s).
     case rtu_recv_frame wild buffer c of
       (None, c) \<Rightarrow> (None, c, s)
     | (Some (slave_addr, request), c) \<Rightarrow>
         if slave_addr \<noteq> rg_slave_addr (mr_config c) \<and> slave_addr \<noteq> 0 then (None, c, s)
         else
           (let c = change_rtu_stats (\<lambda>t. t\<lparr>ms_requests_received := ms_requests_received t + 1\<rparr>) c;
                ((failed, response), s) = answer handler (rg_request_handler (mr_config c)) slave_addr request s;
                c = (if failed then change_rtu_stats (\<lambda>t. t\<lparr>ms_exceptions := ms_exceptions t + 1\<rparr>) c else c) in
            if slave_addr = 0 then (None, c, s)
            else
              (let (r, c) = rtu_send_frame written (rg_slave_addr (mr_config c)) response c in
               (Some (rtu_frame (rg_slave_addr (mr_config c)) response),
                if r = 0 then change_rtu_stats (\<lambda>t. t\<lparr>ms_responses_sent := ms_responses_sent t + 1\<rparr>) c else c, s))))"

definition modbus_rtu_transact :: "network \<Rightarrow> modbus_rtu option \<Rightarrow> u8 \<Rightarrow> modbus_pdu option \<Rightarrow> modbus_pdu option \<Rightarrow>
    (wtc_result \<times> modbus_pdu option) \<times> modbus_rtu option" where
  "modbus_rtu_transact net ctx slave_addr request response =
     on_handle (WTC_ERROR_INVALID_PARAM, response) (\<lambda>c.
       case (request, response) of
         (Some req, Some resp) \<Rightarrow>
           if mr_serial_fd c < 0 then ((WTC_ERROR_INVALID_PARAM, response), c)
           else
             (let (written, buffer) = net (rtu_frame slave_addr req); (r, c) = rtu_send_frame written slave_addr req c in
              if r < 0 then ((WTC_ERROR_IO, response), change_rtu_stats (\<lambda>s. s\<lparr>ms_timeouts := ms_timeouts s + 1\<rparr>) c)
              else
                (let c = change_rtu_stats (\<lambda>s. s\<lparr>ms_requests_sent := ms_requests_sent s + 1\<rparr>) c;
                     (frame, c) = rtu_recv_frame resp buffer c in
                 case frame of
                   None \<Rightarrow> ((WTC_ERROR_TIMEOUT, response), change_rtu_stats (\<lambda>s. s\<lparr>ms_timeouts := ms_timeouts s + 1\<rparr>) c)
                 | Some (resp_addr, resp) \<Rightarrow>
                     if resp_addr \<noteq> slave_addr then ((WTC_ERROR_PROTOCOL, Some resp), c)
                     else
                       (let c = change_rtu_stats (\<lambda>s. s\<lparr>ms_responses_received := ms_responses_received s + 1\<rparr>) c in
                        ((WTC_OK, Some resp),
                         if modbus_is_exception (Some resp) then change_rtu_stats (\<lambda>s. s\<lparr>ms_exceptions := ms_exceptions s + 1\<rparr>) c
                         else c))))
       | _ \<Rightarrow> ((WTC_ERROR_INVALID_PARAM, response), c)) ctx"

definition rtu_read_registers :: "u8 \<Rightarrow> network \<Rightarrow> modbus_pdu \<times> modbus_pdu \<Rightarrow> modbus_rtu option \<Rightarrow> u8 \<Rightarrow> u16 \<Rightarrow> u16 \<Rightarrow> bool \<Rightarrow>
    (wtc_result \<times> u16 list option) \<times> modbus_rtu option" where
  "rtu_read_registers fc net wild ctx slave_addr start_addr quantity values_ok =
     (if ctx = None \<or> \<not> values_ok \<or> MODBUS_MAX_READ_REGISTERS < quantity then ((WTC_ERROR_INVALID_PARAM, None), ctx)
      else
        (let request = snd (modbus_build_read_request fc start_addr quantity (Some (fst wild)));
             ((res, response), ctx) = modbus_rtu_transact net ctx slave_addr request (Some (snd wild)) in
         if res \<noteq> WTC_OK then ((res, None), ctx)
         else if modbus_is_exception response then ((WTC_ERROR_PROTOCOL, None), ctx)
         else if unat (pdu_data (the response) ! 0) \<noteq> unat quantity * 2 then ((WTC_ERROR_PROTOCOL, None), ctx)
         else ((WTC_OK, Some (register_values quantity (the response))), ctx)))"

definition modbus_rtu_read_holding_registers where
  "modbus_rtu_read_holding_registers = rtu_read_registers MODBUS_FC_READ_HOLDING_REGISTERS"

definition modbus_rtu_read_input_registers where
  "modbus_rtu_read_input_registers = rtu_read_registers MODBUS_FC_READ_INPUT_REGISTERS"

definition rtu_read_bits :: "u8 \<Rightarrow> network \<Rightarrow> modbus_pdu \<times> modbus_pdu \<Rightarrow> u8 list \<Rightarrow> modbus_rtu option \<Rightarrow> u8 \<Rightarrow> u16 \<Rightarrow> u16 \<Rightarrow> bool \<Rightarrow>
    (wtc_result \<times> u8 list option) \<times> modbus_rtu option" where
  "rtu_read_bits fc net wild behind ctx slave_addr start_addr quantity values_ok =
     (if ctx = None \<or> \<not> values_ok \<or> MODBUS_MAX_READ_BITS < quantity then ((WTC_ERROR_INVALID_PARAM, None), ctx)
      else
        (let request = snd (modbus_build_read_request fc start_addr quantity (Some (fst wild)));
             ((res, response), ctx) = modbus_rtu_transact net ctx slave_addr request (Some (snd wild)) in
         if res \<noteq> WTC_OK then ((res, None), ctx)
         else if modbus_is_exception response then ((WTC_ERROR_PROTOCOL, None), ctx)
         else ((WTC_OK, Some (mem_read (pdu_data (the response) @ behind) 1 (unat (pdu_data (the response) ! 0)))), ctx)))"

definition modbus_rtu_read_coils where
  "modbus_rtu_read_coils = rtu_read_bits MODBUS_FC_READ_COILS"

definition modbus_rtu_read_discrete_inputs where
  "modbus_rtu_read_discrete_inputs = rtu_read_bits MODBUS_FC_READ_DISCRETE_INPUTS"

definition rtu_write :: "(modbus_pdu option \<Rightarrow> int \<times> modbus_pdu option) \<Rightarrow> network \<Rightarrow> modbus_pdu \<times> modbus_pdu \<Rightarrow>
    modbus_rtu option \<Rightarrow> u8 \<Rightarrow> wtc_result \<times> modbus_rtu option" where
  "rtu_write build net wild ctx slave_addr =
     (let ((res, _), ctx) = modbus_rtu_transact net ctx slave_addr (snd (build (Some (fst wild)))) (Some (snd wild)) in (res, ctx))"

definition modbus_rtu_write_single_coil ::
  "network \<Rightarrow> modbus_pdu \<times> modbus_pdu \<Rightarrow> modbus_rtu option \<Rightarrow> u8 \<Rightarrow> u16 \<Rightarrow> bool \<Rightarrow> wtc_result \<times> modbus_rtu option" where
  "modbus_rtu_write_single_coil net wild ctx slave_addr addr value =
     (if ctx = None then (WTC_ERROR_INVALID_PARAM, ctx)
      else rtu_write (modbus_build_write_single_coil addr value) net wild ctx slave_addr)"

definition modbus_rtu_write_single_register ::
  "network \<Rightarrow> modbus_pdu \<times> modbus_pdu \<Rightarrow> modbus_rtu option \<Rightarrow> u8 \<Rightarrow> u16 \<Rightarrow> u16 \<Rightarrow> wtc_result \<times> modbus_rtu option" where
  "modbus_rtu_write_single_register net wild ctx slave_addr addr value =
     (if ctx = None then (WTC_ERROR_INVALID_PARAM, ctx)
      else rtu_write (modbus_build_write_single_register addr value) net wild ctx slave_addr)"

definition modbus_rtu_write_multiple_coils ::
  "network \<Rightarrow> modbus_pdu \<times> modbus_pdu \<Rightarrow> modbus_rtu option \<Rightarrow> u8 \<Rightarrow> u16 \<Rightarrow> u16 \<Rightarrow> u8 list option \<Rightarrow> wtc_result \<times> modbus_rtu option" where
  "modbus_rtu_write_multiple_coils net wild ctx slave_addr start_addr quantity values =
     (if ctx = None \<or> values = None then (WTC_ERROR_INVALID_PARAM, ctx)
      else rtu_write (modbus_build_write_multiple_coils start_addr quantity values) net wild ctx slave_addr)"

definition modbus_rtu_write_multiple_registers ::
  "network \<Rightarrow> modbus_pdu \<times> modbus_pdu \<Rightarrow> modbus_rtu option \<Rightarrow> u8 \<Rightarrow> u16 \<Rightarrow> u16 \<Rightarrow> u16 list option \<Rightarrow> wtc_result \<times> modbus_rtu option" where
  "modbus_rtu_write_multiple_registers net wild ctx slave_addr start_addr quantity values =
     (if ctx = None \<or> values = None then (WTC_ERROR_INVALID_PARAM, ctx)
      else rtu_write (modbus_build_write_multiple_registers start_addr quantity values) net wild ctx slave_addr)"

definition modbus_rtu_get_stats :: "modbus_rtu option \<Rightarrow> bool \<Rightarrow> wtc_result \<times> modbus_stats option" where
  "modbus_rtu_get_stats ctx stats_ok =
     with_handle (WTC_ERROR_INVALID_PARAM, None)
       (\<lambda>c. if \<not> stats_ok then (WTC_ERROR_INVALID_PARAM, None) else (WTC_OK, Some (mr_stats c))) ctx"

section \<open>The server blocks itself\<close>

lemma handle_client_request_keeps:
  "mt_clients (fst (snd (handle_client_request handler wild stream sent (c, s)))) = mt_clients c"
  by (simp add: handle_client_request_def change_stats_def Let_def split_beta split: option.split)

lemma serve_client_blocks:
  "serve_client env handler i (c, s) = None \<longleftrightarrow> tc_active (mt_clients c ! i) \<and> sv_ready env i \<and> \<not> sv_gone env i"
  by (auto simp: serve_client_def mutex_lock_def mutex_unlock_def Let_def split_beta)

lemma serve_client_others:
  assumes "serve_client env handler i (c, s) = Some (evs, c', s')" and "j \<noteq> i"
  shows "mt_clients c' ! j = mt_clients c ! j"
  using assms by (auto simp: serve_client_def mutex_lock_def mutex_unlock_def Let_def split_beta split: if_splits)

lemma serve_clients_blocks:
  "distinct is \<Longrightarrow> serve_clients env handler is (c, s) = None \<longleftrightarrow>
    (\<exists>i \<in> set is. tc_active (mt_clients c ! i) \<and> sv_ready env i \<and> \<not> sv_gone env i)"
proof (induction "is" arbitrary: c s)
  case (Cons i "is")
  show ?case
  proof (cases "serve_client env handler i (c, s)")
    case None
    then show ?thesis using serve_client_blocks [of env handler i c s] by simp
  next
    case (Some r)
    then obtain evs c' s' where r: "serve_client env handler i (c, s) = Some (evs, c', s')" by (cases r) auto
    have "mt_clients c' ! j = mt_clients c ! j" if "j \<in> set is" for j
      using serve_client_others [OF r] Cons.prems that by fastforce
    moreover have "serve_clients env handler (i # is) (c, s) = None \<longleftrightarrow> serve_clients env handler is (c', s') = None"
      using r by (auto split: option.split)
    ultimately have "serve_clients env handler (i # is) (c, s) = None \<longleftrightarrow>
        (\<exists>i \<in> set is. tc_active (mt_clients c ! i) \<and> sv_ready env i \<and> \<not> sv_gone env i)"
      using Cons by simp
    moreover have "\<not> (tc_active (mt_clients c ! i) \<and> sv_ready env i \<and> \<not> sv_gone env i)"
      using r serve_client_blocks [of env handler i c s] by simp
    ultimately show ?thesis by auto
  qed
qed simp

text \<open>\<^bold>\<open>C13.\<close> The TCP server serves one request and then waits for itself: the loop over the connections fails to
  come back exactly when some connection has data to read and has not ended, because the thread locks
  the mutex a second time after it handled the request.\<close>

theorem server_blocks_after_request:
  "serve_clients env handler [0..<MODBUS_TCP_MAX_CONNECTIONS] (c, s) = None \<longleftrightarrow>
    (\<exists>i. i < MODBUS_TCP_MAX_CONNECTIONS \<and> tc_active (mt_clients c ! i) \<and> sv_ready env i \<and> \<not> sv_gone env i)"
  using serve_clients_blocks [of "[0..<MODBUS_TCP_MAX_CONNECTIONS]" env handler c s] by auto

section \<open>A client and a server on a serial line\<close>

text \<open>A line that loses nothing, between a client and a server whose loop is waiting: what the body of the loop makes
  of a frame. \<open>wild\<close> is in the buffers of the server.\<close>

definition serial_line :: "'s handler \<Rightarrow> modbus_pdu \<Rightarrow> modbus_rtu \<times> 's \<Rightarrow> network" where
  "serial_line handler wild cs frame =
     (True, case fst (rtu_serve handler wild frame True cs) of None \<Rightarrow> [] | Some bytes \<Rightarrow> bytes)"

lemma change_rtu_stats_config [simp]:
  "mr_config (change_rtu_stats f c) = mr_config c" "mr_serial_fd (change_rtu_stats f c) = mr_serial_fd c"
  by (simp_all add: change_rtu_stats_def)

lemma recv_frame_received:
  assumes "pdu_wf p"
  obtains c' where "rtu_recv_frame q (rtu_frame u p) c = (Some (u, received_over q p), c')"
    "mr_config c' = mr_config c" "mr_serial_fd c' = mr_serial_fd c"
  using rtu_frame_received [OF assms, of q u] by (simp add: rtu_recv_frame_def)

text \<open>One turn of the loop for a request to this server.\<close>

lemma serve_frame:
  assumes "pdu_wf p" and "u = rg_slave_addr (mr_config c)" and "u \<noteq> 0" and "rg_request_handler (mr_config c)"
    and "answer handler True u (received_over wild p) s = ((failed, response), s')"
  obtains c' where "rtu_serve handler wild (rtu_frame u p) True (c, s) = (Some (rtu_frame u response), c', s')"
    "mr_config c' = mr_config c"
proof -
  obtain c1 where c1: "rtu_recv_frame wild (rtu_frame u p) c = (Some (u, received_over wild p), c1)" "mr_config c1 = mr_config c"
    using recv_frame_received [OF assms(1)] by metis
  show ?thesis
    by (rule that [of "fst (snd (rtu_serve handler wild (rtu_frame u p) True (c, s)))"])
      (use c1 assms(2-5) in \<open>simp_all add: rtu_serve_def rtu_send_frame_def Let_def\<close>)
qed

lemma transact_over_line:
  assumes "pdu_wf req" and "0 \<le> mr_serial_fd cl" and "u = rg_slave_addr (mr_config c)" and "u \<noteq> 0"
    and "rg_request_handler (mr_config c)"
    and "answer handler True u (received_over wild req) s = ((failed, response), s')" and "pdu_wf response"
  shows "\<exists>cl'. modbus_rtu_transact (serial_line handler wild (c, s)) (Some cl) u (Some req) (Some q) =
      ((WTC_OK, Some (received_over q response)), Some cl') \<and> mr_serial_fd cl' = mr_serial_fd cl"
proof -
  obtain c' where "rtu_serve handler wild (rtu_frame u req) True (c, s) = (Some (rtu_frame u response), c', s')"
    by (rule serve_frame [OF assms(1, 3-6)])
  then have net: "serial_line handler wild (c, s) (rtu_frame u req) = (True, rtu_frame u response)"
    by (simp add: serial_line_def)
  show ?thesis
    using assms(2) rtu_frame_received [OF assms(7), of q u]
    by (simp add: modbus_rtu_transact_def net rtu_send_frame_def rtu_recv_frame_def Let_def)
qed

end
