(* ===== verification/RegisterMap.thy ===== *)
theory RegisterMap
  imports Registry ModbusPdu
begin

text \<open>
  \<^verbatim>\<open>src/src/modbus/register_map.c\<close>: the table that maps Modbus registers and coils to the data of the
  plant, its generation from the registry, its text file, and the scaling of values.

  The enumerations of this component are kept as the integers they are in C, because the loader
  stores whatever number the file contains in them.
\<close>

section \<open>Entries\<close>

definition MODBUS_REG_COIL :: int where "MODBUS_REG_COIL = 0"
definition MODBUS_REG_DISCRETE_INPUT :: int where "MODBUS_REG_DISCRETE_INPUT = 1"
definition MODBUS_REG_HOLDING :: int where "MODBUS_REG_HOLDING = 2"
definition MODBUS_REG_INPUT :: int where "MODBUS_REG_INPUT = 3"

lemmas register_types = MODBUS_REG_COIL_def MODBUS_REG_DISCRETE_INPUT_def MODBUS_REG_HOLDING_def MODBUS_REG_INPUT_def

definition MODBUS_DTYPE_UINT16 :: int where "MODBUS_DTYPE_UINT16 = 0"
definition MODBUS_DTYPE_INT16 :: int where "MODBUS_DTYPE_INT16 = 1"
definition MODBUS_DTYPE_INT32_BE :: int where "MODBUS_DTYPE_INT32_BE = 4"
definition MODBUS_DTYPE_INT32_LE :: int where "MODBUS_DTYPE_INT32_LE = 5"
definition MODBUS_DTYPE_FLOAT32_BE :: int where "MODBUS_DTYPE_FLOAT32_BE = 6"
definition MODBUS_DTYPE_FLOAT32_LE :: int where "MODBUS_DTYPE_FLOAT32_LE = 7"

lemmas data_types = MODBUS_DTYPE_UINT16_def MODBUS_DTYPE_INT16_def MODBUS_DTYPE_INT32_BE_def MODBUS_DTYPE_INT32_LE_def
  MODBUS_DTYPE_FLOAT32_BE_def MODBUS_DTYPE_FLOAT32_LE_def

definition DATA_SOURCE_PROFINET_SENSOR :: int where "DATA_SOURCE_PROFINET_SENSOR = 0"
definition DATA_SOURCE_PROFINET_ACTUATOR :: int where "DATA_SOURCE_PROFINET_ACTUATOR = 1"
definition DATA_SOURCE_PID_SETPOINT :: int where "DATA_SOURCE_PID_SETPOINT = 2"
definition DATA_SOURCE_PID_PV :: int where "DATA_SOURCE_PID_PV = 3"
definition DATA_SOURCE_PID_CV :: int where "DATA_SOURCE_PID_CV = 4"
definition DATA_SOURCE_MODBUS_CLIENT :: int where "DATA_SOURCE_MODBUS_CLIENT = 8"

lemmas data_sources = DATA_SOURCE_PROFINET_SENSOR_def DATA_SOURCE_PROFINET_ACTUATOR_def DATA_SOURCE_PID_SETPOINT_def
  DATA_SOURCE_PID_PV_def DATA_SOURCE_PID_CV_def DATA_SOURCE_MODBUS_CLIENT_def

record scaling =
  sg_enabled :: bool
  sg_raw_min :: f32
  sg_raw_max :: f32
  sg_eng_min :: f32
  sg_eng_max :: f32
  sg_offset :: f32

record register_mapping =
  rm_modbus_addr :: u16
  rm_reg_type :: int
  rm_data_type :: int
  rm_register_count :: u8
  rm_source :: int
  rm_rtu_station :: string
  rm_slot :: int
  rm_pid_loop_id :: int
  rm_alarm_id :: int
  rm_source_slave :: u8
  rm_source_addr :: u16
  rm_source_transport :: int
  rm_scaling :: scaling
  rm_read_only :: bool
  rm_enabled :: bool
  rm_description :: string

record coil_mapping =
  cm_modbus_addr :: u16
  cm_reg_type :: int
  cm_source :: int
  cm_rtu_station :: string
  cm_slot :: int
  cm_bit_offset :: int
  cm_command_on_value :: int
  cm_command_off_value :: int
  cm_read_only :: bool
  cm_enabled :: bool
  cm_description :: string

record register_map_config =
  rx_holding_base_addr :: u16
  rx_input_base_addr :: u16
  rx_coil_base_addr :: u16
  rx_discrete_base_addr :: u16

record register_map =
  map_config :: register_map_config
  map_registers :: "register_mapping list"
  map_register_capacity :: int
  map_coils :: "coil_mapping list"
  map_coil_capacity :: int

definition zero_scaling :: scaling where
  "zero_scaling = \<lparr>sg_enabled = False, sg_raw_min = 0, sg_raw_max = 0, sg_eng_min = 0, sg_eng_max = 0, sg_offset = 0\<rparr>"

definition zero_register :: register_mapping where
  "zero_register = \<lparr>rm_modbus_addr = 0, rm_reg_type = 0, rm_data_type = 0, rm_register_count = 0, rm_source = 0,
     rm_rtu_station = [], rm_slot = 0, rm_pid_loop_id = 0, rm_alarm_id = 0, rm_source_slave = 0, rm_source_addr = 0,
     rm_source_transport = 0, rm_scaling = zero_scaling, rm_read_only = False, rm_enabled = False, rm_description = []\<rparr>"

definition zero_coil :: coil_mapping where
  "zero_coil = \<lparr>cm_modbus_addr = 0, cm_reg_type = 0, cm_source = 0, cm_rtu_station = [], cm_slot = 0, cm_bit_offset = 0,
     cm_command_on_value = 0, cm_command_off_value = 0, cm_read_only = False, cm_enabled = False, cm_description = []\<rparr>"

section \<open>The table\<close>

definition register_map_init ::
  "bool \<Rightarrow> register_map_config option \<Rightarrow> bool \<Rightarrow> bool \<Rightarrow> bool \<Rightarrow> wtc_result \<times> register_map option" where
  "register_map_init map_ok config mem mem_registers mem_coils =
     (if \<not> map_ok then (WTC_ERROR_INVALID_PARAM, None)
      else if \<not> mem \<or> \<not> mem_registers \<or> \<not> mem_coils then (WTC_ERROR_NO_MEMORY, None)
      else (WTC_OK, Some \<lparr>map_config = (case config of None \<Rightarrow> \<lparr>rx_holding_base_addr = 0, rx_input_base_addr = 0,
               rx_coil_base_addr = 0, rx_discrete_base_addr = 0\<rparr> | Some g \<Rightarrow> g),
             map_registers = [], map_register_capacity = 256, map_coils = [], map_coil_capacity = 256\<rparr>))"

abbreviation register_key :: "register_mapping \<Rightarrow> u16 \<times> int" where
  "register_key r \<equiv> (rm_modbus_addr r, rm_reg_type r)"

abbreviation coil_key :: "coil_mapping \<Rightarrow> u16 \<times> int" where
  "coil_key c \<equiv> (cm_modbus_addr c, cm_reg_type c)"

text \<open>\<open>grown\<close> is whether \<open>realloc\<close> succeeds when the array has to grow.\<close>

definition register_map_add_register ::
  "bool \<Rightarrow> register_map option \<Rightarrow> register_mapping option \<Rightarrow> wtc_result \<times> register_map option" where
  "register_map_add_register grown m mapping =
     on_handle WTC_ERROR_INVALID_PARAM (\<lambda>m.
       case mapping of
         None \<Rightarrow> (WTC_ERROR_INVALID_PARAM, m)
       | Some r \<Rightarrow>
           if List.find (\<lambda>x. register_key x = register_key r) (map_registers m) \<noteq> None then (WTC_ERROR_ALREADY_EXISTS, m)
           else
             (let full = (map_register_capacity m \<le> int (length (map_registers m))) in
              if full \<and> \<not> grown then (WTC_ERROR_NO_MEMORY, m)
              else
                (let m = (if full then m\<lparr>map_register_capacity := map_register_capacity m * 2\<rparr> else m) in
                 (WTC_OK, m\<lparr>map_registers := map_registers m @ [r]\<rparr>)))) m"

definition register_map_add_coil ::
  "bool \<Rightarrow> register_map option \<Rightarrow> coil_mapping option \<Rightarrow> wtc_result \<times> register_map option" where
  "register_map_add_coil grown m mapping =
     on_handle WTC_ERROR_INVALID_PARAM (\<lambda>m.
       case mapping of
         None \<Rightarrow> (WTC_ERROR_INVALID_PARAM, m)
       | Some c \<Rightarrow>
           if List.find (\<lambda>x. coil_key x = coil_key c) (map_coils m) \<noteq> None then (WTC_ERROR_ALREADY_EXISTS, m)
           else
             (let full = (map_coil_capacity m \<le> int (length (map_coils m))) in
              if full \<and> \<not> grown then (WTC_ERROR_NO_MEMORY, m)
              else
                (let m = (if full then m\<lparr>map_coil_capacity := map_coil_capacity m * 2\<rparr> else m) in
                 (WTC_OK, m\<lparr>map_coils := map_coils m @ [c]\<rparr>)))) m"

definition register_map_remove_register :: "register_map option \<Rightarrow> u16 \<Rightarrow> wtc_result \<times> register_map option" where
  "register_map_remove_register m addr =
     on_handle WTC_ERROR_INVALID_PARAM (\<lambda>m.
       case remove_first (\<lambda>r. rm_modbus_addr r = addr) (map_registers m) of
         None \<Rightarrow> (WTC_ERROR_NOT_FOUND, m)
       | Some rs \<Rightarrow> (WTC_OK, m\<lparr>map_registers := rs\<rparr>)) m"

definition register_map_remove_coil :: "register_map option \<Rightarrow> u16 \<Rightarrow> wtc_result \<times> register_map option" where
  "register_map_remove_coil m addr =
     on_handle WTC_ERROR_INVALID_PARAM (\<lambda>m.
       case remove_first (\<lambda>c. cm_modbus_addr c = addr) (map_coils m) of
         None \<Rightarrow> (WTC_ERROR_NOT_FOUND, m)
       | Some cs \<Rightarrow> (WTC_OK, m\<lparr>map_coils := cs\<rparr>)) m"

definition register_map_get_register :: "register_map option \<Rightarrow> int \<Rightarrow> u16 \<Rightarrow> register_mapping option" where
  "register_map_get_register m type addr =
     with_handle None (\<lambda>m. List.find (\<lambda>r. rm_modbus_addr r = addr \<and> rm_reg_type r = type \<and> rm_enabled r) (map_registers m)) m"

definition register_map_get_coil :: "register_map option \<Rightarrow> int \<Rightarrow> u16 \<Rightarrow> coil_mapping option" where
  "register_map_get_coil m type addr =
     with_handle None (\<lambda>m. List.find (\<lambda>c. cm_modbus_addr c = addr \<and> cm_reg_type c = type \<and> cm_enabled c) (map_coils m)) m"

text \<open>The end of a range is computed in \<open>int\<close>, so it does not wrap.\<close>

definition in_range :: "u16 \<Rightarrow> u16 \<Rightarrow> u16 \<Rightarrow> bool" where
  "in_range start_addr count addr \<longleftrightarrow> start_addr \<le> addr \<and> unat addr < unat start_addr + unat count"

definition register_map_get_register_range ::
  "register_map option \<Rightarrow> int \<Rightarrow> u16 \<Rightarrow> u16 \<Rightarrow> bool \<Rightarrow> int \<Rightarrow> register_mapping list" where
  "register_map_get_register_range m type start_addr count mappings_ok max_mappings =
     with_handle [] (\<lambda>m.
       if \<not> mappings_ok then []
       else take (nat max_mappings) (filter (\<lambda>r. rm_reg_type r = type \<and> rm_enabled r \<and>
              in_range start_addr count (rm_modbus_addr r)) (map_registers m))) m"

definition register_map_get_coil_range ::
  "register_map option \<Rightarrow> int \<Rightarrow> u16 \<Rightarrow> u16 \<Rightarrow> bool \<Rightarrow> int \<Rightarrow> coil_mapping list" where
  "register_map_get_coil_range m type start_addr count mappings_ok max_mappings =
     with_handle [] (\<lambda>m.
       if \<not> mappings_ok then []
       else take (nat max_mappings) (filter (\<lambda>c. cm_reg_type c = type \<and> cm_enabled c \<and>
              in_range start_addr count (cm_modbus_addr c)) (map_coils m))) m"

record register_map_stats =
  rt_total_register_mappings :: int
  rt_total_coil_mappings :: int
  rt_holding_registers :: int
  rt_input_registers :: int
  rt_coils :: int
  rt_discrete_inputs :: int

definition register_map_get_stats :: "register_map option \<Rightarrow> bool \<Rightarrow> wtc_result \<times> register_map_stats option" where
  "register_map_get_stats m stats_ok =
     with_handle (WTC_ERROR_INVALID_PARAM, None) (\<lambda>m.
       if \<not> stats_ok then (WTC_ERROR_INVALID_PARAM, None)
       else (WTC_OK, Some \<lparr>rt_total_register_mappings = int (length (map_registers m)),
              rt_total_coil_mappings = int (length (map_coils m)),
              rt_holding_registers = int (length (filter (\<lambda>r. rm_reg_type r = MODBUS_REG_HOLDING) (map_registers m))),
              rt_input_registers = int (length (filter (\<lambda>r. rm_reg_type r = MODBUS_REG_INPUT) (map_registers m))),
              rt_coils = int (length (filter (\<lambda>c. cm_reg_type c = MODBUS_REG_COIL) (map_coils m))),
              rt_discrete_inputs = int (length (filter (\<lambda>c. cm_reg_type c = MODBUS_REG_DISCRETE_INPUT) (map_coils m)))\<rparr>)) m"

section \<open>Scaling\<close>

definition register_map_scale_value :: "scaling option \<Rightarrow> f32 \<Rightarrow> f32" where
  "register_map_scale_value scaling raw_value =
     with_handle raw_value (\<lambda>g.
       if \<not> sg_enabled g then raw_value
       else
         (let raw_range = f_sub (sg_raw_max g) (sg_raw_min g) in
          if f_eq raw_range 0 then f_add raw_value (sg_offset g)
          else
            (let eng_range = f_sub (sg_eng_max g) (sg_eng_min g);
                 normalized = f_div (f_sub raw_value (sg_raw_min g)) raw_range in
             f_add (f_add (f_mul normalized eng_range) (sg_eng_min g)) (sg_offset g)))) scaling"

definition register_map_unscale_value :: "scaling option \<Rightarrow> f32 \<Rightarrow> f32" where
  "register_map_unscale_value scaling eng_value =
     with_handle eng_value (\<lambda>g.
       if \<not> sg_enabled g then eng_value
       else
         (let eng_range = f_sub (sg_eng_max g) (sg_eng_min g) in
          if f_eq eng_range 0 then f_sub eng_value (sg_offset g)
          else
            (let raw_range = f_sub (sg_raw_max g) (sg_raw_min g);
                 normalized = f_div (f_sub (f_sub eng_value (sg_offset g)) (sg_eng_min g)) eng_range in
             f_add (f_mul normalized raw_range) (sg_raw_min g)))) scaling"

section \<open>Generation from the registry\<close>

text \<open>\<open>gen_registers d i\<close>, \<open>gen_outputs d i\<close> and \<open>gen_coils d i\<close> are the outcomes of growing the arrays for sensor or
  actuator \<open>i\<close> of device \<open>d\<close>; the further fields are the allocations of the device list.\<close>

record generate_env =
  gen_mem :: bool
  gen_copy :: "nat \<Rightarrow> copy_alloc"
  gen_registers :: "nat \<Rightarrow> nat \<Rightarrow> bool"
  gen_outputs :: "nat \<Rightarrow> nat \<Rightarrow> bool"
  gen_coils :: "nat \<Rightarrow> nat \<Rightarrow> bool"

record generator =
  gr_map :: register_map
  gr_sensor_addr :: u16
  gr_actuator_addr :: u16
  gr_coil_addr :: u16

definition sensor_register :: "rtu_device \<Rightarrow> nat \<Rightarrow> u16 \<Rightarrow> register_mapping" where
  "sensor_register dev s addr = zero_register\<lparr>rm_modbus_addr := addr, rm_reg_type := MODBUS_REG_INPUT,
     rm_data_type := MODBUS_DTYPE_FLOAT32_BE, rm_register_count := 2, rm_source := DATA_SOURCE_PROFINET_SENSOR,
     rm_slot := int s + 1, rm_read_only := True, rm_enabled := True, rm_rtu_station := cstr_copy 63 (rd_station_name dev),
     rm_description := cstr_copy 63 (take 45 (rd_station_name dev) @ '' Sensor '' @ fmt_d (int s + 1))\<rparr>"

definition actuator_register :: "rtu_device \<Rightarrow> nat \<Rightarrow> u16 \<Rightarrow> register_mapping" where
  "actuator_register dev a addr = zero_register\<lparr>rm_modbus_addr := addr, rm_reg_type := MODBUS_REG_HOLDING,
     rm_data_type := MODBUS_DTYPE_UINT16, rm_register_count := 1, rm_source := DATA_SOURCE_PROFINET_ACTUATOR,
     rm_slot := int a + 1, rm_read_only := False, rm_enabled := True, rm_rtu_station := cstr_copy 63 (rd_station_name dev),
     rm_description := cstr_copy 63 (take 43 (rd_station_name dev) @ '' Actuator '' @ fmt_d (int a + 1))\<rparr>"

definition actuator_coil :: "rtu_device \<Rightarrow> nat \<Rightarrow> u16 \<Rightarrow> coil_mapping" where
  "actuator_coil dev a addr = zero_coil\<lparr>cm_modbus_addr := addr, cm_reg_type := MODBUS_REG_COIL,
     cm_source := DATA_SOURCE_PROFINET_ACTUATOR, cm_slot := int a + 1, cm_command_on_value := 1, cm_command_off_value := 0,
     cm_read_only := False, cm_enabled := True, cm_rtu_station := cstr_copy 63 (rd_station_name dev),
     cm_description := cstr_copy 63 (take 36 (rd_station_name dev) @ '' Act '' @ fmt_d (int a + 1) @ '' On/Off'')\<rparr>"

definition generate_sensor :: "generate_env \<Rightarrow> nat \<Rightarrow> rtu_device \<Rightarrow> nat \<Rightarrow> generator \<Rightarrow> generator" where
  "generate_sensor env d dev s g =
     g\<lparr>gr_map := the (snd (register_map_add_register (gen_registers env d s) (Some (gr_map g))
          (Some (sensor_register dev s (gr_sensor_addr g))))),
       gr_sensor_addr := gr_sensor_addr g + 2\<rparr>"

definition generate_actuator :: "generate_env \<Rightarrow> nat \<Rightarrow> rtu_device \<Rightarrow> nat \<Rightarrow> generator \<Rightarrow> generator" where
  "generate_actuator env d dev a g =
     (let m = the (snd (register_map_add_register (gen_outputs env d a) (Some (gr_map g))
                (Some (actuator_register dev a (gr_actuator_addr g)))));
          m = the (snd (register_map_add_coil (gen_coils env d a) (Some m) (Some (actuator_coil dev a (gr_coil_addr g))))) in
      g\<lparr>gr_map := m, gr_actuator_addr := gr_actuator_addr g + 1, gr_coil_addr := gr_coil_addr g + 1\<rparr>)"

definition generate_device :: "generate_env \<Rightarrow> nat \<times> rtu_device \<Rightarrow> generator \<Rightarrow> generator" where
  "generate_device env = (\<lambda>(d, dev) g.
     fold (generate_actuator env d dev) [0..<nat (rd_actuator_count dev)]
       (fold (generate_sensor env d dev) [0..<nat (rd_sensor_count dev)] g))"

definition register_map_auto_generate ::
  "generate_env \<Rightarrow> register_map option \<Rightarrow> rtu_registry option \<Rightarrow> u16 \<Rightarrow> u16 \<Rightarrow> wtc_result \<times> register_map option" where
  "register_map_auto_generate env m registry sensor_base actuator_base =
     on_handle WTC_ERROR_INVALID_PARAM (\<lambda>m.
       if registry = None then (WTC_ERROR_INVALID_PARAM, m)
       else
         (case rtu_registry_list_devices registry True True 64 (gen_mem env) (gen_copy env) of
            (res, devices, count) \<Rightarrow>
              if res \<noteq> WTC_OK then (WTC_ERROR_INTERNAL, m)
              else (WTC_OK, gr_map (fold (generate_device env) (enumerate 0 (case devices of None \<Rightarrow> [] | Some ds \<Rightarrow> ds))
                     \<lparr>gr_map = m, gr_sensor_addr = sensor_base, gr_actuator_addr = actuator_base, gr_coil_addr = 0\<rparr>)))) m"

section \<open>The text file\<close>

text \<open>
  The loader works with pointers into the buffer that holds the file and a terminating zero. A pointer is
  the memory from its position on: the rest of the file, the zero, and what lies behind the buffer. The
  string functions of C read up to the next zero (\<open>c_text\<close>).

  The loader searches for the key of a field, skips to the next digit and reads the number there, so
  signs are dropped. It skips the key and one more character, the colon: behind a key at the very end of
  the text the pointer is past the terminating zero. A number that does not fit into an \<open>int\<close> is outside
  the contract of \<open>atoi\<close>.
\<close>

definition c_text :: "string \<Rightarrow> string" where
  "c_text p = takeWhile (\<lambda>c. c \<noteq> CHR 0x00) p"

definition find_key :: "string \<Rightarrow> string \<Rightarrow> string option" where
  "find_key key p = map_option (\<lambda>t. drop (length (c_text p) - length t) p) (strstr (quoted key) (c_text p))"

definition decimal_digit :: "char \<Rightarrow> bool" where
  "decimal_digit c \<longleftrightarrow> 48 \<le> (of_char c :: nat) \<and> (of_char c :: nat) \<le> 57"

definition skip_to_digit :: "string \<Rightarrow> string" where
  "skip_to_digit p = dropWhile (\<lambda>c. c \<noteq> CHR 0x00 \<and> \<not> decimal_digit c) p"

definition atoi_digits :: "string \<Rightarrow> int" where
  "atoi_digits s = foldl (\<lambda>n c. n * 10 + (of_char c - 48)) 0 (takeWhile decimal_digit s)"

definition number_field :: "string \<Rightarrow> int \<Rightarrow> string \<Rightarrow> int" where
  "number_field key absent p =
     (case find_key key p of
        None \<Rightarrow> absent
      | Some t \<Rightarrow> atoi_digits (skip_to_digit (drop (length key + 3) t)))"

text \<open>A text field: what stands between the next two quotation marks, cut to \<open>n\<close> characters.\<close>

definition text_field :: "string \<Rightarrow> nat \<Rightarrow> string \<Rightarrow> string" where
  "text_field key n p =
     (case strstr (quoted key) (c_text p) of
        None \<Rightarrow> []
      | Some t \<Rightarrow>
          (case strchr (CHR 0x22) (drop 13 t) of
             None \<Rightarrow> []
           | Some q \<Rightarrow> (case strchr (CHR 0x22) (drop 1 q) of None \<Rightarrow> [] | Some e \<Rightarrow> token_before n (drop 1 q) e)))"

definition registers_for :: "int \<Rightarrow> u8" where
  "registers_for data_type =
     (if data_type = MODBUS_DTYPE_FLOAT32_BE \<or> data_type = MODBUS_DTYPE_FLOAT32_LE \<or>
         data_type = MODBUS_DTYPE_INT32_BE \<or> data_type = MODBUS_DTYPE_INT32_LE then 2 else 1)"

definition parsed_register :: "string \<Rightarrow> register_mapping" where
  "parsed_register num_start = zero_register\<lparr>rm_enabled := True, rm_modbus_addr := of_int (atoi_digits num_start),
     rm_reg_type := number_field ''type'' 0 num_start, rm_data_type := number_field ''data_type'' 0 num_start,
     rm_source := number_field ''source'' 0 num_start, rm_rtu_station := text_field ''rtu_station'' 63 num_start,
     rm_slot := number_field ''slot'' 0 num_start, rm_description := text_field ''description'' 63 num_start,
     rm_register_count := registers_for (number_field ''data_type'' 0 num_start)\<rparr>"

definition parsed_coil :: "string \<Rightarrow> coil_mapping" where
  "parsed_coil num_start = zero_coil\<lparr>cm_enabled := True, cm_command_on_value := 1, cm_command_off_value := 0,
     cm_modbus_addr := of_int (atoi_digits num_start), cm_reg_type := number_field ''type'' 0 num_start,
     cm_source := number_field ''source'' 0 num_start, cm_rtu_station := text_field ''rtu_station'' 63 num_start,
     cm_slot := number_field ''slot'' 0 num_start\<rparr>"

definition number_start :: "string \<Rightarrow> string" where
  "number_start addr_key = skip_to_digit (drop 10 addr_key)"

lemma strstr_parts: "strstr needle s = Some t \<Longrightarrow> \<exists>pre. s = pre @ t \<and> take (length needle) t = needle"
proof (induction s)
  case (Cons c cs)
  show ?case
  proof (cases "take (length needle) (c # cs) = needle")
    case False
    with Cons obtain pre where "cs = pre @ t" "take (length needle) t = needle" by auto
    then show ?thesis by (intro exI [of _ "c # pre"]) simp
  qed (use Cons.prems in simp)
qed (auto split: if_splits)

lemma c_text_split: "\<exists>rest. p = c_text p @ rest"
  unfolding c_text_def by (metis takeWhile_dropWhile_id)

lemma find_key_parts:
  assumes "find_key key p = Some q"
  shows "\<exists>pre. p = pre @ q" "take (length (quoted key)) q = quoted key" "length (quoted key) \<le> length q"
proof -
  obtain t where t: "strstr (quoted key) (c_text p) = Some t" "q = drop (length (c_text p) - length t) p"
    using assms by (auto simp: find_key_def)
  obtain pre where pre: "c_text p = pre @ t" "take (length (quoted key)) t = quoted key" using strstr_parts [OF t(1)] by blast
  obtain rest where rest: "p = c_text p @ rest" using c_text_split by blast
  have p: "p = pre @ t @ rest" using rest pre(1) by simp
  have q: "q = t @ rest" using t(2) pre(1) by (subst (asm) p) simp
  show "\<exists>pre. p = pre @ q" using p q by blast
  show "length (quoted key) \<le> length q" using strstr_length [OF t(1)] q by simp
  show "take (length (quoted key)) q = quoted key" using pre(2) strstr_length [OF t(1)] q by simp
qed

lemma length_quoted [simp]: "length (quoted k) = length k + 2"
  by (simp add: quoted_def)

lemma number_start_shorter:
  assumes "find_key ''address'' p = Some q"
  shows "length (number_start q) + 9 \<le> length p"
proof -
  have "9 \<le> length q" "length q \<le> length p" using find_key_parts [OF assms] by auto
  moreover have "length (number_start q) \<le> length q - 10"
    using length_dropWhile_le [of _ "drop 10 q"] by (simp add: number_start_def skip_to_digit_def)
  ultimately show ?thesis by linarith
qed

text \<open>The two loops over the \<open>address\<close> keys; \<open>grown i\<close> is the outcome of growing the array for the entry \<open>i\<close>. They return
  the number of entries seen.\<close>

function load_registers :: "(nat \<Rightarrow> bool) \<Rightarrow> nat \<Rightarrow> string \<Rightarrow> register_map \<Rightarrow> nat \<times> register_map" where
  "load_registers grown loaded addr_key m =
     (case find_key ''address'' addr_key of
        None \<Rightarrow> (loaded, m)
      | Some q \<Rightarrow>
          (let num_start = number_start q in
           load_registers grown (loaded + 1) num_start
             (the (snd (register_map_add_register (grown loaded) (Some m) (Some (parsed_register num_start)))))))"
  by pat_completeness auto
termination
  by (relation "measure (\<lambda>(grown, loaded, p, m). length p)") (fastforce dest: number_start_shorter)+

function load_coils :: "(nat \<Rightarrow> bool) \<Rightarrow> nat \<Rightarrow> string \<Rightarrow> register_map \<Rightarrow> nat \<times> register_map" where
  "load_coils grown loaded addr_key m =
     (case find_key ''address'' addr_key of
        None \<Rightarrow> (loaded, m)
      | Some q \<Rightarrow>
          (let num_start = number_start q in
           load_coils grown (loaded + 1) num_start
             (the (snd (register_map_add_coil (grown loaded) (Some m) (Some (parsed_coil num_start)))))))"
  by pat_completeness auto
termination
  by (relation "measure (\<lambda>(grown, loaded, p, m). length p)") (fastforce dest: number_start_shorter)+

declare load_registers.simps [simp del] load_coils.simps [simp del]

text \<open>\<open>file\<close> is the content of the file (\<open>None\<close>: it cannot be opened) and \<open>behind\<close> the memory behind the buffer, up to
  the next zero that is not listed.\<close>

definition register_map_load_json ::
  "(nat \<Rightarrow> bool) \<Rightarrow> (nat \<Rightarrow> bool) \<Rightarrow> string \<Rightarrow> string option \<Rightarrow> bool \<Rightarrow> bool \<Rightarrow> register_map option \<Rightarrow>
    wtc_result \<times> register_map option" where
  "register_map_load_json grown_registers grown_coils behind file mem_buf complete =
     on_handle WTC_ERROR_INVALID_PARAM (\<lambda>m.
       case file of
         None \<Rightarrow> (WTC_ERROR_IO, m)
       | Some content \<Rightarrow>
           if length content = 0 \<or> 1024 * 1024 < length content then (WTC_ERROR_INVALID_PARAM, m)
           else if \<not> mem_buf then (WTC_ERROR_NO_MEMORY, m)
           else if \<not> complete then (WTC_ERROR_IO, m)
           else
             (let p = content @ CHR 0x00 # behind;
                  m = (case find_key ''registers'' p of
                         None \<Rightarrow> m | Some reg_section \<Rightarrow> snd (load_registers grown_registers 0 reg_section m));
                  m = (case find_key ''coils'' p of
                         None \<Rightarrow> m | Some coil_section \<Rightarrow> snd (load_coils grown_coils 0 coil_section m)) in
              (WTC_OK, m)))"

definition line :: "string \<Rightarrow> string" where
  "line s = s @ [CHR 0x0A]"

definition json_line :: "string \<Rightarrow> string \<Rightarrow> string" where
  "json_line k v = line (''      '' @ quoted k @ '': '' @ v @ '','')"

definition enabled_line :: "bool \<Rightarrow> string" where
  "enabled_line b = line (''      '' @ quoted ''enabled'' @ '': '' @ (if b then ''true'' else ''false''))"

definition save_register :: "register_mapping \<Rightarrow> string" where
  "save_register r = line ''    {'' @ json_line ''address'' (fmt_u (unat (rm_modbus_addr r))) @
     json_line ''type'' (fmt_d (rm_reg_type r)) @ json_line ''data_type'' (fmt_d (rm_data_type r)) @
     json_line ''source'' (fmt_d (rm_source r)) @ json_line ''rtu_station'' (quoted (rm_rtu_station r)) @
     json_line ''slot'' (fmt_d (rm_slot r)) @ json_line ''description'' (quoted (rm_description r)) @ enabled_line (rm_enabled r)"

definition save_coil :: "coil_mapping \<Rightarrow> string" where
  "save_coil c = line ''    {'' @ json_line ''address'' (fmt_u (unat (cm_modbus_addr c))) @
     json_line ''type'' (fmt_d (cm_reg_type c)) @ json_line ''source'' (fmt_d (cm_source c)) @
     json_line ''rtu_station'' (quoted (cm_rtu_station c)) @ json_line ''slot'' (fmt_d (cm_slot c)) @
     json_line ''description'' (quoted (cm_description c)) @ enabled_line (cm_enabled c)"

definition save_entries :: "('a \<Rightarrow> string) \<Rightarrow> 'a list \<Rightarrow> string" where
  "save_entries f xs = concat (map (\<lambda>(i, x). f x @ line (if i < length xs - 1 then ''    },'' else ''    }'')) (enumerate 0 xs))"

definition register_map_save_json :: "bool \<Rightarrow> bool \<Rightarrow> register_map option \<Rightarrow> wtc_result \<times> string option" where
  "register_map_save_json filename_ok opened m =
     with_handle (WTC_ERROR_INVALID_PARAM, None) (\<lambda>m.
       if \<not> filename_ok then (WTC_ERROR_INVALID_PARAM, None)
       else if \<not> opened then (WTC_ERROR_IO, None)
       else (WTC_OK, Some (line ''{'' @ line (''  '' @ quoted ''registers'' @ '': ['') @ save_entries save_register (map_registers m) @
              line ''  ],'' @ line (''  '' @ quoted ''coils'' @ '': ['') @ save_entries save_coil (map_coils m) @
              line ''  ]'' @ line ''}''))) m"

section \<open>Invariant\<close>

text \<open>No two entries have the same address and type, and the entries fit into their arrays.\<close>

definition register_map_wf :: "register_map \<Rightarrow> bool" where
  "register_map_wf m \<longleftrightarrow> distinct (map register_key (map_registers m)) \<and> distinct (map coil_key (map_coils m)) \<and>
     int (length (map_registers m)) \<le> map_register_capacity m \<and> int (length (map_coils m)) \<le> map_coil_capacity m \<and>
     256 \<le> map_register_capacity m \<and> 256 \<le> map_coil_capacity m"

lemma add_register_cases:
  "the (snd (register_map_add_register grown (Some m) (Some r))) = m \<or>
   (\<forall>x \<in> set (map_registers m). register_key x \<noteq> register_key r) \<and>
   the (snd (register_map_add_register grown (Some m) (Some r))) =
     (if map_register_capacity m \<le> int (length (map_registers m)) then m\<lparr>map_register_capacity := map_register_capacity m * 2\<rparr> else m)
       \<lparr>map_registers := map_registers m @ [r]\<rparr>"
  by (auto simp: register_map_add_register_def Let_def find_None_iff_all)

lemma add_coil_cases:
  "the (snd (register_map_add_coil grown (Some m) (Some c))) = m \<or>
   (\<forall>x \<in> set (map_coils m). coil_key x \<noteq> coil_key c) \<and>
   the (snd (register_map_add_coil grown (Some m) (Some c))) =
     (if map_coil_capacity m \<le> int (length (map_coils m)) then m\<lparr>map_coil_capacity := map_coil_capacity m * 2\<rparr> else m)
       \<lparr>map_coils := map_coils m @ [c]\<rparr>"
  by (auto simp: register_map_add_coil_def Let_def find_None_iff_all)

lemma add_register_wf [inv_intros]:
  assumes "register_map_wf m"
  shows "register_map_wf (the (snd (register_map_add_register grown (Some m) (Some r))))"
proof -
  consider "the (snd (register_map_add_register grown (Some m) (Some r))) = m"
    | "register_key r \<notin> register_key ` set (map_registers m)" "the (snd (register_map_add_register grown (Some m) (Some r))) =
     (if map_register_capacity m \<le> int (length (map_registers m)) then m\<lparr>map_register_capacity := map_register_capacity m * 2\<rparr> else m)
       \<lparr>map_registers := map_registers m @ [r]\<rparr>"
    using add_register_cases [of grown m r] by fastforce
  then show ?thesis
  proof cases
    case 2
    then show ?thesis unfolding 2(2) using assms by (auto simp: register_map_wf_def)
  qed (use assms in simp)
qed

lemma add_coil_wf [inv_intros]:
  assumes "register_map_wf m"
  shows "register_map_wf (the (snd (register_map_add_coil grown (Some m) (Some c))))"
proof -
  consider "the (snd (register_map_add_coil grown (Some m) (Some c))) = m"
    | "coil_key c \<notin> coil_key ` set (map_coils m)" "the (snd (register_map_add_coil grown (Some m) (Some c))) =
     (if map_coil_capacity m \<le> int (length (map_coils m)) then m\<lparr>map_coil_capacity := map_coil_capacity m * 2\<rparr> else m)
       \<lparr>map_coils := map_coils m @ [c]\<rparr>"
    using add_coil_cases [of grown m c] by fastforce
  then show ?thesis
  proof cases
    case 2
    then show ?thesis unfolding 2(2) using assms by (auto simp: register_map_wf_def)
  qed (use assms in simp)
qed

lemma remove_register_wf [inv_intros]:
  "register_map_wf m \<Longrightarrow> register_map_wf (the (snd (register_map_remove_register (Some m) addr)))"
  by (auto simp: register_map_remove_register_def register_map_wf_def
      dest: remove_first_length intro: distinct_remove_first split: option.split)

lemma remove_coil_wf [inv_intros]:
  "register_map_wf m \<Longrightarrow> register_map_wf (the (snd (register_map_remove_coil (Some m) addr)))"
  by (auto simp: register_map_remove_coil_def register_map_wf_def
      dest: remove_first_length intro: distinct_remove_first split: option.split)

lemma fold_keeps: "P s \<Longrightarrow> (\<And>x t. P t \<Longrightarrow> P (f x t)) \<Longrightarrow> P (fold f xs s)"
  by (induction xs arbitrary: s) simp_all

lemma generate_device_wf: "register_map_wf (gr_map g) \<Longrightarrow> register_map_wf (gr_map (generate_device env x g))"
  unfolding generate_device_def split_beta
  by (intro fold_keeps [where P = "\<lambda>g. register_map_wf (gr_map g)"])
    (simp_all add: generate_sensor_def generate_actuator_def Let_def add_register_wf add_coil_wf)

lemma auto_generate_wf [inv_intros]:
  assumes "register_map_wf m"
  shows "register_map_wf (the (snd (register_map_auto_generate env (Some m) reg sensor_base actuator_base)))"
proof -
  have "register_map_wf (gr_map (fold (generate_device env) ds g))" if "register_map_wf (gr_map g)" for ds g
    by (rule fold_keeps [where P = "\<lambda>g. register_map_wf (gr_map g)", OF that generate_device_wf])
  with assms show ?thesis by (simp add: register_map_auto_generate_def split_beta)
qed

lemma load_registers_wf: "register_map_wf m \<Longrightarrow> register_map_wf (snd (load_registers grown k p m))"
  by (induction grown k p m rule: load_registers.induct)
    (subst load_registers.simps, auto simp: Let_def add_register_wf split: option.split)

lemma load_coils_wf: "register_map_wf m \<Longrightarrow> register_map_wf (snd (load_coils grown k p m))"
  by (induction grown k p m rule: load_coils.induct)
    (subst load_coils.simps, auto simp: Let_def add_coil_wf split: option.split)

lemma load_json_wf [inv_intros]:
  "register_map_wf m \<Longrightarrow> register_map_wf (the (snd (register_map_load_json gr gc behind file mem_buf complete (Some m))))"
  by (auto simp: register_map_load_json_def Let_def load_registers_wf load_coils_wf split: option.split)

lemma new_map_wf: "register_map_init ok config a b c = (WTC_OK, Some m) \<Longrightarrow> register_map_wf m"
  by (auto simp: register_map_init_def register_map_wf_def split: if_splits)

section \<open>The loader ends\<close>

lemma load_registers_count: "9 * fst (load_registers grown k p m) \<le> 9 * k + length p"
proof (induction grown k p m rule: load_registers.induct)
  case (1 grown k p m)
  show ?case
  proof (cases "find_key ''address'' p")
    case (Some q)
    show ?thesis
      using 1 [OF Some refl] number_start_shorter [OF Some] by (subst load_registers.simps) (simp add: Some Let_def)
  qed (simp add: load_registers.simps)
qed

lemma load_coils_count: "9 * fst (load_coils grown k p m) \<le> 9 * k + length p"
proof (induction grown k p m rule: load_coils.induct)
  case (1 grown k p m)
  show ?case
  proof (cases "find_key ''address'' p")
    case (Some q)
    show ?thesis
      using 1 [OF Some refl] number_start_shorter [OF Some] by (subst load_coils.simps) (simp add: Some Let_def)
  qed (simp add: load_coils.simps)
qed

text \<open>What lies behind the terminating zero is not read as long as no key of a number is the end of the file.\<close>

definition number_keys :: "string list" where
  "number_keys = [''address'', ''type'', ''data_type'', ''source'', ''slot'']"

definition key_at_end :: "string \<Rightarrow> bool" where
  "key_at_end content \<longleftrightarrow> list_ex (\<lambda>k. drop (length content - length (quoted k)) content = quoted k) number_keys"

lemma key_at_end_suffix: "\<not> key_at_end (pre @ t) \<Longrightarrow> \<not> key_at_end t"
proof
  assume no: "\<not> key_at_end (pre @ t)" and "key_at_end t"
  then obtain k where k: "k \<in> set number_keys" "drop (length t - length (quoted k)) t = quoted k"
    by (auto simp: key_at_end_def list_ex_iff)
  from arg_cong [OF k(2), of length] have "length (quoted k) \<le> length t" by simp
  then have "drop (length (pre @ t) - length (quoted k)) (pre @ t) = quoted k" using k(2) by simp
  with k(1) no show False by (auto simp: key_at_end_def list_ex_iff)
qed

lemma c_text_append: "c_text (s @ CHR 0x00 # behind) = c_text s"
  by (induction s) (simp_all add: c_text_def)

lemma find_key_append: "find_key key (s @ CHR 0x00 # behind) = map_option (\<lambda>t. t @ CHR 0x00 # behind) (find_key key s)"
proof -
  have "length (c_text s) \<le> length s" by (simp add: c_text_def length_takeWhile_le)
  then show ?thesis by (cases "strstr (quoted key) (c_text s)") (simp_all add: find_key_def c_text_append)
qed

lemma skip_append: "skip_to_digit (s @ CHR 0x00 # behind) = skip_to_digit s @ CHR 0x00 # behind"
  by (induction s) (simp_all add: skip_to_digit_def)

lemma atoi_append: "atoi_digits (s @ CHR 0x00 # behind) = atoi_digits s"
proof -
  have "\<not> decimal_digit (CHR 0x00)" by (simp add: decimal_digit_def)
  then have "takeWhile decimal_digit (s @ CHR 0x00 # behind) = takeWhile decimal_digit s" by (induction s) simp_all
  then show ?thesis by (simp add: atoi_digits_def)
qed

lemma skipped_key_append:
  assumes "\<not> key_at_end s" and "key \<in> set number_keys" and "find_key key s = Some t"
  shows "skip_to_digit (drop (length key + 3) (t @ CHR 0x00 # behind)) =
    skip_to_digit (drop (length key + 3) t) @ CHR 0x00 # behind"
proof -
  obtain pre where "s = pre @ t" using find_key_parts(1) [OF assms(3)] by blast
  then have "\<not> key_at_end t" using assms(1) key_at_end_suffix by blast
  then have "t \<noteq> quoted key" using assms(2) by (auto simp: key_at_end_def list_ex_iff)
  with find_key_parts(2, 3) [OF assms(3)] have "length key + 3 \<le> length t"
    by (cases "length t = length (quoted key)") auto
  then show ?thesis by (simp add: skip_append)
qed

lemma number_field_append:
  "\<not> key_at_end s \<Longrightarrow> key \<in> set number_keys \<Longrightarrow> number_field key a (s @ CHR 0x00 # behind) = number_field key a s"
  by (auto simp: number_field_def find_key_append skipped_key_append atoi_append simp del: drop_append split: option.split)

lemma parsed_append:
  assumes "\<not> key_at_end s"
  shows "parsed_register (s @ CHR 0x00 # behind) = parsed_register s" "parsed_coil (s @ CHR 0x00 # behind) = parsed_coil s"
  using number_field_append [OF assms]
  by (simp_all add: parsed_register_def parsed_coil_def atoi_append text_field_def c_text_append number_keys_def)

lemma number_start_append:
  assumes "\<not> key_at_end s" and "find_key ''address'' s = Some t"
  shows "number_start (t @ CHR 0x00 # behind) = number_start t @ CHR 0x00 # behind" "\<not> key_at_end (number_start t)"
proof -
  show "number_start (t @ CHR 0x00 # behind) = number_start t @ CHR 0x00 # behind"
    using skipped_key_append [OF assms(1) _ assms(2), of behind] by (simp add: number_start_def number_keys_def)
  have "\<exists>pre. t = pre @ number_start t"
    unfolding number_start_def skip_to_digit_def by (metis append_assoc append_take_drop_id takeWhile_dropWhile_id)
  then show "\<not> key_at_end (number_start t)"
    using find_key_parts(1) [OF assms(2)] assms(1) key_at_end_suffix by metis
qed

lemma load_registers_append:
  "\<not> key_at_end s \<Longrightarrow> load_registers grown k (s @ CHR 0x00 # behind) m = load_registers grown k s m"
proof (induction grown k s m rule: load_registers.induct)
  case (1 grown k s m)
  then show ?case
    by (cases "find_key ''address'' s")
      (simp_all add: load_registers.simps [of grown k s] load_registers.simps [of grown k "s @ CHR 0x00 # behind"]
        find_key_append number_start_append parsed_append Let_def)
qed

lemma load_coils_append:
  "\<not> key_at_end s \<Longrightarrow> load_coils grown k (s @ CHR 0x00 # behind) m = load_coils grown k s m"
proof (induction grown k s m rule: load_coils.induct)
  case (1 grown k s m)
  then show ?case
    by (cases "find_key ''address'' s")
      (simp_all add: load_coils.simps [of grown k s] load_coils.simps [of grown k "s @ CHR 0x00 # behind"]
        find_key_append number_start_append parsed_append Let_def)
qed

lemma load_json_append:
  assumes "\<not> key_at_end content"
  shows "register_map_load_json gr gc behind (Some content) mem_buf complete ctx =
    register_map_load_json gr gc behind' (Some content) mem_buf complete ctx"
proof -
  have "\<not> key_at_end t" if "find_key key content = Some t" for key t
    using find_key_parts(1) [OF that] assms key_at_end_suffix by blast
  then show ?thesis
    by (cases ctx; cases "find_key ''registers'' content"; cases "find_key ''coils'' content")
      (simp_all add: register_map_load_json_def find_key_append load_registers_append load_coils_append)
qed

text \<open>\<^bold>\<open>C38.\<close> Loading a register map ends and stays in its buffer: for a file that does not end in the quoted key of a
  number (address, type, data type, source or slot) the result does not depend on the memory behind the
  buffer, the two loops make at most a ninth as many turns as the text they start at has characters, and
  the table stays free of duplicates and within its arrays.\<close>

theorem register_map_load_ends:
  assumes "\<not> key_at_end content"
  shows "register_map_load_json gr gc behind (Some content) mem_buf complete ctx =
      register_map_load_json gr gc behind' (Some content) mem_buf complete ctx \<and>
    (\<forall>pre s. content = pre @ s \<longrightarrow> 9 * fst (load_registers gr 0 (s @ CHR 0x00 # behind) m) \<le> length s \<and>
      9 * fst (load_coils gc 0 (s @ CHR 0x00 # behind) m) \<le> length s) \<and>
    (register_map_wf m \<longrightarrow>
      register_map_wf (the (snd (register_map_load_json gr gc behind (Some content) mem_buf complete (Some m)))))"
proof -
  have "9 * fst (load_registers gr 0 (s @ CHR 0x00 # behind) m) \<le> length s \<and>
      9 * fst (load_coils gc 0 (s @ CHR 0x00 # behind) m) \<le> length s" if "content = pre @ s" for pre s
    using assms that key_at_end_suffix load_registers_count [of gr 0 s m] load_coils_count [of gc 0 s m]
    by (simp add: load_registers_append load_coils_append)
  with load_json_append [OF assms] load_json_wf show ?thesis by blast
qed

definition empty_map :: register_map where
  "empty_map = the (snd (register_map_init True None True True True))"

text \<open>A text that ends in such a key is read past the terminating zero: the address of the register comes from the
  memory behind the buffer.\<close>

lemma key_at_end_read_past:
  "map rm_modbus_addr (map_registers (snd (load_registers gr 0 (quoted ''address'' @ CHR 0x00 # ''7'') empty_map))) = [7]"
  "map rm_modbus_addr (map_registers (snd (load_registers gr 0 (quoted ''address'' @ CHR 0x00 # ''8'') empty_map))) = [8]"
  by (simp_all add: load_registers.simps find_key_def c_text_def quoted_def number_start_def skip_to_digit_def decimal_digit_def
      register_map_add_register_def empty_map_def register_map_init_def parsed_register_def atoi_digits_def Let_def)

theorem register_map_load_ends_witness:
  "\<not> key_at_end (quoted ''address'' @ '': 7'') \<and> register_map_wf empty_map \<and>
    register_map_wf (the (snd (register_map_load_json (\<lambda>_. True) (\<lambda>_. True) ''9''
      (Some (quoted ''address'' @ '': 7'')) True True (Some empty_map))))"
proof -
  have "register_map_wf empty_map"
    by (rule new_map_wf [of True None True True True]) (simp add: empty_map_def register_map_init_def)
  moreover have "\<not> key_at_end (quoted ''address'' @ '': 7'')"
    by (simp add: key_at_end_def number_keys_def quoted_def)
  ultimately show ?thesis
    using register_map_load_ends [of "quoted ''address'' @ '': 7''" "\<lambda>_. True" "\<lambda>_. True" "''9''" True True None "[]" empty_map] by blast
qed

end
