(* ===== verification/Gateway.thy ===== *)
theory Gateway
  imports RegisterMap ModbusLink Control
begin

text \<open>
  \<^verbatim>\<open>src/src/modbus/modbus_gateway.c\<close>: the Modbus server over the data of the plant, and its downstream
  clients.

  The contexts of the downstream connections are allocated and freed while other entries keep
  pointers to them, so they live in a store from addresses to contexts; an address that is not in the
  store has been freed. The array of clients is modelled with the entries behind the live ones, which
  the code does not clear. The registry and the control engine are part of the state.
\<close>

section \<open>State\<close>

definition MAX_MODBUS_CLIENTS :: nat where "MAX_MODBUS_CLIENTS = 247"

definition MODBUS_TRANSPORT_TCP :: int where "MODBUS_TRANSPORT_TCP = 0"
definition MODBUS_TRANSPORT_RTU :: int where "MODBUS_TRANSPORT_RTU = 1"

text \<open>The fields of the two transports, a union in C, side by side.\<close>

record downstream_device =
  dd_name :: string
  dd_transport :: int
  dd_enabled :: bool
  dd_host :: string
  dd_port :: u16
  dd_device :: string
  dd_baud_rate :: u32
  dd_data_bits :: u8
  dd_parity :: char
  dd_stop_bits :: u8
  dd_slave_addr :: u8
  dd_poll_interval_ms :: u32
  dd_timeout_ms :: u32

record modbus_gateway_config =
  gg_tcp_enabled :: bool
  gg_tcp_port :: u16
  gg_tcp_bind_address :: string
  gg_rtu_enabled :: bool
  gg_rtu_device :: string
  gg_rtu_baud_rate :: u32
  gg_rtu_slave_addr :: u8
  gg_downstream :: "downstream_device list"
  gg_register_map_file :: string
  gg_auto_generate_map :: bool
  gg_sensor_base_addr :: u16
  gg_actuator_base_addr :: u16

record downstream_client =
  dc_config :: downstream_device
  dc_tcp :: "nat option"
  dc_rtu :: "nat option"
  dc_connected :: bool
  dc_last_poll_ms :: u64
  dc_last_error_ms :: u64
  dc_consecutive_errors :: int

record downstream_cache_entry =
  ca_start_addr :: u16
  ca_count :: u16
  ca_values :: "u16 list"
  ca_last_update_ms :: u64
  ca_valid :: bool

record modbus_gateway =
  gw_config :: modbus_gateway_config
  gw_server_tcp :: "modbus_tcp option"
  gw_server_rtu :: "modbus_rtu option"
  gw_clients :: "downstream_client list"
  gw_client_count :: nat
  gw_register_map :: register_map
  gw_registry :: "rtu_registry option"
  gw_control :: "control_engine option"
  gw_alarms :: bool
  gw_running :: bool
  gw_total_requests :: u64
  gw_total_errors :: u64
  gw_tcp_store :: "nat \<Rightarrow> modbus_tcp option"
  gw_rtu_store :: "nat \<Rightarrow> modbus_rtu option"
  gw_cache :: "nat \<Rightarrow> downstream_cache_entry"

definition zero_device_config :: downstream_device where
  "zero_device_config = \<lparr>dd_name = [], dd_transport = 0, dd_enabled = False, dd_host = [], dd_port = 0, dd_device = [],
     dd_baud_rate = 0, dd_data_bits = 0, dd_parity = CHR 0x00, dd_stop_bits = 0, dd_slave_addr = 0, dd_poll_interval_ms = 0,
     dd_timeout_ms = 0\<rparr>"

definition zero_client :: downstream_client where
  "zero_client = \<lparr>dc_config = zero_device_config, dc_tcp = None, dc_rtu = None, dc_connected = False, dc_last_poll_ms = 0,
     dc_last_error_ms = 0, dc_consecutive_errors = 0\<rparr>"

definition zero_cache :: downstream_cache_entry where
  "zero_cache = \<lparr>ca_start_addr = 0, ca_count = 0, ca_values = replicate 128 0, ca_last_update_ms = 0, ca_valid = False\<rparr>"

text \<open>What a request meets: the clock of the registry, the networks of the clients, the uninitialised PDUs of the
  client functions, and what the machine makes of a float that does not fit the integer it is cast to.\<close>

record request_env =
  qe_now :: u64
  qe_net :: "nat \<Rightarrow> network"
  qe_wild :: "modbus_pdu \<times> modbus_pdu"
  qe_oob16 :: "f32 \<Rightarrow> u16"
  qe_oob_signed :: "f32 \<Rightarrow> u16"
  qe_oob8 :: "f32 \<Rightarrow> u8"

section \<open>Downstream reads and writes\<close>

definition client_read :: "network \<Rightarrow> modbus_pdu \<times> modbus_pdu \<Rightarrow> nat \<Rightarrow> u8 \<Rightarrow> u16 \<Rightarrow> u16 \<Rightarrow> modbus_gateway \<Rightarrow>
    (wtc_result \<times> u16 list option) \<times> modbus_gateway" where
  "client_read net wild i slave addr quantity g =
     (let cli = gw_clients g ! i in
      case dc_tcp cli of
        Some p \<Rightarrow>
          (let (r, c) = modbus_tcp_read_holding_registers net wild (gw_tcp_store g p) slave addr quantity True in
           (r, g\<lparr>gw_tcp_store := (gw_tcp_store g)(p := c)\<rparr>))
      | None \<Rightarrow>
          (case dc_rtu cli of
             Some p \<Rightarrow>
               (let (r, c) = modbus_rtu_read_holding_registers net wild (gw_rtu_store g p) slave addr quantity True in
                (r, g\<lparr>gw_rtu_store := (gw_rtu_store g)(p := c)\<rparr>))
           | None \<Rightarrow> ((WTC_ERROR_NOT_FOUND, None), g)))"

text \<open>The loop over the connected clients until one answers.\<close>

primrec read_some_client :: "request_env \<Rightarrow> u8 \<Rightarrow> u16 \<Rightarrow> nat list \<Rightarrow> modbus_gateway \<Rightarrow> u16 option \<times> modbus_gateway" where
  "read_some_client env slave addr [] g = (None, g)"
| "read_some_client env slave addr (i # is) g =
     (if \<not> dc_connected (gw_clients g ! i) then read_some_client env slave addr is g
      else
        (case client_read (qe_net env i) (qe_wild env) i slave addr 1 g of
           ((res, values), g) \<Rightarrow>
             if res = WTC_OK then (Some (the values ! 0), g) else read_some_client env slave addr is g))"

primrec write_some_client :: "request_env \<Rightarrow> u8 \<Rightarrow> u16 \<Rightarrow> u16 \<Rightarrow> nat list \<Rightarrow> modbus_gateway \<Rightarrow> wtc_result \<times> modbus_gateway" where
  "write_some_client env slave addr value [] g = (WTC_OK, g)"
| "write_some_client env slave addr value (i # is) g =
     (let cli = gw_clients g ! i in
      if \<not> dc_connected cli then write_some_client env slave addr value is g
      else
        (case (dc_tcp cli, dc_rtu cli) of
           (Some p, _) \<Rightarrow>
             (let (r, c) = modbus_tcp_write_single_register (qe_net env i) (qe_wild env) (gw_tcp_store g p) slave addr value in
              (r, g\<lparr>gw_tcp_store := (gw_tcp_store g)(p := c)\<rparr>))
         | (None, Some p) \<Rightarrow>
             (let (r, c) = modbus_rtu_write_single_register (qe_net env i) (qe_wild env) (gw_rtu_store g p) slave addr value in
              (r, g\<lparr>gw_rtu_store := (gw_rtu_store g)(p := c)\<rparr>))
         | (None, None) \<Rightarrow> write_some_client env slave addr value is g))"

section \<open>Register values\<close>

text \<open>Conversion to \<open>int16_t\<close> and from there to \<open>uint16_t\<close>.\<close>

definition f_to_int16 :: "(f32 \<Rightarrow> u16) \<Rightarrow> f32 \<Rightarrow> u16" where
  "f_to_int16 oob w =
     (case f_trunc w of
        Some i \<Rightarrow> if - 32768 \<le> i \<and> i \<le> 32767 then of_int i else oob w
      | None \<Rightarrow> oob w)"

definition raw_register_value :: "request_env \<Rightarrow> register_mapping \<Rightarrow> modbus_gateway \<Rightarrow> f32 \<times> modbus_gateway" where
  "raw_register_value env mapping g =
     (if rm_source mapping = DATA_SOURCE_PROFINET_SENSOR then
        (case gw_registry g of
           None \<Rightarrow> 0
         | Some r \<Rightarrow>
             (case rtu_registry_get_sensor (Some r) (Some (rm_rtu_station mapping)) (rm_slot mapping) True (qe_now env) of
                (res, data) \<Rightarrow> if res = WTC_OK then sd_value (the data) else 0), g)
      else if rm_source mapping = DATA_SOURCE_PROFINET_ACTUATOR then
        (case gw_registry g of
           None \<Rightarrow> 0
         | Some r \<Rightarrow>
             (case rtu_registry_get_actuator (Some r) (Some (rm_rtu_station mapping)) (rm_slot mapping) True of
                (res, state) \<Rightarrow> if res = WTC_OK then f_of_int (uint (ao_pwm_duty (as_output (the state)))) else 0), g)
      else if rm_source mapping = DATA_SOURCE_PID_SETPOINT \<or> rm_source mapping = DATA_SOURCE_PID_PV \<or>
              rm_source mapping = DATA_SOURCE_PID_CV then
        (case gw_control g of
           None \<Rightarrow> 0
         | Some e \<Rightarrow>
             (case control_engine_get_pid_loop (Some e) (rm_pid_loop_id mapping) True of
                (res, loop) \<Rightarrow>
                  if res = WTC_OK
                  then (if rm_source mapping = DATA_SOURCE_PID_SETPOINT then pl_setpoint (the loop)
                        else if rm_source mapping = DATA_SOURCE_PID_PV then pl_pv (the loop) else pl_cv (the loop))
                  else 0), g)
      else if rm_source mapping = DATA_SOURCE_MODBUS_CLIENT then
        (case read_some_client env (rm_source_slave mapping) (rm_source_addr mapping) [0..<gw_client_count g] g of
           (value, g) \<Rightarrow> (case value of None \<Rightarrow> 0 | Some v \<Rightarrow> f_of_int (uint v), g))
      else (0, g))"

definition read_register_value :: "request_env \<Rightarrow> register_mapping \<Rightarrow> modbus_gateway \<Rightarrow> u16 \<times> modbus_gateway" where
  "read_register_value env mapping g =
     (let (raw_value, g) = raw_register_value env mapping g;
          scaled = register_map_scale_value (Some (rm_scaling mapping)) raw_value in
      (if rm_data_type mapping = MODBUS_DTYPE_UINT16 then f_to_word (qe_oob16 env) scaled
       else if rm_data_type mapping = MODBUS_DTYPE_INT16 then f_to_int16 (qe_oob_signed env) scaled
       else f_to_word (qe_oob16 env) scaled, g))"

definition write_register_value :: "request_env \<Rightarrow> register_mapping \<Rightarrow> u16 \<Rightarrow> modbus_gateway \<Rightarrow> wtc_result \<times> modbus_gateway" where
  "write_register_value env mapping value g =
     (if rm_read_only mapping then (WTC_ERROR_INVALID_PARAM, g)
      else
        (let eng_value = f_of_int (uint value); raw_value = register_map_unscale_value (Some (rm_scaling mapping)) eng_value in
         if rm_source mapping = DATA_SOURCE_PROFINET_ACTUATOR then
           (case gw_registry g of
              None \<Rightarrow> (WTC_OK, g)
            | Some r \<Rightarrow>
                (let output = \<lparr>ao_command = (if f_lt 0 raw_value then 1 else 0), ao_pwm_duty = f_to_word (qe_oob8 env) raw_value\<rparr>;
                     (res, r) = rtu_registry_update_actuator (Some r) (Some (rm_rtu_station mapping)) (rm_slot mapping)
                                  (Some output) (qe_now env) in
                 (res, g\<lparr>gw_registry := r\<rparr>)))
         else if rm_source mapping = DATA_SOURCE_PID_SETPOINT then
           (case gw_control g of
              None \<Rightarrow> (WTC_OK, g)
            | Some e \<Rightarrow>
                (let (res, e) = control_engine_set_setpoint (Some e) (rm_pid_loop_id mapping) raw_value in
                 (res, g\<lparr>gw_control := e\<rparr>)))
         else if rm_source mapping = DATA_SOURCE_MODBUS_CLIENT then
           write_some_client env (rm_source_slave mapping) (rm_source_addr mapping) (f_to_word (qe_oob16 env) raw_value)
             [0..<gw_client_count g] g
         else (WTC_ERROR_INVALID_PARAM, g)))"

section \<open>Requests\<close>

text \<open>The loops over the registers or coils of a request; iteration \<open>i\<close> runs in \<open>env i\<close>. Addresses wrap around.\<close>

primrec read_registers :: "(nat \<Rightarrow> request_env) \<Rightarrow> int \<Rightarrow> u16 \<Rightarrow> nat list \<Rightarrow> u8 list \<times> modbus_gateway \<Rightarrow> u8 list \<times> modbus_gateway" where
  "read_registers env type start_addr [] dg = dg"
| "read_registers env type start_addr (i # is) dg =
     (let (data, g) = dg;
          (value, g) = (case register_map_get_register (Some (gw_register_map g)) type (start_addr + of_nat i) of
                          None \<Rightarrow> (0, g)
                        | Some mapping \<Rightarrow> read_register_value (env i) mapping g) in
      read_registers env type start_addr is (modbus_set_uint16_be (1 + i * 2) value data, g))"

primrec write_registers :: "(nat \<Rightarrow> request_env) \<Rightarrow> u16 \<Rightarrow> u8 list \<Rightarrow> nat list \<Rightarrow> modbus_gateway \<Rightarrow> u8 \<times> modbus_gateway" where
  "write_registers env start_addr data [] g = (MODBUS_EX_NONE, g)"
| "write_registers env start_addr data (i # is) g =
     (let value = modbus_get_uint16_be (drop (5 + i * 2) data) in
      case register_map_get_register (Some (gw_register_map g)) MODBUS_REG_HOLDING (start_addr + of_nat i) of
        None \<Rightarrow> (MODBUS_EX_ILLEGAL_DATA_ADDRESS, g)
      | Some mapping \<Rightarrow>
          if rm_read_only mapping then (MODBUS_EX_ILLEGAL_FUNCTION, g)
          else
            (case write_register_value (env i) mapping value g of
               (res, g) \<Rightarrow> if res \<noteq> WTC_OK then (MODBUS_EX_SLAVE_DEVICE_FAILURE, g)
                          else write_registers env start_addr data is g))"

definition coil_is_on :: "modbus_gateway \<Rightarrow> int \<Rightarrow> u16 \<Rightarrow> bool" where
  "coil_is_on g type addr =
     (case register_map_get_coil (Some (gw_register_map g)) type addr of
        None \<Rightarrow> False
      | Some mapping \<Rightarrow>
          (case gw_registry g of
             None \<Rightarrow> False
           | Some r \<Rightarrow>
               cm_source mapping = DATA_SOURCE_PROFINET_ACTUATOR \<and>
               (case rtu_registry_get_actuator (Some r) (Some (cm_rtu_station mapping)) (cm_slot mapping) True of
                  (res, state) \<Rightarrow> res = WTC_OK \<and> uint (ao_command (as_output (the state))) = cm_command_on_value mapping)))"

primrec read_coils :: "modbus_gateway \<Rightarrow> int \<Rightarrow> u16 \<Rightarrow> nat list \<Rightarrow> u8 list \<Rightarrow> u8 list" where
  "read_coils g type start_addr [] data = data"
| "read_coils g type start_addr (i # is) data =
     read_coils g type start_addr is
       (if coil_is_on g type (start_addr + of_nat i)
        then data[1 + i div 8 := data ! (1 + i div 8) OR push_bit (i mod 8) 1] else data)"

definition write_coil :: "request_env \<Rightarrow> coil_mapping \<Rightarrow> bool \<Rightarrow> modbus_gateway \<Rightarrow> modbus_gateway" where
  "write_coil env mapping on g =
     (case gw_registry g of
        None \<Rightarrow> g
      | Some r \<Rightarrow>
          if cm_source mapping = DATA_SOURCE_PROFINET_ACTUATOR
          then (let output = \<lparr>ao_command = of_int (if on then cm_command_on_value mapping else cm_command_off_value mapping),
                              ao_pwm_duty = 0\<rparr> in
                g\<lparr>gw_registry := snd (rtu_registry_update_actuator (Some r) (Some (cm_rtu_station mapping)) (cm_slot mapping)
                     (Some output) (qe_now env))\<rparr>)
          else g)"

text \<open>The cases of the dispatch on the function code. The response is the caller's, with the function code already
  set.\<close>

type_synonym served = "(u8 \<times> modbus_pdu) \<times> modbus_gateway"

definition serve_read_registers :: "(nat \<Rightarrow> request_env) \<Rightarrow> int \<Rightarrow> u16 \<Rightarrow> u16 \<Rightarrow> modbus_pdu \<Rightarrow> modbus_gateway \<Rightarrow> served" where
  "serve_read_registers env reg_type start_addr quantity response g =
     (if MODBUS_MAX_READ_REGISTERS < quantity then ((MODBUS_EX_ILLEGAL_DATA_VALUE, response), g)
      else
        (let (data, g) = read_registers env reg_type start_addr [0..<unat quantity]
                           ((pdu_data response)[0 := ucast (quantity * 2)], g) in
         ((MODBUS_EX_NONE, response\<lparr>pdu_data := data, pdu_data_len := 1 + quantity * 2\<rparr>), g)))"

definition echo_request :: "modbus_pdu \<Rightarrow> modbus_pdu \<Rightarrow> modbus_pdu" where
  "echo_request request response =
     response\<lparr>pdu_data := memcpy_at (pdu_data response) 0 (take 4 (pdu_data request)), pdu_data_len := 4\<rparr>"

definition serve_write_register :: "request_env \<Rightarrow> u16 \<Rightarrow> u16 \<Rightarrow> modbus_pdu \<Rightarrow> modbus_pdu \<Rightarrow> modbus_gateway \<Rightarrow> served" where
  "serve_write_register env start_addr value request response g =
     (case register_map_get_register (Some (gw_register_map g)) MODBUS_REG_HOLDING start_addr of
        None \<Rightarrow> ((MODBUS_EX_ILLEGAL_DATA_ADDRESS, response), g)
      | Some mapping \<Rightarrow>
          if rm_read_only mapping then ((MODBUS_EX_ILLEGAL_FUNCTION, response), g)
          else
            (case write_register_value env mapping value g of
               (res, g) \<Rightarrow> if res \<noteq> WTC_OK then ((MODBUS_EX_SLAVE_DEVICE_FAILURE, response), g)
                          else ((MODBUS_EX_NONE, echo_request request response), g)))"

definition serve_write_registers :: "(nat \<Rightarrow> request_env) \<Rightarrow> u16 \<Rightarrow> u16 \<Rightarrow> modbus_pdu \<Rightarrow> modbus_pdu \<Rightarrow> modbus_gateway \<Rightarrow> served" where
  "serve_write_registers env start_addr quantity request response g =
     (if MODBUS_MAX_WRITE_REGISTERS < quantity then ((MODBUS_EX_ILLEGAL_DATA_VALUE, response), g)
      else
        (case write_registers env start_addr (pdu_data request) [0..<unat quantity] g of
           (ex, g) \<Rightarrow>
             if ex \<noteq> MODBUS_EX_NONE then ((ex, response), g)
             else ((MODBUS_EX_NONE, response\<lparr>pdu_data := modbus_set_uint16_be 2 quantity
                     (modbus_set_uint16_be 0 start_addr (pdu_data response)), pdu_data_len := 4\<rparr>), g)))"

definition serve_read_coils :: "int \<Rightarrow> u16 \<Rightarrow> u16 \<Rightarrow> modbus_pdu \<Rightarrow> modbus_gateway \<Rightarrow> served" where
  "serve_read_coils coil_type start_addr quantity response g =
     (if MODBUS_MAX_READ_BITS < quantity then ((MODBUS_EX_ILLEGAL_DATA_VALUE, response), g)
      else
        (let byte_count = coil_bytes quantity;
             data = memcpy_at ((pdu_data response)[0 := byte_count]) 1 (replicate (unat byte_count) 0) in
         ((MODBUS_EX_NONE, response\<lparr>pdu_data := read_coils g coil_type start_addr [0..<unat quantity] data,
            pdu_data_len := 1 + ucast byte_count\<rparr>), g)))"

definition serve_write_coil :: "request_env \<Rightarrow> u16 \<Rightarrow> u16 \<Rightarrow> modbus_pdu \<Rightarrow> modbus_pdu \<Rightarrow> modbus_gateway \<Rightarrow> served" where
  "serve_write_coil env start_addr value request response g =
     (case register_map_get_coil (Some (gw_register_map g)) MODBUS_REG_COIL start_addr of
        None \<Rightarrow> ((MODBUS_EX_ILLEGAL_DATA_ADDRESS, response), g)
      | Some mapping \<Rightarrow>
          if cm_read_only mapping then ((MODBUS_EX_ILLEGAL_FUNCTION, response), g)
          else ((MODBUS_EX_NONE, echo_request request response), write_coil env mapping (value = 0xFF00) g))"

definition serve_request :: "(nat \<Rightarrow> request_env) \<Rightarrow> modbus_pdu \<Rightarrow> modbus_pdu \<Rightarrow> modbus_gateway \<Rightarrow> served" where
  "serve_request env request response g =
     (let g = g\<lparr>gw_total_requests := gw_total_requests g + 1\<rparr>;
          start_addr = modbus_get_uint16_be (pdu_data request); quantity = modbus_get_uint16_be (drop 2 (pdu_data request));
          fc = pdu_function_code request; response = response\<lparr>pdu_function_code := fc\<rparr> in
      if fc = MODBUS_FC_READ_HOLDING_REGISTERS \<or> fc = MODBUS_FC_READ_INPUT_REGISTERS then
        serve_read_registers env (if fc = MODBUS_FC_READ_HOLDING_REGISTERS then MODBUS_REG_HOLDING else MODBUS_REG_INPUT)
          start_addr quantity response g
      else if fc = MODBUS_FC_WRITE_SINGLE_REGISTER then serve_write_register (env 0) start_addr quantity request response g
      else if fc = MODBUS_FC_WRITE_MULTIPLE_REGISTERS then serve_write_registers env start_addr quantity request response g
      else if fc = MODBUS_FC_READ_COILS \<or> fc = MODBUS_FC_READ_DISCRETE_INPUTS then
        serve_read_coils (if fc = MODBUS_FC_READ_COILS then MODBUS_REG_COIL else MODBUS_REG_DISCRETE_INPUT)
          start_addr quantity response g
      else if fc = MODBUS_FC_WRITE_SINGLE_COIL then serve_write_coil (env 0) start_addr quantity request response g
      else ((MODBUS_EX_ILLEGAL_FUNCTION, response), g))"

definition handle_server_request ::
  "(nat \<Rightarrow> request_env) \<Rightarrow> u8 \<Rightarrow> modbus_pdu \<Rightarrow> modbus_pdu \<Rightarrow> modbus_gateway option \<Rightarrow> (u8 \<times> modbus_pdu) \<times> modbus_gateway option" where
  "handle_server_request env unit_id request response =
     on_handle (MODBUS_EX_SLAVE_DEVICE_FAILURE, response) (serve_request env request response)"

definition handle_rtu_request ::
  "(nat \<Rightarrow> request_env) \<Rightarrow> u8 \<Rightarrow> modbus_pdu \<Rightarrow> modbus_pdu \<Rightarrow> modbus_gateway option \<Rightarrow> (u8 \<times> modbus_pdu) \<times> modbus_gateway option" where
  "handle_rtu_request env slave_addr request response = handle_server_request env slave_addr request response"

section \<open>Downstream clients\<close>

definition set_client :: "nat \<Rightarrow> (downstream_client \<Rightarrow> downstream_client) \<Rightarrow> modbus_gateway \<Rightarrow> modbus_gateway" where
  "set_client i f g = g\<lparr>gw_clients := (gw_clients g)[i := f (gw_clients g ! i)]\<rparr>"

text \<open>Connecting client \<open>i\<close>: the address at which its context is allocated, the outcome of the allocation, and what the
  operating system answers.\<close>

record connect_env =
  ce_addr :: "nat \<Rightarrow> nat"
  ce_mem :: "nat \<Rightarrow> bool"
  ce_fd :: "nat \<Rightarrow> int"
  ce_address_ok :: "nat \<Rightarrow> bool"
  ce_outcome :: "nat \<Rightarrow> connect_outcome"
  ce_configured :: "nat \<Rightarrow> bool"

definition client_tcp_config :: "downstream_device \<Rightarrow> modbus_tcp_config" where
  "client_tcp_config d = \<lparr>tg_role = MODBUS_ROLE_CLIENT, tg_bind_address = [], tg_port = 0, tg_timeout_ms = dd_timeout_ms d,
     tg_max_connections = 0, tg_request_handler = False, tg_on_connect = False, tg_on_disconnect = False\<rparr>"

definition client_rtu_config :: "downstream_device \<Rightarrow> modbus_rtu_config" where
  "client_rtu_config d = \<lparr>rg_role = MODBUS_ROLE_CLIENT, rg_device = cstr_copy 63 (dd_device d), rg_baud_rate = dd_baud_rate d,
     rg_data_bits = dd_data_bits d, rg_parity = dd_parity d, rg_stop_bits = dd_stop_bits d, rg_slave_addr = 0,
     rg_timeout_ms = dd_timeout_ms d, rg_inter_frame_delay_us = 0, rg_request_handler = False\<rparr>"

definition connect_tcp_client :: "connect_env \<Rightarrow> nat \<Rightarrow> modbus_gateway \<Rightarrow> modbus_gateway" where
  "connect_tcp_client env i g =
     (let cli = gw_clients g ! i;
          g = (if dc_tcp cli \<noteq> None then g
               else (case modbus_tcp_init True (Some (client_tcp_config (dc_config cli))) (ce_mem env i) of
                       (_, None) \<Rightarrow> g
                     | (_, Some c) \<Rightarrow> set_client i (\<lambda>k. k\<lparr>dc_tcp := Some (ce_addr env i)\<rparr>)
                         (g\<lparr>gw_tcp_store := (gw_tcp_store g)(ce_addr env i := Some c)\<rparr>))) in
      case dc_tcp (gw_clients g ! i) of
        None \<Rightarrow> g
      | Some p \<Rightarrow>
          (let (res, c) = modbus_tcp_connect (ce_fd env i) (ce_address_ok env i) (ce_outcome env i)
                            (Some (dd_host (dc_config cli))) (gw_tcp_store g p);
               g = g\<lparr>gw_tcp_store := (gw_tcp_store g)(p := c)\<rparr> in
           if res = WTC_OK then set_client i (\<lambda>k. k\<lparr>dc_connected := True\<rparr>) g else g))"

definition connect_rtu_client :: "connect_env \<Rightarrow> nat \<Rightarrow> modbus_gateway \<Rightarrow> modbus_gateway" where
  "connect_rtu_client env i g =
     (let cli = gw_clients g ! i;
          g = (if dc_rtu cli \<noteq> None then g
               else (case modbus_rtu_init True (Some (client_rtu_config (dc_config cli))) (ce_mem env i) of
                       (_, None) \<Rightarrow> g
                     | (_, Some c) \<Rightarrow> set_client i (\<lambda>k. k\<lparr>dc_rtu := Some (ce_addr env i)\<rparr>)
                         (g\<lparr>gw_rtu_store := (gw_rtu_store g)(ce_addr env i := Some c)\<rparr>))) in
      case dc_rtu (gw_clients g ! i) of
        None \<Rightarrow> g
      | Some p \<Rightarrow>
          (let (res, c) = modbus_rtu_open (ce_fd env i) (ce_configured env i) (gw_rtu_store g p);
               g = g\<lparr>gw_rtu_store := (gw_rtu_store g)(p := c)\<rparr> in
           if res = WTC_OK then set_client i (\<lambda>k. k\<lparr>dc_connected := True\<rparr>) g else g))"

definition connect_client :: "connect_env \<Rightarrow> nat \<Rightarrow> modbus_gateway \<Rightarrow> modbus_gateway" where
  "connect_client env i g =
     (let cli = gw_clients g ! i in
      if \<not> dd_enabled (dc_config cli) \<or> dc_connected cli then g
      else if dd_transport (dc_config cli) = MODBUS_TRANSPORT_TCP then connect_tcp_client env i g
      else if dd_transport (dc_config cli) = MODBUS_TRANSPORT_RTU then connect_rtu_client env i g
      else g)"

definition connect_downstream_clients :: "connect_env \<Rightarrow> modbus_gateway \<Rightarrow> modbus_gateway" where
  "connect_downstream_clients env g = fold (connect_client env) [0..<gw_client_count g] g"

section \<open>Life cycle\<close>

record gateway_init_env =
  gi_mem :: bool
  gi_map :: "bool \<times> bool \<times> bool"
  gi_file :: "string option"
  gi_behind :: string
  gi_load :: "bool \<times> bool"
  gi_grown :: "(nat \<Rightarrow> bool) \<times> (nat \<Rightarrow> bool)"
  gi_tcp :: bool
  gi_rtu :: bool

definition server_tcp_config :: "modbus_gateway_config \<Rightarrow> modbus_tcp_config" where
  "server_tcp_config config = \<lparr>tg_role = MODBUS_ROLE_SERVER, tg_bind_address = cstr_copy 63 (gg_tcp_bind_address config),
     tg_port = (if gg_tcp_port config \<noteq> 0 then gg_tcp_port config else 502), tg_timeout_ms = 5000, tg_max_connections = 32,
     tg_request_handler = True, tg_on_connect = False, tg_on_disconnect = False\<rparr>"

definition server_rtu_config :: "modbus_gateway_config \<Rightarrow> modbus_rtu_config" where
  "server_rtu_config config = \<lparr>rg_role = MODBUS_ROLE_SERVER, rg_device = cstr_copy 63 (gg_rtu_device config),
     rg_baud_rate = (if gg_rtu_baud_rate config \<noteq> 0 then gg_rtu_baud_rate config else 9600), rg_data_bits = 8,
     rg_parity = CHR ''N'', rg_stop_bits = 1,
     rg_slave_addr = (if gg_rtu_slave_addr config \<noteq> 0 then gg_rtu_slave_addr config else 1), rg_timeout_ms = 1000,
     rg_inter_frame_delay_us = 0, rg_request_handler = True\<rparr>"

definition modbus_gateway_init ::
  "gateway_init_env \<Rightarrow> bool \<Rightarrow> modbus_gateway_config option \<Rightarrow> wtc_result \<times> modbus_gateway option" where
  "modbus_gateway_init env gw_ok config =
     (case config of
        None \<Rightarrow> (WTC_ERROR_INVALID_PARAM, None)
      | Some g \<Rightarrow>
          if \<not> gw_ok then (WTC_ERROR_INVALID_PARAM, None)
          else if \<not> gi_mem env then (WTC_ERROR_NO_MEMORY, None)
          else
            (let (ma, mb, mc) = gi_map env;
                 zero = \<lparr>rx_holding_base_addr = 0, rx_input_base_addr = 0, rx_coil_base_addr = 0, rx_discrete_base_addr = 0\<rparr> in
             case register_map_init True (Some zero) ma mb mc of
               (_, None) \<Rightarrow> (WTC_ERROR_NO_MEMORY, None)
             | (_, Some m) \<Rightarrow>
                 (let m = (if gg_register_map_file g = [] then m
                           else the (snd (register_map_load_json (fst (gi_grown env)) (snd (gi_grown env)) (gi_behind env)
                                  (gi_file env) (fst (gi_load env)) (snd (gi_load env)) (Some m))));
                      tcp = (if gg_tcp_enabled g then snd (modbus_tcp_init True (Some (server_tcp_config g)) (gi_tcp env)) else None);
                      rtu = (if gg_rtu_enabled g \<and> gg_rtu_device g \<noteq> []
                             then snd (modbus_rtu_init True (Some (server_rtu_config g)) (gi_rtu env)) else None);
                      devices = take MAX_MODBUS_CLIENTS (gg_downstream g) in
                  (WTC_OK, Some \<lparr>gw_config = g, gw_server_tcp = tcp, gw_server_rtu = rtu,
                     gw_clients = map (\<lambda>d. zero_client\<lparr>dc_config := d\<rparr>) devices @
                                  replicate (MAX_MODBUS_CLIENTS - length devices) zero_client,
                     gw_client_count = length devices, gw_register_map = m, gw_registry = None, gw_control = None,
                     gw_alarms = False, gw_running = False, gw_total_requests = 0, gw_total_errors = 0,
                     gw_tcp_store = (\<lambda>_. None), gw_rtu_store = (\<lambda>_. None), gw_cache = (\<lambda>_. zero_cache)\<rparr>))))"

definition modbus_gateway_set_registry ::
  "generate_env \<Rightarrow> rtu_registry option \<Rightarrow> modbus_gateway option \<Rightarrow> wtc_result \<times> modbus_gateway option" where
  "modbus_gateway_set_registry env registry =
     on_handle WTC_ERROR_INVALID_PARAM (\<lambda>g.
       let g = g\<lparr>gw_registry := registry\<rparr> in
       (WTC_OK,
        if gg_auto_generate_map (gw_config g) \<and> registry \<noteq> None
        then g\<lparr>gw_register_map := the (snd (register_map_auto_generate env (Some (gw_register_map g)) registry
               (gg_sensor_base_addr (gw_config g)) (gg_actuator_base_addr (gw_config g))))\<rparr>
        else g))"

definition modbus_gateway_set_control_engine :: "control_engine option \<Rightarrow> modbus_gateway option \<Rightarrow> wtc_result \<times> modbus_gateway option" where
  "modbus_gateway_set_control_engine control = on_handle WTC_ERROR_INVALID_PARAM (\<lambda>g. (WTC_OK, g\<lparr>gw_control := control\<rparr>))"

definition modbus_gateway_set_alarm_manager :: "bool \<Rightarrow> modbus_gateway option \<Rightarrow> wtc_result \<times> modbus_gateway option" where
  "modbus_gateway_set_alarm_manager alarms = on_handle WTC_ERROR_INVALID_PARAM (\<lambda>g. (WTC_OK, g\<lparr>gw_alarms := alarms\<rparr>))"

text \<open>Starting: the outcomes for the two servers (descriptor and the calls that follow), then the clients connect.\<close>

definition modbus_gateway_start ::
  "int \<times> bool \<times> bool \<times> bool \<Rightarrow> int \<times> bool \<times> bool \<Rightarrow> connect_env \<Rightarrow> modbus_gateway option \<Rightarrow> wtc_result \<times> modbus_gateway option" where
  "modbus_gateway_start tcp_os rtu_os env =
     on_handle WTC_ERROR_INVALID_PARAM (\<lambda>g.
       let g = g\<lparr>gw_running := True\<rparr>;
           g = (case (gw_server_tcp g, tcp_os) of
                  (None, _) \<Rightarrow> g
                | (Some c, fd, bound, listening, thread) \<Rightarrow>
                    g\<lparr>gw_server_tcp := snd (modbus_tcp_server_start fd bound listening thread (Some c))\<rparr>);
           g = (case (gw_server_rtu g, rtu_os) of
                  (None, _) \<Rightarrow> g
                | (Some c, fd, configured, thread) \<Rightarrow>
                    g\<lparr>gw_server_rtu := snd (modbus_rtu_server_start fd configured thread (Some c))\<rparr>) in
       (WTC_OK, connect_downstream_clients env g))"

definition disconnect_client :: "nat \<Rightarrow> modbus_gateway \<Rightarrow> modbus_gateway" where
  "disconnect_client i g =
     (let cli = gw_clients g ! i;
          g = (case dc_tcp cli of None \<Rightarrow> g
               | Some p \<Rightarrow> g\<lparr>gw_tcp_store := (gw_tcp_store g)(p := map_option modbus_tcp_disconnect (gw_tcp_store g p))\<rparr>);
          g = (case dc_rtu cli of None \<Rightarrow> g
               | Some p \<Rightarrow> g\<lparr>gw_rtu_store := (gw_rtu_store g)(p := map_option modbus_rtu_close (gw_rtu_store g p))\<rparr>) in
      set_client i (\<lambda>k. k\<lparr>dc_connected := False\<rparr>) g)"

definition modbus_gateway_stop :: "modbus_gateway option \<Rightarrow> wtc_result \<times> modbus_gateway option" where
  "modbus_gateway_stop =
     on_handle WTC_ERROR_INVALID_PARAM (\<lambda>g.
       let g = g\<lparr>gw_running := False\<rparr>;
           g = (case gw_server_tcp g of None \<Rightarrow> g | Some c \<Rightarrow> g\<lparr>gw_server_tcp := snd (modbus_tcp_server_stop (Some c))\<rparr>);
           g = (case gw_server_rtu g of None \<Rightarrow> g | Some c \<Rightarrow> g\<lparr>gw_server_rtu := snd (modbus_rtu_server_stop (Some c))\<rparr>) in
       (WTC_OK, fold disconnect_client [0..<gw_client_count g] g))"

section \<open>Polling\<close>

text \<open>\<open>now\<close> is the clock after the read; the cache is a static array of the file. Ten registers from address 0 on are
  read. The context is used only while the client is connected.\<close>

definition poll_downstream_client ::
  "network \<Rightarrow> modbus_pdu \<times> modbus_pdu \<Rightarrow> u64 \<Rightarrow> nat \<Rightarrow> modbus_gateway \<Rightarrow> modbus_gateway" where
  "poll_downstream_client net wild now i g =
     (let cli = gw_clients g ! i; start_addr = 0; quantity = 10;
          ((res, values), g) = (if dc_connected cli then client_read net wild i (dd_slave_addr (dc_config cli)) start_addr quantity g
                                else ((WTC_ERROR_NOT_FOUND, None), g)) in
      if res = WTC_OK then
        set_client i (\<lambda>k. k\<lparr>dc_consecutive_errors := 0\<rparr>)
          (g\<lparr>gw_cache := (gw_cache g)(i := (gw_cache g i)\<lparr>ca_start_addr := start_addr, ca_count := quantity,
               ca_values := memcpy_at (ca_values (gw_cache g i)) 0 (the values), ca_last_update_ms := now, ca_valid := True\<rparr>)\<rparr>)
      else
        (let g = set_client i (\<lambda>k. k\<lparr>dc_consecutive_errors := dc_consecutive_errors k + 1, dc_last_error_ms := now\<rparr>) g in
         if 3 \<le> dc_consecutive_errors (gw_clients g ! i)
         then (set_client i (\<lambda>k. k\<lparr>dc_connected := False\<rparr>) g)
                \<lparr>gw_cache := (gw_cache g)(i := (gw_cache g i)\<lparr>ca_valid := False\<rparr>)\<rparr>
         else g))"

record poll_env =
  po_now :: u64
  po_connect :: "nat \<Rightarrow> connect_env"
  po_net :: "nat \<Rightarrow> network"
  po_wild :: "nat \<Rightarrow> modbus_pdu \<times> modbus_pdu"
  po_after :: "nat \<Rightarrow> u64"

definition process_client :: "poll_env \<Rightarrow> nat \<Rightarrow> modbus_gateway \<Rightarrow> modbus_gateway" where
  "process_client env i g =
     (let cli = gw_clients g ! i in
      if \<not> dd_enabled (dc_config cli) then g
      else if \<not> dc_connected cli then
        (if 5000 < po_now env - dc_last_error_ms cli then connect_downstream_clients (po_connect env i) g else g)
      else if 0 < dd_poll_interval_ms (dc_config cli) \<and> ucast (dd_poll_interval_ms (dc_config cli)) \<le> po_now env - dc_last_poll_ms cli
        then poll_downstream_client (po_net env i) (po_wild env i) (po_after env i) i
               (set_client i (\<lambda>k. k\<lparr>dc_last_poll_ms := po_now env\<rparr>) g)
      else g)"

definition modbus_gateway_process :: "poll_env \<Rightarrow> modbus_gateway option \<Rightarrow> wtc_result \<times> modbus_gateway option" where
  "modbus_gateway_process env =
     on_handle WTC_ERROR_INVALID_PARAM (\<lambda>g.
       if \<not> gw_running g then (WTC_ERROR_INVALID_PARAM, g)
       else (WTC_OK, fold (process_client env) [0..<gw_client_count g] g))"

section \<open>Adding and removing clients\<close>

text \<open>Adding writes the configuration only: the other fields of the entry are what they were.\<close>

definition modbus_gateway_add_downstream ::
  "downstream_device option \<Rightarrow> modbus_gateway option \<Rightarrow> wtc_result \<times> modbus_gateway option" where
  "modbus_gateway_add_downstream device =
     on_handle WTC_ERROR_INVALID_PARAM (\<lambda>g.
       case device of
         None \<Rightarrow> (WTC_ERROR_INVALID_PARAM, g)
       | Some d \<Rightarrow>
           if MAX_MODBUS_CLIENTS \<le> gw_client_count g then (WTC_ERROR_INVALID_PARAM, g)
           else (WTC_OK, (set_client (gw_client_count g) (\<lambda>k. k\<lparr>dc_config := d\<rparr>) g)\<lparr>gw_client_count := gw_client_count g + 1\<rparr>))"

definition free_client :: "downstream_client \<Rightarrow> modbus_gateway \<Rightarrow> modbus_gateway" where
  "free_client cli g =
     (let g = (case dc_tcp cli of None \<Rightarrow> g | Some p \<Rightarrow> g\<lparr>gw_tcp_store := (gw_tcp_store g)(p := None)\<rparr>) in
      (case dc_rtu cli of None \<Rightarrow> g | Some p \<Rightarrow> g\<lparr>gw_rtu_store := (gw_rtu_store g)(p := None)\<rparr>))"

text \<open>The loop \<open>clients[j] = clients[j + 1]\<close> for \<open>j\<close> from \<open>i\<close> below \<open>n - 1\<close>; the last entry stays behind.\<close>

definition shift_down :: "nat \<Rightarrow> nat \<Rightarrow> 'a list \<Rightarrow> 'a list" where
  "shift_down i n xs = fold (\<lambda>j ys. ys[j := ys ! (j + 1)]) [i..<n - 1] xs"

definition modbus_gateway_remove_downstream ::
  "string option \<Rightarrow> modbus_gateway option \<Rightarrow> wtc_result \<times> modbus_gateway option" where
  "modbus_gateway_remove_downstream name =
     on_handle WTC_ERROR_INVALID_PARAM (\<lambda>g.
       case name of
         None \<Rightarrow> (WTC_ERROR_INVALID_PARAM, g)
       | Some n \<Rightarrow>
           (case find_pos (\<lambda>k. dd_name (dc_config k) = n) (take (gw_client_count g) (gw_clients g)) of
              None \<Rightarrow> (WTC_ERROR_NOT_FOUND, g)
            | Some i \<Rightarrow>
                (let g = free_client (gw_clients g ! i) g in
                 (WTC_OK, g\<lparr>gw_clients := shift_down i (gw_client_count g) (gw_clients g),
                            gw_client_count := gw_client_count g - 1\<rparr>))))"

definition modbus_gateway_get_register_map :: "modbus_gateway option \<Rightarrow> register_map option" where
  "modbus_gateway_get_register_map = with_handle None (\<lambda>g. Some (gw_register_map g))"

record modbus_gateway_stats =
  gs_server_tcp_stats :: modbus_stats
  gs_server_rtu_stats :: modbus_stats
  gs_client_stats :: "modbus_stats list"
  gs_active_tcp_connections :: int
  gs_downstream_devices_online :: int
  gs_total_requests_processed :: u64
  gs_total_errors :: u64

definition client_stats :: "modbus_gateway \<Rightarrow> nat \<Rightarrow> modbus_stats" where
  "client_stats g i =
     (if gw_client_count g \<le> i then zero_stats
      else
        (let cli = gw_clients g ! i;
             st = (case dc_tcp cli of None \<Rightarrow> zero_stats
                   | Some p \<Rightarrow> (case gw_tcp_store g p of None \<Rightarrow> zero_stats | Some c \<Rightarrow> mt_stats c)) in
         case dc_rtu cli of None \<Rightarrow> st
         | Some p \<Rightarrow> (case gw_rtu_store g p of None \<Rightarrow> st | Some c \<Rightarrow> mr_stats c)))"

definition modbus_gateway_get_stats :: "modbus_gateway option \<Rightarrow> bool \<Rightarrow> wtc_result \<times> modbus_gateway_stats option" where
  "modbus_gateway_get_stats gw stats_ok =
     with_handle (WTC_ERROR_INVALID_PARAM, None) (\<lambda>g.
       if \<not> stats_ok then (WTC_ERROR_INVALID_PARAM, None)
       else (WTC_OK, Some \<lparr>
         gs_server_tcp_stats = (case gw_server_tcp g of None \<Rightarrow> zero_stats | Some c \<Rightarrow> mt_stats c),
         gs_server_rtu_stats = (case gw_server_rtu g of None \<Rightarrow> zero_stats | Some c \<Rightarrow> mr_stats c),
         gs_client_stats = map (client_stats g) [0..<MAX_MODBUS_CLIENTS],
         gs_active_tcp_connections = modbus_tcp_get_connection_count (gw_server_tcp g),
         gs_downstream_devices_online = int (length (filter dc_connected (take (gw_client_count g) (gw_clients g)))),
         gs_total_requests_processed = gw_total_requests g, gs_total_errors = gw_total_errors g\<rparr>)) gw"

text \<open>The loops over the clients by name return at a client of that name unless it is connected without a context.\<close>

definition client_answers :: "string \<Rightarrow> downstream_client \<Rightarrow> bool" where
  "client_answers n k \<longleftrightarrow> dd_name (dc_config k) = n \<and> \<not> (dc_connected k \<and> dc_tcp k = None \<and> dc_rtu k = None)"

definition modbus_gateway_read_downstream ::
  "network \<Rightarrow> modbus_pdu \<times> modbus_pdu \<Rightarrow> string option \<Rightarrow> u16 \<Rightarrow> u16 \<Rightarrow> bool \<Rightarrow> modbus_gateway option \<Rightarrow>
   (wtc_result \<times> u16 list option) \<times> modbus_gateway option" where
  "modbus_gateway_read_downstream net wild device_name start_addr quantity values_ok =
     on_handle (WTC_ERROR_INVALID_PARAM, None) (\<lambda>g.
       case device_name of
         None \<Rightarrow> ((WTC_ERROR_INVALID_PARAM, None), g)
       | Some n \<Rightarrow>
           if \<not> values_ok then ((WTC_ERROR_INVALID_PARAM, None), g)
           else
             (case find_pos (client_answers n) (take (gw_client_count g) (gw_clients g)) of
                None \<Rightarrow> ((WTC_ERROR_NOT_FOUND, None), g)
              | Some i \<Rightarrow>
                  if \<not> dc_connected (gw_clients g ! i) then ((WTC_ERROR_NOT_CONNECTED, None), g)
                  else client_read net wild i (dd_slave_addr (dc_config (gw_clients g ! i))) start_addr quantity g))"

definition modbus_gateway_write_downstream ::
  "network \<Rightarrow> modbus_pdu \<times> modbus_pdu \<Rightarrow> string option \<Rightarrow> u16 \<Rightarrow> u16 \<Rightarrow> u16 list option \<Rightarrow> modbus_gateway option \<Rightarrow>
   wtc_result \<times> modbus_gateway option" where
  "modbus_gateway_write_downstream net wild device_name start_addr quantity values =
     on_handle WTC_ERROR_INVALID_PARAM (\<lambda>g.
       case device_name of
         None \<Rightarrow> (WTC_ERROR_INVALID_PARAM, g)
       | Some n \<Rightarrow>
           if values = None then (WTC_ERROR_INVALID_PARAM, g)
           else
             (case find_pos (client_answers n) (take (gw_client_count g) (gw_clients g)) of
                None \<Rightarrow> (WTC_ERROR_NOT_FOUND, g)
              | Some i \<Rightarrow>
                  (let cli = gw_clients g ! i in
                   if \<not> dc_connected cli then (WTC_ERROR_NOT_CONNECTED, g)
                   else case (dc_tcp cli, dc_rtu cli) of
                     (Some p, _) \<Rightarrow>
                       (let (r, c) = modbus_tcp_write_multiple_registers net wild (gw_tcp_store g p)
                               (dd_slave_addr (dc_config cli)) start_addr quantity values in
                        (r, g\<lparr>gw_tcp_store := (gw_tcp_store g)(p := c)\<rparr>))
                   | (None, Some p) \<Rightarrow>
                       (let (r, c) = modbus_rtu_write_multiple_registers net wild (gw_rtu_store g p)
                               (dd_slave_addr (dc_config cli)) start_addr quantity values in
                        (r, g\<lparr>gw_rtu_store := (gw_rtu_store g)(p := c)\<rparr>))
                   | (None, None) \<Rightarrow> (WTC_ERROR_NOT_FOUND, g))))"

section \<open>Responses stay in the PDU\<close>

lemma length_read_registers: "length (fst (read_registers env type a is (data, g))) = length data"
proof (induction "is" arbitrary: data g)
  case (Cons i "is")
  show ?case by (simp add: split_beta Let_def) (simp add: Cons.IH)
qed simp

lemma length_read_coils: "length (read_coils g type a is data) = length data"
  by (induction "is" arbitrary: data) simp_all

lemma unat_coil_bytes: "quantity \<le> MODBUS_MAX_READ_BITS \<Longrightarrow> unat (coil_bytes quantity) = (unat quantity + 7) div 8"
proof -
  assume "quantity \<le> MODBUS_MAX_READ_BITS"
  then have "unat quantity \<le> 2000" by (simp add: word_le_nat_alt modbus_limits)
  then have "(unat quantity + 7) div 8 < 256" by simp
  then show ?thesis by (simp add: coil_bytes_def unat_of_nat)
qed

lemma pdu_wf_iff: "pdu_wf p \<longleftrightarrow> length (pdu_data p) = 252 \<and> unat (pdu_data_len p) \<le> 252"
  by (simp add: pdu_wf_def modbus_limits)

lemma serve_read_registers_wf:
  assumes "pdu_wf response"
  shows "pdu_wf (snd (fst (serve_read_registers env type a quantity response g)))"
proof (cases "MODBUS_MAX_READ_REGISTERS < quantity")
  case False
  then have "unat quantity \<le> 125" by (simp add: word_less_nat_alt modbus_limits)
  then have "unat (1 + quantity * 2) \<le> 252" by (simp add: unat_word_ariths)
  with False assms show ?thesis by (simp add: serve_read_registers_def split_beta pdu_wf_iff length_read_registers)
qed (simp add: serve_read_registers_def assms)

lemma serve_read_coils_wf:
  assumes "pdu_wf response"
  shows "pdu_wf (snd (fst (serve_read_coils type a quantity response g)))"
proof (cases "MODBUS_MAX_READ_BITS < quantity")
  case False
  then have "quantity \<le> MODBUS_MAX_READ_BITS" "unat quantity \<le> 2000"
    by (simp_all add: word_less_nat_alt word_le_nat_alt modbus_limits)
  then have n: "unat (coil_bytes quantity) \<le> 250" by (simp add: unat_coil_bytes)
  have "unat (ucast (coil_bytes quantity) :: u16) = unat (coil_bytes quantity)"
    using unsigned_less [of "coil_bytes quantity", where 'a = nat] by (simp add: unsigned_ucast_eq take_bit_nat_eq_self)
  with n have "unat (1 + ucast (coil_bytes quantity) :: u16) \<le> 252" by (simp add: unat_word_ariths)
  with False n assms show ?thesis
    by (simp add: serve_read_coils_def Let_def pdu_wf_iff length_read_coils)
qed (simp add: serve_read_coils_def assms)

lemma serve_writes_wf:
  assumes "pdu_wf response"
  shows "pdu_wf (snd (fst (serve_write_register e a v request response g)))"
    and "pdu_wf (snd (fst (serve_write_registers env a v request response g)))"
    and "pdu_wf (snd (fst (serve_write_coil e a v request response g)))"
  using assms
  by (auto simp: serve_write_register_def serve_write_registers_def serve_write_coil_def echo_request_def pdu_wf_iff split_beta
      split: option.split)

lemma serve_request_wf: "pdu_wf response \<Longrightarrow> pdu_wf (snd (fst (serve_request env request response g)))"
proof -
  assume "pdu_wf response"
  then have "pdu_wf (response\<lparr>pdu_function_code := fc\<rparr>)" for fc by (simp add: pdu_wf_iff)
  then show ?thesis
    by (simp add: serve_request_def Let_def serve_read_registers_wf serve_read_coils_wf serve_writes_wf)
qed

text \<open>\<^bold>\<open>C14.\<close> Every answer of the gateway is a well-formed PDU: whatever the request says, the response uses at most the
  252 bytes of its array, so that the transports frame it without overrunning their buffers.\<close>

theorem responses_well_formed:
  assumes "handle_server_request env u request response (Some g) = ((ex, response'), Some g')" and "pdu_wf response"
  shows "pdu_wf response' \<and> length (tcp_frame u t response') \<le> MODBUS_TCP_MAX_ADU_LEN \<and>
    length (rtu_frame u response') \<le> MODBUS_RTU_MAX_ADU_LEN"
proof -
  have wf: "pdu_wf response'"
    using serve_request_wf [OF assms(2), of env request g] assms(1) by (simp add: handle_server_request_def)
  with pdu_wf_len [OF wf] show ?thesis by (simp add: tcp_frame_def rtu_frame_def Let_def modbus_limits)
qed

section \<open>What a request can change\<close>

text \<open>The actuators a request may command: those of an enabled holding register or coil that is not read-only.\<close>

definition writable_actuators :: "register_map \<Rightarrow> (string \<times> int) set" where
  "writable_actuators m =
     {(rm_rtu_station r, rm_slot r) | r. r \<in> set (map_registers m) \<and> rm_reg_type r = MODBUS_REG_HOLDING \<and> rm_enabled r \<and>
        \<not> rm_read_only r \<and> rm_source r = DATA_SOURCE_PROFINET_ACTUATOR} \<union>
     {(cm_rtu_station c, cm_slot c) | c. c \<in> set (map_coils m) \<and> cm_reg_type c = MODBUS_REG_COIL \<and> cm_enabled c \<and>
        \<not> cm_read_only c \<and> cm_source c = DATA_SOURCE_PROFINET_ACTUATOR}"

text \<open>A step that leaves the register map alone and changes the registry by writes to actuators in \<open>T\<close> only.\<close>

definition writes_within :: "(string \<times> int) set \<Rightarrow> modbus_gateway \<Rightarrow> modbus_gateway \<Rightarrow> bool" where
  "writes_within T g g' \<longleftrightarrow> gw_register_map g' = gw_register_map g \<and>
     (\<exists>ws. write_targets ws \<subseteq> T \<and> gw_registry g' = map_option (reg.apply_writes ws) (gw_registry g))"

lemma writes_none: "gw_register_map g' = gw_register_map g \<Longrightarrow> gw_registry g' = gw_registry g \<Longrightarrow> writes_within T g g'"
  unfolding writes_within_def by (auto intro!: exI [of _ "[]"] simp: option.map_ident_strong)

lemma writes_trans: "writes_within T g h \<Longrightarrow> writes_within T h k \<Longrightarrow> writes_within T g k"
  unfolding writes_within_def
proof (elim conjE exE, intro conjI)
  fix ws ws'
  assume "write_targets ws \<subseteq> T" "gw_registry h = map_option (reg.apply_writes ws) (gw_registry g)"
    "write_targets ws' \<subseteq> T" "gw_registry k = map_option (reg.apply_writes ws') (gw_registry h)"
  then have "write_targets (ws @ ws') \<subseteq> T \<and> gw_registry k = map_option (reg.apply_writes (ws @ ws')) (gw_registry g)"
    by (cases "gw_registry g") simp_all
  then show "\<exists>ws. write_targets ws \<subseteq> T \<and> gw_registry k = map_option (reg.apply_writes ws) (gw_registry g)" by blast
qed simp

lemma update_actuator_write: "snd (rtu_registry_update_actuator (Some r) (Some st) sl (Some v) t) = Some (reg_write st sl v t r)"
  by (simp add: reg_write_def rtu_registry_update_actuator_def)

lemma writes_one:
  assumes "gw_registry g = Some r" and "(st, sl) \<in> T"
  shows "writes_within T g (g\<lparr>gw_registry := Some (reg_write st sl v t r)\<rparr>)"
  unfolding writes_within_def using assms by (auto intro!: exI [of _ "[(st, sl, v, t)]"])

lemma client_read_keeps:
  "gw_register_map (snd (client_read net wild i slave a q g)) = gw_register_map g"
  "gw_registry (snd (client_read net wild i slave a q g)) = gw_registry g"
  "gw_clients (snd (client_read net wild i slave a q g)) = gw_clients g"
  "gw_control (snd (client_read net wild i slave a q g)) = gw_control g"
  by (auto simp: client_read_def Let_def split_beta split: option.split)

lemma read_some_client_keeps:
  "gw_register_map (snd (read_some_client env slave a is g)) = gw_register_map g \<and>
   gw_registry (snd (read_some_client env slave a is g)) = gw_registry g"
  by (induction "is" arbitrary: g) (simp_all add: split_beta client_read_keeps)

lemma write_some_client_keeps:
  "gw_register_map (snd (write_some_client env slave a v is g)) = gw_register_map g \<and>
   gw_registry (snd (write_some_client env slave a v is g)) = gw_registry g"
  by (induction "is" arbitrary: g) (auto simp: split_beta Let_def split: option.split)

lemma read_value_keeps:
  "gw_register_map (snd (read_register_value env m g)) = gw_register_map g"
  "gw_registry (snd (read_register_value env m g)) = gw_registry g"
  using read_some_client_keeps [of env _ _ _ g]
  by (simp_all add: read_register_value_def raw_register_value_def split_beta Let_def)

lemma read_registers_keeps:
  "gw_register_map (snd (read_registers env type a is dg)) = gw_register_map (snd dg) \<and>
   gw_registry (snd (read_registers env type a is dg)) = gw_registry (snd dg)"
proof (induction "is" arbitrary: dg)
  case (Cons i "is")
  then show ?case by (simp add: split_beta Let_def read_value_keeps split: option.split)
qed simp

lemma write_value_within:
  assumes "rm_source m = DATA_SOURCE_PROFINET_ACTUATOR \<Longrightarrow> \<not> rm_read_only m \<Longrightarrow> (rm_rtu_station m, rm_slot m) \<in> T"
  shows "writes_within T g (snd (write_register_value env m v g))"
proof (cases "rm_read_only m \<or> rm_source m \<noteq> DATA_SOURCE_PROFINET_ACTUATOR")
  case True
  then show ?thesis
    by (intro writes_none)
      (use write_some_client_keeps in \<open>auto simp: write_register_value_def Let_def split_beta split: option.split\<close>)
next
  case False
  show ?thesis
  proof (cases "gw_registry g")
    case None
    with False show ?thesis by (intro writes_none) (simp_all add: write_register_value_def Let_def)
  next
    case (Some r)
    with False show ?thesis
      using writes_one [OF Some assms]
      by (simp add: write_register_value_def Let_def split_beta update_actuator_write)
  qed
qed

lemma found_register_writable:
  assumes "register_map_get_register (Some m) MODBUS_REG_HOLDING a = Some r" and "\<not> rm_read_only r"
    and "rm_source r = DATA_SOURCE_PROFINET_ACTUATOR"
  shows "(rm_rtu_station r, rm_slot r) \<in> writable_actuators m"
  using assms find_SomeD [of _ "map_registers m" r] by (auto simp: register_map_get_register_def writable_actuators_def)

lemma write_registers_within:
  "writes_within (writable_actuators (gw_register_map g)) g (snd (write_registers env a data is g))"
proof (induction "is" arbitrary: g)
  case (Cons i "is")
  show ?case
  proof (cases "register_map_get_register (Some (gw_register_map g)) MODBUS_REG_HOLDING (a + of_nat i)")
    case (Some m)
    let ?v = "modbus_get_uint16_be (drop (5 + i * 2) data)" and ?T = "writable_actuators (gw_register_map g)"
    let ?g = "snd (write_register_value (env i) m ?v g)"
    show ?thesis
    proof (cases "rm_read_only m")
      case False
      have step: "writes_within ?T g ?g"
        by (rule write_value_within) (rule found_register_writable [OF Some])
      then have "gw_register_map ?g = gw_register_map g" by (simp add: writes_within_def)
      with Cons.IH [of ?g] have "writes_within ?T ?g (snd (write_registers env a data is ?g))" by simp
      with step show ?thesis using Some False writes_trans [OF step]
        by (simp add: Let_def split_beta)
    qed (simp add: Some writes_none)
  qed (simp add: writes_none)
qed (simp add: writes_none)

lemma write_coil_within:
  assumes "register_map_get_coil (Some (gw_register_map g)) MODBUS_REG_COIL a = Some c" and "\<not> cm_read_only c"
  shows "writes_within (writable_actuators (gw_register_map g)) g (write_coil env c on g)"
proof (cases "gw_registry g = None \<or> cm_source c \<noteq> DATA_SOURCE_PROFINET_ACTUATOR")
  case True
  then show ?thesis by (intro writes_none) (auto simp: write_coil_def split: option.split)
next
  case False
  then obtain r where r: "gw_registry g = Some r" "cm_source c = DATA_SOURCE_PROFINET_ACTUATOR" by auto
  have "(cm_rtu_station c, cm_slot c) \<in> writable_actuators (gw_register_map g)"
    using assms r(2) find_SomeD [of _ "map_coils (gw_register_map g)" c]
    by (auto simp: register_map_get_coil_def writable_actuators_def)
  from writes_one [OF r(1) this] r show ?thesis by (simp add: write_coil_def Let_def update_actuator_write)
qed

lemma serve_request_within:
  "writes_within (writable_actuators (gw_register_map g)) g (snd (serve_request env request response g))"
proof -
  define h where "h = g\<lparr>gw_total_requests := gw_total_requests g + 1\<rparr>"
  have h: "gw_register_map h = gw_register_map g" "gw_registry h = gw_registry g" by (simp_all add: h_def)
  let ?T = "writable_actuators (gw_register_map h)"
  have same: "writes_within ?T h k" if "gw_register_map k = gw_register_map h" "gw_registry k = gw_registry h" for k
    using that by (rule writes_none)
  have 1: "writes_within ?T h (snd (serve_read_registers env type a q resp h))" for type a q resp
    by (rule same) (simp_all add: serve_read_registers_def split_beta read_registers_keeps)
  have 2: "writes_within ?T h (snd (serve_write_register e a v req resp h))" for e a v req resp
  proof (cases "register_map_get_register (Some (gw_register_map h)) MODBUS_REG_HOLDING a")
    case (Some m)
    then show ?thesis
      using write_value_within [of m ?T h e v, OF found_register_writable [OF Some]]
      by (simp add: serve_write_register_def split_beta same)
  qed (simp add: serve_write_register_def same)
  have 3: "writes_within ?T h (snd (serve_write_registers env a q req resp h))" for a q req resp
    using write_registers_within [of h env a] by (simp add: serve_write_registers_def split_beta same)
  have 4: "writes_within ?T h (snd (serve_read_coils type a q resp h))" for type a q resp
    by (rule same) (simp_all add: serve_read_coils_def Let_def)
  have 5: "writes_within ?T h (snd (serve_write_coil e a v req resp h))" for e a v req resp
    using write_coil_within [of h a] by (simp add: serve_write_coil_def same split: option.split)
  have "writes_within ?T h (snd (serve_request env request response g))"
    unfolding serve_request_def Let_def h_def [symmetric] using 1 2 3 4 5 by (simp add: same)
  with h show ?thesis by (auto simp: writes_within_def)
qed

text \<open>\<^bold>\<open>C4.\<close> A request over Modbus commands only actuators that are exposed for writing: an actuator for which no enabled,
  writable holding register or coil is mapped keeps its output, and no request changes a sensor
  reading. A request that is not one of the three write functions leaves the registry alone.\<close>

theorem request_needs_writable_mapping:
  assumes "handle_server_request env u request response (Some g) = (reply, Some g')" and "gw_registry g = Some r"
  shows "\<exists>r'. gw_registry g' = Some r' \<and> reg_sensor r' = reg_sensor r \<and>
    (\<forall>st sl. (st, sl) \<notin> writable_actuators (gw_register_map g) \<longrightarrow> reg_out r' st sl = reg_out r st sl) \<and>
    (pdu_function_code request \<notin> {MODBUS_FC_WRITE_SINGLE_COIL, MODBUS_FC_WRITE_SINGLE_REGISTER, MODBUS_FC_WRITE_MULTIPLE_REGISTERS}
      \<longrightarrow> r' = r)"
proof -
  have g': "g' = snd (serve_request env request response g)" using assms(1) by (simp add: handle_server_request_def)
  obtain ws where ws: "write_targets ws \<subseteq> writable_actuators (gw_register_map g)" "gw_registry g' = Some (reg.apply_writes ws r)"
    using serve_request_within [of g env request response] assms(2) by (auto simp: g' writes_within_def)
  have "reg_out (reg.apply_writes ws r) st sl = reg_out r st sl" if "(st, sl) \<notin> writable_actuators (gw_register_map g)" for st sl
    by (rule reg.writes_untouched) (use ws(1) that in blast)
  moreover have "gw_registry g' = gw_registry g"
    if "pdu_function_code request \<notin> {MODBUS_FC_WRITE_SINGLE_COIL, MODBUS_FC_WRITE_SINGLE_REGISTER, MODBUS_FC_WRITE_MULTIPLE_REGISTERS}"
    using that by (simp add: g' serve_request_def Let_def serve_read_registers_def serve_read_coils_def split_beta read_registers_keeps)
  ultimately show ?thesis using ws(2) assms(2) by (auto simp: reg.writes_sens)
qed

section \<open>From client to plant and back\<close>

lemma received_uint16:
  assumes "pdu_wf p" and "k + 1 < unat (pdu_data_len p)" and "pdu_wf q"
  shows "modbus_get_uint16_be (drop k (pdu_data (received_over q p))) = modbus_get_uint16_be (drop k (pdu_data p))"
proof -
  have "length (pdu_data p) = 252" "length (pdu_data (received_over q p)) = 252" "unat (pdu_data_len p) \<le> 252"
    using pdu_wf_len [OF assms(1)] pdu_wf_len [OF received_over_wf [OF assms(1, 3)]] by simp_all
  with assms(2) show ?thesis
    using received_over_nth [OF assms(1), of k q] received_over_nth [OF assms(1), of "k + 1" q]
    by (simp add: modbus_get_uint16_be_def)
qed

lemma small_register_exact:
  fixes v :: u16
  assumes "v \<le> 255"
  shows "uint (f_to_word oob8 (f_of_int (uint v)) :: u8) = uint v" "f_to_word oob16 (f_of_int (uint v)) = v"
    "f_to_int16 oob (f_of_int (uint v)) = v"
proof -
  have v: "0 \<le> uint v" "uint v \<le> 255" using assms by (simp_all add: word_le_def)
  have t: "f_trunc (f_of_int (uint v)) = Some (uint v)" using v by (intro f_of_int_exact) simp_all
  show "uint (f_to_word oob8 (f_of_int (uint v)) :: u8) = uint v"
    using v by (intro f_to_word_in_range [OF t]) simp_all
  show "f_to_word oob16 (f_of_int (uint v)) = v" using v by (subst f_to_word_of_int) simp_all
  show "f_to_int16 oob (f_of_int (uint v)) = v"
  proof -
    have "- 32768 \<le> uint v" using v(1) by linarith
    with v(2) t show ?thesis by (simp add: f_to_int16_def)
  qed
qed

lemma write_value_stores:
  assumes "\<not> rm_read_only m" and "rm_source m = DATA_SOURCE_PROFINET_ACTUATOR" and "\<not> sg_enabled (rm_scaling m)"
    and "gw_registry g = Some r" and "reg_out r (rm_rtu_station m) (rm_slot m) \<noteq> None"
  shows "write_register_value e m v g = (WTC_OK, g\<lparr>gw_registry := Some (reg_write (rm_rtu_station m) (rm_slot m)
    \<lparr>ao_command = (if f_lt 0 (f_of_int (uint v)) then 1 else 0), ao_pwm_duty = f_to_word (qe_oob8 e) (f_of_int (uint v))\<rparr> (qe_now e) r)\<rparr>)"
proof -
  have "fst (rtu_registry_update_actuator (Some r) (Some (rm_rtu_station m)) (rm_slot m) (Some out) t) = WTC_OK" for out t
    using assms(5)
    by (auto simp: reg_out_def rtu_registry_get_actuator_def rtu_registry_update_actuator_def split: option.splits if_splits)
  then show ?thesis using assms(1-4)
    by (simp add: write_register_value_def register_map_unscale_value_def Let_def split_beta update_actuator_write)
qed

lemma read_value_of_output:
  assumes "rm_source m = DATA_SOURCE_PROFINET_ACTUATOR" and "\<not> sg_enabled (rm_scaling m)" and "gw_registry g = Some r"
    and "reg_out r (rm_rtu_station m) (rm_slot m) = Some out" and "uint (ao_pwm_duty out) = uint v" and "v \<le> 255"
  shows "read_register_value e m g = (v, g)"
proof -
  obtain st where st: "rtu_registry_get_actuator (Some r) (Some (rm_rtu_station m)) (rm_slot m) True = (WTC_OK, Some st)"
    "as_output st = out"
    using assms(4)
    by (auto simp: reg_out_def rtu_registry_get_actuator_def split: option.splits if_splits)
  with assms(1-3, 5) small_register_exact [OF assms(6)] show ?thesis
    by (simp add: read_register_value_def raw_register_value_def register_map_scale_value_def Let_def data_sources)
qed

lemma answer_ok:
  assumes "serve_request env req zero_pdu g = ((MODBUS_EX_NONE, resp), g')"
  shows "answer (handle_rtu_request env) True u req (Some g) = ((False, resp), Some g')"
  using assms by (simp add: answer_def handle_rtu_request_def handle_server_request_def)

lemma built_write:
  assumes "pdu_wf w"
  obtains p where "snd (modbus_build_write_single_register addr v (Some w)) = Some p" "pdu_wf p"
    "pdu_function_code p = MODBUS_FC_WRITE_SINGLE_REGISTER" "pdu_data_len p = 4"
    "modbus_get_uint16_be (pdu_data p) = addr" "modbus_get_uint16_be (drop 2 (pdu_data p)) = v"
  using assms by (auto simp: modbus_build_write_single_register_def pdu_wf_iff)

lemma built_read:
  assumes "pdu_wf w"
  obtains p where "snd (modbus_build_read_request fc addr v (Some w)) = Some p" "pdu_wf p"
    "pdu_function_code p = fc" "pdu_data_len p = 4"
    "modbus_get_uint16_be (pdu_data p) = addr" "modbus_get_uint16_be (drop 2 (pdu_data p)) = v"
  using assms by (auto simp: modbus_build_read_request_def pdu_wf_iff)

lemma received_request:
  assumes "pdu_wf p" and "pdu_wf q" and "pdu_data_len p = 4"
  shows "modbus_get_uint16_be (pdu_data (received_over q p)) = modbus_get_uint16_be (pdu_data p)"
    "modbus_get_uint16_be (drop 2 (pdu_data (received_over q p))) = modbus_get_uint16_be (drop 2 (pdu_data p))"
  using received_uint16 [OF assms(1), of 0 q] received_uint16 [OF assms(1), of 2 q] assms by simp_all

lemma serve_one_register:
  assumes "register_map_get_register (Some (gw_register_map g)) MODBUS_REG_HOLDING addr = Some m"
    and "\<And>k. gw_registry k = gw_registry g \<Longrightarrow> read_register_value (env 0) m k = (v, k)"
    and "pdu_function_code p = MODBUS_FC_READ_HOLDING_REGISTERS" and "modbus_get_uint16_be (pdu_data p) = addr"
    and "modbus_get_uint16_be (drop 2 (pdu_data p)) = 1"
  obtains resp g' where "serve_request env p zero_pdu g = ((MODBUS_EX_NONE, resp), g')" "pdu_wf resp"
    "pdu_function_code resp = MODBUS_FC_READ_HOLDING_REGISTERS" "pdu_data resp ! 0 = 2" "pdu_data_len resp = 3"
    "modbus_get_uint16_be (drop 1 (pdu_data resp)) = v"
proof -
  define h where "h = g\<lparr>gw_total_requests := gw_total_requests g + 1\<rparr>"
  have h: "gw_register_map h = gw_register_map g" "gw_registry h = gw_registry g" by (simp_all add: h_def)
  let ?resp = "\<lparr>pdu_function_code = MODBUS_FC_READ_HOLDING_REGISTERS,
    pdu_data = modbus_set_uint16_be 1 v ((pdu_data zero_pdu)[0 := 2]), pdu_data_len = 3\<rparr>"
  have "serve_request env p zero_pdu g = ((MODBUS_EX_NONE, ?resp), h)"
    unfolding serve_request_def Let_def h_def [symmetric]
    using assms(1, 3-5) assms(2) [OF h(2)] h(1)
    by (simp add: serve_read_registers_def modbus_limits zero_pdu_def)
  moreover have "pdu_wf ?resp" by (simp add: pdu_wf_iff zero_pdu_def modbus_limits)
  moreover have "pdu_data ?resp ! 0 = 2" by (simp add: modbus_set_uint16_be_def zero_pdu_def modbus_limits)
  moreover have "modbus_get_uint16_be (drop 1 (pdu_data ?resp)) = v"
    using get_set_uint16 [of 1 "(pdu_data zero_pdu)[0 := 2]" v] by (simp add: zero_pdu_def modbus_limits)
  ultimately show ?thesis by (intro that [of ?resp h]) simp_all
qed

text \<open>The two halves of the round trip: a write over the line changes the registry behind the server, a read
  returns what the mapped source holds.\<close>

lemma write_over_line:
  assumes "register_map_get_register (Some (gw_register_map g)) MODBUS_REG_HOLDING addr = Some m" and "\<not> rm_read_only m"
    and "\<And>k. gw_register_map k = gw_register_map g \<Longrightarrow> gw_registry k = gw_registry g \<Longrightarrow>
      write_register_value (env 0) m v k = (WTC_OK, k\<lparr>gw_registry := r'\<rparr>)"
    and "0 \<le> mr_serial_fd cl" and "u = rg_slave_addr (mr_config c)" and "u \<noteq> 0" and "rg_request_handler (mr_config c)"
    and "pdu_wf wild" and "pdu_wf (fst w)"
    and "frame = rtu_frame u (the (snd (modbus_build_write_single_register addr v (Some (fst w)))))"
  obtains cl' c' g' where
    "modbus_rtu_write_single_register (serial_line (handle_rtu_request env) wild (c, Some g)) w (Some cl) u addr v =
      (WTC_OK, Some cl')" "0 \<le> mr_serial_fd cl'"
    "snd (rtu_serve (handle_rtu_request env) wild frame True (c, Some g)) = (c', Some g')"
    "mr_config c' = mr_config c" "gw_register_map g' = gw_register_map g" "gw_registry g' = r'"
proof -
  let ?h = "handle_rtu_request env"
  obtain p where p: "snd (modbus_build_write_single_register addr v (Some (fst w))) = Some p" "pdu_wf p"
    "pdu_function_code p = MODBUS_FC_WRITE_SINGLE_REGISTER" "pdu_data_len p = 4"
    "modbus_get_uint16_be (pdu_data p) = addr" "modbus_get_uint16_be (drop 2 (pdu_data p)) = v"
    by (rule built_write [OF assms(9)])
  define h where "h = g\<lparr>gw_total_requests := gw_total_requests g + 1\<rparr>"
  define resp where "resp = echo_request (received_over wild p) (zero_pdu\<lparr>pdu_function_code := MODBUS_FC_WRITE_SINGLE_REGISTER\<rparr>)"
  have h: "gw_register_map h = gw_register_map g" "gw_registry h = gw_registry g" by (simp_all add: h_def)
  let ?g = "h\<lparr>gw_registry := r'\<rparr>"
  have "serve_request env (received_over wild p) zero_pdu g = ((MODBUS_EX_NONE, resp), ?g)"
    unfolding serve_request_def Let_def h_def [symmetric] resp_def
    using assms(1, 2) assms(3) [OF h] h p(3, 5, 6) received_request [OF p(2) assms(8) p(4)]
    by (simp add: serve_write_register_def function_codes)
  from answer_ok [OF this] have ans: "answer ?h True u (received_over wild p) (Some g) = ((False, resp), Some ?g)" .
  have "pdu_wf resp" by (simp add: resp_def echo_request_def pdu_wf_iff zero_pdu_def modbus_limits)
  from transact_over_line [OF p(2) assms(4-7) ans this, of "snd w"] obtain cl' where
    cl': "modbus_rtu_transact (serial_line ?h wild (c, Some g)) (Some cl) u (Some p) (Some (snd w)) =
      ((WTC_OK, Some (received_over (snd w) resp)), Some cl')" "mr_serial_fd cl' = mr_serial_fd cl" by blast
  obtain c' where c': "rtu_serve ?h wild (rtu_frame u p) True (c, Some g) = (Some (rtu_frame u resp), c', Some ?g)"
    "mr_config c' = mr_config c"
    by (rule serve_frame [OF p(2) assms(5-7) ans])
  show ?thesis
  proof (rule that)
    show "modbus_rtu_write_single_register (serial_line ?h wild (c, Some g)) w (Some cl) u addr v = (WTC_OK, Some cl')"
      using cl'(1) by (simp add: modbus_rtu_write_single_register_def rtu_write_def p(1))
    show "snd (rtu_serve ?h wild frame True (c, Some g)) = (c', Some ?g)" using c'(1) assms(10) p(1) by simp
  qed (use cl'(2) c'(2) assms(4) h in simp_all)
qed

lemma read_over_line:
  assumes "register_map_get_register (Some (gw_register_map g)) MODBUS_REG_HOLDING addr = Some m"
    and "\<And>k. gw_registry k = gw_registry g \<Longrightarrow> read_register_value (env 0) m k = (v, k)"
    and "0 \<le> mr_serial_fd cl" and "u = rg_slave_addr (mr_config c)" and "u \<noteq> 0" and "rg_request_handler (mr_config c)"
    and "pdu_wf wild" and "pdu_wf (fst w)" and "pdu_wf (snd w)"
  shows "fst (modbus_rtu_read_holding_registers (serial_line (handle_rtu_request env) wild (c, Some g)) w (Some cl) u
      addr 1 True) = (WTC_OK, Some [v])"
proof -
  obtain q where q: "snd (modbus_build_read_request MODBUS_FC_READ_HOLDING_REGISTERS addr 1 (Some (fst w))) = Some q" "pdu_wf q"
    "pdu_function_code q = MODBUS_FC_READ_HOLDING_REGISTERS" "pdu_data_len q = 4"
    "modbus_get_uint16_be (pdu_data q) = addr" "modbus_get_uint16_be (drop 2 (pdu_data q)) = 1"
    by (rule built_read [OF assms(8)])
  obtain rsp g' where rsp: "serve_request env (received_over wild q) zero_pdu g = ((MODBUS_EX_NONE, rsp), g')" "pdu_wf rsp"
    "pdu_function_code rsp = MODBUS_FC_READ_HOLDING_REGISTERS" "pdu_data rsp ! 0 = 2" "pdu_data_len rsp = 3"
    "modbus_get_uint16_be (drop 1 (pdu_data rsp)) = v"
    using serve_one_register [of g addr m env v "received_over wild q"] assms(1, 2) received_request [OF q(2) assms(7) q(4)] q(3, 5, 6) by auto
  from transact_over_line [OF q(2) assms(3-6) answer_ok [OF rsp(1), of u] rsp(2), of "snd w"] obtain cl' where
    came: "modbus_rtu_transact (serial_line (handle_rtu_request env) wild (c, Some g)) (Some cl) u (Some q) (Some (snd w)) =
      ((WTC_OK, Some (received_over (snd w) rsp)), Some cl')" by blast
  have "pdu_data (received_over (snd w) rsp) ! 0 = 2" using received_over_nth [OF rsp(2), of 0 "snd w"] rsp(4, 5) by simp
  moreover have "modbus_get_uint16_be (drop 1 (pdu_data (received_over (snd w) rsp))) = v"
    using received_uint16 [OF rsp(2) _ assms(9), of 1] rsp(5, 6) by simp
  moreover have "\<not> modbus_is_exception (Some (received_over (snd w) rsp))"
    by (simp add: modbus_is_exception_def rsp(3) function_codes)
  ultimately show ?thesis
    using came q(1)
    by (simp add: modbus_rtu_read_holding_registers_def rtu_read_registers_def modbus_limits register_values_def Let_def)
qed

text \<open>\<^bold>\<open>C7.\<close> Written values come back over the serial line: when a Modbus client with an open port writes a value up to
  255 to a holding register that is writable and mapped without scaling to an existing actuator, the
  request travels as a checked frame to the serial server it is addressed to (not as a broadcast), is
  applied to the registry and answered, and the client that reads the register next, before anything
  else changes the actuator, gets the same value. The line loses nothing. Over TCP only the first of
  the two requests would be served: the thread of the TCP server blocks itself after a request.\<close>

theorem written_register_reads_back:
  assumes "register_map_get_register (Some (gw_register_map g)) MODBUS_REG_HOLDING addr = Some m" and "\<not> rm_read_only m"
    and "rm_source m = DATA_SOURCE_PROFINET_ACTUATOR" and "\<not> sg_enabled (rm_scaling m)"
    and "gw_registry g = Some r" and "reg_out r (rm_rtu_station m) (rm_slot m) \<noteq> None" and "v \<le> 255"
    and "0 \<le> mr_serial_fd cl" and "u = rg_slave_addr (mr_config c)" and "u \<noteq> 0" and "rg_request_handler (mr_config c)"
    and "pdu_wf wild" and "pdu_wf (fst w)" and "pdu_wf (snd w)"
    and "frame = rtu_frame u (the (snd (modbus_build_write_single_register addr v (Some (fst w)))))"
  shows "\<exists>cl' c' g'.
    modbus_rtu_write_single_register (serial_line (handle_rtu_request env) wild (c, Some g)) w (Some cl) u addr v =
      (WTC_OK, Some cl') \<and>
    snd (rtu_serve (handle_rtu_request env) wild frame True (c, Some g)) = (c', Some g') \<and>
    fst (modbus_rtu_read_holding_registers (serial_line (handle_rtu_request env') wild (c', Some g')) w (Some cl') u
      addr 1 True) = (WTC_OK, Some [v])"
proof -
  define out where "out = \<lparr>ao_command = (if f_lt 0 (f_of_int (uint v)) then 1 else 0),
    ao_pwm_duty = f_to_word (qe_oob8 (env 0)) (f_of_int (uint v))\<rparr>"
  define r' where "r' = reg_write (rm_rtu_station m) (rm_slot m) out (qe_now (env 0)) r"
  have "write_register_value (env 0) m v k = (WTC_OK, k\<lparr>gw_registry := Some r'\<rparr>)" if "gw_registry k = gw_registry g" for k
    using write_value_stores [OF assms(2-4) _ assms(6), of k "env 0" v] that assms(5) by (simp add: out_def r'_def)
  then obtain cl' c' g' where step:
    "modbus_rtu_write_single_register (serial_line (handle_rtu_request env) wild (c, Some g)) w (Some cl) u addr v =
      (WTC_OK, Some cl')" "0 \<le> mr_serial_fd cl'"
    "snd (rtu_serve (handle_rtu_request env) wild frame True (c, Some g)) = (c', Some g')"
    "mr_config c' = mr_config c" "gw_register_map g' = gw_register_map g" "gw_registry g' = Some r'"
    using write_over_line [OF assms(1, 2) _ assms(8-13, 15), of env "Some r'"] by metis
  have out: "reg_out r' (rm_rtu_station m) (rm_slot m) = Some out" "uint (ao_pwm_duty out) = uint v"
    using reg.out_same [OF assms(6)] small_register_exact(1) [OF assms(7)] by (simp_all add: r'_def out_def)
  have "read_register_value (env' 0) m k = (v, k)" if "gw_registry k = gw_registry g'" for k
    by (rule read_value_of_output [OF assms(3, 4) _ out assms(7)]) (simp add: that step(6))
  then have "fst (modbus_rtu_read_holding_registers (serial_line (handle_rtu_request env') wild (c', Some g')) w (Some cl') u
      addr 1 True) = (WTC_OK, Some [v])"
    using assms(1, 9-11) step(2, 4, 5) assms(12-14) by (intro read_over_line [of g' addr m env' v]) simp_all
  with step(1, 3) show ?thesis by blast
qed

section \<open>Contexts of removed clients\<close>

lemma fold_shift:
  assumes "m < length xs" and "k < length xs"
  shows "fold (\<lambda>j ys. ys[j := ys ! (j + 1)]) [i..<m] xs ! k = (if i \<le> k \<and> k < m then xs ! (k + 1) else xs ! k) \<and>
    length (fold (\<lambda>j ys. ys[j := ys ! (j + 1)]) [i..<m] xs) = length xs"
  using assms
proof (induction m arbitrary: k)
  case (Suc m)
  show ?case
  proof (cases "i \<le> m")
    case True
    then show ?thesis using Suc.IH [of k] Suc.IH [of "m + 1"] Suc.prems by (auto simp: nth_list_update less_Suc_eq)
  next
    case False
    then have "[i..<Suc m] = []" and "\<not> (i \<le> k \<and> k < Suc m)" by auto
    then show ?thesis by auto
  qed
qed simp

lemma shift_down_nth:
  assumes "0 < n" and "n \<le> length xs" and "k < length xs"
  shows "shift_down i n xs ! k = (if i \<le> k \<and> k < n - 1 then xs ! (k + 1) else xs ! k)" "length (shift_down i n xs) = length xs"
  using fold_shift [of "n - 1" xs k i] assms by (auto simp: shift_down_def)

text \<open>\<^bold>\<open>C16.\<close> A client added after another was removed takes over a context that is not its own: the entry it gets still
  has the connection state of the client that was last in the array. If that client is the removed one,
  its context has been freed; otherwise the two clients share it.\<close>

theorem new_client_inherits_context:
  assumes "find_pos (\<lambda>k. dd_name (dc_config k) = name) (take n (gw_clients g)) = Some i" and "n = gw_client_count g"
    and "n \<le> length (gw_clients g)" and "n \<le> MAX_MODBUS_CLIENTS"
    and "modbus_gateway_remove_downstream (Some name) (Some g) = (WTC_OK, Some g1)"
    and "modbus_gateway_add_downstream (Some d) (Some g1) = (WTC_OK, Some g2)"
  shows "gw_client_count g2 = n \<and> gw_clients g2 ! (n - 1) = (gw_clients g ! (n - 1))\<lparr>dc_config := d\<rparr> \<and>
    (\<forall>p. i = n - 1 \<and> dc_tcp (gw_clients g ! i) = Some p \<longrightarrow> gw_tcp_store g2 p = None) \<and>
    (i < n - 1 \<longrightarrow> gw_clients g2 ! (n - 2) = gw_clients g ! (n - 1))"
proof -
  have i: "i < n" using find_pos_SomeD [OF assms(1)] assms(3) by simp
  define f where "f = free_client (gw_clients g ! i) g"
  have f: "gw_clients f = gw_clients g" "gw_client_count f = n"
    by (simp_all add: f_def free_client_def Let_def assms(2) split: option.split)
  have g1: "g1 = f\<lparr>gw_clients := shift_down i n (gw_clients g), gw_client_count := n - 1\<rparr>"
    using assms(1, 2, 5) f by (auto simp: modbus_gateway_remove_downstream_def Let_def f_def)
  have g2: "g2 = (set_client (n - 1) (\<lambda>k. k\<lparr>dc_config := d\<rparr>) g1)\<lparr>gw_client_count := n\<rparr>"
    using assms(6) i by (auto simp: modbus_gateway_add_downstream_def g1 split: if_splits)
  have sh: "shift_down i n (gw_clients g) ! k = (if i \<le> k \<and> k < n - 1 then gw_clients g ! (k + 1) else gw_clients g ! k)"
    "length (shift_down i n (gw_clients g)) = length (gw_clients g)" if "k < n" for k
    using shift_down_nth [of n "gw_clients g" k i] i that assms(3) by simp_all
  have "gw_clients g2 ! (n - 1) = (gw_clients g ! (n - 1))\<lparr>dc_config := d\<rparr>"
    using sh [of "n - 1"] i assms(3) by (simp add: g2 g1 set_client_def)
  moreover have "gw_clients g2 ! (n - 2) = gw_clients g ! (n - 1)" if "i < n - 1"
  proof -
    have "Suc (n - 2) = n - 1" using that by simp
    with sh [of "n - 2"] that i show ?thesis by (simp add: g2 g1 set_client_def)
  qed
  moreover have "gw_tcp_store g2 p = None" if "dc_tcp (gw_clients g ! i) = Some p" for p
    using that by (simp add: g2 g1 set_client_def f_def free_client_def Let_def split: option.split)
  moreover have "gw_client_count g2 = n" by (simp add: g2)
  ultimately show ?thesis by blast
qed

section \<open>A sample gateway\<close>

definition sample_register :: register_mapping where
  "sample_register = zero_register\<lparr>rm_modbus_addr := 100, rm_reg_type := MODBUS_REG_HOLDING,
     rm_source := DATA_SOURCE_PROFINET_ACTUATOR, rm_rtu_station := ''rtu-1'', rm_slot := 3, rm_enabled := True\<rparr>"

definition sample_gateway_config :: modbus_gateway_config where
  "sample_gateway_config = \<lparr>gg_tcp_enabled = True, gg_tcp_port = 502, gg_tcp_bind_address = [], gg_rtu_enabled = False,
     gg_rtu_device = [], gg_rtu_baud_rate = 0, gg_rtu_slave_addr = 17,
     gg_downstream = [zero_device_config\<lparr>dd_name := ''plc''\<rparr>], gg_register_map_file = [], gg_auto_generate_map = False,
     gg_sensor_base_addr = 0, gg_actuator_base_addr = 0\<rparr>"

definition sample_map :: register_map where
  "sample_map = \<lparr>map_config = \<lparr>rx_holding_base_addr = 0, rx_input_base_addr = 0, rx_coil_base_addr = 0, rx_discrete_base_addr = 0\<rparr>,
     map_registers = [sample_register], map_register_capacity = 256, map_coils = [], map_coil_capacity = 256\<rparr>"

definition sample_gateway :: modbus_gateway where
  "sample_gateway = \<lparr>gw_config = sample_gateway_config, gw_server_tcp = None, gw_server_rtu = None,
     gw_clients = zero_client\<lparr>dc_config := zero_device_config\<lparr>dd_name := ''plc''\<rparr>, dc_tcp := Some 5\<rparr> #
       replicate (MAX_MODBUS_CLIENTS - 1) zero_client,
     gw_client_count = 1, gw_register_map = sample_map, gw_registry = Some one_device, gw_control = None, gw_alarms = False,
     gw_running = True, gw_total_requests = 0, gw_total_errors = 0, gw_tcp_store = (\<lambda>_. None), gw_rtu_store = (\<lambda>_. None),
     gw_cache = (\<lambda>_. zero_cache)\<rparr>"

definition sample_env :: "nat \<Rightarrow> request_env" where
  "sample_env = (\<lambda>_. \<lparr>qe_now = 50, qe_net = (\<lambda>_ _. (False, [])), qe_wild = (zero_pdu, zero_pdu), qe_oob16 = (\<lambda>_. 0),
     qe_oob_signed = (\<lambda>_. 0), qe_oob8 = (\<lambda>_. 0)\<rparr>)"

definition sample_serial :: "modbus_rtu_config \<Rightarrow> modbus_rtu" where
  "sample_serial config = the (snd (modbus_rtu_init True (Some (config\<lparr>rg_device := ''tty''\<rparr>)) True))"

lemma sample_serial_config:
  "rg_slave_addr (mr_config (sample_serial config)) = rg_slave_addr config"
  "rg_request_handler (mr_config (sample_serial config)) = rg_request_handler config"
  by (simp_all add: sample_serial_def modbus_rtu_init_def Let_def)

lemma sample_mapping:
  "register_map_get_register (Some (gw_register_map sample_gateway)) MODBUS_REG_HOLDING 100 = Some sample_register"
  "gw_registry sample_gateway = Some one_device"
  by (simp_all add: register_map_get_register_def sample_gateway_def sample_map_def sample_register_def)

lemma sample_register_fields:
  "\<not> rm_read_only sample_register" "rm_source sample_register = DATA_SOURCE_PROFINET_ACTUATOR"
  "\<not> sg_enabled (rm_scaling sample_register)" "rm_rtu_station sample_register = ''rtu-1''" "rm_slot sample_register = 3"
  by (simp_all add: sample_register_def zero_register_def zero_scaling_def)

lemma one_device_actuator: "reg_out one_device ''rtu-1'' 3 \<noteq> None"
proof -
  have "\<not> int WTC_DEFAULT_ACTUATORS \<le> 3" by (simp add: WTC_DEFAULT_ACTUATORS_def)
  then show ?thesis by (simp add: reg_out_def rtu_registry_get_actuator_def one_device_find one_device_arrays)
qed

theorem responses_well_formed_witness:
  "\<exists>ex response g'. handle_server_request sample_env 1 (zero_pdu\<lparr>pdu_function_code := 3\<rparr>) zero_pdu (Some sample_gateway) =
      ((ex, response), Some g') \<and> pdu_wf response"
proof -
  obtain ex response g' where r: "handle_server_request sample_env 1 (zero_pdu\<lparr>pdu_function_code := 3\<rparr>) zero_pdu (Some sample_gateway) =
      ((ex, response), Some g')"
    unfolding handle_server_request_def on_handle_simps by (metis prod.collapse)
  with responses_well_formed [OF r zero_pdu_wf] show ?thesis by blast
qed

theorem request_needs_writable_mapping_witness:
  "\<exists>g' r'. snd (handle_server_request sample_env 1 (zero_pdu\<lparr>pdu_function_code := 6\<rparr>) zero_pdu (Some sample_gateway)) = Some g' \<and>
    gw_registry g' = Some r' \<and> reg_out r' ''rtu-1'' 4 = reg_out one_device ''rtu-1'' 4"
proof -
  obtain reply g' where r: "handle_server_request sample_env 1 (zero_pdu\<lparr>pdu_function_code := 6\<rparr>) zero_pdu (Some sample_gateway) =
      (reply, Some g')"
    unfolding handle_server_request_def on_handle_simps by blast
  have "(''rtu-1'', 4) \<notin> writable_actuators (gw_register_map sample_gateway)"
    by (simp add: writable_actuators_def sample_gateway_def sample_map_def sample_register_fields)
  with request_needs_writable_mapping [OF r sample_mapping(2)] r show ?thesis by auto
qed

theorem written_register_reads_back_witness:
  "\<exists>cl' c' g'.
    modbus_rtu_write_single_register (serial_line (handle_rtu_request sample_env) zero_pdu
        (sample_serial (server_rtu_config sample_gateway_config), Some sample_gateway)) (zero_pdu, zero_pdu)
        (Some ((sample_serial (client_rtu_config zero_device_config))\<lparr>mr_serial_fd := 4\<rparr>)) 17 100 80 = (WTC_OK, Some cl') \<and>
    fst (modbus_rtu_read_holding_registers (serial_line (handle_rtu_request sample_env) zero_pdu (c', Some g'))
      (zero_pdu, zero_pdu) (Some cl') 17 100 1 True) = (WTC_OK, Some [80])"
proof -
  let ?cl = "(sample_serial (client_rtu_config zero_device_config))\<lparr>mr_serial_fd := 4\<rparr>"
  let ?srv = "sample_serial (server_rtu_config sample_gateway_config)"
  have out: "reg_out one_device (rm_rtu_station sample_register) (rm_slot sample_register) \<noteq> None"
    by (simp add: sample_register_fields one_device_actuator)
  have srv: "17 = rg_slave_addr (mr_config ?srv)" "rg_request_handler (mr_config ?srv)"
    by (simp_all add: sample_serial_config) (simp_all add: server_rtu_config_def sample_gateway_config_def)
  show ?thesis
    using written_register_reads_back [OF sample_mapping(1) sample_register_fields(1-3) sample_mapping(2) out _ _ srv(1) _ srv(2)
        zero_pdu_wf _ _ refl, of 80 ?cl "(zero_pdu, zero_pdu)" sample_env sample_env] by fastforce
qed

theorem new_client_inherits_context_witness:
  "\<exists>g1 g2. modbus_gateway_remove_downstream (Some ''plc'') (Some sample_gateway) = (WTC_OK, Some g1) \<and>
    modbus_gateway_add_downstream (Some zero_device_config) (Some g1) = (WTC_OK, Some g2) \<and>
    dc_tcp (gw_clients g2 ! 0) = Some 5 \<and> gw_tcp_store g2 5 = None"
proof -
  have pos: "find_pos (\<lambda>k. dd_name (dc_config k) = ''plc'') (take 1 (gw_clients sample_gateway)) = Some 0"
    by (simp add: sample_gateway_def)
  have len: "length (gw_clients sample_gateway) = MAX_MODBUS_CLIENTS" "gw_client_count sample_gateway = 1"
    "dc_tcp (gw_clients sample_gateway ! 0) = Some 5"
    by (simp_all add: sample_gateway_def MAX_MODBUS_CLIENTS_def)
  obtain g1 where g1: "modbus_gateway_remove_downstream (Some ''plc'') (Some sample_gateway) = (WTC_OK, Some g1)" "gw_client_count g1 = 0"
    using pos len(2) by (simp add: modbus_gateway_remove_downstream_def Let_def free_client_def split: option.split)
  obtain g2 where g2: "modbus_gateway_add_downstream (Some zero_device_config) (Some g1) = (WTC_OK, Some g2)"
    using g1(2) by (simp add: modbus_gateway_add_downstream_def MAX_MODBUS_CLIENTS_def)
  have "1 \<le> MAX_MODBUS_CLIENTS" by (simp add: MAX_MODBUS_CLIENTS_def)
  with new_client_inherits_context [OF pos len(2) [symmetric] _ _ g1(1) g2] len g1(1) g2 show ?thesis by auto
qed

end
