(* ===== verification/Cyclic.thy ===== *)
theory Cyclic
  imports Frame Types
begin

text \<open>
  Cyclic data exchange (\<^verbatim>\<open>src/src/profinet/cyclic_exchange.c\<close>) and the structure of an application
  relationship (\<open>profinet_ar_t\<close> of \<^verbatim>\<open>src/src/profinet/profinet_controller.h\<close>), which the AR manager and the
  controller share.

  An application relationship has communication relationships (IOCRs), each with the buffer of one
  direction of the cyclic data. The array of IOCRs is the list of the live ones. Its entries are zero
  before they are used: the structure is cleared when it is allocated, and the buffers are only
  released together with it. The two static arrays of the replay check are one function from the
  position of an IOCR to the last counter, \<open>None\<close> before the first frame. The application UUID is the
  16 bytes of the array of four words.
\<close>

section \<open>Application relationships\<close>

datatype ar_state =
  AR_STATE_INIT | AR_STATE_CONNECT_REQ | AR_STATE_CONNECT_CNF | AR_STATE_PRMSRV | AR_STATE_READY
| AR_STATE_RUN | AR_STATE_CLOSE | AR_STATE_ABORT

datatype iocr_type = IOCR_TYPE_INPUT | IOCR_TYPE_OUTPUT | IOCR_TYPE_MULTICAST

definition PROFINET_MAX_IOCR :: nat where "PROFINET_MAX_IOCR = 64"
definition WTC_MAX_SLOTS :: nat where "WTC_MAX_SLOTS = 247"

record iocr =
  io_type :: iocr_type
  io_frame_id :: u16
  io_send_clock_factor :: u32
  io_reduction_ratio :: u32
  io_data_length :: u32
  io_user_data_length :: u16
  io_iodata_count :: u16
  io_iocs_count :: u16
  io_data_buffer :: "u8 list option"
  io_last_frame_time_us :: u64
  io_cycle_counter :: u16

record ar_slot_info =
  si_slot :: u16
  si_subslot :: u16
  si_type :: slot_type
  si_measurement_type :: measurement_type
  si_actuator_type :: actuator_type

record discovered_module =
  dm_slot :: u16
  dm_subslot :: u16
  dm_module_ident :: u32
  dm_submodule_ident :: u32

record profinet_ar =
  ar_uuid :: "u8 list"
  ar_session_key :: u16
  ar_type :: u16
  ar_state :: ar_state
  ar_device_station_name :: string
  ar_device_mac :: "u8 list"
  ar_device_ip :: u32
  ar_device_vendor_id :: u16
  ar_device_device_id :: u16
  ar_iocr :: "iocr list"
  ar_slot_info :: "ar_slot_info list"
  ar_last_activity_ms :: u64
  ar_watchdog_ms :: u32
  ar_retry_count :: int
  ar_last_error :: wtc_result
  ar_has_discovered_modules :: bool
  ar_discovered_modules :: "discovered_module list"
  ar_missed_cycles :: int
  ar_connecting :: bool

text \<open>What \<open>calloc\<close> leaves.\<close>

definition zero_ar :: profinet_ar where
  "zero_ar = \<lparr>ar_uuid = replicate 16 0, ar_session_key = 0, ar_type = 0, ar_state = AR_STATE_INIT,
     ar_device_station_name = [], ar_device_mac = replicate 6 0, ar_device_ip = 0, ar_device_vendor_id = 0,
     ar_device_device_id = 0, ar_iocr = [], ar_slot_info = [], ar_last_activity_ms = 0, ar_watchdog_ms = 0,
     ar_retry_count = 0, ar_last_error = WTC_OK, ar_has_discovered_modules = False,
     ar_discovered_modules = [], ar_missed_cycles = 0, ar_connecting = False\<rparr>"

text \<open>The position of the first IOCR of a direction, and an update of the IOCR at a position.\<close>

definition first_iocr :: "iocr_type \<Rightarrow> profinet_ar \<Rightarrow> nat option" where
  "first_iocr t ar = find_pos (\<lambda>c. io_type c = t) (ar_iocr ar)"

definition set_iocr :: "nat \<Rightarrow> (iocr \<Rightarrow> iocr) \<Rightarrow> profinet_ar \<Rightarrow> profinet_ar" where
  "set_iocr i f ar = ar\<lparr>ar_iocr := (ar_iocr ar)[i := f (ar_iocr ar ! i)]\<rparr>"

section \<open>Receiving\<close>

type_synonym cycle_counters = "nat \<Rightarrow> u16 option"

text \<open>The window of accepted counters is computed, but a frame is refused only if its counter is
  outside the window and equal to the last one.\<close>

definition counter_valid :: "u16 \<Rightarrow> u16 \<Rightarrow> bool" where
  "counter_valid latest received =
     (let expected_min = latest + 1; expected_max = latest + 100 in
      if expected_max \<ge> expected_min then received \<ge> expected_min \<and> received \<le> expected_max
      else received \<ge> expected_min \<or> received \<le> expected_max)"

definition counter_refused :: "u16 option \<Rightarrow> u16 \<Rightarrow> bool" where
  "counter_refused prev received =
     (case prev of None \<Rightarrow> False | Some latest \<Rightarrow> \<not> counter_valid latest received \<and> received = latest)"

text \<open>The read of the data: nothing is read when the frame is too short for it.\<close>

definition read_iocr_data :: "nat \<Rightarrow> profinet_ar \<Rightarrow> frame_parser option \<Rightarrow> profinet_ar \<times> frame_parser option" where
  "read_iocr_data i ar p =
     (let data_len = unat (io_data_length (ar_iocr ar ! i)) in
      case io_data_buffer (ar_iocr ar ! i) of
        None \<Rightarrow> (ar, p)
      | Some buf \<Rightarrow>
          (if data_len > 0 \<and> frame_parser_remaining p \<ge> data_len then
             (case frame_read_bytes p True data_len of
                ((_, Some bytes), p') \<Rightarrow> (set_iocr i (io_data_buffer_update (\<lambda>_. Some (memcpy_at buf 0 bytes))) ar, p')
              | ((_, None), p') \<Rightarrow> (ar, p'))
           else (ar, p)))"

text \<open>The end of the frame: the data status and the time of the frame.\<close>

definition finish_input :: "nat \<Rightarrow> u64 \<Rightarrow> bool \<Rightarrow> frame_parser option \<Rightarrow> profinet_ar \<Rightarrow> u8 option \<times> profinet_ar" where
  "finish_input i now_us status_ok p ar =
     (if status_ok \<and> frame_parser_remaining p \<ge> 1 then snd (fst (frame_read_u8 p True)) else None,
      set_iocr i (io_last_frame_time_us_update (\<lambda>_. now_us)) ar)"

text \<open>\<open>uninit\<close> is the value of \<open>frame_id\<close> when the frame is too short to hold one.\<close>

definition parse_input_frame ::
  "u16 \<Rightarrow> u64 \<Rightarrow> profinet_ar option \<Rightarrow> u8 list option \<Rightarrow> nat \<Rightarrow> bool \<Rightarrow> bool \<Rightarrow> cycle_counters \<Rightarrow>
   (wtc_result \<times> u16 option \<times> u8 option) \<times> profinet_ar option \<times> cycle_counters" where
  "parse_input_frame uninit now_us aro frame frame_len counter_ok status_ok cc =
     (case (aro, frame) of
        (Some ar, Some bytes) \<Rightarrow>
          (case first_iocr IOCR_TYPE_INPUT ar of
             None \<Rightarrow> ((WTC_ERROR_NOT_FOUND, None, None), Some ar, cc)
           | Some i \<Rightarrow>
               (let p = map_option (fp_position_update (\<lambda>_. ETH_HEADER_LEN))
                          (snd (frame_parser_init (Some \<lparr>fp_buffer = [], fp_length = 0, fp_position = 0\<rparr>) (Some bytes) frame_len));
                    ((_, fid), p) = frame_read_u16 p True;
                    frame_id = (case fid of Some v \<Rightarrow> v | None \<Rightarrow> uninit)
                in if frame_id \<noteq> io_frame_id (ar_iocr ar ! i) then ((WTC_ERROR_PROTOCOL, None, None), Some ar, cc)
                   else
                     (let (ar, p) = read_iocr_data i ar p in
                      if frame_parser_remaining p \<ge> 2 then
                        (let ((_, rc), p) = frame_read_u16 p True;
                             received = (case rc of Some v \<Rightarrow> v | None \<Rightarrow> 0);
                             out = (if counter_ok then Some received else None)
                         in if i < PROFINET_MAX_IOCR then
                              (if counter_refused (cc i) received then ((WTC_ERROR_PROTOCOL, out, None), Some ar, cc)
                               else (let (st, ar) = finish_input i now_us status_ok p ar in
                                     ((WTC_OK, out, st), Some ar, cc(i := Some received))))
                            else (let (st, ar) = finish_input i now_us status_ok p ar in ((WTC_OK, out, st), Some ar, cc)))
                      else (let (st, ar) = finish_input i now_us status_ok p ar in ((WTC_OK, None, st), Some ar, cc)))))
      | _ \<Rightarrow> ((WTC_ERROR_INVALID_PARAM, None, None), aro, cc))"

section \<open>Slots\<close>

definition SENSOR_SLOT_SIZE :: nat where "SENSOR_SLOT_SIZE = 5"
definition SENSOR_SLOT_SIZE_LEGACY :: nat where "SENSOR_SLOT_SIZE_LEGACY = 4"
definition ACTUATOR_SLOT_SIZE :: nat where "ACTUATOR_SLOT_SIZE = 4"
definition IOCR_MIN_DATA_LENGTH :: u32 where "IOCR_MIN_DATA_LENGTH = 40"
definition DAP_SUBMODULE_COUNT :: u16 where "DAP_SUBMODULE_COUNT = 3"

lemmas slot_consts = SENSOR_SLOT_SIZE_def SENSOR_SLOT_SIZE_LEGACY_def ACTUATOR_SLOT_SIZE_def

text \<open>The quality is the byte that was received, whether or not it is one of the enumerators.\<close>

definition quality_code :: "data_quality \<Rightarrow> u8" where
  "quality_code q = (case q of QUALITY_GOOD \<Rightarrow> 0 | QUALITY_UNCERTAIN \<Rightarrow> 0x40 | QUALITY_BAD \<Rightarrow> 0x80 | QUALITY_NOT_CONNECTED \<Rightarrow> 0xC0)"

record sensor_reading =
  sr_value :: f32
  sr_quality :: u8
  sr_timestamp_us :: u64

definition unpack_sensor_from_profinet :: "u64 \<Rightarrow> u8 list option \<Rightarrow> nat \<Rightarrow> bool \<Rightarrow> wtc_result \<times> sensor_reading option" where
  "unpack_sensor_from_profinet now_us data len reading_ok =
     (case data of
        None \<Rightarrow> (WTC_ERROR_INVALID_PARAM, None)
      | Some d \<Rightarrow>
          (if \<not> reading_ok \<or> len < SENSOR_SLOT_SIZE_LEGACY then (WTC_ERROR_INVALID_PARAM, None)
           else (WTC_OK, Some \<lparr>sr_value = of_be32 (d ! 0) (d ! 1) (d ! 2) (d ! 3),
                   sr_quality = (if len \<ge> SENSOR_SLOT_SIZE then d ! 4 else quality_code QUALITY_UNCERTAIN),
                   sr_timestamp_us = now_us\<rparr>)))"

text \<open>The first IOCR of the direction that has a buffer and room for the slot. The product of the slot
  index is taken as an unbounded integer; the C code computes it as an \<open>int\<close>.\<close>

definition slot_iocr :: "iocr_type \<Rightarrow> nat \<Rightarrow> nat \<Rightarrow> profinet_ar \<Rightarrow> nat option" where
  "slot_iocr t offset n ar =
     find_pos (\<lambda>c. io_type c = t \<and> offset + n \<le> unat (io_user_data_length c) \<and> io_data_buffer c \<noteq> None) (ar_iocr ar)"

definition iocr_bytes :: "profinet_ar \<Rightarrow> nat \<Rightarrow> u8 list" where
  "iocr_bytes ar i = (case io_data_buffer (ar_iocr ar ! i) of Some b \<Rightarrow> b | None \<Rightarrow> [])"

definition get_slot_input_float ::
  "u64 \<Rightarrow> profinet_ar option \<Rightarrow> int \<Rightarrow> bool \<Rightarrow> bool \<Rightarrow> bool \<Rightarrow> wtc_result \<times> f32 option \<times> iops option \<times> u8 option" where
  "get_slot_input_float now_us aro slot_index value_ok status_ok quality_ok =
     (case aro of
        None \<Rightarrow> (WTC_ERROR_INVALID_PARAM, None, None, None)
      | Some ar \<Rightarrow>
          (if \<not> value_ok \<or> slot_index < 0 then (WTC_ERROR_INVALID_PARAM, None, None, None)
           else
             (let offset = nat slot_index * SENSOR_SLOT_SIZE in
              case slot_iocr IOCR_TYPE_INPUT offset SENSOR_SLOT_SIZE ar of
                Some i \<Rightarrow>
                  (case unpack_sensor_from_profinet now_us (Some (drop offset (iocr_bytes ar i))) SENSOR_SLOT_SIZE True of
                     (WTC_OK, Some r) \<Rightarrow>
                       (WTC_OK, Some (sr_value r),
                        if status_ok then Some (if sr_quality r = quality_code QUALITY_GOOD then IOPS_GOOD else IOPS_BAD) else None,
                        if quality_ok then Some (sr_quality r) else None)
                   | _ \<Rightarrow> (WTC_ERROR_NOT_FOUND, None, if status_ok then Some IOPS_BAD else None,
                           if quality_ok then Some (quality_code QUALITY_NOT_CONNECTED) else None))
              | None \<Rightarrow> (WTC_ERROR_NOT_FOUND, None, if status_ok then Some IOPS_BAD else None,
                         if quality_ok then Some (quality_code QUALITY_NOT_CONNECTED) else None))))"

definition set_slot_output :: "profinet_ar option \<Rightarrow> int \<Rightarrow> u8 \<Rightarrow> u8 \<Rightarrow> wtc_result \<times> profinet_ar option" where
  "set_slot_output aro slot_index command pwm_duty =
     on_handle WTC_ERROR_INVALID_PARAM (\<lambda>ar.
       if slot_index < 0 then (WTC_ERROR_INVALID_PARAM, ar)
       else
         (let offset = nat slot_index * 4 in
          case slot_iocr IOCR_TYPE_OUTPUT offset 4 ar of
            None \<Rightarrow> (WTC_ERROR_NOT_FOUND, ar)
          | Some i \<Rightarrow> (WTC_OK, set_iocr i (io_data_buffer_update
                        (map_option (\<lambda>b. memcpy_at b offset [command, pwm_duty, 0, 0]))) ar))) aro"

section \<open>Buffers\<close>

text \<open>One IOCR: \<open>slots\<close> of its own direction of \<open>width\<close> bytes, \<open>others\<close> of the other direction. The sum is
  computed as an \<open>int\<close>, so only the 16-bit terms wrap around.\<close>

definition new_iocr :: "iocr_type \<Rightarrow> u16 \<Rightarrow> nat \<Rightarrow> int \<Rightarrow> int \<Rightarrow> iocr" where
  "new_iocr t frame_id width slots others =
     (let user_data = word_of_int (slots * int width) :: u16;
          iodata = DAP_SUBMODULE_COUNT + word_of_int slots;
          iocs = DAP_SUBMODULE_COUNT + word_of_int others;
          c_sdu = of_nat (unat user_data + unat iodata + unat iocs) :: u32;
          c_sdu = (if c_sdu < IOCR_MIN_DATA_LENGTH then IOCR_MIN_DATA_LENGTH else c_sdu)
      in \<lparr>io_type = t, io_frame_id = frame_id, io_send_clock_factor = 0, io_reduction_ratio = 0,
          io_data_length = c_sdu, io_user_data_length = user_data, io_iodata_count = iodata, io_iocs_count = iocs,
          io_data_buffer = None, io_last_frame_time_us = 0, io_cycle_counter = 0\<rparr>)"

text \<open>\<open>calloc\<close> of the buffer, which may fail.\<close>

definition with_buffer :: "bool \<Rightarrow> iocr \<Rightarrow> iocr" where
  "with_buffer ok c = c\<lparr>io_data_buffer := if ok then Some (replicate (unat (io_data_length c)) 0) else None\<rparr>"

definition add_iocr :: "bool \<Rightarrow> iocr \<Rightarrow> profinet_ar \<Rightarrow> wtc_result \<times> profinet_ar" where
  "add_iocr ok c ar =
     (if length (ar_iocr ar) < PROFINET_MAX_IOCR then
        (if ok then WTC_OK else WTC_ERROR_NO_MEMORY, ar\<lparr>ar_iocr := ar_iocr ar @ [with_buffer ok c]\<rparr>)
      else (WTC_OK, ar))"

definition allocate_iocr_buffers :: "bool \<Rightarrow> bool \<Rightarrow> profinet_ar option \<Rightarrow> int \<Rightarrow> int \<Rightarrow> wtc_result \<times> profinet_ar option" where
  "allocate_iocr_buffers in_ok out_ok aro input_slots output_slots =
     on_handle WTC_ERROR_INVALID_PARAM (\<lambda>ar.
       let (res, ar) = add_iocr in_ok (new_iocr IOCR_TYPE_INPUT 0xC001 SENSOR_SLOT_SIZE input_slots output_slots) ar in
       if res \<noteq> WTC_OK then (res, ar)
       else add_iocr out_ok (new_iocr IOCR_TYPE_OUTPUT 0xFFFF ACTUATOR_SLOT_SIZE output_slots input_slots) ar) aro"

definition free_iocr_buffers :: "profinet_ar option \<Rightarrow> profinet_ar option" where
  "free_iocr_buffers aro = map_option (ar_iocr_update (\<lambda>_. [])) aro"

section \<open>Buffers match their layout\<close>

text \<open>The buffer has the length of the data, and user data, provider and consumer status fit into it.\<close>

definition iocr_wf :: "iocr \<Rightarrow> bool" where
  "iocr_wf c \<longleftrightarrow>
     (\<forall>b. io_data_buffer c = Some b \<longrightarrow> length b = unat (io_data_length c)) \<and>
     unat (io_user_data_length c) + unat (io_iodata_count c) + unat (io_iocs_count c) \<le> unat (io_data_length c)"

lemma new_iocr_fields:
  assumes "0 \<le> slots" "slots \<le> int WTC_MAX_SLOTS" "0 \<le> others" "others \<le> int WTC_MAX_SLOTS" "width \<le> 5"
  shows "unat (io_user_data_length (new_iocr t fid width slots others)) = nat slots * width"
    and "unat (io_iodata_count (new_iocr t fid width slots others)) = 3 + nat slots"
    and "unat (io_iocs_count (new_iocr t fid width slots others)) = 3 + nat others"
    and "unat (io_data_length (new_iocr t fid width slots others)) = max 40 (nat slots * width + 6 + nat slots + nat others)"
proof -
  define n m where "n = nat slots" and "m = nat others"
  have nm: "slots = int n" "others = int m" "n \<le> 247" "m \<le> 247"
    using assms by (auto simp: n_def m_def WTC_MAX_SLOTS_def)
  have w: "n * width \<le> 247 * 5" using nm assms(5) by (intro mult_le_mono) auto
  have e: "word_of_int (slots * int width) = (of_nat (n * width) :: u16)" by (simp add: nm)
  have small: "n * width < 2 ^ LENGTH(16)" using w by simp
  have u: "unat (word_of_int (slots * int width) :: u16) = n * width"
    unfolding e unsigned_of_nat using take_bit_nat_eq_self [OF small] by simp
  have small16: "unat (of_nat x :: u16) = x" if "x < 65536" for x
    using that by (simp add: unsigned_of_nat take_bit_nat_eq_self)
  have c: "unat (3 + word_of_int (int k) :: u16) = 3 + k" if "k \<le> 247" for k
    using that small16 [of k] by (simp add: unat_word_ariths)
  have small32: "unat (of_nat x :: u32) = x" if "x < 2 ^ 32" for x
    using that by (simp add: unsigned_of_nat take_bit_nat_eq_self)
  let ?sum = "n * width + (3 + n) + (3 + m)"
  have d: "unat (of_nat ?sum :: u32) = ?sum" by (rule small32) (use w nm in simp)
  have less: "((of_nat ?sum :: u32) < 40) = (?sum < 40)"
    unfolding word_less_nat_alt d by simp
  note facts = u c [OF nm(3), folded nm(1)] c [OF nm(4), folded nm(2)]
  show "unat (io_user_data_length (new_iocr t fid width slots others)) = nat slots * width"
    using u by (simp add: new_iocr_def Let_def n_def)
  show "unat (io_iodata_count (new_iocr t fid width slots others)) = 3 + nat slots"
    "unat (io_iocs_count (new_iocr t fid width slots others)) = 3 + nat others"
    using facts by (simp_all add: new_iocr_def Let_def DAP_SUBMODULE_COUNT_def n_def m_def)
  have "io_data_length (new_iocr t fid width slots others) = (if of_nat ?sum < (40 :: u32) then 40 else of_nat ?sum)"
    unfolding new_iocr_def Let_def DAP_SUBMODULE_COUNT_def IOCR_MIN_DATA_LENGTH_def facts by simp
  then show "unat (io_data_length (new_iocr t fid width slots others)) = max 40 (nat slots * width + 6 + nat slots + nat others)"
    using d unfolding less by (simp add: n_def m_def del: of_nat_add of_nat_mult)
qed

lemma with_buffer_wf:
  assumes "0 \<le> slots" "slots \<le> int WTC_MAX_SLOTS" "0 \<le> others" "others \<le> int WTC_MAX_SLOTS" "width \<le> 5"
  shows "iocr_wf (with_buffer ok (new_iocr t fid width slots others))"
  using new_iocr_fields [OF assms] by (simp add: iocr_wf_def with_buffer_def)

lemma allocate_wf:
  assumes "0 \<le> n" "n \<le> int WTC_MAX_SLOTS" "0 \<le> m" "m \<le> int WTC_MAX_SLOTS" "\<forall>c \<in> set (ar_iocr ar). iocr_wf c"
    and "allocate_iocr_buffers in_ok out_ok (Some ar) n m = (r, Some ar')"
  shows "\<forall>c \<in> set (ar_iocr ar'). iocr_wf c"
proof -
  have "iocr_wf (with_buffer ok (new_iocr IOCR_TYPE_INPUT 0xC001 SENSOR_SLOT_SIZE n m))"
    "iocr_wf (with_buffer ok (new_iocr IOCR_TYPE_OUTPUT 0xFFFF ACTUATOR_SLOT_SIZE m n))" for ok
    using assms by (auto intro!: with_buffer_wf simp: slot_consts)
  then show ?thesis
    using assms(5,6) by (auto simp: allocate_iocr_buffers_def add_iocr_def Let_def split: if_splits)
qed

section \<open>A complete input frame\<close>

lemma counter_refused_iff: "counter_refused prev received \<longleftrightarrow> prev = Some received"
proof -
  have "\<not> counter_valid w w" for w :: u16
  proof
    assume v: "counter_valid w w"
    have wrap: "unat (w + k) = (unat w + unat k) mod 65536" for k :: u16
      by (simp add: unat_word_ariths)
    have lt: "unat w < 65536" using unsigned_less [of w, where 'a = nat] by simp
    have m: "unat (w + 1) = (if unat w = 65535 then 0 else unat w + 1)"
      unfolding wrap using lt by auto
    have x: "unat (w + 100) = (if unat w + 100 < 65536 then unat w + 100 else unat w + 100 - 65536)"
      unfolding wrap using lt by (auto simp: mod_if)
    from v lt m x show False
      unfolding counter_valid_def Let_def word_le_nat_alt by (auto split: if_splits)
  qed
  then show ?thesis by (auto simp: counter_refused_def split: option.splits)
qed

text \<open>A complete input frame with the expected frame identifier: its data are in the buffer afterwards,
  and the frame is refused exactly if its cycle counter is that of the frame before. So a refused
  repetition has already replaced the data, and a repetition of any older frame is accepted.\<close>

theorem input_frame_stored:
  assumes "first_iocr IOCR_TYPE_INPUT ar = Some i" and "i < PROFINET_MAX_IOCR"
    and "io_data_buffer (ar_iocr ar ! i) = Some buf" and "length buf = length data" and "data \<noteq> []"
    and "unat (io_data_length (ar_iocr ar ! i)) = length data" and "length eth = ETH_HEADER_LEN"
    and "frame = eth @ be16 (io_frame_id (ar_iocr ar ! i)) @ data @ be16 counter @ status # rest" and "length frame < 2 ^ 64"
  shows "parse_input_frame uninit now_us (Some ar) (Some frame) (length frame) True True cc =
     (if cc i = Some counter
      then ((WTC_ERROR_PROTOCOL, Some counter, None), Some (set_iocr i (\<lambda>c. c\<lparr>io_data_buffer := Some data\<rparr>) ar), cc)
      else ((WTC_OK, Some counter, Some status),
            Some (set_iocr i (\<lambda>c. c\<lparr>io_data_buffer := Some data, io_last_frame_time_us := now_us\<rparr>) ar), cc(i := Some counter)))"
proof -
  let ?p = "\<lparr>fp_buffer = frame, fp_length = length frame, fp_position = ETH_HEADER_LEN\<rparr>"
  have i: "i < length (ar_iocr ar)" using assms(1) by (simp add: first_iocr_def find_pos_SomeD)
  have wf: "parser_wf ?p" using assms(7-9) by (simp add: parser_wf_def)
  have rest: "fp_rest ?p = be16 (io_frame_id (ar_iocr ar ! i)) @ data @ be16 counter @ status # rest"
    using assms(7,8) by (simp add: fp_rest_def mem_read_def)
  have r1: "frame_read_u16 (Some ?p) True = ((WTC_OK, Some (io_frame_id (ar_iocr ar ! i))), Some (skip 2 ?p))"
    unfolding frame_read_u16_def using wf rest by (simp add: rest_simps be16_def of_be16_be16)
  have wf1: "parser_wf (skip 2 ?p)" and rest1: "fp_rest (skip 2 ?p) = data @ be16 counter @ status # rest"
    using skip_rest [OF wf, of 2] rest by simp_all
  have r2: "frame_read_bytes (Some (skip 2 ?p)) True (length data) = ((WTC_OK, Some data), Some (skip (length data) (skip 2 ?p)))"
    unfolding frame_read_bytes_def using wf1 rest1 by (simp add: rest_simps)
  let ?q = "skip (length data) (skip 2 ?p)"
  have wf2: "parser_wf ?q" and rest2: "fp_rest ?q = be16 counter @ status # rest"
    using skip_rest [OF wf1, of "length data"] rest1 by simp_all
  have r3: "frame_read_u16 (Some ?q) True = ((WTC_OK, Some counter), Some (skip 2 ?q))"
    unfolding frame_read_u16_def using wf2 rest2 by (simp add: rest_simps be16_def of_be16_be16)
  have wf3: "parser_wf (skip 2 ?q)" and rest3: "fp_rest (skip 2 ?q) = status # rest"
    using skip_rest [OF wf2, of 2] rest2 by simp_all
  have r4: "frame_read_u8 (Some (skip 2 ?q)) True = ((WTC_OK, Some status), Some (skip 1 (skip 2 ?q)))"
    unfolding frame_read_u8_def using wf3 rest3 by (simp add: rest_simps)
  have rem: "frame_parser_remaining (Some (skip 2 ?p)) \<ge> length data" "frame_parser_remaining (Some ?q) \<ge> 2"
    "frame_parser_remaining (Some (skip 2 ?q)) \<ge> 1"
    unfolding remaining_rest [OF wf1] remaining_rest [OF wf2] remaining_rest [OF wf3] rest1 rest2 rest3 by simp_all
  have copy: "memcpy_at buf 0 data = data" using assms(4) by (simp add: memcpy_at_def)
  have read: "read_iocr_data i ar (Some (skip 2 ?p)) = (set_iocr i (\<lambda>c. c\<lparr>io_data_buffer := Some data\<rparr>) ar, Some ?q)"
    unfolding read_iocr_data_def Let_def assms(3,6) using rem(1) assms(5) by (simp add: r2 copy)
  have set2: "set_iocr i g (set_iocr i f ar) = set_iocr i (g \<circ> f) ar" for f g
    using i by (simp add: set_iocr_def)
  have fin: "finish_input i now_us True (Some (skip 2 ?q)) (set_iocr i (\<lambda>c. c\<lparr>io_data_buffer := Some data\<rparr>) ar) =
    (Some status, set_iocr i (\<lambda>c. c\<lparr>io_data_buffer := Some data, io_last_frame_time_us := now_us\<rparr>) ar)"
    unfolding finish_input_def set2 using rem(3) r4 by (simp add: comp_def)
  show ?thesis
    unfolding parse_input_frame_def using assms(1,2) rem(2)
    by (simp add: frame_parser_init_def r1 read r3 fin counter_refused_iff Let_def)
qed

definition sample_input_ar :: profinet_ar where
  "sample_input_ar = zero_ar\<lparr>ar_iocr := [with_buffer True (new_iocr IOCR_TYPE_INPUT 0xC001 5 1 0)]\<rparr>"

lemma sample_input_ar_iocr:
  "ar_iocr sample_input_ar = [with_buffer True (new_iocr IOCR_TYPE_INPUT 0xC001 5 1 0)]"
  "unat (io_data_length (new_iocr IOCR_TYPE_INPUT 0xC001 5 1 0)) = 40"
  using new_iocr_fields(4) [of 1 0 5 IOCR_TYPE_INPUT "0xC001"] by (simp_all add: sample_input_ar_def zero_ar_def WTC_MAX_SLOTS_def)

theorem input_frame_stored_witness:
  "parse_input_frame 0 9 (Some sample_input_ar)
     (Some (replicate 14 0 @ be16 0xC001 @ replicate 40 7 @ be16 3 @ 0x35 # [0])) 60 True True (\<lambda>_. Some 3) =
   ((WTC_ERROR_PROTOCOL, Some 3, None),
    Some (set_iocr 0 (\<lambda>c. c\<lparr>io_data_buffer := Some (replicate 40 7)\<rparr>) sample_input_ar), \<lambda>_. Some 3)"
proof -
  let ?c = "new_iocr IOCR_TYPE_INPUT 0xC001 5 1 0"
  have f: "io_type ?c = IOCR_TYPE_INPUT" "io_frame_id ?c = 0xC001" by (simp_all add: new_iocr_def Let_def)
  show ?thesis
    using input_frame_stored [of sample_input_ar 0 "replicate 40 0" "replicate 40 7" "replicate 14 0"
        "replicate 14 0 @ be16 0xC001 @ replicate 40 7 @ be16 3 @ 0x35 # [0]" 3 "0x35" "[0]" 0 9 "\<lambda>_. Some 3"]
    by (simp add: first_iocr_def sample_input_ar_iocr with_buffer_def f PROFINET_MAX_IOCR_def ETH_HEADER_LEN_def)
qed

end
