(* ===== verification/PnRpc.thy ===== *)
theory PnRpc
  imports Cyclic
begin

text \<open>
  The remote procedure calls that set up an application relationship
  (\<^verbatim>\<open>src/src/profinet/profinet_rpc.c\<close>, \<^verbatim>\<open>rpc_strategy.c\<close>, \<^verbatim>\<open>profinet_identity.h\<close>): the builders of
  requests, the parsers of responses, and the exchange of datagrams.

  A builder stores its blocks one after the other and fills the headers in afterwards; the model gives
  the bytes of the finished request, and for the connect request also how far the stores reached,
  because its length is compared with the size of the buffer only after they were made.

  A parser gets the memory from the start of the buffer on as a function of the offset, and the number
  of bytes received. The bytes behind these are whatever the memory holds. The outcomes of the
  socket calls are a record. \<open>rc_peer\<close> is not a field of the struct: it is the address the socket is
  connected to, from which alone the kernel then delivers datagrams.
\<close>

section \<open>Timing and identifiers\<close>

record timing_params =
  tp_send_clock_factor :: u16
  tp_reduction_ratio :: u16
  tp_watchdog_factor :: u16
  tp_data_hold_factor :: u16
  tp_rta_timeout_factor :: u16
  tp_rta_retries :: u16

definition TIMING_DEFAULT :: int where "TIMING_DEFAULT = 0"
definition TIMING_CONSERVATIVE :: int where "TIMING_CONSERVATIVE = 2"
definition TIMING_PROFILE_COUNT :: int where "TIMING_PROFILE_COUNT = 3"

definition timing_profiles :: "timing_params list" where
  "timing_profiles =
     [\<lparr>tp_send_clock_factor = 32, tp_reduction_ratio = 32, tp_watchdog_factor = 3, tp_data_hold_factor = 3,
       tp_rta_timeout_factor = 100, tp_rta_retries = 3\<rparr>,
      \<lparr>tp_send_clock_factor = 32, tp_reduction_ratio = 16, tp_watchdog_factor = 1, tp_data_hold_factor = 3,
       tp_rta_timeout_factor = 60, tp_rta_retries = 3\<rparr>,
      \<lparr>tp_send_clock_factor = 64, tp_reduction_ratio = 128, tp_watchdog_factor = 10, tp_data_hold_factor = 5,
       tp_rta_timeout_factor = 100, tp_rta_retries = 5\<rparr>]"

definition rpc_strategy_get_timing :: "int \<Rightarrow> bool \<Rightarrow> timing_params option" where
  "rpc_strategy_get_timing profile out_ok =
     (if \<not> out_ok then None
      else Some (timing_profiles ! nat (if profile < 0 \<or> profile \<ge> TIMING_PROFILE_COUNT then TIMING_DEFAULT else profile)))"

definition uuid_swap_fields :: "u8 list \<Rightarrow> u8 list" where
  "uuid_swap_fields u = [u ! 3, u ! 2, u ! 1, u ! 0, u ! 5, u ! 4, u ! 7, u ! 6] @ drop 8 u"

definition pn_build_cm_initiator_uuid :: "u16 \<Rightarrow> u16 \<Rightarrow> u16 \<Rightarrow> u8 list" where
  "pn_build_cm_initiator_uuid vendor_id device_id instance_id =
     [0xDE, 0xA0, 0x00, 0x00, 0x6C, 0x97, 0x11, 0xD1, 0x82, 0x71] @ be16 instance_id @ be16 device_id @ be16 vendor_id"

definition PNIO_DEVICE_INTERFACE_UUID :: "u8 list" where
  "PNIO_DEVICE_INTERFACE_UUID =
     [0xDE, 0xA0, 0x00, 0x01, 0x6C, 0x97, 0x11, 0xD1, 0x82, 0x71, 0x00, 0xA0, 0x24, 0x42, 0xDF, 0x7D]"

text \<open>The clock and the two random numbers are arguments.\<close>

record uuid_seed =
  us_now :: u64
  us_rand1 :: u32
  us_rand2 :: u32

definition rpc_generate_uuid :: "uuid_seed \<Rightarrow> u8 list" where
  "rpc_generate_uuid seed =
     (let u = le64 (us_now seed) @ le32 (us_rand1 seed) @ le32 (us_rand2 seed);
          u = u[6 := (u ! 6 AND 0x0F) OR 0x40]
      in u[8 := (u ! 8 AND 0x3F) OR 0x80])"

section \<open>Constants\<close>

definition RPC_MAX_PDU_SIZE :: nat where "RPC_MAX_PDU_SIZE = 1464"
definition RPC_HEADER_SIZE :: nat where "RPC_HEADER_SIZE = 80"
definition NDR_REQUEST_HEADER_SIZE :: nat where "NDR_REQUEST_HEADER_SIZE = 20"
definition PNIO_RPC_PORT :: u16 where "PNIO_RPC_PORT = 34964"

definition RPC_PACKET_TYPE_REQUEST :: u8 where "RPC_PACKET_TYPE_REQUEST = 0"
definition RPC_PACKET_TYPE_RESPONSE :: u8 where "RPC_PACKET_TYPE_RESPONSE = 2"
definition RPC_PACKET_TYPE_FAULT :: u8 where "RPC_PACKET_TYPE_FAULT = 3"
definition RPC_OPNUM_CONNECT :: u16 where "RPC_OPNUM_CONNECT = 0"
definition RPC_OPNUM_RELEASE :: u16 where "RPC_OPNUM_RELEASE = 1"
definition RPC_OPNUM_READ :: u16 where "RPC_OPNUM_READ = 2"
definition RPC_OPNUM_WRITE :: u16 where "RPC_OPNUM_WRITE = 3"
definition RPC_OPNUM_CONTROL :: u16 where "RPC_OPNUM_CONTROL = 4"
definition RPC_DREP_LITTLE_ENDIAN :: u8 where "RPC_DREP_LITTLE_ENDIAN = 0x10"

definition BLOCK_TYPE_AR_BLOCK_REQ :: u16 where "BLOCK_TYPE_AR_BLOCK_REQ = 0x0101"
definition BLOCK_TYPE_IOCR_BLOCK_REQ :: u16 where "BLOCK_TYPE_IOCR_BLOCK_REQ = 0x0102"
definition BLOCK_TYPE_ALARM_CR_BLOCK_REQ :: u16 where "BLOCK_TYPE_ALARM_CR_BLOCK_REQ = 0x0103"
definition BLOCK_TYPE_EXPECTED_SUBMOD_BLOCK :: u16 where "BLOCK_TYPE_EXPECTED_SUBMOD_BLOCK = 0x0104"
definition BLOCK_TYPE_AR_BLOCK_RES :: u16 where "BLOCK_TYPE_AR_BLOCK_RES = 0x8101"
definition BLOCK_TYPE_IOCR_BLOCK_RES :: u16 where "BLOCK_TYPE_IOCR_BLOCK_RES = 0x8102"
definition BLOCK_TYPE_ALARM_CR_BLOCK_RES :: u16 where "BLOCK_TYPE_ALARM_CR_BLOCK_RES = 0x8103"
definition BLOCK_TYPE_MODULE_DIFF_BLOCK :: u16 where "BLOCK_TYPE_MODULE_DIFF_BLOCK = 0x8104"
definition BLOCK_TYPE_IOD_CONTROL_REQ :: u16 where "BLOCK_TYPE_IOD_CONTROL_REQ = 0x0110"
definition BLOCK_TYPE_IOD_CONTROL_RES :: u16 where "BLOCK_TYPE_IOD_CONTROL_RES = 0x8110"
definition BLOCK_TYPE_IOX_CONTROL_REQ :: u16 where "BLOCK_TYPE_IOX_CONTROL_REQ = 0x0112"
definition BLOCK_TYPE_IOX_CONTROL_RES :: u16 where "BLOCK_TYPE_IOX_CONTROL_RES = 0x8112"
definition BLOCK_TYPE_RELEASE_BLOCK_REQ :: u16 where "BLOCK_TYPE_RELEASE_BLOCK_REQ = 0x0114"
definition BLOCK_TYPE_RELEASE_BLOCK_RES :: u16 where "BLOCK_TYPE_RELEASE_BLOCK_RES = 0x8114"
definition BLOCK_TYPE_IOD_READ_REQ_HEADER :: u16 where "BLOCK_TYPE_IOD_READ_REQ_HEADER = 0x0009"
definition BLOCK_TYPE_IOD_READ_RES_HEADER :: u16 where "BLOCK_TYPE_IOD_READ_RES_HEADER = 0x8009"
definition BLOCK_TYPE_IOD_WRITE_REQ_HEADER :: u16 where "BLOCK_TYPE_IOD_WRITE_REQ_HEADER = 0x0008"
definition BLOCK_TYPE_REAL_IDENT_DATA :: u16 where "BLOCK_TYPE_REAL_IDENT_DATA = 0x0013"

definition CONTROL_CMD_PRM_END :: u16 where "CONTROL_CMD_PRM_END = 0x0001"
definition CONTROL_CMD_APP_READY :: u16 where "CONTROL_CMD_APP_READY = 0x0002"
definition CONTROL_CMD_RELEASE :: u16 where "CONTROL_CMD_RELEASE = 0x0004"
definition CONTROL_CMD_DONE :: u16 where "CONTROL_CMD_DONE = 0x0008"

definition IOCR_PROP_RT_CLASS_1 :: u32 where "IOCR_PROP_RT_CLASS_1 = 1"
definition IOCR_TAG_HEADER_HIGH :: u16 where "IOCR_TAG_HEADER_HIGH = 0xC000"
definition IOCR_TAG_HEADER_LOW :: u16 where "IOCR_TAG_HEADER_LOW = 0xA000"
definition PNIO_ERR_CODE_CONNECT :: u8 where "PNIO_ERR_CODE_CONNECT = 0xC0"
definition PNIO_ERR_CODE_READ :: u8 where "PNIO_ERR_CODE_READ = 0xC2"
definition RPC_MAX_DISCOVERED_MODULES :: nat where "RPC_MAX_DISCOVERED_MODULES = 64"

lemmas rpc_sizes = RPC_MAX_PDU_SIZE_def RPC_HEADER_SIZE_def NDR_REQUEST_HEADER_SIZE_def
lemmas rpc_codes = RPC_PACKET_TYPE_REQUEST_def RPC_PACKET_TYPE_RESPONSE_def RPC_PACKET_TYPE_FAULT_def
  RPC_OPNUM_CONNECT_def RPC_OPNUM_RELEASE_def RPC_OPNUM_READ_def RPC_OPNUM_CONTROL_def RPC_DREP_LITTLE_ENDIAN_def
  CONTROL_CMD_PRM_END_def CONTROL_CMD_APP_READY_def CONTROL_CMD_RELEASE_def CONTROL_CMD_DONE_def
lemmas block_types = BLOCK_TYPE_AR_BLOCK_RES_def BLOCK_TYPE_IOCR_BLOCK_RES_def BLOCK_TYPE_ALARM_CR_BLOCK_RES_def
  BLOCK_TYPE_MODULE_DIFF_BLOCK_def BLOCK_TYPE_IOD_CONTROL_REQ_def BLOCK_TYPE_IOD_CONTROL_RES_def
  BLOCK_TYPE_IOX_CONTROL_REQ_def BLOCK_TYPE_IOX_CONTROL_RES_def BLOCK_TYPE_RELEASE_BLOCK_REQ_def
  BLOCK_TYPE_RELEASE_BLOCK_RES_def

section \<open>Headers\<close>

record rpc_context =
  rc_socket_fd :: int
  rc_controller_mac :: "u8 list"
  rc_controller_ip :: u32
  rc_controller_port :: u16
  rc_sequence_number :: u32
  rc_activity_uuid :: "u8 list"
  rc_interface_name :: string
  rc_peer :: "u32 option"

definition zero_rpc_context :: rpc_context where
  "zero_rpc_context = \<lparr>rc_socket_fd = 0, rc_controller_mac = replicate 6 0, rc_controller_ip = 0, rc_controller_port = 0,
     rc_sequence_number = 0, rc_activity_uuid = replicate 16 0, rc_interface_name = [], rc_peer = None\<rparr>"

text \<open>The packed header, for a packet type, the three UUIDs as they are on the wire, a sequence number,
  an operation and a length.\<close>

definition rpc_header :: "u8 \<Rightarrow> u8 list \<Rightarrow> u8 list \<Rightarrow> u8 list \<Rightarrow> u32 \<Rightarrow> u16 \<Rightarrow> u16 \<Rightarrow> u8 list" where
  "rpc_header ptype obj ifc act sequence_number opnum fragment_length =
     [4, ptype, 0x22, 0, RPC_DREP_LITTLE_ENDIAN, 0, 0, 0] @ obj @ ifc @ act @ le32 0 @ le32 1 @ le32 sequence_number @
     le16 opnum @ le16 0xFFFF @ le16 0xFFFF @ le16 fragment_length @ le16 0 @ [0, 0]"

definition build_rpc_header :: "rpc_context \<Rightarrow> u8 list \<Rightarrow> u16 \<Rightarrow> u16 \<Rightarrow> u8 list \<times> rpc_context" where
  "build_rpc_header ctx object_uuid opnum fragment_length =
     (rpc_header RPC_PACKET_TYPE_REQUEST (uuid_swap_fields object_uuid) (uuid_swap_fields PNIO_DEVICE_INTERFACE_UUID)
        (uuid_swap_fields (rc_activity_uuid ctx)) (rc_sequence_number ctx) opnum fragment_length,
      ctx\<lparr>rc_sequence_number := rc_sequence_number ctx + 1\<rparr>)"

definition write_block_header :: "u16 \<Rightarrow> u16 \<Rightarrow> u8 list" where
  "write_block_header btype len = be16 btype @ be16 len @ [1, 0]"

text \<open>A block with its header, whose length counts the two version bytes.\<close>

definition pnio_block :: "u16 \<Rightarrow> u8 list \<Rightarrow> u8 list" where
  "pnio_block btype body = write_block_header btype (of_nat (length body + 2)) @ body"

definition write_ndr_request_header :: "u32 \<Rightarrow> u32 \<Rightarrow> u8 list" where
  "write_ndr_request_header args_maximum args_length =
     le32 args_maximum @ le32 args_length @ le32 args_length @ [0, 0, 0, 0] @ le32 args_length"

text \<open>The end of every builder: both headers in front of the blocks.\<close>

definition finish_request :: "rpc_context \<Rightarrow> u8 list \<Rightarrow> u16 \<Rightarrow> u8 list \<Rightarrow> u8 list \<times> rpc_context" where
  "finish_request ctx object_uuid opnum blocks =
     (let ndr = write_ndr_request_header (of_nat (RPC_MAX_PDU_SIZE - RPC_HEADER_SIZE)) (of_nat (length blocks));
          (hdr, ctx) = build_rpc_header ctx object_uuid opnum (of_nat (NDR_REQUEST_HEADER_SIZE + length blocks))
      in (hdr @ ndr @ blocks, ctx))"

section \<open>The connect request\<close>

record iocr_param =
  ip_type :: u16
  ip_reference :: u16
  ip_frame_id :: u16
  ip_data_length :: u16
  ip_send_clock_factor :: u16
  ip_reduction_ratio :: u16
  ip_watchdog_factor :: u16

record expected_submodule =
  ex_slot :: u16
  ex_module_ident :: u32
  ex_subslot :: u16
  ex_submodule_ident :: u32
  ex_data_length :: u16
  ex_is_input :: bool

record connect_request_params =
  cp_ar_uuid :: "u8 list"
  cp_session_key :: u16
  cp_ar_type :: u16
  cp_ar_properties :: u32
  cp_station_name :: string
  cp_controller_mac :: "u8 list"
  cp_controller_uuid :: "u8 list"
  cp_controller_port :: u16
  cp_activity_timeout :: u16
  cp_iocr :: "iocr_param list"
  cp_expected_config :: "expected_submodule list"
  cp_max_alarm_data_length :: u16
  cp_rta_timeout_factor :: u16
  cp_rta_retries :: u16
  cp_data_hold_factor :: u16

definition iocr_type_code :: "iocr_type \<Rightarrow> u16" where
  "iocr_type_code t = (case t of IOCR_TYPE_INPUT \<Rightarrow> 1 | IOCR_TYPE_OUTPUT \<Rightarrow> 2 | IOCR_TYPE_MULTICAST \<Rightarrow> 3)"

definition ar_block_body :: "rpc_context \<Rightarrow> connect_request_params \<Rightarrow> u8 list" where
  "ar_block_body ctx ps =
     be16 (cp_ar_type ps) @ cp_ar_uuid ps @ be16 (cp_session_key ps) @ cp_controller_mac ps @ cp_controller_uuid ps @
     be32 (cp_ar_properties ps) @ be16 (cp_activity_timeout ps) @ be16 (rc_controller_port ctx) @
     be16 (of_nat (length (cp_station_name ps))) @ bytes_of (cp_station_name ps)"

text \<open>Whether the provider data of a submodule are in an IOCR; otherwise its consumer status is. A
  submodule without data is provided by the device.\<close>

definition in_iodata :: "bool \<Rightarrow> expected_submodule \<Rightarrow> bool" where
  "in_iodata is_input_iocr e =
     (if ex_data_length e = 0 then is_input_iocr else ex_is_input e = is_input_iocr)"

definition in_iocs :: "bool \<Rightarrow> expected_submodule \<Rightarrow> bool" where
  "in_iocs is_input_iocr e =
     (if ex_data_length e = 0 then \<not> is_input_iocr else ex_is_input e \<noteq> is_input_iocr)"

fun iodata_objects :: "bool \<Rightarrow> u16 \<Rightarrow> expected_submodule list \<Rightarrow> u8 list \<times> u16" where
  "iodata_objects inp offset [] = ([], offset)"
| "iodata_objects inp offset (e # es) =
     (if in_iodata inp e then
        (let (bs, offset') = iodata_objects inp (offset + ex_data_length e + 1) es in
         (be16 (ex_slot e) @ be16 (ex_subslot e) @ be16 offset @ bs, offset'))
      else iodata_objects inp offset es)"

fun iocs_objects :: "bool \<Rightarrow> u16 \<Rightarrow> expected_submodule list \<Rightarrow> u8 list" where
  "iocs_objects inp offset [] = []"
| "iocs_objects inp offset (e # es) =
     (if in_iocs inp e then be16 (ex_slot e) @ be16 (ex_subslot e) @ be16 offset @ iocs_objects inp (offset + 1) es
      else iocs_objects inp offset es)"

definition iocr_block_body :: "connect_request_params \<Rightarrow> iocr_param \<Rightarrow> u8 list" where
  "iocr_block_body ps c =
     (let inp = (ip_type c = iocr_type_code IOCR_TYPE_INPUT);
          es = cp_expected_config ps;
          (objects, offset) = iodata_objects inp 0 es
      in be16 (ip_type c) @ be16 (ip_reference c) @ be16 PROFINET_ETHERTYPE @ be32 IOCR_PROP_RT_CLASS_1 @
         be16 (ip_data_length c) @ be16 (ip_frame_id c) @ be16 (ip_send_clock_factor c) @ be16 (ip_reduction_ratio c) @
         be16 1 @ be16 0 @ be32 0xFFFFFFFF @ be16 (ip_watchdog_factor c) @
         be16 (if cp_data_hold_factor ps \<noteq> 0 then cp_data_hold_factor ps else 3) @ be16 IOCR_TAG_HEADER_HIGH @
         replicate 6 0 @ be16 1 @ be32 0 @
         be16 (of_nat (length (filter (in_iodata inp) es))) @ objects @
         be16 (of_nat (length (filter (in_iocs inp) es))) @ iocs_objects inp offset es)"

definition alarm_block_body :: "connect_request_params \<Rightarrow> u8 list" where
  "alarm_block_body ps =
     (let rta_tf = (if cp_rta_timeout_factor ps \<noteq> 0 then cp_rta_timeout_factor ps else 100);
          rta_tf = (if rta_tf > 100 then 100 else rta_tf)
      in be16 1 @ be16 PROFINET_ETHERTYPE @ be32 0 @ be16 rta_tf @
         be16 (if cp_rta_retries ps \<noteq> 0 then cp_rta_retries ps else 3) @ be16 1 @ be16 (cp_max_alarm_data_length ps) @
         be16 IOCR_TAG_HEADER_HIGH @ be16 IOCR_TAG_HEADER_LOW)"

text \<open>The slots in the order of their first submodule, at most as many as the array holds.\<close>

fun seen_slots :: "u16 list \<Rightarrow> expected_submodule list \<Rightarrow> u16 list" where
  "seen_slots seen [] = seen"
| "seen_slots seen (e # es) =
     seen_slots (if ex_slot e \<notin> set seen \<and> length seen < WTC_MAX_SLOTS then seen @ [ex_slot e] else seen) es"

definition submodule_bytes :: "expected_submodule \<Rightarrow> u8 list" where
  "submodule_bytes e =
     be16 (ex_subslot e) @ be32 (ex_submodule_ident e) @
     be16 (if ex_data_length e = 0 then 0 else if ex_is_input e then 1 else 2) @
     be16 (if ex_data_length e = 0 \<or> ex_is_input e then 1 else 2) @ be16 (ex_data_length e) @ [1, 1]"

definition slot_bytes :: "expected_submodule list \<Rightarrow> u16 \<Rightarrow> u8 list" where
  "slot_bytes es slot =
     (let subs = filter (\<lambda>e. ex_slot e = slot) es in
      be32 0 @ be16 slot @ be32 (case subs of [] \<Rightarrow> 0 | e # _ \<Rightarrow> ex_module_ident e) @ be16 0 @
      be16 (of_nat (length subs)) @ concat (map submodule_bytes subs))"

definition expected_block_body :: "connect_request_params \<Rightarrow> u8 list" where
  "expected_block_body ps =
     (let es = cp_expected_config ps; slots = seen_slots [] es in
      be16 (of_nat (length slots)) @ concat (map (slot_bytes es) slots))"

definition connect_blocks :: "rpc_context \<Rightarrow> connect_request_params \<Rightarrow> u8 list" where
  "connect_blocks ctx ps =
     pnio_block BLOCK_TYPE_AR_BLOCK_REQ (ar_block_body ctx ps) @
     concat (map (\<lambda>c. pnio_block BLOCK_TYPE_IOCR_BLOCK_REQ (iocr_block_body ps c)) (cp_iocr ps)) @
     pnio_block BLOCK_TYPE_ALARM_CR_BLOCK_REQ (alarm_block_body ps) @
     pnio_block BLOCK_TYPE_EXPECTED_SUBMOD_BLOCK (expected_block_body ps)"

text \<open>The reply holds the request and the offset up to which bytes were stored.\<close>

definition rpc_build_connect_request ::
  "uuid_seed \<Rightarrow> rpc_context option \<Rightarrow> connect_request_params option \<Rightarrow> bool \<Rightarrow> nat option \<Rightarrow>
   (wtc_result \<times> u8 list option \<times> nat) \<times> rpc_context option" where
  "rpc_build_connect_request seed ctxo params buffer_ok buf_len =
     on_handle (WTC_ERROR_INVALID_PARAM, None, 0) (\<lambda>ctx.
       case (params, buf_len) of
         (Some ps, Some n) \<Rightarrow>
           (if \<not> buffer_ok then ((WTC_ERROR_INVALID_PARAM, None, 0), ctx)
            else if n < RPC_MAX_PDU_SIZE then ((WTC_ERROR_NO_MEMORY, None, 0), ctx)
            else
              (let blocks = connect_blocks ctx ps; pos = RPC_HEADER_SIZE + NDR_REQUEST_HEADER_SIZE + length blocks in
               if pos > RPC_MAX_PDU_SIZE then ((WTC_ERROR_NO_MEMORY, None, pos), ctx)
               else
                 (let (pdu, ctx) = finish_request (ctx\<lparr>rc_activity_uuid := rpc_generate_uuid seed\<rparr>) (cp_ar_uuid ps)
                                     RPC_OPNUM_CONNECT blocks
                  in ((WTC_OK, Some pdu, pos), ctx))))
       | _ \<Rightarrow> ((WTC_ERROR_INVALID_PARAM, None, 0), ctx)) ctxo"

section \<open>Control, release and read requests\<close>

definition control_block_body :: "u8 list \<Rightarrow> u16 \<Rightarrow> u16 \<Rightarrow> u8 list" where
  "control_block_body uuid session_key command =
     be16 0 @ uuid @ be16 session_key @ be16 0 @ be16 command @ be16 0"

definition rpc_build_control_request ::
  "rpc_context option \<Rightarrow> u8 list option \<Rightarrow> u16 \<Rightarrow> u16 \<Rightarrow> bool \<Rightarrow> nat option \<Rightarrow> (wtc_result \<times> u8 list option) \<times> rpc_context option" where
  "rpc_build_control_request ctxo uuido session_key control_command buffer_ok buf_len =
     on_handle (WTC_ERROR_INVALID_PARAM, None) (\<lambda>ctx.
       case (uuido, buf_len) of
         (Some uuid, Some n) \<Rightarrow>
           (if \<not> buffer_ok then ((WTC_ERROR_INVALID_PARAM, None), ctx)
            else if n < RPC_MAX_PDU_SIZE then ((WTC_ERROR_NO_MEMORY, None), ctx)
            else
              (let (pdu, ctx) = finish_request ctx uuid RPC_OPNUM_CONTROL
                                  (pnio_block BLOCK_TYPE_IOD_CONTROL_REQ (control_block_body uuid session_key control_command))
               in ((WTC_OK, Some pdu), ctx)))
       | _ \<Rightarrow> ((WTC_ERROR_INVALID_PARAM, None), ctx)) ctxo"

definition rpc_build_release_request ::
  "rpc_context option \<Rightarrow> u8 list option \<Rightarrow> u16 \<Rightarrow> bool \<Rightarrow> nat option \<Rightarrow> (wtc_result \<times> u8 list option) \<times> rpc_context option" where
  "rpc_build_release_request ctxo uuido session_key buffer_ok buf_len =
     on_handle (WTC_ERROR_INVALID_PARAM, None) (\<lambda>ctx.
       case (uuido, buf_len) of
         (Some uuid, Some n) \<Rightarrow>
           (if \<not> buffer_ok then ((WTC_ERROR_INVALID_PARAM, None), ctx)
            else if n < RPC_MAX_PDU_SIZE then ((WTC_ERROR_NO_MEMORY, None), ctx)
            else
              (let (pdu, ctx) = finish_request ctx uuid RPC_OPNUM_RELEASE
                                  (pnio_block BLOCK_TYPE_RELEASE_BLOCK_REQ (control_block_body uuid session_key CONTROL_CMD_RELEASE))
               in ((WTC_OK, Some pdu), ctx)))
       | _ \<Rightarrow> ((WTC_ERROR_INVALID_PARAM, None), ctx)) ctxo"

record read_request_params =
  rq_ar_uuid :: "u8 list"
  rq_session_key :: u16
  rq_api :: u32
  rq_slot :: u16
  rq_subslot :: u16
  rq_index :: u16
  rq_max_record_length :: u32

definition rpc_build_read_request ::
  "rpc_context option \<Rightarrow> read_request_params option \<Rightarrow> bool \<Rightarrow> nat option \<Rightarrow> (wtc_result \<times> u8 list option) \<times> rpc_context option" where
  "rpc_build_read_request ctxo params buffer_ok buf_len =
     on_handle (WTC_ERROR_INVALID_PARAM, None) (\<lambda>ctx.
       case (params, buf_len) of
         (Some ps, Some n) \<Rightarrow>
           (if \<not> buffer_ok then ((WTC_ERROR_INVALID_PARAM, None), ctx)
            else if n < RPC_MAX_PDU_SIZE then ((WTC_ERROR_NO_MEMORY, None), ctx)
            else
              (let body = be16 1 @ rq_ar_uuid ps @ be32 (rq_api ps) @ be16 (rq_slot ps) @ be16 (rq_subslot ps) @ be16 0 @
                            be16 (rq_index ps) @ be32 (rq_max_record_length ps) @ replicate 16 0 @ replicate 8 0;
                   (pdu, ctx) = finish_request ctx (rq_ar_uuid ps) RPC_OPNUM_READ (pnio_block BLOCK_TYPE_IOD_READ_REQ_HEADER body)
               in ((WTC_OK, Some pdu), ctx)))
       | _ \<Rightarrow> ((WTC_ERROR_INVALID_PARAM, None), ctx)) ctxo"

section \<open>Fields of a received packet\<close>

type_synonym mem = "nat \<Rightarrow> u8"

definition mem_bytes :: "mem \<Rightarrow> nat \<Rightarrow> nat \<Rightarrow> u8 list" where
  "mem_bytes m p n = map m [p..<p + n]"

definition read_u16_be :: "mem \<Rightarrow> nat \<Rightarrow> u16" where
  "read_u16_be m p = of_be16 (m p) (m (p + 1))"

definition read_u32_be :: "mem \<Rightarrow> nat \<Rightarrow> u32" where
  "read_u32_be m p = of_be32 (m p) (m (p + 1)) (m (p + 2)) (m (p + 3))"

text \<open>The fields of the packed header by their offsets. The byte order of the 16- and 32-bit fields is
  that of the sender, in the first byte of the data representation.\<close>

abbreviation hdr_packet_type :: "mem \<Rightarrow> u8" where "hdr_packet_type m \<equiv> m 1"
abbreviation hdr_drep0 :: "mem \<Rightarrow> u8" where "hdr_drep0 m \<equiv> m 4"

definition little_endian :: "mem \<Rightarrow> bool" where
  "little_endian m \<longleftrightarrow> hdr_drep0 m AND 0x10 \<noteq> 0"

definition rpc_hdr_u16 :: "mem \<Rightarrow> nat \<Rightarrow> u16" where
  "rpc_hdr_u16 m p = (if little_endian m then of_be16 (m (p + 1)) (m p) else of_be16 (m p) (m (p + 1)))"

definition rpc_hdr_u32 :: "mem \<Rightarrow> nat \<Rightarrow> u32" where
  "rpc_hdr_u32 m p =
     (if little_endian m then of_be32 (m (p + 3)) (m (p + 2)) (m (p + 1)) (m p)
      else of_be32 (m p) (m (p + 1)) (m (p + 2)) (m (p + 3)))"

definition read_ndr_u32 :: "mem \<Rightarrow> nat \<Rightarrow> u32" where
  "read_ndr_u32 m p =
     (if little_endian m
      then ucast (m p) OR push_bit 8 (ucast (m (p + 1))) OR push_bit 16 (ucast (m (p + 2))) OR push_bit 24 (ucast (m (p + 3)))
      else push_bit 24 (ucast (m p)) OR push_bit 16 (ucast (m (p + 1))) OR push_bit 8 (ucast (m (p + 2))) OR ucast (m (p + 3)))"

definition response_has_ndr_header :: "mem \<Rightarrow> nat \<Rightarrow> nat \<Rightarrow> bool" where
  "response_has_ndr_header m pos len =
     (if pos + 6 > len then False
      else
        (let maybe_type = read_u16_be m pos in
         if maybe_type \<ge> 0x0001 \<and> maybe_type \<le> 0x02FF then False
         else if maybe_type \<ge> 0x8001 \<and> maybe_type \<le> 0x81FF then False
         else True))"

section \<open>The connect response\<close>

record connect_response =
  cr_success :: bool
  cr_ar_uuid :: "u8 list"
  cr_session_key :: u16
  cr_device_mac :: "u8 list"
  cr_device_port :: u16
  cr_frame_ids :: "(u16 \<times> u16) list"
  cr_device_alarm_ref :: u16
  cr_has_diff :: bool
  cr_diff_count :: int
  cr_discovered_modules :: "discovered_module list"
  cr_error_code :: u8

definition zero_connect_response :: connect_response where
  "zero_connect_response = \<lparr>cr_success = False, cr_ar_uuid = replicate 16 0, cr_session_key = 0, cr_device_mac = replicate 6 0,
     cr_device_port = 0, cr_frame_ids = [], cr_device_alarm_ref = 0, cr_has_diff = False, cr_diff_count = 0,
     cr_discovered_modules = [], cr_error_code = 0\<rparr>"

text \<open>The three nested loops over a module difference block. Their state is the position and the modules
  found so far.\<close>

fun diff_submodules :: "mem \<Rightarrow> nat \<Rightarrow> u16 \<Rightarrow> u32 \<Rightarrow> nat \<Rightarrow> nat \<times> discovered_module list \<Rightarrow> nat \<times> discovered_module list" where
  "diff_submodules m block_end slot module_ident 0 st = st"
| "diff_submodules m block_end slot module_ident (Suc n) (pos, ds) =
     (if pos + 8 > block_end \<or> length ds \<ge> WTC_MAX_SLOTS then (pos, ds)
      else diff_submodules m block_end slot module_ident n
             (pos + 8, ds @ [\<lparr>dm_slot = slot, dm_subslot = read_u16_be m pos, dm_module_ident = module_ident,
                              dm_submodule_ident = read_u32_be m (pos + 2)\<rparr>]))"

fun diff_modules :: "mem \<Rightarrow> nat \<Rightarrow> nat \<Rightarrow> nat \<times> discovered_module list \<Rightarrow> nat \<times> discovered_module list" where
  "diff_modules m block_end 0 st = st"
| "diff_modules m block_end (Suc n) (pos, ds) =
     (if pos + 8 > block_end then (pos, ds)
      else diff_modules m block_end n
             (diff_submodules m block_end (read_u16_be m pos) (read_u32_be m (pos + 2))
                (min (unat (read_u16_be m (pos + 8))) 16) (pos + 10, ds)))"

fun diff_apis :: "mem \<Rightarrow> nat \<Rightarrow> nat \<Rightarrow> nat \<times> discovered_module list \<Rightarrow> nat \<times> discovered_module list" where
  "diff_apis m block_end 0 st = st"
| "diff_apis m block_end (Suc n) (pos, ds) =
     (if pos + 6 > block_end then (pos, ds)
      else diff_apis m block_end n (diff_modules m block_end (min (unat (read_u16_be m (pos + 4))) 64) (pos + 6, ds)))"

text \<open>One block, from the position behind its header on.\<close>

definition connect_block :: "mem \<Rightarrow> u16 \<Rightarrow> nat \<Rightarrow> nat \<Rightarrow> connect_response \<Rightarrow> connect_response" where
  "connect_block m btype pos block_end r =
     (if btype = BLOCK_TYPE_AR_BLOCK_RES then
        r\<lparr>cr_ar_uuid := mem_bytes m (pos + 2) 16, cr_session_key := read_u16_be m (pos + 18),
          cr_device_mac := mem_bytes m (pos + 20) 6, cr_device_port := read_u16_be m (pos + 26), cr_success := True\<rparr>
      else if btype = BLOCK_TYPE_IOCR_BLOCK_RES then
        (if length (cr_frame_ids r) < 4
         then r\<lparr>cr_frame_ids := cr_frame_ids r @ [(read_u16_be m (pos + 2), read_u16_be m (pos + 4))]\<rparr> else r)
      else if btype = BLOCK_TYPE_ALARM_CR_BLOCK_RES then r\<lparr>cr_device_alarm_ref := read_u16_be m (pos + 2)\<rparr>
      else if btype = BLOCK_TYPE_MODULE_DIFF_BLOCK then
        (let api_count = unat (read_u16_be m pos) in
         r\<lparr>cr_has_diff := True, cr_diff_count := int api_count,
           cr_discovered_modules := snd (diff_apis m block_end (min api_count 4) (pos + 2, []))\<rparr>)
      else r)"

function connect_response_blocks :: "mem \<Rightarrow> nat \<Rightarrow> nat \<Rightarrow> connect_response \<Rightarrow> connect_response" where
  "connect_response_blocks m buf_len pos r =
     (if pos + 6 \<le> buf_len then
        (let block_length = unat (read_u16_be m (pos + 2)) in
         if block_length < 2 then r
         else
           (let block_end = pos + 6 + block_length - 2 in
            if block_end > buf_len then r
            else connect_response_blocks m buf_len block_end (connect_block m (read_u16_be m pos) (pos + 6) block_end r)))
      else r)"
  by pat_completeness auto
termination by (relation "measure (\<lambda>(m, buf_len, pos, r). buf_len - pos)") auto

declare connect_response_blocks.simps [simp del]

definition finish_connect_response :: "connect_response \<Rightarrow> wtc_result \<times> connect_response option" where
  "finish_connect_response r = (if cr_success r then WTC_OK else WTC_ERROR_PROTOCOL, Some r)"

definition rpc_parse_connect_response :: "mem option \<Rightarrow> nat \<Rightarrow> bool \<Rightarrow> wtc_result \<times> connect_response option" where
  "rpc_parse_connect_response buffer buf_len response_ok =
     (case buffer of
        None \<Rightarrow> (WTC_ERROR_INVALID_PARAM, None)
      | Some m \<Rightarrow>
          (if \<not> response_ok \<or> buf_len < RPC_HEADER_SIZE then (WTC_ERROR_INVALID_PARAM, None)
           else
             (let r = zero_connect_response; pos = RPC_HEADER_SIZE in
              if hdr_packet_type m = RPC_PACKET_TYPE_FAULT
              then (WTC_ERROR_PROTOCOL, Some (r\<lparr>cr_error_code := PNIO_ERR_CODE_CONNECT\<rparr>))
              else if hdr_packet_type m \<noteq> RPC_PACKET_TYPE_RESPONSE then (WTC_ERROR_PROTOCOL, Some r)
              else if response_has_ndr_header m pos buf_len then
                (if pos + 20 > buf_len then (WTC_ERROR_PROTOCOL, Some r)
                 else
                   (let pnio_status = read_ndr_u32 m pos in
                    if pnio_status \<noteq> 0 then (WTC_ERROR_PROTOCOL, Some (r\<lparr>cr_error_code := ucast pnio_status\<rparr>))
                    else if read_ndr_u32 m (pos + 16) = 0 then (WTC_ERROR_PROTOCOL, Some r)
                    else finish_connect_response (connect_response_blocks m buf_len (pos + 20) r)))
              else finish_connect_response (connect_response_blocks m buf_len pos r))))"

section \<open>The control response\<close>

definition rpc_parse_control_response :: "mem option \<Rightarrow> nat \<Rightarrow> u16 \<Rightarrow> bool \<Rightarrow> wtc_result \<times> bool option" where
  "rpc_parse_control_response buffer buf_len expected_command success_ok =
     (case buffer of
        None \<Rightarrow> (WTC_ERROR_INVALID_PARAM, None)
      | Some m \<Rightarrow>
          (if \<not> success_ok \<or> buf_len < RPC_HEADER_SIZE then (WTC_ERROR_INVALID_PARAM, None)
           else if hdr_packet_type m = RPC_PACKET_TYPE_FAULT then (WTC_ERROR_PROTOCOL, Some False)
           else if hdr_packet_type m \<noteq> RPC_PACKET_TYPE_RESPONSE then (WTC_ERROR_PROTOCOL, Some False)
           else
             (let ndr = response_has_ndr_header m RPC_HEADER_SIZE buf_len;
                  pos = (if ndr then RPC_HEADER_SIZE + 20 else RPC_HEADER_SIZE)
              in if ndr \<and> RPC_HEADER_SIZE + 20 > buf_len then (WTC_ERROR_PROTOCOL, Some False)
                 else if ndr \<and> read_ndr_u32 m RPC_HEADER_SIZE \<noteq> 0 then (WTC_ERROR_PROTOCOL, Some False)
                 else if pos + 6 > buf_len then (WTC_ERROR_PROTOCOL, Some False)
                 else if read_u16_be m pos \<noteq> BLOCK_TYPE_IOD_CONTROL_RES \<and> read_u16_be m pos \<noteq> BLOCK_TYPE_RELEASE_BLOCK_RES
                 then (WTC_ERROR_PROTOCOL, Some False)
                 else (WTC_OK, Some True))))"

section \<open>Requests from the device\<close>

record incoming_control_request =
  ic_ar_uuid :: "u8 list"
  ic_session_key :: u16
  ic_control_command :: u16
  ic_source_ip :: u32
  ic_source_port :: u16
  ic_activity_uuid :: "u8 list"
  ic_sequence_number :: u32
  ic_interface_uuid :: "u8 list"
  ic_block_type :: u16
  ic_drep0 :: u8

definition zero_incoming :: incoming_control_request where
  "zero_incoming = \<lparr>ic_ar_uuid = replicate 16 0, ic_session_key = 0, ic_control_command = 0, ic_source_ip = 0, ic_source_port = 0,
     ic_activity_uuid = replicate 16 0, ic_sequence_number = 0, ic_interface_uuid = replicate 16 0, ic_block_type = 0, ic_drep0 = 0\<rparr>"

text \<open>The control block, at its header.\<close>

definition incoming_block :: "mem \<Rightarrow> nat \<Rightarrow> nat \<Rightarrow> incoming_control_request \<Rightarrow> wtc_result \<times> incoming_control_request option" where
  "incoming_block m buf_len pos r =
     (let btype = read_u16_be m pos in
      if btype \<noteq> BLOCK_TYPE_IOD_CONTROL_REQ \<and> btype \<noteq> BLOCK_TYPE_IOX_CONTROL_REQ then (WTC_ERROR_PROTOCOL, Some r)
      else
        (let r = r\<lparr>ic_block_type := btype\<rparr> in
         if pos + 8 + 16 > buf_len then (WTC_ERROR_PROTOCOL, Some r)
         else
           (let r = r\<lparr>ic_ar_uuid := mem_bytes m (pos + 8) 16\<rparr> in
            if pos + 24 + 2 > buf_len then (WTC_ERROR_PROTOCOL, Some r)
            else
              (let r = r\<lparr>ic_session_key := read_u16_be m (pos + 24)\<rparr> in
               if pos + 28 + 2 > buf_len then (WTC_ERROR_PROTOCOL, Some r)
               else (WTC_OK, Some (r\<lparr>ic_control_command := read_u16_be m (pos + 28)\<rparr>))))))"

definition rpc_parse_incoming_control_request :: "mem option \<Rightarrow> nat \<Rightarrow> bool \<Rightarrow> wtc_result \<times> incoming_control_request option" where
  "rpc_parse_incoming_control_request buffer buf_len request_ok =
     (case buffer of
        None \<Rightarrow> (WTC_ERROR_INVALID_PARAM, None)
      | Some m \<Rightarrow>
          (if \<not> request_ok \<or> buf_len < RPC_HEADER_SIZE then (WTC_ERROR_INVALID_PARAM, None)
           else if hdr_packet_type m \<noteq> RPC_PACKET_TYPE_REQUEST then (WTC_ERROR_PROTOCOL, Some zero_incoming)
           else if rpc_hdr_u16 m 68 \<noteq> RPC_OPNUM_CONTROL then (WTC_ERROR_PROTOCOL, Some zero_incoming)
           else
             (let r = zero_incoming\<lparr>ic_drep0 := hdr_drep0 m, ic_activity_uuid := mem_bytes m 40 16,
                        ic_sequence_number := rpc_hdr_u32 m 64, ic_interface_uuid := mem_bytes m 24 16\<rparr>;
                  ndr = response_has_ndr_header m RPC_HEADER_SIZE buf_len;
                  pos = (if ndr then RPC_HEADER_SIZE + NDR_REQUEST_HEADER_SIZE else RPC_HEADER_SIZE)
              in if ndr \<and> RPC_HEADER_SIZE + NDR_REQUEST_HEADER_SIZE > buf_len then (WTC_ERROR_PROTOCOL, Some r)
                 else if pos + 6 > buf_len then (WTC_ERROR_PROTOCOL, Some r)
                 else incoming_block m buf_len pos r)))"

definition rpc_build_control_response ::
  "rpc_context option \<Rightarrow> incoming_control_request option \<Rightarrow> bool \<Rightarrow> nat option \<Rightarrow> wtc_result \<times> u8 list option" where
  "rpc_build_control_response ctxo request buffer_ok buf_len =
     (case (ctxo, request, buf_len) of
        (Some ctx, Some r, Some n) \<Rightarrow>
          (if \<not> buffer_ok then (WTC_ERROR_INVALID_PARAM, None)
           else if n < RPC_MAX_PDU_SIZE then (WTC_ERROR_NO_MEMORY, None)
           else
             (let swap = (if ic_drep0 r \<noteq> RPC_DREP_LITTLE_ENDIAN then uuid_swap_fields else (\<lambda>u. u));
                  btype = (if ic_block_type r = BLOCK_TYPE_IOX_CONTROL_REQ then BLOCK_TYPE_IOX_CONTROL_RES else BLOCK_TYPE_IOD_CONTROL_RES);
                  block = pnio_block btype (control_block_body (ic_ar_uuid r) (ic_session_key r) CONTROL_CMD_DONE);
                  hdr = rpc_header RPC_PACKET_TYPE_RESPONSE (uuid_swap_fields (ic_ar_uuid r)) (swap (ic_interface_uuid r))
                          (swap (ic_activity_uuid r)) (ic_sequence_number r) RPC_OPNUM_CONTROL (of_nat (20 + length block));
                  ndr = [0, 0, 0, 0] @ le32 (of_nat (length block)) @ le32 (of_nat (length block)) @ [0, 0, 0, 0] @
                        le32 (of_nat (length block))
              in (WTC_OK, Some (hdr @ ndr @ block))))
      | _ \<Rightarrow> (WTC_ERROR_INVALID_PARAM, None))"

section \<open>Records\<close>

record read_response =
  rr_success :: bool
  rr_index :: u16
  rr_record_data_length :: u32
  rr_modules :: "discovered_module list"
  rr_error_code :: u8

definition zero_read_response :: read_response where
  "zero_read_response = \<lparr>rr_success = False, rr_index = 0, rr_record_data_length = 0, rr_modules = [], rr_error_code = 0\<rparr>"

text \<open>The three loops over the identification data; their counters are 16 bits wide and so are the counts.
  Submodules past the capacity are read and dropped.\<close>

fun ident_subslots :: "mem \<Rightarrow> nat \<Rightarrow> u16 \<Rightarrow> u32 \<Rightarrow> nat \<Rightarrow> nat \<times> discovered_module list \<Rightarrow> nat \<times> discovered_module list" where
  "ident_subslots m data_len slot module_ident 0 st = st"
| "ident_subslots m data_len slot module_ident (Suc n) (pos, ds) =
     (if pos + 6 \<le> data_len then
        ident_subslots m data_len slot module_ident n
          (pos + 6, if length ds < RPC_MAX_DISCOVERED_MODULES
                    then ds @ [\<lparr>dm_slot = slot, dm_subslot = read_u16_be m pos, dm_module_ident = module_ident,
                                dm_submodule_ident = read_u32_be m (pos + 2)\<rparr>] else ds)
      else (pos, ds))"

fun ident_slots :: "mem \<Rightarrow> nat \<Rightarrow> nat \<Rightarrow> nat \<times> discovered_module list \<Rightarrow> nat \<times> discovered_module list" where
  "ident_slots m data_len 0 st = st"
| "ident_slots m data_len (Suc n) (pos, ds) =
     (if pos + 8 \<le> data_len then
        ident_slots m data_len n
          (ident_subslots m data_len (read_u16_be m pos) (read_u32_be m (pos + 2)) (unat (read_u16_be m (pos + 6))) (pos + 8, ds))
      else (pos, ds))"

fun ident_apis :: "mem \<Rightarrow> nat \<Rightarrow> nat \<Rightarrow> nat \<times> discovered_module list \<Rightarrow> nat \<times> discovered_module list" where
  "ident_apis m data_len 0 st = st"
| "ident_apis m data_len (Suc n) (pos, ds) =
     (if pos + 6 \<le> data_len then ident_apis m data_len n (ident_slots m data_len (unat (read_u16_be m (pos + 4))) (pos + 6, ds))
      else (pos, ds))"

definition parse_real_identification_data :: "mem \<Rightarrow> nat \<Rightarrow> read_response \<Rightarrow> wtc_result \<times> read_response" where
  "parse_real_identification_data m data_len r =
     (let pos = (if 6 \<le> data_len \<and> read_u16_be m 0 = BLOCK_TYPE_REAL_IDENT_DATA then 6 else 0) in
      if pos + 2 > data_len then (WTC_ERROR_PROTOCOL, r)
      else (WTC_OK, r\<lparr>rr_modules := snd (ident_apis m data_len (unat (read_u16_be m pos)) (pos + 2, []))\<rparr>))"

text \<open>The record header block at \<open>pos\<close> and the record behind it.\<close>

definition read_response_block :: "mem \<Rightarrow> nat \<Rightarrow> nat \<Rightarrow> read_response \<Rightarrow> wtc_result \<times> read_response option" where
  "read_response_block m buf_len pos r =
     (if pos + 6 > buf_len then (WTC_ERROR_PROTOCOL, Some r)
      else if read_u16_be m pos \<noteq> BLOCK_TYPE_IOD_READ_RES_HEADER then (WTC_ERROR_PROTOCOL, Some r)
      else if unat (read_u16_be m (pos + 2)) < 2 then (WTC_ERROR_PROTOCOL, Some r)
      else if pos + 34 + 6 > buf_len then (WTC_ERROR_PROTOCOL, Some r)
      else
        (let r = r\<lparr>rr_index := read_u16_be m (pos + 34), rr_record_data_length := read_u32_be m (pos + 36)\<rparr>;
             dpos = (if pos + 40 + 24 \<le> buf_len then pos + 64 else pos + 40);
             r = r\<lparr>rr_success := True\<rparr>
         in if rr_record_data_length r \<noteq> 0 \<and> dpos < buf_len \<and> (rr_index r = 0xE001 \<or> rr_index r = 0xF000)
            then (WTC_OK, Some (snd (parse_real_identification_data (\<lambda>i. m (dpos + i))
                                       (min (buf_len - dpos) (unat (rr_record_data_length r))) r)))
            else (WTC_OK, Some r)))"

definition rpc_parse_read_response :: "mem option \<Rightarrow> nat \<Rightarrow> bool \<Rightarrow> wtc_result \<times> read_response option" where
  "rpc_parse_read_response buffer buf_len response_ok =
     (case buffer of
        None \<Rightarrow> (WTC_ERROR_INVALID_PARAM, None)
      | Some m \<Rightarrow>
          (if \<not> response_ok \<or> buf_len < RPC_HEADER_SIZE then (WTC_ERROR_INVALID_PARAM, None)
           else
             (let r = zero_read_response; pos = RPC_HEADER_SIZE in
              if hdr_packet_type m = RPC_PACKET_TYPE_FAULT then (WTC_ERROR_PROTOCOL, Some (r\<lparr>rr_error_code := PNIO_ERR_CODE_READ\<rparr>))
              else if hdr_packet_type m \<noteq> RPC_PACKET_TYPE_RESPONSE then (WTC_ERROR_PROTOCOL, Some r)
              else if response_has_ndr_header m pos buf_len then
                (if pos + 20 > buf_len then (WTC_ERROR_PROTOCOL, Some r)
                 else if read_ndr_u32 m pos \<noteq> 0 then (WTC_ERROR_PROTOCOL, Some (r\<lparr>rr_error_code := ucast (read_ndr_u32 m pos)\<rparr>))
                 else read_response_block m buf_len (pos + 20) r)
              else read_response_block m buf_len pos r)))"

section \<open>Datagrams\<close>

text \<open>The outcomes of the system calls of one exchange: whether \<open>connect\<close> succeeds, what \<open>send\<close> and \<open>poll\<close>
  return, the datagram \<open>recvfrom\<close> delivers (\<open>None\<close> for a failure), and the old content of the buffer.\<close>

record rpc_io =
  rx_connect_ok :: bool
  rx_sent :: int
  rx_poll :: int
  rx_datagram :: "u8 list option"
  rx_stack :: mem

definition received :: "mem \<Rightarrow> u8 list \<Rightarrow> mem" where
  "received stack bs = (\<lambda>i. if i < length bs then bs ! i else stack i)"

definition rpc_send_and_receive ::
  "rpc_io \<Rightarrow> rpc_context option \<Rightarrow> u32 \<Rightarrow> u8 list option \<Rightarrow> bool \<Rightarrow> nat option \<Rightarrow>
   (wtc_result \<times> (mem \<times> nat) option) \<times> rpc_context option" where
  "rpc_send_and_receive net ctxo device_ip request response_ok resp_len =
     on_handle (WTC_ERROR_INVALID_PARAM, None) (\<lambda>ctx.
       case (request, resp_len) of
         (Some req, Some n) \<Rightarrow>
           (if \<not> response_ok then ((WTC_ERROR_INVALID_PARAM, None), ctx)
            else if rc_socket_fd ctx < 0 then ((WTC_ERROR_IO, None), ctx)
            else if \<not> rx_connect_ok net then ((WTC_ERROR_IO, None), ctx)
            else
              (let ctx = ctx\<lparr>rc_peer := Some device_ip\<rparr> in
               if rx_sent net < 0 then ((WTC_ERROR_IO, None), ctx)
               else if rx_poll net < 0 then ((WTC_ERROR_IO, None), ctx)
               else if rx_poll net = 0 then ((WTC_ERROR_TIMEOUT, None), ctx)
               else (case rx_datagram net of
                       None \<Rightarrow> ((WTC_ERROR_IO, None), ctx)
                     | Some d \<Rightarrow> ((WTC_OK, Some (received (rx_stack net) (take n d), length (take n d))), ctx\<lparr>rc_peer := None\<rparr>))))
       | _ \<Rightarrow> ((WTC_ERROR_INVALID_PARAM, None), ctx)) ctxo"

definition rpc_context_init ::
  "bool \<Rightarrow> int \<Rightarrow> bool \<Rightarrow> u16 option \<Rightarrow> uuid_seed \<Rightarrow> rpc_context option \<Rightarrow> u8 list option \<Rightarrow> u32 \<Rightarrow> string option \<Rightarrow>
   wtc_result \<times> rpc_context option" where
  "rpc_context_init bind_device_ok fd bind_ok port seed ctxo controller_mac controller_ip interface_name =
     on_handle WTC_ERROR_INVALID_PARAM (\<lambda>ctx.
       case controller_mac of
         None \<Rightarrow> (WTC_ERROR_INVALID_PARAM, ctx)
       | Some mac \<Rightarrow>
           (let ctx = zero_rpc_context\<lparr>rc_interface_name := (case interface_name of Some s \<Rightarrow> cstr_copy 31 s | None \<Rightarrow> []),
                        rc_socket_fd := fd\<rparr>
            in if fd < 0 then (WTC_ERROR_IO, ctx)
               else if \<not> bind_ok then (WTC_ERROR_IO, ctx\<lparr>rc_socket_fd := - 1\<rparr>)
               else (WTC_OK, ctx\<lparr>rc_controller_port := (case port of Some p \<Rightarrow> p | None \<Rightarrow> 0), rc_controller_mac := mac,
                       rc_controller_ip := controller_ip, rc_sequence_number := 1, rc_activity_uuid := rpc_generate_uuid seed\<rparr>))) ctxo"

definition rpc_context_cleanup :: "rpc_context option \<Rightarrow> rpc_context option" where
  "rpc_context_cleanup ctxo =
     map_option (\<lambda>ctx. if rc_socket_fd ctx \<ge> 0 then ctx\<lparr>rc_socket_fd := - 1\<rparr> else ctx) ctxo"

section \<open>Calls\<close>

text \<open>The stack arrays of the calls have the size of the largest packet.\<close>

abbreviation pdu_buffer :: "nat option" where "pdu_buffer \<equiv> Some RPC_MAX_PDU_SIZE"

definition rpc_connect ::
  "uuid_seed \<Rightarrow> rpc_io \<Rightarrow> rpc_context option \<Rightarrow> u32 \<Rightarrow> connect_request_params option \<Rightarrow> bool \<Rightarrow>
   (wtc_result \<times> connect_response option) \<times> rpc_context option" where
  "rpc_connect seed net ctxo device_ip params response_ok =
     (if ctxo = None \<or> params = None \<or> \<not> response_ok then ((WTC_ERROR_INVALID_PARAM, None), ctxo)
      else
        (case rpc_build_connect_request seed ctxo params True pdu_buffer of
           ((WTC_OK, pdu, _), ctxo) \<Rightarrow>
             (case rpc_send_and_receive net ctxo device_ip pdu True pdu_buffer of
                ((WTC_OK, Some (m, len)), ctxo) \<Rightarrow> (rpc_parse_connect_response (Some m) len True, ctxo)
              | ((res, _), ctxo) \<Rightarrow> ((res, None), ctxo))
         | ((res, _), ctxo) \<Rightarrow> ((res, None), ctxo)))"

definition control_call :: "rpc_io \<Rightarrow> u16 \<Rightarrow> rpc_context option \<Rightarrow> u32 \<Rightarrow> u8 list option \<Rightarrow> u16 \<Rightarrow> wtc_result \<times> rpc_context option" where
  "control_call net command ctxo device_ip uuido session_key =
     (if ctxo = None \<or> uuido = None then (WTC_ERROR_INVALID_PARAM, ctxo)
      else
        (case rpc_build_control_request ctxo uuido session_key command True pdu_buffer of
           ((WTC_OK, pdu), ctxo) \<Rightarrow>
             (case rpc_send_and_receive net ctxo device_ip pdu True pdu_buffer of
                ((WTC_OK, Some (m, len)), ctxo) \<Rightarrow>
                  (case rpc_parse_control_response (Some m) len command True of
                     (WTC_OK, Some True) \<Rightarrow> (WTC_OK, ctxo)
                   | (WTC_OK, _) \<Rightarrow> (WTC_ERROR_PROTOCOL, ctxo)
                   | (res, _) \<Rightarrow> (res, ctxo))
              | ((res, _), ctxo) \<Rightarrow> (res, ctxo))
         | ((res, _), ctxo) \<Rightarrow> (res, ctxo)))"

definition rpc_parameter_end :: "rpc_io \<Rightarrow> rpc_context option \<Rightarrow> u32 \<Rightarrow> u8 list option \<Rightarrow> u16 \<Rightarrow> wtc_result \<times> rpc_context option" where
  "rpc_parameter_end net = control_call net CONTROL_CMD_PRM_END"

definition rpc_application_ready :: "rpc_io \<Rightarrow> rpc_context option \<Rightarrow> u32 \<Rightarrow> u8 list option \<Rightarrow> u16 \<Rightarrow> wtc_result \<times> rpc_context option" where
  "rpc_application_ready net = control_call net CONTROL_CMD_APP_READY"

definition rpc_release :: "rpc_io \<Rightarrow> rpc_context option \<Rightarrow> u32 \<Rightarrow> u8 list option \<Rightarrow> u16 \<Rightarrow> wtc_result \<times> rpc_context option" where
  "rpc_release net ctxo device_ip uuido session_key =
     (if ctxo = None \<or> uuido = None then (WTC_ERROR_INVALID_PARAM, ctxo)
      else
        (case rpc_build_release_request ctxo uuido session_key True pdu_buffer of
           ((WTC_OK, pdu), ctxo) \<Rightarrow>
             (WTC_OK, snd (rpc_send_and_receive net ctxo device_ip pdu True pdu_buffer))
         | ((res, _), ctxo) \<Rightarrow> (res, ctxo)))"

definition rpc_read_record ::
  "rpc_io \<Rightarrow> rpc_context option \<Rightarrow> u32 \<Rightarrow> read_request_params option \<Rightarrow> bool \<Rightarrow> (wtc_result \<times> read_response option) \<times> rpc_context option" where
  "rpc_read_record net ctxo device_ip params response_ok =
     (if ctxo = None \<or> params = None \<or> \<not> response_ok then ((WTC_ERROR_INVALID_PARAM, None), ctxo)
      else
        (case rpc_build_read_request ctxo params True pdu_buffer of
           ((WTC_OK, pdu), ctxo) \<Rightarrow>
             (case rpc_send_and_receive net ctxo device_ip pdu True pdu_buffer of
                ((WTC_OK, Some (m, len)), ctxo) \<Rightarrow> (rpc_parse_read_response (Some m) len True, ctxo)
              | ((res, _), ctxo) \<Rightarrow> ((res, None), ctxo))
         | ((res, _), ctxo) \<Rightarrow> ((res, None), ctxo)))"

text \<open>Polling without waiting. \<open>pi_interrupted\<close> and \<open>pi_again\<close> tell what \<open>errno\<close> is after a failure of \<open>poll\<close> and
  of \<open>recvfrom\<close>.\<close>

record poll_io =
  pi_poll :: int
  pi_interrupted :: bool
  pi_datagram :: "(u8 list \<times> u32 \<times> u16) option"
  pi_again :: bool
  pi_stack :: mem

definition rpc_poll_incoming :: "poll_io \<Rightarrow> rpc_context option \<Rightarrow> nat \<Rightarrow> wtc_result \<times> (mem \<times> nat \<times> u32 \<times> u16) option" where
  "rpc_poll_incoming net ctxo buf_size =
     with_handle (WTC_ERROR_INVALID_PARAM, None) (\<lambda>ctx.
       if rc_socket_fd ctx < 0 then (WTC_ERROR_NOT_INITIALIZED, None)
       else if pi_poll net < 0 then (if pi_interrupted net then WTC_OK else WTC_ERROR_IO, None)
       else if pi_poll net = 0 then (WTC_OK, None)
       else (case pi_datagram net of
               None \<Rightarrow> (if pi_again net then WTC_OK else WTC_ERROR_IO, None)
             | Some (d, ip, port) \<Rightarrow>
                 (WTC_OK, Some (received (pi_stack net) (take buf_size d), length (take buf_size d), ip, port)))) ctxo"

definition rpc_send_response :: "int \<Rightarrow> rpc_context option \<Rightarrow> u8 list option \<Rightarrow> wtc_result" where
  "rpc_send_response sent ctxo response =
     (case (ctxo, response) of
        (Some ctx, Some bs) \<Rightarrow>
          (if bs = [] then WTC_ERROR_INVALID_PARAM
           else if rc_socket_fd ctx < 0 then WTC_ERROR_NOT_INITIALIZED
           else if sent < 0 then WTC_ERROR_IO else WTC_OK)
      | _ \<Rightarrow> WTC_ERROR_INVALID_PARAM)"

section \<open>Fields of a packet that was sent\<close>

lemma received_bytes: "length xs = p \<Longrightarrow> length ys = n \<Longrightarrow> mem_bytes (received st (xs @ ys @ zs)) p n = ys"
  by (rule nth_equalityI) (auto simp: mem_bytes_def received_def nth_append)

lemma received_at: "length xs = p \<Longrightarrow> k < length ys \<Longrightarrow> received st (xs @ ys @ zs) (p + k) = ys ! k"
  by (auto simp: received_def nth_append)

lemma received_be16: "length xs = p \<Longrightarrow> read_u16_be (received st (xs @ be16 w @ zs)) p = w"
  by (simp add: read_u16_be_def received_def be16_def nth_append of_be16_be16)

lemma length_rpc_header:
  "length obj = 16 \<Longrightarrow> length ifc = 16 \<Longrightarrow> length act = 16 \<Longrightarrow> length (rpc_header t obj ifc act sq op fl) = 80"
  by (simp add: rpc_header_def)

lemma length_uuid_swap: "length u = 16 \<Longrightarrow> length (uuid_swap_fields u) = 16"
  by (simp add: uuid_swap_fields_def)

lemma length_device_uuid: "length PNIO_DEVICE_INTERFACE_UUID = 16"
  by (simp add: PNIO_DEVICE_INTERFACE_UUID_def)

lemma length_blocks [simp]:
  "length (write_block_header t n) = 6" "length (pnio_block t body) = 6 + length body"
  "length (write_ndr_request_header a b) = 20" "length (control_block_body uuid key cmd) = 10 + length uuid"
  by (simp_all add: write_block_header_def pnio_block_def write_ndr_request_header_def control_block_body_def)

text \<open>The header of a packet that starts with \<open>rpc_header\<close>.\<close>

lemma header_fields:
  assumes "length obj = 16" "length ifc = 16" "length act = 16"
    and m_eq: "m = received st (rpc_header t obj ifc act sq op fl @ rest)"
  shows "hdr_packet_type m = t" "hdr_drep0 m = RPC_DREP_LITTLE_ENDIAN" "little_endian m"
    "mem_bytes m 24 16 = ifc" "mem_bytes m 40 16 = act" "rpc_hdr_u32 m 64 = sq" "rpc_hdr_u16 m 68 = op"
proof -
  let ?pre = "[4, t, 0x22, 0, RPC_DREP_LITTLE_ENDIAN, 0, 0, 0]"
  let ?mid = "?pre @ obj @ ifc @ act @ le32 0 @ le32 1"
  let ?stop = "le16 0xFFFF @ le16 0xFFFF @ le16 fl @ le16 0 @ [0, 0] @ rest"
  have m: "m = received st (?mid @ le32 sq @ le16 op @ ?stop)" by (simp add: m_eq rpc_header_def)
  show "hdr_packet_type m = t" and drep: "hdr_drep0 m = RPC_DREP_LITTLE_ENDIAN"
    by (simp_all add: m received_def)
  then show le: "little_endian m" by (simp add: little_endian_def RPC_DREP_LITTLE_ENDIAN_def)
  show "mem_bytes m 24 16 = ifc"
    using received_bytes [of "?pre @ obj" 24 ifc 16 st "act @ le32 0 @ le32 1 @ le32 sq @ le16 op @ ?stop"] assms(1,2) by (simp add: m)
  show "mem_bytes m 40 16 = act"
    using received_bytes [of "?pre @ obj @ ifc" 40 act 16 st "le32 0 @ le32 1 @ le32 sq @ le16 op @ ?stop"] assms(1-3) by (simp add: m)
  have len: "length ?mid = 64" using assms(1-3) by simp
  have "m (64 + k) = le32 sq ! k" if "k < 4" for k
    unfolding m by (rule received_at [OF len]) (simp add: that)
  from this [of 0] this [of 1] this [of 2] this [of 3] show "rpc_hdr_u32 m 64 = sq"
    using le by (simp add: rpc_hdr_u32_def le32_def of_be32_be32)
  have "m (68 + k) = le16 op ! k" if "k < 2" for k
    using received_at [of "?mid @ le32 sq" 68 k "le16 op" st ?stop] len that by (simp add: m)
  from this [of 0] this [of 1] show "rpc_hdr_u16 m 68 = op"
    using le by (simp add: rpc_hdr_u16_def le16_def of_be16_be16)
qed

text \<open>A control block behind 80 bytes of header and 20 bytes of NDR header.\<close>

lemma control_fields:
  assumes "length hdr = 80" "length ndr = 20" "length uuid = 16"
    and m_eq: "m = received st (hdr @ ndr @ pnio_block t (control_block_body uuid key cmd))"
  shows "read_u16_be m 100 = t" "mem_bytes m 108 16 = uuid" "read_u16_be m 124 = key" "read_u16_be m 128 = cmd"
proof -
  let ?v = "be16 (of_nat (length (control_block_body uuid key cmd) + 2)) @ [1, 0]"
  have m: "m = received st ((hdr @ ndr) @ be16 t @ ?v @ be16 0 @ uuid @ be16 key @ be16 0 @ be16 cmd @ be16 0)"
    by (simp add: m_eq pnio_block_def write_block_header_def control_block_body_def)
  show "read_u16_be m 100 = t" unfolding m by (rule received_be16) (simp add: assms(1,2))
  show "mem_bytes m 108 16 = uuid"
    using received_bytes [of "hdr @ ndr @ be16 t @ ?v @ be16 0" 108 uuid 16 st "be16 key @ be16 0 @ be16 cmd @ be16 0"] assms(1-3)
    by (simp add: m)
  show "read_u16_be m 124 = key"
    using received_be16 [of "hdr @ ndr @ be16 t @ ?v @ be16 0 @ uuid" 124 st key "be16 0 @ be16 cmd @ be16 0"] assms(1-3)
    by (simp add: m)
  show "read_u16_be m 128 = cmd"
    using received_be16 [of "hdr @ ndr @ be16 t @ ?v @ be16 0 @ uuid @ be16 key @ be16 0" 128 st cmd "be16 0"] assms(1-3)
    by (simp add: m)
qed

lemma ndr_detected:
  assumes "length hdr = 80" "106 \<le> length (hdr @ a # b # rest)" "of_be16 a b = 0 \<or> (0x02FF < of_be16 a b \<and> of_be16 a b < 0x8001)"
  shows "response_has_ndr_header (received st (hdr @ a # b # rest)) RPC_HEADER_SIZE (length (hdr @ a # b # rest))"
proof -
  have "read_u16_be (received st (hdr @ a # b # rest)) 80 = of_be16 a b"
    using assms(1) by (simp add: read_u16_be_def received_def nth_append)
  then show ?thesis
    using assms(2,3) unfolding response_has_ndr_header_def RPC_HEADER_SIZE_def Let_def by auto
qed

lemma control_request_bytes:
  assumes "length uuid = 16" "length (rc_activity_uuid ctx) = 16"
  obtains hdr where "length hdr = 80"
    and "hdr = rpc_header RPC_PACKET_TYPE_REQUEST (uuid_swap_fields uuid) (uuid_swap_fields PNIO_DEVICE_INTERFACE_UUID)
               (uuid_swap_fields (rc_activity_uuid ctx)) (rc_sequence_number ctx) RPC_OPNUM_CONTROL 52"
    and "rpc_build_control_request (Some ctx) (Some uuid) key command True pdu_buffer =
      ((WTC_OK, Some (hdr @ write_ndr_request_header 1384 32 @ pnio_block BLOCK_TYPE_IOD_CONTROL_REQ (control_block_body uuid key command))),
       Some (ctx\<lparr>rc_sequence_number := rc_sequence_number ctx + 1\<rparr>))"
proof -
  let ?hdr = "rpc_header RPC_PACKET_TYPE_REQUEST (uuid_swap_fields uuid) (uuid_swap_fields PNIO_DEVICE_INTERFACE_UUID)
               (uuid_swap_fields (rc_activity_uuid ctx)) (rc_sequence_number ctx) RPC_OPNUM_CONTROL 52"
  have "length ?hdr = 80" using assms by (simp add: length_rpc_header length_uuid_swap length_device_uuid)
  moreover have "rpc_build_control_request (Some ctx) (Some uuid) key command True pdu_buffer =
      ((WTC_OK, Some (?hdr @ write_ndr_request_header 1384 32 @ pnio_block BLOCK_TYPE_IOD_CONTROL_REQ (control_block_body uuid key command))),
       Some (ctx\<lparr>rc_sequence_number := rc_sequence_number ctx + 1\<rparr>))"
    using assms by (simp add: rpc_build_control_request_def finish_request_def build_rpc_header_def rpc_sizes)
  ultimately show ?thesis using that by blast
qed

text \<open>The messages of a control call, from the side of the device.\<close>

lemma control_messages:
  assumes "length uuid = 16" and "length (rc_activity_uuid ctx) = 16"
  shows "\<exists>req r resp.
     rpc_build_control_request (Some ctx) (Some uuid) key command True pdu_buffer =
       ((WTC_OK, Some req), Some (ctx\<lparr>rc_sequence_number := rc_sequence_number ctx + 1\<rparr>)) \<and>
     rpc_parse_incoming_control_request (Some (received st req)) (length req) True = (WTC_OK, Some r) \<and>
     ic_ar_uuid r = uuid \<and> ic_session_key r = key \<and> ic_control_command r = command \<and>
     ic_sequence_number r = rc_sequence_number ctx \<and>
     rpc_build_control_response (Some peer) (Some r) True pdu_buffer = (WTC_OK, Some resp) \<and>
     mem_bytes (received st' resp) 40 16 = mem_bytes (received st req) 40 16 \<and>
     rpc_hdr_u32 (received st' resp) 64 = rc_sequence_number ctx \<and>
     rpc_parse_control_response (Some (received st' resp)) (length resp) command True = (WTC_OK, Some True)"
proof -
  obtain hdr where hdr: "length hdr = 80"
    "hdr = rpc_header RPC_PACKET_TYPE_REQUEST (uuid_swap_fields uuid) (uuid_swap_fields PNIO_DEVICE_INTERFACE_UUID)
               (uuid_swap_fields (rc_activity_uuid ctx)) (rc_sequence_number ctx) RPC_OPNUM_CONTROL 52"
    and build: "rpc_build_control_request (Some ctx) (Some uuid) key command True pdu_buffer =
      ((WTC_OK, Some (hdr @ write_ndr_request_header 1384 32 @ pnio_block BLOCK_TYPE_IOD_CONTROL_REQ (control_block_body uuid key command))),
       Some (ctx\<lparr>rc_sequence_number := rc_sequence_number ctx + 1\<rparr>))"
    by (rule control_request_bytes [OF assms])
  define req where "req = hdr @ write_ndr_request_header 1384 32 @ pnio_block BLOCK_TYPE_IOD_CONTROL_REQ (control_block_body uuid key command)"
  define m where "m = received st req"
  have len: "length req = 132" using assms hdr(1) by (simp add: req_def)
  note hf = header_fields [OF length_uuid_swap [OF assms(1)] length_uuid_swap [OF length_device_uuid] length_uuid_swap [OF assms(2)]
      m_def [unfolded req_def hdr(2)]]
  note cf = control_fields [OF hdr(1) length_blocks(3) assms(1) m_def [unfolded req_def]]
  let ?rest = "drop 2 (write_ndr_request_header 1384 32) @ pnio_block BLOCK_TYPE_IOD_CONTROL_REQ (control_block_body uuid key command)"
  have req: "req = hdr @ 0x68 # 0x05 # ?rest" by (simp add: req_def write_ndr_request_header_def le32_def)
  have "of_be16 0x68 0x05 = 0x6805" by (simp add: of_be16_def)
  then have ndr: "response_has_ndr_header m RPC_HEADER_SIZE 132"
    using ndr_detected [OF hdr(1), of "0x68" "0x05" ?rest st, folded req] unfolding len m_def by simp
  obtain r where r: "rpc_parse_incoming_control_request (Some m) 132 True = (WTC_OK, Some r)" "ic_ar_uuid r = uuid"
    "ic_session_key r = key" "ic_control_command r = command" "ic_sequence_number r = rc_sequence_number ctx"
    "ic_drep0 r = RPC_DREP_LITTLE_ENDIAN" "ic_activity_uuid r = uuid_swap_fields (rc_activity_uuid ctx)"
    "ic_interface_uuid r = uuid_swap_fields PNIO_DEVICE_INTERFACE_UUID" "ic_block_type r = BLOCK_TYPE_IOD_CONTROL_REQ"
    unfolding rpc_parse_incoming_control_request_def incoming_block_def Let_def using hf cf ndr by (simp add: rpc_sizes)
  define block where "block = pnio_block BLOCK_TYPE_IOD_CONTROL_RES (control_block_body uuid key CONTROL_CMD_DONE)"
  define hdr' where "hdr' = rpc_header RPC_PACKET_TYPE_RESPONSE (uuid_swap_fields uuid) (uuid_swap_fields PNIO_DEVICE_INTERFACE_UUID)
               (uuid_swap_fields (rc_activity_uuid ctx)) (rc_sequence_number ctx) RPC_OPNUM_CONTROL 52"
  define ndr' where "ndr' = [0, 0, 0, 0] @ le32 32 @ le32 32 @ [0, 0, 0, 0] @ le32 32"
  define resp where "resp = hdr' @ ndr' @ block"
  define m' where "m' = received st' resp"
  have lh: "length hdr' = 80" unfolding hdr'_def
    by (intro length_rpc_header length_uuid_swap assms length_device_uuid)
  have ln: "length ndr' = 20" by (simp add: ndr'_def)
  have build': "rpc_build_control_response (Some peer) (Some r) True pdu_buffer = (WTC_OK, Some resp)"
    unfolding rpc_build_control_response_def Let_def using r assms(1)
    by (simp add: resp_def hdr'_def ndr'_def block_def block_types)
  note hf' = header_fields [OF length_uuid_swap [OF assms(1)] length_uuid_swap [OF length_device_uuid] length_uuid_swap [OF assms(2)]
      m'_def [unfolded resp_def hdr'_def]]
  note cf' = control_fields [OF lh ln assms(1) m'_def [unfolded resp_def block_def]]
  have len': "length resp = 132" using lh ln assms(1) by (simp add: resp_def block_def)
  have ndr2: "response_has_ndr_header m' RPC_HEADER_SIZE 132"
    using ndr_detected [OF lh, of 0 0 "drop 2 ndr' @ block" st'] len' lh by (simp add: m'_def resp_def ndr'_def of_be16_def)
  have st0: "read_ndr_u32 m' 80 = 0"
    using received_at [OF lh, of _ ndr' st' block] hf'(3) unfolding m'_def resp_def read_ndr_u32_def
    by (simp add: ndr'_def received_def lh nth_append)
  have "rpc_parse_control_response (Some m') 132 command True = (WTC_OK, Some True)"
    unfolding rpc_parse_control_response_def Let_def using hf' cf'(1) ndr2 st0 by (simp add: rpc_sizes rpc_codes)
  then show ?thesis
    using build r build' hf(5) hf'(5,6) len len' unfolding req_def [symmetric] m_def m'_def by auto
qed

text \<open>\<^bold>\<open>C19.\<close> A control call as the other side sees it. The request carries the UUID, the key, the command and the
  sequence number and is parsed as such; the response to it carries the same activity UUID and sequence
  number, by which the caller finds its session, and is accepted by the caller.\<close>

theorem control_exchange:
  assumes "length uuid = 16" and "length (rc_activity_uuid ctx) = 16"
  shows "\<exists>req r resp.
     rpc_build_control_request (Some ctx) (Some uuid) key command True pdu_buffer =
       ((WTC_OK, Some req), Some (ctx\<lparr>rc_sequence_number := rc_sequence_number ctx + 1\<rparr>)) \<and>
     rpc_parse_incoming_control_request (Some (received st req)) (length req) True = (WTC_OK, Some r) \<and>
     ic_ar_uuid r = uuid \<and> ic_session_key r = key \<and> ic_control_command r = command \<and>
     ic_sequence_number r = rc_sequence_number ctx \<and>
     rpc_build_control_response (Some peer) (Some r) True pdu_buffer = (WTC_OK, Some resp) \<and>
     mem_bytes (received st' resp) 40 16 = mem_bytes (received st req) 40 16 \<and>
     rpc_hdr_u32 (received st' resp) 64 = rc_sequence_number ctx \<and>
     rpc_parse_control_response (Some (received st' resp)) (length resp) command True = (WTC_OK, Some True)"
  by (rule control_messages [OF assms])

definition sample_rpc_context :: rpc_context where
  "sample_rpc_context = zero_rpc_context\<lparr>rc_socket_fd := 5, rc_controller_port := PNIO_RPC_PORT, rc_sequence_number := 7\<rparr>"

theorem control_exchange_witness:
  "\<exists>req r resp.
     rpc_build_control_request (Some sample_rpc_context) (Some (replicate 16 9)) 3 CONTROL_CMD_PRM_END True pdu_buffer =
       ((WTC_OK, Some req), Some (sample_rpc_context\<lparr>rc_sequence_number := 8\<rparr>)) \<and>
     rpc_parse_incoming_control_request (Some (received (\<lambda>_. 0) req)) (length req) True = (WTC_OK, Some r) \<and>
     ic_session_key r = 3 \<and>
     rpc_build_control_response (Some sample_rpc_context) (Some r) True pdu_buffer = (WTC_OK, Some resp) \<and>
     rpc_parse_control_response (Some (received (\<lambda>_. 0) resp)) (length resp) CONTROL_CMD_PRM_END True = (WTC_OK, Some True)"
  using control_exchange [of "replicate 16 9" sample_rpc_context 3 CONTROL_CMD_PRM_END "\<lambda>_. 0" sample_rpc_context "\<lambda>_. 0"]
  by (auto simp: sample_rpc_context_def zero_rpc_context_def)

section \<open>The size of a connect request\<close>

lemma in_iocs_not: "in_iocs inp e \<longleftrightarrow> \<not> in_iodata inp e"
  by (auto simp: in_iocs_def in_iodata_def)

lemma length_iodata_objects: "length (fst (iodata_objects inp offset es)) = 6 * length (filter (in_iodata inp) es)"
  by (induction es arbitrary: offset) (simp_all add: split_beta Let_def)

lemma length_iocs_objects: "length (iocs_objects inp offset es) = 6 * length (filter (in_iocs inp) es)"
  by (induction es arbitrary: offset) simp_all

lemma length_iocr_body: "length (iocr_block_body ps c) = 48 + 6 * length (cp_expected_config ps)"
proof -
  let ?inp = "ip_type c = iocr_type_code IOCR_TYPE_INPUT" and ?es = "cp_expected_config ps"
  have "length (filter (in_iodata ?inp) ?es) + length (filter (in_iocs ?inp) ?es) = length ?es"
    unfolding in_iocs_not by (rule sum_length_filter_compl)
  then show ?thesis
    by (simp add: iocr_block_body_def split_beta Let_def length_iodata_objects length_iocs_objects)
qed

lemma length_submodules: "length (concat (map submodule_bytes es)) = 14 * length es"
  by (induction es) (simp_all add: submodule_bytes_def)

lemma length_slot_bytes: "length (slot_bytes es slot) = 14 + 14 * length (filter (\<lambda>e. ex_slot e = slot) es)"
  by (simp add: slot_bytes_def Let_def length_submodules)

lemma seen_slots_all:
  assumes "length seen + length es \<le> WTC_MAX_SLOTS" and "distinct seen"
  shows "distinct (seen_slots seen es) \<and> set (seen_slots seen es) = set seen \<union> ex_slot ` set es"
  using assms
proof (induction es arbitrary: seen)
  case (Cons e es)
  then show ?case
  proof (cases "ex_slot e \<in> set seen")
    case False
    with Cons.prems have "length seen < WTC_MAX_SLOTS" by simp
    with False Cons.prems Cons.IH [of "seen @ [ex_slot e]"] show ?thesis by auto
  qed (use Cons in auto)
qed simp

lemma partition_by_slot:
  assumes "distinct ss" and "ex_slot ` set es \<subseteq> set ss"
  shows "sum_list (map (\<lambda>s. length (filter (\<lambda>e. ex_slot e = s) es)) ss) = length es"
  using assms(2)
proof (induction es)
  case (Cons e es)
  have "sum_list (map (\<lambda>s. length (filter (\<lambda>e. ex_slot e = s) (e # es))) ss) =
      sum_list (map (\<lambda>s. (if ex_slot e = s then 1 else 0) + length (filter (\<lambda>e. ex_slot e = s) es)) ss)"
    by (intro arg_cong [where f = sum_list] map_cong) auto
  also have "\<dots> = sum_list (map (\<lambda>s. if ex_slot e = s then 1 else 0) ss) + length es"
    using Cons by (simp add: sum_list_addf)
  also have "sum_list (map (\<lambda>s. if ex_slot e = s then 1 else (0::nat)) ss) = 1"
    using Cons.prems assms(1) by (simp add: sum_list_distinct_conv_sum_set)
  finally show ?case by simp
qed simp

lemma length_expected_body:
  assumes "length (cp_expected_config ps) \<le> WTC_MAX_SLOTS"
  shows "length (expected_block_body ps) = 2 + 14 * length (seen_slots [] (cp_expected_config ps)) + 14 * length (cp_expected_config ps)"
proof -
  let ?es = "cp_expected_config ps"
  let ?ss = "seen_slots [] ?es"
  have ss: "distinct ?ss" "set ?ss = ex_slot ` set ?es" using seen_slots_all [of "[]" ?es] assms by auto
  have "length (concat (map (slot_bytes ?es) ss)) = 14 * length ss + 14 * sum_list (map (\<lambda>s. length (filter (\<lambda>e. ex_slot e = s) ?es)) ss)" for ss
    by (induction ss) (simp_all add: length_slot_bytes algebra_simps)
  from this [of ?ss] show ?thesis
    using partition_by_slot [of ?ss ?es] ss by (simp add: expected_block_body_def Let_def)
qed

definition connect_request_length :: "connect_request_params \<Rightarrow> nat" where
  "connect_request_length ps =
     192 + length (cp_station_name ps) + length (cp_iocr ps) * (54 + 6 * length (cp_expected_config ps)) +
     14 * length (seen_slots [] (cp_expected_config ps)) + 14 * length (cp_expected_config ps)"

definition params_wf :: "connect_request_params \<Rightarrow> bool" where
  "params_wf ps \<longleftrightarrow> length (cp_ar_uuid ps) = 16 \<and> length (cp_controller_mac ps) = 6 \<and> length (cp_controller_uuid ps) = 16 \<and>
     length (cp_station_name ps) < 64 \<and> length (cp_iocr ps) \<le> 4 \<and> length (cp_expected_config ps) \<le> WTC_MAX_SLOTS"

lemma length_connect_blocks:
  assumes "params_wf ps"
  shows "100 + length (connect_blocks ctx ps) = connect_request_length ps"
proof -
  have ar: "length (ar_block_body ctx ps) = 52 + length (cp_station_name ps)"
    using assms by (simp add: ar_block_body_def params_wf_def bytes_of_def)
  have alarm: "length (alarm_block_body ps) = 20" by (simp add: alarm_block_body_def Let_def)
  have "length (concat (map (\<lambda>c. pnio_block BLOCK_TYPE_IOCR_BLOCK_REQ (iocr_block_body ps c)) cs)) =
      length cs * (54 + 6 * length (cp_expected_config ps))" for cs
    by (induction cs) (simp_all add: length_iocr_body)
  then show ?thesis
    using assms ar alarm length_expected_body [of ps]
    by (simp add: connect_blocks_def connect_request_length_def params_wf_def)
qed

text \<open>\<^bold>\<open>C20.\<close> The number of bytes a connect request stores, exactly, and that the request is refused when that
  exceeds the buffer: the stores past its end have been made by then. Two IOCRs and \<open>n\<close> modules in slots of
  their own behind the three submodules of slot 0 need \<open>392 + 40 * n\<close> bytes and the name; so more than 26
  modules do not fit, while 244 can be configured.\<close>

theorem connect_request_reach:
  assumes "params_wf ps" and "rpc_build_connect_request seed (Some ctx) (Some ps) True pdu_buffer = ((res, out, reach), ctx')"
    and "length (rc_activity_uuid ctx) = 16"
  shows "reach = connect_request_length ps \<and> res = (if reach \<le> RPC_MAX_PDU_SIZE then WTC_OK else WTC_ERROR_NO_MEMORY) \<and>
    map_option length out = (if reach \<le> RPC_MAX_PDU_SIZE then Some reach else None) \<and>
    (length (cp_iocr ps) = 2 \<and> length (cp_expected_config ps) = n + 3 \<and>
     length (seen_slots [] (cp_expected_config ps)) = n + 1 \<and> 26 < n \<longrightarrow> RPC_MAX_PDU_SIZE < reach)"
proof -
  have uuid: "length (rpc_generate_uuid seed) = 16" by (simp add: rpc_generate_uuid_def Let_def)
  have pdu: "length (fst (finish_request (ctx\<lparr>rc_activity_uuid := rpc_generate_uuid seed\<rparr>) (cp_ar_uuid ps) op bs)) = 100 + length bs" for op bs
    using assms(1) uuid
    by (simp add: finish_request_def build_rpc_header_def params_wf_def length_rpc_header length_uuid_swap length_device_uuid)
  note len = length_connect_blocks [OF assms(1), of ctx]
  have reach: "reach = connect_request_length ps" and rest: "res = (if reach \<le> RPC_MAX_PDU_SIZE then WTC_OK else WTC_ERROR_NO_MEMORY)"
      "map_option length out = (if reach \<le> RPC_MAX_PDU_SIZE then Some reach else None)"
    using assms(2) len pdu [of RPC_OPNUM_CONNECT "connect_blocks ctx ps"]
    by (auto simp: rpc_build_connect_request_def Let_def split_beta rpc_sizes split: if_splits)
  moreover have "length (cp_iocr ps) = 2 \<and> length (cp_expected_config ps) = n + 3 \<and>
         length (seen_slots [] (cp_expected_config ps)) = n + 1 \<and> 26 < n \<longrightarrow> RPC_MAX_PDU_SIZE < reach"
    unfolding reach connect_request_length_def RPC_MAX_PDU_SIZE_def by simp
  ultimately show ?thesis by blast
qed

text \<open>A station with three submodules in slot 0 and \<open>n\<close> sensors in slots of their own.\<close>

definition dap_submodule :: "u16 \<Rightarrow> u32 \<Rightarrow> expected_submodule" where
  "dap_submodule subslot ident = \<lparr>ex_slot = 0, ex_module_ident = 1, ex_subslot = subslot, ex_submodule_ident = ident,
     ex_data_length = 0, ex_is_input = True\<rparr>"

definition sample_params :: "nat \<Rightarrow> connect_request_params" where
  "sample_params n = \<lparr>cp_ar_uuid = replicate 16 1, cp_session_key = 1, cp_ar_type = 1, cp_ar_properties = 0x11,
     cp_station_name = ''controller'', cp_controller_mac = replicate 6 2, cp_controller_uuid = replicate 16 3,
     cp_controller_port = 34964, cp_activity_timeout = 100,
     cp_iocr = replicate 2 \<lparr>ip_type = 1, ip_reference = 1, ip_frame_id = 0xC001, ip_data_length = 40,
       ip_send_clock_factor = 64, ip_reduction_ratio = 128, ip_watchdog_factor = 10\<rparr>,
     cp_expected_config = [dap_submodule 1 1, dap_submodule 0x8000 0x100, dap_submodule 0x8001 0x200] @
       map (\<lambda>k. \<lparr>ex_slot = of_nat k, ex_module_ident = 0x10, ex_subslot = 1, ex_submodule_ident = 0x11, ex_data_length = 5,
                 ex_is_input = True\<rparr>) [1..<n + 1],
     cp_max_alarm_data_length = 200, cp_rta_timeout_factor = 100, cp_rta_retries = 5, cp_data_hold_factor = 5\<rparr>"

lemma sample_slots: "ex_slot ` set (cp_expected_config (sample_params n)) = of_nat ` {0..<Suc n}"
proof -
  have "{0..<Suc n} = insert 0 {1..<Suc n}" by auto
  then show ?thesis by (simp add: sample_params_def dap_submodule_def image_Un image_image del: upt_Suc)
qed

theorem connect_request_reach_witness:
  "fst (rpc_build_connect_request \<lparr>us_now = 0, us_rand1 = 0, us_rand2 = 0\<rparr> (Some sample_rpc_context) (Some (sample_params 30)) True pdu_buffer) =
     (WTC_ERROR_NO_MEMORY, None, 1602)"
proof -
  let ?ps = "sample_params 30"
  let ?b = "rpc_build_connect_request \<lparr>us_now = 0, us_rand1 = 0, us_rand2 = 0\<rparr> (Some sample_rpc_context) (Some ?ps) True pdu_buffer"
  have wf: "params_wf ?ps" by (simp add: params_wf_def sample_params_def WTC_MAX_SLOTS_def)
  have "inj_on (of_nat :: nat \<Rightarrow> u16) {0..<31}"
    by (rule inj_onI) (simp add: word_of_nat_eq_iff take_bit_nat_eq_self)
  then have "length (seen_slots [] (cp_expected_config ?ps)) = 31"
    using seen_slots_all [of "[]" "cp_expected_config ?ps"] wf distinct_card [of "seen_slots [] (cp_expected_config ?ps)"]
    by (simp add: params_wf_def sample_slots card_image)
  then have len: "connect_request_length ?ps = 1602"
    by (simp add: connect_request_length_def sample_params_def)
  obtain res out reach ctx' where b: "?b = ((res, out, reach), ctx')" by (metis prod.collapse)
  have "length (rc_activity_uuid sample_rpc_context) = 16" by (simp add: sample_rpc_context_def zero_rpc_context_def)
  from connect_request_reach [OF wf b this, of 30] show ?thesis
    unfolding b len by (auto simp: RPC_MAX_PDU_SIZE_def)
qed

section \<open>Reads past a response\<close>

lemma read_agree:
  assumes "\<forall>i < n. m i = m' i"
  shows "p + 2 \<le> n \<Longrightarrow> read_u16_be m p = read_u16_be m' p" "p + 4 \<le> n \<Longrightarrow> read_u32_be m p = read_u32_be m' p"
    "p + k \<le> n \<Longrightarrow> mem_bytes m p k = mem_bytes m' p k"
  using assms by (auto simp: read_u16_be_def read_u32_be_def mem_bytes_def)

lemma diff_submodules_agree:
  "\<forall>i < e + 2. m i = m' i \<Longrightarrow> diff_submodules m e slot ident n st = diff_submodules m' e slot ident n st"
proof (induction m e slot ident n st rule: diff_submodules.induct)
  case (2 m e slot ident n pos ds)
  then show ?case by (simp add: read_agree [OF "2.prems"])
qed simp

lemma diff_modules_agree: "\<forall>i < e + 2. m i = m' i \<Longrightarrow> diff_modules m e n st = diff_modules m' e n st"
proof (induction m e n st rule: diff_modules.induct)
  case (2 m e n pos ds)
  then show ?case by (simp add: read_agree [OF "2.prems"] diff_submodules_agree [OF "2.prems"])
qed simp

lemma diff_apis_agree: "\<forall>i < e + 2. m i = m' i \<Longrightarrow> diff_apis m e n st = diff_apis m' e n st"
proof (induction m e n st rule: diff_apis.induct)
  case (2 m e n pos ds)
  then show ?case by (simp add: read_agree [OF "2.prems"] diff_modules_agree [OF "2.prems"])
qed simp

lemma connect_block_agree:
  assumes "\<forall>i < n + 28. m i = m' i" and "pos \<le> e" and "e \<le> n"
  shows "connect_block m t pos e r = connect_block m' t pos e r"
proof -
  have "\<forall>i < e + 2. m i = m' i" using assms by simp
  note d = diff_apis_agree [OF this]
  show ?thesis
    using assms(2,3) by (simp add: connect_block_def d read_agree [OF assms(1)])
qed

lemma connect_response_blocks_agree:
  "\<forall>i < n + 28. m i = m' i \<Longrightarrow> connect_response_blocks m n pos r = connect_response_blocks m' n pos r"
proof (induction m n pos r rule: connect_response_blocks.induct)
  case (1 m n pos r)
  show ?case
  proof (cases "pos + 6 \<le> n")
    case True
    let ?len = "unat (read_u16_be m (pos + 2))" and ?t = "read_u16_be m pos"
    let ?stop = "pos + 6 + ?len - 2"
    have same: "read_u16_be m' (pos + 2) = read_u16_be m (pos + 2)" "read_u16_be m' pos = ?t"
      using True read_agree(1) [OF "1.prems"] by simp_all
    have step: "connect_block m' ?t (pos + 6) ?stop r = connect_block m ?t (pos + 6) ?stop r" if "\<not> ?len < 2" "\<not> ?stop > n"
      using connect_block_agree [OF "1.prems", of "pos + 6" ?stop] that by simp
    show ?thesis
      unfolding connect_response_blocks.simps [of m n pos r] connect_response_blocks.simps [of m' n pos r] same Let_def
      using True step "1.IH" [OF True refl _ refl _ "1.prems"] by simp
  next
    case False
    then show ?thesis by (simp add: connect_response_blocks.simps [of m n pos r] connect_response_blocks.simps [of m' n pos r])
  qed
qed

text \<open>A response that ends behind the header of an AR block of length 2.\<close>

definition short_response :: "u8 list" where
  "short_response = [4, RPC_PACKET_TYPE_RESPONSE] @ replicate 78 0 @ [0x81, 0x01, 0, 2, 1, 0]"

text \<open>\<^bold>\<open>C21.\<close> The parser of the connect response reads at most 28 bytes behind the bytes that were received, since
  it compares the length of a block with the end of the packet but not with the fields it reads. It does
  so: a response that ends with the header of an AR block is accepted, and the session key is taken from
  whatever the memory holds.\<close>

theorem connect_response_overread:
  "((\<forall>i < n + 28. m i = m' i) \<longrightarrow>
     rpc_parse_connect_response (Some m) n True = rpc_parse_connect_response (Some m') n True) \<and>
   (\<exists>r. rpc_parse_connect_response (Some (received stack short_response)) (length short_response) True = (WTC_OK, Some r) \<and>
     cr_session_key r = of_be16 (stack 104) (stack 105))"
proof -
  have "rpc_parse_connect_response (Some m) n True = rpc_parse_connect_response (Some m') n True" if a: "\<forall>i < n + 28. m i = m' i"
  proof -
    have b: "m' i = m i" if "i < n + 28" for i using a that by simp
    have "read_ndr_u32 m' p = read_ndr_u32 m p" if "p + 4 \<le> n" for p
      using that by (simp add: read_ndr_u32_def little_endian_def b)
    moreover have "response_has_ndr_header m' p n = response_has_ndr_header m p n" for p
      using b by (simp add: response_has_ndr_header_def read_u16_be_def)
    ultimately show ?thesis
      unfolding rpc_parse_connect_response_def Let_def using connect_response_blocks_agree [OF a]
      by (simp add: b rpc_sizes)
  qed
  moreover have "\<exists>r. rpc_parse_connect_response (Some (received stack short_response)) (length short_response) True = (WTC_OK, Some r) \<and>
     cr_session_key r = of_be16 (stack 104) (stack 105)"
  proof -
    let ?m = "received stack short_response"
    have len: "length short_response = 86" by (simp add: short_response_def)
    have t: "read_u16_be ?m 80 = 0x8101" "read_u16_be ?m 82 = 2"
      by (simp_all add: read_u16_be_def received_def short_response_def nth_append of_be16_def)
    have p: "?m (Suc 0) = 2" by (simp add: received_def short_response_def rpc_codes)
    have k: "read_u16_be ?m 104 = of_be16 (stack 104) (stack 105)" by (simp add: read_u16_be_def received_def len)
    have "connect_response_blocks ?m 86 80 r = connect_block ?m 0x8101 86 86 r" for r
      by (simp add: connect_response_blocks.simps [of ?m 86 80] connect_response_blocks.simps [of ?m 86 86] t)
    then show ?thesis
      using k by (simp add: rpc_parse_connect_response_def Let_def len p rpc_sizes response_has_ndr_header_def t rpc_codes
        finish_connect_response_def connect_block_def block_types)
  qed
  ultimately show ?thesis by blast
qed

theorem connect_response_overread_witness:
  "rpc_parse_connect_response (Some (received (\<lambda>_. 1) [])) 86 True =
     rpc_parse_connect_response (Some (received (\<lambda>i. if i < 114 then 1 else 0) [])) 86 True"
proof -
  have "\<forall>i < 86 + 28. received (\<lambda>_. 1) [] i = received (\<lambda>i. if i < 114 then 1 else 0) [] i"
    by (simp add: received_def)
  then show ?thesis
    using connect_response_overread [of 86 "received (\<lambda>_. 1) []" "received (\<lambda>i. if i < 114 then 1 else 0) []"] by blast
qed

section \<open>The layout a connect request announces\<close>

text \<open>The offset of the data of submodule \<open>j\<close> in the cyclic frame: the submodules in front of it take their data
  and one byte of status each.\<close>

definition frame_offset :: "bool \<Rightarrow> expected_submodule list \<Rightarrow> nat \<Rightarrow> nat" where
  "frame_offset inp es j = sum_list (map (\<lambda>e. unat (ex_data_length e) + 1) (filter (in_iodata inp) (take j es)))"

lemma frame_offset_Cons:
  "frame_offset inp (e # es) (Suc j) = (if in_iodata inp e then unat (ex_data_length e) + 1 else 0) + frame_offset inp es j"
  by (simp add: frame_offset_def)

lemma iodata_objects_layout:
  "iodata_objects inp offset es =
     (concat (map (\<lambda>j. be16 (ex_slot (es ! j)) @ be16 (ex_subslot (es ! j)) @ be16 (offset + of_nat (frame_offset inp es j)))
        (filter (\<lambda>j. in_iodata inp (es ! j)) [0..<length es])),
      offset + of_nat (frame_offset inp es (length es)))"
proof (induction es arbitrary: offset)
  case Nil
  then show ?case by (simp add: frame_offset_def)
next
  case (Cons e es)
  have upt: "[0..<length (e # es)] = 0 # map Suc [0..<length es]" by (simp add: map_Suc_upt upt_conv_Cons del: upt_Suc)
  have z: "frame_offset inp (e # es) 0 = 0" by (simp add: frame_offset_def)
  show ?case
    unfolding upt
    by (simp add: Cons.IH filter_map comp_def frame_offset_Cons z split_beta Let_def algebra_simps)
qed

end
