(* ===== verification/ArManager.thy ===== *)
theory ArManager
  imports PnRpc
begin

text \<open>
  The manager of application relationships (\<^verbatim>\<open>src/src/profinet/ar_manager.c\<close>, with the module identifiers of
  \<^verbatim>\<open>gsdml_modules.h\<close>): creating and deleting relationships, the state machine that connects, parameterises,
  watches and retries them, the connect parameters built from the discovered modules, and the cyclic
  frames.

  The array of pointers is the list of the relationships it points to. A function that gets the
  manager and a pointer to one of its relationships gets both objects and returns both. The outcomes
  of the socket calls, the clock, the random numbers and the allocations of one connection attempt are a
  record, and so is what the HTTP request and the GSDML cache (\<^verbatim>\<open>gsdml_cache.c\<close>) return. The deletion of a
  relationship by another thread while the lock is released is not modelled.
\<close>

section \<open>Modules\<close>

definition GSDML_MOD_DAP :: u32 where "GSDML_MOD_DAP = 0x01"
definition GSDML_SUBMOD_DAP :: u32 where "GSDML_SUBMOD_DAP = 0x01"
definition GSDML_SUBMOD_INTERFACE :: u32 where "GSDML_SUBMOD_INTERFACE = 0x100"
definition GSDML_SUBMOD_PORT :: u32 where "GSDML_SUBMOD_PORT = 0x200"
definition GSDML_MOD_PH :: u32 where "GSDML_MOD_PH = 0x10"
definition GSDML_MOD_TDS :: u32 where "GSDML_MOD_TDS = 0x20"
definition GSDML_MOD_TURBIDITY :: u32 where "GSDML_MOD_TURBIDITY = 0x30"
definition GSDML_MOD_TEMPERATURE :: u32 where "GSDML_MOD_TEMPERATURE = 0x40"
definition GSDML_MOD_FLOW :: u32 where "GSDML_MOD_FLOW = 0x50"
definition GSDML_MOD_LEVEL :: u32 where "GSDML_MOD_LEVEL = 0x60"
definition GSDML_MOD_GENERIC_AI :: u32 where "GSDML_MOD_GENERIC_AI = 0x70"
definition GSDML_MOD_PUMP :: u32 where "GSDML_MOD_PUMP = 0x100"
definition GSDML_MOD_VALVE :: u32 where "GSDML_MOD_VALVE = 0x110"
definition GSDML_MOD_GENERIC_DO :: u32 where "GSDML_MOD_GENERIC_DO = 0x120"
definition GSDML_INPUT_DATA_SIZE :: u16 where "GSDML_INPUT_DATA_SIZE = 5"
definition GSDML_OUTPUT_DATA_SIZE :: u16 where "GSDML_OUTPUT_DATA_SIZE = 4"

lemmas gsdml_idents = GSDML_MOD_PH_def GSDML_MOD_TDS_def GSDML_MOD_TURBIDITY_def GSDML_MOD_TEMPERATURE_def GSDML_MOD_FLOW_def
  GSDML_MOD_LEVEL_def GSDML_MOD_GENERIC_AI_def GSDML_MOD_PUMP_def GSDML_MOD_VALVE_def GSDML_MOD_GENERIC_DO_def

definition gsdml_get_input_module_ident :: "measurement_type \<Rightarrow> u32" where
  "gsdml_get_input_module_ident t =
     (case t of
        MEASUREMENT_PH \<Rightarrow> GSDML_MOD_PH | MEASUREMENT_TDS \<Rightarrow> GSDML_MOD_TDS | MEASUREMENT_TURBIDITY \<Rightarrow> GSDML_MOD_TURBIDITY
      | MEASUREMENT_TEMPERATURE \<Rightarrow> GSDML_MOD_TEMPERATURE | MEASUREMENT_FLOW_RATE \<Rightarrow> GSDML_MOD_FLOW
      | MEASUREMENT_LEVEL \<Rightarrow> GSDML_MOD_LEVEL | _ \<Rightarrow> GSDML_MOD_GENERIC_AI)"

definition gsdml_get_output_module_ident :: "actuator_type \<Rightarrow> u32" where
  "gsdml_get_output_module_ident t =
     (case t of ACTUATOR_PUMP \<Rightarrow> GSDML_MOD_PUMP | ACTUATOR_VALVE \<Rightarrow> GSDML_MOD_VALVE | _ \<Rightarrow> GSDML_MOD_GENERIC_DO)"

definition gsdml_get_input_submodule_ident :: "measurement_type \<Rightarrow> u32" where
  "gsdml_get_input_submodule_ident t = gsdml_get_input_module_ident t + 1"

definition gsdml_get_output_submodule_ident :: "actuator_type \<Rightarrow> u32" where
  "gsdml_get_output_submodule_ident t = gsdml_get_output_module_ident t + 1"

definition is_input_module :: "u32 \<Rightarrow> bool" where
  "is_input_module ident \<longleftrightarrow> ident \<ge> GSDML_MOD_PH \<and> ident \<le> GSDML_MOD_GENERIC_AI"

definition get_module_data_size :: "u32 \<Rightarrow> u16" where
  "get_module_data_size ident = (if is_input_module ident then GSDML_INPUT_DATA_SIZE else GSDML_OUTPUT_DATA_SIZE)"

section \<open>State\<close>

definition MAX_ARS :: nat where "MAX_ARS = 64"
definition AR_CONNECT_TIMEOUT_MS :: u64 where "AR_CONNECT_TIMEOUT_MS = 10000"
definition AR_APP_READY_TIMEOUT_MS :: u64 where "AR_APP_READY_TIMEOUT_MS = 30000"
definition AR_MAX_RETRY_ATTEMPTS :: int where "AR_MAX_RETRY_ATTEMPTS = 3"
definition IOCR_MIN_C_SDU_LENGTH :: u16 where "IOCR_MIN_C_SDU_LENGTH = 40"
definition DEFAULT_WATCHDOG_MS :: u32 where "DEFAULT_WATCHDOG_MS = 3000"
definition WATCHDOG_MISS_THRESHOLD :: int where "WATCHDOG_MISS_THRESHOLD = 3"
definition AR_TYPE_IOCAR :: u16 where "AR_TYPE_IOCAR = 1"
definition PN_INSTANCE_ID :: u16 where "PN_INSTANCE_ID = 1"
definition AR_MAX_DISCOVERED_MODULES :: nat where "AR_MAX_DISCOVERED_MODULES = 64"

record ar_manager =
  mg_socket_fd :: int
  mg_controller_mac :: "u8 list"
  mg_controller_ip :: u32
  mg_if_index :: int
  mg_interface_name :: string
  mg_ars :: "profinet_ar list"
  mg_session_key_counter :: u16
  mg_rpc_ctx :: rpc_context
  mg_rpc_initialized :: bool
  mg_controller_uuid :: "u8 list"
  mg_controller_station_name :: string
  mg_state_callback :: bool

text \<open>A call of the state callback: station, old and new state.\<close>

type_synonym ar_event = "string \<times> ar_state \<times> ar_state"

definition notify_state_change :: "ar_manager \<Rightarrow> profinet_ar \<Rightarrow> ar_state \<Rightarrow> ar_state \<Rightarrow> ar_event list" where
  "notify_state_change m ar old_state new_state =
     (if mg_state_callback m \<and> old_state \<noteq> new_state then [(ar_device_station_name ar, old_state, new_state)] else [])"

text \<open>Four random numbers, each with a reading of the clock.\<close>

definition generate_uuid :: "(u32 \<times> u64) list \<Rightarrow> u8 list" where
  "generate_uuid rs = concat (map (\<lambda>i. le32 (fst (rs ! i) XOR push_bit i (ucast (snd (rs ! i))))) [0..<4])"

definition on_both :: "'r \<Rightarrow> ('a \<Rightarrow> 'b \<Rightarrow> 'r \<times> 'a \<times> 'b) \<Rightarrow> 'a option \<Rightarrow> 'b option \<Rightarrow> 'r \<times> 'a option \<times> 'b option" where
  "on_both e f ao bo =
     (case (ao, bo) of (Some a, Some b) \<Rightarrow> (let (r, a, b) = f a b in (r, Some a, Some b)) | _ \<Rightarrow> (e, ao, bo))"

lemma on_both_simps [simp]:
  "on_both e f (Some a) (Some b) = (fst (f a b), Some (fst (snd (f a b))), Some (snd (snd (f a b))))"
  "on_both e f None bo = (e, None, bo)" "on_both e f ao None = (e, ao, None)"
  by (simp_all add: on_both_def split_beta Let_def split: option.splits)

section \<open>Life cycle\<close>

definition ar_manager_init ::
  "bool \<Rightarrow> int option \<Rightarrow> bool \<Rightarrow> int \<Rightarrow> u8 list option \<Rightarrow> string option \<Rightarrow> u16 \<Rightarrow> u16 \<Rightarrow> string option \<Rightarrow>
   wtc_result \<times> ar_manager option" where
  "ar_manager_init alloc_ok if_index manager_ok socket_fd controller_mac station_name vendor_id device_id interface_name =
     (case (controller_mac, station_name) of
        (Some mac, Some name) \<Rightarrow>
          (if \<not> manager_ok \<or> socket_fd < 0 then (WTC_ERROR_INVALID_PARAM, None)
           else if \<not> alloc_ok then (WTC_ERROR_NO_MEMORY, None)
           else (WTC_OK, Some \<lparr>mg_socket_fd = socket_fd, mg_controller_mac = mac, mg_controller_ip = 0,
                   mg_if_index = (case if_index of Some i \<Rightarrow> i | None \<Rightarrow> 0),
                   mg_interface_name = (case interface_name of Some s \<Rightarrow> cstr_copy 31 s | None \<Rightarrow> []), mg_ars = [],
                   mg_session_key_counter = 1, mg_rpc_ctx = zero_rpc_context, mg_rpc_initialized = False,
                   mg_controller_uuid = pn_build_cm_initiator_uuid vendor_id device_id PN_INSTANCE_ID,
                   mg_controller_station_name = cstr_copy 63 name, mg_state_callback = False\<rparr>))
      | _ \<Rightarrow> (WTC_ERROR_INVALID_PARAM, None))"

definition ar_manager_set_controller_ip :: "ar_manager option \<Rightarrow> u32 \<Rightarrow> ar_manager option" where
  "ar_manager_set_controller_ip mo ip =
     map_option (\<lambda>m.
       let m = m\<lparr>mg_controller_ip := ip\<rparr> in
       if mg_rpc_initialized m \<and> rc_controller_ip (mg_rpc_ctx m) \<noteq> ip
       then m\<lparr>mg_rpc_ctx := the (rpc_context_cleanup (Some (mg_rpc_ctx m))), mg_rpc_initialized := False\<rparr> else m) mo"

definition ar_manager_set_state_callback :: "ar_manager option \<Rightarrow> bool \<Rightarrow> ar_manager option" where
  "ar_manager_set_state_callback mo callback = map_option (mg_state_callback_update (\<lambda>_. callback)) mo"

record ar_config =
  cf_station_name :: string
  cf_device_mac :: "u8 list"
  cf_device_ip :: u32
  cf_vendor_id :: u16
  cf_device_id :: u16
  cf_slots :: "slot_config list"
  cf_cycle_time_us :: u32
  cf_reduction_ratio :: u16
  cf_watchdog_ms :: u32

definition slot_info_of :: "slot_config \<Rightarrow> ar_slot_info" where
  "slot_info_of s = \<lparr>si_slot = word_of_int (sc_slot s), si_subslot = word_of_int (sc_subslot s), si_type = sc_type s,
     si_measurement_type = sc_measurement_type s, si_actuator_type = sc_actuator_type s\<rparr>"

definition count_slots :: "slot_type \<Rightarrow> slot_config list \<Rightarrow> int" where
  "count_slots t ss = int (length (filter (\<lambda>s. sc_type s = t) ss))"

text \<open>The allocations of the relationship and of its two buffers, and the random numbers.\<close>

record create_env =
  ca_alloc_ok :: bool
  ca_in_ok :: bool
  ca_out_ok :: bool
  ca_rand :: "(u32 \<times> u64) list"

text \<open>The relationship is returned by its position in the array.\<close>

definition ar_manager_create_ar ::
  "create_env \<Rightarrow> ar_manager option \<Rightarrow> ar_config option \<Rightarrow> bool \<Rightarrow> (wtc_result \<times> nat option) \<times> ar_manager option" where
  "ar_manager_create_ar env mo config ar_ok =
     on_handle (WTC_ERROR_INVALID_PARAM, None) (\<lambda>m.
       case config of
         None \<Rightarrow> ((WTC_ERROR_INVALID_PARAM, None), m)
       | Some cf \<Rightarrow>
           (if \<not> ar_ok then ((WTC_ERROR_INVALID_PARAM, None), m)
            else if length (mg_ars m) \<ge> MAX_ARS then ((WTC_ERROR_FULL, None), m)
            else if \<exists>ar \<in> set (mg_ars m). ar_device_station_name ar = cf_station_name cf
            then ((WTC_ERROR_ALREADY_EXISTS, None), m)
            else if \<not> ca_alloc_ok env then ((WTC_ERROR_NO_MEMORY, None), m)
            else
              (let ar = zero_ar\<lparr>ar_uuid := generate_uuid (ca_rand env), ar_session_key := mg_session_key_counter m,
                          ar_type := AR_TYPE_IOCAR, ar_state := AR_STATE_INIT,
                          ar_device_station_name := cstr_copy 63 (cf_station_name cf), ar_device_mac := cf_device_mac cf,
                          ar_device_ip := cf_device_ip cf, ar_device_vendor_id := cf_vendor_id cf,
                          ar_device_device_id := cf_device_id cf,
                          ar_watchdog_ms := (if cf_watchdog_ms cf > 0 then cf_watchdog_ms cf else DEFAULT_WATCHDOG_MS)\<rparr>;
                   m = m\<lparr>mg_session_key_counter := mg_session_key_counter m + 1\<rparr>;
                   (res, aro) = allocate_iocr_buffers (ca_in_ok env) (ca_out_ok env) (Some ar)
                                  (count_slots SLOT_TYPE_SENSOR (cf_slots cf)) (count_slots SLOT_TYPE_ACTUATOR (cf_slots cf))
               in if res \<noteq> WTC_OK then ((res, None), m)
                  else ((WTC_OK, Some (length (mg_ars m))),
                        m\<lparr>mg_ars := mg_ars m @ [(the aro)\<lparr>ar_slot_info := map slot_info_of (take WTC_MAX_SLOTS (cf_slots cf))\<rparr>]\<rparr>)))) mo"

definition ar_manager_delete_ar :: "ar_manager option \<Rightarrow> string option \<Rightarrow> wtc_result \<times> ar_manager option" where
  "ar_manager_delete_ar mo name =
     on_handle WTC_ERROR_INVALID_PARAM (\<lambda>m.
       case name of
         None \<Rightarrow> (WTC_ERROR_INVALID_PARAM, m)
       | Some s \<Rightarrow>
           (case remove_first (\<lambda>ar. ar_device_station_name ar = s) (mg_ars m) of
              None \<Rightarrow> (WTC_ERROR_NOT_FOUND, m)
            | Some ars \<Rightarrow> (WTC_OK, m\<lparr>mg_ars := ars\<rparr>))) mo"

definition ar_manager_get_ar :: "ar_manager option \<Rightarrow> string option \<Rightarrow> nat option" where
  "ar_manager_get_ar mo name =
     with_handle None (\<lambda>m.
       case name of None \<Rightarrow> None | Some s \<Rightarrow> find_pos (\<lambda>ar. ar_device_station_name ar = s) (mg_ars m)) mo"

definition ar_manager_get_ar_by_frame_id :: "ar_manager option \<Rightarrow> u16 \<Rightarrow> nat option" where
  "ar_manager_get_ar_by_frame_id mo frame_id =
     with_handle None (\<lambda>m. find_pos (\<lambda>ar. \<exists>c \<in> set (ar_iocr ar). io_frame_id c = frame_id) (mg_ars m)) mo"

definition ar_manager_get_all :: "ar_manager option \<Rightarrow> bool \<Rightarrow> int \<Rightarrow> wtc_result \<times> nat list \<times> int" where
  "ar_manager_get_all mo out_ok max_count =
     with_handle (WTC_ERROR_INVALID_PARAM, [], 0) (\<lambda>m.
       if \<not> out_ok then (WTC_ERROR_INVALID_PARAM, [], 0)
       else (let n = min (int (length (mg_ars m))) max_count in (WTC_OK, [0..<nat n], n))) mo"

definition ar_manager_get_rpc_context :: "ar_manager option \<Rightarrow> rpc_context option" where
  "ar_manager_get_rpc_context mo = with_handle None (\<lambda>m. if mg_rpc_initialized m then Some (mg_rpc_ctx m) else None) mo"

section \<open>Cyclic frames\<close>

definition status_good :: u8 where "status_good = 0x80"

text \<open>The loops that set the provider and consumer status behind the user data. The offset of the consumer
  status is a 16-bit sum.\<close>

definition fill_status :: "iocr \<Rightarrow> u8 list \<Rightarrow> u8 list" where
  "fill_status c buf =
     (let iops_off = io_user_data_length c;
          buf = memcpy_at buf (unat iops_off) (replicate (unat (io_iodata_count c)) status_good);
          iocs_off = iops_off + io_iodata_count c
      in memcpy_at buf (unat iocs_off) (replicate (unat (io_iocs_count c)) status_good))"

text \<open>The frame array has 1518 bytes; the list may be longer when the data are.\<close>

definition cyclic_frame :: "ar_manager \<Rightarrow> profinet_ar \<Rightarrow> iocr \<Rightarrow> u8 list" where
  "cyclic_frame m ar c =
     (let frame = ar_device_mac ar @ mg_controller_mac m @ be16 PROFINET_ETHERTYPE_VLAN @ be16 0xC000 @ be16 PROFINET_ETHERTYPE @
            be16 (io_frame_id c) @
            (case io_data_buffer c of Some b \<Rightarrow> take (unat (io_data_length c)) b | None \<Rightarrow> []) @
            be16 (io_cycle_counter c) @ [0x35, 0]
      in frame @ replicate (ETH_MIN_FRAME_LEN - length frame) 0)"

definition send_cyclic_frame :: "int \<Rightarrow> ar_manager \<Rightarrow> profinet_ar \<Rightarrow> wtc_result \<times> u8 list option \<times> profinet_ar" where
  "send_cyclic_frame sent m ar =
     (if ar_state ar \<noteq> AR_STATE_RUN then (WTC_ERROR_NOT_INITIALIZED, None, ar)
      else
        (case first_iocr IOCR_TYPE_OUTPUT ar of
           None \<Rightarrow> (WTC_ERROR_NOT_FOUND, None, ar)
         | Some i \<Rightarrow>
             (let c = (ar_iocr ar ! i)\<lparr>io_data_buffer := map_option (fill_status (ar_iocr ar ! i)) (io_data_buffer (ar_iocr ar ! i))\<rparr>;
                  ar = set_iocr i (\<lambda>_. c\<lparr>io_cycle_counter := io_cycle_counter c + 1\<rparr>) ar
              in if sent < 0 then (WTC_ERROR_IO, None, ar) else (WTC_OK, Some (cyclic_frame m ar c), ar))))"

text \<open>The result holds the frame that was sent, if any. \<open>period_us\<close> is the period of the connection; the
  product is computed with 64 bits.\<close>

definition iocr_period_us :: "iocr \<Rightarrow> u64" where
  "iocr_period_us c =
     (let p = (ucast (io_send_clock_factor c) * ucast (io_reduction_ratio c) * 3125) div 100 in if p = 0 then 256000 else p)"

definition ar_send_output_data :: "u64 \<Rightarrow> int \<Rightarrow> ar_manager \<Rightarrow> profinet_ar option \<Rightarrow> (wtc_result \<times> u8 list option) \<times> profinet_ar option" where
  "ar_send_output_data now_us sent m aro =
     on_handle (WTC_ERROR_NOT_INITIALIZED, None) (\<lambda>ar.
       if ar_state ar \<noteq> AR_STATE_RUN then ((WTC_ERROR_NOT_INITIALIZED, None), ar)
       else
         (case first_iocr IOCR_TYPE_OUTPUT ar of
            None \<Rightarrow> ((WTC_ERROR_NOT_FOUND, None), ar)
          | Some i \<Rightarrow>
              (if now_us - io_last_frame_time_us (ar_iocr ar ! i) \<ge> iocr_period_us (ar_iocr ar ! i) then
                 (let (rc, frame, ar) = send_cyclic_frame sent m ar in
                  ((rc, frame), if rc = WTC_OK then set_iocr i (io_last_frame_time_us_update (\<lambda>_. now_us)) ar else ar))
               else ((WTC_OK, None), ar)))) aro"

text \<open>The first IOCR of the relationship with the identifier and the input direction takes the data.\<close>

definition store_rt_data :: "u64 \<Rightarrow> u64 \<Rightarrow> u16 \<Rightarrow> nat \<Rightarrow> u8 list \<Rightarrow> nat \<Rightarrow> profinet_ar \<Rightarrow> wtc_result \<times> profinet_ar" where
  "store_rt_data now_us now_ms frame_id data_offset frame len ar =
     (case find_pos (\<lambda>c. io_frame_id c = frame_id \<and> io_type c = IOCR_TYPE_INPUT) (ar_iocr ar) of
        None \<Rightarrow> (WTC_ERROR_NOT_FOUND, ar)
      | Some j \<Rightarrow>
          (let data_len = unat (io_data_length (ar_iocr ar ! j));
               ar = (case io_data_buffer (ar_iocr ar ! j) of
                       Some b \<Rightarrow> (if data_offset + data_len \<le> len
                                 then set_iocr j (\<lambda>c. c\<lparr>io_data_buffer := Some (memcpy_at b 0 (mem_read frame data_offset data_len)),
                                                        io_last_frame_time_us := now_us\<rparr>) ar else ar)
                     | None \<Rightarrow> ar)
           in (WTC_OK, ar\<lparr>ar_last_activity_ms := now_ms\<rparr>)))"

definition ar_handle_rt_frame :: "u64 \<Rightarrow> u64 \<Rightarrow> ar_manager option \<Rightarrow> u8 list option \<Rightarrow> nat \<Rightarrow> wtc_result \<times> ar_manager option" where
  "ar_handle_rt_frame now_us now_ms mo frame len =
     on_handle WTC_ERROR_INVALID_PARAM (\<lambda>m.
       case frame of
         None \<Rightarrow> (WTC_ERROR_INVALID_PARAM, m)
       | Some bs \<Rightarrow>
           (if len < ETH_HEADER_LEN + 4 then (WTC_ERROR_INVALID_PARAM, m)
            else
              (let hdr_offset = (if of_be16 (bs ! 12) (bs ! 13) = PROFINET_ETHERTYPE_VLAN then ETH_HEADER_LEN + 4 else ETH_HEADER_LEN) in
               if len < hdr_offset + 4 then (WTC_ERROR_INVALID_PARAM, m)
               else
                 (let frame_id = of_be16 (bs ! hdr_offset) (bs ! (hdr_offset + 1)) in
                  case ar_manager_get_ar_by_frame_id (Some m) frame_id of
                    None \<Rightarrow> (WTC_ERROR_NOT_FOUND, m)
                  | Some i \<Rightarrow>
                      (let (res, ar) = store_rt_data now_us now_ms frame_id (hdr_offset + 2) bs len (mg_ars m ! i) in
                       (res, m\<lparr>mg_ars := (mg_ars m)[i := ar]\<rparr>)))))) mo"

section \<open>Connect parameters\<close>

definition expected_dap :: "expected_submodule list" where
  "expected_dap =
     [\<lparr>ex_slot = 0, ex_module_ident = GSDML_MOD_DAP, ex_subslot = 0x0001, ex_submodule_ident = GSDML_SUBMOD_DAP,
       ex_data_length = 0, ex_is_input = True\<rparr>,
      \<lparr>ex_slot = 0, ex_module_ident = GSDML_MOD_DAP, ex_subslot = 0x8000, ex_submodule_ident = GSDML_SUBMOD_INTERFACE,
       ex_data_length = 0, ex_is_input = True\<rparr>,
      \<lparr>ex_slot = 0, ex_module_ident = GSDML_MOD_DAP, ex_subslot = 0x8001, ex_submodule_ident = GSDML_SUBMOD_PORT,
       ex_data_length = 0, ex_is_input = True\<rparr>]"

text \<open>A discovered module: its direction follows from the range of the submodule identifier.\<close>

definition expected_discovered :: "discovered_module \<Rightarrow> expected_submodule" where
  "expected_discovered d =
     (let submod = dm_submodule_ident d;
          (len, inp) = (if submod \<ge> 0x11 \<and> submod \<le> 0x71 then (5, True)
                        else if submod \<ge> 0x101 \<and> submod \<le> 0x121 then (4, False) else (0, True))
      in \<lparr>ex_slot = dm_slot d, ex_module_ident = dm_module_ident d, ex_subslot = dm_subslot d, ex_submodule_ident = submod,
          ex_data_length = len, ex_is_input = inp\<rparr>)"

definition expected_slot :: "ar_slot_info \<Rightarrow> expected_submodule option" where
  "expected_slot s =
     (case si_type s of
        SLOT_TYPE_SENSOR \<Rightarrow>
          Some \<lparr>ex_slot = si_slot s, ex_module_ident = gsdml_get_input_module_ident (si_measurement_type s),
            ex_subslot = (if si_subslot s > 0 then si_subslot s else 1),
            ex_submodule_ident = gsdml_get_input_submodule_ident (si_measurement_type s),
            ex_data_length = GSDML_INPUT_DATA_SIZE, ex_is_input = True\<rparr>
      | SLOT_TYPE_ACTUATOR \<Rightarrow>
          Some \<lparr>ex_slot = si_slot s, ex_module_ident = gsdml_get_output_module_ident (si_actuator_type s),
            ex_subslot = (if si_subslot s > 0 then si_subslot s else 1),
            ex_submodule_ident = gsdml_get_output_submodule_ident (si_actuator_type s),
            ex_data_length = GSDML_OUTPUT_DATA_SIZE, ex_is_input = False\<rparr>
      | SLOT_TYPE_DAP \<Rightarrow> None)"

definition expected_modules :: "profinet_ar \<Rightarrow> expected_submodule list" where
  "expected_modules ar =
     (if ar_has_discovered_modules ar
      then map expected_discovered (filter (\<lambda>d. dm_slot d \<noteq> 0) (ar_discovered_modules ar))
      else List.map_filter expected_slot (ar_slot_info ar))"

text \<open>What both builders of parameters share.\<close>

definition base_params :: "ar_manager \<Rightarrow> profinet_ar \<Rightarrow> timing_params \<Rightarrow> connect_request_params" where
  "base_params m ar tp = \<lparr>cp_ar_uuid = ar_uuid ar, cp_session_key = ar_session_key ar, cp_ar_type = ar_type ar,
     cp_ar_properties = 0x01 OR 0x10 OR 0x00, cp_station_name = cstr_copy 63 (mg_controller_station_name m),
     cp_controller_mac = mg_controller_mac m, cp_controller_uuid = mg_controller_uuid m,
     cp_controller_port = rc_controller_port (mg_rpc_ctx m), cp_activity_timeout = 100, cp_iocr = [], cp_expected_config = [],
     cp_max_alarm_data_length = 200, cp_rta_timeout_factor = tp_rta_timeout_factor tp, cp_rta_retries = tp_rta_retries tp,
     cp_data_hold_factor = tp_data_hold_factor tp\<rparr>"

definition iocr_params :: "timing_params \<Rightarrow> u16 \<Rightarrow> u16 \<Rightarrow> u16 \<Rightarrow> u16 \<Rightarrow> iocr_param" where
  "iocr_params tp t reference frame_id dl = \<lparr>ip_type = t, ip_reference = reference, ip_frame_id = frame_id, ip_data_length = dl,
     ip_send_clock_factor = tp_send_clock_factor tp, ip_reduction_ratio = tp_reduction_ratio tp,
     ip_watchdog_factor = tp_watchdog_factor tp\<rparr>"

definition build_connect_params :: "ar_manager \<Rightarrow> profinet_ar \<Rightarrow> connect_request_params" where
  "build_connect_params m ar =
     (let tp = the (rpc_strategy_get_timing TIMING_CONSERVATIVE True) in
      (base_params m ar tp)\<lparr>
        cp_iocr := map (\<lambda>i. let c = ar_iocr ar ! i; dl = ucast (io_data_length c) :: u16 in
                     iocr_params tp (iocr_type_code (io_type c)) (of_nat (i + 1)) (io_frame_id c)
                       (if dl < IOCR_MIN_C_SDU_LENGTH then IOCR_MIN_C_SDU_LENGTH else dl)) [0..<min (length (ar_iocr ar)) 4],
        cp_expected_config := expected_dap @ take (WTC_MAX_SLOTS - 3) (expected_modules ar)\<rparr>)"

definition dap_data_length :: "profinet_ar \<Rightarrow> nat \<Rightarrow> u16" where
  "dap_data_length ar i =
     (if length (ar_iocr ar) > i \<and> io_data_length (ar_iocr ar ! i) \<ge> ucast IOCR_MIN_C_SDU_LENGTH
      then ucast (io_data_length (ar_iocr ar ! i)) else IOCR_MIN_C_SDU_LENGTH)"

definition build_dap_connect_params :: "ar_manager \<Rightarrow> profinet_ar \<Rightarrow> connect_request_params" where
  "build_dap_connect_params m ar =
     (let tp = the (rpc_strategy_get_timing TIMING_CONSERVATIVE True) in
      (base_params m ar tp)\<lparr>
        cp_iocr := [iocr_params tp (iocr_type_code IOCR_TYPE_INPUT) 1 0xC001 (dap_data_length ar 0),
                    iocr_params tp (iocr_type_code IOCR_TYPE_OUTPUT) 2 0xFFFF (dap_data_length ar 1)],
        cp_expected_config := expected_dap\<rparr>)"

text \<open>The layout for the discovered modules. The totals are 16 bits wide.\<close>

definition module_total :: "bool \<Rightarrow> discovered_module list \<Rightarrow> u16" where
  "module_total inp ds =
     sum_list (map (\<lambda>d. get_module_data_size (dm_module_ident d))
       (filter (\<lambda>d. dm_slot d \<noteq> 0 \<and> is_input_module (dm_module_ident d) = inp) ds))"

definition module_count :: "bool \<Rightarrow> discovered_module list \<Rightarrow> u16" where
  "module_count inp ds = of_nat (length (filter (\<lambda>d. dm_slot d \<noteq> 0 \<and> is_input_module (dm_module_ident d) = inp) ds))"

definition resize_iocr :: "u16 \<Rightarrow> u16 \<Rightarrow> u16 \<Rightarrow> bool \<Rightarrow> iocr \<Rightarrow> iocr" where
  "resize_iocr user iodata iocs ok c =
     (let frame = user + iodata + iocs; csdu = (if frame > IOCR_MIN_C_SDU_LENGTH then frame else IOCR_MIN_C_SDU_LENGTH) in
      with_buffer ok (c\<lparr>io_data_length := ucast csdu, io_user_data_length := user, io_iodata_count := iodata, io_iocs_count := iocs\<rparr>))"

definition discovered_slot :: "discovered_module \<Rightarrow> ar_slot_info \<Rightarrow> ar_slot_info" where
  "discovered_slot d info =
     (let info = info\<lparr>si_slot := dm_slot d, si_subslot := dm_subslot d\<rparr>; ident = dm_module_ident d in
      if is_input_module ident then
        info\<lparr>si_type := SLOT_TYPE_SENSOR, si_measurement_type :=
          (if ident = GSDML_MOD_PH then MEASUREMENT_PH else if ident = GSDML_MOD_TDS then MEASUREMENT_TDS
           else if ident = GSDML_MOD_TURBIDITY then MEASUREMENT_TURBIDITY else if ident = GSDML_MOD_TEMPERATURE then MEASUREMENT_TEMPERATURE
           else if ident = GSDML_MOD_FLOW then MEASUREMENT_FLOW_RATE else if ident = GSDML_MOD_LEVEL then MEASUREMENT_LEVEL
           else MEASUREMENT_CUSTOM)\<rparr>
      else
        info\<lparr>si_type := SLOT_TYPE_ACTUATOR, si_actuator_type :=
          (if ident = GSDML_MOD_PUMP then ACTUATOR_PUMP else if ident = GSDML_MOD_VALVE then ACTUATOR_VALVE else ACTUATOR_RELAY)\<rparr>)"

text \<open>The entries of the slot array are overwritten in place; a field that a module does not set keeps the
  value the entry had, given by \<open>old\<close>.\<close>

definition ar_build_full_connect_params ::
  "bool \<Rightarrow> bool \<Rightarrow> (nat \<Rightarrow> ar_slot_info) \<Rightarrow> ar_manager option \<Rightarrow> profinet_ar option \<Rightarrow> discovered_module list option \<Rightarrow>
   wtc_result \<times> profinet_ar option" where
  "ar_build_full_connect_params in_ok out_ok old mo aro discovery =
     on_handle WTC_ERROR_INVALID_PARAM (\<lambda>ar.
       case (mo, discovery) of
         (Some m, Some ds) \<Rightarrow>
           (let n_in = module_count True ds; n_out = module_count False ds;
                resized = length (ar_iocr ar) \<ge> 2;
                ar = (if resized
                      then set_iocr 0 (resize_iocr (module_total True ds) (DAP_SUBMODULE_COUNT + n_in) n_out in_ok) ar else ar)
            in if resized \<and> \<not> in_ok then (WTC_ERROR_NO_MEMORY, ar)
               else
                 (let ar = (if resized
                            then set_iocr 1 (resize_iocr (module_total False ds) n_out (DAP_SUBMODULE_COUNT + n_in) out_ok) ar else ar) in
                  if resized \<and> \<not> out_ok then (WTC_ERROR_NO_MEMORY, ar)
                  else
                    (let apps = take WTC_MAX_SLOTS (filter (\<lambda>d. dm_slot d \<noteq> 0) ds) in
                     (WTC_OK, ar\<lparr>ar_discovered_modules := take WTC_MAX_SLOTS ds,
                                 ar_slot_info := map (\<lambda>k. discovered_slot (apps ! k) (old k)) [0..<length apps]\<rparr>))))
       | _ \<Rightarrow> (WTC_ERROR_INVALID_PARAM, ar)) aro"

section \<open>Connecting\<close>

text \<open>One connection attempt: the socket for the calls, if it has to be opened; the clock at the start and at
  the end; the random numbers of the two UUIDs; the exchange of datagrams.\<close>

record attempt_env =
  ce_fd :: int
  ce_bind_ok :: bool
  ce_port :: "u16 option"
  ce_ctx_seed :: uuid_seed
  ce_start_ms :: u64
  ce_ar_seed :: uuid_seed
  ce_activity_seed :: uuid_seed
  ce_net :: rpc_io
  ce_end_ms :: u64

definition ensure_rpc_initialized :: "attempt_env \<Rightarrow> ar_manager \<Rightarrow> wtc_result \<times> ar_manager" where
  "ensure_rpc_initialized env m =
     (if mg_rpc_initialized m then (WTC_OK, m)
      else if mg_controller_ip m = 0 then (WTC_ERROR_NOT_INITIALIZED, m)
      else
        (case rpc_context_init True (ce_fd env) (ce_bind_ok env) (ce_port env) (ce_ctx_seed env) (Some (mg_rpc_ctx m))
                (Some (mg_controller_mac m)) (mg_controller_ip m) (Some (mg_interface_name m)) of
           (WTC_OK, ctx) \<Rightarrow> (WTC_OK, m\<lparr>mg_rpc_ctx := the ctx, mg_rpc_initialized := True\<rparr>)
         | (res, ctx) \<Rightarrow> (res, m\<lparr>mg_rpc_ctx := the ctx\<rparr>)))"

text \<open>The controller address, guessed from the address of the device when it is not known.\<close>

definition guess_ip :: "ar_manager \<Rightarrow> profinet_ar \<Rightarrow> ar_manager" where
  "guess_ip m ar =
     (if mg_controller_ip m = 0 \<and> ar_device_ip ar \<noteq> 0
      then m\<lparr>mg_controller_ip := (ar_device_ip ar AND 0xFFFFFF00) OR 1\<rparr> else m)"

definition new_session :: "attempt_env \<Rightarrow> ar_manager \<Rightarrow> profinet_ar \<Rightarrow> ar_manager \<times> profinet_ar" where
  "new_session env m ar =
     (m\<lparr>mg_session_key_counter := mg_session_key_counter m + 1\<rparr>,
      ar\<lparr>ar_uuid := rpc_generate_uuid (ce_ar_seed env), ar_session_key := mg_session_key_counter m\<rparr>)"

definition assign_frame_ids :: "(u16 \<times> u16) list \<Rightarrow> profinet_ar \<Rightarrow> profinet_ar" where
  "assign_frame_ids ids ar =
     ar\<lparr>ar_iocr := map (\<lambda>i. if i < length ids then (ar_iocr ar ! i)\<lparr>io_frame_id := snd (ids ! i)\<rparr> else ar_iocr ar ! i)
                      [0..<length (ar_iocr ar)]\<rparr>"

text \<open>An accepted response. A difference of application modules is retried with the modules the device
  reports, as long as attempts are left.\<close>

definition connect_accepted :: "u64 \<Rightarrow> connect_response \<Rightarrow> profinet_ar \<Rightarrow> wtc_result \<times> profinet_ar" where
  "connect_accepted now_ms r ar =
     (let ar = assign_frame_ids (cr_frame_ids r) (ar\<lparr>ar_device_mac := cr_device_mac r, ar_session_key := cr_session_key r\<rparr>) in
      if cr_has_diff r \<and> (\<exists>d \<in> set (cr_discovered_modules r). dm_slot d > 0) \<and> ar_retry_count ar < AR_MAX_RETRY_ATTEMPTS
      then (WTC_ERROR_CONNECTION_FAILED,
            ar\<lparr>ar_has_discovered_modules := True, ar_discovered_modules := take WTC_MAX_SLOTS (cr_discovered_modules r),
              ar_state := AR_STATE_ABORT, ar_last_activity_ms := now_ms, ar_last_error := WTC_ERROR_CONNECTION_FAILED\<rparr>)
      else (WTC_OK, ar\<lparr>ar_state := AR_STATE_CONNECT_CNF, ar_last_activity_ms := now_ms, ar_retry_count := 0,
                      ar_last_error := WTC_OK, ar_missed_cycles := 0\<rparr>))"

definition connect_failed :: "u64 \<Rightarrow> wtc_result \<Rightarrow> profinet_ar \<Rightarrow> wtc_result \<times> profinet_ar" where
  "connect_failed now_ms res ar =
     (WTC_ERROR_CONNECTION_FAILED,
      ar\<lparr>ar_state := AR_STATE_ABORT, ar_last_activity_ms := now_ms,
        ar_last_error := (if res \<noteq> WTC_OK then res else WTC_ERROR_CONNECTION_FAILED)\<rparr>)"

definition ar_send_connect_request ::
  "attempt_env \<Rightarrow> ar_manager option \<Rightarrow> profinet_ar option \<Rightarrow> wtc_result \<times> ar_manager option \<times> profinet_ar option" where
  "ar_send_connect_request env =
     on_both WTC_ERROR_INVALID_PARAM (\<lambda>m ar.
       let (res, m) = ensure_rpc_initialized env (guess_ip m ar) in
       if res \<noteq> WTC_OK then (res, m, ar\<lparr>ar_state := AR_STATE_ABORT\<rparr>)
       else
         (let ar = ar\<lparr>ar_state := AR_STATE_CONNECT_REQ, ar_last_activity_ms := ce_start_ms env\<rparr>;
              (m, ar) = new_session env m ar;
              ((res, response), ctx) = rpc_connect (ce_activity_seed env) (ce_net env) (Some (mg_rpc_ctx m)) (ar_device_ip ar)
                                         (Some (build_connect_params m ar)) True;
              m = m\<lparr>mg_rpc_ctx := the ctx\<rparr>;
              (res, ar) = (case response of
                             Some r \<Rightarrow> (if res = WTC_OK \<and> cr_success r then connect_accepted (ce_end_ms env) r ar
                                       else connect_failed (ce_end_ms env) res ar)
                           | None \<Rightarrow> connect_failed (ce_end_ms env) res ar)
          in (res, m, ar)))"

definition ar_send_dap_connect_request ::
  "attempt_env \<Rightarrow> ar_manager option \<Rightarrow> profinet_ar option \<Rightarrow> wtc_result \<times> ar_manager option \<times> profinet_ar option" where
  "ar_send_dap_connect_request env =
     on_both WTC_ERROR_INVALID_PARAM (\<lambda>m ar.
       let (res, m) = ensure_rpc_initialized env (guess_ip m ar) in
       if res \<noteq> WTC_OK then (res, m, ar)
       else
         (let (m, ar) = new_session env m ar;
              ((res, response), ctx) = rpc_connect (ce_activity_seed env) (ce_net env) (Some (mg_rpc_ctx m)) (ar_device_ip ar)
                                         (Some (build_dap_connect_params m ar)) True;
              m = m\<lparr>mg_rpc_ctx := the ctx\<rparr>
          in case response of
               Some r \<Rightarrow> (if res = WTC_OK \<and> cr_success r
                         then (WTC_OK, m, ar\<lparr>ar_device_mac := cr_device_mac r, ar_session_key := cr_session_key r,
                                            ar_state := AR_STATE_CONNECT_CNF, ar_last_activity_ms := ce_end_ms env\<rparr>)
                         else (WTC_ERROR_CONNECTION_FAILED, m, ar))
             | None \<Rightarrow> (WTC_ERROR_CONNECTION_FAILED, m, ar)))"

definition ar_send_parameter_end ::
  "rpc_io \<Rightarrow> u64 \<Rightarrow> ar_manager option \<Rightarrow> profinet_ar option \<Rightarrow> wtc_result \<times> ar_manager option \<times> profinet_ar option" where
  "ar_send_parameter_end net now_ms =
     on_both WTC_ERROR_INVALID_PARAM (\<lambda>m ar.
       if \<not> mg_rpc_initialized m then (WTC_ERROR_NOT_INITIALIZED, m, ar)
       else
         (let (res, ctx) = rpc_parameter_end net (Some (mg_rpc_ctx m)) (ar_device_ip ar) (Some (ar_uuid ar)) (ar_session_key ar);
              m = m\<lparr>mg_rpc_ctx := the ctx\<rparr>
          in if res \<noteq> WTC_OK then (res, m, ar\<lparr>ar_state := AR_STATE_ABORT, ar_last_activity_ms := now_ms\<rparr>)
             else (WTC_OK, m, ar\<lparr>ar_state := AR_STATE_READY, ar_last_activity_ms := now_ms\<rparr>)))"

definition ar_send_application_ready ::
  "rpc_io \<Rightarrow> u64 \<Rightarrow> ar_manager option \<Rightarrow> profinet_ar option \<Rightarrow> (wtc_result \<times> ar_event list) \<times> ar_manager option \<times> profinet_ar option" where
  "ar_send_application_ready net now_ms =
     on_both (WTC_ERROR_INVALID_PARAM, []) (\<lambda>m ar.
       if \<not> mg_rpc_initialized m then ((WTC_ERROR_NOT_INITIALIZED, []), m, ar)
       else
         (let (res, ctx) = rpc_application_ready net (Some (mg_rpc_ctx m)) (ar_device_ip ar) (Some (ar_uuid ar)) (ar_session_key ar);
              m = m\<lparr>mg_rpc_ctx := the ctx\<rparr>
          in if res \<noteq> WTC_OK then ((res, []), m, ar\<lparr>ar_state := AR_STATE_ABORT, ar_last_activity_ms := now_ms\<rparr>)
             else ((WTC_OK, notify_state_change m ar (ar_state ar) AR_STATE_RUN), m,
                   ar\<lparr>ar_state := AR_STATE_RUN, ar_last_activity_ms := now_ms\<rparr>)))"

definition ar_send_release_request ::
  "rpc_io \<Rightarrow> u64 \<Rightarrow> ar_manager option \<Rightarrow> profinet_ar option \<Rightarrow> (wtc_result \<times> ar_event list) \<times> ar_manager option \<times> profinet_ar option" where
  "ar_send_release_request net now_ms =
     on_both (WTC_ERROR_INVALID_PARAM, []) (\<lambda>m ar.
       let evs = notify_state_change m ar (ar_state ar) AR_STATE_CLOSE;
           ar = ar\<lparr>ar_state := AR_STATE_CLOSE, ar_last_activity_ms := now_ms\<rparr>
       in if \<not> mg_rpc_initialized m then ((WTC_OK, evs), m, ar)
          else
            (let (res, ctx) = rpc_release net (Some (mg_rpc_ctx m)) (ar_device_ip ar) (Some (ar_uuid ar)) (ar_session_key ar)
             in ((WTC_OK, evs), m\<lparr>mg_rpc_ctx := the ctx\<rparr>, ar)))"

definition ar_read_real_identification ::
  "rpc_io \<Rightarrow> ar_manager option \<Rightarrow> profinet_ar option \<Rightarrow> bool \<Rightarrow> (wtc_result \<times> discovered_module list option) \<times> ar_manager option \<times> profinet_ar option" where
  "ar_read_real_identification net mo aro discovery_ok =
     on_both (WTC_ERROR_INVALID_PARAM, None) (\<lambda>m ar.
       if \<not> discovery_ok then ((WTC_ERROR_INVALID_PARAM, None), m, ar)
       else if \<not> mg_rpc_initialized m then ((WTC_ERROR_NOT_INITIALIZED, None), m, ar)
       else
         (let ps = \<lparr>rq_ar_uuid = ar_uuid ar, rq_session_key = ar_session_key ar, rq_api = 0, rq_slot = 0, rq_subslot = 0,
                    rq_index = 0xF000, rq_max_record_length = of_nat RPC_MAX_PDU_SIZE\<rparr>;
              ((res, response), ctx) = rpc_read_record net (Some (mg_rpc_ctx m)) (ar_device_ip ar) (Some ps) True;
              m = m\<lparr>mg_rpc_ctx := the ctx\<rparr>
          in if res \<noteq> WTC_OK then ((res, Some []), m, ar)
             else (case response of
                     Some r \<Rightarrow> (if rr_success r then ((WTC_OK, Some (rr_modules r)), m, ar)
                               else ((WTC_ERROR_PROTOCOL, Some []), m, ar))
                   | None \<Rightarrow> ((WTC_ERROR_PROTOCOL, Some []), m, ar)))) mo aro"

text \<open>What the sources of a configuration deliver, as module lists that may be empty: the HTTP request, and the
  GSDML cache if it has an entry for the station. \<open>None\<close> stands for an error.\<close>

record discovery_env =
  de_http :: "discovered_module list option"
  de_cache_exists :: bool
  de_cache :: "discovered_module list option"
  de_in_ok :: bool
  de_out_ok :: bool
  de_old_slots :: "nat \<Rightarrow> ar_slot_info"
  de_connect :: attempt_env

definition discovered_config :: "discovery_env \<Rightarrow> discovered_module list" where
  "discovered_config env =
     (case de_http env of
        Some (d # ds) \<Rightarrow> d # ds
      | _ \<Rightarrow> (if de_cache_exists env then (case de_cache env of Some ds \<Rightarrow> ds | None \<Rightarrow> []) else []))"

definition ar_connect_with_discovery ::
  "discovery_env \<Rightarrow> ar_manager option \<Rightarrow> profinet_ar option \<Rightarrow> wtc_result \<times> ar_manager option \<times> profinet_ar option" where
  "ar_connect_with_discovery env =
     on_both WTC_ERROR_INVALID_PARAM (\<lambda>m ar.
       let (res, aro) = ar_build_full_connect_params (de_in_ok env) (de_out_ok env) (de_old_slots env) (Some m) (Some ar)
                          (Some (discovered_config env));
           ar = the aro
       in if res \<noteq> WTC_OK then (res, m, ar)
          else
            (let (res, mo, aro) = ar_send_connect_request (de_connect env) (Some m)
                                    (Some (ar\<lparr>ar_has_discovered_modules := True, ar_state := AR_STATE_INIT\<rparr>))
             in (res, the mo, the aro)))"

section \<open>The state machine\<close>

text \<open>What the environment does in one pass over a relationship.\<close>

record ar_env =
  ae_prm_net :: rpc_io
  ae_prm_ms :: u64
  ae_release_net :: rpc_io
  ae_discovery :: discovery_env

record process_env =
  pe_now_ms :: u64
  pe_poll :: poll_io
  pe_response_sent :: int
  pe_ar :: "nat \<Rightarrow> ar_env"

definition set_ar :: "nat \<Rightarrow> profinet_ar \<Rightarrow> ar_manager \<Rightarrow> ar_manager" where
  "set_ar i ar m = m\<lparr>mg_ars := (mg_ars m)[i := ar]\<rparr>"

text \<open>The message by which a device reports that it is ready. It is answered, and then the relationship runs.\<close>

definition handle_app_ready :: "process_env \<Rightarrow> incoming_control_request \<Rightarrow> ar_manager \<Rightarrow> ar_event list \<times> ar_manager" where
  "handle_app_ready env req m =
     (case find_pos (\<lambda>ar. ar_session_key ar = ic_session_key req \<and> ar_uuid ar = ic_ar_uuid req) (mg_ars m) of
        None \<Rightarrow> ([], m)
      | Some i \<Rightarrow>
          (let ar = mg_ars m ! i in
           if ar_state ar = AR_STATE_READY then
             (let (res, resp) = rpc_build_control_response (Some (mg_rpc_ctx m)) (Some req) True pdu_buffer;
                  res = (if res = WTC_OK then rpc_send_response (pe_response_sent env) (Some (mg_rpc_ctx m)) resp else res)
              in if res = WTC_OK
                 then (notify_state_change m ar (ar_state ar) AR_STATE_RUN,
                       set_ar i (ar\<lparr>ar_state := AR_STATE_RUN, ar_last_activity_ms := pe_now_ms env\<rparr>) m)
                 else ([], m))
           else ([], m)))"

definition process_incoming :: "process_env \<Rightarrow> ar_manager \<Rightarrow> ar_event list \<times> ar_manager" where
  "process_incoming env m =
     (if \<not> mg_rpc_initialized m then ([], m)
      else
        (case rpc_poll_incoming (pe_poll env) (Some (mg_rpc_ctx m)) RPC_MAX_PDU_SIZE of
           (WTC_OK, Some (mem, len, ip, port)) \<Rightarrow>
             (if len > 0 then
                (case rpc_parse_incoming_control_request (Some mem) len True of
                   (WTC_OK, Some req) \<Rightarrow>
                     (let req = req\<lparr>ic_source_ip := ip, ic_source_port := port\<rparr> in
                      if ic_control_command req = CONTROL_CMD_APP_READY then handle_app_ready env req m else ([], m))
                 | _ \<Rightarrow> ([], m))
              else ([], m))
         | _ \<Rightarrow> ([], m)))"

definition backoff_ms :: "u64 \<Rightarrow> int \<Rightarrow> u32" where
  "backoff_ms now_ms retry_count =
     (let base_ms = push_bit (nat (if retry_count > 3 then 3 else retry_count)) 5000;
          base_ms = (if base_ms > 30000 then 30000 else base_ms);
          jitter = base_ms div 4
      in base_ms - jitter + ucast (now_ms mod ucast (2 * jitter + 1)))"

text \<open>A failed relationship: given up after a permanent error or too many attempts, otherwise connected again
  once the waiting time is over.\<close>

definition retry_connect :: "ar_env \<Rightarrow> ar_manager \<Rightarrow> profinet_ar \<Rightarrow> ar_manager \<times> profinet_ar" where
  "retry_connect env m ar =
     (let d = ae_discovery env in
      if ar_has_discovered_modules ar \<and> ar_discovered_modules ar \<noteq> [] then
        (let (_, aro) = ar_build_full_connect_params (de_in_ok d) (de_out_ok d) (de_old_slots d) (Some m) (Some ar)
                          (Some (ar_discovered_modules ar));
             (_, mo, aro) = ar_send_connect_request (de_connect d) (Some m) aro
         in (the mo, the aro))
      else
        (let (_, mo, aro) = ar_connect_with_discovery d (Some m) (Some (ar\<lparr>ar_connecting := True\<rparr>))
         in (the mo, (the aro)\<lparr>ar_connecting := False\<rparr>)))"

definition process_abort :: "u64 \<Rightarrow> ar_env \<Rightarrow> nat \<Rightarrow> ar_manager \<Rightarrow> ar_event list \<times> ar_manager" where
  "process_abort now_ms env i m =
     (let ar = mg_ars m ! i;
          is_permanent = (ar_last_error ar = WTC_ERROR_PROTOCOL \<or> ar_last_error ar = WTC_ERROR_PERMISSION)
      in if is_permanent \<or> ar_retry_count ar \<ge> AR_MAX_RETRY_ATTEMPTS
         then (notify_state_change m ar (ar_state ar) AR_STATE_CLOSE, set_ar i (ar\<lparr>ar_state := AR_STATE_CLOSE\<rparr>) m)
         else if ucast (now_ms - ar_last_activity_ms ar) < backoff_ms now_ms (ar_retry_count ar) then ([], m)
         else
           (let m = (if mg_rpc_initialized m \<and> ar_device_ip ar \<noteq> 0
                     then m\<lparr>mg_rpc_ctx := the (snd (rpc_release (ae_release_net env) (Some (mg_rpc_ctx m)) (ar_device_ip ar)
                              (Some (ar_uuid ar)) (ar_session_key ar)))\<rparr> else m);
                old_state = ar_state ar;
                (m, ar) = retry_connect env m (ar\<lparr>ar_retry_count := ar_retry_count ar + 1\<rparr>)
            in if ar_state ar \<noteq> old_state
               then (notify_state_change m ar old_state (ar_state ar), set_ar i ar m)
               else ([], set_ar i (ar\<lparr>ar_last_activity_ms := now_ms\<rparr>) m)))"

definition process_ar :: "process_env \<Rightarrow> nat \<Rightarrow> ar_manager \<Rightarrow> ar_event list \<times> ar_manager" where
  "process_ar env i m =
     (let ar = mg_ars m ! i; now_ms = pe_now_ms env in
      if ar_connecting ar then ([], m)
      else
        (case ar_state ar of
           AR_STATE_CONNECT_REQ \<Rightarrow>
             ([], if now_ms - ar_last_activity_ms ar > AR_CONNECT_TIMEOUT_MS
                  then set_ar i (ar\<lparr>ar_state := AR_STATE_ABORT, ar_last_activity_ms := now_ms\<rparr>) m else m)
         | AR_STATE_CONNECT_CNF \<Rightarrow> ([], set_ar i (ar\<lparr>ar_state := AR_STATE_PRMSRV, ar_last_activity_ms := now_ms\<rparr>) m)
         | AR_STATE_PRMSRV \<Rightarrow>
             (let (_, mo, aro) = ar_send_parameter_end (ae_prm_net (pe_ar env i)) (ae_prm_ms (pe_ar env i)) (Some m) (Some ar)
              in ([], set_ar i (the aro) (the mo)))
         | AR_STATE_READY \<Rightarrow>
             ([], if now_ms - ar_last_activity_ms ar > AR_APP_READY_TIMEOUT_MS
                  then set_ar i (ar\<lparr>ar_state := AR_STATE_ABORT, ar_last_activity_ms := now_ms\<rparr>) m else m)
         | AR_STATE_ABORT \<Rightarrow> process_abort now_ms (pe_ar env i) i m
         | _ \<Rightarrow> ([], m)))"

definition ar_manager_process :: "process_env \<Rightarrow> ar_manager option \<Rightarrow> (wtc_result \<times> ar_event list) \<times> ar_manager option" where
  "ar_manager_process env mo =
     on_handle (WTC_ERROR_INVALID_PARAM, []) (\<lambda>m.
       let (evs, m) = process_incoming env m;
           (evs', m) = for_each (process_ar env) [0..<length (mg_ars m)] m
       in ((WTC_OK, evs @ evs'), m)) mo"

definition check_ar_health :: "u64 \<Rightarrow> nat \<Rightarrow> ar_manager \<Rightarrow> ar_event list \<times> ar_manager" where
  "check_ar_health now_ms i m =
     (let ar = mg_ars m ! i in
      if ar_state ar \<noteq> AR_STATE_RUN \<or> ar_connecting ar then ([], m)
      else if now_ms - ar_last_activity_ms ar > ucast (ar_watchdog_ms ar) then
        (let missed = ar_missed_cycles ar + 1 in
         if missed \<noteq> 1 \<and> missed \<ge> WATCHDOG_MISS_THRESHOLD
         then (notify_state_change m ar (ar_state ar) AR_STATE_ABORT,
               set_ar i (ar\<lparr>ar_missed_cycles := 0, ar_last_error := WTC_ERROR_TIMEOUT, ar_state := AR_STATE_ABORT,
                 ar_has_discovered_modules := False, ar_discovered_modules := [], ar_slot_info := []\<rparr>) m)
         else ([], set_ar i (ar\<lparr>ar_missed_cycles := missed\<rparr>) m))
      else if ar_missed_cycles ar > 0 then ([], set_ar i (ar\<lparr>ar_missed_cycles := 0\<rparr>) m)
      else ([], m))"

definition ar_manager_check_health :: "u64 \<Rightarrow> ar_manager option \<Rightarrow> (wtc_result \<times> ar_event list) \<times> ar_manager option" where
  "ar_manager_check_health now_ms mo =
     on_handle (WTC_ERROR_INVALID_PARAM, []) (\<lambda>m.
       let (evs, m) = for_each (check_ar_health now_ms) [0..<length (mg_ars m)] m in ((WTC_OK, evs), m)) mo"

section \<open>What a connection attempt changes\<close>

lemma set_ar_simps [simp]:
  "mg_ars (set_ar i ar m) = (mg_ars m)[i := ar]" "mg_rpc_initialized (set_ar i ar m) = mg_rpc_initialized m"
  "mg_rpc_ctx (set_ar i ar m) = mg_rpc_ctx m"
  by (simp_all add: set_ar_def)

lemma guess_ip_ars [simp]: "mg_ars (guess_ip m ar) = mg_ars m"
  by (simp add: guess_ip_def)

lemma ensure_rpc_ars [simp]: "mg_ars (snd (ensure_rpc_initialized env m)) = mg_ars m"
  by (simp add: ensure_rpc_initialized_def split: prod.splits wtc_result.splits)

text \<open>The body of the connect request on the two objects.\<close>

definition connect_body :: "attempt_env \<Rightarrow> ar_manager \<Rightarrow> profinet_ar \<Rightarrow> wtc_result \<times> ar_manager \<times> profinet_ar" where
  "connect_body env m ar = (let (res, mo, aro) = ar_send_connect_request env (Some m) (Some ar) in (res, the mo, the aro))"

definition discovery_body :: "discovery_env \<Rightarrow> ar_manager \<Rightarrow> profinet_ar \<Rightarrow> wtc_result \<times> ar_manager \<times> profinet_ar" where
  "discovery_body env m ar = (let (res, mo, aro) = ar_connect_with_discovery env (Some m) (Some ar) in (res, the mo, the aro))"

lemma connect_request_both:
  "ar_send_connect_request env (Some m) (Some ar) =
     (fst (connect_body env m ar), Some (fst (snd (connect_body env m ar))), Some (snd (snd (connect_body env m ar))))"
  by (simp add: connect_body_def ar_send_connect_request_def split_beta Let_def)

lemma discovery_both:
  "ar_connect_with_discovery env (Some m) (Some ar) =
     (fst (discovery_body env m ar), Some (fst (snd (discovery_body env m ar))), Some (snd (snd (discovery_body env m ar))))"
  by (simp add: discovery_body_def ar_connect_with_discovery_def split_beta Let_def)

text \<open>The fields of a relationship that no connection attempt touches.\<close>

definition same_station :: "profinet_ar \<Rightarrow> profinet_ar \<Rightarrow> bool" where
  "same_station ar ar' \<longleftrightarrow> ar_device_station_name ar' = ar_device_station_name ar \<and> ar_device_ip ar' = ar_device_ip ar \<and>
     ar_watchdog_ms ar' = ar_watchdog_ms ar \<and> ar_connecting ar' = ar_connecting ar"

lemma same_station_refl [simp]: "same_station ar ar" by (simp add: same_station_def)

lemma same_station_trans: "same_station a b \<Longrightarrow> same_station b c \<Longrightarrow> same_station a c" by (simp add: same_station_def)

lemma connect_body_result:
  "mg_ars (fst (snd (connect_body env m ar))) = mg_ars m \<and> same_station ar (snd (snd (connect_body env m ar))) \<and>
   (ar_state (snd (snd (connect_body env m ar))) = AR_STATE_ABORT \<or>
    ar_state (snd (snd (connect_body env m ar))) = AR_STATE_CONNECT_CNF \<and> fst (connect_body env m ar) = WTC_OK)"
  unfolding connect_body_def ar_send_connect_request_def
  by (simp add: split_beta Let_def new_session_def connect_accepted_def connect_failed_def assign_frame_ids_def same_station_def
      split: option.splits)

lemma full_params_result:
  assumes "ar_build_full_connect_params in_ok out_ok old (Some m) (Some ar) (Some ds) = (res, aro)"
  shows "\<exists>ar'. aro = Some ar' \<and> same_station ar ar' \<and> ar_state ar' = ar_state ar \<and> ar_retry_count ar' = ar_retry_count ar \<and>
     ar_last_error ar' = ar_last_error ar"
  using assms unfolding ar_build_full_connect_params_def
  by (auto simp: Let_def same_station_def set_iocr_def split: if_splits)

lemma discovery_body_result:
  "mg_ars (fst (snd (discovery_body env m ar))) = mg_ars m \<and> same_station ar (snd (snd (discovery_body env m ar))) \<and>
   (ar_state (snd (snd (discovery_body env m ar))) \<in> {ar_state ar, AR_STATE_ABORT, AR_STATE_CONNECT_CNF})"
proof -
  obtain res ar' where b: "ar_build_full_connect_params (de_in_ok env) (de_out_ok env) (de_old_slots env) (Some m) (Some ar)
      (Some (discovered_config env)) = (res, Some ar')" "same_station ar ar'" "ar_state ar' = ar_state ar"
    using full_params_result by (metis prod.collapse)
  let ?ar = "ar'\<lparr>ar_has_discovered_modules := True, ar_state := AR_STATE_INIT\<rparr>"
  have "same_station ar ?ar" using b(2) by (simp add: same_station_def)
  then show ?thesis
    using b connect_body_result [of "de_connect env" m ?ar] same_station_trans [of ar ?ar]
    by (auto simp: discovery_body_def ar_connect_with_discovery_def Let_def connect_request_both)
qed

lemma parameter_end_result:
  assumes "ar_send_parameter_end net now (Some m) (Some ar) = (res, mo, aro)"
  shows "\<exists>m' ar'. mo = Some m' \<and> aro = Some ar' \<and> mg_ars m' = mg_ars m \<and> same_station ar ar' \<and>
     ar_state ar' \<in> {ar_state ar, AR_STATE_ABORT, AR_STATE_READY}"
  using assms by (auto simp: ar_send_parameter_end_def split_beta Let_def same_station_def)

lemma retry_connect_result:
  assumes "ar_state ar = AR_STATE_ABORT"
  shows "mg_ars (fst (retry_connect env m ar)) = mg_ars m \<and>
   ar_device_station_name (snd (retry_connect env m ar)) = ar_device_station_name ar \<and>
   ar_state (snd (retry_connect env m ar)) \<in> {AR_STATE_ABORT, AR_STATE_CONNECT_CNF}"
proof (cases "ar_has_discovered_modules ar \<and> ar_discovered_modules ar \<noteq> []")
  case True
  let ?d = "ae_discovery env"
  obtain res ar' where b: "ar_build_full_connect_params (de_in_ok ?d) (de_out_ok ?d) (de_old_slots ?d) (Some m) (Some ar)
      (Some (ar_discovered_modules ar)) = (res, Some ar')" "same_station ar ar'"
    using full_params_result by (metis prod.collapse)
  then show ?thesis
    using True connect_body_result [of "de_connect ?d" m ar']
    by (auto simp: retry_connect_def Let_def connect_request_both same_station_def)
next
  case False
  then show ?thesis
    using assms discovery_body_result [of "ae_discovery env" m "ar\<lparr>ar_connecting := True\<rparr>"]
    by (auto simp: retry_connect_def Let_def discovery_both same_station_def)
qed

section \<open>The transitions\<close>

text \<open>The transitions of a relationship in one pass of the manager.\<close>

inductive ar_move :: "ar_state \<Rightarrow> ar_state \<Rightarrow> bool" where
  connect_timeout: "ar_move AR_STATE_CONNECT_REQ AR_STATE_ABORT"
| confirmed: "ar_move AR_STATE_CONNECT_CNF AR_STATE_PRMSRV"
| parameters_sent: "ar_move AR_STATE_PRMSRV AR_STATE_READY"
| parameters_failed: "ar_move AR_STATE_PRMSRV AR_STATE_ABORT"
| ready_timeout: "ar_move AR_STATE_READY AR_STATE_ABORT"
| reconnected: "ar_move AR_STATE_ABORT AR_STATE_CONNECT_CNF"
| given_up: "ar_move AR_STATE_ABORT AR_STATE_CLOSE"

inductive_simps ar_move_iff: "ar_move x y"

text \<open>A pass over relationship \<open>i\<close> replaces only that one.\<close>

lemma process_ar_entry:
  "\<exists>ar'. mg_ars (snd (process_ar env i m)) = (mg_ars m)[i := ar'] \<and>
     (i < length (mg_ars m) \<longrightarrow> ar_device_station_name ar' = ar_device_station_name (mg_ars m ! i) \<and>
       (ar_state ar' = ar_state (mg_ars m ! i) \<or> ar_move (ar_state (mg_ars m ! i)) (ar_state ar')))"
proof -
  let ?ar = "mg_ars m ! i"
  show ?thesis
  proof (cases "ar_connecting ?ar")
    case True
    then show ?thesis by (intro exI [of _ ?ar]) (simp add: process_ar_def Let_def)
  next
    case run: False
    show ?thesis
    proof (cases "ar_state ?ar")
      case AR_STATE_PRMSRV
      obtain res m' ar' where p: "ar_send_parameter_end (ae_prm_net (pe_ar env i)) (ae_prm_ms (pe_ar env i)) (Some m) (Some ?ar) =
          (res, Some m', Some ar')" "mg_ars m' = mg_ars m" "same_station ?ar ar'"
        "ar_state ar' \<in> {ar_state ?ar, AR_STATE_ABORT, AR_STATE_READY}"
        using parameter_end_result by (metis prod.collapse)
      then show ?thesis
        using run AR_STATE_PRMSRV by (intro exI [of _ ar']) (auto simp: process_ar_def Let_def same_station_def ar_move_iff)
    next
      case AR_STATE_ABORT
      let ?m = "if mg_rpc_initialized m \<and> ar_device_ip ?ar \<noteq> 0
                then m\<lparr>mg_rpc_ctx := the (snd (rpc_release (ae_release_net (pe_ar env i)) (Some (mg_rpc_ctx m)) (ar_device_ip ?ar)
                              (Some (ar_uuid ?ar)) (ar_session_key ?ar)))\<rparr> else m"
      obtain m' ar' where r: "retry_connect (pe_ar env i) ?m (?ar\<lparr>ar_retry_count := ar_retry_count ?ar + 1\<rparr>) = (m', ar')"
        by fastforce
      have ars: "mg_ars ?m = mg_ars m" by simp
      have r': "mg_ars m' = mg_ars m" "ar_device_station_name ar' = ar_device_station_name ?ar"
        "ar_state ar' \<in> {AR_STATE_ABORT, AR_STATE_CONNECT_CNF}"
        using retry_connect_result [of "?ar\<lparr>ar_retry_count := ar_retry_count ?ar + 1\<rparr>" "pe_ar env i" ?m] AR_STATE_ABORT r ars
        by auto
      show ?thesis
        using run AR_STATE_ABORT r r'
        by (auto simp: process_ar_def process_abort_def Let_def ar_move_iff intro: exI [of _ ?ar])
    qed (use run in \<open>auto simp: process_ar_def Let_def ar_move_iff intro: exI [of _ ?ar]\<close>)
  qed
qed

end
