(* ===== verification/ArStates.thy ===== *)
theory ArStates
  imports ArManager
begin

text \<open>
  Properties of the AR manager over sequences of its calls: when a relationship may run, that a device
  which reports ready does run, that a silent device is given up, and when the watchdog closes a
  relationship.
\<close>

section \<open>Calls\<close>

text \<open>Every call of the interface that changes the manager. A pointer to a relationship is its position.\<close>

datatype ar_call =
  Set_Ip u32 | Set_Callback bool | Create_Ar create_env "ar_config option" bool | Delete_Ar "string option"
| Process process_env | Check_Health u64 | Rt_Frame u64 u64 "u8 list option" nat | Send_Output u64 int nat
| Connect attempt_env nat | Dap_Connect attempt_env nat | Discover discovery_env nat
| Full_Params bool bool "nat \<Rightarrow> ar_slot_info" "discovered_module list option" nat
| Parameter_End rpc_io u64 nat | Application_Ready rpc_io u64 nat | Release rpc_io u64 nat | Identify rpc_io nat

definition at_ar ::
  "nat \<Rightarrow> (ar_manager option \<Rightarrow> profinet_ar option \<Rightarrow> 'r \<times> ar_manager option \<times> profinet_ar option) \<Rightarrow> ar_manager \<Rightarrow> ar_manager" where
  "at_ar i f m =
     (if i < length (mg_ars m)
      then (let (_, mo, aro) = f (Some m) (Some (mg_ars m ! i)) in set_ar i (the aro) (the mo)) else m)"

fun ar_call_effect :: "ar_call \<Rightarrow> ar_manager \<Rightarrow> ar_manager" where
  "ar_call_effect (Set_Ip ip) m = the (ar_manager_set_controller_ip (Some m) ip)"
| "ar_call_effect (Set_Callback b) m = the (ar_manager_set_state_callback (Some m) b)"
| "ar_call_effect (Create_Ar env cf ok) m = the (snd (ar_manager_create_ar env (Some m) cf ok))"
| "ar_call_effect (Delete_Ar name) m = the (snd (ar_manager_delete_ar (Some m) name))"
| "ar_call_effect (Process env) m = the (snd (ar_manager_process env (Some m)))"
| "ar_call_effect (Check_Health now) m = the (snd (ar_manager_check_health now (Some m)))"
| "ar_call_effect (Rt_Frame us ms frame len) m = the (snd (ar_handle_rt_frame us ms (Some m) frame len))"
| "ar_call_effect (Send_Output now sent i) m =
     at_ar i (\<lambda>mo aro. let (r, aro) = ar_send_output_data now sent (the mo) aro in (r, mo, aro)) m"
| "ar_call_effect (Connect env i) m = at_ar i (ar_send_connect_request env) m"
| "ar_call_effect (Dap_Connect env i) m = at_ar i (ar_send_dap_connect_request env) m"
| "ar_call_effect (Discover env i) m = at_ar i (ar_connect_with_discovery env) m"
| "ar_call_effect (Full_Params in_ok out_ok old ds i) m =
     at_ar i (\<lambda>mo aro. let (r, aro) = ar_build_full_connect_params in_ok out_ok old mo aro ds in (r, mo, aro)) m"
| "ar_call_effect (Parameter_End net now i) m = at_ar i (ar_send_parameter_end net now) m"
| "ar_call_effect (Application_Ready net now i) m = at_ar i (ar_send_application_ready net now) m"
| "ar_call_effect (Release net now i) m = at_ar i (ar_send_release_request net now) m"
| "ar_call_effect (Identify net i) m = at_ar i (\<lambda>mo aro. ar_read_real_identification net mo aro True) m"

definition ar_calls :: "ar_call list \<Rightarrow> ar_manager \<Rightarrow> ar_manager" where
  "ar_calls cs m = fold ar_call_effect cs m"

definition running :: "string \<Rightarrow> ar_manager \<Rightarrow> bool" where
  "running s m \<longleftrightarrow> (\<exists>ar \<in> set (mg_ars m). ar_device_station_name ar = s \<and> ar_state ar = AR_STATE_RUN)"

text \<open>The message a pass of the manager finds waiting.\<close>

definition incoming :: "process_env \<Rightarrow> ar_manager \<Rightarrow> incoming_control_request option" where
  "incoming env m =
     (if \<not> mg_rpc_initialized m then None
      else (case rpc_poll_incoming (pe_poll env) (Some (mg_rpc_ctx m)) RPC_MAX_PDU_SIZE of
              (WTC_OK, Some (mem, len, ip, port)) \<Rightarrow>
                (if len > 0 then
                   (case rpc_parse_incoming_control_request (Some mem) len True of
                      (WTC_OK, Some req) \<Rightarrow> Some (req\<lparr>ic_source_ip := ip, ic_source_port := port\<rparr>) | _ \<Rightarrow> None)
                 else None)
            | _ \<Rightarrow> None))"

text \<open>The call by which a station is found to be ready: a pass that receives its ApplicationReady message, with
  the key and UUID of the connection, after the parameters were sent; or an ApplicationReady request of
  the controller that the device accepts.\<close>

definition reports_ready :: "string \<Rightarrow> ar_call \<Rightarrow> ar_manager \<Rightarrow> bool" where
  "reports_ready s c m \<longleftrightarrow>
     (case c of
        Process env \<Rightarrow>
          (\<exists>req ar. incoming env m = Some req \<and> ic_control_command req = CONTROL_CMD_APP_READY \<and> ar \<in> set (mg_ars m) \<and>
             ar_device_station_name ar = s \<and> ar_state ar = AR_STATE_READY \<and> ar_session_key ar = ic_session_key req \<and>
             ar_uuid ar = ic_ar_uuid req)
      | Application_Ready net now i \<Rightarrow>
          mg_rpc_initialized m \<and> i < length (mg_ars m) \<and> ar_device_station_name (mg_ars m ! i) = s \<and>
          fst (rpc_application_ready net (Some (mg_rpc_ctx m)) (ar_device_ip (mg_ars m ! i)) (Some (ar_uuid (mg_ars m ! i)))
                 (ar_session_key (mg_ars m ! i))) = WTC_OK
      | _ \<Rightarrow> False)"

lemma process_incoming_eq:
  "process_incoming env m =
     (case incoming env m of
        Some req \<Rightarrow> (if ic_control_command req = CONTROL_CMD_APP_READY then handle_app_ready env req m else ([], m))
      | None \<Rightarrow> ([], m))"
  by (auto simp: process_incoming_def incoming_def Let_def split: prod.splits wtc_result.splits option.splits)

section \<open>Only a station that reported ready runs\<close>

lemma runningI: "ar \<in> set (mg_ars m) \<Longrightarrow> ar_device_station_name ar = s \<Longrightarrow> ar_state ar = AR_STATE_RUN \<Longrightarrow> running s m"
  by (auto simp: running_def)

text \<open>A change of one entry that neither renames it nor makes it run starts no station.\<close>

lemma running_update:
  assumes "running s m'" "mg_ars m' = (mg_ars m)[i := ar']"
    and "i < length (mg_ars m) \<Longrightarrow> ar_state ar' = AR_STATE_RUN \<Longrightarrow> ar_device_station_name ar' = s \<Longrightarrow>
      ar_device_station_name (mg_ars m ! i) = s \<and> ar_state (mg_ars m ! i) = AR_STATE_RUN"
  shows "running s m"
proof -
  obtain k where k: "k < length (mg_ars m')" "ar_device_station_name (mg_ars m' ! k) = s" "ar_state (mg_ars m' ! k) = AR_STATE_RUN"
    using assms(1) by (auto simp: running_def in_set_conv_nth)
  then show ?thesis
    using assms(2,3) by (cases "k = i") (auto intro!: runningI [OF nth_mem, of k])
qed

text \<open>A function on the two objects that leaves the other relationships alone, keeps the name of its own and never
  makes it run.\<close>

definition starts_none ::
  "(ar_manager option \<Rightarrow> profinet_ar option \<Rightarrow> 'r \<times> ar_manager option \<times> profinet_ar option) \<Rightarrow> ar_manager \<Rightarrow> profinet_ar \<Rightarrow> bool" where
  "starts_none f m ar \<longleftrightarrow>
     (let (_, mo, aro) = f (Some m) (Some ar) in mg_ars (the mo) = mg_ars m \<and>
      (ar_state (the aro) = AR_STATE_RUN \<longrightarrow>
         ar_device_station_name (the aro) = ar_device_station_name ar \<and> ar_state ar = AR_STATE_RUN))"

lemma running_at_ar:
  assumes "running s (at_ar i f m)" and "starts_none f m (mg_ars m ! i)"
  shows "running s m"
proof (cases "i < length (mg_ars m)")
  case True
  obtain r mo aro where f: "f (Some m) (Some (mg_ars m ! i)) = (r, mo, aro)" by (metis prod.collapse)
  show ?thesis
    by (rule running_update [OF assms(1), of _ i "the aro"]) (use True f assms(2) in \<open>auto simp: at_ar_def starts_none_def\<close>)
qed (use assms(1) in \<open>simp add: at_ar_def\<close>)

lemma process_loop_entries:
  fixes env m
  defines "t \<equiv> snd (for_each (process_ar env) [0..<length (mg_ars m)] m)"
  shows "length (mg_ars t) = length (mg_ars m)"
    and "k < length (mg_ars m) \<Longrightarrow> ar_device_station_name (mg_ars t ! k) = ar_device_station_name (mg_ars m ! k)"
    and "k < length (mg_ars m) \<Longrightarrow> ar_state (mg_ars t ! k) = ar_state (mg_ars m ! k) \<or> ar_move (ar_state (mg_ars m ! k)) (ar_state (mg_ars t ! k))"
proof -
  let ?R = "\<lambda>_ ar ar'. ar_device_station_name ar' = ar_device_station_name ar \<and>
     (ar_state ar' = ar_state ar \<or> ar_move (ar_state ar) (ar_state ar'))"
  note r = for_each_related [of mg_ars "process_ar env" ?R "length (mg_ars m)" m, OF process_ar_entry]
  show "length (mg_ars t) = length (mg_ars m)"
    "k < length (mg_ars m) \<Longrightarrow> ar_device_station_name (mg_ars t ! k) = ar_device_station_name (mg_ars m ! k)"
    "k < length (mg_ars m) \<Longrightarrow> ar_state (mg_ars t ! k) = ar_state (mg_ars m ! k) \<or> ar_move (ar_state (mg_ars m ! k)) (ar_state (mg_ars t ! k))"
    unfolding t_def using r(1) r(2) [of k] by auto
qed

lemma running_process_loop:
  assumes "running s (snd (for_each (process_ar env) [0..<length (mg_ars m)] m))"
  shows "running s m"
  using assms process_loop_entries [where env = env and m = m] by (fastforce simp: running_def in_set_conv_nth ar_move_iff)

lemma running_incoming:
  assumes "running s (snd (process_incoming env m))" and "\<not> running s m"
  shows "reports_ready s (Process env) m"
proof -
  obtain req i where i: "incoming env m = Some req" "ic_control_command req = CONTROL_CMD_APP_READY"
    "find_pos (\<lambda>ar. ar_session_key ar = ic_session_key req \<and> ar_uuid ar = ic_ar_uuid req) (mg_ars m) = Some i"
    "ar_state (mg_ars m ! i) = AR_STATE_READY" "running s (snd (handle_app_ready env req m))"
    using assms
    by (auto simp: process_incoming_eq handle_app_ready_def Let_def split: option.splits if_splits)
  note pos = find_pos_SomeD [OF i(3)]
  let ?ar = "(mg_ars m ! i)\<lparr>ar_state := AR_STATE_RUN, ar_last_activity_ms := pe_now_ms env\<rparr>"
  have "mg_ars (snd (handle_app_ready env req m)) = (mg_ars m)[i := ?ar]"
    using i(3,4,5) assms(2) by (auto simp: handle_app_ready_def Let_def split_beta split: if_splits)
  then have "ar_device_station_name (mg_ars m ! i) = s"
    using running_update [OF i(5), of m i ?ar] assms(2) by auto
  then show ?thesis using i pos by (auto simp: reports_ready_def intro!: exI [of _ "mg_ars m ! i"])
qed

lemma running_health:
  assumes "running s (snd (for_each (check_ar_health now) [0..<length (mg_ars m)] m))"
  shows "running s m"
proof -
  let ?R = "\<lambda>_ ar ar'. ar_device_station_name ar' = ar_device_station_name ar \<and> (ar_state ar' = AR_STATE_RUN \<longrightarrow> ar_state ar = AR_STATE_RUN)"
  let ?t = "snd (for_each (check_ar_health now) [0..<length (mg_ars m)] m)"
  have "\<exists>e'. mg_ars (snd (check_ar_health now i t)) = (mg_ars t)[i := e'] \<and> (i < length (mg_ars t) \<longrightarrow> ?R i (mg_ars t ! i) e')" for i t
    by (auto simp: check_ar_health_def Let_def intro: exI [of _ "mg_ars t ! i"])
  then have "length (mg_ars ?t) = length (mg_ars m)" and "k < length (mg_ars m) \<Longrightarrow> ?R k (mg_ars m ! k) (mg_ars ?t ! k)" for k
    using for_each_related [of mg_ars "check_ar_health now" ?R "length (mg_ars m)" m] by auto
  with assms show ?thesis by (fastforce simp: running_def in_set_conv_nth)
qed

lemma running_create:
  assumes "running s (the (snd (ar_manager_create_ar env (Some m) cf ok)))"
  shows "running s m"
proof -
  have "ar_state (the (snd (allocate_iocr_buffers a b (Some ar) c d))) = ar_state ar" for a b ar c d
    by (simp add: allocate_iocr_buffers_def Let_def split_beta add_iocr_def)
  then show ?thesis
    using assms by (auto simp: running_def ar_manager_create_ar_def Let_def split_beta zero_ar_def split: option.splits if_splits)
qed

lemma store_rt_data_fields [simp]:
  "ar_state (snd (store_rt_data us ms fid off bs len ar)) = ar_state ar"
  "ar_device_station_name (snd (store_rt_data us ms fid off bs len ar)) = ar_device_station_name ar"
  by (simp_all add: store_rt_data_def Let_def set_iocr_def split: option.splits)

lemma send_output_starts_none:
  "starts_none (\<lambda>mo aro. let (r, aro) = ar_send_output_data now sent (the mo) aro in (r, mo, aro)) m ar"
  by (simp add: starts_none_def ar_send_output_data_def send_cyclic_frame_def Let_def set_iocr_def split_beta split: option.splits)

lemma connect_starts_none: "starts_none (ar_send_connect_request env) m ar"
  using connect_body_result [of env m ar] by (auto simp: starts_none_def connect_request_both)

lemma discovery_starts_none: "starts_none (ar_connect_with_discovery env) m ar"
  using discovery_body_result [of env m ar] by (auto simp: starts_none_def discovery_both same_station_def)

lemma dap_connect_starts_none: "starts_none (ar_send_dap_connect_request env) m ar"
  by (simp add: starts_none_def ar_send_dap_connect_request_def new_session_def Let_def split_beta split: option.splits)

lemma full_params_starts_none:
  "starts_none (\<lambda>mo aro. let (r, aro) = ar_build_full_connect_params in_ok out_ok old mo aro ds in (r, mo, aro)) m ar"
proof (cases ds)
  case None
  then show ?thesis by (simp add: starts_none_def ar_build_full_connect_params_def)
next
  case (Some l)
  obtain res ar' where "ar_build_full_connect_params in_ok out_ok old (Some m) (Some ar) ds = (res, Some ar')"
    "same_station ar ar'" "ar_state ar' = ar_state ar"
    using full_params_result Some by (metis prod.collapse)
  then show ?thesis by (simp add: starts_none_def same_station_def)
qed

lemma parameter_end_starts_none: "starts_none (ar_send_parameter_end net now) m ar"
  by (simp add: starts_none_def ar_send_parameter_end_def Let_def split_beta)

lemma release_starts_none: "starts_none (ar_send_release_request net now) m ar"
  by (simp add: starts_none_def ar_send_release_request_def Let_def split_beta)

lemma identification_starts_none: "starts_none (\<lambda>mo aro. ar_read_real_identification net mo aro True) m ar"
  by (simp add: starts_none_def ar_read_real_identification_def Let_def split_beta split: option.splits)

lemma running_at_application_ready:
  assumes "running s (at_ar i (ar_send_application_ready net now) m)" and "\<not> running s m"
  shows "reports_ready s (Application_Ready net now i) m"
proof -
  let ?ar = "mg_ars m ! i"
  let ?call = "rpc_application_ready net (Some (mg_rpc_ctx m)) (ar_device_ip ?ar) (Some (ar_uuid ?ar)) (ar_session_key ?ar)"
  have init: "mg_rpc_initialized m \<and> fst ?call = WTC_OK"
  proof (rule ccontr)
    assume "\<not> ?thesis"
    then have "starts_none (ar_send_application_ready net now) m ?ar"
      by (auto simp: starts_none_def ar_send_application_ready_def Let_def split_beta)
    then show False using running_at_ar [OF assms(1)] assms(2) by simp
  qed
  have i: "i < length (mg_ars m)" using assms by (auto simp: at_ar_def split: if_splits)
  have "ar_device_station_name ?ar = s"
    using running_update [OF assms(1), of m i "?ar\<lparr>ar_state := AR_STATE_RUN, ar_last_activity_ms := now\<rparr>"] assms(2) i init
    by (auto simp: at_ar_def ar_send_application_ready_def Let_def split_beta)
  with init i show ?thesis by (simp add: reports_ready_def)
qed

lemmas running_at_calls = running_at_ar [OF _ send_output_starts_none] running_at_ar [OF _ connect_starts_none]
  running_at_ar [OF _ discovery_starts_none] running_at_ar [OF _ dap_connect_starts_none] running_at_ar [OF _ full_params_starts_none]
  running_at_ar [OF _ parameter_end_starts_none] running_at_ar [OF _ release_starts_none] running_at_ar [OF _ identification_starts_none]

lemma running_delete:
  assumes "running s (the (snd (ar_manager_delete_ar (Some m) name)))"
  shows "running s m"
  using assms by (auto simp: ar_manager_delete_ar_def running_def dest!: remove_first_set split: option.splits)

lemma running_rt_frame:
  assumes "running s (the (snd (ar_handle_rt_frame us ms (Some m) frame len)))"
  shows "running s m"
proof -
  have *: "running s m"
    if "running s (m\<lparr>mg_ars := (mg_ars m)[i := snd (store_rt_data us ms fid off bs len (mg_ars m ! i))]\<rparr>)" for i fid off bs
    using that running_update [OF that, of m i "snd (store_rt_data us ms fid off bs len (mg_ars m ! i))"] by simp
  show ?thesis
    using assms * by (simp add: ar_handle_rt_frame_def Let_def split_beta split: option.splits if_splits)
qed

lemma running_step:
  assumes "running s (ar_call_effect c m)" and "\<not> running s m"
  shows "reports_ready s c m"
  using assms
proof (cases c)
  case (Process env)
  then have "running s (snd (for_each (process_ar env) [0..<length (mg_ars (snd (process_incoming env m)))] (snd (process_incoming env m))))"
    using assms(1) by (simp add: ar_manager_process_def Let_def split_beta)
  then show ?thesis using Process running_process_loop running_incoming assms(2) by blast
next
  case (Check_Health now)
  then have "running s (snd (for_each (check_ar_health now) [0..<length (mg_ars m)] m))"
    using assms(1) by (simp add: ar_manager_check_health_def Let_def split_beta)
  then show ?thesis using running_health assms(2) by blast
next
  case (Set_Ip ip)
  then show ?thesis using assms by (auto simp: ar_manager_set_controller_ip_def running_def Let_def split: if_splits)
next
  case (Set_Callback b)
  then show ?thesis using assms by (auto simp: ar_manager_set_state_callback_def running_def)
qed (simp_all only: ar_call_effect.simps, (blast dest: running_create running_delete running_rt_frame running_at_application_ready running_at_calls)+)

lemma ar_calls_simps [simp]:
  "ar_calls [] m = m" "ar_calls (c # cs) m = ar_calls cs (ar_call_effect c m)" "ar_calls (cs @ ds) m = ar_calls ds (ar_calls cs m)"
  by (simp_all add: ar_calls_def)

text \<open>\<^bold>\<open>C8.\<close> A relationship runs only if its device reported ready. If a station that did not run does so after a
  sequence of calls, whatever the network, the clock and the other stations do, then one of the calls is
  the one that found the station ready, and from that call on the station was running.\<close>

theorem run_needs_app_ready:
  assumes "\<not> running s m" and "running s (ar_calls cs m)"
  shows "\<exists>pre c post. cs = pre @ c # post \<and> reports_ready s c (ar_calls pre m) \<and>
     (\<forall>k. running s (ar_calls (pre @ c # take k post) m))"
  using assms(2)
proof (induction cs rule: rev_induct)
  case Nil
  then show ?case using assms(1) by simp
next
  case (snoc c cs)
  show ?case
  proof (cases "running s (ar_calls cs m)")
    case False
    then show ?thesis
      using snoc.prems running_step [of s c "ar_calls cs m"] by (intro exI [of _ cs] exI [of _ c] exI [of _ "[]"]) simp
  next
    case True
    then obtain pre d post where d: "cs = pre @ d # post" "reports_ready s d (ar_calls pre m)"
      "\<And>k. running s (ar_calls (pre @ d # take k post) m)"
      using snoc.IH by blast
    have "running s (ar_calls (pre @ d # take k (post @ [c])) m)" for k
      using d(3) [of k] snoc.prems d(1) by (cases "k \<le> length post") auto
    then show ?thesis using d(1,2) by (intro exI [of _ pre] exI [of _ d] exI [of _ "post @ [c]"]) simp
  qed
qed

section \<open>A station that reports ready runs\<close>

lemma find_pos_first:
  "i < length xs \<Longrightarrow> p (xs ! i) \<Longrightarrow> (\<And>j. j < i \<Longrightarrow> \<not> p (xs ! j)) \<Longrightarrow> find_pos p xs = Some i"
proof (induction xs arbitrary: i)
  case (Cons x xs)
  show ?case
  proof (cases i)
    case (Suc k)
    have "find_pos p xs = Some k" by (rule Cons.IH) (use Cons.prems Suc in \<open>force+\<close>)
    then show ?thesis using Cons.prems(3) [of 0] Suc by simp
  qed (use Cons.prems in simp)
qed simp

lemma incoming_datagram:
  assumes "mg_rpc_initialized m" "0 \<le> rc_socket_fd (mg_rpc_ctx m)" "0 < pi_poll (pe_poll env)"
    "pi_datagram (pe_poll env) = Some (req, ip, port)" "0 < length req" "length req \<le> RPC_MAX_PDU_SIZE"
    "rpc_parse_incoming_control_request (Some (received (pi_stack (pe_poll env)) req)) (length req) True = (WTC_OK, Some r)"
  shows "incoming env m = Some (r\<lparr>ic_source_ip := ip, ic_source_port := port\<rparr>)"
  using assms by (simp add: incoming_def rpc_poll_incoming_def)

lemma control_request_length:
  assumes "length uuid = 16" "length (rc_activity_uuid ctx) = 16"
    and "rpc_build_control_request (Some ctx) (Some uuid) key command True pdu_buffer = ((WTC_OK, Some req), ctx')"
  shows "length req = 132"
proof -
  obtain hdr where "length hdr = 80" and build: "rpc_build_control_request (Some ctx) (Some uuid) key command True pdu_buffer =
      ((WTC_OK, Some (hdr @ write_ndr_request_header 1384 32 @ pnio_block BLOCK_TYPE_IOD_CONTROL_REQ (control_block_body uuid key command))),
       Some (ctx\<lparr>rc_sequence_number := rc_sequence_number ctx + 1\<rparr>))"
    by (rule control_request_bytes [OF assms(1,2)])
  then show ?thesis using assms by simp
qed

text \<open>The pass that receives the message.\<close>

lemma app_ready_pass:
  assumes "i < length (mg_ars m)" and ar: "mg_ars m ! i = ar" "ar_state ar = AR_STATE_READY" "length (ar_uuid ar) = 16"
    and unique: "\<forall>j < i. (ar_session_key (mg_ars m ! j), ar_uuid (mg_ars m ! j)) \<noteq> (ar_session_key ar, ar_uuid ar)"
    and rpc: "mg_rpc_initialized m" "0 \<le> rc_socket_fd (mg_rpc_ctx m)"
    and dev: "length (rc_activity_uuid dev) = 16"
      "rpc_build_control_request (Some dev) (Some (ar_uuid ar)) (ar_session_key ar) CONTROL_CMD_APP_READY True pdu_buffer =
         ((WTC_OK, Some req), dev')"
    and net: "0 < pi_poll (pe_poll env)" "pi_datagram (pe_poll env) = Some (req, ip, port)" "0 \<le> pe_response_sent env"
  shows "\<exists>evs m'. ar_manager_process env (Some m) = ((WTC_OK, evs), Some m') \<and> running (ar_device_station_name ar) m' \<and>
     ar_state (mg_ars m' ! i) = AR_STATE_RUN \<and>
     (mg_state_callback m \<longrightarrow> (ar_device_station_name ar, AR_STATE_READY, AR_STATE_RUN) \<in> set evs)"
proof -
  let ?st = "pi_stack (pe_poll env)" and ?ctx = "mg_rpc_ctx m"
  obtain r resp where r: "rpc_parse_incoming_control_request (Some (received ?st req)) (length req) True = (WTC_OK, Some r)"
    "ic_ar_uuid r = ar_uuid ar" "ic_session_key r = ar_session_key ar" "ic_control_command r = CONTROL_CMD_APP_READY"
    using control_messages [OF ar(3) dev(1), of "ar_session_key ar" CONTROL_CMD_APP_READY ?st ?ctx ?st] dev(2) by auto
  let ?r = "r\<lparr>ic_source_ip := ip, ic_source_port := port\<rparr>"
  have len: "length req = 132" by (rule control_request_length [OF ar(3) dev])
  have inc: "incoming env m = Some ?r" 
    by (rule incoming_datagram [OF rpc net(1,2) _ _ r(1)]) (simp_all only: len, simp_all add: rpc_sizes)
  have pos: "find_pos (\<lambda>a. ar_session_key a = ic_session_key ?r \<and> ar_uuid a = ic_ar_uuid ?r) (mg_ars m) = Some i"
    by (rule find_pos_first) (use assms(1) ar unique r in auto)
  obtain resp where resp: "rpc_build_control_response (Some ?ctx) (Some ?r) True pdu_buffer = (WTC_OK, Some resp)" "resp \<noteq> []"
    by (auto simp: rpc_build_control_response_def Let_def rpc_header_def)
  let ?ar = "ar\<lparr>ar_state := AR_STATE_RUN, ar_last_activity_ms := pe_now_ms env\<rparr>"
  have p: "process_incoming env m = (notify_state_change m ar AR_STATE_READY AR_STATE_RUN, set_ar i ?ar m)"
    using inc pos resp r ar rpc net by (simp add: process_incoming_eq handle_app_ready_def Let_def rpc_send_response_def)
  let ?t = "snd (for_each (process_ar env) [0..<length (mg_ars (set_ar i ?ar m))] (set_ar i ?ar m))"
  have t: "i < length (mg_ars ?t)" "ar_state (mg_ars ?t ! i) = AR_STATE_RUN"
    "ar_device_station_name (mg_ars ?t ! i) = ar_device_station_name ar"
    using process_loop_entries(1) [where env = env and m = "set_ar i ?ar m"]
      process_loop_entries(2,3) [where env = env and m = "set_ar i ?ar m" and k = i] assms(1) by (auto simp: ar_move_iff)
  then have "running (ar_device_station_name ar) ?t" by (metis runningI nth_mem)
  with t show ?thesis
    using p by (simp add: ar_manager_process_def Let_def split_beta notify_state_change_def)
qed

text \<open>\<^bold>\<open>C9.\<close> A relationship whose parameters were sent runs after the pass that receives the ApplicationReady request
  of its device: the request is built for the UUID and key of the connection, read from the socket, parsed,
  matched and answered, and the state change is reported.\<close>

theorem ready_device_runs:
  assumes "i < length (mg_ars m)" and ar: "mg_ars m ! i = ar" "ar_state ar = AR_STATE_READY" "length (ar_uuid ar) = 16"
    and unique: "\<forall>j < i. (ar_session_key (mg_ars m ! j), ar_uuid (mg_ars m ! j)) \<noteq> (ar_session_key ar, ar_uuid ar)"
    and rpc: "mg_rpc_initialized m" "0 \<le> rc_socket_fd (mg_rpc_ctx m)"
    and dev: "length (rc_activity_uuid dev) = 16"
      "rpc_build_control_request (Some dev) (Some (ar_uuid ar)) (ar_session_key ar) CONTROL_CMD_APP_READY True pdu_buffer =
         ((WTC_OK, Some req), dev')"
    and net: "0 < pi_poll (pe_poll env)" "pi_datagram (pe_poll env) = Some (req, ip, port)" "0 \<le> pe_response_sent env"
  shows "\<exists>evs m'. ar_manager_process env (Some m) = ((WTC_OK, evs), Some m') \<and> running (ar_device_station_name ar) m' \<and>
     ar_state (mg_ars m' ! i) = AR_STATE_RUN \<and>
     (mg_state_callback m \<longrightarrow> (ar_device_station_name ar, AR_STATE_READY, AR_STATE_RUN) \<in> set evs)"
  by (rule app_ready_pass [OF assms])

definition sample_manager :: ar_manager where
  "sample_manager = (the (snd (ar_manager_init True None True 3 (Some [2, 0, 0, 0, 0, 1]) (Some ''plc'') 1 1 None)))
     \<lparr>mg_rpc_ctx := sample_rpc_context, mg_rpc_initialized := True, mg_state_callback := True,
       mg_ars := [zero_ar\<lparr>ar_uuid := replicate 16 9, ar_session_key := 4, ar_state := AR_STATE_READY, ar_device_station_name := ''rtu''\<rparr>]\<rparr>"

definition silent_net :: rpc_io where
  "silent_net = \<lparr>rx_connect_ok = True, rx_sent = 200, rx_poll = 0, rx_datagram = None, rx_stack = \<lambda>_. 0\<rparr>"

definition silent_ar_env :: ar_env where
  "silent_ar_env = \<lparr>ae_prm_net = silent_net, ae_prm_ms = 0, ae_release_net = silent_net,
     ae_discovery = \<lparr>de_http = None, de_cache_exists = False, de_cache = None, de_in_ok = True, de_out_ok = True,
       de_old_slots = \<lambda>_. \<lparr>si_slot = 0, si_subslot = 0, si_type = SLOT_TYPE_DAP, si_measurement_type = MEASUREMENT_PH, si_actuator_type = ACTUATOR_PUMP\<rparr>,
       de_connect = \<lparr>ce_fd = 4, ce_bind_ok = True, ce_port = Some 49152, ce_ctx_seed = \<lparr>us_now = 1, us_rand1 = 2, us_rand2 = 3\<rparr>, ce_start_ms = 0, ce_ar_seed = \<lparr>us_now = 1, us_rand1 = 2, us_rand2 = 3\<rparr>,
         ce_activity_seed = \<lparr>us_now = 1, us_rand1 = 2, us_rand2 = 3\<rparr>, ce_net = silent_net, ce_end_ms = 0\<rparr>\<rparr>\<rparr>"

definition sample_pass :: "u8 list \<Rightarrow> process_env" where
  "sample_pass req = \<lparr>pe_now_ms = 1000,
     pe_poll = \<lparr>pi_poll = 1, pi_interrupted = False, pi_datagram = Some (req, 0x0A000005, 34964), pi_again = False, pi_stack = \<lambda>_. 0\<rparr>,
     pe_response_sent = 132, pe_ar = \<lambda>_. silent_ar_env\<rparr>"

abbreviation (input) sample_request :: "(wtc_result \<times> u8 list option) \<times> rpc_context option" where
  "sample_request \<equiv> rpc_build_control_request (Some sample_rpc_context) (Some (replicate 16 9)) 4 CONTROL_CMD_APP_READY True pdu_buffer"

lemma sample_context: "length (rc_activity_uuid sample_rpc_context) = 16" "0 \<le> rc_socket_fd sample_rpc_context"
  by (simp_all add: sample_rpc_context_def zero_rpc_context_def)

lemma sample_request_built: "\<exists>req. sample_request = ((WTC_OK, Some req), Some (sample_rpc_context\<lparr>rc_sequence_number := rc_sequence_number sample_rpc_context + 1\<rparr>))"
  using control_messages [of "replicate 16 9" sample_rpc_context 4 CONTROL_CMD_APP_READY "\<lambda>_. 0" sample_rpc_context "\<lambda>_. 0"]
  by (auto simp: sample_context)

theorem ready_device_runs_witness:
  "\<exists>req evs m'. fst sample_request = (WTC_OK, Some req) \<and>
     ar_manager_process (sample_pass req) (Some sample_manager) = ((WTC_OK, evs), Some m') \<and> ar_state (mg_ars m' ! 0) = AR_STATE_RUN \<and>
     (''rtu'', AR_STATE_READY, AR_STATE_RUN) \<in> set evs"
proof -
  obtain req dev' where req: "sample_request = ((WTC_OK, Some req), dev')" using sample_request_built by blast
  have "\<exists>evs m'. ar_manager_process (sample_pass req) (Some sample_manager) = ((WTC_OK, evs), Some m') \<and>
      running (ar_device_station_name (mg_ars sample_manager ! 0)) m' \<and> ar_state (mg_ars m' ! 0) = AR_STATE_RUN \<and>
      (mg_state_callback sample_manager \<longrightarrow>
         (ar_device_station_name (mg_ars sample_manager ! 0), AR_STATE_READY, AR_STATE_RUN) \<in> set evs)"
    by (rule ready_device_runs [of 0 sample_manager "mg_ars sample_manager ! 0" sample_rpc_context req dev'])
      (use req sample_context in \<open>simp_all add: sample_manager_def sample_pass_def zero_ar_def\<close>)
  with req show ?thesis by (fastforce simp: sample_manager_def zero_ar_def)
qed

theorem run_needs_app_ready_witness:
  "\<exists>req. fst sample_request = (WTC_OK, Some req) \<and>
     (\<exists>pre c post. [Process (sample_pass req)] = pre @ c # post \<and> reports_ready ''rtu'' c (ar_calls pre sample_manager) \<and>
       (\<forall>k. running ''rtu'' (ar_calls (pre @ c # take k post) sample_manager)))"
proof -
  obtain req dev' where req: "sample_request = ((WTC_OK, Some req), dev')" using sample_request_built by blast
  have off: "\<not> running ''rtu'' sample_manager" by (simp add: running_def sample_manager_def zero_ar_def)
  have "\<exists>evs m'. ar_manager_process (sample_pass req) (Some sample_manager) = ((WTC_OK, evs), Some m') \<and>
      running (ar_device_station_name (mg_ars sample_manager ! 0)) m' \<and> ar_state (mg_ars m' ! 0) = AR_STATE_RUN \<and>
      (mg_state_callback sample_manager \<longrightarrow>
         (ar_device_station_name (mg_ars sample_manager ! 0), AR_STATE_READY, AR_STATE_RUN) \<in> set evs)"
    by (rule app_ready_pass [of 0 sample_manager "mg_ars sample_manager ! 0" sample_rpc_context req dev'])
      (use req sample_context in \<open>simp_all add: sample_manager_def sample_pass_def zero_ar_def\<close>)
  moreover have "ar_device_station_name (mg_ars sample_manager ! 0) = ''rtu''" by (simp add: sample_manager_def)
  ultimately have "running ''rtu'' (ar_calls [Process (sample_pass req)] sample_manager)" by auto
  from run_needs_app_ready [OF off this] req show ?thesis by auto
qed

section \<open>A silent device is given up\<close>

text \<open>No exchange of the pass gets an answer for relationship \<open>i\<close>.\<close>

definition no_answer :: "nat \<Rightarrow> process_env \<Rightarrow> bool" where
  "no_answer i env \<longleftrightarrow> rx_poll (ce_net (de_connect (ae_discovery (pe_ar env i)))) \<le> 0"

definition transient :: "wtc_result \<Rightarrow> bool" where
  "transient e \<longleftrightarrow> e \<noteq> WTC_ERROR_PROTOCOL \<and> e \<noteq> WTC_ERROR_PERMISSION"

lemma build_connect_error:
  "fst (fst (rpc_build_connect_request seed (Some ctx) (Some ps) True pdu_buffer)) \<in> {WTC_OK, WTC_ERROR_NO_MEMORY}"
  by (simp add: rpc_build_connect_request_def Let_def split_beta)

lemma silent_exchange:
  assumes "rx_poll net \<le> 0"
  shows "\<exists>e. fst (rpc_send_and_receive net ctxo ip req ok n) = (e, None) \<and> e \<noteq> WTC_OK \<and> transient e"
  using assms by (auto simp: rpc_send_and_receive_def transient_def on_handle_def Let_def split: option.splits)

lemma silent_connect:
  assumes "rx_poll net \<le> 0"
  shows "\<exists>e. fst (rpc_connect seed net (Some ctx) ip (Some ps) True) = (e, None) \<and> e \<noteq> WTC_OK \<and> transient e"
proof -
  obtain res pdu pos ctxo where b: "rpc_build_connect_request seed (Some ctx) (Some ps) True pdu_buffer = ((res, pdu, pos), ctxo)"
    by (metis prod.collapse)
  then have res: "res = WTC_OK \<or> res = WTC_ERROR_NO_MEMORY" using build_connect_error [of seed ctx ps] by simp
  obtain e ctx' where e: "rpc_send_and_receive net ctxo ip pdu True pdu_buffer = ((e, None), ctx')" "e \<noteq> WTC_OK" "transient e"
    using silent_exchange [OF assms, of ctxo ip pdu True pdu_buffer] by (metis prod.collapse)
  show ?thesis
  proof (cases "res = WTC_OK")
    case True
    then show ?thesis using b e by (cases e) (simp_all add: rpc_connect_def)
  next
    case False
    then show ?thesis using b res by (simp add: rpc_connect_def transient_def)
  qed
qed

text \<open>What a failed attempt leaves.\<close>

definition attempt_failed :: "profinet_ar \<Rightarrow> profinet_ar \<Rightarrow> bool" where
  "attempt_failed ar ar' \<longleftrightarrow> ar_state ar' = AR_STATE_ABORT \<and> ar_retry_count ar' = ar_retry_count ar \<and>
     ar_connecting ar' = ar_connecting ar \<and> (transient (ar_last_error ar) \<longrightarrow> transient (ar_last_error ar'))"

lemma silent_connect_body:
  assumes "rx_poll (ce_net env) \<le> 0"
  shows "attempt_failed ar (snd (snd (connect_body env m ar)))"
proof (cases "ensure_rpc_initialized env (guess_ip m ar)")
  case (Pair res m1)
  show ?thesis
  proof (cases "res = WTC_OK")
    case True
    let ?m = "m1\<lparr>mg_session_key_counter := mg_session_key_counter m1 + 1\<rparr>"
    let ?ar = "ar\<lparr>ar_state := AR_STATE_CONNECT_REQ, ar_last_activity_ms := ce_start_ms env, ar_uuid := rpc_generate_uuid (ce_ar_seed env),
      ar_session_key := mg_session_key_counter m1\<rparr>"
    obtain e ctx' where "rpc_connect (ce_activity_seed env) (ce_net env) (Some (mg_rpc_ctx m1)) (ar_device_ip ar)
        (Some (build_connect_params ?m ?ar)) True = ((e, None), ctx')" "e \<noteq> WTC_OK" "transient e"
      using silent_connect [OF assms] by (metis prod.collapse)
    then show ?thesis
      using Pair True by (simp add: connect_body_def ar_send_connect_request_def new_session_def connect_failed_def attempt_failed_def)
  qed (use Pair in \<open>simp add: connect_body_def ar_send_connect_request_def attempt_failed_def\<close>)
qed

lemma silent_retry:
  assumes silent: "rx_poll (ce_net (de_connect (ae_discovery env))) \<le> 0"
    and ar: "ar_state ar = AR_STATE_ABORT" "\<not> ar_connecting ar"
  shows "attempt_failed ar (snd (retry_connect env m ar))"
proof -
  let ?d = "ae_discovery env"
  note c = silent_connect_body [OF silent]
  show ?thesis
  proof (cases "ar_has_discovered_modules ar \<and> ar_discovered_modules ar \<noteq> []")
    case True
    obtain res ar' where b: "ar_build_full_connect_params (de_in_ok ?d) (de_out_ok ?d) (de_old_slots ?d) (Some m) (Some ar)
        (Some (ar_discovered_modules ar)) = (res, Some ar')" "same_station ar ar'" "ar_retry_count ar' = ar_retry_count ar"
        "ar_last_error ar' = ar_last_error ar"
      using full_params_result by (metis prod.collapse)
    then show ?thesis
      using True c [of ar' m] by (auto simp: retry_connect_def Let_def connect_request_both same_station_def attempt_failed_def)
  next
    case False
    let ?ar = "ar\<lparr>ar_connecting := True\<rparr>"
    obtain res ar' where b: "ar_build_full_connect_params (de_in_ok ?d) (de_out_ok ?d) (de_old_slots ?d) (Some m)
        (Some ?ar) (Some (discovered_config ?d)) = (res, Some ar')"
        "ar_retry_count ar' = ar_retry_count ?ar" "ar_last_error ar' = ar_last_error ?ar" "ar_state ar' = ar_state ?ar"
      using full_params_result by (metis prod.collapse)
    then show ?thesis
      using False ar c [of "ar'\<lparr>ar_has_discovered_modules := True, ar_state := AR_STATE_INIT\<rparr>" m]
      by (auto simp: retry_connect_def ar_connect_with_discovery_def Let_def connect_request_both attempt_failed_def)
  qed
qed

lemma jitter_bound:
  fixes w :: u64 and c :: u32
  assumes "0 < w" "unat w \<le> 15001" "unat c + unat w \<le> 37501"
  shows "c + ucast (now mod w) \<le> 37500"
proof -
  have "unat (now mod w) < unat w" using word_mod_less_divisor [OF assms(1), of now] by (simp add: word_less_nat_alt)
  moreover then have "unat (ucast (now mod w) :: u32) = unat (now mod w)"
    using assms(2) by (simp add: unsigned_ucast_eq take_bit_nat_eq_self)
  ultimately show ?thesis
    using assms(2,3) by (simp add: word_le_nat_alt unat_word_ariths)
qed

lemma backoff_bound: "backoff_ms now r \<le> 37500"
proof -
  consider "r \<le> 0" | "r = 1" | "r = 2" | "3 \<le> r" by linarith
  then show ?thesis
  proof cases
    case 1
    then show ?thesis using jitter_bound [of 2501 3750 now] by (simp add: backoff_ms_def push_bit_eq_mult)
  next
    case 2
    then show ?thesis using jitter_bound [of 5001 7500 now] by (simp add: backoff_ms_def push_bit_eq_mult)
  next
    case 3
    then show ?thesis using jitter_bound [of 10001 15000 now] by (simp add: backoff_ms_def push_bit_eq_mult)
  next
    case 4
    then have "nat (if 3 < r then 3 else r) = 3" by auto
    then show ?thesis using jitter_bound [of 15001 22500 now] by (simp add: backoff_ms_def push_bit_eq_mult)
  qed
qed

text \<open>A relationship waiting for its next attempt, and what a pass without an answer makes of it.\<close>

definition waiting :: "profinet_ar \<Rightarrow> bool" where
  "waiting ar \<longleftrightarrow> ar_state ar = AR_STATE_ABORT \<and> \<not> ar_connecting ar \<and> transient (ar_last_error ar)"

definition silent_pass :: "u64 \<Rightarrow> profinet_ar \<Rightarrow> profinet_ar \<Rightarrow> bool" where
  "silent_pass now ar ar' \<longleftrightarrow>
     (if ar_retry_count ar \<ge> AR_MAX_RETRY_ATTEMPTS then ar_state ar' = AR_STATE_CLOSE
      else 37500 \<le> (ucast (now - ar_last_activity_ms ar) :: u32) \<longrightarrow>
        waiting ar' \<and> ar_retry_count ar' = ar_retry_count ar + 1 \<and> ar_last_activity_ms ar' = now)"

lemma process_ar_silent:
  assumes "no_answer i env"
  shows "\<exists>ar'. mg_ars (snd (process_ar env i m)) = (mg_ars m)[i := ar'] \<and>
     (waiting (mg_ars m ! i) \<longrightarrow> silent_pass (pe_now_ms env) (mg_ars m ! i) ar')"
proof (cases "waiting (mg_ars m ! i)")
  case w: True
  let ?ar = "mg_ars m ! i" and ?now = "pe_now_ms env" and ?env = "pe_ar env i"
  have p: "process_ar env i m = process_abort ?now ?env i m"
    and nopermanent: "\<not> (ar_last_error ?ar = WTC_ERROR_PROTOCOL \<or> ar_last_error ?ar = WTC_ERROR_PERMISSION)"
    using w by (simp_all add: waiting_def process_ar_def Let_def transient_def)
  show ?thesis
  proof (cases "ar_retry_count ?ar \<ge> AR_MAX_RETRY_ATTEMPTS")
    case True
    then show ?thesis
      using p by (intro exI [of _ "?ar\<lparr>ar_state := AR_STATE_CLOSE\<rparr>"]) (simp add: process_abort_def Let_def silent_pass_def)
  next
    case few: False
    let ?m = "if mg_rpc_initialized m \<and> ar_device_ip ?ar \<noteq> 0
              then m\<lparr>mg_rpc_ctx := the (snd (rpc_release (ae_release_net ?env) (Some (mg_rpc_ctx m)) (ar_device_ip ?ar)
                            (Some (ar_uuid ?ar)) (ar_session_key ?ar)))\<rparr> else m"
    let ?next = "?ar\<lparr>ar_retry_count := ar_retry_count ?ar + 1\<rparr>"
    obtain m' ar' where r: "retry_connect ?env ?m ?next = (m', ar')" by fastforce
    have ars: "mg_ars m' = mg_ars m"
      using retry_connect_result [of ?next ?env ?m] w r by (simp add: waiting_def)
    have "attempt_failed ?next ar'"
      using silent_retry [of ?env ?next ?m] assms w r by (simp add: waiting_def no_answer_def)
    then have f: "ar_state ar' = AR_STATE_ABORT" "ar_retry_count ar' = ar_retry_count ?ar + 1" "\<not> ar_connecting ar'"
      "transient (ar_last_error ar')"
      using w by (simp_all add: attempt_failed_def waiting_def)
    show ?thesis
    proof (cases "ucast (?now - ar_last_activity_ms ?ar) < backoff_ms ?now (ar_retry_count ?ar)")
      case True
      then have "(ucast (?now - ar_last_activity_ms ?ar) :: u32) < 37500" using backoff_bound by (rule less_le_trans)
      with True show ?thesis
        using p few nopermanent by (intro exI [of _ ?ar]) (simp add: process_abort_def Let_def silent_pass_def not_le)
    next
      case False
      have "process_abort ?now ?env i m = ([], set_ar i (ar'\<lparr>ar_last_activity_ms := ?now\<rparr>) m')"
        using False few nopermanent f w by (simp add: process_abort_def Let_def r waiting_def)
      then show ?thesis
        using p few f ars
        by (intro exI [of _ "ar'\<lparr>ar_last_activity_ms := ?now\<rparr>"]) (simp add: silent_pass_def waiting_def)
    qed
  qed
next
  case False
  then show ?thesis using process_ar_entry [of env i m] by blast
qed

lemma process_incoming_other:
  assumes "ar_state (mg_ars m ! i) \<noteq> AR_STATE_READY"
  shows "mg_ars (snd (process_incoming env m)) ! i = mg_ars m ! i"
    and "length (mg_ars (snd (process_incoming env m))) = length (mg_ars m)"
  using assms
  by (auto simp: process_incoming_eq handle_app_ready_def Let_def split_beta intro!: nth_list_update_neq split: option.splits)

lemma process_silent:
  assumes "no_answer i env" "i < length (mg_ars m)" "waiting (mg_ars m ! i)"
  shows "silent_pass (pe_now_ms env) (mg_ars m ! i) (mg_ars (ar_call_effect (Process env) m) ! i)"
    and "length (mg_ars (ar_call_effect (Process env) m)) = length (mg_ars m)"
proof -
  let ?m = "snd (process_incoming env m)"
  let ?R = "\<lambda>k ar ar'. k = i \<longrightarrow> waiting ar \<longrightarrow> silent_pass (pe_now_ms env) ar ar'"
  have "ar_state (mg_ars m ! i) \<noteq> AR_STATE_READY" using assms(3) by (simp add: waiting_def)
  note inc = process_incoming_other [OF this, of env]
  have "\<exists>ar'. mg_ars (snd (process_ar env k t)) = (mg_ars t)[k := ar'] \<and> (k < length (mg_ars t) \<longrightarrow> ?R k (mg_ars t ! k) ar')" for k t
    using process_ar_silent [OF assms(1), of t] process_ar_entry [of env k t] by (cases "k = i") blast+
  note r = for_each_related [of mg_ars "process_ar env" ?R "length (mg_ars ?m)" ?m, OF this order_refl]
  have e: "ar_call_effect (Process env) m = snd (for_each (process_ar env) [0..<length (mg_ars ?m)] ?m)"
    by (simp add: ar_manager_process_def Let_def split_beta)
  show "silent_pass (pe_now_ms env) (mg_ars m ! i) (mg_ars (ar_call_effect (Process env) m) ! i)"
    "length (mg_ars (ar_call_effect (Process env) m)) = length (mg_ars m)"
    unfolding e using r(1) r(2) [of i] inc assms(2,3) by simp_all
qed

lemma process_closed:
  assumes "i < length (mg_ars m)" "ar_state (mg_ars m ! i) = AR_STATE_CLOSE"
  shows "ar_state (mg_ars (ar_call_effect (Process env) m) ! i) = AR_STATE_CLOSE"
    and "length (mg_ars (ar_call_effect (Process env) m)) = length (mg_ars m)"
proof -
  let ?m = "snd (process_incoming env m)"
  have "ar_state (mg_ars m ! i) \<noteq> AR_STATE_READY" using assms(2) by simp
  note inc = process_incoming_other [OF this, of env]
  have e: "ar_call_effect (Process env) m = snd (for_each (process_ar env) [0..<length (mg_ars ?m)] ?m)"
    by (simp add: ar_manager_process_def Let_def split_beta)
  show "ar_state (mg_ars (ar_call_effect (Process env) m) ! i) = AR_STATE_CLOSE"
    "length (mg_ars (ar_call_effect (Process env) m)) = length (mg_ars m)"
    unfolding e using process_loop_entries(1) [where env = env and m = ?m] process_loop_entries(3) [where env = env and m = ?m and k = i]
      inc assms by (auto simp: ar_move_iff)
qed

text \<open>Passes that are at least the longest waiting time apart, after a time \<open>t\<close>.\<close>

primrec spaced :: "u64 \<Rightarrow> process_env list \<Rightarrow> bool" where
  "spaced t [] \<longleftrightarrow> True"
| "spaced t (e # es) \<longleftrightarrow> 37500 \<le> (ucast (pe_now_ms e - t) :: u32) \<and> spaced (pe_now_ms e) es"

lemma closed_stays:
  "i < length (mg_ars m) \<Longrightarrow> ar_state (mg_ars m ! i) = AR_STATE_CLOSE \<Longrightarrow>
   ar_state (mg_ars (ar_calls (map Process es) m) ! i) = AR_STATE_CLOSE"
proof (induction es arbitrary: m)
  case (Cons e es)
  then show ?case using process_closed [of i m e] by (simp del: ar_call_effect.simps)
qed simp

text \<open>\<^bold>\<open>C17.\<close> A device that does not answer is given up: a failed relationship is closed after at most one pass more
  than it has attempts left, when the passes are at least 37.5 seconds apart, whatever the other
  stations do. No pass opens it again.\<close>

theorem silent_device_closed:
  assumes "i < length (mg_ars m)" and "waiting (mg_ars m ! i)" and "\<forall>e \<in> set es. no_answer i e"
    and "spaced (ar_last_activity_ms (mg_ars m ! i)) es" and "AR_MAX_RETRY_ATTEMPTS - ar_retry_count (mg_ars m ! i) < int (length es)"
    and "es \<noteq> []"
  shows "ar_state (mg_ars (ar_calls (map Process es) m) ! i) = AR_STATE_CLOSE"
  using assms
proof (induction es arbitrary: m)
  case (Cons e es)
  let ?m = "ar_call_effect (Process e) m"
  have p: "silent_pass (pe_now_ms e) (mg_ars m ! i) (mg_ars ?m ! i)" "length (mg_ars ?m) = length (mg_ars m)"
    using process_silent [of i e m] Cons.prems by simp_all
  show ?case
  proof (cases "ar_retry_count (mg_ars m ! i) \<ge> AR_MAX_RETRY_ATTEMPTS")
    case True
    then show ?thesis using p closed_stays [of i ?m es] Cons.prems(1) by (simp add: silent_pass_def del: ar_call_effect.simps)
  next
    case False
    then have "waiting (mg_ars ?m ! i)" "ar_retry_count (mg_ars ?m ! i) = ar_retry_count (mg_ars m ! i) + 1"
      "ar_last_activity_ms (mg_ars ?m ! i) = pe_now_ms e"
      using p(1) Cons.prems(4) by (simp_all add: silent_pass_def del: ar_call_effect.simps)
    moreover have "es \<noteq> []" using False Cons.prems(5) by auto
    ultimately show ?thesis using Cons.IH [of ?m] Cons.prems p(2) by (simp del: ar_call_effect.simps)
  qed
qed simp

definition quiet_pass :: "u64 \<Rightarrow> process_env" where
  "quiet_pass now = \<lparr>pe_now_ms = now,
     pe_poll = \<lparr>pi_poll = 0, pi_interrupted = False, pi_datagram = None, pi_again = False, pi_stack = \<lambda>_. 0\<rparr>,
     pe_response_sent = 0, pe_ar = \<lambda>_. silent_ar_env\<rparr>"

definition failed_manager :: ar_manager where
  "failed_manager = sample_manager\<lparr>mg_ars := [zero_ar\<lparr>ar_state := AR_STATE_ABORT, ar_device_station_name := ''rtu'', ar_device_ip := 0x0A000005\<rparr>]\<rparr>"

theorem silent_device_closed_witness:
  "ar_state (mg_ars (ar_calls (map Process [quiet_pass 40000, quiet_pass 80000, quiet_pass 120000, quiet_pass 160000]) failed_manager) ! 0) =
     AR_STATE_CLOSE"
  by (rule silent_device_closed)
    (simp_all add: failed_manager_def waiting_def transient_def zero_ar_def no_answer_def quiet_pass_def silent_ar_env_def silent_net_def
      AR_MAX_RETRY_ATTEMPTS_def)

section \<open>The watchdog\<close>

text \<open>A relationship from which nothing was heard for longer than its watchdog time.\<close>

definition overdue :: "u64 \<Rightarrow> profinet_ar \<Rightarrow> bool" where
  "overdue now ar \<longleftrightarrow> ar_state ar = AR_STATE_RUN \<and> \<not> ar_connecting ar \<and> now - ar_last_activity_ms ar > ucast (ar_watchdog_ms ar)"

definition health_checked :: "u64 \<Rightarrow> profinet_ar \<Rightarrow> profinet_ar" where
  "health_checked now ar =
     (if ar_state ar \<noteq> AR_STATE_RUN \<or> ar_connecting ar then ar
      else if \<not> overdue now ar then (if ar_missed_cycles ar > 0 then ar\<lparr>ar_missed_cycles := 0\<rparr> else ar)
      else if ar_missed_cycles ar \<noteq> 0 \<and> ar_missed_cycles ar \<ge> 2
      then ar\<lparr>ar_missed_cycles := 0, ar_last_error := WTC_ERROR_TIMEOUT, ar_state := AR_STATE_ABORT,
             ar_has_discovered_modules := False, ar_discovered_modules := [], ar_slot_info := []\<rparr>
      else ar\<lparr>ar_missed_cycles := ar_missed_cycles ar + 1\<rparr>)"

lemma check_health_entry:
  assumes "i < length (mg_ars m)"
  shows "length (mg_ars (ar_call_effect (Check_Health now) m)) = length (mg_ars m)"
    and "mg_ars (ar_call_effect (Check_Health now) m) ! i = health_checked now (mg_ars m ! i)"
proof -
  have h: "mg_ars (snd (check_ar_health now i t)) = (mg_ars t)[i := (\<lambda>_ ar (_ :: ar_manager). health_checked now ar) i (mg_ars t ! i) t]" for i t
    by (simp add: health_checked_def check_ar_health_def Let_def overdue_def WATCHDOG_MISS_THRESHOLD_def)
  note e = for_each_entry [of mg_ars "check_ar_health now" "\<lambda>_ ar _. health_checked now ar" "length (mg_ars m)" m, OF h order_refl]
  show "length (mg_ars (ar_call_effect (Check_Health now) m)) = length (mg_ars m)"
    "mg_ars (ar_call_effect (Check_Health now) m) ! i = health_checked now (mg_ars m ! i)"
    using e(1) e(2) [of i] assms by (auto simp: ar_manager_check_health_def Let_def split_beta)
qed

lemma checks_entry:
  assumes "i < length (mg_ars m)"
  shows "mg_ars (ar_calls (map Check_Health ts) m) ! i = fold health_checked ts (mg_ars m ! i)"
  using assms by (induction ts arbitrary: m) (simp_all add: check_health_entry del: ar_call_effect.simps)

definition triple :: "bool list \<Rightarrow> bool" where
  "triple bs \<longleftrightarrow> (\<exists>pre post. bs = pre @ [True, True, True] @ post)"

lemma triple_skip:
  assumes "k \<le> 2"
  shows "triple (replicate k True @ False # bs) = triple bs"
proof
  assume "triple (replicate k True @ False # bs)"
  moreover have "k = 0 \<or> k = 1 \<or> k = 2" using assms by auto
  ultimately show "triple bs"
    unfolding triple_def by (auto simp: Cons_eq_append_conv numeral_2_eq_2) blast+
next
  assume "triple bs"
  then obtain pre post where "bs = pre @ [True, True, True] @ post" unfolding triple_def by blast
  then have "replicate k True @ False # bs = (replicate k True @ False # pre) @ [True, True, True] @ post" by simp
  then show "triple (replicate k True @ False # bs)" unfolding triple_def by blast
qed

lemma triple_short: "length bs < 3 \<Longrightarrow> \<not> triple bs"
  by (auto simp: triple_def)

lemma triple_start: "triple (replicate 2 True @ True # bs)"
  unfolding triple_def by (rule exI [of _ "[]"]) (simp add: numeral_2_eq_2)

lemma triple_map: "triple (map p ts) \<longleftrightarrow> (\<exists>pre a b c post. ts = pre @ [a, b, c] @ post \<and> p a \<and> p b \<and> p c)"
proof
  assume "triple (map p ts)"
  then obtain pre post where "map p ts = pre @ True # True # True # post" by (auto simp: triple_def)
  then obtain us vs where ts: "ts = us @ vs" "map p vs = True # True # True # post" by (auto simp: map_eq_append_conv)
  then obtain a b c ws where "vs = a # b # c # ws" "p a" "p b" "p c" by (auto simp: map_eq_Cons_conv)
  with ts show "\<exists>pre a b c post. ts = pre @ [a, b, c] @ post \<and> p a \<and> p b \<and> p c"
    by (intro exI [of _ us] exI [of _ a] exI [of _ b] exI [of _ c] exI [of _ ws]) simp
next
  assume "\<exists>pre a b c post. ts = pre @ [a, b, c] @ post \<and> p a \<and> p b \<and> p c"
  then obtain pre a b c post where ts: "ts = pre @ [a, b, c] @ post" "p a" "p b" "p c" by blast
  then have "map p ts = map p pre @ [True, True, True] @ map p post" by simp
  then show "triple (map p ts)" unfolding triple_def by blast
qed

lemma checks_abort:
  assumes "ar_state ar = AR_STATE_RUN" "\<not> ar_connecting ar" "ar_missed_cycles ar = int k" "k \<le> 2"
  shows "ar_state (fold health_checked ts ar) =
     (if triple (replicate k True @ map (\<lambda>t. overdue t ar) ts) then AR_STATE_ABORT else AR_STATE_RUN)"
  using assms
proof (induction ts arbitrary: ar k)
  case Nil
  then show ?case by (simp add: triple_short)
next
  case (Cons t ts)
  let ?ar = "health_checked t ar"
  have stay: "ar_state (fold health_checked us ar') = AR_STATE_ABORT" if "ar_state ar' = AR_STATE_ABORT" for us ar'
    using that by (induction us) (simp_all add: health_checked_def)
  show ?case
  proof (cases "overdue t ar")
    case False
    then have ar: "ar_state ?ar = AR_STATE_RUN" "\<not> ar_connecting ?ar" "ar_missed_cycles ?ar = int 0"
      "(\<lambda>u. overdue u ?ar) = (\<lambda>u. overdue u ar)"
      using Cons.prems by (simp_all add: health_checked_def overdue_def)
    show ?thesis using Cons.IH [OF ar(1,2,3)] triple_skip [OF Cons.prems(4)] False ar(4) by simp
  next
    case late: True
    show ?thesis
    proof (cases "k = 2")
      case True
      then have "ar_state ?ar = AR_STATE_ABORT" using late Cons.prems by (simp add: health_checked_def)
      then have "ar_state (fold health_checked (t # ts) ar) = AR_STATE_ABORT" using stay [of ?ar ts] by simp
      moreover have "triple (replicate k True @ map (\<lambda>u. overdue u ar) (t # ts))" using True late triple_start by simp
      ultimately show ?thesis by presburger
    next
      case False
      then have ar: "ar_state ?ar = AR_STATE_RUN" "\<not> ar_connecting ?ar" "ar_missed_cycles ?ar = int (Suc k)"
        "(\<lambda>u. overdue u ?ar) = (\<lambda>u. overdue u ar)"
        using late Cons.prems by (simp_all add: health_checked_def overdue_def)
      have eq: "replicate k True @ map (\<lambda>u. overdue u ar) (t # ts) = replicate (Suc k) True @ map (\<lambda>u. overdue u ar) ts"
        using late by (simp add: replicate_app_Cons_same)
      have "Suc k \<le> 2" using False Cons.prems(4) by simp
      from Cons.IH [OF ar(1,2,3) this] show ?thesis unfolding fold_simps eq ar(4) .
    qed
  qed
qed

text \<open>\<^bold>\<open>C22.\<close> Between two frames of the device, health checks abort a running relationship exactly at the third of
  three consecutive checks that find it overdue. Only the number of checks counts: three checks within
  a millisecond abort it as well, where the comment promises nine seconds.\<close>

theorem watchdog_counts_checks:
  assumes "i < length (mg_ars m)" and "mg_ars m ! i = ar" and "ar_state ar = AR_STATE_RUN" and "\<not> ar_connecting ar"
    and "ar_missed_cycles ar = 0"
  shows "ar_state (mg_ars (ar_calls (map Check_Health ts) m) ! i) =
     (if \<exists>pre a b c post. ts = pre @ [a, b, c] @ post \<and> overdue a ar \<and> overdue b ar \<and> overdue c ar
      then AR_STATE_ABORT else AR_STATE_RUN)"
  using checks_entry [OF assms(1), of ts] checks_abort [of ar 0 ts] assms(2-) by (simp only: triple_map [symmetric]) simp

definition running_manager :: ar_manager where
  "running_manager = sample_manager\<lparr>mg_ars := [zero_ar\<lparr>ar_state := AR_STATE_RUN, ar_watchdog_ms := 3000, ar_last_activity_ms := 1000\<rparr>]\<rparr>"

theorem watchdog_counts_checks_witness:
  "ar_state (mg_ars (ar_calls (map Check_Health [4001, 4001, 4001]) running_manager) ! 0) = AR_STATE_ABORT"
proof -
  let ?ar = "mg_ars running_manager ! 0"
  have ar: "0 < length (mg_ars running_manager)" "ar_state ?ar = AR_STATE_RUN" "\<not> ar_connecting ?ar" "ar_missed_cycles ?ar = 0"
    and late: "overdue 4001 ?ar"
    by (simp_all add: running_manager_def zero_ar_def overdue_def)
  have "[4001, 4001, 4001] = [] @ [4001, 4001, 4001 :: u64] @ []" by simp
  then show ?thesis using watchdog_counts_checks [OF ar(1) refl ar(2,3,4), of "[4001, 4001, 4001]"] late by (simp only: if_P) metis
qed

section \<open>Who gets a cyclic frame\<close>

lemma find_pos_before:
  "find_pos p xs = Some k \<Longrightarrow> j < length xs \<Longrightarrow> p (xs ! j) \<Longrightarrow> k \<le> j"
proof (induction xs arbitrary: j k)
  case (Cons x xs)
  then show ?case by (cases j) (auto split: if_splits)
qed simp

text \<open>A created relationship has one connection per direction, with the same identifiers for every station.\<close>

lemma created_iocrs:
  assumes "ar_manager_create_ar env (Some m) (Some cf) True = ((WTC_OK, r), Some m')"
  shows "\<exists>ar c d. mg_ars m' = mg_ars m @ [ar] \<and> ar_iocr ar = [c, d] \<and> io_frame_id c = 0xC001 \<and> io_frame_id d = 0xFFFF \<and>
     io_type c = IOCR_TYPE_INPUT \<and> io_data_buffer c = Some (replicate (unat (io_data_length c)) 0)"
  using assms
  by (auto simp: ar_manager_create_ar_def Let_def split_beta allocate_iocr_buffers_def add_iocr_def with_buffer_def new_iocr_def zero_ar_def
      PROFINET_MAX_IOCR_def split: if_splits)

lemma rt_frame_other:
  assumes "i < j" "j < length (mg_ars m)" "\<And>c. c \<in> set (ar_iocr (mg_ars m ! j)) \<Longrightarrow> \<exists>d \<in> set (ar_iocr (mg_ars m ! i)). io_frame_id d = io_frame_id c"
  shows "mg_ars (the (snd (ar_handle_rt_frame us ms (Some m) frame len))) ! j = mg_ars m ! j"
proof -
  have "k \<noteq> j" if f: "find_pos (\<lambda>ar. \<exists>c \<in> set (ar_iocr ar). io_frame_id c = fid) (mg_ars m) = Some k" for k fid
  proof
    assume "k = j"
    then obtain c where "c \<in> set (ar_iocr (mg_ars m ! j))" "io_frame_id c = fid" using find_pos_SomeD [OF f] by auto
    then have "k \<le> i" using assms find_pos_before [OF f, of i] by (metis less_trans)
    with \<open>k = j\<close> assms(1) show False by simp
  qed
  then show ?thesis
    by (auto simp: ar_handle_rt_frame_def ar_manager_get_ar_by_frame_id_def Let_def split_beta split: option.splits)
qed

lemma rt_frame_first:
  assumes ars: "mg_ars m = ar # ars" and io: "ar_iocr ar = c # cs" "io_frame_id c = fid" "io_type c = IOCR_TYPE_INPUT" "io_data_buffer c = Some b"
    and b: "length b = unat (io_data_length c)" and mac: "length dst = 6" "length src = 6" and data: "unat (io_data_length c) \<le> length data" "2 \<le> length data"
    and bs: "bs = dst @ src @ be16 PROFINET_ETHERTYPE @ be16 fid @ data"
  shows "\<exists>m' ar'. ar_handle_rt_frame us ms (Some m) (Some bs) (length bs) = (WTC_OK, Some m') \<and> mg_ars m' ! 0 = ar' \<and>
     io_data_buffer (ar_iocr ar' ! 0) = Some (take (unat (io_data_length c)) data) \<and> ar_last_activity_ms ar' = ms"
proof -
  have len: "length bs = 16 + length data" using mac by (simp add: bs)
  have nth: "bs ! 12 = be16 PROFINET_ETHERTYPE ! 0" "bs ! 13 = be16 PROFINET_ETHERTYPE ! 1" "bs ! 14 = be16 fid ! 0" "bs ! 15 = be16 fid ! 1"
    using mac by (simp_all add: bs nth_append be16_def)
  have id: "of_be16 (be16 x ! 0) (be16 x ! 1) = x" for x by (simp add: be16_def of_be16_be16)
  have rd: "mem_read bs 16 (unat (io_data_length c)) = take (unat (io_data_length c)) data"
    using mac data by (simp add: bs mem_read_def)
  have pos: "ar_manager_get_ar_by_frame_id (Some m) fid = Some 0" using ars io by (simp add: ar_manager_get_ar_by_frame_id_def)
  have st: "store_rt_data us ms fid 16 bs (length bs) ar = (WTC_OK, (set_iocr 0 (\<lambda>c. c\<lparr>io_data_buffer := Some (memcpy_at b 0 (take (unat (io_data_length c)) data)),
      io_last_frame_time_us := us\<rparr>) ar)\<lparr>ar_last_activity_ms := ms\<rparr>)"
    using io data len rd by (simp add: store_rt_data_def set_iocr_def)
  show ?thesis
    using len nth id pos st ars io data b by (simp add: ar_handle_rt_frame_def Let_def ETH_HEADER_LEN_def PROFINET_ETHERTYPE_def PROFINET_ETHERTYPE_VLAN_def set_iocr_def memcpy_at_def)
qed

text \<open>\<^bold>\<open>C18.\<close> After two stations are created, every cyclic frame for their common identifier is given to the first,
  whichever device sent it: the second is never changed by a frame, and the data of a frame from any
  sender become the input data of the first and keep its watchdog quiet.\<close>

theorem frames_go_to_first_station:
  assumes "mg_ars m = []"
    and "ar_manager_create_ar env1 (Some m) (Some cf1) True = ((WTC_OK, r1), Some m1)"
    and "ar_manager_create_ar env2 (Some m1) (Some cf2) True = ((WTC_OK, r2), Some m2)"
    and mac: "length dst = 6" "length src = 6"
    and data: "n = unat (io_data_length (ar_iocr (mg_ars m2 ! 0) ! 0))" "n \<le> length data" "2 \<le> length data"
    and bs: "bs = dst @ src @ be16 PROFINET_ETHERTYPE @ be16 0xC001 @ data"
  shows "mg_ars (ar_call_effect (Rt_Frame us ms frame len) m2) ! 1 = mg_ars m2 ! 1 \<and>
     io_data_buffer (ar_iocr (mg_ars (ar_call_effect (Rt_Frame us ms (Some bs) (length bs)) m2) ! 0) ! 0) = Some (take n data) \<and>
     ar_last_activity_ms (mg_ars (ar_call_effect (Rt_Frame us ms (Some bs) (length bs)) m2) ! 0) = ms"
proof -
  obtain a c d where a: "mg_ars m1 = [a]" "ar_iocr a = [c, d]" "io_frame_id c = 0xC001" "io_frame_id d = 0xFFFF"
    "io_type c = IOCR_TYPE_INPUT" "io_data_buffer c = Some (replicate (unat (io_data_length c)) 0)"
    using created_iocrs [OF assms(2)] assms(1) by auto
  obtain a' c' d' where a': "mg_ars m2 = [a, a']" "ar_iocr a' = [c', d']" "io_frame_id c' = 0xC001" "io_frame_id d' = 0xFFFF"
    using created_iocrs [OF assms(3)] a(1) by auto
  have n: "n = unat (io_data_length c)" using data(1) a a' by simp
  have "mg_ars (ar_call_effect (Rt_Frame us ms frame len) m2) ! 1 = mg_ars m2 ! 1"
    using rt_frame_other [of 0 1 m2 us ms frame len] a a' by auto
  moreover obtain m' ar' where "ar_handle_rt_frame us ms (Some m2) (Some bs) (length bs) = (WTC_OK, Some m')" "mg_ars m' ! 0 = ar'"
    "io_data_buffer (ar_iocr ar' ! 0) = Some (take (unat (io_data_length c)) data)" "ar_last_activity_ms ar' = ms"
    using rt_frame_first [OF a'(1) a(2,3,5,6) _ mac data(2) [unfolded n] data(3) bs, of us ms] by auto
  ultimately show ?thesis by (simp add: n)
qed

definition sample_config :: "string \<Rightarrow> ar_config" where
  "sample_config s = \<lparr>cf_station_name = s, cf_device_mac = replicate 6 7, cf_device_ip = 0x0A000005, cf_vendor_id = 1, cf_device_id = 2,
     cf_slots = [], cf_cycle_time_us = 1000, cf_reduction_ratio = 1, cf_watchdog_ms = 0\<rparr>"

definition sample_create :: create_env where
  "sample_create = \<lparr>ca_alloc_ok = True, ca_in_ok = True, ca_out_ok = True, ca_rand = replicate 4 (5, 6)\<rparr>"

definition created_station :: ar_manager where
  "created_station = the (snd (ar_manager_create_ar sample_create (Some (sample_manager\<lparr>mg_ars := []\<rparr>)) (Some (sample_config ''a'')) True))"

definition created_stations :: ar_manager where
  "created_stations = the (snd (ar_manager_create_ar sample_create (Some created_station) (Some (sample_config ''b'')) True))"

lemma create_sample:
  assumes "length (mg_ars m) < 64" "\<forall>ar \<in> set (mg_ars m). ar_device_station_name ar \<noteq> s"
  shows "\<exists>r m' ar. ar_manager_create_ar sample_create (Some m) (Some (sample_config s)) True = ((WTC_OK, r), Some m') \<and>
     mg_ars m' = mg_ars m @ [ar] \<and> ar_device_station_name ar = cstr_copy 63 s \<and> io_data_length (ar_iocr ar ! 0) = IOCR_MIN_DATA_LENGTH"
  using assms
  by (simp add: ar_manager_create_ar_def sample_create_def sample_config_def MAX_ARS_def Let_def split_beta allocate_iocr_buffers_def
      add_iocr_def with_buffer_def new_iocr_def zero_ar_def PROFINET_MAX_IOCR_def count_slots_def DAP_SUBMODULE_COUNT_def IOCR_MIN_DATA_LENGTH_def)

theorem frames_go_to_first_station_witness:
  "mg_ars (ar_call_effect (Rt_Frame 9 5000 (Some (replicate 6 1 @ replicate 6 8 @ be16 PROFINET_ETHERTYPE @ be16 0xC001 @ replicate 60 3)) 76) created_stations) ! 1 =
     mg_ars created_stations ! 1 \<and>
   io_data_buffer (ar_iocr (mg_ars (ar_call_effect (Rt_Frame 9 5000
     (Some (replicate 6 1 @ replicate 6 8 @ be16 PROFINET_ETHERTYPE @ be16 0xC001 @ replicate 60 3)) 76) created_stations) ! 0) ! 0) = Some (replicate 40 3)"
proof -
  let ?m = "sample_manager\<lparr>mg_ars := []\<rparr>" and ?data = "replicate 60 3 :: u8 list"
  let ?bs = "replicate 6 1 @ replicate 6 8 @ be16 PROFINET_ETHERTYPE @ be16 0xC001 @ ?data"
  obtain r1 a where c1: "ar_manager_create_ar sample_create (Some ?m) (Some (sample_config ''a'')) True = ((WTC_OK, r1), Some created_station)"
    "mg_ars created_station = [a]" "ar_device_station_name a = cstr_copy 63 ''a''" "io_data_length (ar_iocr a ! 0) = IOCR_MIN_DATA_LENGTH"
    using create_sample [of ?m "''a''"] by (auto simp: created_station_def)
  then have "ar_device_station_name a \<noteq> ''b''" by (simp add: cstr_copy_def)
  then obtain r2 b where c2: "ar_manager_create_ar sample_create (Some created_station) (Some (sample_config ''b'')) True = ((WTC_OK, r2), Some created_stations)"
    "mg_ars created_stations = [a, b]"
    using create_sample [of created_station "''b''"] c1(2) by (auto simp: created_stations_def)
  have n: "unat (io_data_length (ar_iocr (mg_ars created_stations ! 0) ! 0)) = 40" using c1(4) c2(2) by (simp add: IOCR_MIN_DATA_LENGTH_def)
  have "length ?bs = 76" by simp
  then show ?thesis
    using frames_go_to_first_station [OF _ c1(1) c2(1) _ _ n [symmetric], of "replicate 6 1" "replicate 6 8" ?data ?bs 9 5000 "Some ?bs" 76]
    by (simp del: ar_call_effect.simps)
qed

end
