(* ===== verification/Dcp.thy ===== *)
theory Dcp
  imports Frame Types
begin

text \<open>
  Discovery of the devices on the network (\<^verbatim>\<open>src/src/profinet/dcp_discovery.c\<close>): the requests that are
  sent, the decoding of the identify responses, and the cache of the devices that answered.

  The cache is the list of its used entries. A received frame is the memory from its first byte on,
  which may go on behind the \<open>len\<close> bytes received. A function that sends returns the frame handed to
  \<open>sendto\<close>; the outcomes of the socket calls are arguments, and so is what a frame array on the stack
  holds before it is filled. The registered callback is a truth value and a call of it is returned as
  the device it gets. The addresses of a device are numbers in host order.
\<close>

section \<open>The discovery context\<close>

definition PROFINET_FRAME_ID_DCP :: u16 where "PROFINET_FRAME_ID_DCP = 0xFEFC"
definition PROFINET_FRAME_ID_DCP_IDENT_RESP :: u16 where "PROFINET_FRAME_ID_DCP_IDENT_RESP = 0xFEFF"
definition DCP_SERVICE_TYPE_RESPONSE_OK :: u8 where "DCP_SERVICE_TYPE_RESPONSE_OK = 1"
definition DCP_OPTION_IP :: u8 where "DCP_OPTION_IP = 1"
definition DCP_OPTION_CONTROL :: u8 where "DCP_OPTION_CONTROL = 5"
definition DCP_SUBOPTION_IP_MAC :: u8 where "DCP_SUBOPTION_IP_MAC = 1"
definition DCP_SUBOPTION_IP_PARAMETER :: u8 where "DCP_SUBOPTION_IP_PARAMETER = 2"
definition DCP_SUBOPTION_DEVICE_VENDOR :: u8 where "DCP_SUBOPTION_DEVICE_VENDOR = 1"
definition DCP_SUBOPTION_DEVICE_ID :: u8 where "DCP_SUBOPTION_DEVICE_ID = 3"
definition DCP_SUBOPTION_DEVICE_ROLE :: u8 where "DCP_SUBOPTION_DEVICE_ROLE = 4"
definition DCP_SUBOPTION_CONTROL_SIGNAL :: u8 where "DCP_SUBOPTION_CONTROL_SIGNAL = 3"
definition DCP_SUBOPTION_CONTROL_RESET_TO_FACTORY :: u8 where "DCP_SUBOPTION_CONTROL_RESET_TO_FACTORY = 5"
definition DCP_MULTICAST_ADDR :: "u8 list" where "DCP_MULTICAST_ADDR = [0x01, 0x0E, 0xCF, 0x00, 0x00, 0x00]"
definition MAX_DISCOVERED_DEVICES :: nat where "MAX_DISCOVERED_DEVICES = 256"
definition DCP_DEFAULT_TIMEOUT_MS :: u32 where "DCP_DEFAULT_TIMEOUT_MS = 1280"

lemmas dcp_consts = PROFINET_FRAME_ID_DCP_def PROFINET_FRAME_ID_DCP_IDENT_RESP_def DCP_SERVICE_TYPE_RESPONSE_OK_def
  DCP_OPTION_IP_def DCP_OPTION_DEVICE_def DCP_SUBOPTION_IP_MAC_def DCP_SUBOPTION_IP_PARAMETER_def
  DCP_SUBOPTION_DEVICE_VENDOR_def DCP_SUBOPTION_DEVICE_NAME_def DCP_SUBOPTION_DEVICE_ID_def
  DCP_SUBOPTION_DEVICE_ROLE_def DCP_SERVICE_IDENTIFY_def MAX_DISCOVERED_DEVICES_def

record dcp_device_info =
  dv_mac_address :: "u8 list"
  dv_ip_address :: u32
  dv_subnet_mask :: u32
  dv_gateway :: u32
  dv_station_name :: string
  dv_vendor_name :: string
  dv_vendor_id :: u16
  dv_device_id :: u16
  dv_device_role :: u16
  dv_device_instance :: string
  dv_ip_set :: bool
  dv_name_set :: bool
  dv_discovered_time_ms :: u64

record dcp_discovery =
  dc_interface_name :: string
  dc_socket_fd :: int
  dc_if_index :: int
  dc_mac_address :: "u8 list"
  dc_owns_socket :: bool
  dc_callback :: bool
  dc_running :: bool
  dc_devices :: "dcp_device_info list"
  dc_xid_counter :: u32
  dc_discovery_timeout_ms :: u32

text \<open>The name in lower case, by \<open>tolower\<close> of the C locale.\<close>

definition c_tolower :: "char \<Rightarrow> char" where
  "c_tolower c = (let n = of_char c :: nat in if 65 \<le> n \<and> n \<le> 90 then char_of (n + 32) else c)"

definition normalize_station_name :: "string \<Rightarrow> string" where
  "normalize_station_name name = map c_tolower name"

text \<open>What the socket calls of the initialisation give: the descriptor, the interface index and the
  hardware address, \<open>None\<close> where the call fails, and whether the socket can be bound.\<close>

record dcp_net =
  dn_socket :: int
  dn_if_index :: "int option"
  dn_hwaddr :: "u8 list option"
  dn_bind_ok :: bool

definition dcp_get_interface_info :: "dcp_net \<Rightarrow> dcp_discovery \<Rightarrow> wtc_result \<times> dcp_discovery" where
  "dcp_get_interface_info net dcp =
     (case dn_if_index net of
        None \<Rightarrow> (WTC_ERROR_IO, dcp)
      | Some ix \<Rightarrow>
          (let dcp = dcp\<lparr>dc_if_index := ix\<rparr> in
           case dn_hwaddr net of
             None \<Rightarrow> (WTC_ERROR_IO, dcp)
           | Some mac \<Rightarrow> (WTC_OK, dcp\<lparr>dc_mac_address := take 6 mac\<rparr>)))"

definition dcp_discovery_init :: "bool \<Rightarrow> string option \<Rightarrow> bool \<Rightarrow> dcp_net \<Rightarrow> wtc_result \<times> dcp_discovery option" where
  "dcp_discovery_init out_ok interface_name alloc_ok net =
     (case interface_name of
        None \<Rightarrow> (WTC_ERROR_INVALID_PARAM, None)
      | Some ifname \<Rightarrow>
          if \<not> out_ok then (WTC_ERROR_INVALID_PARAM, None)
          else if \<not> alloc_ok then (WTC_ERROR_NO_MEMORY, None)
          else
            (let dcp = \<lparr>dc_interface_name = cstr_copy 31 ifname, dc_socket_fd = dn_socket net, dc_if_index = 0,
                   dc_mac_address = replicate 6 0, dc_owns_socket = False, dc_callback = False, dc_running = False,
                   dc_devices = [], dc_xid_counter = 0, dc_discovery_timeout_ms = DCP_DEFAULT_TIMEOUT_MS\<rparr>
             in if dc_socket_fd dcp < 0 then (WTC_ERROR_IO, None)
                else
                  (case dcp_get_interface_info net (dcp\<lparr>dc_owns_socket := True\<rparr>) of
                     (WTC_OK, dcp) \<Rightarrow> if dn_bind_ok net then (WTC_OK, Some dcp) else (WTC_ERROR_IO, None)
                   | (e, _) \<Rightarrow> (e, None))))"

text \<open>The first result is the descriptor that is closed.\<close>

definition own_socket :: "dcp_discovery \<Rightarrow> int option" where
  "own_socket dcp = (if dc_owns_socket dcp \<and> dc_socket_fd dcp \<ge> 0 then Some (dc_socket_fd dcp) else None)"

definition dcp_set_socket :: "dcp_discovery option \<Rightarrow> int \<Rightarrow> int option \<times> dcp_discovery option" where
  "dcp_set_socket discovery socket_fd =
     on_handle None (\<lambda>dcp. (own_socket dcp, dcp\<lparr>dc_socket_fd := socket_fd, dc_owns_socket := False\<rparr>)) discovery"

definition dcp_discovery_start :: "dcp_discovery option \<Rightarrow> bool \<Rightarrow> wtc_result \<times> dcp_discovery option" where
  "dcp_discovery_start discovery callback =
     on_handle WTC_ERROR_INVALID_PARAM (\<lambda>dcp. (WTC_OK, dcp\<lparr>dc_callback := callback, dc_running := True\<rparr>)) discovery"

definition dcp_discovery_stop :: "dcp_discovery option \<Rightarrow> wtc_result \<times> dcp_discovery option" where
  "dcp_discovery_stop discovery =
     on_handle WTC_ERROR_INVALID_PARAM (\<lambda>dcp. (WTC_OK, dcp\<lparr>dc_running := False, dc_callback := False\<rparr>)) discovery"

definition dcp_discovery_cleanup :: "dcp_discovery option \<Rightarrow> int option" where
  "dcp_discovery_cleanup discovery =
     with_handle None own_socket (snd (dcp_discovery_stop discovery))"

section \<open>Requests\<close>

text \<open>A request is built into the array \<open>stack\<close> of \<open>capacity\<close> bytes of the calling function and padded to the minimum length
  of a frame. The results of the builder are not looked at. The transaction number advances before
  anything is sent.\<close>

definition send_dcp_frame :: "bool \<Rightarrow> wtc_result" where
  "send_dcp_frame sent_ok = (if sent_ok then WTC_OK else WTC_ERROR_IO)"

definition send_request ::
  "bool \<Rightarrow> nat \<Rightarrow> u8 list \<Rightarrow> u8 list \<Rightarrow> (u32 \<Rightarrow> frame_builder option \<Rightarrow> wtc_result \<times> frame_builder option) \<Rightarrow> dcp_discovery \<Rightarrow>
   (wtc_result \<times> u8 list) \<times> dcp_discovery" where
  "send_request sent_ok capacity stack dst build dcp =
     (let builder = snd (frame_builder_init (Some \<lparr>fb_buffer = [], fb_capacity = 0, fb_position = 0, fb_src_mac = [],
            fb_overrun = False\<rparr>) (Some stack) capacity (Some (dc_mac_address dcp)));
          builder = snd (frame_build_ethernet builder (Some dst) PROFINET_ETHERTYPE);
          dcp = dcp\<lparr>dc_xid_counter := dc_xid_counter dcp + 1\<rparr>;
          builder = snd (build (dc_xid_counter dcp) builder);
          builder = snd (frame_append_padding builder ETH_MIN_FRAME_LEN)
      in ((send_dcp_frame sent_ok, take (frame_builder_length builder) (with_handle [] fb_buffer builder)), dcp))"

definition dcp_discovery_identify_all ::
  "dcp_discovery option \<Rightarrow> bool \<Rightarrow> u8 list \<Rightarrow> (wtc_result \<times> u8 list option) \<times> dcp_discovery option" where
  "dcp_discovery_identify_all discovery sent_ok stack =
     on_handle (WTC_ERROR_INVALID_PARAM, None) (\<lambda>dcp.
       let ((r, f), dcp) = send_request sent_ok 128 stack DCP_MULTICAST_ADDR
             (\<lambda>xid b. frame_build_dcp_identify b xid None) dcp
       in ((r, Some f), dcp)) discovery"

definition dcp_discovery_identify_name ::
  "dcp_discovery option \<Rightarrow> string option \<Rightarrow> bool \<Rightarrow> u8 list \<Rightarrow> (wtc_result \<times> u8 list option) \<times> dcp_discovery option" where
  "dcp_discovery_identify_name discovery station_name sent_ok stack =
     on_handle (WTC_ERROR_INVALID_PARAM, None) (\<lambda>dcp.
       case station_name of
         None \<Rightarrow> ((WTC_ERROR_INVALID_PARAM, None), dcp)
       | Some name \<Rightarrow>
           (let ((r, f), dcp) = send_request sent_ok 256 stack DCP_MULTICAST_ADDR
                  (\<lambda>xid b. frame_build_dcp_identify b xid (Some name)) dcp
            in ((r, Some f), dcp))) discovery"

definition send_control ::
  "u8 \<Rightarrow> u16 \<Rightarrow> dcp_discovery option \<Rightarrow> u8 list option \<Rightarrow> bool \<Rightarrow> u8 list \<Rightarrow>
   (wtc_result \<times> u8 list option) \<times> dcp_discovery option" where
  "send_control suboption val discovery mac_address sent_ok stack =
     on_handle (WTC_ERROR_INVALID_PARAM, None) (\<lambda>dcp.
       case mac_address of
         None \<Rightarrow> ((WTC_ERROR_INVALID_PARAM, None), dcp)
       | Some mac \<Rightarrow>
           (let ((r, f), dcp) = send_request sent_ok 128 stack mac
                  (\<lambda>xid b. frame_build_dcp_set b (Some mac) xid DCP_OPTION_CONTROL suboption
                     (Some (be16 0 @ be16 val))) dcp
            in ((r, Some f), dcp))) discovery"

definition dcp_signal_device ::
  "dcp_discovery option \<Rightarrow> u8 list option \<Rightarrow> bool \<Rightarrow> u8 list \<Rightarrow> (wtc_result \<times> u8 list option) \<times> dcp_discovery option" where
  "dcp_signal_device = send_control DCP_SUBOPTION_CONTROL_SIGNAL 0x0100"

definition dcp_reset_to_factory ::
  "dcp_discovery option \<Rightarrow> u8 list option \<Rightarrow> bool \<Rightarrow> u8 list \<Rightarrow> (wtc_result \<times> u8 list option) \<times> dcp_discovery option" where
  "dcp_reset_to_factory = send_control DCP_SUBOPTION_CONTROL_RESET_TO_FACTORY 0x0002"

section \<open>Responses\<close>

definition find_device :: "dcp_discovery \<Rightarrow> u8 list \<Rightarrow> nat option" where
  "find_device dcp mac_address = find_pos (\<lambda>d. dv_mac_address d = take 6 mac_address) (dc_devices dcp)"

definition cache_entry :: "u8 list \<Rightarrow> u64 \<Rightarrow> dcp_device_info" where
  "cache_entry mac_address now =
     \<lparr>dv_mac_address = take 6 mac_address, dv_ip_address = 0, dv_subnet_mask = 0, dv_gateway = 0, dv_station_name = [],
      dv_vendor_name = [], dv_vendor_id = 0, dv_device_id = 0, dv_device_role = 0, dv_device_instance = [],
      dv_ip_set = False, dv_name_set = False, dv_discovered_time_ms = now\<rparr>"

definition add_or_update_device :: "dcp_discovery \<Rightarrow> u8 list \<Rightarrow> u64 \<Rightarrow> nat option \<times> dcp_discovery" where
  "add_or_update_device dcp mac_address now =
     (case find_device dcp mac_address of
        Some i \<Rightarrow> (Some i, dcp)
      | None \<Rightarrow>
          if length (dc_devices dcp) \<ge> MAX_DISCOVERED_DEVICES then (None, dcp)
          else (Some (length (dc_devices dcp)), dcp\<lparr>dc_devices := dc_devices dcp @ [cache_entry mac_address now]\<rparr>))"

text \<open>One block of a response. \<open>mem\<close> is the memory from the data of the block on. The four address bytes
  of the gateway are read without a look at the length beyond the twelfth byte.\<close>

definition net16 :: "u8 list \<Rightarrow> nat \<Rightarrow> u16" where
  "net16 mem i = of_be16 (mem ! i) (mem ! (i + 1))"

definition net32 :: "u8 list \<Rightarrow> nat \<Rightarrow> u32" where
  "net32 mem i = of_be32 (mem ! i) (mem ! (i + 1)) (mem ! (i + 2)) (mem ! (i + 3))"

text \<open>The bytes from the third on as a string in an array of 64 characters: cut to 63, and ended by the
  first zero byte.\<close>

definition block_text :: "u8 list \<Rightarrow> nat \<Rightarrow> string" where
  "block_text mem len =
     map (\<lambda>b. char_of (unat b)) (takeWhile (\<lambda>b. b \<noteq> 0) (mem_read mem 2 (if 64 \<le> len - 2 then 63 else len - 2)))"

definition device_block :: "dcp_block_header \<Rightarrow> u8 list \<Rightarrow> dcp_device_info \<Rightarrow> dcp_device_info" where
  "device_block block mem device =
     (let len = unat (db_length block); sub = db_suboption block in
      if db_option block = DCP_OPTION_IP
      then (if sub = DCP_SUBOPTION_IP_PARAMETER \<and> 12 \<le> len
            then device\<lparr>dv_ip_address := net32 mem 2, dv_subnet_mask := net32 mem 6, dv_gateway := net32 mem 10,
                   dv_ip_set := True\<rparr>
            else if sub = DCP_SUBOPTION_IP_MAC \<and> 6 \<le> len then device\<lparr>dv_mac_address := mem_read mem 0 6\<rparr>
            else device)
      else if db_option block = DCP_OPTION_DEVICE
      then (if sub = DCP_SUBOPTION_DEVICE_VENDOR \<and> 2 < len then device\<lparr>dv_vendor_name := block_text mem len\<rparr>
            else if sub = DCP_SUBOPTION_DEVICE_NAME \<and> 2 < len
            then device\<lparr>dv_station_name := normalize_station_name (block_text mem len), dv_name_set := True\<rparr>
            else if sub = DCP_SUBOPTION_DEVICE_ID \<and> 6 \<le> len
            then device\<lparr>dv_vendor_id := net16 mem 2, dv_device_id := net16 mem 4\<rparr>
            else if sub = DCP_SUBOPTION_DEVICE_ROLE \<and> 4 \<le> len then device\<lparr>dv_device_role := net16 mem 2\<rparr>
            else device)
      else device)"

text \<open>The loop over the blocks. It advances by at least the four bytes of a block header.\<close>

function block_loop :: "nat \<Rightarrow> frame_parser \<Rightarrow> dcp_device_info \<Rightarrow> dcp_device_info" where
  "block_loop end_pos p device =
     (if fp_position p < end_pos \<and> 4 \<le> frame_parser_remaining (Some p)
      then (case frame_parse_dcp_block (Some p) True True of
              ((WTC_OK, Some block, Some at), Some p) \<Rightarrow>
                block_loop end_pos
                  (if odd (unat (db_length block)) then the (snd (frame_skip_bytes (Some p) 1)) else p)
                  (device_block block (drop at (fp_buffer p)) device)
            | _ \<Rightarrow> device)
      else device)"
  by pat_completeness auto
termination
  by (relation "measure (\<lambda>(e, p, _). e - fp_position p)")
    (auto simp: frame_parse_dcp_block_def frame_skip_bytes_def skip_def Let_def split: if_splits)

declare block_loop.simps [simp del]

definition parse_dcp_blocks :: "dcp_device_info \<Rightarrow> frame_parser \<Rightarrow> u16 \<Rightarrow> dcp_device_info" where
  "parse_dcp_blocks device parser data_length =
     block_loop (size_add (fp_position parser) (unat data_length)) parser device"

text \<open>The second result is the device the callback gets.\<close>

definition identified ::
  "u8 list \<Rightarrow> frame_parser \<Rightarrow> u16 \<Rightarrow> u64 \<Rightarrow> dcp_discovery \<Rightarrow> (wtc_result \<times> dcp_device_info option) \<times> dcp_discovery" where
  "identified src_mac parser data_length now dcp =
     (case add_or_update_device dcp src_mac now of
        (None, dcp) \<Rightarrow> ((WTC_ERROR_FULL, None), dcp)
      | (Some i, dcp) \<Rightarrow>
          (let device = parse_dcp_blocks (dc_devices dcp ! i) parser data_length;
               dcp = dcp\<lparr>dc_devices := (dc_devices dcp)[i := device]\<rparr>
           in ((WTC_OK, if dc_running dcp \<and> dc_callback dcp then Some device else None), dcp)))"

definition dcp_process_frame ::
  "dcp_discovery option \<Rightarrow> u8 list option \<Rightarrow> nat \<Rightarrow> u64 \<Rightarrow> (wtc_result \<times> dcp_device_info option) \<times> dcp_discovery option" where
  "dcp_process_frame discovery frame len now =
     on_handle (WTC_ERROR_INVALID_PARAM, None) (\<lambda>dcp.
       case frame of
         None \<Rightarrow> ((WTC_ERROR_INVALID_PARAM, None), dcp)
       | Some mem \<Rightarrow>
           (let parser = Some \<lparr>fp_buffer = mem, fp_length = len, fp_position = 0\<rparr> in
            case frame_parse_ethernet parser True True True of
              ((WTC_OK, Some dst_mac, Some src_mac, Some ethertype), parser) \<Rightarrow>
                if ethertype \<noteq> PROFINET_ETHERTYPE then ((WTC_ERROR_PROTOCOL, None), dcp)
                else
                  (case frame_read_u16 parser True of
                     ((WTC_OK, Some frame_id), parser) \<Rightarrow>
                       if frame_id < PROFINET_FRAME_ID_DCP \<or> frame_id > PROFINET_FRAME_ID_DCP_IDENT_RESP
                       then ((WTC_ERROR_PROTOCOL, None), dcp)
                       else
                         (case frame_parse_dcp_header parser True of
                            ((WTC_OK, Some header), Some p) \<Rightarrow>
                              if dh_service_id header \<noteq> DCP_SERVICE_IDENTIFY \<or>
                                 dh_service_type header \<noteq> DCP_SERVICE_TYPE_RESPONSE_OK
                              then ((WTC_OK, None), dcp)
                              else identified src_mac p (dh_data_length header) now dcp
                          | _ \<Rightarrow> ((WTC_ERROR_PROTOCOL, None), dcp))
                   | _ \<Rightarrow> ((WTC_ERROR_PROTOCOL, None), dcp))
            | _ \<Rightarrow> ((WTC_ERROR_PROTOCOL, None), dcp))) discovery"

section \<open>The cache\<close>

text \<open>The devices copied and their number. The callers give the size of their array as \<open>max_count\<close>, which
  is not negative.\<close>

definition dcp_get_devices ::
  "dcp_discovery option \<Rightarrow> bool \<Rightarrow> bool \<Rightarrow> int \<Rightarrow> wtc_result \<times> (dcp_device_info list \<times> int) option" where
  "dcp_get_devices discovery devices_ok count_ok max_count =
     with_handle (WTC_ERROR_INVALID_PARAM, None) (\<lambda>dcp.
       if \<not> devices_ok \<or> \<not> count_ok then (WTC_ERROR_INVALID_PARAM, None)
       else
         (let copy_count = int (length (dc_devices dcp));
              copy_count = (if copy_count > max_count then max_count else copy_count)
          in (WTC_OK, Some (take (nat copy_count) (dc_devices dcp), copy_count)))) discovery"

definition dcp_clear_cache :: "dcp_discovery option \<Rightarrow> dcp_discovery option" where
  "dcp_clear_cache discovery = map_option (\<lambda>dcp. dcp\<lparr>dc_devices := []\<rparr>) discovery"

definition dcp_set_discovery_timeout :: "dcp_discovery option \<Rightarrow> u32 \<Rightarrow> wtc_result \<times> dcp_discovery option" where
  "dcp_set_discovery_timeout discovery timeout_ms =
     on_handle WTC_ERROR_INVALID_PARAM (\<lambda>dcp.
       let timeout_ms = (if timeout_ms < 100 then 100 else if timeout_ms > 10000 then 10000 else timeout_ms) in
       (WTC_OK, dcp\<lparr>dc_discovery_timeout_ms := timeout_ms\<rparr>)) discovery"

definition dcp_get_discovery_timeout :: "dcp_discovery option \<Rightarrow> u32" where
  "dcp_get_discovery_timeout discovery = with_handle DCP_DEFAULT_TIMEOUT_MS dc_discovery_timeout_ms discovery"

section \<open>Decoding a response\<close>

text \<open>A block as option, suboption and data. Its bytes are padded to an even number.\<close>

type_synonym dcp_block = "u8 \<times> u8 \<times> u8 list"

definition block_bytes :: "dcp_block list \<Rightarrow> u8 list" where
  "block_bytes blocks = concat (map (\<lambda>(opt, sub, data). dcp_block_bytes opt sub data) blocks)"

definition block_header :: "dcp_block \<Rightarrow> dcp_block_header" where
  "block_header = (\<lambda>(opt, sub, data). \<lparr>db_option = opt, db_suboption = sub, db_length = of_nat (length data)\<rparr>)"

text \<open>A block whose fields lie inside its data: it fits its length field, and if it holds IP parameters
  these are complete.\<close>

fun block_complete :: "dcp_block \<Rightarrow> bool" where
  "block_complete (opt, sub, data) \<longleftrightarrow> length data < 65536 \<and>
     (opt = DCP_OPTION_IP \<and> sub = DCP_SUBOPTION_IP_PARAMETER \<longrightarrow> length data < 12 \<or> 14 \<le> length data)"

definition describe :: "dcp_block list \<Rightarrow> dcp_device_info \<Rightarrow> dcp_device_info" where
  "describe blocks device = fold (\<lambda>b. device_block (block_header b) (snd (snd b))) blocks device"

lemma device_block_local:
  assumes "block_complete (opt, sub, data)" and "take (length data) mem = data"
  shows "device_block (block_header (opt, sub, data)) mem device = device_block (block_header (opt, sub, data)) data device"
proof -
  have at: "mem ! i = data ! i" if "i < length data" for i using assms(2) that by (metis nth_take)
  have split: "mem = data @ drop (length data) mem" using assms(2) by (metis append_take_drop_id)
  have slice: "mem_read mem p n = mem_read data p n" if "p + n \<le> length data" for p n
    using that by (subst split) (simp add: mem_read_def)
  have len: "unat (of_nat (length data) :: u16) = length data" using assms(1) by (simp add: unat_of_nat)
  have fields: "net32 mem i = net32 data i" if "i + 4 \<le> length data" for i
    using that by (simp add: net32_def at)
  have fields': "net16 mem i = net16 data i" if "i + 2 \<le> length data" for i
    using that by (simp add: net16_def at)
  have name: "block_text mem (length data) = block_text data (length data)" if "2 < length data"
    using that by (simp add: block_text_def slice)
  have mac: "mem_read mem 0 6 = mem_read data 0 6" if "6 \<le> length data" using that by (simp add: slice)
  have ip: "14 \<le> length data" if "opt = DCP_OPTION_IP" "sub = DCP_SUBOPTION_IP_PARAMETER" "12 \<le> length data"
    using assms(1) that by simp
  show ?thesis
    unfolding device_block_def block_header_def Let_def prod.case dcp_block_header.simps len
    by (intro if_cong refl) (use ip in \<open>simp_all add: fields fields' name mac\<close>)
qed

lemma block_loop_done [simp]: "e \<le> fp_position p \<Longrightarrow> block_loop e p device = device"
  by (subst block_loop.simps) simp

lemma block_parsed:
  assumes "parser_wf p" and "fp_rest p = dcp_block_bytes opt sub data @ tail" and "length data < 65536"
  shows "frame_parse_dcp_block (Some p) True True =
      ((WTC_OK, Some (block_header (opt, sub, data)), Some (fp_position p + 4)), Some (skip (4 + length data) p))"
    and "parser_wf (skip (4 + length data) p)"
    and "fp_rest (skip (4 + length data) p) = (if odd (length data) then [0] else []) @ tail"
proof -
  have len: "unat (of_nat (length data) :: u16) = length data" using assms(3) by (simp add: unat_of_nat)
  have rest: "fp_rest p = opt # sub # be16 (of_nat (length data)) @ data @ (if odd (length data) then [0] else []) @ tail"
    using assms(2) by (simp add: dcp_block_bytes_def)
  then have "4 + length data \<le> length (fp_rest p)" by simp
  note sk = skip_rest [OF assms(1) this]
  have fields: "byte_at p 0 = opt" "byte_at p (Suc 0) = sub" "u16_at p 2 = of_nat (length data)"
    using rest assms(1) by (simp_all add: fields_at_rest be16_def of_be16_be16)
  have short: "\<not> too_short p 4" "\<not> too_short (skip 4 p) (length data)"
    using rest assms(1) by (simp_all add: remaining_rest skip_rest)
  show "parser_wf (skip (4 + length data) p)" by (rule sk)
  show "fp_rest (skip (4 + length data) p) = (if odd (length data) then [0] else []) @ tail"
    using rest by (simp add: sk be16_def drop_four)
  show "frame_parse_dcp_block (Some p) True True =
      ((WTC_OK, Some (block_header (opt, sub, data)), Some (fp_position p + 4)), Some (skip (4 + length data) p))"
    using fields short by (simp add: frame_parse_dcp_block_def block_header_def len Let_def) (simp add: skip_def)
qed

lemma fp_buffer_skip [simp]: "fp_buffer (skip n p) = fp_buffer p" and fp_position_skip [simp]: "fp_position (skip n p) = fp_position p + n"
  by (simp_all add: skip_def)

lemma rest_memory:
  assumes "parser_wf p" and "fp_rest p = before @ data @ tail"
  shows "take (length data) (drop (fp_position p + length before) (fp_buffer p)) = data"
proof -
  let ?n = "fp_length p - fp_position p"
  have "length before + length data \<le> ?n" using assms length_rest [OF assms(1)] by simp
  then have "take (length data) (drop (length before) (fp_rest p)) =
      take (length data) (drop (fp_position p + length before) (fp_buffer p))"
    by (simp add: fp_rest_def mem_read_def drop_take add.commute)
  then show ?thesis using assms(2) by simp
qed

lemma block_loop_step:
  assumes "parser_wf p" and "fp_rest p = dcp_block_bytes opt sub data @ tail" and "block_complete (opt, sub, data)"
    and "fp_position p < e"
  shows "\<exists>q. block_loop e p device = block_loop e q (device_block (block_header (opt, sub, data)) data device) \<and>
    parser_wf q \<and> fp_rest q = tail \<and> fp_position q = fp_position p + length (dcp_block_bytes opt sub data)"
proof -
  let ?p = "skip (4 + length data) p" and ?h = "block_header (opt, sub, data)"
  have size: "length data < 65536" using assms(3) by simp
  note parsed = block_parsed [OF assms(1, 2) size]
  have len: "unat (db_length ?h) = length data" using size by (simp add: block_header_def unat_of_nat)
  have mem: "take (length data) (drop (fp_position p + 4) (fp_buffer p)) = data"
    using rest_memory [OF assms(1), of "opt # sub # be16 (of_nat (length data))" data] assms(2)
    by (simp add: dcp_block_bytes_def)
  have loc: "device_block ?h (drop (fp_position p + 4) (fp_buffer p)) device = device_block ?h data device"
    by (rule device_block_local [OF assms(3) mem])
  have rem: "4 \<le> frame_parser_remaining (Some p)" using assms(2) by (simp add: remaining_rest [OF assms(1)] dcp_block_bytes_def)
  let ?q = "if odd (length data) then skip 1 ?p else ?p"
  have skipped: "odd (length data) \<Longrightarrow> the (snd (frame_skip_bytes (Some ?p) 1)) = skip 1 ?p"
    using parsed(3) by (simp add: frame_skip_bytes_def remaining_rest [OF parsed(2)])
  have "block_loop e p device = block_loop e ?q (device_block ?h data device)"
    by (subst block_loop.simps) (use assms(4) rem skipped in \<open>simp add: parsed(1) len loc\<close>)
  moreover have "parser_wf ?q" "fp_rest ?q = tail" "fp_position ?q = fp_position p + length (dcp_block_bytes opt sub data)"
    using parsed(2, 3) by (simp_all add: skip_rest dcp_block_bytes_def)
  ultimately show ?thesis by blast
qed

lemma block_loop_describes:
  assumes "parser_wf p" and "fp_rest p = block_bytes blocks @ tail" and "list_all block_complete blocks"
    and "e = fp_position p + length (block_bytes blocks)"
  shows "block_loop e p device = describe blocks device"
  using assms
proof (induction blocks arbitrary: p device)
  case Nil
  then show ?case by (simp add: block_bytes_def describe_def)
next
  case (Cons b blocks)
  obtain opt sub data where b: "b = (opt, sub, data)" by (cases b)
  have rest: "fp_rest p = dcp_block_bytes opt sub data @ block_bytes blocks @ tail" and lt: "fp_position p < e"
    using Cons.prems(2, 4) b by (simp_all add: block_bytes_def dcp_block_bytes_def)
  obtain q where q: "block_loop e p device = block_loop e q (device_block (block_header b) data device)" "parser_wf q"
      "fp_rest q = block_bytes blocks @ tail" "fp_position q = fp_position p + length (dcp_block_bytes opt sub data)"
    using block_loop_step [OF Cons.prems(1) rest _ lt, of device] Cons.prems(3) b by auto
  have "block_loop e q (device_block (block_header b) data device) = describe blocks (device_block (block_header b) data device)"
    using Cons.prems(3, 4) q(4) b by (intro Cons.IH [OF q(2, 3)]) (simp_all add: block_bytes_def)
  then show ?case using q(1) b by (simp add: describe_def)
qed

text \<open>The frame of an identify response.\<close>

definition identify_response :: "u8 list \<Rightarrow> u8 list \<Rightarrow> u32 \<Rightarrow> u16 \<Rightarrow> dcp_block list \<Rightarrow> u8 list" where
  "identify_response dst src xid delay blocks =
     dst @ src @ be16 PROFINET_ETHERTYPE @ be16 PROFINET_FRAME_ID_DCP_IDENT_RESP @
     [DCP_SERVICE_IDENTIFY, DCP_SERVICE_TYPE_RESPONSE_OK] @ be32 xid @ be16 delay @
     be16 (of_nat (length (block_bytes blocks))) @ block_bytes blocks"

text \<open>The entry of an address: the one that is cached, or a new one.\<close>

definition entry_of :: "dcp_discovery \<Rightarrow> u8 list \<Rightarrow> u64 \<Rightarrow> dcp_device_info" where
  "entry_of dcp mac now = (case find_device dcp mac of Some i \<Rightarrow> dc_devices dcp ! i | None \<Rightarrow> cache_entry mac now)"

definition store_entry :: "dcp_discovery \<Rightarrow> u8 list \<Rightarrow> dcp_device_info \<Rightarrow> dcp_discovery" where
  "store_entry dcp mac device = dcp\<lparr>dc_devices := (case find_device dcp mac of
     Some i \<Rightarrow> (dc_devices dcp)[i := device] | None \<Rightarrow> dc_devices dcp @ [device])\<rparr>"

lemma identified_entry:
  assumes "find_device dcp mac \<noteq> None \<or> length (dc_devices dcp) < MAX_DISCOVERED_DEVICES"
  shows "identified mac p n now dcp =
    (let device = parse_dcp_blocks (entry_of dcp mac now) p n in
     ((WTC_OK, if dc_running dcp \<and> dc_callback dcp then Some device else None), store_entry dcp mac device))"
  using assms by (auto simp: identified_def add_or_update_device_def entry_of_def store_entry_def Let_def split: option.splits)

lemma frame_start:
  assumes "length dst = 6" and "length src = 6" and "m = dst @ src @ be16 PROFINET_ETHERTYPE @ be16 frame_id @ rest"
    and "p = \<lparr>fp_buffer = m @ behind, fp_length = length m, fp_position = 0\<rparr>" and "length m < 2 ^ 64"
  defines "p1 \<equiv> skip 2 (skip 6 (skip 6 p))"
  shows "frame_parse_ethernet (Some p) True True True = ((WTC_OK, Some dst, Some src, Some PROFINET_ETHERTYPE), Some p1)"
    and "frame_read_u16 (Some p1) True = ((WTC_OK, Some frame_id), Some (skip 2 p1))"
    and "parser_wf (skip 2 p1)" and "fp_rest (skip 2 p1) = rest"
proof -
  have p: "parser_wf p" using assms(4, 5) by (simp add: parser_wf_def)
  have "fp_rest p = m" using assms(4) by (simp add: fp_rest_def mem_read_def)
  then have r: "fp_rest p = dst @ src @ be16 PROFINET_ETHERTYPE @ be16 frame_id @ rest" using assms(3) by simp
  have p': "parser_wf (skip 6 p)" "fp_rest (skip 6 p) = src @ be16 PROFINET_ETHERTYPE @ be16 frame_id @ rest"
    "parser_wf (skip 6 (skip 6 p))" "fp_rest (skip 6 (skip 6 p)) = be16 PROFINET_ETHERTYPE @ be16 frame_id @ rest"
    using p r assms(1, 2) by (simp_all add: skip_rest)
  have q: "parser_wf p1" "fp_rest p1 = be16 frame_id @ rest"
    using p' by (simp_all add: p1_def skip_rest)
  show "parser_wf (skip 2 p1)" "fp_rest (skip 2 p1) = rest" using q by (simp_all add: skip_rest)
  have vlan: "PROFINET_ETHERTYPE \<noteq> PROFINET_ETHERTYPE_VLAN" by (simp add: PROFINET_ETHERTYPE_def PROFINET_ETHERTYPE_VLAN_def)
  have bytes: "bytes_at p 0 6 = dst" "bytes_at (skip 6 p) 0 6 = src" "u16_at (skip 6 (skip 6 p)) 0 = PROFINET_ETHERTYPE"
    using p r p' assms(1, 2) by (simp_all add: bytes_at_rest fields_at_rest nth_append be_fields)
  have "\<not> too_short p 14" using p r assms(1, 2) by (simp add: remaining_rest)
  with bytes vlan show "frame_parse_ethernet (Some p) True True True = ((WTC_OK, Some dst, Some src, Some PROFINET_ETHERTYPE), Some p1)"
    by (simp add: frame_parse_ethernet_def frame_consts Let_def p1_def)
  show "frame_read_u16 (Some p1) True = ((WTC_OK, Some frame_id), Some (skip 2 p1))"
    using q by (simp add: frame_read_u16_def remaining_rest fields_at_rest nth_append be_fields)
qed

lemma headers_parsed:
  assumes "length dst = 6" and "length src = 6" and "m = identify_response dst src xid delay blocks @ tail"
    and "p = \<lparr>fp_buffer = m @ behind, fp_length = length m, fp_position = 0\<rparr>" and "length m < 2 ^ 64"
  defines "p1 \<equiv> skip 2 (skip 6 (skip 6 p))"
  shows "frame_parse_ethernet (Some p) True True True = ((WTC_OK, Some dst, Some src, Some PROFINET_ETHERTYPE), Some p1)"
    and "frame_read_u16 (Some p1) True = ((WTC_OK, Some PROFINET_FRAME_ID_DCP_IDENT_RESP), Some (skip 2 p1))"
    and "frame_parse_dcp_header (Some (skip 2 p1)) True =
      ((WTC_OK, Some \<lparr>dh_service_id = DCP_SERVICE_IDENTIFY, dh_service_type = DCP_SERVICE_TYPE_RESPONSE_OK, dh_xid = xid,
         dh_response_delay = delay, dh_data_length = of_nat (length (block_bytes blocks))\<rparr>), Some (skip 10 (skip 2 p1)))"
    and "parser_wf (skip 10 (skip 2 p1))" and "fp_rest (skip 10 (skip 2 p1)) = block_bytes blocks @ tail"
proof -
  let ?c = "[DCP_SERVICE_IDENTIFY, DCP_SERVICE_TYPE_RESPONSE_OK] @ be32 xid @ be16 delay @
     be16 (of_nat (length (block_bytes blocks))) @ block_bytes blocks @ tail"
  have m: "m = dst @ src @ be16 PROFINET_ETHERTYPE @ be16 PROFINET_FRAME_ID_DCP_IDENT_RESP @ ?c"
    using assms(3) by (simp add: identify_response_def)
  note fs = frame_start [OF assms(1, 2) m assms(4, 5), folded p1_def]
  show "frame_parse_ethernet (Some p) True True True = ((WTC_OK, Some dst, Some src, Some PROFINET_ETHERTYPE), Some p1)"
    "frame_read_u16 (Some p1) True = ((WTC_OK, Some PROFINET_FRAME_ID_DCP_IDENT_RESP), Some (skip 2 p1))" by (rule fs)+
  have r: "parser_wf (skip 2 p1)" "fp_rest (skip 2 p1) = ?c" by (rule fs)+
  have "byte_at (skip 2 p1) 0 = DCP_SERVICE_IDENTIFY" "byte_at (skip 2 p1) (Suc 0) = DCP_SERVICE_TYPE_RESPONSE_OK"
    "u32_at (skip 2 p1) 2 = xid" "u16_at (skip 2 p1) 6 = delay" "u16_at (skip 2 p1) 8 = of_nat (length (block_bytes blocks))"
    using r by (simp_all add: fields_at_rest be16_def be32_def of_be16_be16 of_be32_be32)
  moreover have "\<not> too_short (skip 2 p1) 10" using r by (simp add: remaining_rest)
  ultimately show "frame_parse_dcp_header (Some (skip 2 p1)) True =
      ((WTC_OK, Some \<lparr>dh_service_id = DCP_SERVICE_IDENTIFY, dh_service_type = DCP_SERVICE_TYPE_RESPONSE_OK, dh_xid = xid,
         dh_response_delay = delay, dh_data_length = of_nat (length (block_bytes blocks))\<rparr>), Some (skip 10 (skip 2 p1)))"
    by (simp add: frame_parse_dcp_header_def)
  show "parser_wf (skip 10 (skip 2 p1))" "fp_rest (skip 10 (skip 2 p1)) = block_bytes blocks @ tail"
    using r by (simp_all add: skip_rest be16_def be32_def drop_four)
qed

text \<open>A response of complete blocks is decoded block by block into the entry of its sender, whatever
  follows the blocks in the frame and in the memory behind it.\<close>

lemma response_decoded:
  fixes xid :: u32 and delay :: u16
  assumes "length dst = 6" and "length src = 6" and "list_all block_complete blocks"
    and "length (block_bytes blocks) < 65536" and "length tail < 65536"
    and "find_device dcp src \<noteq> None \<or> length (dc_devices dcp) < MAX_DISCOVERED_DEVICES"
  defines "m \<equiv> identify_response dst src xid delay blocks @ tail"
  shows "dcp_process_frame (Some dcp) (Some (m @ behind)) (length m) now =
    (let device = describe blocks (entry_of dcp src now) in
     ((WTC_OK, if dc_running dcp \<and> dc_callback dcp then Some device else None), Some (store_entry dcp src device)))"
proof -
  let ?p = "\<lparr>fp_buffer = m @ behind, fp_length = length m, fp_position = 0\<rparr>"
  let ?q = "skip 10 (skip 2 (skip 2 (skip 6 (skip 6 ?p))))"
  have "length m < 2 ^ 64" using assms(1, 2, 4, 5) by (simp add: m_def identify_response_def)
  note parsed = headers_parsed [OF assms(1, 2) meta_eq_to_obj_eq [OF m_def] refl this, of behind]
  have len: "unat (of_nat (length (block_bytes blocks)) :: u16) = length (block_bytes blocks)"
    using assms(4) by (simp add: unat_of_nat)
  have "block_loop (26 + length (block_bytes blocks)) ?q device = describe blocks device" for device
    by (rule block_loop_describes [OF parsed(4, 5) assms(3)]) (simp add: skip_def)
  then have blocks: "parse_dcp_blocks device ?q (of_nat (length (block_bytes blocks))) = describe blocks device" for device
    using assms(4) by (simp add: parse_dcp_blocks_def len size_add_small)
  have id: "\<not> PROFINET_FRAME_ID_DCP_IDENT_RESP < PROFINET_FRAME_ID_DCP"
    by (simp add: dcp_consts)
  show ?thesis
    by (simp add: dcp_process_frame_def parsed(1-3) id identified_entry [OF assms(6)] blocks Let_def)
qed

text \<open>No frame makes the cache longer than its array.\<close>

lemma cache_bounded:
  assumes "length (dc_devices dcp) \<le> MAX_DISCOVERED_DEVICES"
  shows "length (dc_devices (the (snd (dcp_process_frame (Some dcp) frame len now)))) \<le> MAX_DISCOVERED_DEVICES"
proof -
  have "length (dc_devices (snd (identified mac p n now dcp))) \<le> MAX_DISCOVERED_DEVICES" for mac p n
    using assms by (auto simp: identified_def add_or_update_device_def Let_def split: option.splits)
  then show ?thesis using assms
    by (auto simp: dcp_process_frame_def Let_def split: option.splits prod.splits wtc_result.splits)
qed

lemma length_bytes_of [simp]: "length (bytes_of s) = length s"
  by (simp add: bytes_of_def)

lemma block_text_bytes:
  assumes "length name \<le> 63" and "CHR 0x00 \<notin> set name"
  shows "block_text (be16 info @ bytes_of name) (2 + length name) = name"
proof -
  have code: "char_of (unat (of_char c :: u8)) = c" for c
  proof -
    have "of_char c < (256::nat)" by simp
    then have "unat (of_nat (of_char c :: nat) :: u8) = of_char c" by (simp add: unat_of_nat)
    moreover have "(of_char c :: u8) = of_nat (of_char c)" by (cases c) simp
    ultimately show ?thesis by simp
  qed
  have "(of_char c :: u8) \<noteq> 0" if "c \<in> set name" for c
  proof
    assume "(of_char c :: u8) = 0"
    then have "char_of (unat (of_char c :: u8)) = CHR 0x00" by (simp add: char_of_def)
    with code that assms(2) show False by simp
  qed
  then have "takeWhile (\<lambda>b. b \<noteq> 0) (bytes_of name) = bytes_of name"
    by (intro takeWhile_eq_all_conv [THEN iffD2]) (auto simp: bytes_of_def)
  moreover have "map (\<lambda>b. char_of (unat b)) (bytes_of name) = name" by (simp add: bytes_of_def o_def code)
  ultimately show ?thesis using assms(1)
    by (simp add: block_text_def mem_read_def be16_def del: takeWhile_eq_all_conv)
qed

text \<open>The blocks of a typical response: the name of the station, the identifiers of the device, and the IP
  parameters, each behind the two bytes of the block information.\<close>

definition station_blocks :: "u16 \<Rightarrow> string \<Rightarrow> u16 \<Rightarrow> u16 \<Rightarrow> u32 \<Rightarrow> u32 \<Rightarrow> u32 \<Rightarrow> dcp_block list" where
  "station_blocks info name vendor device ip netmask gateway =
     [(DCP_OPTION_DEVICE, DCP_SUBOPTION_DEVICE_NAME, be16 info @ bytes_of name),
      (DCP_OPTION_DEVICE, DCP_SUBOPTION_DEVICE_ID, be16 info @ be16 vendor @ be16 device),
      (DCP_OPTION_IP, DCP_SUBOPTION_IP_PARAMETER, be16 info @ be32 ip @ be32 netmask @ be32 gateway)]"

lemma station_described:
  assumes "name \<noteq> []" and "length name \<le> 63" and "CHR 0x00 \<notin> set name"
  shows "describe (station_blocks info name vendor device ip netmask gateway) entry = entry\<lparr>
      dv_station_name := normalize_station_name name, dv_name_set := True, dv_vendor_id := vendor, dv_device_id := device,
      dv_ip_address := ip, dv_subnet_mask := netmask, dv_gateway := gateway, dv_ip_set := True\<rparr>"
    and "list_all block_complete (station_blocks info name vendor device ip netmask gateway)"
    and "length (block_bytes (station_blocks info name vendor device ip netmask gateway)) \<le> 110"
proof -
  have len: "unat (2 + of_nat (length name) :: u16) = 2 + length name" using assms(2)
    unat_of_nat [where 'a = 16 and x = "2 + length name"] by simp
  have name_block: "device_block (block_header (DCP_OPTION_DEVICE, DCP_SUBOPTION_DEVICE_NAME, be16 info @ bytes_of name))
      (be16 info @ bytes_of name) e = e\<lparr>dv_station_name := normalize_station_name name, dv_name_set := True\<rparr>" for e
    using assms(1) len block_text_bytes [OF assms(2, 3), of info]
    by (simp add: device_block_def block_header_def dcp_consts Let_def)
  have id_block: "device_block (block_header (DCP_OPTION_DEVICE, DCP_SUBOPTION_DEVICE_ID, be16 info @ be16 vendor @ be16 device))
      (be16 info @ be16 vendor @ be16 device) e = e\<lparr>dv_vendor_id := vendor, dv_device_id := device\<rparr>" for e
    by (simp add: device_block_def block_header_def dcp_consts net16_def be16_def of_be16_be16)
  have ip_block: "device_block (block_header (DCP_OPTION_IP, DCP_SUBOPTION_IP_PARAMETER, be16 info @ be32 ip @ be32 netmask @ be32 gateway))
      (be16 info @ be32 ip @ be32 netmask @ be32 gateway) e =
      e\<lparr>dv_ip_address := ip, dv_subnet_mask := netmask, dv_gateway := gateway, dv_ip_set := True\<rparr>" for e
    by (simp add: device_block_def block_header_def dcp_consts net32_def be16_def be32_def of_be32_be32)
  show "list_all block_complete (station_blocks info name vendor device ip netmask gateway)"
    "length (block_bytes (station_blocks info name vendor device ip netmask gateway)) \<le> 110"
    using assms(2) by (simp_all add: station_blocks_def block_bytes_def dcp_block_bytes_def dcp_consts)
  show "describe (station_blocks info name vendor device ip netmask gateway) entry = entry\<lparr>
      dv_station_name := normalize_station_name name, dv_name_set := True, dv_vendor_id := vendor, dv_device_id := device,
      dv_ip_address := ip, dv_subnet_mask := netmask, dv_gateway := gateway, dv_ip_set := True\<rparr>"
    using name_block id_block ip_block
    by (simp add: describe_def station_blocks_def)
qed

lemma find_pos_append: "find_pos P xs = None \<Longrightarrow> P x \<Longrightarrow> find_pos P (xs @ [x]) = Some (length xs)"
  by (induction xs) (auto split: if_splits)

lemma find_pos_update: "find_pos P xs = Some i \<Longrightarrow> P x \<Longrightarrow> find_pos P (xs[i := x]) = Some i"
  by (induction xs arbitrary: i) (auto split: if_splits nat.splits)

lemma entry_address: "dv_mac_address (entry_of dcp src now) = take 6 src"
  by (auto simp: entry_of_def cache_entry_def find_device_def split: option.split dest: find_pos_SomeD)

lemma entry_of_store:
  assumes "dv_mac_address device = take 6 src"
  shows "entry_of (store_entry dcp src device) src now = device"
proof (cases "find_device dcp src")
  case None
  then show ?thesis using assms by (simp add: entry_of_def store_entry_def find_device_def find_pos_append)
next
  case (Some i)
  then have "i < length (dc_devices dcp)" by (auto simp: find_device_def dest: find_pos_SomeD)
  then show ?thesis using Some assms by (simp add: entry_of_def store_entry_def find_device_def find_pos_update)
qed

text \<open>A station that answers is discovered: a response with the name, the identifiers and the IP
  parameters of a device, followed by any padding, is stored in the cache as the entry of its sender,
  with the name in lower case and every field as it was sent; the other entries stay. The callback
  gets this entry. Only a new device at a full cache is refused.\<close>

theorem station_discovered:
  assumes "length dst = 6" and "length src = 6" and "name \<noteq> []" and "length name \<le> 63" and "CHR 0x00 \<notin> set name"
    and "length padding < 65536"
    and "find_device dcp src \<noteq> None \<or> length (dc_devices dcp) < MAX_DISCOVERED_DEVICES"
    and "frame = identify_response dst src xid delay (station_blocks info name vendor device ip netmask gateway) @ padding"
  shows "\<exists>dcp'. dcp_process_frame (Some dcp) (Some (frame @ behind)) (length frame) now =
      ((WTC_OK, if dc_running dcp \<and> dc_callback dcp then Some (entry_of dcp' src now) else None), Some dcp') \<and>
    entry_of dcp' src now = (entry_of dcp src now)\<lparr>
      dv_station_name := normalize_station_name name, dv_name_set := True, dv_vendor_id := vendor, dv_device_id := device,
      dv_ip_address := ip, dv_subnet_mask := netmask, dv_gateway := gateway, dv_ip_set := True\<rparr> \<and>
    dcp' = store_entry dcp src (entry_of dcp' src now)"
proof -
  note st = station_described [OF assms(3-5)]
  let ?d = "describe (station_blocks info name vendor device ip netmask gateway) (entry_of dcp src now)"
  have len: "length (block_bytes (station_blocks info name vendor device ip netmask gateway)) < 65536"
    using st(3) by (rule le_less_trans) simp
  have "dv_mac_address ?d = take 6 src" by (simp add: st(1) entry_address)
  then have e: "entry_of (store_entry dcp src ?d) src now = ?d" by (rule entry_of_store)
  show ?thesis
    by (rule exI [of _ "store_entry dcp src ?d"])
      (simp only: assms(8) response_decoded [OF assms(1, 2) st(2) len assms(6, 7)] Let_def e [unfolded st(1)] st(1) simp_thms)
qed

definition sample_discovery :: dcp_discovery where
  "sample_discovery = \<lparr>dc_interface_name = ''eth0'', dc_socket_fd = 5, dc_if_index = 2, dc_mac_address = [2, 0, 0, 0, 0, 1],
     dc_owns_socket = True, dc_callback = True, dc_running = True, dc_devices = [], dc_xid_counter = 1,
     dc_discovery_timeout_ms = DCP_DEFAULT_TIMEOUT_MS\<rparr>"

theorem station_discovered_witness:
  "\<exists>dcp'. dcp_process_frame (Some sample_discovery)
      (Some (identify_response [2, 0, 0, 0, 0, 1] [2, 0, 0, 0, 0, 9] 1 0
         (station_blocks 0 ''RTU-1'' 626 3077 0xC0A80165 0xFFFFFF00 0) @ replicate 4 0))
      (length (identify_response [2, 0, 0, 0, 0, 1] [2, 0, 0, 0, 0, 9] 1 0
         (station_blocks 0 ''RTU-1'' 626 3077 0xC0A80165 0xFFFFFF00 0) @ replicate 4 (0 :: u8))) 1000 =
      ((WTC_OK, Some (entry_of dcp' [2, 0, 0, 0, 0, 9] 1000)), Some dcp') \<and>
    dv_station_name (entry_of dcp' [2, 0, 0, 0, 0, 9] 1000) = ''rtu-1'' \<and>
    dv_ip_address (entry_of dcp' [2, 0, 0, 0, 0, 9] 1000) = 0xC0A80165"
proof -
  have name: "normalize_station_name ''RTU-1'' = ''rtu-1''"
    by (simp add: normalize_station_name_def c_tolower_def) code_simp
  have room: "length (dc_devices sample_discovery) < MAX_DISCOVERED_DEVICES" and cb: "dc_running sample_discovery" "dc_callback sample_discovery"
    by (simp_all add: sample_discovery_def dcp_consts)
  show ?thesis
    using station_discovered [of "[2, 0, 0, 0, 0, 1]" "[2, 0, 0, 0, 0, 9]" "''RTU-1''" "replicate 4 0" sample_discovery
      _ 1 0 0 626 3077 "0xC0A80165" "0xFFFFFF00" 0 "[]" 1000] room cb name
    by fastforce
qed

end
