(* ===== verification/PnController.thy ===== *)
theory PnController
  imports ArManager Dcp Registry
begin

text \<open>
  The PROFINET controller (\<^verbatim>\<open>src/src/profinet/profinet_controller.c\<close>): it owns the raw socket, the discovery
  context and the AR manager, connects the devices that discovery finds, routes received frames, runs
  the cyclic pass and gives the rest of the program access to inputs, outputs and records.

  The bodies of the two threads are steps that hold the lock of the controller. \<open>receive_frame\<close> is one pass
  of the receive thread and \<open>cyclic_step\<close> one pass of the cyclic thread. Connecting releases the lock
  during the exchange with the device: \<open>connect_prepare\<close>, \<open>connect_attempt\<close> and \<open>connect_finish\<close> are the three
  parts, and \<open>profinet_controller_connect\<close> is their sequence with nothing in between.

  The callbacks of the application are truth values in the configuration; calls of them are returned
  as events. A relationship is named by its position in the array of the manager. Which sockets are
  closed on a failure, the socket options, and the sleep of the cyclic thread are not part of the
  state.
\<close>

section \<open>State\<close>

definition PROFINET_FRAME_ID_RTC1_MIN :: u16 where "PROFINET_FRAME_ID_RTC1_MIN = 0xC000"
definition PROFINET_FRAME_ID_RTC1_MAX :: u16 where "PROFINET_FRAME_ID_RTC1_MAX = 0xF7FF"
definition MAX_PENDING_CONNECTS :: nat where "MAX_PENDING_CONNECTS = 64"
definition PN_VENDOR_ID :: u16 where "PN_VENDOR_ID = 626"
definition PN_DEVICE_ID :: u16 where "PN_DEVICE_ID = 3077"

record profinet_config =
  pf_interface_name :: string
  pf_mac_address :: "u8 list"
  pf_ip_address :: u32
  pf_subnet_mask :: u32
  pf_gateway :: u32
  pf_vendor_id :: u16
  pf_device_id :: u16
  pf_station_name :: string
  pf_cycle_time_us :: u32
  pf_reduction_ratio :: u16
  pf_send_clock_factor :: u16
  pf_use_raw_sockets :: bool
  pf_socket_priority :: int
  pf_on_device_added :: bool
  pf_on_device_removed :: bool
  pf_on_device_state_changed :: bool
  pf_on_data_received :: bool
  pf_on_slots_discovered :: bool

record cycle_stats =
  cy_cycle_count :: u64
  cy_cycle_time_us_min :: u64
  cy_cycle_time_us_max :: u64
  cy_cycle_time_us_avg :: u64
  cy_overruns :: u64
  cy_cpu_usage_percent :: f32

record profinet_controller =
  pc_config :: profinet_config
  pc_raw_socket :: int
  pc_dcp :: "dcp_discovery option"
  pc_ar_manager :: "ar_manager option"
  pc_running :: bool
  pc_stats :: cycle_stats
  pc_last_stats_reset_ms :: u64
  pc_if_index :: int
  pc_mac_address :: "u8 list"
  pc_ip_address :: u32
  pc_pending_connects :: "(string \<times> string) list"

datatype pn_event =
  Device_Added rtu_device
| Device_Removed string
| Device_State string profinet_state
| Data_Received string int "u8 list"
| Slots_Discovered string "slot_config list"

section \<open>Sockets and life cycle\<close>

text \<open>What the system calls of the initialisation give: \<open>None\<close> or a negative number for a failure. The
  last four fields are for the discovery context and the AR manager.\<close>

record init_env =
  ie_alloc_ok :: bool
  ie_raw_socket :: int
  ie_if_index :: "int option"
  ie_hwaddr :: "u8 list option"
  ie_ip_socket :: int
  ie_ip :: "u32 option"
  ie_bind_ok :: bool
  ie_dcp_alloc_ok :: bool
  ie_dcp_net :: dcp_net
  ie_manager_alloc_ok :: bool
  ie_manager_if_index :: "int option"

definition get_interface_info :: "init_env \<Rightarrow> profinet_controller \<Rightarrow> wtc_result \<times> profinet_controller" where
  "get_interface_info env ctrl =
     (case ie_if_index env of
        None \<Rightarrow> (WTC_ERROR_IO, ctrl)
      | Some ix \<Rightarrow>
          (let ctrl = ctrl\<lparr>pc_if_index := ix\<rparr> in
           case ie_hwaddr env of
             None \<Rightarrow> (WTC_ERROR_IO, ctrl)
           | Some mac \<Rightarrow>
               (WTC_OK, ctrl\<lparr>pc_mac_address := take 6 mac,
                  pc_ip_address := (if ie_ip_socket env \<ge> 0 then (case ie_ip env of Some ip \<Rightarrow> ip | None \<Rightarrow> 0) else 0)\<rparr>)))"

definition create_raw_socket :: "init_env \<Rightarrow> profinet_controller \<Rightarrow> wtc_result \<times> profinet_controller" where
  "create_raw_socket env ctrl =
     (let ctrl = ctrl\<lparr>pc_raw_socket := ie_raw_socket env\<rparr> in
      if pc_raw_socket ctrl < 0 then (WTC_ERROR_IO, ctrl)
      else
        (let (res, ctrl) = get_interface_info env ctrl in
         if res \<noteq> WTC_OK then (res, ctrl\<lparr>pc_raw_socket := -1\<rparr>)
         else if \<not> ie_bind_ok env then (WTC_ERROR_IO, ctrl\<lparr>pc_raw_socket := -1\<rparr>)
         else (WTC_OK, ctrl)))"

definition zero_stats :: cycle_stats where
  "zero_stats = \<lparr>cy_cycle_count = 0, cy_cycle_time_us_min = 0, cy_cycle_time_us_max = 0, cy_cycle_time_us_avg = 0,
     cy_overruns = 0, cy_cpu_usage_percent = 0\<rparr>"

definition fmt_02x :: "u8 \<Rightarrow> string" where
  "fmt_02x b = map (\<lambda>d. char_of (if d < 10 then 48 + d else 87 + d)) [unat b div 16, unat b mod 16]"

definition controller_name :: "profinet_config \<Rightarrow> u8 list \<Rightarrow> string" where
  "controller_name config mac =
     (if pf_station_name config \<noteq> [] then cstr_copy 63 (pf_station_name config)
      else ''controller-'' @ fmt_02x (mac ! 4) @ fmt_02x (mac ! 5))"

definition profinet_controller_init ::
  "init_env \<Rightarrow> bool \<Rightarrow> profinet_config option \<Rightarrow> wtc_result \<times> profinet_controller option" where
  "profinet_controller_init env out_ok config =
     (case config of
        None \<Rightarrow> (WTC_ERROR_INVALID_PARAM, None)
      | Some cf \<Rightarrow>
          if \<not> out_ok then (WTC_ERROR_INVALID_PARAM, None)
          else if \<not> ie_alloc_ok env then (WTC_ERROR_NO_MEMORY, None)
          else
            (let cf' = cf\<lparr>pf_cycle_time_us := (if pf_cycle_time_us cf = 0 then 1000000 else pf_cycle_time_us cf),
                   pf_send_clock_factor := (if pf_send_clock_factor cf = 0 then 32 else pf_send_clock_factor cf)\<rparr>;
                 ctrl = \<lparr>pc_config = cf', pc_raw_socket = -1, pc_dcp = None, pc_ar_manager = None, pc_running = False,
                   pc_stats = zero_stats, pc_last_stats_reset_ms = 0, pc_if_index = 0, pc_mac_address = replicate 6 0,
                   pc_ip_address = 0, pc_pending_connects = []\<rparr>;
                 (res, ctrl) = create_raw_socket env ctrl
             in if res \<noteq> WTC_OK then (res, None)
                else
                  (let (res, dcp) = dcp_discovery_init True (Some (pf_interface_name cf')) (ie_dcp_alloc_ok env) (ie_dcp_net env) in
                   if res \<noteq> WTC_OK then (res, None)
                   else
                     (let dcp = snd (dcp_set_socket dcp (pc_raw_socket ctrl));
                          (res, manager) = ar_manager_init (ie_manager_alloc_ok env) (ie_manager_if_index env) True
                            (pc_raw_socket ctrl) (Some (pc_mac_address ctrl))
                            (Some (controller_name cf (pc_mac_address ctrl))) (pf_vendor_id cf) (pf_device_id cf)
                            (Some (pf_interface_name cf'))
                      in if res \<noteq> WTC_OK then (res, None)
                         else
                           (let manager = ar_manager_set_state_callback manager True;
                                ip = (if pf_ip_address cf = 0 \<and> pc_ip_address ctrl \<noteq> 0 then pc_ip_address ctrl
                                      else pf_ip_address cf);
                                manager = (if ip \<noteq> 0 then ar_manager_set_controller_ip manager ip else manager)
                            in (WTC_OK, Some (ctrl\<lparr>pc_dcp := dcp, pc_ar_manager := manager\<rparr>)))))))"

text \<open>The frame sent is the second result. When a thread cannot be started, discovery stays started.\<close>

definition profinet_controller_start ::
  "bool \<Rightarrow> bool \<Rightarrow> bool \<Rightarrow> u8 list \<Rightarrow> profinet_controller option \<Rightarrow> (wtc_result \<times> u8 list option) \<times> profinet_controller option" where
  "profinet_controller_start recv_ok cyclic_ok sent_ok stack =
     on_handle (WTC_ERROR_INVALID_PARAM, None) (\<lambda>ctrl.
       if pc_running ctrl then ((WTC_OK, None), ctrl)
       else
         (let ctrl = ctrl\<lparr>pc_running := True, pc_dcp := snd (dcp_discovery_start (pc_dcp ctrl) True)\<rparr> in
          if \<not> recv_ok \<or> \<not> cyclic_ok then ((WTC_ERROR, None), ctrl\<lparr>pc_running := False\<rparr>)
          else
            (let ((_, frame), dcp) = dcp_discovery_identify_all (pc_dcp ctrl) sent_ok stack in
             ((WTC_OK, frame), ctrl\<lparr>pc_dcp := dcp\<rparr>))))"

definition profinet_controller_stop :: "profinet_controller option \<Rightarrow> wtc_result \<times> profinet_controller option" where
  "profinet_controller_stop =
     on_handle WTC_OK (\<lambda>ctrl.
       if \<not> pc_running ctrl then (WTC_OK, ctrl)
       else (WTC_OK, ctrl\<lparr>pc_running := False, pc_dcp := snd (dcp_discovery_stop (pc_dcp ctrl))\<rparr>))"

text \<open>The descriptors that the controller and its discovery context close.\<close>

definition profinet_controller_cleanup :: "profinet_controller option \<Rightarrow> int list" where
  "profinet_controller_cleanup controller =
     (case snd (profinet_controller_stop controller) of
        None \<Rightarrow> []
      | Some ctrl \<Rightarrow>
          (case dcp_discovery_cleanup (pc_dcp ctrl) of Some fd \<Rightarrow> [fd] | None \<Rightarrow> []) @
          (if pc_raw_socket ctrl \<ge> 0 then [pc_raw_socket ctrl] else []))"

section \<open>Callbacks\<close>

definition ar_state_to_profinet_state :: "ar_state \<Rightarrow> profinet_state" where
  "ar_state_to_profinet_state s =
     (case s of
        AR_STATE_RUN \<Rightarrow> PROFINET_STATE_RUNNING
      | AR_STATE_CLOSE \<Rightarrow> PROFINET_STATE_OFFLINE
      | AR_STATE_ABORT \<Rightarrow> PROFINET_STATE_ERROR
      | _ \<Rightarrow> PROFINET_STATE_CONNECTING)"

definition ar_state_change_callback :: "profinet_config \<Rightarrow> ar_event \<Rightarrow> pn_event list" where
  "ar_state_change_callback config = (\<lambda>(station_name, old_state, new_state).
     (if pf_on_device_state_changed config then [Device_State station_name (ar_state_to_profinet_state new_state)] else []) @
     (if new_state = AR_STATE_CLOSE \<and> old_state \<noteq> AR_STATE_CLOSE \<and> pf_on_device_removed config
      then [Device_Removed station_name] else []))"

definition state_events :: "profinet_controller \<Rightarrow> ar_event list \<Rightarrow> pn_event list" where
  "state_events ctrl evs = concat (map (ar_state_change_callback (pc_config ctrl)) evs)"

definition dcp_callback :: "dcp_device_info \<Rightarrow> profinet_controller \<Rightarrow> pn_event list \<times> profinet_controller" where
  "dcp_callback device ctrl =
     (let ip_str = (case ip_to_string (dv_ip_address device) True 16 of Some s \<Rightarrow> s | None \<Rightarrow> []);
          evs = (if pf_on_device_added (pc_config ctrl)
                 then [Device_Added (zero_device\<lparr>rd_station_name := cstr_copy 63 (dv_station_name device),
                         rd_ip_address := cstr_copy 15 ip_str, rd_vendor_id := dv_vendor_id device,
                         rd_device_id := dv_device_id device, rd_connection_state := PROFINET_STATE_OFFLINE\<rparr>)]
                 else []);
          already_pending = (\<exists>p \<in> set (pc_pending_connects ctrl). fst p = dv_station_name device)
      in (evs,
          if ar_manager_get_ar (pc_ar_manager ctrl) (Some (dv_station_name device)) = None \<and> \<not> already_pending \<and>
             length (pc_pending_connects ctrl) < MAX_PENDING_CONNECTS
          then ctrl\<lparr>pc_pending_connects := pc_pending_connects ctrl @
                 [(cstr_copy 63 (dv_station_name device), cstr_copy 15 ip_str)]\<rparr>
          else ctrl))"

section \<open>The receive thread\<close>

text \<open>The values of the sensors in the buffer of an input connection. The offset has 16 bits; the check
  against the length is made without wrapping.\<close>

fun sensor_events :: "string \<Rightarrow> u32 \<Rightarrow> u8 list \<Rightarrow> u16 \<Rightarrow> int \<Rightarrow> ar_slot_info list \<Rightarrow> pn_event list" where
  "sensor_events name data_length buf offset sensor_idx [] = []"
| "sensor_events name data_length buf offset sensor_idx (s # ss) =
     (if si_type s = SLOT_TYPE_SENSOR then
        (if unat offset + unat GSDML_INPUT_DATA_SIZE \<le> unat data_length
         then [Data_Received name sensor_idx (mem_read buf (unat offset) (unat GSDML_INPUT_DATA_SIZE))] else []) @
        sensor_events name data_length buf (offset + (GSDML_INPUT_DATA_SIZE + 1)) (sensor_idx + 1) ss
      else sensor_events name data_length buf offset sensor_idx ss)"

definition sensor_count :: "ar_slot_info list \<Rightarrow> nat" where
  "sensor_count ss = length (filter (\<lambda>s. si_type s = SLOT_TYPE_SENSOR) ss)"

definition forward_inputs :: "u16 \<Rightarrow> profinet_ar \<Rightarrow> pn_event list" where
  "forward_inputs frame_id ar =
     (case List.find (\<lambda>c. io_type c = IOCR_TYPE_INPUT \<and> io_frame_id c = frame_id \<and> io_data_buffer c \<noteq> None) (ar_iocr ar) of
        None \<Rightarrow> []
      | Some c \<Rightarrow>
          (let dap_count = io_iodata_count c - of_nat (sensor_count (ar_slot_info ar)) in
           sensor_events (ar_device_station_name ar) (io_data_length c) (the (io_data_buffer c)) dap_count 0 (ar_slot_info ar)))"

text \<open>A cyclic frame, and a frame of any kind. The frame is read from \<open>buffer\<close>, of which \<open>len\<close> bytes were
  received now.\<close>

definition receive_rt :: "u64 \<Rightarrow> u64 \<Rightarrow> u16 \<Rightarrow> u8 list \<Rightarrow> nat \<Rightarrow> profinet_controller \<Rightarrow> pn_event list \<times> profinet_controller" where
  "receive_rt now_us now_ms frame_id buffer len ctrl =
     (let (rt_res, manager) = ar_handle_rt_frame now_us now_ms (pc_ar_manager ctrl) (Some buffer) len;
          ctrl = ctrl\<lparr>pc_ar_manager := manager\<rparr>
      in (if rt_res = WTC_OK \<and> pf_on_data_received (pc_config ctrl) then
            (case ar_manager_get_ar_by_frame_id manager frame_id of
               None \<Rightarrow> []
             | Some i \<Rightarrow>
                 (let ar = mg_ars (the manager) ! i in
                  if ar_state ar = AR_STATE_RUN then forward_inputs frame_id ar else []))
          else [], ctrl))"

definition receive_frame :: "u64 \<Rightarrow> u64 \<Rightarrow> u8 list \<Rightarrow> int \<Rightarrow> profinet_controller \<Rightarrow> pn_event list \<times> profinet_controller" where
  "receive_frame now_us now_ms buffer recv_len ctrl =
     (if recv_len < 16 then ([], ctrl)
      else
        (let len = nat recv_len in
         case frame_parse_ethernet (Some \<lparr>fp_buffer = buffer, fp_length = len, fp_position = 0\<rparr>) True True True of
           ((WTC_OK, Some dst_mac, Some src_mac, Some ethertype), parser) \<Rightarrow>
             if ethertype \<noteq> PROFINET_ETHERTYPE then ([], ctrl)
             else
               (case frame_read_u16 parser True of
                  ((WTC_OK, Some frame_id), _) \<Rightarrow>
                    if frame_id \<ge> PROFINET_FRAME_ID_DCP \<and> frame_id \<le> PROFINET_FRAME_ID_DCP_IDENT_RESP
                    then
                      (let ((_, found), dcp) = dcp_process_frame (pc_dcp ctrl) (Some buffer) len now_ms;
                           ctrl = ctrl\<lparr>pc_dcp := dcp\<rparr>
                       in case found of Some device \<Rightarrow> dcp_callback device ctrl | None \<Rightarrow> ([], ctrl))
                    else if frame_id \<ge> PROFINET_FRAME_ID_RTC1_MIN \<and> frame_id \<le> PROFINET_FRAME_ID_RTC1_MAX
                    then receive_rt now_us now_ms frame_id buffer len ctrl
                    else ([], ctrl)
                | _ \<Rightarrow> ([], ctrl))
         | _ \<Rightarrow> ([], ctrl)))"

text \<open>What \<open>poll\<close> and \<open>recv\<close> give in one pass: the wait failed, was interrupted or timed out, the socket has no
  data, or \<open>recv\<close> returned a length, with the content of the buffer and the clocks.\<close>

datatype poll_outcome =
  Poll_Failed
| Poll_Interrupted
| Poll_Timeout
| Poll_No_Data
| Poll_Frame "u8 list" int u64 u64

text \<open>The thread ends when it is no longer running or the wait fails.\<close>

fun recv_thread_func :: "poll_outcome list \<Rightarrow> profinet_controller \<Rightarrow> pn_event list \<times> profinet_controller" where
  "recv_thread_func [] ctrl = ([], ctrl)"
| "recv_thread_func (p # ps) ctrl =
     (if \<not> pc_running ctrl then ([], ctrl)
      else
        (case p of
           Poll_Failed \<Rightarrow> ([], ctrl)
         | Poll_Frame buffer recv_len now_us now_ms \<Rightarrow>
             (let (evs, ctrl) = receive_frame now_us now_ms buffer recv_len ctrl;
                  (evs', ctrl) = recv_thread_func ps ctrl
              in (evs @ evs', ctrl))
         | _ \<Rightarrow> recv_thread_func ps ctrl))"

section \<open>The cyclic thread\<close>

record cyclic_env =
  cv_process :: process_env
  cv_health_ms :: u64
  cv_output :: "nat \<Rightarrow> u64 \<times> int"
  cv_elapsed_us :: u64
  cv_now_us :: u64

text \<open>The frames that are sent are the events of the output loop.\<close>

definition send_output :: "(nat \<Rightarrow> u64 \<times> int) \<Rightarrow> nat \<Rightarrow> ar_manager \<Rightarrow> u8 list list \<times> ar_manager" where
  "send_output out i m =
     (if ar_state (mg_ars m ! i) = AR_STATE_RUN then
        (let ((_, frame), aro) = ar_send_output_data (fst (out i)) (snd (out i)) m (Some (mg_ars m ! i)) in
         (case frame of Some f \<Rightarrow> [f] | None \<Rightarrow> [], set_ar i (the aro) m))
      else ([], m))"

definition update_stats :: "u64 \<Rightarrow> u64 \<Rightarrow> cycle_stats \<Rightarrow> cycle_stats" where
  "update_stats cycle_time_us elapsed_us st =
     (let st = st\<lparr>cy_cycle_count := cy_cycle_count st + 1\<rparr>;
          st = (if elapsed_us < cy_cycle_time_us_min st \<or> cy_cycle_time_us_min st = 0
                then st\<lparr>cy_cycle_time_us_min := elapsed_us\<rparr> else st);
          st = (if elapsed_us > cy_cycle_time_us_max st then st\<lparr>cy_cycle_time_us_max := elapsed_us\<rparr> else st);
          st = st\<lparr>cy_cycle_time_us_avg :=
                 (cy_cycle_time_us_avg st * (cy_cycle_count st - 1) + elapsed_us) div cy_cycle_count st\<rparr>
      in if elapsed_us > cycle_time_us then st\<lparr>cy_overruns := cy_overruns st + 1\<rparr> else st)"

definition next_cycle :: "u64 \<Rightarrow> u64 \<Rightarrow> u64 \<Rightarrow> u64" where
  "next_cycle cycle_time_us now_us next_cycle_us =
     (let next_cycle_us = next_cycle_us + cycle_time_us in
      if next_cycle_us < now_us then now_us + cycle_time_us else next_cycle_us)"

definition cyclic_pass :: "cyclic_env \<Rightarrow> profinet_controller \<Rightarrow> (pn_event list \<times> u8 list list) \<times> profinet_controller" where
  "cyclic_pass env ctrl =
     (let ((_, evs), manager) = ar_manager_process (cv_process env) (pc_ar_manager ctrl);
          ((_, evs'), manager) = ar_manager_check_health (cv_health_ms env) manager;
          (_, is, _) = ar_manager_get_all manager True (int WTC_MAX_RTUS);
          (frames, manager) = (case manager of
             Some m \<Rightarrow> (let (fs, m) = for_each (send_output (cv_output env)) is m in (fs, Some m))
           | None \<Rightarrow> ([], None))
      in ((state_events ctrl (evs @ evs'), frames), ctrl\<lparr>pc_ar_manager := manager\<rparr>))"

definition cyclic_step ::
  "u64 \<Rightarrow> cyclic_env \<Rightarrow> u64 \<Rightarrow> profinet_controller \<Rightarrow> (pn_event list \<times> u8 list list) \<times> u64 \<times> profinet_controller" where
  "cyclic_step cycle_time_us env next_cycle_us ctrl =
     (let (out, ctrl) = cyclic_pass env ctrl
      in (out, next_cycle cycle_time_us (cv_now_us env) next_cycle_us,
          ctrl\<lparr>pc_stats := update_stats cycle_time_us (cv_elapsed_us env) (pc_stats ctrl)\<rparr>))"

fun cyclic_loop :: "u64 \<Rightarrow> cyclic_env list \<Rightarrow> u64 \<Rightarrow> profinet_controller \<Rightarrow> (pn_event list \<times> u8 list list) list \<times> profinet_controller" where
  "cyclic_loop cycle_time_us [] next_cycle_us ctrl = ([], ctrl)"
| "cyclic_loop cycle_time_us (env # envs) next_cycle_us ctrl =
     (if \<not> pc_running ctrl then ([], ctrl)
      else
        (let (out, next_cycle_us, ctrl) = cyclic_step cycle_time_us env next_cycle_us ctrl;
             (outs, ctrl) = cyclic_loop cycle_time_us envs next_cycle_us ctrl
         in (out # outs, ctrl)))"

definition cyclic_thread_func :: "u64 \<Rightarrow> cyclic_env list \<Rightarrow> profinet_controller \<Rightarrow> (pn_event list \<times> u8 list list) list \<times> profinet_controller" where
  "cyclic_thread_func start_us envs ctrl =
     (let cycle_time_us = ucast (pf_cycle_time_us (pc_config ctrl)) in
      cyclic_loop cycle_time_us envs (start_us + cycle_time_us) ctrl)"

section \<open>Connecting\<close>

text \<open>The kernel's table of addresses: the socket, and the entry with its completeness flag.\<close>

definition arp_lookup_mac :: "int \<Rightarrow> (bool \<times> u8 list) option \<Rightarrow> wtc_result \<times> u8 list option" where
  "arp_lookup_mac sock arp_entry =
     (if sock < 0 then (WTC_ERROR_IO, None)
      else (case arp_entry of
              Some (True, mac) \<Rightarrow> (WTC_OK, Some (take 6 mac))
            | _ \<Rightarrow> (WTC_ERROR_NOT_FOUND, None)))"

text \<open>What the environment does in one attempt: \<open>inet_pton\<close> on the address text, the broadcast, the table of
  addresses for an address, the allocations, the exchange with the device on the two ways, the clock
  when it fails, and what the array of slots on the stack held.\<close>

record connect_env =
  cn_inet_pton :: "string \<Rightarrow> u32 option"
  cn_sent_ok :: bool
  cn_stack :: "u8 list"
  cn_arp_socket :: int
  cn_arp :: "u32 \<Rightarrow> (bool \<times> u8 list) option"
  cn_create :: create_env
  cn_direct :: attempt_env
  cn_discovery :: discovery_env
  cn_fail_ms :: u64
  cn_slots :: "nat \<Rightarrow> slot_config"

text \<open>The device to connect: by its name, else by its address, else from the table of addresses.\<close>

definition target_address :: "connect_env \<Rightarrow> string option \<Rightarrow> u32" where
  "target_address env device_ip_str =
     (case device_ip_str of
        None \<Rightarrow> 0
      | Some s \<Rightarrow> if s = [] then 0 else (case cn_inet_pton env s of Some ip \<Rightarrow> ip | None \<Rightarrow> 0))"

definition synthetic_device :: "string \<Rightarrow> u32 \<Rightarrow> u8 list \<Rightarrow> dcp_device_info" where
  "synthetic_device station_name ip mac =
     (cache_entry mac 0)\<lparr>dv_ip_address := ip, dv_station_name := cstr_copy 63 station_name, dv_vendor_id := PN_VENDOR_ID,
        dv_device_id := PN_DEVICE_ID, dv_ip_set := True, dv_name_set := True\<rparr>"

definition lookup_device :: "connect_env \<Rightarrow> string \<Rightarrow> u32 \<Rightarrow> dcp_device_info list \<Rightarrow> dcp_device_info option" where
  "lookup_device env station_name target_ip devices =
     (case List.find (\<lambda>d. dv_station_name d = station_name) devices of
        Some d \<Rightarrow> Some d
      | None \<Rightarrow>
          if target_ip = 0 then None
          else
            (case List.find (\<lambda>d. dv_ip_address d = target_ip) devices of
               Some d \<Rightarrow> Some d
             | None \<Rightarrow>
                 (case arp_lookup_mac (cn_arp_socket env) (cn_arp env target_ip) of
                    (WTC_OK, Some mac) \<Rightarrow> Some (synthetic_device station_name target_ip mac)
                  | _ \<Rightarrow> None)))"

definition cached_devices :: "dcp_discovery option \<Rightarrow> dcp_device_info list" where
  "cached_devices dcp = (case dcp_get_devices dcp True True 64 of (_, Some (ds, _)) \<Rightarrow> ds | _ \<Rightarrow> [])"

text \<open>The first part, under the lock. \<open>slots\<close> are the slots to copy, empty for a discovery.\<close>

definition connect_prepare ::
  "connect_env \<Rightarrow> string \<Rightarrow> string option \<Rightarrow> slot_config list \<Rightarrow> profinet_controller \<Rightarrow>
   (wtc_result \<times> nat option) \<times> profinet_controller" where
  "connect_prepare env station_name device_ip_str slots ctrl =
     (if ar_manager_get_ar (pc_ar_manager ctrl) (Some station_name) \<noteq> None then ((WTC_ERROR_ALREADY_EXISTS, None), ctrl)
      else
        (let target_ip = target_address env device_ip_str;
             ctrl = ctrl\<lparr>pc_dcp := snd (dcp_discovery_identify_all (pc_dcp ctrl) (cn_sent_ok env) (cn_stack env))\<rparr>
         in case lookup_device env station_name target_ip (cached_devices (pc_dcp ctrl)) of
              None \<Rightarrow> ((WTC_ERROR_NOT_FOUND, None), ctrl)
            | Some device \<Rightarrow>
                (let config = \<lparr>cf_station_name = cstr_copy 63 station_name, cf_device_mac = dv_mac_address device,
                       cf_device_ip = dv_ip_address device, cf_vendor_id = PN_VENDOR_ID, cf_device_id = PN_DEVICE_ID,
                       cf_slots = slots, cf_cycle_time_us = pf_cycle_time_us (pc_config ctrl),
                       cf_reduction_ratio = pf_reduction_ratio (pc_config ctrl), cf_watchdog_ms = DEFAULT_WATCHDOG_MS\<rparr>;
                     ((res, ar), manager) = ar_manager_create_ar (cn_create env) (pc_ar_manager ctrl) (Some config) True;
                     ctrl = ctrl\<lparr>pc_ar_manager := manager\<rparr>
                 in case ar of
                      Some i \<Rightarrow>
                        ((WTC_OK, Some i),
                         ctrl\<lparr>pc_ar_manager := map_option (\<lambda>m. set_ar i ((mg_ars m ! i)\<lparr>ar_connecting := True\<rparr>) m) manager\<rparr>)
                    | None \<Rightarrow> ((res, None), ctrl))))"

definition connect_attempt :: "connect_env \<Rightarrow> bool \<Rightarrow> nat \<Rightarrow> profinet_controller \<Rightarrow> wtc_result \<times> profinet_controller" where
  "connect_attempt env use_discovery i ctrl =
     (case pc_ar_manager ctrl of
        None \<Rightarrow> (WTC_ERROR_INVALID_PARAM, ctrl)
      | Some m \<Rightarrow>
          (let (res, mo, aro) = (if use_discovery then ar_connect_with_discovery (cn_discovery env) (Some m) (Some (mg_ars m ! i))
                                 else ar_send_connect_request (cn_direct env) (Some m) (Some (mg_ars m ! i)))
           in (res, ctrl\<lparr>pc_ar_manager := Some (set_ar i (the aro) (the mo))\<rparr>)))"

text \<open>The last part, with the lock again. The fields of a slot that are not assigned are those of the
  uninitialised array.\<close>

definition discovered_slot_config :: "slot_config \<Rightarrow> ar_slot_info \<Rightarrow> slot_config" where
  "discovered_slot_config old s =
     old\<lparr>sc_slot := uint (si_slot s), sc_subslot := uint (si_subslot s), sc_type := si_type s,
       sc_measurement_type := si_measurement_type s, sc_actuator_type := si_actuator_type s, sc_enabled := True,
       sc_name := [], sc_unit := []\<rparr>"

definition connect_finish ::
  "connect_env \<Rightarrow> string \<Rightarrow> nat \<Rightarrow> wtc_result \<Rightarrow> profinet_controller \<Rightarrow> (wtc_result \<times> pn_event list) \<times> profinet_controller" where
  "connect_finish env station_name i res ctrl =
     (case pc_ar_manager ctrl of
        None \<Rightarrow> ((res, []), ctrl)
      | Some m \<Rightarrow>
          (let ar = (mg_ars m ! i)\<lparr>ar_connecting := False\<rparr> in
           if res \<noteq> WTC_OK
           then ((res, []),
                 ctrl\<lparr>pc_ar_manager := Some (set_ar i (ar\<lparr>ar_state := AR_STATE_ABORT, ar_last_error := res,
                   ar_retry_count := ar_retry_count ar + 1, ar_last_activity_ms := cn_fail_ms env\<rparr>) m)\<rparr>)
           else
             ((WTC_OK,
               if pf_on_slots_discovered (pc_config ctrl) \<and> ar_slot_info ar \<noteq> []
               then [Slots_Discovered station_name
                       (map (\<lambda>k. discovered_slot_config (cn_slots env k) (ar_slot_info ar ! k))
                          [0..<min (length (ar_slot_info ar)) WTC_MAX_SLOTS])]
               else []),
              ctrl\<lparr>pc_ar_manager := Some (set_ar i ar m)\<rparr>)))"

definition profinet_controller_connect ::
  "connect_env \<Rightarrow> profinet_controller option \<Rightarrow> string option \<Rightarrow> string option \<Rightarrow> slot_config list option \<Rightarrow> int \<Rightarrow>
   (wtc_result \<times> pn_event list) \<times> profinet_controller option" where
  "profinet_controller_connect env controller station_name device_ip_str slots slot_count =
     on_handle (WTC_ERROR_INVALID_PARAM, []) (\<lambda>ctrl.
       case station_name of
         None \<Rightarrow> ((WTC_ERROR_INVALID_PARAM, []), ctrl)
       | Some name \<Rightarrow>
           (let use_discovery = (slots = None \<or> slot_count \<le> 0);
                copied = (if use_discovery then [] else take (nat slot_count) (the slots));
                ((res, ar), ctrl) = connect_prepare env name device_ip_str copied ctrl
            in case ar of
                 None \<Rightarrow> ((res, []), ctrl)
               | Some i \<Rightarrow>
                   (let (res, ctrl) = connect_attempt env use_discovery i ctrl in
                    connect_finish env name i res ctrl))) controller"

text \<open>The queue is emptied under the lock, then each device is connected.\<close>

definition profinet_controller_process ::
  "(nat \<Rightarrow> connect_env) \<Rightarrow> process_env \<Rightarrow> profinet_controller option \<Rightarrow>
   (wtc_result \<times> pn_event list) \<times> profinet_controller option" where
  "profinet_controller_process envs manual =
     on_handle (WTC_ERROR_INVALID_PARAM, []) (\<lambda>ctrl.
       let local = pc_pending_connects ctrl;
           (evs, ctrl) = for_each (\<lambda>i c.
             let ((_, evs), co) = profinet_controller_connect (envs i) (Some c) (Some (fst (local ! i))) (Some (snd (local ! i))) None 0
             in (evs, the co)) [0..<length local] (ctrl\<lparr>pc_pending_connects := []\<rparr>)
       in if pc_running ctrl then ((WTC_OK, evs), ctrl)
          else
            (let ((_, changes), manager) = ar_manager_process manual (pc_ar_manager ctrl) in
             ((WTC_OK, evs @ state_events ctrl changes), ctrl\<lparr>pc_ar_manager := manager\<rparr>)))"

definition profinet_controller_get_ar :: "profinet_controller option \<Rightarrow> string option \<Rightarrow> nat option" where
  "profinet_controller_get_ar controller station_name =
     with_handle None (\<lambda>ctrl. ar_manager_get_ar (pc_ar_manager ctrl) station_name) controller"

definition profinet_controller_disconnect ::
  "rpc_io \<Rightarrow> u64 \<Rightarrow> profinet_controller option \<Rightarrow> string option \<Rightarrow> (wtc_result \<times> pn_event list) \<times> profinet_controller option" where
  "profinet_controller_disconnect net now_ms controller station_name =
     on_handle (WTC_ERROR_INVALID_PARAM, []) (\<lambda>ctrl.
       case station_name of
         None \<Rightarrow> ((WTC_ERROR_INVALID_PARAM, []), ctrl)
       | Some name \<Rightarrow>
           (case ar_manager_get_ar (pc_ar_manager ctrl) (Some name) of
              None \<Rightarrow> ((WTC_ERROR_NOT_FOUND, []), ctrl)
            | Some i \<Rightarrow>
                (let m = the (pc_ar_manager ctrl);
                     ((_, evs), mo, aro) = ar_send_release_request net now_ms (Some m) (Some (mg_ars m ! i));
                     (res, manager) = ar_manager_delete_ar (Some (set_ar i (the aro) (the mo))) (Some name)
                 in ((res, state_events ctrl evs), ctrl\<lparr>pc_ar_manager := manager\<rparr>)))) controller"

section \<open>Inputs and outputs\<close>

text \<open>The offset of a slot: the sizes of the slots of the same type before it, with 16 bits.\<close>

fun slot_offset :: "slot_type \<Rightarrow> u16 \<Rightarrow> u16 \<Rightarrow> u16 \<Rightarrow> ar_slot_info list \<Rightarrow> u16 option" where
  "slot_offset t width slot offset [] = None"
| "slot_offset t width slot offset (s # ss) =
     (if si_type s = t then (if si_slot s = slot then Some offset else slot_offset t width slot (offset + width) ss)
      else slot_offset t width slot offset ss)"

definition data_iocr :: "iocr_type \<Rightarrow> profinet_ar \<Rightarrow> nat option" where
  "data_iocr t ar = find_pos (\<lambda>c. io_type c = t \<and> io_data_buffer c \<noteq> None) (ar_iocr ar)"

text \<open>The bytes copied and the status. The pointers are not NULL where the truth values say so.\<close>

definition profinet_controller_read_input ::
  "profinet_controller option \<Rightarrow> string option \<Rightarrow> int \<Rightarrow> bool \<Rightarrow> nat option \<Rightarrow> bool \<Rightarrow>
   wtc_result \<times> u8 list option \<times> iops option" where
  "profinet_controller_read_input controller station_name slot data_ok len status_ok =
     (let bad = (if status_ok then Some IOPS_BAD else None) in
      case (controller, station_name, len) of
        (Some ctrl, Some name, Some n) \<Rightarrow>
          if \<not> data_ok then (WTC_ERROR_INVALID_PARAM, None, None)
          else
            (case ar_manager_get_ar (pc_ar_manager ctrl) (Some name) of
               None \<Rightarrow> (WTC_ERROR_NOT_FOUND, None, None)
             | Some i \<Rightarrow>
                 (let ar = mg_ars (the (pc_ar_manager ctrl)) ! i in
                  if ar_state ar \<noteq> AR_STATE_RUN then (WTC_ERROR_NOT_INITIALIZED, None, bad)
                  else
                    (case data_iocr IOCR_TYPE_INPUT ar of
                       None \<Rightarrow> (WTC_ERROR_NOT_FOUND, None, bad)
                     | Some j \<Rightarrow>
                         (let c = ar_iocr ar ! j in
                          case slot_offset SLOT_TYPE_SENSOR GSDML_INPUT_DATA_SIZE (word_of_int slot) 0 (ar_slot_info ar) of
                            None \<Rightarrow> (WTC_ERROR_NOT_FOUND, None, bad)
                          | Some offset \<Rightarrow>
                              if unat offset + unat GSDML_INPUT_DATA_SIZE \<le> unat (io_data_length c)
                              then (WTC_OK, Some (mem_read (the (io_data_buffer c)) (unat offset)
                                      (if n \<ge> unat GSDML_INPUT_DATA_SIZE then unat GSDML_INPUT_DATA_SIZE else n)),
                                    if status_ok then Some IOPS_GOOD else None)
                              else (WTC_ERROR_NOT_FOUND, None, bad)))))
      | _ \<Rightarrow> (WTC_ERROR_INVALID_PARAM, None, None))"

text \<open>\<open>data\<close> is the memory the caller gives and \<open>len\<close> the length it claims.\<close>

definition profinet_controller_write_output ::
  "profinet_controller option \<Rightarrow> string option \<Rightarrow> int \<Rightarrow> u8 list option \<Rightarrow> nat \<Rightarrow> wtc_result \<times> profinet_controller option" where
  "profinet_controller_write_output controller station_name slot data len =
     on_handle WTC_ERROR_INVALID_PARAM (\<lambda>ctrl.
       case (station_name, data) of
         (Some name, Some bytes) \<Rightarrow>
           (case ar_manager_get_ar (pc_ar_manager ctrl) (Some name) of
              None \<Rightarrow> (WTC_ERROR_NOT_FOUND, ctrl)
            | Some i \<Rightarrow>
                (let m = the (pc_ar_manager ctrl); ar = mg_ars m ! i in
                 if ar_state ar \<noteq> AR_STATE_RUN then (WTC_ERROR_NOT_INITIALIZED, ctrl)
                 else
                   (case data_iocr IOCR_TYPE_OUTPUT ar of
                      None \<Rightarrow> (WTC_ERROR_NOT_FOUND, ctrl)
                    | Some j \<Rightarrow>
                        (case slot_offset SLOT_TYPE_ACTUATOR GSDML_OUTPUT_DATA_SIZE (word_of_int slot) 0 (ar_slot_info ar) of
                           None \<Rightarrow> (WTC_ERROR_NOT_FOUND, ctrl)
                         | Some offset \<Rightarrow>
                             (let write_len = (if len \<le> unat GSDML_OUTPUT_DATA_SIZE then len else unat GSDML_OUTPUT_DATA_SIZE) in
                              if unat offset + write_len \<le> unat (io_data_length (ar_iocr ar ! j))
                              then (WTC_OK, ctrl\<lparr>pc_ar_manager := Some (set_ar i (set_iocr j (\<lambda>c. c\<lparr>io_data_buffer :=
                                      map_option (\<lambda>b. memcpy_at b (unat offset) (take write_len bytes)) (io_data_buffer c)\<rparr>) ar) m)\<rparr>)
                              else (WTC_ERROR_NOT_FOUND, ctrl))))))
       | _ \<Rightarrow> (WTC_ERROR_INVALID_PARAM, ctrl)) controller"

section \<open>Records\<close>

text \<open>The request. The length field of the header is stored with the most significant byte first, unlike
  the other fields of this header. The bytes are returned even where they are more than the array has.\<close>

definition record_header :: "u8 list \<Rightarrow> u8 list \<Rightarrow> u16 \<Rightarrow> u16 \<Rightarrow> u8 list" where
  "record_header activity object_uuid opnum fragment_length =
     [4, RPC_PACKET_TYPE_REQUEST, 0x22, 0, RPC_DREP_LITTLE_ENDIAN, 0, 0, 0] @ uuid_swap_fields object_uuid @
     uuid_swap_fields PNIO_DEVICE_INTERFACE_UUID @ uuid_swap_fields activity @ le32 0 @ le32 1 @ le32 0 @ le16 opnum @
     le16 0 @ le16 0 @ be16 fragment_length @ le16 0 @ [0, 0]"

definition record_block :: "bool \<Rightarrow> u8 list \<Rightarrow> u32 \<Rightarrow> u16 \<Rightarrow> u16 \<Rightarrow> u16 \<Rightarrow> u8 list \<Rightarrow> u8 list" where
  "record_block is_write object_uuid api slot subslot index data =
     be16 (if is_write then BLOCK_TYPE_IOD_WRITE_REQ_HEADER else BLOCK_TYPE_IOD_READ_REQ_HEADER) @
     be16 (if is_write then of_nat (24 + length data) else 24) @ [1, 0] @ be16 1 @ object_uuid @ be32 api @ be16 slot @
     be16 subslot @ [0, 0] @ be16 index @ be32 (if is_write then of_nat (length data) else 0) @
     (if is_write then data else [])"

definition build_rpc_record_request ::
  "nat \<Rightarrow> uuid_seed \<Rightarrow> u8 list \<Rightarrow> u32 \<Rightarrow> u16 \<Rightarrow> u16 \<Rightarrow> u16 \<Rightarrow> u8 list \<Rightarrow> bool \<Rightarrow> wtc_result \<times> u8 list option" where
  "build_rpc_record_request buf_len seed object_uuid api slot subslot index data is_write =
     (if buf_len < RPC_HEADER_SIZE + 64 then (WTC_ERROR_NO_MEMORY, None)
      else
        (let block = record_block is_write object_uuid api slot subslot index data in
         (WTC_OK, Some (record_header (rpc_generate_uuid seed) object_uuid (if is_write then RPC_OPNUM_WRITE else RPC_OPNUM_READ)
            (of_nat (length block)) @ block))))"

definition send_rpc_request :: "rpc_io \<Rightarrow> nat \<Rightarrow> wtc_result \<times> (mem \<times> nat) option" where
  "send_rpc_request net resp_len =
     (if rx_sent net < 0 then (WTC_ERROR_IO, None)
      else if rx_poll net < 0 then (WTC_ERROR_IO, None)
      else if rx_poll net = 0 then (WTC_ERROR_TIMEOUT, None)
      else (case rx_datagram net of
              None \<Rightarrow> (WTC_ERROR_IO, None)
            | Some d \<Rightarrow> (WTC_OK, Some (received (rx_stack net) (take resp_len d), length (take resp_len d)))))"

text \<open>What both record functions do first: the relationship must run and the socket of the manager exist.\<close>

definition record_target :: "profinet_controller \<Rightarrow> string \<Rightarrow> wtc_result \<times> profinet_ar option" where
  "record_target ctrl name =
     (case ar_manager_get_ar (pc_ar_manager ctrl) (Some name) of
        None \<Rightarrow> (WTC_ERROR_NOT_FOUND, None)
      | Some i \<Rightarrow>
          (let ar = mg_ars (the (pc_ar_manager ctrl)) ! i in
           if ar_state ar \<noteq> AR_STATE_RUN then (WTC_ERROR_NOT_CONNECTED, None)
           else if ar_manager_get_rpc_context (pc_ar_manager ctrl) = None then (WTC_ERROR_NOT_CONNECTED, None)
           else (WTC_OK, Some ar)))"

definition record_response :: "mem \<Rightarrow> nat \<Rightarrow> nat \<Rightarrow> wtc_result \<times> u8 list option" where
  "record_response response resp_len len =
     (if resp_len < RPC_HEADER_SIZE + 40 then (WTC_ERROR_PROTOCOL, None)
      else if hdr_packet_type response \<noteq> RPC_PACKET_TYPE_RESPONSE then (WTC_ERROR_PROTOCOL, None)
      else
        (let data_offset = RPC_HEADER_SIZE + 38;
             record_len = unat (read_u32_be response (RPC_HEADER_SIZE + 34));
             record_len = (if record_len > resp_len - data_offset then resp_len - data_offset else record_len);
             copy_len = (if record_len < len then record_len else len)
         in (WTC_OK, Some (mem_bytes response data_offset copy_len))))"

text \<open>The request sent and the data read. \<open>len\<close> is the size of the caller's memory, \<open>None\<close> for a NULL pointer.\<close>

definition profinet_controller_read_record ::
  "uuid_seed \<Rightarrow> rpc_io \<Rightarrow> profinet_controller option \<Rightarrow> string option \<Rightarrow> u32 \<Rightarrow> u16 \<Rightarrow> u16 \<Rightarrow> u16 \<Rightarrow> bool \<Rightarrow> nat option \<Rightarrow>
   wtc_result \<times> u8 list option \<times> u8 list option" where
  "profinet_controller_read_record seed net controller station_name api slot subslot index data_ok len =
     (case (controller, station_name, len) of
        (Some ctrl, Some name, Some n) \<Rightarrow>
          if \<not> data_ok then (WTC_ERROR_INVALID_PARAM, None, None)
          else
            (case record_target ctrl name of
               (res, None) \<Rightarrow> (res, None, None)
             | (_, Some ar) \<Rightarrow>
                 (case build_rpc_record_request 512 seed (ar_uuid ar) api slot subslot index [] False of
                    (res, None) \<Rightarrow> (res, None, None)
                  | (_, Some request) \<Rightarrow>
                      (case send_rpc_request net 2048 of
                         (res, None) \<Rightarrow> (res, Some request, None)
                       | (_, Some (response, resp_len)) \<Rightarrow>
                           (let (res, data) = record_response response resp_len n in (res, Some request, data)))))
      | _ \<Rightarrow> (WTC_ERROR_INVALID_PARAM, None, None))"

definition profinet_controller_write_record ::
  "uuid_seed \<Rightarrow> rpc_io \<Rightarrow> profinet_controller option \<Rightarrow> string option \<Rightarrow> u32 \<Rightarrow> u16 \<Rightarrow> u16 \<Rightarrow> u16 \<Rightarrow> u8 list option \<Rightarrow> nat \<Rightarrow>
   wtc_result \<times> u8 list option" where
  "profinet_controller_write_record seed net controller station_name api slot subslot index data len =
     (case (controller, station_name) of
        (Some ctrl, Some name) \<Rightarrow>
          if data = None \<and> len > 0 then (WTC_ERROR_INVALID_PARAM, None)
          else
            (case record_target ctrl name of
               (res, None) \<Rightarrow> (res, None)
             | (_, Some ar) \<Rightarrow>
                 (case build_rpc_record_request 2048 seed (ar_uuid ar) api slot subslot index
                         (case data of Some d \<Rightarrow> take len d | None \<Rightarrow> []) True of
                    (res, None) \<Rightarrow> (res, None)
                  | (_, Some request) \<Rightarrow>
                      (case send_rpc_request net 512 of
                         (res, None) \<Rightarrow> (res, Some request)
                       | (_, Some (response, resp_len)) \<Rightarrow>
                           (if resp_len < RPC_HEADER_SIZE then WTC_ERROR_PROTOCOL
                            else if hdr_packet_type response \<noteq> RPC_PACKET_TYPE_RESPONSE then WTC_ERROR_PROTOCOL
                            else WTC_OK, Some request))))
      | _ \<Rightarrow> (WTC_ERROR_INVALID_PARAM, None))"

section \<open>Statistics and discovery\<close>

definition profinet_controller_get_stats :: "profinet_controller option \<Rightarrow> bool \<Rightarrow> wtc_result \<times> cycle_stats option" where
  "profinet_controller_get_stats controller stats_ok =
     with_handle (WTC_ERROR_INVALID_PARAM, None) (\<lambda>ctrl.
       if \<not> stats_ok then (WTC_ERROR_INVALID_PARAM, None) else (WTC_OK, Some (pc_stats ctrl))) controller"

definition profinet_controller_discover_all ::
  "bool \<Rightarrow> u8 list \<Rightarrow> profinet_controller option \<Rightarrow> (wtc_result \<times> u8 list option) \<times> profinet_controller option" where
  "profinet_controller_discover_all sent_ok stack =
     on_handle (WTC_ERROR_INVALID_PARAM, None) (\<lambda>ctrl.
       let (out, dcp) = dcp_discovery_identify_all (pc_dcp ctrl) sent_ok stack in (out, ctrl\<lparr>pc_dcp := dcp\<rparr>))"

definition profinet_controller_get_discovered_devices ::
  "profinet_controller option \<Rightarrow> bool \<Rightarrow> bool \<Rightarrow> int \<Rightarrow> wtc_result \<times> (dcp_device_info list \<times> int) option" where
  "profinet_controller_get_discovered_devices controller devices_ok count_ok max_devices =
     with_handle (WTC_ERROR_INVALID_PARAM, None) (\<lambda>ctrl.
       dcp_get_devices (pc_dcp ctrl) devices_ok count_ok max_devices) controller"

end
