(* ===== verification/PnData.thy ===== *)
theory PnData
  imports PnController
begin

text \<open>
  The path of the process data through the PROFINET stack: the layout of the cyclic frames that the
  connect request announces to a device, and where the controller reads and writes in these frames.
\<close>

section \<open>The announced layout\<close>

text \<open>The data objects of one direction as the connect request lists them: slot, subslot, offset and length
  of the data.\<close>

type_synonym io_object = "u16 \<times> u16 \<times> nat \<times> nat"

fun io_objects :: "bool \<Rightarrow> nat \<Rightarrow> expected_submodule list \<Rightarrow> io_object list" where
  "io_objects inp offset [] = []"
| "io_objects inp offset (e # es) =
     (if in_iodata inp e
      then (ex_slot e, ex_subslot e, offset, unat (ex_data_length e)) # io_objects inp (offset + unat (ex_data_length e) + 1) es
      else io_objects inp offset es)"

text \<open>They are what the builder of the request writes.\<close>

lemma io_objects_written:
  "fst (iodata_objects inp (of_nat offset) es) =
     concat (map (\<lambda>(slot, subslot, off, _). be16 slot @ be16 subslot @ be16 (of_nat off)) (io_objects inp offset es))"
proof (induction es arbitrary: offset)
  case (Cons e es)
  have "of_nat offset + ex_data_length e + 1 = of_nat (offset + unat (ex_data_length e) + 1)" by simp
  then show ?case using Cons.IH by (simp add: split_beta Let_def del: of_nat_add of_nat_Suc)
qed simp

text \<open>The objects that carry data, for the request of a relationship.\<close>

definition announced :: "bool \<Rightarrow> ar_manager \<Rightarrow> profinet_ar \<Rightarrow> io_object list" where
  "announced inp m ar =
     filter (\<lambda>(_, _, _, len). len \<noteq> 0) (io_objects inp 0 (cp_expected_config (build_connect_params m ar)))"

text \<open>Sensor modules have five bytes of input and actuator modules four bytes of output.\<close>

definition plain_module :: "expected_submodule \<Rightarrow> bool" where
  "plain_module e \<longleftrightarrow> ex_data_length e = (if ex_is_input e then 5 else 4)"

lemma plain_objects:
  assumes "list_all plain_module es"
  shows "filter (\<lambda>(_, _, _, len). len \<noteq> 0) (io_objects True offset es) =
      map (\<lambda>(k, e). (ex_slot e, ex_subslot e, offset + 6 * k, 5)) (enumerate 0 (filter ex_is_input es))"
    and "filter (\<lambda>(_, _, _, len). len \<noteq> 0) (io_objects False offset es) =
      map (\<lambda>(k, e). (ex_slot e, ex_subslot e, offset + 5 * k, 4)) (enumerate 0 (filter (\<lambda>e. \<not> ex_is_input e) es))"
proof -
  have shift: "map (\<lambda>(k, e). f (g e) (h e) (c + w * k)) (enumerate (Suc 0) xs) =
      map (\<lambda>(k, e). f (g e) (h e) (c + w + w * k)) (enumerate 0 xs)" for f :: "u16 \<Rightarrow> u16 \<Rightarrow> nat \<Rightarrow> io_object" and g h c w xs
    by (rule nth_equalityI) (simp_all add: nth_enumerate_eq add.assoc)
  show "filter (\<lambda>(_, _, _, len). len \<noteq> 0) (io_objects True offset es) =
      map (\<lambda>(k, e). (ex_slot e, ex_subslot e, offset + 6 * k, 5)) (enumerate 0 (filter ex_is_input es))"
    using assms
  proof (induction es arbitrary: offset)
    case (Cons e es)
    have plain: "list_all plain_module es" "ex_is_input e \<Longrightarrow> ex_data_length e = 5" "\<not> ex_is_input e \<Longrightarrow> ex_data_length e = 4"
      using Cons.prems by (simp_all only: list.pred_inject(2)) (simp_all add: plain_module_def)
    note sh = shift [of "\<lambda>a b c. (a, b, c, 5)" ex_slot ex_subslot offset 6 "filter ex_is_input es"]
    show ?case
    proof (cases "ex_is_input e")
      case True
      have "io_objects True offset (e # es) = (ex_slot e, ex_subslot e, offset, 5) # io_objects True (offset + 6) es"
        using plain(2) [OF True] True by (simp add: in_iodata_def) (simp add: add.commute)
      with True sh Cons.IH [OF plain(1), of "offset + 6"] show ?thesis by simp
    next
      case False
      with plain(3) Cons.IH [OF plain(1), of offset] show ?thesis by (simp add: in_iodata_def)
    qed
  qed simp
  show "filter (\<lambda>(_, _, _, len). len \<noteq> 0) (io_objects False offset es) =
      map (\<lambda>(k, e). (ex_slot e, ex_subslot e, offset + 5 * k, 4)) (enumerate 0 (filter (\<lambda>e. \<not> ex_is_input e) es))"
    using assms
  proof (induction es arbitrary: offset)
    case (Cons e es)
    have plain: "list_all plain_module es" "ex_is_input e \<Longrightarrow> ex_data_length e = 5" "\<not> ex_is_input e \<Longrightarrow> ex_data_length e = 4"
      using Cons.prems by (simp_all only: list.pred_inject(2)) (simp_all add: plain_module_def)
    note sh = shift [of "\<lambda>a b c. (a, b, c, 4)" ex_slot ex_subslot offset 5 "filter (\<lambda>e. \<not> ex_is_input e) es"]
    show ?case
    proof (cases "ex_is_input e")
      case False
      have "io_objects False offset (e # es) = (ex_slot e, ex_subslot e, offset, 4) # io_objects False (offset + 5) es"
        using plain(3) [OF False] False by (simp add: in_iodata_def) (simp add: add.commute)
      with False sh Cons.IH [OF plain(1), of "offset + 5"] show ?thesis by simp
    next
      case True
      with plain(2) Cons.IH [OF plain(1), of offset] show ?thesis by (simp add: in_iodata_def)
    qed
  qed simp
qed

text \<open>The slots of a relationship that exchange data, and the relationships whose request lists exactly
  these: either the slots were given, or they were learned from the device and every module of it is
  one of the catalogue.\<close>

definition data_slots :: "slot_type \<Rightarrow> profinet_ar \<Rightarrow> ar_slot_info list" where
  "data_slots t ar = filter (\<lambda>s. si_type s = t) (ar_slot_info ar)"

definition catalogue_module :: "discovered_module \<Rightarrow> bool" where
  "catalogue_module d \<longleftrightarrow> dm_submodule_ident d = dm_module_ident d + 1 \<and>
     (if is_input_module (dm_module_ident d) then True
      else dm_module_ident d \<ge> GSDML_MOD_PUMP \<and> dm_module_ident d \<le> GSDML_MOD_GENERIC_DO)"

definition known_layout :: "profinet_ar \<Rightarrow> bool" where
  "known_layout ar \<longleftrightarrow> length (expected_modules ar) \<le> WTC_MAX_SLOTS - 3 \<and>
     (ar_has_discovered_modules ar \<longrightarrow>
        list_all catalogue_module (filter (\<lambda>d. dm_slot d \<noteq> 0) (ar_discovered_modules ar)) \<and>
        map (\<lambda>s. (si_slot s, si_type s)) (ar_slot_info ar) =
          map (\<lambda>d. (dm_slot d, if is_input_module (dm_module_ident d) then SLOT_TYPE_SENSOR else SLOT_TYPE_ACTUATOR))
            (filter (\<lambda>d. dm_slot d \<noteq> 0) (ar_discovered_modules ar)))"

lemma catalogue_plain:
  assumes "catalogue_module d"
  shows "plain_module (expected_discovered d) \<and> ex_is_input (expected_discovered d) = is_input_module (dm_module_ident d) \<and>
    ex_slot (expected_discovered d) = dm_slot d"
proof -
  have sub: "dm_submodule_ident d = dm_module_ident d + 1" using assms by (simp add: catalogue_module_def)
  show ?thesis
  proof (cases "is_input_module (dm_module_ident d)")
    case True
    then have "0x10 \<le> dm_module_ident d" "dm_module_ident d \<le> 0x70" by (simp_all add: is_input_module_def gsdml_idents)
    then have "0x11 \<le> dm_module_ident d + 1" "dm_module_ident d + 1 \<le> 0x71"
      by (simp_all add: word_le_nat_alt unat_word_ariths)
    with sub True show ?thesis by (simp add: expected_discovered_def plain_module_def Let_def)
  next
    case False
    then have "0x100 \<le> dm_module_ident d" "dm_module_ident d \<le> 0x120"
      using assms by (simp_all add: catalogue_module_def gsdml_idents)
    then have "0x101 \<le> dm_module_ident d + 1" "dm_module_ident d + 1 \<le> 0x121" "\<not> dm_module_ident d + 1 \<le> 0x71"
      by (simp_all add: word_le_nat_alt unat_word_ariths)
    with sub False show ?thesis by (simp add: expected_discovered_def plain_module_def Let_def)
  qed
qed

lemma given_plain:
  "list_all plain_module (List.map_filter expected_slot ss) \<and>
   map ex_slot (filter ex_is_input (List.map_filter expected_slot ss)) = map si_slot (filter (\<lambda>s. si_type s = SLOT_TYPE_SENSOR) ss) \<and>
   map ex_slot (filter (\<lambda>e. \<not> ex_is_input e) (List.map_filter expected_slot ss)) =
     map si_slot (filter (\<lambda>s. si_type s = SLOT_TYPE_ACTUATOR) ss)"
proof (induction ss)
  case (Cons s ss)
  then show ?case
    by (cases "si_type s") (simp_all add: map_filter_simps expected_slot_def plain_module_def GSDML_INPUT_DATA_SIZE_def GSDML_OUTPUT_DATA_SIZE_def)
qed (simp add: map_filter_simps)

lemma layout_modules:
  assumes "known_layout ar"
  shows "list_all plain_module (expected_modules ar)"
    and "map ex_slot (filter ex_is_input (expected_modules ar)) = map si_slot (data_slots SLOT_TYPE_SENSOR ar)"
    and "map ex_slot (filter (\<lambda>e. \<not> ex_is_input e) (expected_modules ar)) = map si_slot (data_slots SLOT_TYPE_ACTUATOR ar)"
proof -
  have "list_all plain_module (expected_modules ar) \<and>
    map ex_slot (filter ex_is_input (expected_modules ar)) = map si_slot (data_slots SLOT_TYPE_SENSOR ar) \<and>
    map ex_slot (filter (\<lambda>e. \<not> ex_is_input e) (expected_modules ar)) = map si_slot (data_slots SLOT_TYPE_ACTUATOR ar)"
  proof (cases "ar_has_discovered_modules ar")
    case False
    then show ?thesis using given_plain [of "ar_slot_info ar"] by (simp add: expected_modules_def data_slots_def)
  next
    case True
    define ds where "ds = filter (\<lambda>d. dm_slot d \<noteq> 0) (ar_discovered_modules ar)"
    have cat: "list_all catalogue_module ds" and info: "map (\<lambda>s. (si_slot s, si_type s)) (ar_slot_info ar) =
        map (\<lambda>d. (dm_slot d, if is_input_module (dm_module_ident d) then SLOT_TYPE_SENSOR else SLOT_TYPE_ACTUATOR)) ds"
      using assms True by (simp_all add: known_layout_def ds_def)
    have of_type: "map si_slot (filter (\<lambda>s. si_type s = t) ss) = map fst (filter (\<lambda>p. snd p = t) (map (\<lambda>s. (si_slot s, si_type s)) ss))" for t and ss :: "ar_slot_info list"
      by (simp add: filter_map comp_def)
    have modules: "expected_modules ar = map expected_discovered ds" using True by (simp add: expected_modules_def ds_def)
    have "list_all plain_module (map expected_discovered ds) \<and>
      map ex_slot (filter ex_is_input (map expected_discovered ds)) = map fst (filter (\<lambda>p. snd p = SLOT_TYPE_SENSOR)
        (map (\<lambda>d. (dm_slot d, if is_input_module (dm_module_ident d) then SLOT_TYPE_SENSOR else SLOT_TYPE_ACTUATOR)) ds)) \<and>
      map ex_slot (filter (\<lambda>e. \<not> ex_is_input e) (map expected_discovered ds)) = map fst (filter (\<lambda>p. snd p = SLOT_TYPE_ACTUATOR)
        (map (\<lambda>d. (dm_slot d, if is_input_module (dm_module_ident d) then SLOT_TYPE_SENSOR else SLOT_TYPE_ACTUATOR)) ds))"
      using cat by (induction ds) (use catalogue_plain in \<open>auto\<close>)
    then show ?thesis by (simp only: modules data_slots_def of_type info)
  qed
  then show "list_all plain_module (expected_modules ar)"
    "map ex_slot (filter ex_is_input (expected_modules ar)) = map si_slot (data_slots SLOT_TYPE_SENSOR ar)"
    "map ex_slot (filter (\<lambda>e. \<not> ex_is_input e) (expected_modules ar)) = map si_slot (data_slots SLOT_TYPE_ACTUATOR ar)"
    by blast+
qed

text \<open>Sensor \<open>k\<close> lies behind the three bytes of the device access point and \<open>k\<close> sensors of six bytes; actuator
  \<open>k\<close> lies behind \<open>k\<close> actuators of five bytes.\<close>

lemma announced_layout:
  assumes "known_layout ar"
  shows "length (announced True m ar) = length (data_slots SLOT_TYPE_SENSOR ar)"
    and "length (announced False m ar) = length (data_slots SLOT_TYPE_ACTUATOR ar)"
    and "k < length (data_slots SLOT_TYPE_SENSOR ar) \<Longrightarrow>
      \<exists>subslot. announced True m ar ! k = (si_slot (data_slots SLOT_TYPE_SENSOR ar ! k), subslot, 3 + 6 * k, 5)"
    and "k < length (data_slots SLOT_TYPE_ACTUATOR ar) \<Longrightarrow>
      \<exists>subslot. announced False m ar ! k = (si_slot (data_slots SLOT_TYPE_ACTUATOR ar ! k), subslot, 5 * k, 4)"
proof -
  note l = layout_modules [OF assms]
  let ?ms = "expected_modules ar"
  have es: "cp_expected_config (build_connect_params m ar) = expected_dap @ ?ms"
    using assms by (simp add: build_connect_params_def known_layout_def Let_def)
  have inputs: "announced True m ar = map (\<lambda>(k, e). (ex_slot e, ex_subslot e, 3 + 6 * k, 5)) (enumerate 0 (filter ex_is_input ?ms))"
    using plain_objects(1) [OF l(1), of 3] by (simp add: announced_def es expected_dap_def in_iodata_def eval_nat_numeral)
  have outputs: "announced False m ar = map (\<lambda>(k, e). (ex_slot e, ex_subslot e, 0 + 5 * k, 4)) (enumerate 0 (filter (\<lambda>e. \<not> ex_is_input e) ?ms))"
    using plain_objects(2) [OF l(1), of 0] by (simp add: announced_def es expected_dap_def in_iodata_def)
  have li: "length (filter ex_is_input ?ms) = length (data_slots SLOT_TYPE_SENSOR ar)"
    and lo: "length (filter (\<lambda>e. \<not> ex_is_input e) ?ms) = length (data_slots SLOT_TYPE_ACTUATOR ar)"
    using l(2, 3) by (metis length_map)+
  show "length (announced True m ar) = length (data_slots SLOT_TYPE_SENSOR ar)"
    "length (announced False m ar) = length (data_slots SLOT_TYPE_ACTUATOR ar)"
    using li lo by (simp_all add: inputs outputs)
  have nth: "map f xs = map g ys \<Longrightarrow> k < length ys \<Longrightarrow> f (xs ! k) = g (ys ! k)" for f g xs ys
    by (metis length_map nth_map)
  show "\<exists>subslot. announced True m ar ! k = (si_slot (data_slots SLOT_TYPE_SENSOR ar ! k), subslot, 3 + 6 * k, 5)"
    if "k < length (data_slots SLOT_TYPE_SENSOR ar)"
    using that li nth [OF l(2) that] by (simp add: inputs nth_enumerate_eq)
  show "\<exists>subslot. announced False m ar ! k = (si_slot (data_slots SLOT_TYPE_ACTUATOR ar ! k), subslot, 5 * k, 4)"
    if "k < length (data_slots SLOT_TYPE_ACTUATOR ar)"
    using that lo nth [OF l(3) that] by (simp add: outputs nth_enumerate_eq)
qed

section \<open>From the frame to the application\<close>

lemma gsdml_sizes: "unat GSDML_INPUT_DATA_SIZE = 5" "unat GSDML_OUTPUT_DATA_SIZE = 4" "GSDML_INPUT_DATA_SIZE + 1 = 6"
  by (simp_all add: GSDML_INPUT_DATA_SIZE_def GSDML_OUTPUT_DATA_SIZE_def)

lemma sensor_events_at:
  assumes "off + 6 * length (filter (\<lambda>s. si_type s = SLOT_TYPE_SENSOR) ss) \<le> unat dl" and "unat dl < 65536"
  shows "sensor_events name dl buf (of_nat off) idx ss =
    map (\<lambda>k. Data_Received name (idx + int k) (mem_read buf (off + 6 * k) 5))
      [0..<length (filter (\<lambda>s. si_type s = SLOT_TYPE_SENSOR) ss)]"
  using assms(1)
proof (induction ss arbitrary: off idx)
  case (Cons s ss)
  show ?case
  proof (cases "si_type s = SLOT_TYPE_SENSOR")
    case True
    let ?n = "length (filter (\<lambda>s. si_type s = SLOT_TYPE_SENSOR) ss)"
    have off: "unat (of_nat off :: u16) = off" using Cons.prems True assms(2) by (simp add: unat_of_nat)
    have nxt: "(of_nat off :: u16) + 6 = of_nat (off + 6)" by simp
    have "sensor_events name dl buf (of_nat (off + 6)) (idx + 1) ss =
        map (\<lambda>k. Data_Received name (idx + 1 + int k) (mem_read buf (off + 6 + 6 * k) 5)) [0..<?n]"
      using Cons.prems True by (intro Cons.IH) simp
    also have "\<dots> = map (\<lambda>k. Data_Received name (idx + int k) (mem_read buf (off + 6 * k) 5)) (map Suc [0..<?n])"
      by (simp add: algebra_simps)
    finally show ?thesis using True Cons.prems
      by (simp only: sensor_events.simps gsdml_sizes nxt off) (simp add: upt_conv_Cons map_Suc_upt del: upt_Suc)
  next
    case False
    with Cons show ?thesis by simp
  qed
qed simp

text \<open>The input connection of a relationship as it is created: one status byte per data object, and room for
  them and the data.\<close>

definition input_layout :: "profinet_ar \<Rightarrow> iocr \<Rightarrow> bool" where
  "input_layout ar c \<longleftrightarrow> io_iodata_count c = 3 + of_nat (length (data_slots SLOT_TYPE_SENSOR ar)) \<and>
     (\<exists>buf. io_data_buffer c = Some buf \<and> length buf = unat (io_data_length c)) \<and>
     3 + 6 * length (data_slots SLOT_TYPE_SENSOR ar) \<le> unat (io_data_length c) \<and> unat (io_data_length c) < 65536"

lemma forward_inputs_at:
  assumes "find_pos (\<lambda>c. io_frame_id c = frame_id \<and> io_type c = IOCR_TYPE_INPUT) (ar_iocr ar) = Some j"
    and "input_layout ar (ar_iocr ar ! j)" and "io_data_buffer (ar_iocr ar ! j) = Some buf"
  shows "forward_inputs frame_id ar =
    map (\<lambda>k. Data_Received (ar_device_station_name ar) (int k) (mem_read buf (3 + 6 * k) 5))
      [0..<length (data_slots SLOT_TYPE_SENSOR ar)]"
proof -
  let ?c = "ar_iocr ar ! j"
  have gen: "List.find (\<lambda>c. io_type c = IOCR_TYPE_INPUT \<and> io_frame_id c = frame_id \<and> io_data_buffer c \<noteq> None) cs = Some (cs ! j)"
    if "find_pos (\<lambda>c. io_frame_id c = frame_id \<and> io_type c = IOCR_TYPE_INPUT) cs = Some j" "io_data_buffer (cs ! j) \<noteq> None" for cs j
    using that by (induction cs arbitrary: j) (auto split: if_splits)
  have found: "List.find (\<lambda>c. io_type c = IOCR_TYPE_INPUT \<and> io_frame_id c = frame_id \<and> io_data_buffer c \<noteq> None) (ar_iocr ar) = Some ?c"
    by (rule gen [OF assms(1)]) (simp add: assms(3))
  have "sensor_events (ar_device_station_name ar) (io_data_length ?c) buf (of_nat 3) 0 (ar_slot_info ar) =
    map (\<lambda>k. Data_Received (ar_device_station_name ar) (0 + int k) (mem_read buf (3 + 6 * k) 5))
      [0..<length (filter (\<lambda>s. si_type s = SLOT_TYPE_SENSOR) (ar_slot_info ar))]"
    using assms(2) by (intro sensor_events_at) (simp_all add: input_layout_def data_slots_def)
  moreover have "io_iodata_count ?c - of_nat (sensor_count (ar_slot_info ar)) = of_nat 3"
    using assms(2) by (simp add: input_layout_def sensor_count_def data_slots_def)
  ultimately show ?thesis using assms(3)
    unfolding forward_inputs_def found by (simp add: Let_def data_slots_def)
qed

lemma rt_frame_stored:
  assumes "length dst = 6" and "length src = 6"
    and "frame = dst @ src @ be16 PROFINET_ETHERTYPE @ be16 frame_id @ csdu @ trailer"
    and "find_pos (\<lambda>ar. \<exists>c \<in> set (ar_iocr ar). io_frame_id c = frame_id) (mg_ars m) = Some i"
    and "find_pos (\<lambda>c. io_frame_id c = frame_id \<and> io_type c = IOCR_TYPE_INPUT) (ar_iocr (mg_ars m ! i)) = Some j"
    and "input_layout (mg_ars m ! i) (ar_iocr (mg_ars m ! i) ! j)"
    and "length csdu = unat (io_data_length (ar_iocr (mg_ars m ! i) ! j))"
  shows "\<exists>ar. ar_handle_rt_frame now_us now_ms (Some m) (Some (frame @ behind)) (length frame) =
      (WTC_OK, Some (m\<lparr>mg_ars := (mg_ars m)[i := ar]\<rparr>)) \<and>
    ar = (set_iocr j (\<lambda>c. c\<lparr>io_data_buffer := Some csdu, io_last_frame_time_us := now_us\<rparr>) (mg_ars m ! i))\<lparr>ar_last_activity_ms := now_ms\<rparr>"
proof -
  let ?ar = "mg_ars m ! i" and ?c = "ar_iocr (mg_ars m ! i) ! j" and ?bs = "frame @ behind"
  obtain buf where buf: "io_data_buffer ?c = Some buf" "length buf = unat (io_data_length ?c)"
    using assms(6) by (auto simp: input_layout_def)
  have len: "length frame = 16 + length csdu + length trailer" using assms(1-3) by simp
  have "9 \<le> length csdu \<or> 3 \<le> length csdu" using assms(6, 7) by (simp add: input_layout_def)
  then have long: "18 \<le> length frame" using len by auto
  have bytes: "of_be16 (?bs ! 12) (?bs ! 13) = PROFINET_ETHERTYPE" "of_be16 (?bs ! 14) (?bs ! 15) = frame_id"
    using assms(1-3) by (simp_all add: nth_append be_fields)
  have vlan: "PROFINET_ETHERTYPE \<noteq> PROFINET_ETHERTYPE_VLAN" by (simp add: PROFINET_ETHERTYPE_def PROFINET_ETHERTYPE_VLAN_def)
  have data: "mem_read ?bs 16 (unat (io_data_length ?c)) = csdu"
    using assms(1-3, 7) by (simp add: mem_read_def)
  have store: "store_rt_data now_us now_ms frame_id 16 ?bs (length frame) ?ar = (WTC_OK,
      (set_iocr j (\<lambda>c. c\<lparr>io_data_buffer := Some csdu, io_last_frame_time_us := now_us\<rparr>) ?ar)\<lparr>ar_last_activity_ms := now_ms\<rparr>)"
    using buf data len assms(5, 7) by (simp add: store_rt_data_def memcpy_at_def set_iocr_def Let_def)
  show ?thesis
    using long bytes vlan store assms(4)
    by (simp add: ar_handle_rt_frame_def frame_consts ar_manager_get_ar_by_frame_id_def Let_def)
qed

text \<open>\<^bold>\<open>C40.\<close> The values of the sensors are taken from where the device was told to put them: a cyclic frame of
  fewer than 2048 bytes without VLAN tag leads to exactly one call of the data callback per sensor, in the order of the
  slots, with the bytes of the frame at the offset and of the length that the connect request
  announced for that sensor. The bytes behind the data, in the frame and in the buffer, have no influence. The
  conditions are that the callback is installed; that the relationship is the first with the frame
  identifier of the frame, and runs; that its request lists its slots (\<open>known_layout\<close>); and that the first
  input connection with the identifier is as it is created (\<open>input_layout\<close>) and as long as the data.\<close>

theorem sensor_values_delivered:
  assumes "length dst = 6" and "length src = 6"
    and "frame = dst @ src @ be16 PROFINET_ETHERTYPE @ be16 frame_id @ csdu @ trailer" and "length frame < 2048"
    and "PROFINET_FRAME_ID_RTC1_MIN \<le> frame_id" and "frame_id \<le> PROFINET_FRAME_ID_RTC1_MAX"
    and "pc_ar_manager ctrl = Some m" and "pf_on_data_received (pc_config ctrl)"
    and "find_pos (\<lambda>ar. \<exists>c \<in> set (ar_iocr ar). io_frame_id c = frame_id) (mg_ars m) = Some i"
    and "ar = mg_ars m ! i" and "ar_state ar = AR_STATE_RUN" and "known_layout ar"
    and "find_pos (\<lambda>c. io_frame_id c = frame_id \<and> io_type c = IOCR_TYPE_INPUT) (ar_iocr ar) = Some j"
    and "input_layout ar (ar_iocr ar ! j)" and "length csdu = unat (io_data_length (ar_iocr ar ! j))"
  shows "fst (receive_frame now_us now_ms (frame @ behind) (int (length frame)) ctrl) =
    map (\<lambda>k. case announced True m ar ! k of (_, _, offset, len) \<Rightarrow>
        Data_Received (ar_device_station_name ar) (int k) (mem_read csdu offset len))
      [0..<length (data_slots SLOT_TYPE_SENSOR ar)]"
proof -
  let ?p = "\<lparr>fp_buffer = frame @ behind, fp_length = length frame, fp_position = 0\<rparr>"
  have "length frame < 2 ^ 64" using assms(4) by simp
  note fs = frame_start [OF assms(1, 2, 3) refl this, of behind]
  let ?ar = "(set_iocr j (\<lambda>c. c\<lparr>io_data_buffer := Some csdu, io_last_frame_time_us := now_us\<rparr>) ar)\<lparr>ar_last_activity_ms := now_ms\<rparr>"
  let ?m = "m\<lparr>mg_ars := (mg_ars m)[i := ?ar]\<rparr>"
  have stored: "ar_handle_rt_frame now_us now_ms (Some m) (Some (frame @ behind)) (length frame) = (WTC_OK, Some ?m)"
    using rt_frame_stored [OF assms(1, 2, 3, 9), of j now_us now_ms behind] assms(10, 13-15) by simp
  have i: "i < length (mg_ars m)" and j: "j < length (ar_iocr ar)" "io_frame_id (ar_iocr ar ! j) = frame_id" "io_type (ar_iocr ar ! j) = IOCR_TYPE_INPUT"
    using assms(9, 13) by (auto dest: find_pos_SomeD)
  have fid: "\<exists>c \<in> set (ar_iocr ?ar). io_frame_id c = frame_id"
    using j by (auto simp: set_iocr_def intro!: bexI [of _ "(ar_iocr ar ! j)\<lparr>io_data_buffer := Some csdu, io_last_frame_time_us := now_us\<rparr>"] set_update_memI)
  have pos: "find_pos (\<lambda>ar. \<exists>c \<in> set (ar_iocr ar). io_frame_id c = frame_id) (mg_ars ?m) = Some i"
    using find_pos_update [OF assms(9), of ?ar] fid by simp
  have jpos: "find_pos (\<lambda>c. io_frame_id c = frame_id \<and> io_type c = IOCR_TYPE_INPUT) (ar_iocr ?ar) = Some j"
    using find_pos_update [OF assms(13)] j by (simp add: set_iocr_def)
  have lay: "input_layout ?ar (ar_iocr ?ar ! j)"
    using assms(14, 15) j by (simp add: input_layout_def data_slots_def set_iocr_def)
  have "forward_inputs frame_id ?ar = map (\<lambda>k. Data_Received (ar_device_station_name ar) (int k) (mem_read csdu (3 + 6 * k) 5))
      [0..<length (data_slots SLOT_TYPE_SENSOR ar)]"
    using forward_inputs_at [OF jpos lay, of csdu] j by (simp add: set_iocr_def data_slots_def)
  also have "\<dots> = map (\<lambda>k. case announced True m ar ! k of (_, _, offset, len) \<Rightarrow>
        Data_Received (ar_device_station_name ar) (int k) (mem_read csdu offset len)) [0..<length (data_slots SLOT_TYPE_SENSOR ar)]"
    using announced_layout(3) [OF assms(12), of _ m] by (intro map_cong refl) force
  finally have fwd: "forward_inputs frame_id ?ar = \<dots>" .
  have rt: "fst (receive_rt now_us now_ms frame_id (frame @ behind) (length frame) ctrl) = forward_inputs frame_id ?ar"
    using pos i assms(7, 8, 11) by (simp add: receive_rt_def stored ar_manager_get_ar_by_frame_id_def set_iocr_def)
  have dcp: "\<not> PROFINET_FRAME_ID_DCP \<le> frame_id"
    using assms(6) by (simp add: PROFINET_FRAME_ID_DCP_def PROFINET_FRAME_ID_RTC1_MAX_def word_le_nat_alt)
  have "\<not> int (length frame) < 16" using assms(1-3) by simp
  then show ?thesis
    using assms(5, 6) dcp rt fwd by (simp add: receive_frame_def fs(1, 2))
qed

text \<open>A station with a sensor, an actuator and a second sensor, and two actuators behind.\<close>

definition sample_slot :: "u16 \<Rightarrow> slot_type \<Rightarrow> ar_slot_info" where
  "sample_slot n t = \<lparr>si_slot = n, si_subslot = 1, si_type = t, si_measurement_type = MEASUREMENT_PH, si_actuator_type = ACTUATOR_PUMP\<rparr>"

definition sample_iocr :: "iocr_type \<Rightarrow> u16 \<Rightarrow> u16 \<Rightarrow> iocr" where
  "sample_iocr t frame_id objects = \<lparr>io_type = t, io_frame_id = frame_id, io_send_clock_factor = 32, io_reduction_ratio = 128,
     io_data_length = 40, io_user_data_length = 10, io_iodata_count = objects, io_iocs_count = 5,
     io_data_buffer = Some (replicate 40 0), io_last_frame_time_us = 0, io_cycle_counter = 0\<rparr>"

definition sample_running :: profinet_ar where
  "sample_running = zero_ar\<lparr>ar_state := AR_STATE_RUN, ar_device_station_name := ''rtu-1'',
     ar_iocr := [sample_iocr IOCR_TYPE_INPUT 0xC001 5, sample_iocr IOCR_TYPE_OUTPUT 0xC002 6],
     ar_slot_info := [sample_slot 1 SLOT_TYPE_SENSOR, sample_slot 2 SLOT_TYPE_ACTUATOR, sample_slot 3 SLOT_TYPE_SENSOR,
       sample_slot 4 SLOT_TYPE_ACTUATOR, sample_slot 5 SLOT_TYPE_ACTUATOR]\<rparr>"

definition sample_ar_manager :: ar_manager where
  "sample_ar_manager = \<lparr>mg_socket_fd = 3, mg_controller_mac = replicate 6 0, mg_controller_ip = 0, mg_if_index = 2,
     mg_interface_name = ''eth0'', mg_ars = [sample_running], mg_session_key_counter = 2, mg_rpc_ctx = zero_rpc_context,
     mg_rpc_initialized = False, mg_controller_uuid = replicate 16 0, mg_controller_station_name = ''controller'',
     mg_state_callback = True\<rparr>"

definition sample_pn_config :: profinet_config where
  "sample_pn_config = \<lparr>pf_interface_name = ''eth0'', pf_mac_address = replicate 6 0, pf_ip_address = 0, pf_subnet_mask = 0,
     pf_gateway = 0, pf_vendor_id = 626, pf_device_id = 3077, pf_station_name = ''controller'', pf_cycle_time_us = 1000000,
     pf_reduction_ratio = 1, pf_send_clock_factor = 32, pf_use_raw_sockets = True, pf_socket_priority = 0,
     pf_on_device_added = True, pf_on_device_removed = True, pf_on_device_state_changed = True,
     pf_on_data_received = True, pf_on_slots_discovered = True\<rparr>"

definition sample_controller :: "ar_manager \<Rightarrow> profinet_controller" where
  "sample_controller m = \<lparr>pc_config = sample_pn_config, pc_raw_socket = 3, pc_dcp = Some sample_discovery, pc_ar_manager = Some m,
     pc_running = True, pc_stats = zero_stats, pc_last_stats_reset_ms = 0, pc_if_index = 2, pc_mac_address = replicate 6 0,
     pc_ip_address = 0, pc_pending_connects = []\<rparr>"

lemma sample_running_facts:
  "known_layout sample_running" "ar_state sample_running = AR_STATE_RUN" "ar_device_station_name sample_running = ''rtu-1''"
  "data_slots SLOT_TYPE_SENSOR sample_running = [sample_slot 1 SLOT_TYPE_SENSOR, sample_slot 3 SLOT_TYPE_SENSOR]"
  "data_slots SLOT_TYPE_ACTUATOR sample_running =
     [sample_slot 2 SLOT_TYPE_ACTUATOR, sample_slot 4 SLOT_TYPE_ACTUATOR, sample_slot 5 SLOT_TYPE_ACTUATOR]"
  "ar_iocr sample_running = [sample_iocr IOCR_TYPE_INPUT 0xC001 5, sample_iocr IOCR_TYPE_OUTPUT 0xC002 6]"
  "mg_ars sample_ar_manager = [sample_running]" "pc_ar_manager (sample_controller m) = Some m"
  by (simp_all add: known_layout_def sample_running_def zero_ar_def data_slots_def sample_slot_def expected_modules_def
      expected_slot_def map_filter_simps WTC_MAX_SLOTS_def sample_ar_manager_def sample_controller_def)

lemma sample_input_layout: "input_layout sample_running (sample_iocr IOCR_TYPE_INPUT 0xC001 5)"
  by (simp add: input_layout_def sample_running_facts sample_iocr_def)

definition sample_csdu :: "u8 list" where
  "sample_csdu = [0x80, 0x80, 0x80, 1, 2, 3, 4, 0, 0x80, 5, 6, 7, 8, 0x40, 0x80] @ replicate 25 0"

theorem sensor_values_delivered_witness:
  "fst (receive_frame 0 0 (replicate 6 1 @ replicate 6 2 @ be16 PROFINET_ETHERTYPE @ be16 0xC001 @ sample_csdu @ [0, 1, 0x35, 0])
      60 (sample_controller sample_ar_manager)) =
    [Data_Received ''rtu-1'' 0 [1, 2, 3, 4, 0], Data_Received ''rtu-1'' 1 [5, 6, 7, 8, 0x40]]"
proof -
  have upt: "[0..<length (data_slots SLOT_TYPE_SENSOR sample_running)] = [0, 1]" by (simp add: sample_running_facts upt_rec)
  have at: "\<exists>s. announced True sample_ar_manager sample_running ! k = (si_slot (data_slots SLOT_TYPE_SENSOR sample_running ! k), s, 3 + 6 * k, 5)"
    if "k < 2" for k using announced_layout(3) [OF sample_running_facts(1), of k sample_ar_manager] that by (simp add: sample_running_facts)
  have cb: "pf_on_data_received (pc_config (sample_controller sample_ar_manager))" by (simp add: sample_controller_def sample_pn_config_def)
  show ?thesis
    using sensor_values_delivered [of "replicate 6 1" "replicate 6 2" _ "0xC001" sample_csdu "[0, 1, 0x35, 0]"
        "sample_controller sample_ar_manager" sample_ar_manager 0 sample_running 0 0 0 "[]", OF _ _ refl]
      sample_input_layout at [of 0] at [of 1] cb
    by (simp add: sample_running_facts upt PROFINET_FRAME_ID_RTC1_MIN_def PROFINET_FRAME_ID_RTC1_MAX_def sample_csdu_def
        sample_iocr_def mem_read_def) auto
qed

section \<open>Inputs and outputs by slot\<close>

lemma slot_offset_at:
  assumes "k < length (filter (\<lambda>s. si_type s = t) ss)" and "distinct (map si_slot (filter (\<lambda>s. si_type s = t) ss))"
  shows "slot_offset t width (si_slot (filter (\<lambda>s. si_type s = t) ss ! k)) offset ss = Some (offset + of_nat k * width)"
  using assms
proof (induction ss arbitrary: k offset)
  case (Cons s ss)
  show ?case
  proof (cases "si_type s = t")
    case True
    show ?thesis
    proof (cases k)
      case 0
      with True show ?thesis by simp
    next
      case (Suc n)
      with True Cons.prems have n: "n < length (filter (\<lambda>s. si_type s = t) ss)" by simp
      then have "si_slot (filter (\<lambda>s. si_type s = t) ss ! n) \<in> si_slot ` set (filter (\<lambda>s. si_type s = t) ss)" by (metis imageI nth_mem)
      then have "si_slot s \<noteq> si_slot (filter (\<lambda>s. si_type s = t) ss ! n)" using True Cons.prems(2) by auto
      with True Suc Cons.IH [OF n, of "offset + width"] Cons.prems(2) show ?thesis by (simp add: algebra_simps)
    qed
  next
    case False
    with Cons show ?thesis by simp
  qed
qed simp

lemma unat_slot_offset:
  assumes "k < length (data_slots t ar)" and "distinct (map si_slot (data_slots t ar))" and "k * unat width < 65536"
  shows "\<exists>offset. slot_offset t width (word_of_int (uint (si_slot (data_slots t ar ! k)))) 0 (ar_slot_info ar) = Some offset \<and>
    unat offset = k * unat width"
proof -
  have "unat (of_nat k * width :: u16) = k * unat width"
    using assms(3) by (simp add: unat_word_ariths unat_of_nat) (metis mod_less mod_mult_left_eq)
  then show ?thesis using slot_offset_at [of k t "ar_slot_info ar" width 0] assms(1, 2) by (simp add: data_slots_def)
qed

text \<open>An output is not stored where the device was told to look for it: writing the four bytes of
  actuator \<open>k\<close> succeeds and changes the bytes from \<open>4 k\<close> on of the output data, but the connect request
  announced the offset \<open>5 k\<close>, because every actuator is followed by its status byte there. Only the first
  actuator is reached.\<close>

theorem output_misses_announced_offset:
  assumes "pc_ar_manager ctrl = Some m" and "ar_manager_get_ar (Some m) (Some name) = Some i" and "ar = mg_ars m ! i"
    and "ar_state ar = AR_STATE_RUN" and "known_layout ar" and "data_iocr IOCR_TYPE_OUTPUT ar = Some j"
    and "io_data_buffer (ar_iocr ar ! j) = Some buf" and "distinct (map si_slot (data_slots SLOT_TYPE_ACTUATOR ar))"
    and "k < length (data_slots SLOT_TYPE_ACTUATOR ar)" and "4 * k + 4 \<le> unat (io_data_length (ar_iocr ar ! j))"
    and "4 * k < 65536"
  shows "\<exists>ctrl' offset. profinet_controller_write_output (Some ctrl) (Some name)
        (uint (si_slot (data_slots SLOT_TYPE_ACTUATOR ar ! k))) (Some bytes) 4 = (WTC_OK, Some ctrl') \<and>
      io_data_buffer (ar_iocr (mg_ars (the (pc_ar_manager ctrl')) ! i) ! j) = Some (memcpy_at buf (4 * k) (take 4 bytes)) \<and>
      fst (snd (snd (announced False m ar ! k))) = offset \<and> fst (announced False m ar ! k) = si_slot (data_slots SLOT_TYPE_ACTUATOR ar ! k) \<and>
      (offset = 4 * k \<longleftrightarrow> k = 0)"
proof -
  obtain off where off: "slot_offset SLOT_TYPE_ACTUATOR GSDML_OUTPUT_DATA_SIZE
      (word_of_int (uint (si_slot (data_slots SLOT_TYPE_ACTUATOR ar ! k)))) 0 (ar_slot_info ar) = Some off" "unat off = 4 * k"
    using unat_slot_offset [OF assms(9, 8), of GSDML_OUTPUT_DATA_SIZE] assms(11) by (auto simp: gsdml_sizes mult.commute)
  obtain sub where ann: "announced False m ar ! k = (si_slot (data_slots SLOT_TYPE_ACTUATOR ar ! k), sub, 5 * k, 4)"
    using announced_layout(4) [OF assms(5, 9)] by blast
  have i: "i < length (mg_ars m)" using assms(2) by (auto simp: ar_manager_get_ar_def dest: find_pos_SomeD)
  have j: "j < length (ar_iocr ar)" using assms(6) by (auto simp: data_iocr_def dest: find_pos_SomeD)
  have "profinet_controller_write_output (Some ctrl) (Some name) (uint (si_slot (data_slots SLOT_TYPE_ACTUATOR ar ! k))) (Some bytes) 4 =
      (WTC_OK, Some (ctrl\<lparr>pc_ar_manager := Some (set_ar i (set_iocr j (\<lambda>c. c\<lparr>io_data_buffer :=
        map_option (\<lambda>b. memcpy_at b (unat off) (take 4 bytes)) (io_data_buffer c)\<rparr>) ar) m)\<rparr>))"
    using assms(1-4, 6, 10) off
    by (simp only: profinet_controller_write_output_def on_handle_simps) (simp add: gsdml_sizes)
  then show ?thesis using i j assms(7) off(2) ann by (simp add: set_ar_def set_iocr_def)
qed

text \<open>Reading an input by its slot does not give what the device sent for it: the call returns the five
  bytes from \<open>5 k\<close> on of the input data for sensor \<open>k\<close> with a good status, while the sensor was announced, and
  is delivered to the data callback, at \<open>3 + 6 k\<close>.\<close>

theorem read_input_misses_announced_offset:
  assumes "pc_ar_manager ctrl = Some m" and "ar_manager_get_ar (Some m) (Some name) = Some i" and "ar = mg_ars m ! i"
    and "ar_state ar = AR_STATE_RUN" and "known_layout ar" and "data_iocr IOCR_TYPE_INPUT ar = Some j"
    and "io_data_buffer (ar_iocr ar ! j) = Some buf" and "distinct (map si_slot (data_slots SLOT_TYPE_SENSOR ar))"
    and "k < length (data_slots SLOT_TYPE_SENSOR ar)" and "5 * k + 5 \<le> unat (io_data_length (ar_iocr ar ! j))"
    and "5 * k < 65536"
  shows "\<exists>offset. profinet_controller_read_input (Some ctrl) (Some name)
        (uint (si_slot (data_slots SLOT_TYPE_SENSOR ar ! k))) True (Some 5) True =
          (WTC_OK, Some (mem_read buf (5 * k) 5), Some IOPS_GOOD) \<and>
      fst (snd (snd (announced True m ar ! k))) = offset \<and> fst (announced True m ar ! k) = si_slot (data_slots SLOT_TYPE_SENSOR ar ! k) \<and>
      offset \<noteq> 5 * k"
proof -
  obtain off where off: "slot_offset SLOT_TYPE_SENSOR GSDML_INPUT_DATA_SIZE
      (word_of_int (uint (si_slot (data_slots SLOT_TYPE_SENSOR ar ! k)))) 0 (ar_slot_info ar) = Some off" "unat off = 5 * k"
    using unat_slot_offset [OF assms(9, 8), of GSDML_INPUT_DATA_SIZE] assms(11) by (auto simp: gsdml_sizes mult.commute)
  obtain sub where ann: "announced True m ar ! k = (si_slot (data_slots SLOT_TYPE_SENSOR ar ! k), sub, 3 + 6 * k, 5)"
    using announced_layout(3) [OF assms(5, 9)] by blast
  have "profinet_controller_read_input (Some ctrl) (Some name) (uint (si_slot (data_slots SLOT_TYPE_SENSOR ar ! k))) True (Some 5) True =
      (WTC_OK, Some (mem_read buf (unat off) 5), Some IOPS_GOOD)"
    using assms(1-4, 6, 7, 10) off by (simp add: profinet_controller_read_input_def gsdml_sizes Let_def)
  then show ?thesis using off(2) ann by simp
qed

lemma sample_data_iocrs:
  "data_iocr IOCR_TYPE_INPUT sample_running = Some 0" "data_iocr IOCR_TYPE_OUTPUT sample_running = Some 1"
  "ar_manager_get_ar (Some sample_ar_manager) (Some ''rtu-1'') = Some 0"
  by (simp_all add: data_iocr_def sample_running_facts sample_iocr_def ar_manager_get_ar_def)

theorem output_misses_announced_offset_witness:
  "\<exists>ctrl'. profinet_controller_write_output (Some (sample_controller sample_ar_manager)) (Some ''rtu-1'') 5 (Some [1, 2, 3, 4]) 4 =
      (WTC_OK, Some ctrl') \<and>
    io_data_buffer (ar_iocr (mg_ars (the (pc_ar_manager ctrl')) ! 0) ! 1) = Some (memcpy_at (replicate 40 0) 8 [1, 2, 3, 4]) \<and>
    fst (snd (snd (announced False sample_ar_manager sample_running ! 2))) \<noteq> 8"
  using output_misses_announced_offset [of "sample_controller sample_ar_manager" sample_ar_manager "''rtu-1''" 0 sample_running 1
      "replicate 40 0" 2 "[1, 2, 3, 4]"] sample_data_iocrs
  by (auto simp: sample_running_facts sample_iocr_def sample_slot_def)

theorem read_input_misses_announced_offset_witness:
  "profinet_controller_read_input (Some (sample_controller sample_ar_manager)) (Some ''rtu-1'') 3 True (Some 5) True =
      (WTC_OK, Some (replicate 5 0), Some IOPS_GOOD) \<and>
    fst (snd (snd (announced True sample_ar_manager sample_running ! 1))) \<noteq> 5"
  using read_input_misses_announced_offset [of "sample_controller sample_ar_manager" sample_ar_manager "''rtu-1''" 0 sample_running 0
      "replicate 40 0" 1] sample_data_iocrs
  by (auto simp: sample_running_facts sample_iocr_def sample_slot_def mem_read_def)

end
