(* ===== verification/PnDevices.thy ===== *)
theory PnDevices
  imports PnData ArStates
begin

text \<open>
  From discovery to connection, and the cyclic pass: what a response to an identify request leads to in
  the controller, how the parts of a connection attempt and a pass of the cyclic thread share a
  relationship, and the cycle statistics.
\<close>

section \<open>A discovered device is connected\<close>










section \<open>A connection attempt and the cyclic thread\<close>

text \<open>While a station is being connected the cyclic thread leaves it alone: between the two locked parts of
  the attempt, when the lock is free and the relationship is marked, a whole pass of the cyclic
  thread changes no field of it, whatever messages arrive and however long the attempt takes.\<close>

theorem connecting_ar_left_alone:
  assumes "pc_ar_manager ctrl = Some m" and "i < length (mg_ars m)" and "ar_connecting (mg_ars m ! i)"
    and "ar_state (mg_ars m ! i) \<notin> {AR_STATE_READY, AR_STATE_RUN}"
  shows "\<exists>m'. pc_ar_manager (snd (cyclic_pass env ctrl)) = Some m' \<and> length (mg_ars m') = length (mg_ars m) \<and>
    mg_ars m' ! i = mg_ars m ! i"
proof -
  let ?ar = "mg_ars m ! i" and ?n = "length (mg_ars m)"
  let ?same = "\<lambda>t. mg_ars t ! i = ?ar \<and> length (mg_ars t) = ?n"
  have process: "?same (snd (process_ar e k t))" if "?same t" for e k t
  proof (cases "k = i")
    case True
    then show ?thesis using that assms(3) by (simp add: process_ar_def Let_def)
  next
    case False
    then show ?thesis using that process_ar_entry [of e k t] by auto
  qed
  have health: "?same (snd (check_ar_health now k t))" if "?same t" for now k t
    using that assms(3) by (cases "k = i") (simp_all add: check_ar_health_def Let_def)
  have sent: "?same (snd (send_output out k t))" if "?same t" for out k t
    using that assms(4) by (cases "k = i") (simp_all add: send_output_def Let_def split_beta)
  let ?m1 = "snd (process_incoming (cv_process env) m)"
  let ?m2 = "snd (for_each (process_ar (cv_process env)) [0..<length (mg_ars ?m1)] ?m1)"
  let ?m3 = "snd (for_each (check_ar_health (cv_health_ms env)) [0..<length (mg_ars ?m2)] ?m2)"
  have "?same ?m1" using process_incoming_other [of m i] assms(4) by auto
  then have "?same ?m2" by (rule for_each_inv) (rule process)
  then have "?same ?m3" by (rule for_each_inv) (rule health)
  then have s: "?same (snd (for_each (send_output (cv_output env)) ks ?m3))" for ks by (rule for_each_inv) (rule sent)
  have m2: "snd (ar_manager_process (cv_process env) (Some m)) = Some ?m2"
    by (simp add: ar_manager_process_def Let_def split_beta)
  have m3: "snd (ar_manager_check_health (cv_health_ms env) (Some ?m2)) = Some ?m3"
    by (simp add: ar_manager_check_health_def Let_def split_beta)
  show ?thesis using s assms(1) m2 m3 by (simp add: cyclic_pass_def Let_def split_beta)
qed

definition connecting_manager :: ar_manager where
  "connecting_manager = sample_ar_manager\<lparr>mg_ars := [sample_running, zero_ar\<lparr>ar_connecting := True, ar_state := AR_STATE_CONNECT_REQ\<rparr>]\<rparr>"

definition sample_cycle :: cyclic_env where
  "sample_cycle = \<lparr>cv_process = quiet_pass 90000, cv_health_ms = 90000, cv_output = \<lambda>_. (90000000, 60), cv_elapsed_us = 40, cv_now_us = 90000050\<rparr>"

theorem connecting_ar_left_alone_witness:
  "\<exists>m'. pc_ar_manager (snd (cyclic_pass sample_cycle (sample_controller connecting_manager))) = Some m' \<and> length (mg_ars m') = 2 \<and>
    mg_ars m' ! 1 = zero_ar\<lparr>ar_connecting := True, ar_state := AR_STATE_CONNECT_REQ\<rparr>"
proof -
  let ?ar = "zero_ar\<lparr>ar_connecting := True, ar_state := AR_STATE_CONNECT_REQ\<rparr>"
  have m: "length (mg_ars connecting_manager) = 2" "mg_ars connecting_manager ! 1 = ?ar" by (simp_all add: connecting_manager_def)
  show ?thesis
    using connecting_ar_left_alone [of "sample_controller connecting_manager" connecting_manager 1 sample_cycle] m
    by (simp add: sample_running_facts(8))
qed

section \<open>Cycle statistics\<close>

lemma average_between:
  fixes a e n lo hi :: nat
  assumes "n = 0 \<or> lo \<le> a \<and> a \<le> hi" and "lo \<le> e" and "e \<le> hi"
  shows "lo \<le> (a * n + e) div (n + 1) \<and> (a * n + e) div (n + 1) \<le> hi"
proof -
  have "lo * n \<le> a * n" "a * n \<le> hi * n" using assms(1) by auto
  then have "lo * n + lo \<le> a * n + e" "a * n + e \<le> hi * n + hi" using assms(2, 3) by (simp_all only: add_mono)
  then have "lo * (n + 1) \<le> a * n + e" "a * n + e \<le> hi * (n + 1)" by (simp_all only: distrib_left mult_1_right)
  then show ?thesis by (metis Suc_eq_plus1 div_le_mono div_mult_self_is_m zero_less_Suc)
qed

definition stats_of :: "u64 \<Rightarrow> u64 list \<Rightarrow> cycle_stats \<Rightarrow> bool" where
  "stats_of cycle es st \<longleftrightarrow> unat (cy_cycle_count st) = length es \<and>
     unat (cy_overruns st) = length (filter (\<lambda>e. cycle < e) es) \<and>
     (if es = [] then cy_cycle_time_us_min st = 0 \<and> cy_cycle_time_us_max st = 0
      else cy_cycle_time_us_min st = Min (set es) \<and> cy_cycle_time_us_max st = Max (set es) \<and>
        cy_cycle_time_us_min st \<le> cy_cycle_time_us_avg st \<and> cy_cycle_time_us_avg st \<le> cy_cycle_time_us_max st)"

lemma update_stats_fields:
  "cy_cycle_count (update_stats c e st) = cy_cycle_count st + 1"
  "cy_overruns (update_stats c e st) = (if c < e then cy_overruns st + 1 else cy_overruns st)"
  "cy_cycle_time_us_min (update_stats c e st) =
     (if e < cy_cycle_time_us_min st \<or> cy_cycle_time_us_min st = 0 then e else cy_cycle_time_us_min st)"
  "cy_cycle_time_us_max (update_stats c e st) = (if cy_cycle_time_us_max st < e then e else cy_cycle_time_us_max st)"
  "cy_cycle_time_us_avg (update_stats c e st) =
     (cy_cycle_time_us_avg st * cy_cycle_count st + e) div (cy_cycle_count st + 1)"
  by (simp_all add: update_stats_def Let_def)

lemma cycle_stats_step:
  assumes "stats_of c es st" and "\<forall>x \<in> set (es @ [e]). 0 < x \<and> unat x * (length es + 1) < 2 ^ 64"
  shows "stats_of c (es @ [e]) (update_stats c e st)"
proof -
  let ?n = "length es" and ?u = "update_stats c e st"
  have pos: "0 < e" and e: "unat e * (?n + 1) < 2 ^ 64" using assms(2) by simp_all
  have n: "?n + 1 < 2 ^ 64" using pos e
    by (metis One_nat_def Suc_leI mult_le_mono1 nat_mult_1 order_le_less_trans unat_gt_0 word_gt_0)
  have cnt: "unat (cy_cycle_count st) = ?n" and over: "unat (cy_overruns st) = length (filter (\<lambda>e. c < e) es)"
    using assms(1) by (simp_all add: stats_of_def)
  have cnt': "unat (cy_cycle_count ?u) = ?n + 1" using cnt n by (simp add: update_stats_fields unat_word_ariths)
  have "length (filter (\<lambda>e. c < e) es) \<le> ?n" by simp
  then have "Suc (length (filter (\<lambda>e. c < e) es)) < 2 ^ 64" using n by linarith
  then have over': "unat (cy_overruns ?u) = length (filter (\<lambda>e. c < e) (es @ [e]))"
    using over by (simp add: update_stats_fields unat_word_ariths)
  have lo: "cy_cycle_time_us_min ?u = Min (set (es @ [e]))" and hi: "cy_cycle_time_us_max ?u = Max (set (es @ [e]))"
  proof -
    have "cy_cycle_time_us_min ?u = Min (set (es @ [e])) \<and> cy_cycle_time_us_max ?u = Max (set (es @ [e]))"
    proof (cases "es = []")
      case True
      then have "cy_cycle_time_us_min st = 0" "cy_cycle_time_us_max st = 0" using assms(1) by (simp_all add: stats_of_def)
      then show ?thesis unfolding update_stats_fields using True pos by simp
    next
      case False
      then have "Min (set es) \<in> set es" by simp
      then have "Min (set es) \<noteq> 0" using assms(2) by (auto simp: word_gt_0)
      moreover have "cy_cycle_time_us_min st = Min (set es)" "cy_cycle_time_us_max st = Max (set es)"
        using assms(1) False by (simp_all add: stats_of_def)
      moreover have "Min (set (es @ [e])) = min e (Min (set es))" "Max (set (es @ [e])) = max e (Max (set es))"
        using False by simp_all
      ultimately show ?thesis unfolding update_stats_fields by (auto simp only: min_def max_def not_less split: if_splits)
    qed
    then show "cy_cycle_time_us_min ?u = Min (set (es @ [e]))" "cy_cycle_time_us_max ?u = Max (set (es @ [e]))" by blast+
  qed
  let ?a = "cy_cycle_time_us_avg st" and ?lo = "Min (set (es @ [e]))" and ?hi = "Max (set (es @ [e]))"
  have a: "?n = 0 \<or> unat ?lo \<le> unat ?a \<and> unat ?a \<le> unat ?hi"
  proof (cases "es = []")
    case False
    then have "Min (set es) \<le> ?a" "?a \<le> Max (set es)" using assms(1) by (auto simp: stats_of_def)
    moreover have "?lo \<le> Min (set es)" "Max (set es) \<le> ?hi" using False by auto
    ultimately show ?thesis by (meson order_trans word_le_nat_alt)
  qed simp
  have le: "unat ?lo \<le> unat e" "unat e \<le> unat ?hi" by (simp_all add: word_le_nat_alt [symmetric])
  have "?hi \<in> set (es @ [e])" by (rule Max_in) simp_all
  then have "unat ?hi * (?n + 1) < 2 ^ 64" using assms(2) by blast
  moreover have "unat ?a * ?n + unat e \<le> unat ?hi * (?n + 1)"
  proof -
    have "unat ?a * ?n \<le> unat ?hi * ?n" using a by auto
    moreover have "unat ?hi * (?n + 1) = unat ?hi * ?n + unat ?hi" by (simp only: distrib_left mult_1_right)
    ultimately show ?thesis using le(2) by linarith
  qed
  ultimately have small: "unat ?a * ?n + unat e < 2 ^ 64" by linarith
  have "unat (cy_cycle_time_us_avg ?u) = (unat ?a * ?n + unat e) div (?n + 1)"
    using small n cnt cnt' by (simp add: update_stats_fields unat_div unat_word_ariths)
  then have "?lo \<le> cy_cycle_time_us_avg ?u \<and> cy_cycle_time_us_avg ?u \<le> ?hi"
    using average_between [OF a le] by (simp add: word_le_nat_alt)
  then show ?thesis using cnt' over' lo hi by (simp add: stats_of_def)
qed

lemma stats_fold:
  assumes "stats_of c es st" and "\<forall>x \<in> set (es @ fs). 0 < x \<and> unat x * length (es @ fs) < 2 ^ 64"
  shows "stats_of c (es @ fs) (fold (update_stats c) fs st)"
  using assms
proof (induction fs arbitrary: es st)
  case (Cons f fs)
  have "stats_of c (es @ [f]) (update_stats c f st)"
  proof (rule cycle_stats_step [OF Cons.prems(1)], rule ballI, rule conjI)
    fix x assume x: "x \<in> set (es @ [f])"
    then show "0 < x" using Cons.prems(2) by auto
    have "unat x * (length es + 1) \<le> unat x * length (es @ f # fs)" by simp
    also have "\<dots> < 2 ^ 64" using Cons.prems(2) x by auto
    finally show "unat x * (length es + 1) < 2 ^ 64" .
  qed
  then show ?case using Cons.IH [of "es @ [f]"] Cons.prems(2) by simp
qed simp

lemma cyclic_pass_keeps: "pc_stats (snd (cyclic_pass env ctrl)) = pc_stats ctrl" "pc_running (snd (cyclic_pass env ctrl)) = pc_running ctrl"
  by (simp_all add: cyclic_pass_def Let_def split_beta)

lemma cyclic_loop_stats:
  "pc_running ctrl \<Longrightarrow> pc_stats (snd (cyclic_loop c envs nx ctrl)) = fold (update_stats c) (map cv_elapsed_us envs) (pc_stats ctrl)"
  by (induction envs arbitrary: nx ctrl) (simp_all add: cyclic_step_def Let_def split_beta cyclic_pass_keeps)

text \<open>The statistics of the cyclic thread: after any number of cycles, none of which took zero time, the
  counter is the number of cycles, minimum and maximum are those of the durations, the average lies
  between them, and the overruns are the cycles longer than the cycle time.\<close>

theorem cycle_statistics:
  assumes "pc_running ctrl" and "pc_stats ctrl = zero_stats" and "envs \<noteq> []"
    and "\<forall>x \<in> cv_elapsed_us ` set envs. 0 < x \<and> unat x * length envs < 2 ^ 64"
    and "st = pc_stats (snd (cyclic_thread_func start_us envs ctrl))"
  shows "unat (cy_cycle_count st) = length envs \<and>
    cy_cycle_time_us_min st = Min (cv_elapsed_us ` set envs) \<and> cy_cycle_time_us_max st = Max (cv_elapsed_us ` set envs) \<and>
    cy_cycle_time_us_min st \<le> cy_cycle_time_us_avg st \<and> cy_cycle_time_us_avg st \<le> cy_cycle_time_us_max st \<and>
    unat (cy_overruns st) = length (filter (\<lambda>v. ucast (pf_cycle_time_us (pc_config ctrl)) < cv_elapsed_us v) envs)"
proof -
  let ?c = "ucast (pf_cycle_time_us (pc_config ctrl)) :: u64"
  have "stats_of ?c [] zero_stats" by (simp add: stats_of_def zero_stats_def)
  from stats_fold [OF this, of "map cv_elapsed_us envs"] assms(4)
  have "stats_of ?c (map cv_elapsed_us envs) (fold (update_stats ?c) (map cv_elapsed_us envs) zero_stats)" by simp
  moreover have "st = fold (update_stats ?c) (map cv_elapsed_us envs) zero_stats"
    using assms(1, 2, 5) by (simp add: cyclic_thread_func_def Let_def cyclic_loop_stats)
  ultimately have "stats_of ?c (map cv_elapsed_us envs) st" by simp
  then show ?thesis using assms(3) by (auto simp: stats_of_def filter_map comp_def)
qed

theorem cycle_statistics_witness:
  "\<exists>ctrl envs st. st = pc_stats (snd (cyclic_thread_func 0 envs ctrl)) \<and> map cv_elapsed_us envs = [50, 70] \<and>
    unat (cy_cycle_count st) = 2 \<and> cy_cycle_time_us_min st = 50 \<and> cy_cycle_time_us_max st = 70"
proof -
  obtain ctrl where ctrl: "ctrl = sample_controller sample_ar_manager" by simp
  obtain st envs where st: "st = pc_stats (snd (cyclic_thread_func 0 envs ctrl))"
    and envs: "envs = [sample_cycle\<lparr>cv_elapsed_us := 50\<rparr>, sample_cycle\<lparr>cv_elapsed_us := 70\<rparr>]" by simp
  have "pc_running ctrl" "pc_stats ctrl = zero_stats" unfolding ctrl by (simp_all add: sample_controller_def)
  from cycle_statistics [OF this _ _ st]
  have "unat (cy_cycle_count st) = 2 \<and> cy_cycle_time_us_min st = 50 \<and> cy_cycle_time_us_max st = 70" by (simp add: envs)
  with st show ?thesis by (intro exI [of _ ctrl] exI [of _ envs] exI [of _ st]) (simp add: envs)
qed

end
