(* ===== verification/Spec2Isabelle.thy ===== *)
theory Spec2Isabelle
  imports Prelude Float32 Crc Types Buffer Registry Control ControlScan PidLoop Interlocks Sequence Frame Authority Failover Alarms AlarmRules ModbusPdu ModbusLink RegisterMap Gateway Cyclic PnRpc ArManager ArStates Dcp PnController PnData PnDevices
begin

text \<open>
  A verification library for the water-treatment controller of this repository: a C program that
  talks PROFINET to remote terminal units (RTUs), runs control loops, interlocks, sequences and alarms
  over their sensors and actuators, and exposes the plant over Modbus and to a web interface. All paths
  below are relative to \<^verbatim>\<open>src\<close>.

  \<^bold>\<open>The program.\<close> The registry (\<^verbatim>\<open>src/registry\<close>) holds one entry per RTU with its slots, the last sensor
  readings and the commanded actuator outputs. The PROFINET controller (\<^verbatim>\<open>src/profinet\<close>) finds the
  devices by DCP, sets up an application relationship (AR) with each by remote procedure calls, and then
  exchanges cyclic frames: a receive thread hands the inputs to the application, which stores them in the
  registry, and a cyclic thread advances the ARs and sends the outputs. The control engine
  (\<^verbatim>\<open>src/control\<close>) scans the registry periodically, first the interlocks, then the PID loops; the
  sequence engine drives actuators step by step; the alarm manager (\<^verbatim>\<open>src/alarms\<close>) evaluates rules over
  the readings. The Modbus gateway (\<^verbatim>\<open>src/modbus\<close>) answers requests over TCP and serial lines by looking
  registers up in a map to the registry and the control engine, and polls downstream devices. Authority
  and failover (\<^verbatim>\<open>src/coordination\<close>) decide which controller may command a station and which backup
  replaces it. All of them share the helpers of \<^verbatim>\<open>src/utils\<close> and the types of \<^verbatim>\<open>src/types.h\<close>.

  \<^bold>\<open>How the code is translated.\<close> A C struct is a record, an enum a datatype, an array with a count the list
  of its live elements, a nullable pointer an option, a fixed-width integer a word of that width,
  \<^verbatim>\<open>int\<close> an integer, \<^verbatim>\<open>size_t\<close> a natural number (with the wrap-around written out where the code can
  reach it), a \<^verbatim>\<open>float\<close> its IEEE bit pattern. A function that changes a structure takes it and returns
  the new one; \<open>on_handle\<close> is the NULL check every entry point starts with. Output parameters become
  results, and an argument says whether the pointer was NULL. Clock readings, outcomes of allocations
  and system calls, values the C standard leaves undefined and the memory behind a buffer are
  arguments, so every theorem holds for all of them. Callbacks are returned as lists of events in the
  order in which they are called. Where the code keeps pointers to objects that can be freed (the
  clients of the gateway), the objects live in a store from addresses to contexts.

  \<^bold>\<open>Threads and locks.\<close> A call is one step of the model, and mutexes are not part of the state. This is
  what the code guarantees where a call holds the lock of its component from its first access to its
  last, as most calls of the registry, the control engine, the alarm and authority managers and the
  register map do, and as the threads of the control engine and the alarm manager do around a pass. It
  is an assumption in these places:
  \<^item> \<^verbatim>\<open>control_engine_process\<close> and \<^verbatim>\<open>alarm_manager_process\<close> themselves take no lock; only their threads
    do. A pass of either reads and writes the registry under the lock of the registry access by access,
    so other threads may act in between.
  \<^item> The sequence engine, the alarm rules engine and failover have no lock.
  \<^item> \<^verbatim>\<open>rtu_registry_load_topology\<close> and the loader of the register map take the lock entry by entry.
  \<^item> \<^verbatim>\<open>ar_manager_process\<close> takes its lock once per incoming request and once for the pass over the
    relationships, and releases it in the pass around a release exchange and around discovery. Apart from
    creating and deleting, the other functions of \<^verbatim>\<open>ar_manager.c\<close>, among them \<^verbatim>\<open>ar_manager_check_health\<close> and
    \<^verbatim>\<open>ar_handle_rt_frame\<close>, take none; the controller calls them under its own lock.
  \<^item> The gateway does not hold its lock while it answers a request, where it only counts under it, nor
    while it connects to or polls a downstream device.
  \<^item> The functions of \<^verbatim>\<open>dcp_discovery.c\<close> that send take the transaction number outside the lock.
  \<^item> \<^verbatim>\<open>profinet_controller_connect\<close> releases the lock of the controller during the exchange with the device.
    Its three parts are separate definitions, and a theorem shows that a pass of the cyclic thread
    between them leaves the relationship alone. The record functions release it during their exchange.
  The one loop whose locking decides its behaviour, the TCP server, is modelled with its mutex.

  \<^bold>\<open>The theories.\<close>
  \<^item> \<^verbatim>\<open>Prelude\<close>: handles, loops with events, first-match updates of arrays, memory blocks, big-endian
    fields, C strings, number formatting and sequences of calls. The locale \<open>guarded_simulation\<close> turns a
    simulation of one call that satisfies a condition into one for every sequence of such calls, and
    its instance \<open>call_simulation\<close> has no condition; the refinements of the buffers and of the frame
    parser are interpretations of them.
  \<^item> \<^verbatim>\<open>Float32\<close>: IEEE single precision with exact rounding, the comparisons, and the conversions to and
    from integers.
  \<^item> \<^verbatim>\<open>Crc\<close>: the three table-driven checksums of \<^verbatim>\<open>src/utils/crc.c\<close> and \<^verbatim>\<open>src/modbus/modbus_common.c\<close>,
    equal to their polynomial definitions through the locale \<open>reflected_crc\<close>, and the one wrong entry of
    the CRC-32 table.
  \<^item> \<^verbatim>\<open>Types\<close>: the enums and structs of \<^verbatim>\<open>src/types.h\<close>.
  \<^item> \<^verbatim>\<open>Buffer\<close>: the circular and the byte buffer of \<^verbatim>\<open>src/utils/buffer.c\<close>; they refine a bounded queue and
    a byte stream. The locale \<open>bounded_window\<close> (the last so many of what was put in) is interpreted here
    for the circular buffer and in \<^verbatim>\<open>Alarms\<close> for the alarm history.
  \<^item> \<^verbatim>\<open>Registry\<close>: \<^verbatim>\<open>src/registry/rtu_registry.c\<close> and \<^verbatim>\<open>slot_manager.c\<close>; the invariant of the device table,
    read-after-write, and the JSON export. The locale \<open>actuator_store\<close> is the view of the registry that
    the control engine relies on.
  \<^item> \<^verbatim>\<open>Control\<close> and \<^verbatim>\<open>ControlScan\<close>: \<^verbatim>\<open>src/control/control_engine.c\<close>; PID arithmetic and limits, and the effect of
    a scan on the registry as a list of writes, from which the safety properties of interlocks follow.
  \<^item> \<^verbatim>\<open>PidLoop\<close> and \<^verbatim>\<open>Interlocks\<close>: \<^verbatim>\<open>src/control/pid_loop.c\<close> and \<^verbatim>\<open>interlock_manager.c\<close>, the libraries of
    standard loops and interlocks.
  \<^item> \<^verbatim>\<open>Sequence\<close>: \<^verbatim>\<open>src/control/sequence_engine.c\<close>; its state machine, index safety, and that sequences end.
  \<^item> \<^verbatim>\<open>Authority\<close> and \<^verbatim>\<open>Failover\<close>: the two managers of \<^verbatim>\<open>src/coordination\<close>; who may command a station, and
    when a backup takes over.
  \<^item> \<^verbatim>\<open>Alarms\<close> and \<^verbatim>\<open>AlarmRules\<close>: \<^verbatim>\<open>src/alarms\<close>; alarms are raised after their delay, never lost before they
    are acknowledged, and recorded in the history.
  \<^item> \<^verbatim>\<open>ModbusPdu\<close> and \<^verbatim>\<open>ModbusLink\<close>: \<^verbatim>\<open>modbus_common.c\<close>, \<^verbatim>\<open>modbus_tcp.c\<close> and \<^verbatim>\<open>modbus_rtu.c\<close> of \<^verbatim>\<open>src/modbus\<close>;
    requests, responses and frames, what a receiver recovers from a line, the transactions of a client,
    and the loop of the TCP server with its locking.
  \<^item> \<^verbatim>\<open>RegisterMap\<close> and \<^verbatim>\<open>Gateway\<close>: \<^verbatim>\<open>register_map.c\<close> and \<^verbatim>\<open>modbus_gateway.c\<close>; the map and its file, and the
    server over the plant: what a request may change, that responses are well formed, that a written
    value reads back, and the store of downstream contexts.
  \<^item> \<^verbatim>\<open>Frame\<close>: \<^verbatim>\<open>src/profinet/profinet_frame.c\<close>; the parser refines a consumer of bytes, the builder stays in
    its buffer, and what is built is parsed back.
  \<^item> \<^verbatim>\<open>Cyclic\<close>, \<^verbatim>\<open>PnRpc\<close>, \<^verbatim>\<open>ArManager\<close> and \<^verbatim>\<open>ArStates\<close>: \<^verbatim>\<open>cyclic_exchange.c\<close>, \<^verbatim>\<open>profinet_rpc.c\<close>,
    \<^verbatim>\<open>rpc_strategy.c\<close>, \<^verbatim>\<open>gsdml_modules.h\<close>, \<^verbatim>\<open>profinet_identity.h\<close> and \<^verbatim>\<open>ar_manager.c\<close>; the buffers of an AR, the
    requests and responses that set it up with the exact bytes they store and read, and the life of an
    AR over sequences of calls: when it may run, that a ready device runs, that a silent one is given up.
  \<^item> \<^verbatim>\<open>Dcp\<close> and \<^verbatim>\<open>PnController\<close>: \<^verbatim>\<open>dcp_discovery.c\<close> and \<^verbatim>\<open>profinet_controller.c\<close>; the cache of discovered
    devices, the passes of the two threads, connecting, and access to inputs, outputs and records.
    \<^verbatim>\<open>PnData\<close> follows the process data through the frames, and \<^verbatim>\<open>PnDevices\<close> a device from discovery to
    connection.

  \<^bold>\<open>Termination and bounds.\<close> Every definition is total. Loops over arrays are recursions over lists or
  \<open>for_each\<close>; the loops that walk through bytes (the loaders of the topology and of the register map, the
  blocks of a DCP frame and of a connect response, the padding of a frame) recurse on what is left, each
  with its termination proof. The loop of the TCP server over its connections returns an option whose
  value \<open>None\<close> is a thread that waits for ever. The receive and the cyclic thread are recursions over the list
  of what the outside world gives them, one element per pass; of the other threads the model has one
  pass. So no fuel is chosen anywhere, and all capacities are the constants of the code.

  \<^bold>\<open>Not modelled.\<close> Logging, the release of memory, socket and terminal options and sleeps have no effect on
  the modelled state. The parts below \<^verbatim>\<open>src\<close> that are left out are \<^verbatim>\<open>main.c\<close>, \<^verbatim>\<open>modbus_gateway_main.c\<close> and the IPC
  server, which start the components and pass calls on; the database, configuration files, the
  historian and the GSDML cache, whose work is I/O on a database, files or HTTP (what the cache returns to the
  AR manager is an argument); configuration and user synchronisation, load balancing, cascade control,
  coordination and state reconciliation, component health, the simulator, the logger and the clock
  functions; the generated headers; and the code under \<^verbatim>\<open>shared\<close>, which runs on the RTUs or is shared
  with them.
\<close>

end
